(* ===== verification/Gatus_Prelude.thy ===== *)
theory Gatus_Prelude
  imports Main "HOL-Library.Sublist" "HOL-Library.Signed_Division"
    "HOL-Library.Char_ord" "HOL-Library.List_Lexorder" "HOL-Library.Code_Target_Numeral"
begin

text \<open>
  What every other theory of the development rests on: the named collections of rewrite rules,
  the Go machine integers, the parts of the Go packages \<open>strings\<close> and \<open>strconv\<close>
  that the program calls, and lemmas on lists that several components share.

  A Go string is a sequence of bytes, so it is a \<open>string\<close> (a list of 8-bit characters)
  here. Case mapping and trimming of blanks are those of ASCII text; a byte above 127 is left as it
  is, where Go decodes UTF-8 first.
\<close>

named_theorems go_string \<open>facts on the Go string functions\<close>
named_theorems go_int \<open>facts on the Go integers\<close>

section \<open>Integers\<close>

text \<open>
  Go's \<open>int\<close>, \<open>int64\<close> and \<open>time.Duration\<close> are 64 bits wide and wrap around;
  \<open>uint64\<close> too. Where an operation of the source can leave the range, its model says so by
  wrapping the result with one of the following.
\<close>

definition max_int64 :: int where "max_int64 = 2 ^ 63 - 1"

definition min_int64 :: int where "min_int64 = - (2 ^ 63)"

definition wrap64 :: "int \<Rightarrow> int" where
  "wrap64 x = (x + 2 ^ 63) mod 2 ^ 64 - 2 ^ 63"

definition uwrap64 :: "int \<Rightarrow> int" where
  "uwrap64 x = x mod 2 ^ 64"

definition in_int64 :: "int \<Rightarrow> bool" where
  "in_int64 x \<longleftrightarrow> min_int64 \<le> x \<and> x \<le> max_int64"

lemma wrap64_id [go_int]: "in_int64 x \<Longrightarrow> wrap64 x = x"
  by (simp add: in_int64_def min_int64_def max_int64_def wrap64_def)

lemma wrap64_range [go_int]: "in_int64 (wrap64 x)"
proof -
  have "0 \<le> (x + 2 ^ 63) mod 2 ^ 64" and "(x + 2 ^ 63) mod 2 ^ 64 < 2 ^ 64" by simp_all
  then show ?thesis
    by (simp add: in_int64_def min_int64_def max_int64_def wrap64_def)
qed

lemma wrap64_above [go_int]:
  assumes "2 ^ 63 \<le> x" and "x < 2 ^ 63 + 2 ^ 64"
  shows "wrap64 x = x - 2 ^ 64"
proof -
  have "(x + 2 ^ 63) mod 2 ^ 64 = (x + 2 ^ 63 - 2 ^ 64) mod 2 ^ 64"
    by (rule minus_mod_self2 [symmetric])
  also have "\<dots> = x + 2 ^ 63 - 2 ^ 64" using assms by simp
  finally show ?thesis by (simp add: wrap64_def)
qed

lemma uwrap64_range [go_int]: "0 \<le> uwrap64 x" "uwrap64 x < 2 ^ 64"
  by (simp_all add: uwrap64_def)

section \<open>Strings\<close>

definition ascii_upper_to_lower :: "char \<Rightarrow> char" where
  "ascii_upper_to_lower c =
     (let n = of_char c :: nat in if 65 \<le> n \<and> n \<le> 90 then char_of (n + 32) else c)"

definition ascii_lower_to_upper :: "char \<Rightarrow> char" where
  "ascii_lower_to_upper c =
     (let n = of_char c :: nat in if 97 \<le> n \<and> n \<le> 122 then char_of (n - 32) else c)"

definition ToLower :: "string \<Rightarrow> string" where
  "ToLower s = map ascii_upper_to_lower s"

definition ToUpper :: "string \<Rightarrow> string" where
  "ToUpper s = map ascii_lower_to_upper s"

definition EqualFold :: "string \<Rightarrow> string \<Rightarrow> bool" where
  "EqualFold s t \<longleftrightarrow> ToLower s = ToLower t"

definition is_space :: "char \<Rightarrow> bool" where
  "is_space c \<longleftrightarrow> c \<in> {CHR 0x09, CHR 0x0A, CHR 0x0B, CHR 0x0C, CHR 0x0D, CHR '' ''}"

definition TrimSpace :: "string \<Rightarrow> string" where
  "TrimSpace s = rev (dropWhile is_space (rev (dropWhile is_space s)))"

definition HasPrefix :: "string \<Rightarrow> string \<Rightarrow> bool" where
  "HasPrefix s p \<longleftrightarrow> prefix p s"

definition HasSuffix :: "string \<Rightarrow> string \<Rightarrow> bool" where
  "HasSuffix s p \<longleftrightarrow> prefix (rev p) (rev s)"

definition TrimPrefix :: "string \<Rightarrow> string \<Rightarrow> string" where
  "TrimPrefix s p = (if HasPrefix s p then drop (length p) s else s)"

definition TrimSuffix :: "string \<Rightarrow> string \<Rightarrow> string" where
  "TrimSuffix s p = (if HasSuffix s p then take (length s - length p) s else s)"

definition Contains :: "string \<Rightarrow> string \<Rightarrow> bool" where
  "Contains s p \<longleftrightarrow> sublist p s"

definition ContainsAny :: "string \<Rightarrow> string \<Rightarrow> bool" where
  "ContainsAny s cs \<longleftrightarrow> list_ex (\<lambda>c. c \<in> set cs) s"

text \<open>The text before and after the first occurrence of \<open>sep\<close>, as \<open>strings.Cut\<close>.\<close>

fun Cut :: "string \<Rightarrow> string \<Rightarrow> (string \<times> string) option" where
  "Cut sep [] = (if sep = [] then Some ([], []) else None)"
| "Cut sep (c # s) =
     (if prefix sep (c # s) then Some ([], drop (length sep) (c # s))
      else map_option (\<lambda>(b, a). (c # b, a)) (Cut sep s))"

lemma Cut_eq [go_string]: "Cut sep s = Some (b, a) \<Longrightarrow> s = b @ sep @ a"
proof (induction s arbitrary: b)
  case Nil
  then show ?case by (simp split: if_splits)
next
  case (Cons c s)
  then show ?case
    by (cases "prefix sep (c # s)") (auto simp: prefix_def)
qed

lemma Cut_length: "Cut sep s = Some (b, a) \<Longrightarrow> sep \<noteq> [] \<Longrightarrow> length a < length s"
  by (auto dest: Cut_eq)

lemma Cut_None_iff [go_string]: "Cut sep s = None \<longleftrightarrow> \<not> Contains s sep"
  by (induction s) (auto simp: Contains_def sublist_Cons_right)

text \<open>\<open>strings.Split\<close>; with an empty separator it splits into single characters.\<close>

function Split :: "string \<Rightarrow> string \<Rightarrow> string list" where
  "Split s sep =
     (if sep = [] then map (\<lambda>c. [c]) s
      else case Cut sep s of None \<Rightarrow> [s] | Some (b, a) \<Rightarrow> b # Split a sep)"
  by pat_completeness auto
termination
  by (relation "measure (\<lambda>(s, sep). length s)") (auto dest: Cut_length)

declare Split.simps [simp del]

text \<open>
  \<open>strings.ReplaceAll\<close>: an empty \<open>old\<close> matches before every character and at the end.
\<close>

function ReplaceAll :: "string \<Rightarrow> string \<Rightarrow> string \<Rightarrow> string" where
  "ReplaceAll s old new =
     (if old = [] then new @ concat (map (\<lambda>c. c # new) s)
      else case Cut old s of None \<Rightarrow> s | Some (b, a) \<Rightarrow> b @ new @ ReplaceAll a old new)"
  by pat_completeness auto
termination
  by (relation "measure (\<lambda>(s, old, new). length s)") (auto dest: Cut_length)

declare ReplaceAll.simps [simp del]

text \<open>\<open>strings.Replace(s, old, new, 1)\<close>.\<close>

definition ReplaceFirst :: "string \<Rightarrow> string \<Rightarrow> string \<Rightarrow> string" where
  "ReplaceFirst s old new = (case Cut old s of None \<Rightarrow> s | Some (b, a) \<Rightarrow> b @ new @ a)"

fun Join :: "string list \<Rightarrow> string \<Rightarrow> string" where
  "Join [] sep = []"
| "Join [s] sep = s"
| "Join (s # t # ss) sep = s @ sep @ Join (t # ss) sep"

section \<open>Facts on the string functions\<close>

lemma HasPrefix_append [simp]: "HasPrefix (p @ s) p"
  by (simp add: HasPrefix_def)

lemma HasSuffix_append [simp]: "HasSuffix (s @ p) p"
  by (simp add: HasSuffix_def)

lemma HasPrefixE: "HasPrefix s p \<Longrightarrow> (\<And>t. s = p @ t \<Longrightarrow> P) \<Longrightarrow> P"
  by (auto simp: HasPrefix_def prefix_def)

lemma HasSuffixE: "HasSuffix s p \<Longrightarrow> (\<And>t. s = t @ p \<Longrightarrow> P) \<Longrightarrow> P"
proof (unfold HasSuffix_def prefix_def, elim exE)
  fix zs assume *: "\<And>t. s = t @ p \<Longrightarrow> P" and "rev s = rev p @ zs"
  then have "s = rev zs @ p" by (metis rev_append rev_rev_ident)
  then show P by (rule *)
qed

lemma TrimPrefix_append [simp]: "TrimPrefix (p @ s) p = s"
  by (simp add: TrimPrefix_def)

lemma TrimSuffix_append [simp]: "TrimSuffix (s @ p) p = s"
  by (simp add: TrimSuffix_def)

lemma TrimPrefix_not [simp]: "\<not> HasPrefix s p \<Longrightarrow> TrimPrefix s p = s"
  by (simp add: TrimPrefix_def)

lemma TrimSuffix_not [simp]: "\<not> HasSuffix s p \<Longrightarrow> TrimSuffix s p = s"
  by (simp add: TrimSuffix_def)

lemma Contains_append: "Contains (a @ p @ b) p"
  by (auto simp: Contains_def sublist_def)

lemma Contains_single [go_string]: "Contains s [c] \<longleftrightarrow> c \<in> set s"
  by (induction s) (auto simp: Contains_def sublist_Cons_right)

lemma Contains_set: "Contains s p \<Longrightarrow> set p \<subseteq> set s"
  by (auto simp: Contains_def sublist_def)

lemma Cut_single [go_string]:
  "Cut [c] s = (if c \<in> set s
     then Some (takeWhile (\<lambda>x. x \<noteq> c) s, tl (dropWhile (\<lambda>x. x \<noteq> c) s)) else None)"
  by (induction s) auto

lemma Split_none: "sep \<noteq> [] \<Longrightarrow> \<not> Contains s sep \<Longrightarrow> Split s sep = [s]"
  by (simp add: Split.simps [of s sep] Cut_None_iff [symmetric])

lemma Split_single_none: "c \<notin> set s \<Longrightarrow> Split s [c] = [s]"
  by (simp add: Split_none Contains_single)

lemma Split_single_Cons: "c \<notin> set a \<Longrightarrow> Split (a @ c # b) [c] = a # Split b [c]"
  by (simp add: Split.simps [of "a @ c # b"] Cut_single takeWhile_append dropWhile_append)

lemma Split_ne [simp]: "sep \<noteq> [] \<Longrightarrow> Split s sep \<noteq> []"
  by (subst Split.simps) (auto split: option.splits)

lemma Join_Cons: "ss \<noteq> [] \<Longrightarrow> Join (s # ss) sep = s @ sep @ Join ss sep"
  by (cases ss) auto

lemma Join_Split: "sep \<noteq> [] \<Longrightarrow> Join (Split s sep) sep = s"
proof (induction s sep rule: Split.induct)
  case (1 s sep)
  show ?case
  proof (cases "Cut sep s")
    case None
    with "1.prems" show ?thesis by (simp add: Split.simps [of s])
  next
    case (Some p)
    obtain b a where p: "p = (b, a)" by (cases p)
    with Some "1.prems" have "Join (Split a sep) sep = a" by (intro "1.IH") auto
    with Some p "1.prems" show ?thesis
      by (simp add: Split.simps [of s] Join_Cons Cut_eq [symmetric])
  qed
qed

lemma Split_Join_single:
  "ps \<noteq> [] \<Longrightarrow> (\<And>p. p \<in> set ps \<Longrightarrow> c \<notin> set p) \<Longrightarrow> Split (Join ps [c]) [c] = ps"
proof (induction ps)
  case (Cons p ps)
  show ?case
  proof (cases ps)
    case Nil
    with Cons.prems show ?thesis by (simp add: Split_single_none)
  next
    case (Cons q qs)
    then have "Split (Join (p # ps) [c]) [c] = p # Split (Join ps [c]) [c]"
      using Cons.prems(2) [of p] by (simp add: Split_single_Cons)
    with Cons Cons.IH Cons.prems show ?thesis by simp
  qed
qed simp

lemma ReplaceAll_Cut:
  "old \<noteq> [] \<Longrightarrow> Cut old s = Some (b, a) \<Longrightarrow>
   ReplaceAll s old new = b @ new @ ReplaceAll a old new"
  by (simp add: ReplaceAll.simps [of s])

lemma ReplaceAll_single_Nil: "ReplaceAll [] [a] t = []"
  by (simp add: ReplaceAll.simps)

lemma ReplaceAll_single_Cons:
  "ReplaceAll (c # s) [a] t = (if c = a then t else [c]) @ ReplaceAll s [a] t"
proof (cases "Cut [a] s")
  case None
  then show ?thesis
    by (simp add: ReplaceAll.simps [of "c # s"] ReplaceAll.simps [of s] split: option.splits)
next
  case (Some p)
  then show ?thesis
    by (cases p) (simp add: ReplaceAll.simps [of "c # s"] ReplaceAll.simps [of s]
        split: option.splits)
qed

lemma ReplaceAll_single [go_string]:
  "ReplaceAll s [a] [b] = map (\<lambda>c. if c = a then b else c) s"
  by (induction s) (simp_all add: ReplaceAll_single_Nil ReplaceAll_single_Cons)

lemma ReplaceAll_notin: "old \<noteq> [] \<Longrightarrow> \<not> Contains s old \<Longrightarrow> ReplaceAll s old new = s"
  by (simp add: ReplaceAll.simps [of s] Cut_None_iff [symmetric])

section \<open>Lists\<close>

lemma find_None_iff_all: "find P xs = None \<longleftrightarrow> (\<forall>x \<in> set xs. \<not> P x)"
  by (auto simp: find_None_iff)

lemma find_distinct_key:
  "distinct (map f xs) \<Longrightarrow> x \<in> set xs \<Longrightarrow> find (\<lambda>y. f y = f x) xs = Some x"
  by (induction xs) (auto simp: image_iff)

lemma length_drop_excess: "length (drop (length xs - n) xs) = min n (length xs)"
  by simp

text \<open>The suffix of a list that a slice expression \<open>xs[len(xs)-n:]\<close> keeps.\<close>

definition last_n :: "nat \<Rightarrow> 'a list \<Rightarrow> 'a list" where
  "last_n n xs = drop (length xs - n) xs"

lemma length_last_n [simp]: "length (last_n n xs) = min n (length xs)"
  by (simp add: last_n_def)

lemma last_n_all [simp]: "length xs \<le> n \<Longrightarrow> last_n n xs = xs"
  by (simp add: last_n_def)

lemma last_last_n [simp]: "n > 0 \<Longrightarrow> xs \<noteq> [] \<Longrightarrow> last (last_n n xs) = last xs"
  by (simp add: last_n_def)

lemma last_n_Nil_iff [simp]: "last_n n xs = [] \<longleftrightarrow> n = 0 \<or> xs = []"
  by (cases xs) (auto simp: last_n_def Suc_le_eq)

lemma set_last_n: "set (last_n n xs) \<subseteq> set xs"
  by (simp add: last_n_def set_drop_subset)

lemma sorted_wrt_last_n: "sorted_wrt P xs \<Longrightarrow> sorted_wrt P (last_n n xs)"
  by (simp add: last_n_def sorted_wrt_drop)

section \<open>Panics and steps that can fail\<close>

text \<open>
  A function that may panic returns an outcome. A validation of the source is a sequence of steps
  on an object, each of which may stop it with an error; the object keeps what was done before.
\<close>

datatype 'a outcome = Return 'a | Panic string

type_synonym ('e, 's) step = "'s \<Rightarrow> ('e option \<times> 's) outcome"

fun run_steps :: "('e, 's) step list \<Rightarrow> ('e, 's) step" where
  "run_steps [] s = Return (None, s)"
| "run_steps (f # fs) s =
     (case f s of
        Panic p \<Rightarrow> Panic p
      | Return (Some e, s') \<Rightarrow> Return (Some e, s')
      | Return (None, s') \<Rightarrow> run_steps fs s')"

definition check :: "('s \<Rightarrow> 'e option) \<Rightarrow> ('e, 's) step" where
  "check f s = Return (f s, s)"

definition modify :: "('s \<Rightarrow> 's) \<Rightarrow> ('e, 's) step" where
  "modify f s = Return (None, f s)"

lemma run_steps_append:
  "run_steps (fs @ gs) s =
     (case run_steps fs s of
        Panic p \<Rightarrow> Panic p
      | Return (Some e, s') \<Rightarrow> Return (Some e, s')
      | Return (None, s') \<Rightarrow> run_steps gs s')"
  by (induction fs arbitrary: s) (auto split: outcome.splits option.splits)

lemma run_steps_check [simp]:
  "run_steps (check f # fs) s = (case f s of Some e \<Rightarrow> Return (Some e, s) | None \<Rightarrow> run_steps fs s)"
  by (simp add: check_def split: option.splits)

lemma run_steps_modify [simp]: "run_steps (modify f # fs) s = run_steps fs (f s)"
  by (simp add: modify_def)

lemma check_Return [simp]: "check f s = Return r \<longleftrightarrow> r = (f s, s)"
  by (auto simp: check_def)

lemma modify_Return [simp]: "modify f s = Return r \<longleftrightarrow> r = (None, f s)"
  by (auto simp: modify_def)

lemma run_steps_NoneE:
  assumes "run_steps (f # fs) s = Return (None, s'')"
  obtains s' where "f s = Return (None, s')" and "run_steps fs s' = Return (None, s'')"
  using assms by (auto split: outcome.splits option.splits)

text \<open>The first error that a check finds along a list, changing the elements on the way.\<close>

fun first_error :: "('a \<Rightarrow> 'e option \<times> 'a) \<Rightarrow> 'a list \<Rightarrow> 'e option \<times> 'a list" where
  "first_error f [] = (None, [])"
| "first_error f (x # xs) =
     (case f x of
        (Some e, x') \<Rightarrow> (Some e, x' # xs)
      | (None, x') \<Rightarrow> (case first_error f xs of (err, xs') \<Rightarrow> (err, x' # xs')))"

lemma first_error_length: "first_error f xs = (e, ys) \<Longrightarrow> length ys = length xs"
  by (induction xs arbitrary: ys) (auto split: prod.splits option.splits)

lemma first_error_None:
  "first_error f xs = (None, ys) \<Longrightarrow> list_all2 (\<lambda>x y. f x = (None, y)) xs ys"
  by (induction xs arbitrary: ys) (auto split: prod.splits option.splits)

end
