(* ===== verification/Key.thy ===== *)
theory Key
  imports Gatus_Prelude
begin

text \<open>
  \<open>config/key/key.go\<close>: the key under which an endpoint or a suite is stored and addressed.
  The lemmas show that the single underscore of a key separates the two names it was made from,
  and that a key is its own lower case, which the lookups by key rely on.
\<close>

definition sanitize :: "string \<Rightarrow> string" where
  "sanitize s0 =
     (let s = TrimSpace (ToLower s0);
          s = ReplaceAll s ''/'' ''-'';
          s = ReplaceAll s ''_'' ''-'';
          s = ReplaceAll s ''.'' ''-'';
          s = ReplaceAll s '','' ''-'';
          s = ReplaceAll s '' '' ''-'';
          s = ReplaceAll s ''#'' ''-'';
          s = ReplaceAll s ''+'' ''-'';
          s = ReplaceAll s ''&'' ''-''
      in s)"

definition ConvertGroupAndNameToKey :: "string \<Rightarrow> string \<Rightarrow> string" where
  "ConvertGroupAndNameToKey groupName name = sanitize groupName @ ''_'' @ sanitize name"

definition key_char :: "char \<Rightarrow> char" where
  "key_char c = (if c \<in> set ''/_., #+&'' then CHR ''-'' else c)"

lemma sanitize_eq: "sanitize s = map key_char (TrimSpace (ToLower s))"
  by (simp add: sanitize_def Let_def ReplaceAll_single key_char_def comp_def)

lemma key_char_notin: "key_char c \<notin> set ''/_., #+&''"
  by (simp add: key_char_def)

lemma sanitize_chars: "set (sanitize s) \<inter> set ''/_., #+&'' = {}"
  unfolding sanitize_eq set_map using key_char_notin by blast

lemma underscore_notin_sanitize: "CHR ''_'' \<notin> set (sanitize s)"
  using sanitize_chars [of s] by auto

lemma append_sep_inject:
  "a @ c # b = a' @ c # b' \<Longrightarrow> c \<notin> set a \<Longrightarrow> c \<notin> set a' \<Longrightarrow> a = a' \<and> b = b'"
proof (induction a arbitrary: a')
  case Nil
  then show ?case by (cases a') auto
next
  case (Cons x a)
  then show ?case by (cases a') auto
qed

lemma ConvertGroupAndNameToKey_eq_iff:
  "ConvertGroupAndNameToKey g n = ConvertGroupAndNameToKey g' n' \<longleftrightarrow>
   sanitize g = sanitize g' \<and> sanitize n = sanitize n'"
  using append_sep_inject [of "sanitize g" "CHR ''_''" "sanitize n" "sanitize g'" "sanitize n'"]
  by (auto simp: ConvertGroupAndNameToKey_def underscore_notin_sanitize)

lemma Split_key:
  "Split (ConvertGroupAndNameToKey g n) ''_'' = [sanitize g, sanitize n]"
  by (simp add: ConvertGroupAndNameToKey_def Split_single_Cons Split_single_none
      underscore_notin_sanitize)

section \<open>Keys are in lower case\<close>

lemma ascii_lower_idem [simp]: "ascii_upper_to_lower (ascii_upper_to_lower c) = ascii_upper_to_lower c"
  by (simp add: ascii_upper_to_lower_def Let_def)

lemma ascii_lower_fix_iff:
  "ascii_upper_to_lower c = c \<longleftrightarrow> \<not> (65 \<le> (of_char c :: nat) \<and> (of_char c :: nat) \<le> 90)"
proof -
  have "ascii_upper_to_lower c \<noteq> c" if "65 \<le> (of_char c :: nat)" "(of_char c :: nat) \<le> 90"
  proof
    assume "ascii_upper_to_lower c = c"
    then have "(of_char (char_of (of_char c + 32 :: nat)) :: nat) = of_char c"
      using that by (simp add: ascii_upper_to_lower_def)
    then show False using that by simp
  qed
  then show ?thesis by (auto simp: ascii_upper_to_lower_def Let_def)
qed

lemma ToLower_idem [simp]: "ToLower (ToLower s) = ToLower s"
  by (simp add: ToLower_def)

lemma lower_key_char: "ascii_upper_to_lower c = c \<Longrightarrow> ascii_upper_to_lower (key_char c) = key_char c"
  by (simp add: key_char_def ascii_upper_to_lower_def)

lemma set_TrimSpace: "set (TrimSpace s) \<subseteq> set s"
  by (auto simp: TrimSpace_def dest!: set_dropWhileD)

lemma ToLower_sanitize [simp]: "ToLower (sanitize s) = sanitize s"
proof -
  have "ascii_upper_to_lower c = c" if "c \<in> set (TrimSpace (ToLower s))" for c
    using that set_TrimSpace [of "ToLower s"] by (auto simp: ToLower_def)
  then show ?thesis
    by (simp add: sanitize_eq ToLower_def lower_key_char)
qed

lemma ToLower_key [simp]: "ToLower (ConvertGroupAndNameToKey g n) = ConvertGroupAndNameToKey g n"
proof -
  have "ToLower (a @ CHR ''_'' # b) = ToLower a @ CHR ''_'' # ToLower b" for a b
    by (simp add: ToLower_def ascii_upper_to_lower_def)
  then show ?thesis by (simp add: ConvertGroupAndNameToKey_def)
qed

lemma TrimSpace_idem: "TrimSpace (TrimSpace s) = TrimSpace s"
proof -
  have "dropWhile P (rev (dropWhile P (rev (dropWhile P xs)))) = rev (dropWhile P (rev (dropWhile P xs)))"
    for P and xs :: string
  proof (cases "dropWhile P xs")
    case Nil
    show ?thesis unfolding Nil by simp
  next
    case (Cons y ys)
    then have "\<not> P y" by (metis hd_dropWhile list.sel(1) list.simps(3))
    then have "dropWhile P (rev ys @ [y]) = dropWhile P (rev ys) @ [y]"
      by (simp add: dropWhile_append)
    with Cons \<open>\<not> P y\<close> show ?thesis by simp
  qed
  then show ?thesis by (simp add: TrimSpace_def dropWhile_idem)
qed

lemma is_space_key_char [simp]: "is_space (key_char c) \<Longrightarrow> is_space c"
  by (auto simp: key_char_def is_space_def split: if_splits)

end
