(* ===== verification/Go_Numbers.thy ===== *)
theory Go_Numbers
  imports Gatus_Prelude
begin

text \<open>
  The conversions between text and numbers that the program takes from Go's \<open>strconv\<close> and
  \<open>fmt\<close>: \<open>Itoa\<close>, \<open>Atoi\<close>, \<open>ParseInt\<close> (with base prefixes and
  underscores), \<open>ParseBool\<close>, \<open>ParseFloat\<close> with its rounding to the nearest
  64-bit float, the truncating conversion of a float to \<open>int64\<close>, and the shortest text of a
  float that \<open>%v\<close> prints. A failed conversion is \<open>None\<close>.
\<close>

section \<open>Decimal text of an integer\<close>

definition digit_char :: "nat \<Rightarrow> char" where
  "digit_char d = char_of (48 + d)"

fun nat_dec :: "nat \<Rightarrow> string" where
  "nat_dec n = (if n < 10 then [digit_char n] else nat_dec (n div 10) @ [digit_char (n mod 10)])"

declare nat_dec.simps [simp del]

definition Itoa :: "int \<Rightarrow> string" where
  "Itoa i = (if i < 0 then CHR ''-'' # nat_dec (nat (- i)) else nat_dec (nat i))"

definition FormatBool :: "bool \<Rightarrow> string" where
  "FormatBool b = (if b then ''true'' else ''false'')"

definition ParseBool :: "string \<Rightarrow> bool option" where
  "ParseBool s =
     (if s \<in> {''1'', ''t'', ''T'', ''true'', ''TRUE'', ''True''} then Some True
      else if s \<in> {''0'', ''f'', ''F'', ''false'', ''FALSE'', ''False''} then Some False
      else None)"

section \<open>Integers from text\<close>

definition digit_value :: "char \<Rightarrow> nat option" where
  "digit_value c =
     (let n = of_char c :: nat in
      if 48 \<le> n \<and> n \<le> 57 then Some (n - 48)
      else if 97 \<le> n \<and> n \<le> 122 then Some (n - 97 + 10)
      else if 65 \<le> n \<and> n \<le> 90 then Some (n - 65 + 10)
      else None)"

definition is_digit :: "char \<Rightarrow> bool" where
  "is_digit c \<longleftrightarrow> 48 \<le> (of_char c :: nat) \<and> (of_char c :: nat) \<le> 57"

definition is_hex_digit :: "char \<Rightarrow> bool" where
  "is_hex_digit c \<longleftrightarrow> (case digit_value c of Some d \<Rightarrow> d < 16 | None \<Rightarrow> False)"

fun parse_digits :: "nat \<Rightarrow> bool \<Rightarrow> nat \<Rightarrow> string \<Rightarrow> nat option" where
  "parse_digits base us acc [] = Some acc"
| "parse_digits base us acc (c # s) =
     (if us \<and> c = CHR ''_'' then parse_digits base us acc s
      else case digit_value c of
             None \<Rightarrow> None
           | Some d \<Rightarrow> if d < base then parse_digits base us (acc * base + d) s else None)"

text \<open>
  \<open>underscoreOK\<close>: an underscore stands between two digits or between a base prefix and a
  digit. The first argument is the class of the last character seen, as in the library:
  \<open>^\<close> for none, \<open>0\<close> for a digit, \<open>_\<close> and \<open>!\<close> for anything else.
\<close>

fun underscore_scan :: "char \<Rightarrow> bool \<Rightarrow> string \<Rightarrow> bool" where
  "underscore_scan saw hex [] = (saw \<noteq> CHR ''_'')"
| "underscore_scan saw hex (c # s) =
     (if is_digit c \<or> hex \<and> is_hex_digit c then underscore_scan (CHR ''0'') hex s
      else if c = CHR ''_'' then saw = CHR ''0'' \<and> underscore_scan (CHR ''_'') hex s
      else saw \<noteq> CHR ''_'' \<and> underscore_scan (CHR ''!'') hex s)"

definition base_prefix :: "string \<Rightarrow> char option" where
  "base_prefix s =
     (case s of
        c # x # _ \<Rightarrow> (if c = CHR ''0'' \<and> ascii_upper_to_lower x \<in> set ''box''
                     then Some (ascii_upper_to_lower x) else None)
      | _ \<Rightarrow> None)"

definition drop_sign :: "string \<Rightarrow> string" where
  "drop_sign s = (case s of c # t \<Rightarrow> if c \<in> set ''+-'' then t else s | [] \<Rightarrow> [])"

definition underscoreOK :: "string \<Rightarrow> bool" where
  "underscoreOK s0 =
     (let s = drop_sign s0 in
      case base_prefix s of
        None \<Rightarrow> underscore_scan (CHR ''^'') False s
      | Some x \<Rightarrow> underscore_scan (CHR ''0'') (x = CHR ''x'') (drop 2 s))"

definition ParseUint :: "string \<Rightarrow> nat \<Rightarrow> nat option" where
  "ParseUint s base =
     (if s = [] then None
      else if base \<noteq> 0 then parse_digits base False 0 s
      else
        let (b, body) =
          (if hd s \<noteq> CHR ''0'' then (10, s)
           else if 3 \<le> length s then
             (case base_prefix s of
                Some x \<Rightarrow> (if x = CHR ''b'' then 2 else if x = CHR ''o'' then 8 else 16, drop 2 s)
              | None \<Rightarrow> (8, tl s))
           else (8, tl s))
        in if CHR ''_'' \<in> set body \<and> \<not> underscoreOK s then None
           else parse_digits b True 0 body)"

definition ParseInt :: "string \<Rightarrow> nat \<Rightarrow> int option" where
  "ParseInt s base =
     (case s of
        [] \<Rightarrow> None
      | c # _ \<Rightarrow>
        (case ParseUint (drop_sign s) base of
           None \<Rightarrow> None
         | Some n \<Rightarrow>
             let i = (if c = CHR ''-'' then - int n else int n)
             in if in_int64 i then Some i else None))"

definition Atoi :: "string \<Rightarrow> int option" where
  "Atoi s = ParseInt s 10"

section \<open>64-bit floats\<close>

text \<open>
  \<open>F_Fin neg m e\<close> is \<open>(-1)^neg * m * 2^e\<close>. \<open>round_f64 neg n d\<close> is the float
  nearest to \<open>n / d\<close>, ties to even, with gradual underflow below \<open>2^-1022\<close>.
\<close>

datatype f64 = F_NaN | F_Inf bool | F_Fin bool nat int

fun bit_length :: "nat \<Rightarrow> nat" where
  "bit_length n = (if n = 0 then 0 else Suc (bit_length (n div 2)))"

declare bit_length.simps [simp del]

definition round_half_even :: "nat \<Rightarrow> nat \<Rightarrow> nat" where
  "round_half_even n d =
     (let q = n div d; r = n mod d in if 2 * r > d \<or> 2 * r = d \<and> odd q then q + 1 else q)"

text \<open>\<open>n / d\<close> as a fraction scaled by \<open>b ^ (- e)\<close>.\<close>

definition scale_frac :: "nat \<Rightarrow> int \<Rightarrow> nat \<Rightarrow> nat \<Rightarrow> nat \<times> nat" where
  "scale_frac b e n d = (if 0 \<le> e then (n, d * b ^ nat e) else (n * b ^ nat (- e), d))"

definition round_f64 :: "bool \<Rightarrow> nat \<Rightarrow> nat \<Rightarrow> f64" where
  "round_f64 neg n d =
     (if n = 0 then F_Fin neg 0 0
      else
        let l = int (bit_length n) - int (bit_length d);
            (n1, d1) = scale_frac 2 l n d;
            e = max (if d1 \<le> n1 then l - 52 else l - 53) (- 1074);
            (n2, d2) = scale_frac 2 e n d;
            m = round_half_even n2 d2;
            (m', e') = (if m = 2 ^ 53 then (2 ^ 52, e + 1) else (m, e))
        in if 971 < e' then F_Inf neg else F_Fin neg m' e')"

text \<open>The conversion \<open>int64(f)\<close>; out of range it is the value amd64 produces.\<close>

definition int64_of_f64 :: "f64 \<Rightarrow> int" where
  "int64_of_f64 f =
     (case f of
        F_Fin neg m e \<Rightarrow>
          let v = (if 0 \<le> e then int m * 2 ^ nat e else int (m div 2 ^ nat (- e)));
              x = (if neg then - v else v)
          in if in_int64 x then x else min_int64
      | _ \<Rightarrow> min_int64)"

text \<open>
  Mantissa digits of a float literal: the digits read, how many of them follow the point, and the
  rest of the text.
\<close>

fun read_mantissa :: "nat \<Rightarrow> bool \<Rightarrow> bool \<Rightarrow> nat \<Rightarrow> nat \<Rightarrow> string \<Rightarrow> bool \<times> nat \<times> nat \<times> string" where
  "read_mantissa base sawdot sawdigits m fr [] = (sawdigits, m, fr, [])"
| "read_mantissa base sawdot sawdigits m fr (c # s) =
     (if c = CHR ''_'' then read_mantissa base sawdot sawdigits m fr s
      else if c = CHR ''.'' then
        (if sawdot then (sawdigits, m, fr, c # s)
         else read_mantissa base True sawdigits m fr s)
      else case digit_value c of
             Some d \<Rightarrow>
               (if d < base then
                  read_mantissa base sawdot True (m * base + d) (if sawdot then fr + 1 else fr) s
                else (sawdigits, m, fr, c # s))
           | None \<Rightarrow> (sawdigits, m, fr, c # s))"

fun read_exponent :: "nat \<Rightarrow> string \<Rightarrow> nat option" where
  "read_exponent e [] = Some e"
| "read_exponent e (c # s) =
     (if c = CHR ''_'' then read_exponent e s
      else if is_digit c
        then read_exponent (if e < 10000 then e * 10 + (of_char c - 48) else e) s
      else None)"

definition ParseFloat :: "string \<Rightarrow> f64 option" where
  "ParseFloat s =
     (let t = drop_sign s; neg = (s \<noteq> [] \<and> hd s = CHR ''-'')
      in if ToLower t = ''inf'' \<or> ToLower t = ''infinity'' then Some (F_Inf neg)
         else if ToLower s = ''nan'' then Some F_NaN
         else
           let hex = (base_prefix t = Some (CHR ''x''));
               base = (if hex then 16 else 10);
               (sawdigits, m, fr, rest) =
                 read_mantissa base False False 0 0 (if hex then drop 2 t else t);
               ex = (case rest of
                       [] \<Rightarrow> if hex then None else Some 0
                     | c # r \<Rightarrow>
                       if ascii_upper_to_lower c \<noteq> (if hex then CHR ''p'' else CHR ''e'') then None
                       else case drop_sign r of
                              [] \<Rightarrow> None
                            | x # xs \<Rightarrow>
                              if is_digit x then
                                map_option (\<lambda>e. if hd r = CHR ''-'' then - int e else int e)
                                  (read_exponent 0 (x # xs))
                              else None)
           in if \<not> sawdigits \<or> CHR ''_'' \<in> set s \<and> \<not> underscoreOK s then None
              else case ex of
                     None \<Rightarrow> None
                   | Some e \<Rightarrow>
                       let (n, d) = (if hex then scale_frac 2 (4 * int fr - e) m 1
                                     else scale_frac 10 (int fr - e) m 1)
                       in case round_f64 neg n d of F_Inf _ \<Rightarrow> None | f \<Rightarrow> Some f)"

text \<open>
  The shortest decimal digits that read back as the float: \<open>k\<close> digits and the position of
  the decimal point, for the least \<open>k \<le> 17\<close> that works.
\<close>

fun dec_exp_small :: "nat \<Rightarrow> nat \<Rightarrow> nat \<Rightarrow> int \<Rightarrow> int" where
  "dec_exp_small 0 n d j = j"
| "dec_exp_small (Suc fuel) n d j = (if d \<le> n * 10 then j else dec_exp_small fuel (n * 10) d (j - 1))"

definition dec_exp :: "nat \<Rightarrow> nat \<Rightarrow> int" where
  "dec_exp n d = (if d \<le> n then int (length (nat_dec (n div d))) else dec_exp_small 400 n d 0)"

fun shortest_digits :: "nat \<Rightarrow> nat \<Rightarrow> nat \<Rightarrow> nat \<Rightarrow> int \<Rightarrow> f64 \<Rightarrow> string \<times> int" where
  "shortest_digits 0 k n d E x = (let (a, b) = scale_frac 10 (E - 17) n d in (nat_dec (a div b), E))"
| "shortest_digits (Suc fuel) k n d E x =
     (let (a, b) = scale_frac 10 (E - int k) n d;
          D = round_half_even a b;
          (p, q) = scale_frac 10 (int k - E) D 1
      in if round_f64 False p q = x
         then (if D = 10 ^ k then (''1'', E + 1) else (nat_dec D, E))
         else shortest_digits fuel (Suc k) n d E x)"

definition pad_exp :: "nat \<Rightarrow> string" where
  "pad_exp e = (if e < 10 then CHR ''0'' # nat_dec e else nat_dec e)"

definition format_g :: "string \<Rightarrow> int \<Rightarrow> string" where
  "format_g digs dp =
     (let x = dp - 1; nd = int (length digs) in
      if x < - 4 \<or> 6 \<le> x then
        [hd digs] @ (if 1 < nd then CHR ''.'' # tl digs else []) @
        (if x < 0 then ''e-'' else ''e+'') @ pad_exp (nat \<bar>x\<bar>)
      else if dp \<le> 0 then ''0.'' @ replicate (nat (- dp)) (CHR ''0'') @ digs
      else if nd \<le> dp then digs @ replicate (nat (dp - nd)) (CHR ''0'')
      else take (nat dp) digs @ CHR ''.'' # drop (nat dp) digs)"

text \<open>\<open>fmt.Sprintf("%v", f)\<close> for a float.\<close>

definition format_float :: "f64 \<Rightarrow> string" where
  "format_float f =
     (case f of
        F_NaN \<Rightarrow> ''NaN''
      | F_Inf neg \<Rightarrow> (if neg then ''-Inf'' else ''+Inf'')
      | F_Fin neg m e \<Rightarrow>
          (if neg then ''-'' else []) @
          (if m = 0 then ''0''
           else
             let (n, d) = scale_frac 2 (- e) m 1;
                 (digs, dp) = shortest_digits 17 1 n d (dec_exp n d) (F_Fin False m e)
             in format_g digs dp))"

section \<open>Facts\<close>

lemma of_char_digit_char: "d < 10 \<Longrightarrow> (of_char (digit_char d) :: nat) = 48 + d"
  by (simp add: digit_char_def)

lemma digit_value_digit_char [go_string]: "d < 10 \<Longrightarrow> digit_value (digit_char d) = Some d"
  by (simp add: digit_value_def of_char_digit_char)

lemma is_digit_digit_char: "d < 10 \<Longrightarrow> is_digit (digit_char d)"
  by (simp add: is_digit_def of_char_digit_char)

lemma is_digit_not_special:
  "is_digit c \<Longrightarrow> c \<notin> {CHR ''-'', CHR ''+'', CHR ''_'', CHR ''.'', CHR '' ''}"
  by (auto simp: is_digit_def)

lemma nat_dec_ne [simp]: "nat_dec n \<noteq> []"
  by (subst nat_dec.simps) simp

lemma nat_dec_digits: "c \<in> set (nat_dec n) \<Longrightarrow> is_digit c"
proof (induction n rule: nat_dec.induct)
  case (1 n)
  show ?case
  proof (cases "n < 10")
    case True
    with "1.prems" show ?thesis by (simp add: nat_dec.simps [of n] is_digit_digit_char)
  next
    case False
    with "1.prems" have "c \<in> set (nat_dec (n div 10)) \<or> c = digit_char (n mod 10)"
      by (auto simp: nat_dec.simps [of n])
    with False "1.IH" show ?thesis by (auto simp: is_digit_digit_char)
  qed
qed

lemma parse_digits_append:
  "parse_digits b us a (s @ t) = Option.bind (parse_digits b us a s) (\<lambda>a'. parse_digits b us a' t)"
  by (induction b us a s rule: parse_digits.induct) (auto split: option.splits)

lemma parse_digits_nat_dec [go_string]: "parse_digits 10 False 0 (nat_dec n) = Some n"
proof (induction n rule: nat_dec.induct)
  case (1 n)
  show ?case
  proof (cases "n < 10")
    case True
    then show ?thesis by (simp add: nat_dec.simps [of n] digit_value_digit_char)
  next
    case False
    then show ?thesis
      using "1.IH" by (simp add: nat_dec.simps [of n] parse_digits_append digit_value_digit_char)
  qed
qed

lemma nat_dec_hd: "hd (nat_dec n) \<notin> set ''+-''"
  using is_digit_not_special [OF nat_dec_digits [of "hd (nat_dec n)" n]] by simp

lemma drop_sign_nat_dec [simp]: "drop_sign (nat_dec n) = nat_dec n"
  using nat_dec_hd [of n] by (cases "nat_dec n") (auto simp: drop_sign_def)

lemma ParseInt_nat_dec:
  "ParseInt (nat_dec n) 10 = (if in_int64 (int n) then Some (int n) else None)"
proof -
  obtain c t where ct: "nat_dec n = c # t" by (cases "nat_dec n") auto
  then have "c \<noteq> CHR ''-''" using nat_dec_hd [of n] by simp
  moreover have "drop_sign (c # t) = c # t" using drop_sign_nat_dec [of n] ct by simp
  moreover have "parse_digits 10 False 0 (c # t) = Some n"
    using parse_digits_nat_dec [of n] ct by simp
  ultimately show ?thesis
    by (simp add: ct ParseInt_def ParseUint_def del: parse_digits.simps)
qed

text \<open>Printing an integer and reading it back gives the integer, on the whole range.\<close>

lemma Atoi_Itoa [go_string]:
  assumes "in_int64 i"
  shows "Atoi (Itoa i) = Some i"
proof (cases "i < 0")
  case True
  then have "Itoa i = CHR ''-'' # nat_dec (nat (- i))" by (simp add: Itoa_def)
  then show ?thesis using True assms
    by (simp add: Atoi_def ParseInt_def drop_sign_def ParseUint_def parse_digits_nat_dec)
next
  case False
  then show ?thesis using assms by (simp add: Atoi_def Itoa_def ParseInt_nat_dec)
qed

lemma Itoa_chars: "c \<in> set (Itoa i) \<Longrightarrow> is_digit c \<or> c = CHR ''-''"
  by (auto simp: Itoa_def dest: nat_dec_digits split: if_splits)

lemma Itoa_nonneg_chars: "0 \<le> i \<Longrightarrow> c \<in> set (Itoa i) \<Longrightarrow> is_digit c"
  by (auto simp: Itoa_def dest: nat_dec_digits split: if_splits)

lemma Itoa_ne [simp]: "Itoa i \<noteq> []"
  by (simp add: Itoa_def)

text \<open>The same with the base taken from the text: a number other than 0 starts with no 0.\<close>

lemma nat_dec_hd_zero: "0 < n \<Longrightarrow> hd (nat_dec n) \<noteq> CHR ''0''"
proof (induction n rule: nat_dec.induct)
  case (1 n)
  show ?case
  proof (cases "n < 10")
    case True
    then have "(of_char (digit_char n) :: nat) \<noteq> of_char (CHR ''0'')"
      using "1.prems" by (simp add: of_char_digit_char)
    with True show ?thesis by (subst nat_dec.simps) auto
  next
    case False
    with "1.IH" show ?thesis by (subst nat_dec.simps) (simp add: hd_append)
  qed
qed

lemma parse_digits_underscore:
  "CHR ''_'' \<notin> set s \<Longrightarrow> parse_digits b True a s = parse_digits b False a s"
  by (induction s arbitrary: a) (auto split: option.splits)

lemma nat_dec_0 [simp]: "nat_dec 0 = ''0''"
proof -
  have "(char_of (48 :: nat) :: char) = CHR ''0''" by code_simp
  then show ?thesis by (simp add: nat_dec.simps digit_char_def)
qed

lemma ParseUint_nat_dec_0: "ParseUint (nat_dec n) 0 = Some n"
proof (cases "n = 0")
  case True
  then show ?thesis by (simp add: ParseUint_def Let_def)
next
  case False
  have "\<not> is_digit (CHR ''_'')" by (simp add: is_digit_def)
  then have us: "CHR ''_'' \<notin> set (nat_dec n)" using nat_dec_digits by blast
  from False have "ParseUint (nat_dec n) 0 = parse_digits 10 True 0 (nat_dec n)"
    using nat_dec_hd_zero [of n] us by (simp add: ParseUint_def Let_def)
  with parse_digits_underscore [OF us] show ?thesis by (simp add: parse_digits_nat_dec)
qed

lemma ParseInt_Itoa_0 [go_string]:
  assumes "in_int64 i"
  shows "ParseInt (Itoa i) 0 = Some i"
proof (cases "i < 0")
  case True
  then show ?thesis
    using assms by (simp add: Itoa_def ParseInt_def drop_sign_def ParseUint_nat_dec_0)
next
  case False
  obtain c t where ct: "nat_dec (nat i) = c # t" by (cases "nat_dec (nat i)") auto
  then have "c \<noteq> CHR ''-''" using nat_dec_hd [of "nat i"] by simp
  moreover have "ParseUint (drop_sign (c # t)) 0 = Some (nat i)"
    using drop_sign_nat_dec [of "nat i"] ct ParseUint_nat_dec_0 [of "nat i"] by simp
  ultimately show ?thesis using False assms by (simp add: Itoa_def ParseInt_def ct)
qed

end
