(* ===== verification/Go_Time.thy ===== *)
theory Go_Time
  imports Go_Numbers
begin

text \<open>
  Go's \<open>time\<close> package as far as the program uses it. A duration is a number of
  nanoseconds within 64 bits. An instant is a number of nanoseconds since the Unix epoch; the zero
  \<open>time.Time\<close> is the first of January of the year 1. The monotonic clock reading that Go
  attaches to \<open>time.Now()\<close> is not modelled.
\<close>

type_synonym duration = int
type_synonym instant = int

named_theorems go_time \<open>facts on instants and durations\<close>

definition nanosecond :: duration where "nanosecond = 1"
definition millisecond :: duration where "millisecond = 1000000"
definition second :: duration where "second = 1000000000"
definition minute :: duration where "minute = 60000000000"
definition hour :: duration where "hour = 3600000000000"

lemmas duration_units = nanosecond_def millisecond_def second_def minute_def hour_def

definition zero_time :: instant where "zero_time = - 62135596800 * second"

definition Milliseconds :: "duration \<Rightarrow> int" where
  "Milliseconds d = d sdiv millisecond"

definition Truncate_duration :: "duration \<Rightarrow> duration \<Rightarrow> duration" where
  "Truncate_duration d m = (if m \<le> 0 then d else d - d smod m)"

text \<open>\<open>t.Sub(u)\<close> saturates at the largest and smallest duration.\<close>

definition Sub :: "instant \<Rightarrow> instant \<Rightarrow> duration" where
  "Sub t u = max min_int64 (min max_int64 (t - u))"

definition Unix :: "instant \<Rightarrow> int" where
  "Unix t = t div second"

text \<open>\<open>t.Truncate(d)\<close> rounds down to a multiple of \<open>d\<close> since the zero time.\<close>

definition Truncate_time :: "instant \<Rightarrow> duration \<Rightarrow> instant" where
  "Truncate_time t d = (if d \<le> 0 then t else t - (t - zero_time) mod d)"

section \<open>Text of a duration\<close>

fun pad_left :: "nat \<Rightarrow> string \<Rightarrow> string" where
  "pad_left n s = replicate (n - length s) (CHR ''0'') @ s"

definition fmtFrac :: "nat \<Rightarrow> nat \<Rightarrow> string" where
  "fmtFrac v prec =
     (let ds = rev (dropWhile (\<lambda>c. c = CHR ''0'') (rev (pad_left prec (nat_dec (v mod 10 ^ prec)))))
      in if v mod 10 ^ prec = 0 then [] else CHR ''.'' # ds)"

definition duration_String :: "duration \<Rightarrow> string" where
  "duration_String d =
     (let u = nat \<bar>d\<bar>;
          body =
            (if u = 0 then ''0s''
             else if u < 1000 then nat_dec u @ ''ns''
             else if u < 1000000 then nat_dec (u div 1000) @ fmtFrac u 3 @ [CHR 0xC2, CHR 0xB5] @ ''s''
             else if u < 1000000000 then nat_dec (u div 1000000) @ fmtFrac u 6 @ ''ms''
             else
               let secs = u div 1000000000; m = secs div 60; h = m div 60
               in (if 0 < h then nat_dec h @ ''h'' else []) @
                  (if 0 < m then nat_dec (m mod 60) @ ''m'' else []) @
                  nat_dec (secs mod 60) @ fmtFrac u 9 @ ''s'')
      in if d < 0 then CHR ''-'' # body else body)"

section \<open>Durations from text\<close>

definition unit_value :: "string \<Rightarrow> nat option" where
  "unit_value u =
     (if u = ''ns'' then Some 1
      else if u = ''us'' \<or> u = [CHR 0xC2, CHR 0xB5] @ ''s'' \<or> u = [CHR 0xCE, CHR 0xBC] @ ''s''
        then Some 1000
      else if u = ''ms'' then Some 1000000
      else if u = ''s'' then Some 1000000000
      else if u = ''m'' then Some 60000000000
      else if u = ''h'' then Some 3600000000000
      else None)"

definition digits_nat :: "string \<Rightarrow> nat" where
  "digits_nat s = foldl (\<lambda>a c. a * 10 + (of_char c - 48)) 0 s"

text \<open>
  One group of \<open>time.ParseDuration\<close>: \<open>[0-9]*(\.[0-9]*)?[a-z]+\<close>, its value in
  nanoseconds and the text that follows. The fraction is scaled exactly and rounded down.
\<close>

definition duration_group :: "string \<Rightarrow> (nat \<times> string) option" where
  "duration_group s =
     (let pre = takeWhile is_digit s;
          s1 = dropWhile is_digit s;
          dot = (s1 \<noteq> [] \<and> hd s1 = CHR ''.'');
          post = (if dot then takeWhile is_digit (tl s1) else []);
          s2 = (if dot then dropWhile is_digit (tl s1) else s1);
          u = takeWhile (\<lambda>c. c \<noteq> CHR ''.'' \<and> \<not> is_digit c) s2;
          s3 = dropWhile (\<lambda>c. c \<noteq> CHR ''.'' \<and> \<not> is_digit c) s2
      in if pre = [] \<and> post = [] then None
         else if digits_nat pre > 2 ^ 63 then None
         else case unit_value u of
                None \<Rightarrow> None
              | Some w \<Rightarrow>
                  if digits_nat pre > 2 ^ 63 div w then None
                  else
                    let v = digits_nat pre * w + digits_nat post * w div 10 ^ length post
                    in if v > 2 ^ 63 then None else Some (v, s3))"

lemma length_dropWhile_tl: "length (dropWhile P (tl xs)) \<le> length xs"
  by (rule order_trans [OF length_dropWhile_le]) simp

lemma unit_value_ne: "unit_value u = Some w \<Longrightarrow> u \<noteq> []"
  by (auto simp: unit_value_def)

lemma length_dropWhile_less: "takeWhile P xs \<noteq> [] \<Longrightarrow> length (dropWhile P xs) < length xs"
  by (cases xs) (auto simp: less_Suc_eq_le length_dropWhile_le split: if_splits)

lemma duration_group_less:
  assumes "duration_group s = Some (v, r)"
  shows "length r < length s"
proof -
  let ?s1 = "dropWhile is_digit s"
  let ?s2 = "if ?s1 \<noteq> [] \<and> hd ?s1 = CHR ''.'' then dropWhile is_digit (tl ?s1) else ?s1"
  let ?P = "\<lambda>c. c \<noteq> CHR ''.'' \<and> \<not> is_digit c"
  have r: "r = dropWhile ?P ?s2" and u: "takeWhile ?P ?s2 \<noteq> []"
    using assms
    by (auto simp: duration_group_def Let_def dest: unit_value_ne split: if_splits option.splits)
  have "length ?s2 \<le> length ?s1" using length_dropWhile_tl by auto
  also have "length ?s1 \<le> length s" by (rule length_dropWhile_le)
  finally have "length ?s2 \<le> length s" .
  then show ?thesis unfolding r by (rule less_le_trans [OF length_dropWhile_less [OF u]])
qed

function duration_groups :: "nat \<Rightarrow> string \<Rightarrow> nat option" where
  "duration_groups d s =
     (if s = [] then Some d
      else case duration_group s of
             None \<Rightarrow> None
           | Some (v, r) \<Rightarrow> if d + v > 2 ^ 63 then None else duration_groups (d + v) r)"
  by pat_completeness auto
termination
  by (relation "measure (\<lambda>(d, s). length s)") (auto dest: duration_group_less)

declare duration_groups.simps [simp del]

definition ParseDuration :: "string \<Rightarrow> duration option" where
  "ParseDuration s =
     (let neg = (s \<noteq> [] \<and> hd s = CHR ''-''); t = drop_sign s
      in if t = ''0'' then Some 0
         else if t = [] then None
         else case duration_groups 0 t of
                None \<Rightarrow> None
              | Some d \<Rightarrow>
                  if neg then Some (- int d)
                  else if d > 2 ^ 63 - 1 then None else Some (int d))"

section \<open>Facts\<close>

lemma Truncate_time_hour: "Truncate_time t hour = t - t mod hour"
proof -
  have z: "zero_time = - (17259888 * hour)" by (simp add: zero_time_def duration_units)
  have "(t - zero_time) mod hour = (t + 17259888 * hour) mod hour"
    unfolding z by (simp only: diff_minus_eq_add)
  also have "\<dots> = t mod hour" by (rule mod_mult_self1)
  finally show ?thesis by (simp add: Truncate_time_def hour_def)
qed

lemma Truncate_time_hour_le: "Truncate_time t hour \<le> t" "t < Truncate_time t hour + hour"
proof -
  have "0 \<le> t mod hour" "t mod hour < hour" by (simp_all add: hour_def)
  then show "Truncate_time t hour \<le> t" "t < Truncate_time t hour + hour"
    by (simp_all add: Truncate_time_hour)
qed

lemma Sub_nonneg_iff [go_time]: "0 \<le> Sub t u \<longleftrightarrow> u \<le> t"
  by (auto simp: Sub_def min_int64_def max_int64_def)

lemma Sub_range [go_time]: "in_int64 (Sub t u)"
  by (auto simp: Sub_def in_int64_def min_int64_def max_int64_def)

lemma Sub_exact [go_time]: "in_int64 (t - u) \<Longrightarrow> Sub t u = t - u"
  by (auto simp: Sub_def in_int64_def)

text \<open>
  From the year 1970 on, the time elapsed since the zero time is the largest duration there is.
\<close>

lemma Sub_zero_time [go_time]: "0 \<le> t \<Longrightarrow> Sub t zero_time = max_int64"
  by (simp add: Sub_def zero_time_def max_int64_def min_int64_def second_def)

lemma ParseDuration_Some_range: "ParseDuration s = Some d \<Longrightarrow> in_int64 d"
proof -
  have bound: "duration_groups a s = Some b \<Longrightarrow> a \<le> 2 ^ 63 \<Longrightarrow> b \<le> 2 ^ 63" for a s b
  proof (induction a s rule: duration_groups.induct)
    case (1 a s)
    then show ?case
      by (subst (asm) duration_groups.simps)
         (fastforce split: if_splits option.splits prod.splits)
  qed
  assume "ParseDuration s = Some d"
  then show ?thesis
    by (auto simp: ParseDuration_def in_int64_def min_int64_def max_int64_def Let_def
        dest: bound split: if_splits option.splits)
qed

text \<open>A number without a unit is not a duration, except 0.\<close>

lemma duration_group_nat_dec: "duration_group (nat_dec n) = None"
proof -
  have "\<forall>c \<in> set (nat_dec n). is_digit c" using nat_dec_digits by blast
  then have dw: "dropWhile is_digit (nat_dec n) = []" by (simp only: dropWhile_eq_Nil_conv)
  show ?thesis
    by (simp add: duration_group_def Let_def unit_value_def dw del: dropWhile_eq_Nil_conv)
qed

lemma ParseDuration_Itoa: "ParseDuration (Itoa i) = (if i = 0 then Some 0 else None)"
proof (cases "i = 0")
  case True
  then have "Itoa i = ''0''" by (simp add: Itoa_def)
  with True show ?thesis by (simp add: ParseDuration_def drop_sign_def)
next
  case False
  have drop: "drop_sign (Itoa i) = nat_dec (nat \<bar>i\<bar>)"
    by (simp add: Itoa_def drop_sign_def) (simp add: drop_sign_def [symmetric])
  have "nat_dec (nat \<bar>i\<bar>) \<noteq> ''0''"
    using nat_dec_hd_zero [of "nat \<bar>i\<bar>"] False by auto
  then show ?thesis
    using False
    by (simp add: ParseDuration_def drop duration_groups.simps [of 0] duration_group_nat_dec)
qed

end
