(* ===== verification/Go_Values.thy ===== *)
theory Go_Values
  imports Go_Time "HOL-Library.AList"
begin

text \<open>
  The dynamically typed values (\<open>interface{}\<close>) that the program handles: what
  \<open>encoding/json\<close> decodes a response body into, what YAML decodes a suite context into and
  what the suites store there. A Go map is an association list with distinct keys; its order is
  never observed. \<open>fmt_v\<close> is \<open>fmt.Sprintf("%v", v)\<close>.
\<close>

datatype goval =
    VNil
  | VBool bool
  | VInt int
  | VFloat f64
  | VStr string
  | VList "goval list"
  | VMap "(string \<times> goval) list"

type_synonym gomap = "(string \<times> goval) list"

fun fmt_v :: "goval \<Rightarrow> string" where
  "fmt_v VNil = ''<nil>''"
| "fmt_v (VBool b) = FormatBool b"
| "fmt_v (VInt i) = Itoa i"
| "fmt_v (VFloat f) = format_float f"
| "fmt_v (VStr s) = s"
| "fmt_v (VList vs) = ''['' @ Join (map fmt_v vs) '' '' @ '']''"
| "fmt_v (VMap kvs) =
     ''map['' @ Join (map snd (sort_key fst (map (\<lambda>(k, v). (k, k @ '':'' @ fmt_v v)) kvs))) '' '' @ '']''"

fun is_map :: "goval \<Rightarrow> bool" where
  "is_map (VMap _) = True"
| "is_map _ = False"

text \<open>
  Association lists stand for maps when no key occurs twice, at every depth.
\<close>

fun wf_val :: "goval \<Rightarrow> bool" where
  "wf_val (VList vs) = list_all wf_val vs"
| "wf_val (VMap kvs) = (distinct (map fst kvs) \<and> list_all (\<lambda>(k, v). wf_val v) kvs)"
| "wf_val _ = True"

abbreviation wf_map :: "gomap \<Rightarrow> bool" where
  "wf_map m \<equiv> wf_val (VMap m)"

lemma map_of_update: "map_of (AList.update k v m) x = (if x = k then Some v else map_of m x)"
  by (simp add: update_conv')

lemma wf_map_lookup: "wf_map m \<Longrightarrow> map_of m k = Some v \<Longrightarrow> wf_val v"
  by (auto simp: list_all_iff dest: map_of_SomeD)

lemma wf_map_update:
  assumes "wf_map m" and "wf_val v"
  shows "wf_map (AList.update k v m)"
proof -
  have "set (AList.update k v m) \<subseteq> insert (k, v) (set m)"
    by (induction m) auto
  then show ?thesis
    using assms by (auto simp: list_all_iff distinct_update)
qed

end
