(* ===== verification/Alert.thy ===== *)
theory Alert
  imports Key Go_Values
begin

text \<open>
  \<open>alerting/alert/alert.go\<close> and the merge of \<open>alerting/provider/provider.go\<close>: the
  alert of an endpoint, its defaults and the text its checksum is computed from. A field that is a
  pointer in the source is an option. SHA-256 is an argument of \<open>Checksum\<close>.
\<close>

record Alert =
  al_Type :: string
  al_Enabled :: "bool option"
  al_FailureThreshold :: int
  al_SuccessThreshold :: int
  al_MinimumReminderInterval :: duration
  al_Description :: "string option"
  al_SendOnResolved :: "bool option"
  al_ProviderOverride :: gomap
  al_ResolveKey :: string
  al_Triggered :: bool

datatype alert_error = ErrAlertWithInvalidDescription | ErrAlertWithInvalidMinimumReminderInterval

definition GetDescription :: "Alert \<Rightarrow> string" where
  "GetDescription a = (case al_Description a of None \<Rightarrow> [] | Some d \<Rightarrow> d)"

definition IsEnabled :: "Alert \<Rightarrow> bool" where
  "IsEnabled a = (case al_Enabled a of None \<Rightarrow> True | Some b \<Rightarrow> b)"

definition IsSendingOnResolved :: "Alert \<Rightarrow> bool" where
  "IsSendingOnResolved a = (case al_SendOnResolved a of None \<Rightarrow> False | Some b \<Rightarrow> b)"

text \<open>
  The error, if any, and the alert as the call leaves it: the thresholds are set before anything
  is checked.
\<close>

definition Alert_ValidateAndSetDefaults :: "Alert \<Rightarrow> alert_error option \<times> Alert" where
  "Alert_ValidateAndSetDefaults a0 =
     (let a = a0\<lparr>al_FailureThreshold :=
                  (if al_FailureThreshold a0 \<le> 0 then 3 else al_FailureThreshold a0),
                al_SuccessThreshold :=
                  (if al_SuccessThreshold a0 \<le> 0 then 2 else al_SuccessThreshold a0)\<rparr>
      in if al_MinimumReminderInterval a \<noteq> 0 \<and> al_MinimumReminderInterval a < 5 * minute
           then (Some ErrAlertWithInvalidMinimumReminderInterval, a)
         else if ContainsAny (GetDescription a) [CHR 0x22, CHR 0x5C]
           then (Some ErrAlertWithInvalidDescription, a)
         else (None, a))"

definition checksum_text :: "Alert \<Rightarrow> string" where
  "checksum_text a =
     al_Type a @ ''_'' @ FormatBool (IsEnabled a) @ ''_'' @ FormatBool (IsSendingOnResolved a) @
     ''_'' @ Itoa (al_SuccessThreshold a) @ ''_'' @ Itoa (al_FailureThreshold a) @ ''_'' @
     GetDescription a"

definition Checksum :: "(string \<Rightarrow> string) \<Rightarrow> Alert \<Rightarrow> string" where
  "Checksum sha256_hex a = sha256_hex (checksum_text a)"

definition MergeProviderDefaultAlertIntoEndpointAlert :: "Alert option \<Rightarrow> Alert \<Rightarrow> Alert" where
  "MergeProviderDefaultAlertIntoEndpointAlert providerDefaultAlert a0 =
     (case providerDefaultAlert of
        None \<Rightarrow> a0
      | Some d \<Rightarrow>
          a0\<lparr>al_Enabled := (if al_Enabled a0 = None then al_Enabled d else al_Enabled a0),
             al_SendOnResolved :=
               (if al_SendOnResolved a0 = None then al_SendOnResolved d else al_SendOnResolved a0),
             al_Description :=
               (if al_Description a0 = None then al_Description d else al_Description a0),
             al_FailureThreshold :=
               (if al_FailureThreshold a0 = 0 then al_FailureThreshold d else al_FailureThreshold a0),
             al_SuccessThreshold :=
               (if al_SuccessThreshold a0 = 0 then al_SuccessThreshold d else al_SuccessThreshold a0),
             al_MinimumReminderInterval :=
               (if al_MinimumReminderInterval a0 = 0 then al_MinimumReminderInterval d
                else al_MinimumReminderInterval a0)\<rparr>)"

section \<open>Facts\<close>

text \<open>What the watchdog relies on: both thresholds are positive.\<close>

definition valid_alert :: "Alert \<Rightarrow> bool" where
  "valid_alert a \<longleftrightarrow>
     0 < al_FailureThreshold a \<and> 0 < al_SuccessThreshold a \<and>
     (al_MinimumReminderInterval a = 0 \<or> 5 * minute \<le> al_MinimumReminderInterval a)"

lemma Alert_ValidateAndSetDefaults_valid:
  "Alert_ValidateAndSetDefaults a = (None, a') \<Longrightarrow> valid_alert a'"
  by (auto simp: Alert_ValidateAndSetDefaults_def valid_alert_def Let_def split: if_splits)

lemma Alert_ValidateAndSetDefaults_keeps:
  "0 < al_FailureThreshold a \<Longrightarrow> 0 < al_SuccessThreshold a \<Longrightarrow>
   snd (Alert_ValidateAndSetDefaults a) = a"
  by (simp add: Alert_ValidateAndSetDefaults_def)

lemma Alert_ValidateAndSetDefaults_positive:
  "Alert_ValidateAndSetDefaults a = (e, a') \<Longrightarrow> 0 < al_FailureThreshold a' \<and> 0 < al_SuccessThreshold a'"
  by (auto simp: Alert_ValidateAndSetDefaults_def Let_def split: if_splits)

lemma Alert_ValidateAndSetDefaults_idem:
  "Alert_ValidateAndSetDefaults (snd (Alert_ValidateAndSetDefaults a)) = Alert_ValidateAndSetDefaults a"
proof -
  obtain e a' where v: "Alert_ValidateAndSetDefaults a = (e, a')" by fastforce
  from Alert_ValidateAndSetDefaults_positive [OF v] Alert_ValidateAndSetDefaults_keeps [of a']
  have "snd (Alert_ValidateAndSetDefaults a') = a'" by blast
  moreover have "fst (Alert_ValidateAndSetDefaults a') = e"
    using v Alert_ValidateAndSetDefaults_positive [OF v]
    by (auto simp: Alert_ValidateAndSetDefaults_def Let_def split: if_splits)
  ultimately show ?thesis by (simp add: v prod_eq_iff)
qed

lemma Merge_idem:
  "MergeProviderDefaultAlertIntoEndpointAlert d (MergeProviderDefaultAlertIntoEndpointAlert d a) =
   MergeProviderDefaultAlertIntoEndpointAlert d a"
  by (cases d) (simp_all add: MergeProviderDefaultAlertIntoEndpointAlert_def Let_def)

text \<open>
  The text under the checksum determines everything that is in it: no two alerts of types without
  underscore that differ in one of these fields share it.
\<close>

lemma FormatBool_inject: "FormatBool a = FormatBool b \<longleftrightarrow> a = b"
  by (simp add: FormatBool_def)

lemma underscore_notin_fields: "CHR ''_'' \<notin> set (FormatBool b)" "CHR ''_'' \<notin> set (Itoa i)"
proof -
  show "CHR ''_'' \<notin> set (FormatBool b)" by (simp add: FormatBool_def)
  have "\<not> is_digit (CHR ''_'')" by (simp add: is_digit_def)
  then show "CHR ''_'' \<notin> set (Itoa i)" using Itoa_chars [of "CHR ''_''" i] by auto
qed

lemma Itoa_inject: "in_int64 i \<Longrightarrow> in_int64 j \<Longrightarrow> Itoa i = Itoa j \<longleftrightarrow> i = j"
  by (metis Atoi_Itoa option.inject)

lemma checksum_text_inject:
  assumes "checksum_text a = checksum_text b"
    and "CHR ''_'' \<notin> set (al_Type a)" "CHR ''_'' \<notin> set (al_Type b)"
  shows "al_Type a = al_Type b \<and> IsEnabled a = IsEnabled b \<and>
    IsSendingOnResolved a = IsSendingOnResolved b \<and>
    Itoa (al_SuccessThreshold a) = Itoa (al_SuccessThreshold b) \<and>
    Itoa (al_FailureThreshold a) = Itoa (al_FailureThreshold b) \<and>
    GetDescription a = GetDescription b"
proof -
  note sep = append_sep_inject [of _ "CHR ''_''"]
  from assms(1) have "al_Type a @ CHR ''_'' # (FormatBool (IsEnabled a) @ CHR ''_'' #
      (FormatBool (IsSendingOnResolved a) @ CHR ''_'' # (Itoa (al_SuccessThreshold a) @ CHR ''_'' #
      (Itoa (al_FailureThreshold a) @ CHR ''_'' # GetDescription a)))) =
    al_Type b @ CHR ''_'' # (FormatBool (IsEnabled b) @ CHR ''_'' #
      (FormatBool (IsSendingOnResolved b) @ CHR ''_'' # (Itoa (al_SuccessThreshold b) @ CHR ''_'' #
      (Itoa (al_FailureThreshold b) @ CHR ''_'' # GetDescription b))))"
    by (simp add: checksum_text_def)
  note 1 = sep [OF this assms(2,3)]
  note 2 = sep [OF 1 [THEN conjunct2] underscore_notin_fields(1) underscore_notin_fields(1)]
  note 3 = sep [OF 2 [THEN conjunct2] underscore_notin_fields(1) underscore_notin_fields(1)]
  note 4 = sep [OF 3 [THEN conjunct2] underscore_notin_fields(2) underscore_notin_fields(2)]
  note 5 = sep [OF 4 [THEN conjunct2] underscore_notin_fields(2) underscore_notin_fields(2)]
  from 1 2 3 4 5 show ?thesis by (simp add: FormatBool_inject)
qed

section \<open>Properties\<close>

text \<open>
  Two alerts with the same checksum agree on their type, on whether they are enabled and
  send on resolution, on both thresholds and on their description, as long as SHA-256 has no
  collision on their texts and alert types have no underscore (none of the declared types has): a
  persisted triggered alert is only taken back by an alert configured the same way.
\<close>

theorem Checksum_determines_alert:
  assumes "Checksum sha256_hex a = Checksum sha256_hex b"
    and "inj_on sha256_hex {checksum_text a, checksum_text b}"
    and "CHR ''_'' \<notin> set (al_Type a)" and "CHR ''_'' \<notin> set (al_Type b)"
    and "in_int64 (al_SuccessThreshold a)" and "in_int64 (al_SuccessThreshold b)"
    and "in_int64 (al_FailureThreshold a)" and "in_int64 (al_FailureThreshold b)"
  shows "al_Type a = al_Type b \<and> IsEnabled a = IsEnabled b \<and>
    IsSendingOnResolved a = IsSendingOnResolved b \<and>
    al_SuccessThreshold a = al_SuccessThreshold b \<and>
    al_FailureThreshold a = al_FailureThreshold b \<and> GetDescription a = GetDescription b"
proof -
  have "checksum_text a = checksum_text b"
    by (rule inj_onD [OF assms(2)]) (use assms(1) in \<open>simp_all add: Checksum_def\<close>)
  from checksum_text_inject [OF this assms(3,4)] show ?thesis
    using assms(5-8) by (simp add: Itoa_inject)
qed

definition example_alert :: Alert where
  "example_alert = \<lparr>al_Type = ''slack'', al_Enabled = None, al_FailureThreshold = 3,
     al_SuccessThreshold = 2, al_MinimumReminderInterval = 0, al_Description = None,
     al_SendOnResolved = Some True, al_ProviderOverride = [], al_ResolveKey = [],
     al_Triggered = False\<rparr>"

theorem Checksum_determines_alert_witness:
  "Checksum rev example_alert \<noteq> Checksum rev (example_alert\<lparr>al_FailureThreshold := 4\<rparr>)"
  using Checksum_determines_alert [of rev example_alert "example_alert\<lparr>al_FailureThreshold := 4\<rparr>"]
  by (auto simp: example_alert_def in_int64_def min_int64_def max_int64_def inj_on_def)

text \<open>
  Validation sets both thresholds to positive values whatever the outcome, is idempotent,
  accepts only reminder intervals that are absent or at least five minutes, and merging a provider's default
  alert a second time changes nothing.
\<close>

theorem Alert_defaults_idempotent:
  "valid_alert (snd (Alert_ValidateAndSetDefaults a)) = (fst (Alert_ValidateAndSetDefaults a) \<noteq>
     Some ErrAlertWithInvalidMinimumReminderInterval) \<and>
   Alert_ValidateAndSetDefaults (snd (Alert_ValidateAndSetDefaults a)) = Alert_ValidateAndSetDefaults a \<and>
   MergeProviderDefaultAlertIntoEndpointAlert d (MergeProviderDefaultAlertIntoEndpointAlert d a) =
     MergeProviderDefaultAlertIntoEndpointAlert d a"
proof (intro conjI)
  show "valid_alert (snd (Alert_ValidateAndSetDefaults a)) = (fst (Alert_ValidateAndSetDefaults a) \<noteq>
     Some ErrAlertWithInvalidMinimumReminderInterval)"
    by (auto simp: Alert_ValidateAndSetDefaults_def valid_alert_def Let_def)
qed (rule Alert_ValidateAndSetDefaults_idem Merge_idem)+

end
