(* ===== verification/Maintenance.thy ===== *)
theory Maintenance
  imports Go_Time
begin

text \<open>
  \<open>config/maintenance/maintenance.go\<close>: the daily or weekly window during which no alert is
  sent. A time zone is what the time zone database answers for an instant, in Unix seconds: the
  offset of local time in force and the interval in which it is in force. \<open>local_midnight\<close>
  is \<open>time.Date\<close> at midnight of a day counted from 1970-01-01, \<open>Weekday\<close> the day of
  the week of such a day. Days are counted, so the day before the first of a month needs no care.
\<close>

type_synonym location = "int \<Rightarrow> int \<times> int \<times> int"

definition UTC :: location where
  "UTC t = (0, min_int64, max_int64)"

definition offset_at :: "location \<Rightarrow> instant \<Rightarrow> int" where
  "offset_at loc t = fst (loc (Unix t))"

definition day :: duration where "day = 86400000000000"

definition local_clock :: "location \<Rightarrow> instant \<Rightarrow> int" where
  "local_clock loc t = t + offset_at loc t * second"

definition local_day :: "location \<Rightarrow> instant \<Rightarrow> int" where
  "local_day loc t = local_clock loc t div day"

definition local_hour :: "location \<Rightarrow> instant \<Rightarrow> int" where
  "local_hour loc t = local_clock loc t mod day div hour"

definition local_midnight :: "location \<Rightarrow> int \<Rightarrow> instant" where
  "local_midnight loc d =
     (let unix = d * 86400;
          (offset, since, until) = loc unix;
          offset = (if offset \<noteq> 0 \<and> (unix - offset < since \<or> until \<le> unix - offset)
                    then fst (loc (unix - offset)) else offset)
      in (unix - offset) * second)"

definition longDayNames :: "string list" where
  "longDayNames = [''Sunday'', ''Monday'', ''Tuesday'', ''Wednesday'', ''Thursday'', ''Friday'',
     ''Saturday'']"

definition Weekday :: "int \<Rightarrow> string" where
  "Weekday d = longDayNames ! nat ((d + 4) mod 7)"

record Maintenance_Config =
  m_Enabled :: "bool option"
  m_Start :: string
  m_Duration :: duration
  m_Timezone :: string
  m_Every :: "string list"
  m_timezoneLocation :: "location option"
  m_durationToStartFromMidnight :: duration

datatype maintenance_error =
    errInvalidMaintenanceStartFormat
  | errInvalidMaintenanceStartNumber
  | errInvalidMaintenanceDuration
  | errInvalidDayName
  | errInvalidTimezone string

definition Maintenance_GetDefaultConfig :: Maintenance_Config where
  "Maintenance_GetDefaultConfig =
     \<lparr>m_Enabled = Some False, m_Start = [], m_Duration = 0, m_Timezone = [], m_Every = [],
      m_timezoneLocation = None, m_durationToStartFromMidnight = 0\<rparr>"

definition Maintenance_IsEnabled :: "Maintenance_Config \<Rightarrow> bool" where
  "Maintenance_IsEnabled c = (case m_Enabled c of None \<Rightarrow> True | Some b \<Rightarrow> b)"

definition hhmmToDuration :: "string \<Rightarrow> maintenance_error + duration" where
  "hhmmToDuration s =
     (if length s \<noteq> 5 then Inl errInvalidMaintenanceStartFormat
      else case Atoi (TrimPrefix (take 2 s) ''0'') of
             None \<Rightarrow> Inl errInvalidMaintenanceStartNumber
           | Some hours \<Rightarrow>
               (case Atoi (TrimPrefix (take 2 (drop 3 s)) ''0'') of
                  None \<Rightarrow> Inl errInvalidMaintenanceStartNumber
                | Some minutes \<Rightarrow>
                    (let d = hours * hour + minutes * minute in
                     if hours < 0 \<or> 23 < hours \<or> minutes < 0 \<or> 59 < minutes \<or> d < 0 \<or> 24 * hour \<le> d
                     then Inl errInvalidMaintenanceStartFormat else Inr d)))"

text \<open>
  The error, if any, and the configuration as the call leaves it. \<open>LoadLocation\<close> is the
  lookup of a zone in the time zone database.
\<close>

definition Maintenance_ValidateAndSetDefaults ::
  "(string \<Rightarrow> string + location) \<Rightarrow> Maintenance_Config \<Rightarrow>
   maintenance_error option \<times> Maintenance_Config" where
  "Maintenance_ValidateAndSetDefaults LoadLocation c =
     (if \<not> Maintenance_IsEnabled c then (None, c)
      else if list_ex (\<lambda>d. d \<notin> set longDayNames) (m_Every c) then (Some errInvalidDayName, c)
      else case hhmmToDuration (m_Start c) of
             Inl e \<Rightarrow> (Some e, c\<lparr>m_durationToStartFromMidnight := 0\<rparr>)
           | Inr d \<Rightarrow>
               (let c = c\<lparr>m_durationToStartFromMidnight := d\<rparr> in
                if m_Duration c \<le> 0 \<or> 24 * hour < m_Duration c
                  then (Some errInvalidMaintenanceDuration, c)
                else if m_Timezone c \<noteq> [] then
                  (case LoadLocation (m_Timezone c) of
                     Inl e \<Rightarrow> (Some (errInvalidTimezone e), c\<lparr>m_timezoneLocation := None\<rparr>)
                   | Inr loc \<Rightarrow> (None, c\<lparr>m_timezoneLocation := Some loc\<rparr>))
                else (None, c\<lparr>m_Timezone := ''UTC'', m_timezoneLocation := Some UTC\<rparr>)))"

text \<open>
  \<open>Local\<close> is the zone of the machine, which holds when no location has been set.
\<close>

definition IsUnderMaintenance :: "location \<Rightarrow> Maintenance_Config \<Rightarrow> instant \<Rightarrow> bool" where
  "IsUnderMaintenance Local c now =
     (if \<not> Maintenance_IsEnabled c then False
      else
        let loc = (case m_timezoneLocation c of None \<Rightarrow> Local | Some l \<Rightarrow> l);
            adjustedDate =
              (if local_hour loc now < m_durationToStartFromMidnight c sdiv hour
               then local_day loc now - 1 else local_day loc now);
            hasMaintenanceEveryDay = (m_Every c = []);
            scheduled = (Weekday adjustedDate \<in> set (m_Every c));
            startOfMaintenancePeriod = local_midnight loc adjustedDate + m_durationToStartFromMidnight c;
            endOfMaintenancePeriod = startOfMaintenancePeriod + m_Duration c
        in if \<not> hasMaintenanceEveryDay \<and> \<not> scheduled then False
           else startOfMaintenancePeriod < now \<and> now < endOfMaintenancePeriod)"

section \<open>Facts\<close>

lemma hhmmToDuration_range: "hhmmToDuration s = Inr d \<Longrightarrow> 0 \<le> d \<and> d < 24 * hour"
  by (auto simp: hhmmToDuration_def Let_def split: if_splits option.splits)

text \<open>What validation establishes of an enabled configuration.\<close>

definition valid_maintenance :: "Maintenance_Config \<Rightarrow> bool" where
  "valid_maintenance c \<longleftrightarrow>
     0 \<le> m_durationToStartFromMidnight c \<and> m_durationToStartFromMidnight c < 24 * hour \<and>
     0 < m_Duration c \<and> m_Duration c \<le> 24 * hour \<and> set (m_Every c) \<subseteq> set longDayNames \<and>
     m_timezoneLocation c \<noteq> None"

lemma Maintenance_validated:
  "Maintenance_ValidateAndSetDefaults ld c = (None, c') \<Longrightarrow> Maintenance_IsEnabled c \<Longrightarrow>
   valid_maintenance c' \<and> Maintenance_IsEnabled c'"
  by (auto simp: Maintenance_ValidateAndSetDefaults_def valid_maintenance_def list_ex_iff Let_def
      Maintenance_IsEnabled_def dest: hhmmToDuration_range split: if_splits sum.splits)

text \<open>The zones without transition, where the meaning of a window is plain.\<close>

definition fixed_zone :: "int \<Rightarrow> location" where
  "fixed_zone off t = (off, min_int64, max_int64)"

lemma UTC_fixed: "UTC = fixed_zone 0"
  by (simp add: UTC_def fixed_zone_def fun_eq_iff)

lemma local_clock_fixed [simp]: "local_clock (fixed_zone off) t = t + off * second"
  by (simp add: local_clock_def offset_at_def fixed_zone_def)

lemma local_midnight_fixed [simp]: "local_midnight (fixed_zone off) d = d * day - off * second"
  by (simp add: local_midnight_def fixed_zone_def Let_def day_def second_def algebra_simps)

text \<open>The window that opens on a day, in the time shown by the clocks of the zone.\<close>

definition in_window :: "Maintenance_Config \<Rightarrow> int \<Rightarrow> int \<Rightarrow> bool" where
  "in_window c d clock \<longleftrightarrow>
     d * day + m_durationToStartFromMidnight c < clock \<and>
     clock < d * day + m_durationToStartFromMidnight c + m_Duration c"

lemma window_day:
  fixes L s len D d :: int
  assumes s: "0 \<le> s" "s < 24 * hour" and len: "0 < len" "len + s mod hour \<le> 24 * hour"
    and win: "d * day + s < L" "L < d * day + s + len"
  shows "d = (if L mod day div hour < s div hour then L div day - 1 else L div day)"
proof -
  define D where "D = L div day"
  define r where "r = L mod day"
  have L: "L = D * day + r" and r: "0 \<le> r" "r < day" by (simp_all add: D_def r_def day_def)
  have sh: "s = s div hour * hour + s mod hour" by simp
  have "0 \<le> s mod hour" by (simp add: hour_def)
  have day: "day = 24 * hour" by (simp add: day_def hour_def)
  have "d * day < (D + 1) * day" using win(1) L r s by (simp add: algebra_simps)
  then have "d \<le> D" by (simp add: day_def)
  have "D * day < (d + 2) * day"
    using win(2) L r s len \<open>0 \<le> s mod hour\<close> day distrib_right [of d 2 day] by linarith
  then have "D - 1 \<le> d" by (simp add: day_def)
  show ?thesis
  proof (cases "d = D")
    case True
    then have "s \<le> r" using win(1) L by simp
    then have "s div hour \<le> r div hour" by (intro zdiv_mono1) (simp_all add: hour_def)
    with True show ?thesis by (simp add: D_def [symmetric] r_def [symmetric])
  next
    case False
    then have d: "d = D - 1" using \<open>d \<le> D\<close> \<open>D - 1 \<le> d\<close> by simp
    then have "D * day = d * day + day" by (simp add: left_diff_distrib)
    then have "r < s - s mod hour" using win(2) L len(2) day by linarith
    then have "r < s div hour * hour" by (simp only: minus_mod_eq_div_mult)
    then have "r div hour < s div hour" using r(1) by (simp add: hour_def)
    with d show ?thesis by (simp add: D_def [symmetric] r_def [symmetric])
  qed
qed

lemma IsUnderMaintenance_window:
  assumes valid: "valid_maintenance c" "Maintenance_IsEnabled c"
    and loc: "m_timezoneLocation c = Some (fixed_zone off)"
    and fits: "m_Duration c + m_durationToStartFromMidnight c mod hour \<le> 24 * hour"
  shows "IsUnderMaintenance Local c now \<longleftrightarrow>
    (\<exists>d. in_window c d (now + off * second) \<and> (m_Every c = [] \<or> Weekday d \<in> set (m_Every c)))"
proof -
  let ?L = "now + off * second" and ?s = "m_durationToStartFromMidnight c"
  let ?d = "if ?L mod day div hour < ?s div hour then ?L div day - 1 else ?L div day"
  have s: "0 \<le> ?s" "?s < 24 * hour" and len: "0 < m_Duration c"
    using valid(1) by (simp_all add: valid_maintenance_def)
  have sdiv: "?s sdiv hour = ?s div hour"
    using s(1) by (cases "?s = 0") (simp_all add: signed_divide_int_def hour_def)
  have "IsUnderMaintenance Local c now \<longleftrightarrow>
      in_window c ?d ?L \<and> (m_Every c = [] \<or> Weekday ?d \<in> set (m_Every c))"
    using valid(2) unfolding IsUnderMaintenance_def
    by (simp add: loc local_hour_def local_day_def sdiv in_window_def Let_def) linarith
  moreover have "in_window c d ?L \<Longrightarrow> d = ?d" for d
    using window_day [OF s len fits, of d ?L] by (simp add: in_window_def)
  ultimately show ?thesis by blast
qed

section \<open>Properties\<close>

text \<open>
  C32. For an enabled, validated maintenance configuration in a zone without transitions, whose
  duration and minutes of the starting time fit in a day together, an instant is under maintenance
  exactly when it lies strictly inside the window that opens at the starting time on some day, of
  the listed weekdays or any when none is listed.
\<close>

theorem maintenance_window_exact:
  assumes "valid_maintenance c" and "Maintenance_IsEnabled c"
    and "m_timezoneLocation c = Some (fixed_zone off)"
    and "m_Duration c + m_durationToStartFromMidnight c mod hour \<le> 24 * hour"
  shows "IsUnderMaintenance Local c now \<longleftrightarrow>
    (\<exists>d. d * day + m_durationToStartFromMidnight c < now + off * second \<and>
         now + off * second < d * day + m_durationToStartFromMidnight c + m_Duration c \<and>
         (m_Every c = [] \<or> Weekday d \<in> set (m_Every c)))"
  using IsUnderMaintenance_window [OF assms] by (auto simp: in_window_def)

definition night_window :: Maintenance_Config where
  "night_window = \<lparr>m_Enabled = None, m_Start = ''23:30'', m_Duration = 2 * hour, m_Timezone = [],
     m_Every = [''Thursday''], m_timezoneLocation = Some (fixed_zone 0),
     m_durationToStartFromMidnight = 23 * hour + 30 * minute\<rparr>"

text \<open>Friday at 0:15, inside the window that opened on Thursday 1970-01-01 at 23:30.\<close>

theorem maintenance_window_exact_witness:
  "IsUnderMaintenance UTC night_window (day + 15 * minute)"
proof -
  have w: "valid_maintenance night_window" "Maintenance_IsEnabled night_window"
    "m_timezoneLocation night_window = Some (fixed_zone 0)"
    "m_Duration night_window + m_durationToStartFromMidnight night_window mod hour \<le> 24 * hour"
    by (simp_all add: valid_maintenance_def night_window_def Maintenance_IsEnabled_def
        longDayNames_def duration_units)
  have "Weekday 0 = ''Thursday''" by (simp add: Weekday_def longDayNames_def)
  then show ?thesis
    unfolding maintenance_window_exact [OF w]
    by (intro exI [of _ 0]) (simp add: night_window_def duration_units day_def)
qed

text \<open>
  Without the bound on the minutes the window is cut: one that opens every day at 10:30 for 24
  hours is closed from 10:00 to 10:30, which the window of the day before covers.
\<close>

lemma maintenance_window_cut:
  "let c = night_window\<lparr>m_Every := [], m_Duration := 24 * hour,
             m_durationToStartFromMidnight := 10 * hour + 30 * minute\<rparr>;
       now = day + 10 * hour + 15 * minute
   in valid_maintenance c \<and> in_window c 0 now \<and> \<not> IsUnderMaintenance UTC c now"
  by (simp add: night_window_def valid_maintenance_def in_window_def IsUnderMaintenance_def
      Maintenance_IsEnabled_def local_hour_def local_day_def duration_units day_def Let_def
      signed_divide_int_def)

end
