(* ===== verification/Tunneling.thy ===== *)
theory Tunneling
  imports Go_Time
begin

text \<open>
  \<open>config/tunneling/\<close>: named SSH tunnels, created on first use and shared by every client
  that names them, and the dialling through a tunnel with its reconnections. What the SSH library
  answers is the record \<open>ssh_lib\<close>: for the n-th attempt of a call, the outcome of
  connecting to the server and of dialling through a client. A client is a number.
\<close>

record SSHTunnel_Config =
  t_Type :: string
  t_Host :: string
  t_Port :: int
  t_Username :: string
  t_PrivateKey :: string
  t_Password :: string

definition SSHTunnel_ValidateAndSetDefaults ::
  "SSHTunnel_Config \<Rightarrow> string option \<times> SSHTunnel_Config" where
  "SSHTunnel_ValidateAndSetDefaults c =
     (if t_Type c \<noteq> ''SSH'' then (Some (''unsupported tunnel type: '' @ t_Type c), c)
      else if t_Host c = [] then (Some ''host is required'', c)
      else if t_Username c = [] then (Some ''username is required'', c)
      else if t_PrivateKey c = [] \<and> t_Password c = [] then
        (Some ''either private-key or password is required'', c)
      else if t_Port c = 0 then (None, c\<lparr>t_Port := 22\<rparr>)
      else (None, c))"

datatype auth_method = PublicKeys string | Password string

type_synonym client_id = nat

record SSHTunnel =
  tu_config :: SSHTunnel_Config
  tu_client :: "client_id option"
  tu_authMethods :: "auth_method list"

record ssh_lib =
  ParsePrivateKey :: "string \<Rightarrow> string option"
  ssh_Dial :: "nat \<Rightarrow> string + client_id"
  client_Dial :: "nat \<Rightarrow> client_id \<Rightarrow> string + nat"

definition New_SSHTunnel :: "ssh_lib \<Rightarrow> SSHTunnel_Config \<Rightarrow> SSHTunnel" where
  "New_SSHTunnel lib config =
     \<lparr>tu_config = config, tu_client = None,
      tu_authMethods =
        (if t_PrivateKey config \<noteq> [] then
           (case ParsePrivateKey lib (t_PrivateKey config) of
              Some signer \<Rightarrow> [PublicKeys signer]
            | None \<Rightarrow> [])
         else if t_Password config \<noteq> [] then [Password (t_Password config)]
         else [])\<rparr>"

definition connectUnsafe :: "ssh_lib \<Rightarrow> nat \<Rightarrow> SSHTunnel \<Rightarrow> string option \<times> SSHTunnel" where
  "connectUnsafe lib attempt t =
     (if tu_authMethods t = [] then (Some ''no authentication method available'', t)
      else case ssh_Dial lib attempt of
             Inl e \<Rightarrow> (Some (''SSH connection failed: '' @ e), t)
           | Inr client \<Rightarrow> (None, t\<lparr>tu_client := Some client\<rparr>))"

definition Close_SSHTunnel :: "SSHTunnel \<Rightarrow> SSHTunnel" where
  "Close_SSHTunnel t = t\<lparr>tu_client := None\<rparr>"

definition maxRetries :: nat where "maxRetries = 3"

definition baseDelay :: duration where "baseDelay = 500 * millisecond"

text \<open>
  The retry loop of \<open>Dial\<close>: the attempts left, the client in use, the last error and the
  time slept so far. It returns the connection or the last error, the tunnel and the time slept.
\<close>

fun dial_attempts ::
  "ssh_lib \<Rightarrow> nat list \<Rightarrow> SSHTunnel \<Rightarrow> client_id \<Rightarrow> string \<Rightarrow> duration \<Rightarrow>
   (string + nat) \<times> SSHTunnel \<times> duration" where
  "dial_attempts lib [] t client lastErr slept =
     (Inl (''SSH tunnel dial failed after '' @ nat_dec maxRetries @ '' attempts: '' @ lastErr), t, slept)"
| "dial_attempts lib (attempt # rest) t client lastErr slept =
     (if attempt = 0 then
        (case client_Dial lib attempt client of
           Inr conn \<Rightarrow> (Inr conn, t, slept)
         | Inl e \<Rightarrow> dial_attempts lib rest t client e slept)
      else
        let slept = slept + baseDelay * 2 ^ (attempt - 1);
            (err, t) = connectUnsafe lib attempt (Close_SSHTunnel t)
        in case err of
             Some e \<Rightarrow>
               dial_attempts lib rest t client
                 (''reconnect attempt '' @ nat_dec attempt @ '' failed: '' @ e) slept
           | None \<Rightarrow>
               (let client = the (tu_client t) in
                case client_Dial lib attempt client of
                  Inr conn \<Rightarrow> (Inr conn, t, slept)
                | Inl e \<Rightarrow> dial_attempts lib rest t client e slept))"

definition Dial ::
  "ssh_lib \<Rightarrow> SSHTunnel \<Rightarrow> (string + nat) \<times> SSHTunnel \<times> duration" where
  "Dial lib t =
     (case tu_client t of
        Some client \<Rightarrow> dial_attempts lib [0..<maxRetries] t client [] 0
      | None \<Rightarrow>
          (case connectUnsafe lib 0 t of
             (Some e, t) \<Rightarrow> (Inl e, t, 0)
           | (None, t) \<Rightarrow> dial_attempts lib [0..<maxRetries] t (the (tu_client t)) [] 0))"

section \<open>The tunnels of a configuration\<close>

record Tunneling_Config =
  tc_Tunnels :: "(string \<times> SSHTunnel_Config) list"
  tc_connections :: "(string \<times> SSHTunnel) list"

fun validate_tunnels ::
  "(string \<times> SSHTunnel_Config) list \<Rightarrow> string option \<times> (string \<times> SSHTunnel_Config) list" where
  "validate_tunnels [] = (None, [])"
| "validate_tunnels ((name, config) # rest) =
     (case SSHTunnel_ValidateAndSetDefaults config of
        (Some e, config') \<Rightarrow> (Some (''tunnel '' @ name @ '': '' @ e), (name, config') # rest)
      | (None, config') \<Rightarrow>
          (case validate_tunnels rest of (err, rest') \<Rightarrow> (err, (name, config') # rest')))"

definition Tunneling_ValidateAndSetDefaults ::
  "Tunneling_Config \<Rightarrow> string option \<times> Tunneling_Config" where
  "Tunneling_ValidateAndSetDefaults tc =
     (case validate_tunnels (tc_Tunnels tc) of (err, ts) \<Rightarrow> (err, tc\<lparr>tc_Tunnels := ts\<rparr>))"

definition GetTunnel ::
  "ssh_lib \<Rightarrow> Tunneling_Config \<Rightarrow> string \<Rightarrow> (string + SSHTunnel) \<times> Tunneling_Config" where
  "GetTunnel lib tc name =
     (if name = [] then (Inl ''tunnel name cannot be empty'', tc)
      else case map_of (tc_connections tc) name of
             Some tunnel \<Rightarrow> (Inr tunnel, tc)
           | None \<Rightarrow>
               (case map_of (tc_Tunnels tc) name of
                  None \<Rightarrow> (Inl (''tunnel '' @ name @ '' not found in configuration''), tc)
                | Some config \<Rightarrow>
                    (let tunnel = New_SSHTunnel lib config in
                     (Inr tunnel, tc\<lparr>tc_connections := (name, tunnel) # tc_connections tc\<rparr>))))"

definition Close_Tunneling :: "Tunneling_Config \<Rightarrow> Tunneling_Config" where
  "Close_Tunneling tc = tc\<lparr>tc_connections := []\<rparr>"

section \<open>Facts\<close>

lemma GetTunnel_again:
  "GetTunnel lib tc name = (Inr t, tc') \<Longrightarrow> GetTunnel lib tc' name = (Inr t, tc')"
  by (auto simp: GetTunnel_def Let_def split: if_splits option.splits)

lemma GetTunnel_other:
  "GetTunnel lib tc name = (r, tc') \<Longrightarrow> name' \<noteq> name \<Longrightarrow>
   map_of (tc_connections tc') name' = map_of (tc_connections tc) name'"
  by (auto simp: GetTunnel_def Let_def split: if_splits option.splits)

lemma connectUnsafe_config [simp]:
  "tu_config (snd (connectUnsafe lib n t)) = tu_config t"
  "tu_authMethods (snd (connectUnsafe lib n t)) = tu_authMethods t"
  by (auto simp: connectUnsafe_def split: sum.splits)

lemma Close_SSHTunnel_simps [simp]:
  "tu_authMethods (Close_SSHTunnel t) = tu_authMethods t" "tu_config (Close_SSHTunnel t) = tu_config t"
  by (simp_all add: Close_SSHTunnel_def)

lemma upt_maxRetries: "[0..<maxRetries] = [0, 1, 2]"
  by (simp add: maxRetries_def upt_rec)

text \<open>The loop sleeps at most the sum of the delays before its attempts.\<close>

definition attempt_delay :: "nat \<Rightarrow> duration" where
  "attempt_delay n = (if n = 0 then 0 else baseDelay * 2 ^ (n - 1))"

lemma attempt_delay_nonneg: "0 \<le> attempt_delay n"
  by (simp add: attempt_delay_def baseDelay_def millisecond_def)

lemma dial_attempts_slept:
  "snd (snd (dial_attempts lib as t c e s)) \<le> s + sum_list (map attempt_delay as)"
proof (induction lib as t c e s rule: dial_attempts.induct)
  case (2 lib a rest t c e s)
  have rest: "0 \<le> sum_list (map attempt_delay rest)"
    using attempt_delay_nonneg by (intro sum_list_nonneg) auto
  show ?case
  proof (cases "a = 0")
    case True
    then have "attempt_delay a = 0" by (simp add: attempt_delay_def)
    with True 2(1) rest show ?thesis by (auto split: sum.splits)
  next
    case False
    obtain err t' where con: "connectUnsafe lib a (Close_SSHTunnel t) = (err, t')" by fastforce
    have "attempt_delay a = baseDelay * 2 ^ (a - 1)" using False by (simp add: attempt_delay_def)
    then show ?thesis
      using 2(2,3) [OF False refl con [symmetric] refl] False con rest
      by (fastforce simp: Let_def split: sum.splits option.splits)
  qed
qed simp

lemma Dial_slept: "snd (snd (Dial lib t)) \<le> 1500 * millisecond"
proof -
  have "sum_list (map attempt_delay [0, 1, 2]) = 1500 * millisecond"
    by (simp add: attempt_delay_def baseDelay_def)
  then have "snd (snd (dial_attempts lib [0, 1, 2] t c e 0)) \<le> 1500 * millisecond" for t c e
    using dial_attempts_slept [of lib "[0, 1, 2]" t c e 0] by simp
  then show ?thesis
    by (auto simp: Dial_def upt_maxRetries millisecond_def simp del: dial_attempts.simps
        split: option.splits prod.splits)
qed

section \<open>Properties\<close>

text \<open>
  C40. Dialling through a connected tunnel with an authentication method succeeds exactly when
  the client in use can dial or one of the two reconnections succeeds and its client can; it never
  sleeps more than a second and a half, and fails only after all three attempts.
\<close>

theorem Dial_retries:
  assumes "tu_client t = Some c" and "tu_authMethods t \<noteq> []"
  shows "((\<exists>conn. fst (Dial lib t) = Inr conn) \<longleftrightarrow>
      (\<exists>conn. client_Dial lib 0 c = Inr conn) \<or>
      (\<exists>n \<in> {1, 2}. \<exists>c' conn. ssh_Dial lib n = Inr c' \<and> client_Dial lib n c' = Inr conn)) \<and>
    snd (snd (Dial lib t)) \<le> 1500 * millisecond"
proof
  show "snd (snd (Dial lib t)) \<le> 1500 * millisecond"
    by (rule Dial_slept)
  show "(\<exists>conn. fst (Dial lib t) = Inr conn) \<longleftrightarrow>
      (\<exists>conn. client_Dial lib 0 c = Inr conn) \<or>
      (\<exists>n \<in> {1, 2}. \<exists>c' conn. ssh_Dial lib n = Inr c' \<and> client_Dial lib n c' = Inr conn)"
    using assms
    by (auto simp: Dial_def upt_maxRetries connectUnsafe_def Close_SSHTunnel_def Let_def
        split: sum.splits)
qed

theorem Dial_retries_witness:
  "\<exists>conn. fst (Dial \<lparr>ParsePrivateKey = Some, ssh_Dial = (\<lambda>n. Inr n),
      client_Dial = (\<lambda>n c. if n < 2 then Inl ''closed'' else Inr 7)\<rparr>
    \<lparr>tu_config = \<lparr>t_Type = ''SSH'', t_Host = ''h'', t_Port = 22, t_Username = ''u'',
       t_PrivateKey = [], t_Password = ''p''\<rparr>, tu_client = Some 9,
     tu_authMethods = [Password ''p'']\<rparr>) = Inr conn"
  by (subst Dial_retries [of _ 9, THEN conjunct1]) auto

end
