(* ===== verification/Client_Config.thy ===== *)
theory Client_Config
  imports Tunneling
begin

text \<open>
  \<open>client/config.go\<close>: the configuration of the client of an endpoint and its validation. The
  HTTP client it is turned into is not modelled. The loading of a certificate and its key from
  files is an argument.
\<close>

record OAuth2Config =
  oa_TokenURL :: string
  oa_ClientID :: string
  oa_ClientSecret :: string
  oa_Scopes :: "string list"

record IAPConfig =
  iap_Audience :: string

record TLSConfig =
  tls_CertificateFile :: string
  tls_PrivateKeyFile :: string
  tls_RenegotiationSupport :: string

record Client_Config =
  cl_ProxyURL :: string
  cl_Insecure :: bool
  cl_IgnoreRedirect :: bool
  cl_Timeout :: duration
  cl_DNSResolver :: string
  cl_OAuth2Config :: "OAuth2Config option"
  cl_IAPConfig :: "IAPConfig option"
  cl_Network :: string
  cl_TLS :: "TLSConfig option"
  cl_Tunnel :: string
  cl_ResolvedTunnel :: "SSHTunnel option"
  cl_StoreCookies :: bool

record DNSResolverConfig =
  dr_Protocol :: string
  dr_Host :: string
  dr_Port :: string

datatype client_error =
    ErrInvalidDNSResolver
  | ErrInvalidDNSResolverPort
  | ErrDNSResolverPortNumber
  | ErrInvalidClientOAuth2Config
  | ErrInvalidClientIAPConfig
  | ErrInvalidClientTLSConfig
  | ErrClientTLSKeyPair string

definition defaultTimeout :: duration where "defaultTimeout = 10 * second"

definition Client_GetDefaultConfig :: Client_Config where
  "Client_GetDefaultConfig =
     \<lparr>cl_ProxyURL = [], cl_Insecure = False, cl_IgnoreRedirect = False, cl_Timeout = defaultTimeout,
      cl_DNSResolver = [], cl_OAuth2Config = None, cl_IAPConfig = None, cl_Network = ''ip'',
      cl_TLS = None, cl_Tunnel = [], cl_ResolvedTunnel = None, cl_StoreCookies = False\<rparr>"

section \<open>The DNS resolver\<close>

text \<open>
  The pattern \<open>^(.*)://([A-Za-z0-9\-\.]+):([0-9]+)?(.*)$\<close>: the protocol is as long as
  possible, so the last place where the rest fits is taken; the host and the port are the longest
  runs of their characters.
\<close>

definition is_host_char :: "char \<Rightarrow> bool" where
  "is_host_char c \<longleftrightarrow>
     is_digit c \<or> (let n = of_char c :: nat in 65 \<le> n \<and> n \<le> 90 \<or> 97 \<le> n \<and> n \<le> 122) \<or>
     c \<in> {CHR ''-'', CHR ''.''}"

definition match_host_port :: "string \<Rightarrow> (string \<times> string) option" where
  "match_host_port s =
     (let host = takeWhile is_host_char s; rest = dropWhile is_host_char s
      in if host \<noteq> [] \<and> rest \<noteq> [] \<and> hd rest = CHR '':''
         then Some (host, takeWhile is_digit (tl rest)) else None)"

fun match_resolver :: "string \<Rightarrow> string \<Rightarrow> DNSResolverConfig option" where
  "match_resolver before [] = None"
| "match_resolver before (c # s) =
     (case match_resolver (c # before) s of
        Some r \<Rightarrow> Some r
      | None \<Rightarrow>
          if prefix ''://'' (c # s) then
            (case match_host_port (drop 3 (c # s)) of
               None \<Rightarrow> None
             | Some (host, port) \<Rightarrow>
                 Some \<lparr>dr_Protocol = rev before, dr_Host = host, dr_Port = port\<rparr>)
          else None)"

definition parseDNSResolver :: "Client_Config \<Rightarrow> client_error + DNSResolverConfig" where
  "parseDNSResolver c =
     (case (if CHR 0x0A \<in> set (cl_DNSResolver c) then None
            else match_resolver [] (cl_DNSResolver c)) of
        None \<Rightarrow> Inl ErrInvalidDNSResolver
      | Some r \<Rightarrow>
          (case Atoi (dr_Port r) of
             None \<Rightarrow> Inl ErrDNSResolverPortNumber
           | Some port \<Rightarrow>
               if port < 1 \<or> 65535 < port then Inl ErrInvalidDNSResolverPort else Inr r))"

section \<open>Validation\<close>

definition HasCustomDNSResolver :: "Client_Config \<Rightarrow> bool" where
  "HasCustomDNSResolver c \<longleftrightarrow> 0 < length (cl_DNSResolver c)"

definition HasOAuth2Config :: "Client_Config \<Rightarrow> bool" where
  "HasOAuth2Config c \<longleftrightarrow> cl_OAuth2Config c \<noteq> None"

definition HasIAPConfig :: "Client_Config \<Rightarrow> bool" where
  "HasIAPConfig c \<longleftrightarrow> cl_IAPConfig c \<noteq> None"

definition HasTLSConfig :: "Client_Config \<Rightarrow> bool" where
  "HasTLSConfig c =
     (case cl_TLS c of
        None \<Rightarrow> False
      | Some t \<Rightarrow> 0 < length (tls_CertificateFile t) \<and> 0 < length (tls_PrivateKeyFile t))"

definition OAuth2Config_isValid :: "OAuth2Config \<Rightarrow> bool" where
  "OAuth2Config_isValid c \<longleftrightarrow>
     oa_TokenURL c \<noteq> [] \<and> oa_ClientID c \<noteq> [] \<and> oa_ClientSecret c \<noteq> [] \<and> oa_Scopes c \<noteq> []"

definition IAPConfig_isValid :: "IAPConfig \<Rightarrow> bool" where
  "IAPConfig_isValid c \<longleftrightarrow> iap_Audience c \<noteq> []"

definition TLSConfig_isValid ::
  "(string \<Rightarrow> string \<Rightarrow> string option) \<Rightarrow> TLSConfig \<Rightarrow> client_error option" where
  "TLSConfig_isValid LoadX509KeyPair t =
     (if tls_CertificateFile t \<noteq> [] \<and> tls_PrivateKeyFile t \<noteq> [] then
        map_option ErrClientTLSKeyPair (LoadX509KeyPair (tls_CertificateFile t) (tls_PrivateKeyFile t))
      else Some ErrInvalidClientTLSConfig)"

definition Client_ValidateAndSetDefaults ::
  "(string \<Rightarrow> string \<Rightarrow> string option) \<Rightarrow> Client_Config \<Rightarrow> client_error option \<times> Client_Config" where
  "Client_ValidateAndSetDefaults LoadX509KeyPair c0 =
     (let c = (if cl_Timeout c0 < millisecond then c0\<lparr>cl_Timeout := 10 * second\<rparr> else c0)
      in if HasCustomDNSResolver c \<and> isl (parseDNSResolver c) then (Some (projl (parseDNSResolver c)), c)
         else if HasOAuth2Config c \<and> \<not> OAuth2Config_isValid (the (cl_OAuth2Config c)) then
           (Some ErrInvalidClientOAuth2Config, c)
         else if HasIAPConfig c \<and> \<not> IAPConfig_isValid (the (cl_IAPConfig c)) then
           (Some ErrInvalidClientIAPConfig, c)
         else if HasTLSConfig c then (TLSConfig_isValid LoadX509KeyPair (the (cl_TLS c)), c)
         else (None, c))"

section \<open>Facts\<close>

lemma Client_Validate_timeout:
  "Client_ValidateAndSetDefaults ld c = (e, c') \<Longrightarrow> millisecond \<le> cl_Timeout c'"
  by (auto simp: Client_ValidateAndSetDefaults_def Let_def duration_units split: if_splits)

text \<open>
  The error for a certificate without its key, or a key without its certificate, is never reported:
  such a configuration passes, since it does not count as a TLS configuration.
\<close>

lemma half_TLS_config_accepted:
  "fst (Client_ValidateAndSetDefaults ld c) \<noteq> Some ErrInvalidClientTLSConfig"
proof -
  have "isl (parseDNSResolver c) \<Longrightarrow> projl (parseDNSResolver c) \<noteq> ErrInvalidClientTLSConfig" for c
    by (auto simp: parseDNSResolver_def split: option.splits if_splits)
  then show ?thesis
    by (auto simp: Client_ValidateAndSetDefaults_def TLSConfig_isValid_def HasTLSConfig_def Let_def
        split: option.splits)
qed

lemma match_host_port_chars:
  "match_host_port s = Some (h, p) \<Longrightarrow> h \<noteq> [] \<and> (\<forall>c \<in> set h. is_host_char c) \<and> (\<forall>c \<in> set p. is_digit c)"
  by (auto simp: match_host_port_def Let_def dest: set_takeWhileD split: if_splits)

lemma match_host_port_prefix:
  assumes "match_host_port s = Some (h, p)"
  shows "prefix (h @ '':'' @ p) s"
proof -
  from assms obtain t where t: "dropWhile is_host_char s = CHR '':'' # t"
    and h: "h = takeWhile is_host_char s" and p: "p = takeWhile is_digit t"
    by (cases "dropWhile is_host_char s") (auto simp: match_host_port_def Let_def split: if_splits)
  have "s = h @ CHR '':'' # t" unfolding h t [symmetric] by simp
  moreover have "t = p @ dropWhile is_digit t" unfolding p by simp
  ultimately have "s = (h @ '':'' @ p) @ dropWhile is_digit t" by simp
  then show ?thesis by (rule prefixI)
qed

lemma match_resolver_prefix:
  "match_resolver before s = Some r \<Longrightarrow>
   prefix (dr_Protocol r @ ''://'' @ dr_Host r @ '':'' @ dr_Port r) (rev before @ s) \<and>
   dr_Host r \<noteq> [] \<and> (\<forall>c \<in> set (dr_Host r). is_host_char c)"
proof (induction before s rule: match_resolver.induct)
  case (2 before c s)
  show ?case
  proof (cases "match_resolver (c # before) s")
    case (Some r')
    with 2 show ?thesis by auto
  next
    case None
    with "2.prems" obtain h p where hp: "prefix ''://'' (c # s)" "match_host_port (drop 3 (c # s)) = Some (h, p)"
      and r: "r = \<lparr>dr_Protocol = rev before, dr_Host = h, dr_Port = p\<rparr>"
      by (auto split: if_splits option.splits)
    from hp(1) have "c # s = ''://'' @ drop 3 (c # s)" by (auto simp: prefix_def)
    with match_host_port_prefix [OF hp(2)]
    have "prefix (rev before @ ''://'' @ h @ '':'' @ p) (rev before @ c # s)"
      by (metis append.assoc same_prefix_prefix)
    with r match_host_port_chars [OF hp(2)] show ?thesis by auto
  qed
qed simp

section \<open>Properties\<close>

text \<open>
  An accepted DNS resolver starts with its protocol, ://, a host of host characters, a
  colon and a decimal port between 1 and 65535, which are what the client dials.
\<close>

theorem parseDNSResolver_sound:
  assumes "parseDNSResolver c = Inr r"
  shows "prefix (dr_Protocol r @ ''://'' @ dr_Host r @ '':'' @ dr_Port r) (cl_DNSResolver c) \<and>
    dr_Host r \<noteq> [] \<and> (\<forall>x \<in> set (dr_Host r). is_host_char x) \<and>
    (\<exists>port. Atoi (dr_Port r) = Some port \<and> 1 \<le> port \<and> port \<le> 65535)"
proof -
  from assms have "match_resolver [] (cl_DNSResolver c) = Some r"
    and "\<exists>port. Atoi (dr_Port r) = Some port \<and> 1 \<le> port \<and> port \<le> 65535"
    by (auto simp: parseDNSResolver_def split: option.splits if_splits)
  with match_resolver_prefix [of "[]"] show ?thesis by fastforce
qed

theorem parseDNSResolver_sound_witness:
  "prefix ''tcp://8.8.8.8:53'' (cl_DNSResolver (Client_GetDefaultConfig\<lparr>cl_DNSResolver := ''tcp://8.8.8.8:53''\<rparr>))"
proof -
  have "parseDNSResolver (Client_GetDefaultConfig\<lparr>cl_DNSResolver := ''tcp://8.8.8.8:53''\<rparr>) =
      Inr \<lparr>dr_Protocol = ''tcp'', dr_Host = ''8.8.8.8'', dr_Port = ''53''\<rparr>"
    by code_simp
  from parseDNSResolver_sound [OF this] show ?thesis by simp
qed

end
