(* ===== verification/Endpoint_Result.thy ===== *)
theory Endpoint_Result
  imports Key Go_Values
begin

text \<open>
  The data of \<open>config/endpoint/\<close> that a health evaluation produces and the storage keeps:
  \<open>result.go\<close>, \<open>condition_result.go\<close>, \<open>event.go\<close>, \<open>uptime.go\<close> and
  \<open>status.go\<close>. A record stands for the object that a pointer of the source leads to; a
  field keeps its name, after a prefix that names the record.
\<close>

record ConditionResult =
  cr_Condition :: string
  cr_Success :: bool

record Result =
  r_HTTPStatus :: int
  r_DNSRCode :: string
  r_Hostname :: string
  r_IP :: string
  r_Connected :: bool
  r_Duration :: duration
  r_Errors :: "string list"
  r_ConditionResults :: "ConditionResult list"
  r_Success :: bool
  r_Timestamp :: instant
  r_CertificateExpiration :: duration
  r_DomainExpiration :: duration
  r_Body :: string
  r_port :: string
  r_Name :: string

text \<open>\<open>&Result{}\<close>\<close>

definition empty_Result :: Result where
  "empty_Result =
     \<lparr>r_HTTPStatus = 0, r_DNSRCode = [], r_Hostname = [], r_IP = [], r_Connected = False,
      r_Duration = 0, r_Errors = [], r_ConditionResults = [], r_Success = False,
      r_Timestamp = zero_time, r_CertificateExpiration = 0, r_DomainExpiration = 0,
      r_Body = [], r_port = [], r_Name = []\<rparr>"

definition AddError :: "Result \<Rightarrow> string \<Rightarrow> Result" where
  "AddError r error =
     (if error \<notin> set (r_Errors r) then r\<lparr>r_Errors := r_Errors r @ [error]\<rparr> else r)"

datatype EventType = EventStart | EventHealthy | EventUnhealthy

record Event =
  ev_Type :: EventType
  ev_Timestamp :: instant

definition NewEventFromResult :: "Result \<Rightarrow> Event" where
  "NewEventFromResult result =
     \<lparr>ev_Type = (if r_Success result then EventHealthy else EventUnhealthy),
      ev_Timestamp = r_Timestamp result\<rparr>"

record HourlyUptimeStatistics =
  TotalExecutions :: int
  SuccessfulExecutions :: int
  TotalExecutionsResponseTime :: int

record Uptime =
  HourlyStatistics :: "(int \<times> HourlyUptimeStatistics) list"

definition NewUptime :: Uptime where
  "NewUptime = \<lparr>HourlyStatistics = []\<rparr>"

record Status =
  st_Name :: string
  st_Group :: string
  st_Key :: string
  st_Results :: "Result list"
  st_ResultsCount :: int
  st_Events :: "Event list"
  st_Uptime :: Uptime

definition NewStatus :: "string \<Rightarrow> string \<Rightarrow> Status" where
  "NewStatus groupName name =
     \<lparr>st_Name = name, st_Group = groupName, st_Key = ConvertGroupAndNameToKey groupName name,
      st_Results = [], st_ResultsCount = 0, st_Events = [], st_Uptime = NewUptime\<rparr>"

lemma set_AddError [simp]: "set (r_Errors (AddError r e)) = insert e (set (r_Errors r))"
  by (auto simp: AddError_def)

lemma distinct_AddError [simp, intro]:
  "distinct (r_Errors r) \<Longrightarrow> distinct (r_Errors (AddError r e))"
  by (auto simp: AddError_def)

lemma AddError_other [simp]:
  "r_ConditionResults (AddError r e) = r_ConditionResults r"
  "r_Success (AddError r e) = r_Success r" "r_Timestamp (AddError r e) = r_Timestamp r"
  "r_Body (AddError r e) = r_Body r" "r_Duration (AddError r e) = r_Duration r"
  "r_Hostname (AddError r e) = r_Hostname r" "r_port (AddError r e) = r_port r"
  "r_HTTPStatus (AddError r e) = r_HTTPStatus r" "r_Name (AddError r e) = r_Name r"
  by (simp_all add: AddError_def)

lemma AddError_ne [simp]: "r_Errors (AddError r e) \<noteq> []"
  by (auto simp: AddError_def)

lemma prefix_AddError: "prefix (r_Errors r) (r_Errors (AddError r e))"
  by (simp add: AddError_def)

lemma NewStatus_simps [simp]:
  "st_Name (NewStatus g n) = n" "st_Group (NewStatus g n) = g"
  "st_Key (NewStatus g n) = ConvertGroupAndNameToKey g n"
  "st_Results (NewStatus g n) = []" "st_Events (NewStatus g n) = []"
  "st_Uptime (NewStatus g n) = NewUptime"
  by (simp_all add: NewStatus_def)

end
