(* ===== verification/Gontext.thy ===== *)
theory Gontext
  imports Go_Values
begin

text \<open>
  \<open>config/gontext/gontext.go\<close>: the values that the endpoints of a suite share. A context is
  a map whose values are read and written by a dotted path, intermediate maps being created on the
  way. The read-write mutex makes each operation atomic; the copies that \<open>New\<close> and
  \<open>GetAll\<close> make are equal to what they copy, and the model has no aliasing to break.

  The locale \<open>path_store\<close> is the contract that suites rely on.
\<close>

record gontext =
  ctx_values :: gomap

datatype gontext_error = ErrGontextPathNotFound string

fun deepCopyValue :: "goval \<Rightarrow> goval" where
  "deepCopyValue (VMap kvs) = VMap (map (\<lambda>(k, v). (k, deepCopyValue v)) kvs)"
| "deepCopyValue (VList vs) = VList (map deepCopyValue vs)"
| "deepCopyValue v = v"

definition New :: "gomap option \<Rightarrow> gontext" where
  "New initial =
     \<lparr>ctx_values = (case initial of None \<Rightarrow> [] | Some m \<Rightarrow> map (\<lambda>(k, v). (k, deepCopyValue v)) m)\<rparr>"

text \<open>The loop of \<open>Get\<close> over the parts of the path.\<close>

fun get_parts :: "goval \<Rightarrow> string list \<Rightarrow> goval option" where
  "get_parts current [] = Some current"
| "get_parts current (part # parts) =
     (case current of
        VMap v \<Rightarrow> (case map_of v part of None \<Rightarrow> None | Some val \<Rightarrow> get_parts val parts)
      | _ \<Rightarrow> None)"

definition Get :: "gontext \<Rightarrow> string \<Rightarrow> gontext_error + goval" where
  "Get g path =
     (case get_parts (VMap (ctx_values g)) (Split path ''.'') of
        None \<Rightarrow> Inl (ErrGontextPathNotFound path)
      | Some v \<Rightarrow> Inr v)"

text \<open>
  \<open>Set\<close> descends to the parent of the target, creating maps where there is none and
  replacing a value that is not a map, and stores the value there.
\<close>

fun set_parts :: "gomap \<Rightarrow> string list \<Rightarrow> goval \<Rightarrow> gomap" where
  "set_parts m [] v = m"
| "set_parts m [part] v = AList.update part v m"
| "set_parts m (part # p # ps) v =
     (let sub = (case map_of m part of Some (VMap m') \<Rightarrow> m' | _ \<Rightarrow> [])
      in AList.update part (VMap (set_parts sub (p # ps) v)) m)"

definition Set :: "gontext \<Rightarrow> string \<Rightarrow> goval \<Rightarrow> gontext" where
  "Set g path v = g\<lparr>ctx_values := set_parts (ctx_values g) (Split path ''.'') v\<rparr>"

definition GetAll :: "gontext \<Rightarrow> gomap" where
  "GetAll g = map (\<lambda>(k, v). (k, deepCopyValue v)) (ctx_values g)"

section \<open>Facts\<close>

lemma deepCopyValue_id [simp]: "deepCopyValue v = v"
  by (induction v rule: deepCopyValue.induct) (auto intro!: map_idI)

lemma New_values [simp]: "ctx_values (New (Some m)) = m" "ctx_values (New None) = []"
  by (simp_all add: New_def map_idI)

lemma GetAll_values [simp]: "GetAll g = ctx_values g"
  by (simp add: GetAll_def map_idI)

lemma get_set_parts: "ps \<noteq> [] \<Longrightarrow> get_parts (VMap (set_parts m ps v)) ps = Some v"
  by (induction m ps v rule: set_parts.induct) (simp_all add: map_of_update Let_def)

lemma wf_set_parts: "wf_map m \<Longrightarrow> wf_val v \<Longrightarrow> wf_map (set_parts m ps v)"
proof (induction m ps v rule: set_parts.induct)
  case (3 m part p ps v)
  let ?sub = "case map_of m part of Some (VMap m') \<Rightarrow> m' | _ \<Rightarrow> []"
  have "wf_map ?sub"
    using wf_map_lookup [OF "3.prems"(1), of part] by (auto split: option.splits goval.splits)
  then have "wf_map (set_parts ?sub (p # ps) v)" by (rule "3.IH" [OF refl _ "3.prems"(2)])
  then show ?case using "3.prems"(1) by (simp add: Let_def wf_map_update del: wf_val.simps)
qed (simp_all add: wf_map_update del: wf_val.simps)

text \<open>
  Two paths are independent when they fork: neither is a prefix of the other. Writing at one
  leaves what is read at the other unchanged.
\<close>

lemma get_set_parts_indep:
  "\<not> prefix ps qs \<Longrightarrow> \<not> prefix qs ps \<Longrightarrow>
   get_parts (VMap (set_parts m ps v)) qs = get_parts (VMap m) qs"
proof (induction m ps v arbitrary: qs rule: set_parts.induct)
  case (2 m part v)
  then show ?case by (cases qs) (auto simp: map_of_update)
next
  case (3 m part p ps v)
  let ?sub = "case map_of m part of Some (VMap m') \<Rightarrow> m' | _ \<Rightarrow> []"
  obtain q qs' where qs: "qs = q # qs'" using "3.prems" by (cases qs) auto
  show ?case
  proof (cases "q = part")
    case True
    with "3.prems" qs have fork: "\<not> prefix (p # ps) qs'" "\<not> prefix qs' (p # ps)" by auto
    then obtain r rs where r: "qs' = r # rs" by (cases qs') auto
    have "get_parts (VMap (set_parts ?sub (p # ps) v)) qs' = get_parts (VMap ?sub) qs'"
      by (rule "3.IH" [OF refl fork])
    with True qs r show ?thesis
      by (auto simp: map_of_update Let_def split: option.splits goval.splits)
  next
    case False
    with qs show ?thesis by (simp add: map_of_update Let_def)
  qed
qed simp

section \<open>The contract of a store addressed by paths\<close>

locale path_store =
  fixes lookup :: "'s \<Rightarrow> string \<Rightarrow> 'e + 'v"
    and store :: "'s \<Rightarrow> string \<Rightarrow> 'v \<Rightarrow> 's"
    and indep :: "string \<Rightarrow> string \<Rightarrow> bool"
  assumes lookup_store: "lookup (store s p v) p = Inr v"
    and lookup_store_indep: "indep p q \<Longrightarrow> lookup (store s p v) q = lookup s q"
begin

definition store_all :: "'s \<Rightarrow> (string \<times> 'v) list \<Rightarrow> 's" where
  "store_all s kvs = foldl (\<lambda>s (p, v). store s p v) s kvs"

lemma store_all_simps [simp]:
  "store_all s [] = s"
  "store_all s ((p, v) # kvs) = store_all (store s p v) kvs"
  by (simp_all add: store_all_def)

lemma lookup_store_all_indep:
  "(\<And>p v. (p, v) \<in> set kvs \<Longrightarrow> indep p q) \<Longrightarrow> lookup (store_all s kvs) q = lookup s q"
proof (induction kvs arbitrary: s)
  case (Cons a kvs)
  obtain p v where a: "a = (p, v)" by (cases a)
  have "lookup (store_all (store s p v) kvs) q = lookup (store s p v) q"
    using Cons.prems a by (intro Cons.IH) auto
  moreover have "indep p q" using Cons.prems [of p v] a by simp
  ultimately show ?case using a by (simp add: lookup_store_indep)
qed simp

lemma lookup_store_all:
  "(p, v) \<in> set kvs \<Longrightarrow> sorted_wrt (\<lambda>x y. indep (fst y) (fst x)) kvs \<Longrightarrow>
   lookup (store_all s kvs) p = Inr v"
proof (induction kvs arbitrary: s)
  case (Cons a kvs)
  obtain q w where a: "a = (q, w)" by (cases a)
  show ?case
  proof (cases "(p, v) \<in> set kvs")
    case True
    with Cons a show ?thesis by simp
  next
    case False
    with Cons.prems a have pq: "p = q" "v = w" by auto
    have "lookup (store_all (store s q w) kvs) q = lookup (store s q w) q"
      using Cons.prems(2) a by (intro lookup_store_all_indep) auto
    with a pq show ?thesis by (simp add: lookup_store)
  qed
qed simp

end

definition path_indep :: "string \<Rightarrow> string \<Rightarrow> bool" where
  "path_indep p q \<longleftrightarrow>
     \<not> prefix (Split p ''.'') (Split q ''.'') \<and> \<not> prefix (Split q ''.'') (Split p ''.'')"

lemma Get_Set: "Get (Set g p v) p = Inr v"
  by (simp add: Get_def Set_def get_set_parts)

lemma Get_Set_indep: "path_indep p q \<Longrightarrow> Get (Set g p v) q = Get g q"
  by (simp add: Get_def Set_def path_indep_def get_set_parts_indep)

interpretation gctx: path_store Get Set path_indep
  by unfold_locales (simp_all add: Get_Set Get_Set_indep)

lemma path_indep_no_dot:
  "CHR ''.'' \<notin> set p \<Longrightarrow> CHR ''.'' \<notin> set q \<Longrightarrow> path_indep p q \<longleftrightarrow> p \<noteq> q"
  by (auto simp: path_indep_def Split_single_none)

lemma Get_plain: "CHR ''.'' \<notin> set k \<Longrightarrow>
   Get g k = (case map_of (ctx_values g) k of None \<Rightarrow> Inl (ErrGontextPathNotFound k) | Some v \<Rightarrow> Inr v)"
  by (simp add: Get_def Split_single_none split: option.splits)

end
