(* ===== verification/JsonPath.thy ===== *)
theory JsonPath
  imports Go_Values
begin

text \<open>
  \<open>jsonpath/jsonpath.go\<close>: the path expressions \<open>[BODY].a.b[0].c\<close> of the conditions.
  \<open>walk\<close> follows the path through a decoded body, \<open>extractValue\<close> resolves one key
  with its indices, \<open>Eval\<close> decodes the body and starts the walk. The text of the body is
  decoded and encoded by \<open>encoding/json\<close>, which is the argument \<open>codec\<close>.

  \<open>extractValue\<close> asserts that the value is an object when a key is followed by an index;
  the assertion panics on any other value. A panic is a result of its own here.
\<close>

datatype jsonpath_error =
    ErrWalkString string string \<comment> \<open>couldn't walk through a string\<close>
  | ErrWalkType string          \<comment> \<open>couldn't walk through a value of this type\<close>
  | ErrJSON string              \<comment> \<open>error of the JSON decoder\<close>

record json_codec =
  unmarshal :: "string \<Rightarrow> string + goval"
  marshal :: "goval \<Rightarrow> string"

section \<open>Keys of a path\<close>

text \<open>
  The loop of \<open>walk\<close> that cuts the path at the dots outside brackets: \<open>cur\<close> is the
  text since \<open>startOfCurrentKey\<close>, reversed.
\<close>

fun path_keys :: "string \<Rightarrow> int \<Rightarrow> string \<Rightarrow> string list" where
  "path_keys cur depth [] = [rev cur]"
| "path_keys cur depth (c # s) =
     (let depth' = (if c = CHR ''['' then depth + 1 else if c = CHR '']'' then depth - 1 else depth)
      in if c = CHR ''.'' \<and> depth' = 0 then rev cur # path_keys [] depth' s
         else path_keys (c # cur) depth' s)"

lemma path_keys_ne [simp]: "path_keys cur depth s \<noteq> []"
  by (induction cur depth s rule: path_keys.induct) (auto simp: Let_def)

lemma path_keys_join: "rev cur @ s = Join (path_keys cur depth s) ''.''"
  by (induction cur depth s rule: path_keys.induct) (auto simp: Let_def Join_Cons)

section \<open>One key\<close>

text \<open>
  The first bracket group of a key that is followed by \<open>]\<close>: where the bracket opens, the
  text between the brackets and what follows them. The scan is that of the source: an opening
  bracket restarts the group, a closing one at depth 1 ends it.
\<close>

fun scan_index :: "nat \<Rightarrow> nat \<Rightarrow> int \<Rightarrow> string \<Rightarrow> string \<Rightarrow> nat \<times> string \<times> string option" where
  "scan_index i start depth cur [] = (start, [], None)"
| "scan_index i start depth cur (c # s) =
     (if c = CHR ''['' then scan_index (Suc i) i (depth + 1) [] s
      else if c = CHR '']'' \<and> depth = 1 then (start, rev cur, Some s)
      else scan_index (Suc i) start depth (c # cur) s)"

lemma scan_index_less:
  "scan_index i start depth cur s = (a, b, Some r) \<Longrightarrow> length r < length s"
  by (induction i start depth cur s rule: scan_index.induct) (auto split: if_splits)

definition ends_with_index :: "string \<Rightarrow> bool" where
  "ends_with_index currentKey \<longleftrightarrow> HasSuffix currentKey '']'' \<and> Contains currentKey ''[''"

text \<open>
  \<open>VNil\<close> is the \<open>nil\<close> of the source: what is missing, and what cannot be indexed.
\<close>

definition index_array :: "goval \<Rightarrow> nat \<Rightarrow> goval option" where
  "index_array v i = (case v of VList vs \<Rightarrow> if i < length vs then Some (vs ! i) else None | _ \<Rightarrow> None)"

function extractValue :: "string \<Rightarrow> goval \<Rightarrow> goval outcome" where
  "extractValue currentKey value =
     (if ends_with_index currentKey then
        (case scan_index 0 0 0 [] currentKey of (startOfBracket, index, rest) \<Rightarrow>
          (case Atoi index of
             None \<Rightarrow> Return VNil
           | Some arrayIndex \<Rightarrow>
             if arrayIndex < 0 then Return VNil
             else
               let isNestedArray = (case rest of Some (c # _) \<Rightarrow> c = CHR ''['' | _ \<Rightarrow> False);
                   currentKeyWithoutIndex = take startOfBracket currentKey;
                   element = (\<lambda>array.
                     (case index_array array (nat arrayIndex) of
                        None \<Rightarrow> Return VNil
                      | Some v \<Rightarrow>
                          (if isNestedArray then
                             (case rest of None \<Rightarrow> Return v | Some r \<Rightarrow> extractValue r v)
                           else Return v)))
               in if currentKeyWithoutIndex = [] then element value
                  else (case value of
                          VNil \<Rightarrow> Return VNil
                        | VMap m \<Rightarrow>
                            (case map_of m currentKeyWithoutIndex of
                               None \<Rightarrow> Return VNil
                             | Some VNil \<Rightarrow> Return VNil
                             | Some array \<Rightarrow> element array)
                        | _ \<Rightarrow> Panic ''interface conversion'')))
      else
        (case value of
           VList vs \<Rightarrow> Return (VList vs)
         | VMap m \<Rightarrow> Return (case map_of m currentKey of None \<Rightarrow> VNil | Some v \<Rightarrow> v)
         | v \<Rightarrow> Return v))"
  by pat_completeness auto
termination
  by (relation "measure (\<lambda>(k, v). length k)") (auto dest!: scan_index_less [OF sym])

declare extractValue.simps [simp del]

section \<open>The walk\<close>

lemma ReplaceFirst_shorter:
  "ReplaceFirst s old [] \<noteq> s \<Longrightarrow> length (ReplaceFirst s old []) < length s"
  by (auto simp: ReplaceFirst_def dest: Cut_eq split: option.splits)

type_synonym walk_result = "jsonpath_error + (string \<times> nat)"

function walk :: "json_codec \<Rightarrow> string \<Rightarrow> goval \<Rightarrow> walk_result outcome" where
  "walk codec path object =
     (let keys = path_keys [] 0 path; currentKey = hd keys in
      case extractValue currentKey object of
        Panic e \<Rightarrow> Panic e
      | Return (VMap m) \<Rightarrow>
          (let newPath = ReplaceFirst path (currentKey @ ''.'') [] in
           if path = newPath then
             (let b = marshal codec (VMap m) in Return (Inr (b, length b)))
           else walk codec newPath (VMap m))
      | Return (VStr v) \<Rightarrow>
          (if 1 < length keys then Return (Inl (ErrWalkString (keys ! 1) currentKey))
           else Return (Inr (v, length v)))
      | Return (VList vs) \<Rightarrow> Return (Inr (fmt_v (VList vs), length vs))
      | Return VNil \<Rightarrow> Return (Inl (ErrWalkType currentKey))
      | Return v \<Rightarrow> Return (Inr (fmt_v v, length (fmt_v v))))"
  by pat_completeness auto
termination
proof (relation "measure (\<lambda>(codec, path, object). length path)", goal_cases)
  case (2 codec path object keys currentKey v m newPath)
  then show ?case using ReplaceFirst_shorter [of path "currentKey @ ''.''"] by auto
qed auto

declare walk.simps [simp del]

definition Eval :: "json_codec \<Rightarrow> string \<Rightarrow> string \<Rightarrow> walk_result outcome" where
  "Eval codec path b =
     (if path = [] \<and> \<not> (b \<noteq> [] \<and> hd b = CHR ''['' \<and> last b = CHR '']'')
      then Return (Inr (b, length b))
      else case unmarshal codec b of
             Inl e \<Rightarrow> Return (Inl (ErrJSON e))
           | Inr object \<Rightarrow> walk codec path object)"

section \<open>The walk key by key\<close>

text \<open>
  The reference: the keys are followed from left to right. \<open>walk\<close> recomputes the path at
  each step by deleting the first occurrence of the key and its dot, which is the one it just
  followed.
\<close>

fun walk_keys :: "json_codec \<Rightarrow> string list \<Rightarrow> goval \<Rightarrow> walk_result outcome" where
  "walk_keys codec [] object = Return (Inl (ErrWalkType []))"
| "walk_keys codec [k] object =
     (case extractValue k object of
        Panic e \<Rightarrow> Panic e
      | Return (VMap m) \<Rightarrow> Return (Inr (marshal codec (VMap m), length (marshal codec (VMap m))))
      | Return (VStr v) \<Rightarrow> Return (Inr (v, length v))
      | Return (VList vs) \<Rightarrow> Return (Inr (fmt_v (VList vs), length vs))
      | Return VNil \<Rightarrow> Return (Inl (ErrWalkType k))
      | Return v \<Rightarrow> Return (Inr (fmt_v v, length (fmt_v v))))"
| "walk_keys codec (k # k' # ks) object =
     (case extractValue k object of
        Panic e \<Rightarrow> Panic e
      | Return (VMap m) \<Rightarrow> walk_keys codec (k' # ks) (VMap m)
      | Return (VStr v) \<Rightarrow> Return (Inl (ErrWalkString k' k))
      | Return (VList vs) \<Rightarrow> Return (Inr (fmt_v (VList vs), length vs))
      | Return VNil \<Rightarrow> Return (Inl (ErrWalkType k))
      | Return v \<Rightarrow> Return (Inr (fmt_v v, length (fmt_v v))))"

lemma path_keys_cases:
  "path_keys cur depth s = k # ks \<Longrightarrow>
   (ks = [] \<and> k = rev cur @ s) \<or>
   (\<exists>r. rev cur @ s = k @ ''.'' @ r \<and> ks = path_keys [] 0 r)"
proof (induction cur depth s arbitrary: k ks rule: path_keys.induct)
  case (2 cur depth c s)
  define d where "d = (if c = CHR ''['' then depth + 1 else if c = CHR '']'' then depth - 1 else depth)"
  show ?case
  proof (cases "c = CHR ''.'' \<and> d = 0")
    case True
    with "2.prems" show ?thesis by (auto simp: Let_def d_def)
  next
    case False
    with "2.prems" have "path_keys (c # cur) d s = k # ks" by (auto simp: Let_def d_def)
    from "2.IH"(2) [OF d_def _ this] False show ?thesis by auto
  qed
qed auto

lemma ReplaceFirst_prefix: "old \<noteq> [] \<Longrightarrow> ReplaceFirst (old @ s) old [] = s"
  by (cases old) (simp_all add: ReplaceFirst_def)

lemma ReplaceFirst_longer: "length s < length old \<Longrightarrow> ReplaceFirst s old [] = s"
  by (auto simp: ReplaceFirst_def dest: Cut_eq split: option.splits)

lemma walk_walk_keys: "walk codec path object = walk_keys codec (path_keys [] 0 path) object"
proof (induction codec path object rule: walk.induct)
  case (1 codec path object)
  obtain k ks where keys: "path_keys [] 0 path = k # ks"
    by (cases "path_keys [] 0 path") auto
  from path_keys_cases [OF keys] show ?case
  proof (elim disjE exE conjE)
    assume last: "ks = []" "k = rev [] @ path"
    then have "ReplaceFirst path (k @ ''.'') [] = path" by (simp add: ReplaceFirst_longer)
    with keys last show ?thesis
      by (subst walk.simps) (simp add: Let_def split: outcome.splits goval.splits)
  next
    fix r assume r: "rev [] @ path = k @ ''.'' @ r" "ks = path_keys [] 0 r"
    then have new: "ReplaceFirst path (k @ ''.'') [] = r"
      using ReplaceFirst_prefix [of "k @ ''.''" r] by simp
    from r have neq: "path \<noteq> r" by auto
    obtain k' ks' where ks: "ks = k' # ks'" using r(2) path_keys_ne [of "[]" 0 r] that by (cases ks) metis+
    have IH: "extractValue k object = Return (VMap m) \<Longrightarrow>
        walk codec r (VMap m) = walk_keys codec ks (VMap m)" for m
      using "1.IH" [OF refl refl _ _ refl, of "VMap m" m] keys new neq r(2) by auto
    show ?thesis
      by (subst walk.simps)
         (use keys new neq ks IH in \<open>auto simp: Let_def split: outcome.splits goval.splits\<close>)
  qed
qed

section \<open>A key with an index\<close>

lemma scan_index_plain:
  "CHR ''['' \<notin> set s \<Longrightarrow> CHR '']'' \<notin> set s \<Longrightarrow>
   scan_index i start depth cur (s @ t) = scan_index (i + length s) start depth (rev s @ cur) t"
  by (induction s arbitrary: i cur) auto

lemma scan_index_indexed:
  assumes "set name \<inter> {CHR ''['', CHR '']''} = {}" and "set idx \<inter> {CHR ''['', CHR '']''} = {}"
  shows "scan_index 0 0 0 [] (name @ ''['' @ idx @ '']'' @ r) = (length name, idx, Some r)"
  using assms by (simp add: scan_index_plain)

lemma Itoa_no_bracket: "set (Itoa i) \<inter> {CHR ''['', CHR '']''} = {}"
  by (auto dest!: Itoa_chars simp: is_digit_def)

definition element_at :: "goval \<Rightarrow> nat \<Rightarrow> goval" where
  "element_at v n = (case index_array v n of None \<Rightarrow> VNil | Some x \<Rightarrow> x)"

lemma extractValue_indexed:
  assumes "set name \<inter> {CHR ''['', CHR '']''} = {}" and "int n \<le> max_int64"
  shows "extractValue (name @ ''['' @ Itoa (int n) @ '']'') value =
    (if name = [] then Return (element_at value n)
     else case value of
            VNil \<Rightarrow> Return VNil
          | VMap m \<Rightarrow> Return (case map_of m name of None \<Rightarrow> VNil | Some v \<Rightarrow> element_at v n)
          | _ \<Rightarrow> Panic ''interface conversion'')"
proof -
  let ?key = "name @ ''['' @ Itoa (int n) @ '']''"
  have ends: "ends_with_index ?key"
    using HasSuffix_append [of "name @ ''['' @ Itoa (int n)" "'']''"]
    by (simp add: ends_with_index_def Contains_single)
  have atoi: "Atoi (Itoa (int n)) = Some (int n)"
    by (rule Atoi_Itoa) (use assms(2) in \<open>simp add: in_int64_def min_int64_def\<close>)
  have scan: "scan_index 0 0 0 [] ?key = (length name, Itoa (int n), Some [])"
    using scan_index_indexed [OF assms(1) Itoa_no_bracket, of "int n" "[]"] by simp
  show ?thesis
    by (subst extractValue.simps)
       (simp add: ends [simplified] scan [simplified] atoi Let_def element_at_def index_array_def
          split: option.splits goval.splits)
qed

end
