(* ===== verification/Placeholder.thy ===== *)
theory Placeholder
  imports Endpoint_Result Gontext JsonPath
begin

text \<open>
  \<open>config/endpoint/placeholder.go\<close>: how a side of a condition is resolved to text.
  \<open>ResolvePlaceholder\<close> returns a string or an error (the source never returns one), or
  panics when the JSON path does.
\<close>

definition StatusPlaceholder :: string where "StatusPlaceholder = ''[STATUS]''"
definition IPPlaceholder :: string where "IPPlaceholder = ''[IP]''"
definition DNSRCodePlaceholder :: string where "DNSRCodePlaceholder = ''[DNS_RCODE]''"
definition ResponseTimePlaceholder :: string where "ResponseTimePlaceholder = ''[RESPONSE_TIME]''"
definition BodyPlaceholder :: string where "BodyPlaceholder = ''[BODY]''"
definition ConnectedPlaceholder :: string where "ConnectedPlaceholder = ''[CONNECTED]''"
definition CertificateExpirationPlaceholder :: string where
  "CertificateExpirationPlaceholder = ''[CERTIFICATE_EXPIRATION]''"
definition DomainExpirationPlaceholder :: string where
  "DomainExpirationPlaceholder = ''[DOMAIN_EXPIRATION]''"
definition ContextPlaceholder :: string where "ContextPlaceholder = ''[CONTEXT]''"

definition LengthFunctionPrefix :: string where "LengthFunctionPrefix = ''len(''"
definition HasFunctionPrefix :: string where "HasFunctionPrefix = ''has(''"
definition PatternFunctionPrefix :: string where "PatternFunctionPrefix = ''pat(''"
definition AnyFunctionPrefix :: string where "AnyFunctionPrefix = ''any(''"
definition FunctionSuffix :: string where "FunctionSuffix = '')''"
definition InvalidConditionElementSuffix :: string where
  "InvalidConditionElementSuffix = ''(INVALID)''"

lemmas placeholder_names =
  StatusPlaceholder_def IPPlaceholder_def DNSRCodePlaceholder_def ResponseTimePlaceholder_def
  BodyPlaceholder_def ConnectedPlaceholder_def CertificateExpirationPlaceholder_def
  DomainExpirationPlaceholder_def ContextPlaceholder_def

lemmas function_names =
  LengthFunctionPrefix_def HasFunctionPrefix_def PatternFunctionPrefix_def AnyFunctionPrefix_def
  FunctionSuffix_def

datatype functionType = noFunction | functionLen | functionHas

type_synonym resolution = "(string + string) outcome"

definition extractFunctionWrapper :: "string \<Rightarrow> functionType \<times> string" where
  "extractFunctionWrapper p =
     (if HasPrefix p LengthFunctionPrefix \<and> HasSuffix p FunctionSuffix
        then (functionLen, TrimSuffix (TrimPrefix p LengthFunctionPrefix) FunctionSuffix)
      else if HasPrefix p HasFunctionPrefix \<and> HasSuffix p FunctionSuffix
        then (functionHas, TrimSuffix (TrimPrefix p HasFunctionPrefix) FunctionSuffix)
      else (noFunction, p))"

definition formatWithFunction :: "string \<Rightarrow> functionType \<Rightarrow> string" where
  "formatWithFunction value fn =
     (case fn of
        functionHas \<Rightarrow> FormatBool (value \<noteq> [])
      | functionLen \<Rightarrow> Itoa (int (length value))
      | noFunction \<Rightarrow> value)"

definition invalid_element :: "string \<Rightarrow> string" where
  "invalid_element p = p @ '' '' @ InvalidConditionElementSuffix"

definition resolveJSONPathPlaceholder ::
  "json_codec \<Rightarrow> string \<Rightarrow> functionType \<Rightarrow> string \<Rightarrow> Result \<Rightarrow> resolution" where
  "resolveJSONPathPlaceholder codec placeholder fn originalPlaceholder result =
     (let path = (if HasPrefix (ToUpper placeholder) BodyPlaceholder
                  then drop (length BodyPlaceholder) placeholder
                  else TrimPrefix placeholder BodyPlaceholder);
          path = TrimPrefix path ''.''
      in case Eval codec path (r_Body result) of
           Panic e \<Rightarrow> Panic e
         | Return res \<Rightarrow>
             (if fn = functionHas then Return (Inr (FormatBool (\<not> isl res)))
              else case res of
                     Inl err \<Rightarrow> Return (Inr (invalid_element originalPlaceholder))
                   | Inr (resolvedValue, resolvedLength) \<Rightarrow>
                       (if fn = functionLen then Return (Inr (Itoa (int resolvedLength)))
                        else Return (Inr resolvedValue))))"

definition value_length :: "goval \<Rightarrow> nat" where
  "value_length v =
     (case v of VStr s \<Rightarrow> length s | VList vs \<Rightarrow> length vs | VMap m \<Rightarrow> length m
      | _ \<Rightarrow> length (fmt_v v))"

definition resolveContextPlaceholder ::
  "string \<Rightarrow> functionType \<Rightarrow> string \<Rightarrow> gontext \<Rightarrow> resolution" where
  "resolveContextPlaceholder placeholder fn originalPlaceholder ctx =
     (let contextPath = TrimPrefix (TrimPrefix placeholder ContextPlaceholder) ''.''
      in if contextPath = [] then
           (if fn = functionHas then Return (Inr ''false'')
            else Return (Inr (invalid_element originalPlaceholder)))
         else
           let res = Get ctx contextPath
           in if fn = functionHas then Return (Inr (FormatBool (\<not> isl res)))
              else case res of
                     Inl err \<Rightarrow> Return (Inr (invalid_element originalPlaceholder))
                   | Inr v \<Rightarrow>
                       (if fn = functionLen then Return (Inr (Itoa (int (value_length v))))
                        else Return (Inr (fmt_v v))))"

definition resolveBody :: "json_codec \<Rightarrow> functionType \<Rightarrow> Result \<Rightarrow> resolution" where
  "resolveBody codec fn result =
     (let body = TrimSpace (r_Body result) in
      case fn of
        functionHas \<Rightarrow> Return (Inr (FormatBool (0 < length body)))
      | functionLen \<Rightarrow>
          (case Eval codec [] (r_Body result) of
             Panic e \<Rightarrow> Panic e
           | Return (Inr (_, resolvedLength)) \<Rightarrow> Return (Inr (Itoa (int resolvedLength)))
           | Return (Inl _) \<Rightarrow> Return (Inr (Itoa (int (length body)))))
      | noFunction \<Rightarrow> Return (Inr body))"

definition ResolvePlaceholder ::
  "json_codec \<Rightarrow> string \<Rightarrow> Result \<Rightarrow> gontext option \<Rightarrow> resolution" where
  "ResolvePlaceholder codec placeholder0 result ctx =
     (let originalPlaceholder = TrimSpace placeholder0;
          (fn, placeholder) = extractFunctionWrapper originalPlaceholder;
          uppercasePlaceholder = ToUpper placeholder;
          ok = (\<lambda>s. Return (Inr (formatWithFunction s fn)))
      in if HasPrefix uppercasePlaceholder ContextPlaceholder \<and> ctx \<noteq> None then
           resolveContextPlaceholder placeholder fn originalPlaceholder (the ctx)
         else if uppercasePlaceholder = StatusPlaceholder then ok (Itoa (r_HTTPStatus result))
         else if uppercasePlaceholder = IPPlaceholder then ok (r_IP result)
         else if uppercasePlaceholder = ResponseTimePlaceholder then
           ok (Itoa (Milliseconds (r_Duration result)))
         else if uppercasePlaceholder = DNSRCodePlaceholder then ok (r_DNSRCode result)
         else if uppercasePlaceholder = ConnectedPlaceholder then
           ok (FormatBool (r_Connected result))
         else if uppercasePlaceholder = CertificateExpirationPlaceholder then
           ok (Itoa (Milliseconds (r_CertificateExpiration result)))
         else if uppercasePlaceholder = DomainExpirationPlaceholder then
           ok (Itoa (Milliseconds (r_DomainExpiration result)))
         else if uppercasePlaceholder = BodyPlaceholder then resolveBody codec fn result
         else if HasPrefix uppercasePlaceholder (BodyPlaceholder @ ''.'') \<or>
                 HasPrefix uppercasePlaceholder (BodyPlaceholder @ ''['') then
           resolveJSONPathPlaceholder codec placeholder fn originalPlaceholder result
         else if fn \<noteq> noFunction then
           (if fn = functionHas then Return (Inr ''false'')
            else Return (Inr (invalid_element originalPlaceholder)))
         else Return (Inr originalPlaceholder))"

section \<open>Facts\<close>

lemma resolve_no_error:
  "resolveContextPlaceholder p fn orig c \<noteq> Return (Inl e)"
  "resolveJSONPathPlaceholder codec p fn orig r \<noteq> Return (Inl e)"
  "resolveBody codec fn r \<noteq> Return (Inl e)"
  by (auto simp: resolveContextPlaceholder_def resolveJSONPathPlaceholder_def resolveBody_def
      Let_def split: sum.splits outcome.splits functionType.splits if_splits)

lemma ResolvePlaceholder_no_error: "ResolvePlaceholder codec p r c \<noteq> Return (Inl e)"
  by (simp add: ResolvePlaceholder_def Let_def resolve_no_error split: prod.splits)

lemma resolveContextPlaceholder_no_panic: "resolveContextPlaceholder p fn orig c \<noteq> Panic e"
  by (simp add: resolveContextPlaceholder_def Let_def split: sum.splits)

text \<open>Text that does not start like a placeholder or a function stands for itself.\<close>

definition literal_element :: "string \<Rightarrow> bool" where
  "literal_element s \<longleftrightarrow>
     TrimSpace s = s \<and> (s = [] \<or> hd s \<noteq> CHR ''['') \<and>
     \<not> HasPrefix s LengthFunctionPrefix \<and> \<not> HasPrefix s HasFunctionPrefix"

lemma ascii_upper_bracket: "ascii_lower_to_upper c = CHR ''['' \<Longrightarrow> c = CHR ''[''"
proof -
  assume *: "ascii_lower_to_upper c = CHR ''[''"
  show ?thesis
  proof (cases "97 \<le> (of_char c :: nat) \<and> of_char c \<le> (122 :: nat)")
    case True
    with * have "char_of (of_char c - 32 :: nat) = CHR ''[''"
      by (simp add: ascii_lower_to_upper_def Let_def)
    then have "of_char (char_of (of_char c - 32 :: nat) :: char) = (of_char (CHR ''['') :: nat)"
      by (simp only:)
    then have "(of_char c - 32) mod 256 = (91 :: nat)" by simp
    moreover have "(of_char c - 32 :: nat) < 256" using True by linarith
    ultimately have "of_char c - 32 = (91 :: nat)" by simp
    with True show ?thesis by linarith
  next
    case False
    with * show ?thesis by (simp add: ascii_lower_to_upper_def Let_def split: if_splits)
  qed
qed

lemma ToUpper_bracket: "prefix (CHR ''['' # t) (ToUpper s) \<Longrightarrow> s \<noteq> [] \<and> hd s = CHR ''[''"
  by (cases s) (auto simp: ToUpper_def dest: ascii_upper_bracket [OF sym])

lemma ResolvePlaceholder_literal:
  assumes "literal_element s"
  shows "ResolvePlaceholder codec s r c = Return (Inr s)"
proof -
  from assms have ex: "extractFunctionWrapper s = (noFunction, s)"
    by (simp add: literal_element_def extractFunctionWrapper_def)
  have no: "\<not> HasPrefix (ToUpper s) (CHR ''['' # t)" for t
    using assms ToUpper_bracket by (auto simp: literal_element_def HasPrefix_def)
  then have ne: "ToUpper s \<noteq> CHR ''['' # t" for t
    using prefix_order.refl by (metis HasPrefix_def)
  have "TrimSpace s = s" using assms by (simp add: literal_element_def)
  with ex no ne show ?thesis
    by (simp add: ResolvePlaceholder_def Let_def placeholder_names)
qed

end
