(* ===== verification/Pattern.thy ===== *)
theory Pattern
  imports Gatus_Prelude
begin

text \<open>
  \<open>pattern/pattern.go\<close>: \<open>Match\<close>, the test behind the \<open>pat(...)\<close> function of
  the conditions, with the shell pattern language of \<open>filepath.Match\<close> it calls: literals,
  \<open>?\<close>, \<open>*\<close>, classes \<open>[a-z]\<close> and \<open>[^a-z]\<close>, and a backslash before a
  character that stands for itself. A malformed pattern matches nothing: the program drops the
  error. The lemmas give the language of the patterns in common use.
\<close>

section \<open>Shell patterns\<close>

datatype glob = Lit char | AnyChar | Star | Class bool "(char \<times> char) list"

abbreviation separator :: char where "separator \<equiv> CHR ''/''"

text \<open>A possibly escaped character of a class; something must follow it.\<close>

definition getEsc :: "string \<Rightarrow> (char \<times> string) option" where
  "getEsc s =
     (case s of
        [] \<Rightarrow> None
      | c # t \<Rightarrow>
        if c = CHR ''-'' \<or> c = CHR '']'' then None
        else
          (case (if c = CHR 0x5C then t else s) of
             [] \<Rightarrow> None
           | x # r \<Rightarrow> if r = [] then None else Some (x, r)))"

lemma getEsc_less: "getEsc s = Some (x, r) \<Longrightarrow> length r < length s"
  by (auto simp: getEsc_def split: list.splits if_splits)

function parse_class :: "(char \<times> char) list \<Rightarrow> string \<Rightarrow> ((char \<times> char) list \<times> string) option" where
  "parse_class acc s =
     (if s \<noteq> [] \<and> hd s = CHR '']'' \<and> acc \<noteq> [] then Some (rev acc, tl s)
      else case getEsc s of
             None \<Rightarrow> None
           | Some (lo, r) \<Rightarrow>
               (if hd r = CHR ''-'' then
                  (case getEsc (tl r) of
                     None \<Rightarrow> None
                   | Some (hi, r') \<Rightarrow> parse_class ((lo, hi) # acc) r')
                else parse_class ((lo, lo) # acc) r))"
  by pat_completeness auto
termination
proof (relation "measure (\<lambda>(acc, s). length s)", goal_cases)
  case (2 acc s p lo r q hi r')
  then have "length r' < length (tl r)" "length r < length s"
    by (auto dest: getEsc_less)
  then show ?case by (simp add: less_imp_diff_less)
qed (auto dest: getEsc_less)

declare parse_class.simps [simp del]

lemma parse_class_less: "parse_class acc s = Some (rs, r) \<Longrightarrow> length r < length s"
proof (induction acc s rule: parse_class.induct)
  case (1 acc s)
  from "1.prems" show ?case
  proof (subst (asm) parse_class.simps, split if_splits; (elim conjE)?)
    assume "Some (rev acc, tl s) = Some (rs, r)" and "s \<noteq> []"
    then show ?thesis by auto
  next
    assume not: "\<not> (s \<noteq> [] \<and> hd s = CHR '']'' \<and> acc \<noteq> [])"
      and eq: "(case getEsc s of None \<Rightarrow> None | Some (lo, r') \<Rightarrow>
        if hd r' = CHR ''-'' then (case getEsc (tl r') of None \<Rightarrow> None
          | Some (hi, r'') \<Rightarrow> parse_class ((lo, hi) # acc) r'')
        else parse_class ((lo, lo) # acc) r') = Some (rs, r)"
    then obtain lo t where t: "getEsc s = Some (lo, t)" by (auto split: option.splits)
    note lt = getEsc_less [OF t]
    show ?thesis
    proof (cases "hd t = CHR ''-''")
      case True
      with eq t obtain hi u where u: "getEsc (tl t) = Some (hi, u)"
        and p: "parse_class ((lo, hi) # acc) u = Some (rs, r)"
        by (auto split: option.splits)
      have "length r < length u" by (rule "1.IH" (1) [OF not t refl True u refl p])
      with getEsc_less [OF u] lt show ?thesis by simp
    next
      case False
      with eq t have p: "parse_class ((lo, lo) # acc) t = Some (rs, r)" by simp
      have "length r < length t" by (rule "1.IH" (2) [OF not t refl False p])
      with lt show ?thesis by simp
    qed
  qed
qed

function parse_glob :: "string \<Rightarrow> glob list option" where
  "parse_glob s =
     (case s of
        [] \<Rightarrow> Some []
      | c # t \<Rightarrow>
        if c = CHR ''*'' then map_option (\<lambda>g. Star # g) (parse_glob t)
        else if c = CHR ''?'' then map_option (\<lambda>g. AnyChar # g) (parse_glob t)
        else if c = CHR ''['' then
          (let neg = (t \<noteq> [] \<and> hd t = CHR ''^'')
           in case parse_class [] (if neg then tl t else t) of
                None \<Rightarrow> None
              | Some (rs, r) \<Rightarrow> map_option (\<lambda>g. Class neg rs # g) (parse_glob r))
        else if c = CHR 0x5C then
          (case t of [] \<Rightarrow> None | x # r \<Rightarrow> map_option (\<lambda>g. Lit x # g) (parse_glob r))
        else map_option (\<lambda>g. Lit c # g) (parse_glob t))"
  by pat_completeness auto
termination
proof (relation "measure length", goal_cases)
  case (4 s c t neg p rs r)
  then have "length r < length (if neg then tl t else t)"
    by (auto dest: parse_class_less)
  also have "\<dots> \<le> length t" by simp
  finally show ?case using 4 by simp
qed auto

declare parse_glob.simps [simp del]

fun glob_match :: "glob list \<Rightarrow> string \<Rightarrow> bool" where
  "glob_match [] s = (s = [])"
| "glob_match (Star # g) s =
     (glob_match g s \<or>
      (case s of [] \<Rightarrow> False | c # t \<Rightarrow> c \<noteq> separator \<and> glob_match (Star # g) t))"
| "glob_match (Lit x # g) s = (case s of [] \<Rightarrow> False | c # t \<Rightarrow> c = x \<and> glob_match g t)"
| "glob_match (AnyChar # g) s =
     (case s of [] \<Rightarrow> False | c # t \<Rightarrow> c \<noteq> separator \<and> glob_match g t)"
| "glob_match (Class neg rs # g) s =
     (case s of
        [] \<Rightarrow> False
      | c # t \<Rightarrow> list_ex (\<lambda>(lo, hi). lo \<le> c \<and> c \<le> hi) rs \<noteq> neg \<and> glob_match g t)"

definition filepath_Match :: "string \<Rightarrow> string \<Rightarrow> bool" where
  "filepath_Match p s = (case parse_glob p of None \<Rightarrow> False | Some g \<Rightarrow> glob_match g s)"

section \<open>The function of the package\<close>

definition Match :: "string \<Rightarrow> string \<Rightarrow> bool" where
  "Match pattern s =
     (if pattern = ''*'' then True
      else filepath_Match (ReplaceAll pattern [separator] []) (ReplaceAll s [separator] []))"

section \<open>Facts\<close>

definition no_meta :: "string \<Rightarrow> bool" where
  "no_meta p \<longleftrightarrow> set p \<inter> {CHR ''*'', CHR ''?'', CHR ''['', CHR 0x5C} = {}"

definition strip_sep :: "string \<Rightarrow> string" where
  "strip_sep s = filter (\<lambda>c. c \<noteq> separator) s"

lemma ReplaceAll_delete: "ReplaceAll s [a] [] = filter (\<lambda>c. c \<noteq> a) s"
  by (induction s) (simp_all add: ReplaceAll_single_Nil ReplaceAll_single_Cons)

lemma Match_strip:
  "p \<noteq> ''*'' \<Longrightarrow> Match p s = filepath_Match (strip_sep p) (strip_sep s)"
  by (simp add: Match_def strip_sep_def ReplaceAll_delete)

lemma no_meta_strip: "no_meta p \<Longrightarrow> no_meta (strip_sep p)"
  by (auto simp: no_meta_def strip_sep_def)

lemma parse_glob_literal:
  "no_meta p \<Longrightarrow> parse_glob (p @ q) = map_option (\<lambda>g. map Lit p @ g) (parse_glob q)"
proof (induction p)
  case (Cons c p)
  then have "parse_glob (c # p @ q) = map_option (\<lambda>g. Lit c # g) (parse_glob (p @ q))"
    by (auto simp: no_meta_def parse_glob.simps [of "c # p @ q"])
  with Cons show ?case by (cases "parse_glob q") (auto simp: no_meta_def)
qed (cases "parse_glob q"; simp)

lemma parse_glob_Nil [simp]: "parse_glob [] = Some []"
  by (simp add: parse_glob.simps)

lemma parse_glob_Star: "parse_glob (CHR ''*'' # s) = map_option (\<lambda>g. Star # g) (parse_glob s)"
  by (simp add: parse_glob.simps [of "CHR ''*'' # s"])

lemma glob_match_Lits: "glob_match (map Lit p @ g) s \<longleftrightarrow> (\<exists>t. s = p @ t \<and> glob_match g t)"
  by (induction p arbitrary: s) (auto split: list.splits)

lemma glob_match_Star_all: "separator \<notin> set s \<Longrightarrow> glob_match [Star] s"
  by (induction s) auto

lemma glob_match_Star_iff:
  "separator \<notin> set s \<Longrightarrow> glob_match (Star # g) s \<longleftrightarrow> (\<exists>a b. s = a @ b \<and> glob_match g b)"
proof (induction s)
  case (Cons c s)
  then have "glob_match (Star # g) (c # s) \<longleftrightarrow>
      glob_match g (c # s) \<or> (\<exists>a b. s = a @ b \<and> glob_match g b)" by auto
  also have "\<dots> \<longleftrightarrow> (\<exists>a b. c # s = a @ b \<and> glob_match g b)"
    by (auto simp: Cons_eq_append_conv)
  finally show ?case .
qed simp

lemma separator_strip [simp]: "separator \<notin> set (strip_sep s)"
  by (simp add: strip_sep_def)

lemma strip_sep_append: "strip_sep (a @ b) = strip_sep a @ strip_sep b"
  by (simp add: strip_sep_def)

text \<open>The language of a literal, of \<open>lit*\<close>, of \<open>*lit\<close> and of \<open>a*b\<close>.\<close>

lemma Match_literal:
  assumes "no_meta p"
  shows "Match p s \<longleftrightarrow> strip_sep s = strip_sep p"
proof -
  have "p \<noteq> ''*''" using assms by (auto simp: no_meta_def)
  then show ?thesis
    using parse_glob_literal [OF no_meta_strip [OF assms], of "[]"]
      glob_match_Lits [of "strip_sep p" "[]"]
    by (auto simp: Match_strip filepath_Match_def)
qed

lemma Match_infix:
  assumes "no_meta a" and "no_meta b"
  shows "Match (a @ ''*'' @ b) s \<longleftrightarrow>
    (\<exists>m. strip_sep s = strip_sep a @ m @ strip_sep b)"
proof (cases "a @ ''*'' @ b = ''*''")
  case True
  then have "a = []" "b = []" by (cases a; simp)+
  then show ?thesis by (simp add: Match_def strip_sep_def)
next
  case False
  let ?g = "map Lit (strip_sep a) @ Star # map Lit (strip_sep b)"
  have "strip_sep (a @ ''*'' @ b) = strip_sep a @ CHR ''*'' # strip_sep b"
    by (simp add: strip_sep_def)
  then have "parse_glob (strip_sep (a @ ''*'' @ b)) = Some ?g"
    using parse_glob_literal [OF no_meta_strip [OF assms(1)]]
      parse_glob_literal [OF no_meta_strip [OF assms(2)], of "[]"]
    by (simp add: parse_glob_Star)
  then have "Match (a @ ''*'' @ b) s \<longleftrightarrow> glob_match ?g (strip_sep s)"
    using False by (simp add: Match_strip filepath_Match_def)
  also have "\<dots> \<longleftrightarrow> (\<exists>t. strip_sep s = strip_sep a @ t \<and>
      glob_match (Star # map Lit (strip_sep b)) t)"
    by (rule glob_match_Lits)
  also have "\<dots> \<longleftrightarrow> (\<exists>t. strip_sep s = strip_sep a @ t \<and>
      (\<exists>m r. t = m @ r \<and> glob_match (map Lit (strip_sep b)) r))"
    using separator_strip [of s] by (metis UnCI glob_match_Star_iff set_append)
  also have "\<dots> \<longleftrightarrow> (\<exists>m. strip_sep s = strip_sep a @ m @ strip_sep b)"
    using glob_match_Lits [of "strip_sep b" "[]"] by auto
  finally show ?thesis .
qed

end
