(* ===== verification/Condition.thy ===== *)
theory Condition
  imports Placeholder Pattern
begin

text \<open>
  \<open>config/endpoint/condition.go\<close>: a condition is two sides joined by one of six operators.
  \<open>evaluate\<close> resolves the sides and compares them, as text or integers for \<open>==\<close>
  and \<open>!=\<close> and as integers (durations in milliseconds) for the orderings, and appends the
  outcome to the result; \<open>Validate\<close> evaluates the condition on an empty result.
\<close>

section \<open>Comparing\<close>

definition strip_function :: "string \<Rightarrow> string \<Rightarrow> string" where
  "strip_function s fnPrefix = TrimSuffix (TrimPrefix s fnPrefix) FunctionSuffix"

definition any_option :: "string \<Rightarrow> string \<Rightarrow> bool" where
  "any_option options s \<longleftrightarrow> list_ex (\<lambda>opt. TrimSpace opt = s) (Split options '','')"

definition isEqual_plain :: "string \<Rightarrow> string \<Rightarrow> bool" where
  "isEqual_plain lhs rhs =
     (case (ParseInt lhs 0, ParseInt rhs 0) of
        (Some firstInt, Some secondInt) \<Rightarrow> firstInt = secondInt
      | _ \<Rightarrow> lhs = rhs)"

definition isEqual :: "string \<Rightarrow> string \<Rightarrow> bool" where
  "isEqual lhs rhs =
     (let firstHasFunctionSuffix = HasSuffix lhs FunctionSuffix;
          secondHasFunctionSuffix = HasSuffix rhs FunctionSuffix
      in if firstHasFunctionSuffix \<or> secondHasFunctionSuffix then
           let isFirstPattern = (HasPrefix lhs PatternFunctionPrefix \<and> firstHasFunctionSuffix);
               isSecondPattern = (HasPrefix rhs PatternFunctionPrefix \<and> secondHasFunctionSuffix);
               lhs = (if isFirstPattern then strip_function lhs PatternFunctionPrefix else lhs);
               rhs = (if isSecondPattern then strip_function rhs PatternFunctionPrefix else rhs)
           in if isFirstPattern \<and> \<not> isSecondPattern then Match lhs rhs
              else if \<not> isFirstPattern \<and> isSecondPattern then Match rhs lhs
              else
                let isFirstAny = (HasPrefix lhs AnyFunctionPrefix \<and> firstHasFunctionSuffix);
                    isSecondAny = (HasPrefix rhs AnyFunctionPrefix \<and> secondHasFunctionSuffix);
                    lhs = (if isFirstAny then strip_function lhs AnyFunctionPrefix else lhs);
                    rhs = (if isSecondAny then strip_function rhs AnyFunctionPrefix else rhs)
                in if isFirstAny \<and> \<not> isSecondAny then any_option lhs rhs
                   else if \<not> isFirstAny \<and> isSecondAny then any_option rhs lhs
                   else isEqual_plain lhs rhs
         else isEqual_plain lhs rhs)"

section \<open>Resolving\<close>

fun sanitizeAndResolveWithContext ::
  "json_codec \<Rightarrow> string list \<Rightarrow> Result \<Rightarrow> gontext option \<Rightarrow>
   (string list \<times> string list \<times> Result) outcome" where
  "sanitizeAndResolveWithContext codec [] result ctx = Return ([], [], result)"
| "sanitizeAndResolveWithContext codec (element0 # elements) result ctx =
     (let element = TrimSpace element0 in
      case ResolvePlaceholder codec element result ctx of
        Panic e \<Rightarrow> Panic e
      | Return res \<Rightarrow>
          (let (result', resolved) =
             (case res of
                Inl err \<Rightarrow> (AddError result err, element @ '' '' @ InvalidConditionElementSuffix)
              | Inr s \<Rightarrow> (result, s))
           in case sanitizeAndResolveWithContext codec elements result' ctx of
                Panic e \<Rightarrow> Panic e
              | Return (parameters, resolvedParameters, result'') \<Rightarrow>
                  Return (element # parameters, resolved # resolvedParameters, result'')))"

definition numerical_value :: "string \<Rightarrow> int" where
  "numerical_value element =
     (let d = ParseDuration element in
      if d \<noteq> None \<and> the d \<noteq> 0 then Milliseconds (the d)
      else case ParseInt element 0 of
             Some number \<Rightarrow> number
           | None \<Rightarrow> (case ParseFloat element of Some f \<Rightarrow> int64_of_f64 f | None \<Rightarrow> 0))"

definition sanitizeAndResolveNumericalWithContext ::
  "json_codec \<Rightarrow> string list \<Rightarrow> Result \<Rightarrow> gontext option \<Rightarrow>
   (string list \<times> int list \<times> Result) outcome" where
  "sanitizeAndResolveNumericalWithContext codec elements result ctx =
     (case sanitizeAndResolveWithContext codec elements result ctx of
        Panic e \<Rightarrow> Panic e
      | Return (parameters, resolvedParameters, result') \<Rightarrow>
          Return (parameters, map numerical_value resolvedParameters, result'))"

section \<open>Display\<close>

definition formatDuration :: "duration \<Rightarrow> string" where
  "formatDuration d0 =
     (let d = Truncate_duration d0 second;
          s = duration_String d
      in if s = ''0s'' then ''0s''
         else if HasSuffix s ''0s'' then TrimSuffix (TrimSuffix s ''0s'') ''0m''
         else s)"

definition truncated :: "string \<Rightarrow> string" where
  "truncated s = (if 25 < length s then take 25 s @ ''...(truncated)'' else s)"

definition is_pattern :: "string \<Rightarrow> bool" where
  "is_pattern s \<longleftrightarrow> HasPrefix s PatternFunctionPrefix \<and> HasSuffix s FunctionSuffix"

definition prettify_side :: "string \<Rightarrow> string \<Rightarrow> string" where
  "prettify_side parameter resolved =
     (let changed = (parameter \<noteq> resolved);
          invalid = (resolved = parameter @ '' '' @ InvalidConditionElementSuffix)
      in if changed \<and> \<not> invalid then parameter @ '' ('' @ resolved @ '')''
         else if invalid then resolved
         else parameter)"

definition prettify :: "string list \<Rightarrow> string list \<Rightarrow> string \<Rightarrow> string" where
  "prettify parameters resolved operator =
     (let p0 = parameters ! 0; p1 = parameters ! 1;
          r1 = (if is_pattern p0 then truncated (resolved ! 1) else resolved ! 1);
          r0 = (if is_pattern p1 then truncated (resolved ! 0) else resolved ! 0)
      in prettify_side p0 r0 @ '' '' @ operator @ '' '' @ prettify_side p1 r1)"

definition numerical_display :: "string \<Rightarrow> int \<Rightarrow> string" where
  "numerical_display parameter resolved =
     (if parameter = CertificateExpirationPlaceholder \<or> parameter = DomainExpirationPlaceholder \<or>
         ParseDuration parameter \<noteq> None
      then formatDuration (wrap64 (resolved * millisecond))
      else Itoa resolved)"

definition prettifyNumericalParameters :: "string list \<Rightarrow> int list \<Rightarrow> string \<Rightarrow> string" where
  "prettifyNumericalParameters parameters resolved operator =
     prettify parameters
       [numerical_display (parameters ! 0) (resolved ! 0),
        numerical_display (parameters ! 1) (resolved ! 1)] operator"

section \<open>Evaluating\<close>

definition shouldResolveCondition :: "bool \<Rightarrow> bool \<Rightarrow> bool \<Rightarrow> bool" where
  "shouldResolveCondition dontResolveFailed resolveSuccessful success =
     (if success then resolveSuccessful else \<not> dontResolveFailed)"

definition record_condition :: "Result \<Rightarrow> string \<Rightarrow> bool \<Rightarrow> Result" where
  "record_condition result conditionToDisplay success =
     result\<lparr>r_ConditionResults := r_ConditionResults result @
       [\<lparr>cr_Condition = conditionToDisplay, cr_Success = success\<rparr>]\<rparr>"

definition evaluate_text ::
  "json_codec \<Rightarrow> string \<Rightarrow> string \<Rightarrow> (string \<Rightarrow> string \<Rightarrow> bool) \<Rightarrow> Result \<Rightarrow> (bool \<Rightarrow> bool) \<Rightarrow>
   gontext option \<Rightarrow> (bool \<times> Result) outcome" where
  "evaluate_text codec condition operator holds result shouldResolve ctx =
     (case sanitizeAndResolveWithContext codec (Split condition ('' '' @ operator @ '' '')) result ctx of
        Panic e \<Rightarrow> Panic e
      | Return (parameters, resolved, result') \<Rightarrow>
          (let success = holds (resolved ! 0) (resolved ! 1);
               display = (if shouldResolve success then prettify parameters resolved operator
                          else condition)
           in Return (success, record_condition result' display success)))"

definition evaluate_numerical ::
  "json_codec \<Rightarrow> string \<Rightarrow> string \<Rightarrow> (int \<Rightarrow> int \<Rightarrow> bool) \<Rightarrow> Result \<Rightarrow> (bool \<Rightarrow> bool) \<Rightarrow>
   gontext option \<Rightarrow> (bool \<times> Result) outcome" where
  "evaluate_numerical codec condition operator holds result shouldResolve ctx =
     (case sanitizeAndResolveNumericalWithContext codec
             (Split condition ('' '' @ operator @ '' '')) result ctx of
        Panic e \<Rightarrow> Panic e
      | Return (parameters, resolved, result') \<Rightarrow>
          (let success = holds (resolved ! 0) (resolved ! 1);
               display = (if shouldResolve success
                          then prettifyNumericalParameters parameters resolved operator
                          else condition)
           in Return (success, record_condition result' display success)))"

definition evaluate ::
  "json_codec \<Rightarrow> string \<Rightarrow> Result \<Rightarrow> bool \<Rightarrow> bool \<Rightarrow> gontext option \<Rightarrow> (bool \<times> Result) outcome" where
  "evaluate codec condition result dontResolveFailedConditions resolveSuccessfulConditions ctx =
     (let resolve = shouldResolveCondition dontResolveFailedConditions resolveSuccessfulConditions
      in if Contains condition '' == '' then
           evaluate_text codec condition ''=='' isEqual result resolve ctx
         else if Contains condition '' != '' then
           evaluate_text codec condition ''!='' (\<lambda>a b. \<not> isEqual a b) result resolve ctx
         else if Contains condition '' <= '' then
           evaluate_numerical codec condition ''<='' (\<lambda>a b. a \<le> b) result resolve ctx
         else if Contains condition '' >= '' then
           evaluate_numerical codec condition ''>='' (\<lambda>a b. b \<le> a) result resolve ctx
         else if Contains condition '' > '' then
           evaluate_numerical codec condition ''>'' (\<lambda>a b. b < a) result resolve ctx
         else if Contains condition '' < '' then
           evaluate_numerical codec condition ''<'' (\<lambda>a b. a < b) result resolve ctx
         else Return (False, AddError result (''invalid condition: '' @ condition)))"

definition Condition_Validate :: "json_codec \<Rightarrow> string \<Rightarrow> string option outcome" where
  "Condition_Validate codec c =
     (case evaluate codec c empty_Result False False None of
        Panic e \<Rightarrow> Panic e
      | Return (_, r) \<Rightarrow> Return (case r_Errors r of [] \<Rightarrow> None | e # _ \<Rightarrow> Some e))"

definition hasBodyPlaceholder :: "string \<Rightarrow> bool" where
  "hasBodyPlaceholder c = Contains c BodyPlaceholder"

definition hasDomainExpirationPlaceholder :: "string \<Rightarrow> bool" where
  "hasDomainExpirationPlaceholder c = Contains c DomainExpirationPlaceholder"

definition hasIPPlaceholder :: "string \<Rightarrow> bool" where
  "hasIPPlaceholder c = Contains c IPPlaceholder"

section \<open>The shape of a condition\<close>

lemma Cut_first:
  "sep \<noteq> [] \<Longrightarrow> hd sep \<notin> set a \<Longrightarrow> Cut sep (a @ sep @ b) = Some (a, b)"
proof (induction a)
  case Nil
  then show ?case by (cases sep) auto
next
  case (Cons c a)
  then have "\<not> prefix sep (c # a @ sep @ b)" by (cases sep) auto
  with Cons show ?case by simp
qed

lemma Split_two:
  assumes "sep \<noteq> []" and "hd sep \<notin> set a" and "hd sep \<notin> set b"
  shows "Split (a @ sep @ b) sep = [a, b]"
proof -
  have "hd sep \<in> set sep" using assms(1) by simp
  then have "\<not> Contains b sep" using assms(3) Contains_set [of b sep] by blast
  then have "Split b sep = [b]" using assms(1) by (rule Split_none [rotated])
  then show ?thesis
    using assms Cut_first [OF assms(1,2), of b] by (simp add: Split.simps [of "a @ sep @ b"])
qed

text \<open>
  A side without blanks cannot hide an operator, so a condition made of two such sides contains
  the operator between them and no other.
\<close>

lemma Contains_operator:
  assumes "CHR '' '' \<notin> set s" "CHR '' '' \<notin> set t" "CHR '' '' \<notin> set op" "CHR '' '' \<notin> set op'"
  shows "Contains (s @ '' '' @ op @ '' '' @ t) ('' '' @ op' @ '' '') \<longleftrightarrow> op = op'"
proof
  assume "Contains (s @ '' '' @ op @ '' '' @ t) ('' '' @ op' @ '' '')"
  then obtain x y where eq: "s @ '' '' @ op @ '' '' @ t = x @ ('' '' @ op' @ '' '') @ y"
    by (auto simp: Contains_def sublist_def)
  have zero: "count_list u (CHR '' '') = 0 \<longleftrightarrow> CHR '' '' \<notin> set u" for u :: string
    by (simp add: count_list_0_iff)
  have "count_list (s @ '' '' @ op @ '' '' @ t) (CHR '' '') =
      count_list (x @ ('' '' @ op' @ '' '') @ y) (CHR '' '')"
    by (simp only: eq)
  then have "count_list x (CHR '' '') = 0" "count_list y (CHR '' '') = 0"
    using assms by (simp_all add: zero)
  then have xy: "CHR '' '' \<notin> set x" by (simp add: zero)
  from eq have "s @ CHR '' '' # (op @ '' '' @ t) = x @ CHR '' '' # (op' @ '' '' @ y)" by simp
  from append_sep_inject [OF this assms(1) xy]
  have "op @ CHR '' '' # t = op' @ CHR '' '' # y" by simp
  from append_sep_inject [OF this assms(3,4)] show "op = op'" ..
next
  assume "op = op'"
  then show "Contains (s @ '' '' @ op @ '' '' @ t) ('' '' @ op' @ '' '')"
    using Contains_append [of s "'' '' @ op' @ '' ''" t] by simp
qed

text \<open>The operators, as the source documents them, and what each compares.\<close>

datatype operator = OpEq | OpNe | OpLe | OpGe | OpGt | OpLt

fun operator_text :: "operator \<Rightarrow> string" where
  "operator_text OpEq = ''==''"
| "operator_text OpNe = ''!=''"
| "operator_text OpLe = ''<=''"
| "operator_text OpGe = ''>=''"
| "operator_text OpGt = ''>''"
| "operator_text OpLt = ''<''"

fun operator_holds :: "operator \<Rightarrow> string \<Rightarrow> string \<Rightarrow> bool" where
  "operator_holds OpEq a b = isEqual a b"
| "operator_holds OpNe a b = (\<not> isEqual a b)"
| "operator_holds OpLe a b = (numerical_value a \<le> numerical_value b)"
| "operator_holds OpGe a b = (numerical_value a \<ge> numerical_value b)"
| "operator_holds OpGt a b = (numerical_value a > numerical_value b)"
| "operator_holds OpLt a b = (numerical_value a < numerical_value b)"

definition condition_of :: "string \<Rightarrow> operator \<Rightarrow> string \<Rightarrow> string" where
  "condition_of s op t = s @ '' '' @ operator_text op @ '' '' @ t"

lemma operator_text_no_blank: "CHR '' '' \<notin> set (operator_text op)"
  by (cases op) auto

lemma Contains_condition_of:
  assumes "CHR '' '' \<notin> set s" "CHR '' '' \<notin> set t"
  shows "Contains (condition_of s op t) ('' '' @ operator_text op' @ '' '') \<longleftrightarrow> op = op'"
proof -
  have "operator_text op = operator_text op' \<longleftrightarrow> op = op'" by (cases op; cases op') auto
  then show ?thesis
    using Contains_operator [OF assms operator_text_no_blank operator_text_no_blank]
    by (simp add: condition_of_def)
qed

lemmas Contains_condition_of_each =
  Contains_condition_of [where op' = OpEq, simplified] Contains_condition_of [where op' = OpNe, simplified]
  Contains_condition_of [where op' = OpLe, simplified] Contains_condition_of [where op' = OpGe, simplified]
  Contains_condition_of [where op' = OpGt, simplified] Contains_condition_of [where op' = OpLt, simplified]

lemma Split_condition_of:
  assumes "CHR '' '' \<notin> set s" "CHR '' '' \<notin> set t"
  shows "Split (condition_of s op t) ('' '' @ operator_text op @ '' '') = [s, t]"
  using Split_two [of "'' '' @ operator_text op @ '' ''" s t] assms
  by (simp add: condition_of_def)

lemma TrimSpace_no_blank: "set s \<inter> Collect is_space = {} \<Longrightarrow> TrimSpace s = s"
proof -
  assume *: "set s \<inter> Collect is_space = {}"
  then have "s = [] \<or> \<not> is_space (hd s) \<and> \<not> is_space (last s)"
    using hd_in_set last_in_set by blast
  then have "dropWhile is_space s = s" "dropWhile is_space (rev s) = rev s"
    by (auto simp: dropWhile_eq_self_iff hd_rev)
  then show ?thesis by (simp add: TrimSpace_def)
qed

text \<open>A side of a condition: its text has no blank.\<close>

definition side :: "string \<Rightarrow> bool" where
  "side s \<longleftrightarrow> set s \<inter> Collect is_space = {}"

lemma side_blank: "side s \<Longrightarrow> CHR '' '' \<notin> set s"
  by (auto simp: side_def is_space_def)

lemma sanitize_two:
  assumes "side s" "side t"
    and "ResolvePlaceholder codec s r ctx = Return (Inr s')"
    and "ResolvePlaceholder codec t r ctx = Return (Inr t')"
  shows "sanitizeAndResolveWithContext codec [s, t] r ctx = Return ([s, t], [s', t'], r)"
  using assms by (simp add: side_def TrimSpace_no_blank)

fun operator_display :: "operator \<Rightarrow> string list \<Rightarrow> string list \<Rightarrow> string" where
  "operator_display OpEq ps rs = prettify ps rs ''==''"
| "operator_display OpNe ps rs = prettify ps rs ''!=''"
| "operator_display op ps rs =
     prettifyNumericalParameters ps (map numerical_value rs) (operator_text op)"

lemma evaluate_condition_of:
  assumes "side s" "side t"
    and "ResolvePlaceholder codec s r ctx = Return (Inr s')"
    and "ResolvePlaceholder codec t r ctx = Return (Inr t')"
  shows "evaluate codec (condition_of s op t) r dr rs ctx =
    (let success = operator_holds op s' t' in
     Return (success, record_condition r
       (if shouldResolveCondition dr rs success then operator_display op [s, t] [s', t']
        else condition_of s op t) success))"
  using sanitize_two [OF assms] side_blank [OF assms(1)] side_blank [OF assms(2)]
    Split_condition_of [of s t op]
  by (cases op) (simp_all add: evaluate_def Let_def Contains_condition_of_each evaluate_text_def
      evaluate_numerical_def sanitizeAndResolveNumericalWithContext_def
      del: sanitizeAndResolveWithContext.simps)

section \<open>What an evaluation leaves in the result\<close>

lemma sanitize_result:
  "sanitizeAndResolveWithContext codec es r ctx = Return (ps, rs, r') \<Longrightarrow>
   r' = r \<and> length ps = length es \<and> length rs = length es"
  by (induction es arbitrary: ps rs r')
     (auto simp: Let_def ResolvePlaceholder_no_error split: outcome.splits sum.splits prod.splits)

lemma evaluate_text_result:
  "evaluate_text codec c op holds r sr ctx = Return (b, r') \<Longrightarrow> \<exists>d. r' = record_condition r d b"
  by (auto simp: evaluate_text_def Let_def dest: sanitize_result split: outcome.splits prod.splits)

lemma evaluate_numerical_result:
  "evaluate_numerical codec c op holds r sr ctx = Return (b, r') \<Longrightarrow> \<exists>d. r' = record_condition r d b"
  by (auto simp: evaluate_numerical_def sanitizeAndResolveNumericalWithContext_def Let_def
      dest: sanitize_result split: outcome.splits prod.splits)

definition has_operator :: "string \<Rightarrow> bool" where
  "has_operator c \<longleftrightarrow> (\<exists>op. Contains c ('' '' @ operator_text op @ '' ''))"

lemma has_operator_iff: "has_operator c \<longleftrightarrow>
   Contains c '' == '' \<or> Contains c '' != '' \<or> Contains c '' <= '' \<or>
   Contains c '' >= '' \<or> Contains c '' > '' \<or> Contains c '' < ''"
proof -
  have all: "(\<exists>op. P op) \<longleftrightarrow>
      P OpEq \<or> P OpNe \<or> P OpLe \<or> P OpGe \<or> P OpGt \<or> P OpLt" for P
    by (metis operator.exhaust)
  show ?thesis by (simp add: has_operator_def all)
qed

lemma evaluate_result:
  assumes "evaluate codec c r dr rs ctx = Return (b, r')"
  shows "(has_operator c \<and> (\<exists>d. r' = record_condition r d b)) \<or>
    (\<not> has_operator c \<and> \<not> b \<and> r' = AddError r (''invalid condition: '' @ c))"
  using assms unfolding evaluate_def Let_def has_operator_iff
  by (auto split: if_splits dest!: evaluate_text_result evaluate_numerical_result)

lemma record_condition_simps [simp]:
  "r_Errors (record_condition r d b) = r_Errors r"
  "r_ConditionResults (record_condition r d b) =
     r_ConditionResults r @ [\<lparr>cr_Condition = d, cr_Success = b\<rparr>]"
  "r_Success (record_condition r d b) = r_Success r"
  "r_Timestamp (record_condition r d b) = r_Timestamp r"
  "r_Duration (record_condition r d b) = r_Duration r"
  "r_Body (record_condition r d b) = r_Body r"
  by (simp_all add: record_condition_def)

section \<open>The comparison of two texts\<close>

lemma isEqual_plain_commute: "isEqual_plain a b = isEqual_plain b a"
  by (auto simp: isEqual_plain_def split: option.splits)

lemma isEqual_symmetric: "isEqual a b = isEqual b a"
proof -
  note defs = isEqual_def Let_def is_pattern_def
  show ?thesis
  proof (cases "HasSuffix a FunctionSuffix \<or> HasSuffix b FunctionSuffix")
    case False
    then show ?thesis by (simp add: defs isEqual_plain_commute)
  next
    case True
    then show ?thesis
      by (cases "HasPrefix a PatternFunctionPrefix \<and> HasSuffix a FunctionSuffix";
          cases "HasPrefix b PatternFunctionPrefix \<and> HasSuffix b FunctionSuffix")
         (simp_all add: defs isEqual_plain_commute)
  qed
qed

lemma isEqual_pattern:
  assumes "\<not> (HasPrefix s PatternFunctionPrefix \<and> HasSuffix s FunctionSuffix)"
  shows "isEqual (''pat('' @ p @ '')'') s = Match p s"
proof -
  have "HasSuffix (''pat('' @ p @ '')'') '')''" using HasSuffix_append [of "''pat('' @ p"] by simp
  moreover have "HasPrefix (''pat('' @ p @ '')'') ''pat(''" by (rule HasPrefix_append)
  moreover have "strip_function (''pat('' @ p @ '')'') ''pat('' = p"
    using TrimSuffix_append [of p] TrimPrefix_append [of "''pat(''" "p @ '')''"]
    by (simp add: strip_function_def FunctionSuffix_def)
  ultimately show ?thesis
    using assms by (auto simp: isEqual_def Let_def function_names)
qed

lemma not_prefix_any_pat: "\<not> HasPrefix (''any('' @ p) ''pat(''"
  by (simp add: HasPrefix_def)

lemma isEqual_any:
  assumes "\<not> HasSuffix s FunctionSuffix"
    and "opts \<noteq> []" and "\<And>opt. opt \<in> set opts \<Longrightarrow> CHR '','' \<notin> set opt"
  shows "isEqual (''any('' @ Join opts '','' @ '')'') s \<longleftrightarrow> s \<in> TrimSpace ` set opts"
proof -
  let ?j = "Join opts '',''"
  have "HasSuffix (''any('' @ ?j @ '')'') '')''" using HasSuffix_append [of "''any('' @ ?j"] by simp
  moreover have "HasPrefix (''any('' @ ?j @ '')'') ''any(''" by (rule HasPrefix_append)
  moreover have "strip_function (''any('' @ ?j @ '')'') ''any('' = ?j"
    using TrimSuffix_append [of ?j] TrimPrefix_append [of "''any(''" "?j @ '')''"]
    by (simp add: strip_function_def FunctionSuffix_def)
  ultimately have "isEqual (''any('' @ ?j @ '')'') s = any_option ?j s"
    using assms(1) not_prefix_any_pat [of "?j @ '')''"]
    by (simp add: isEqual_def Let_def function_names)
  also have "Split ?j '','' = opts" by (rule Split_Join_single [OF assms(2,3)])
  then have "any_option ?j s \<longleftrightarrow> s \<in> TrimSpace ` set opts"
    by (auto simp: any_option_def list_ex_iff)
  finally show ?thesis .
qed

section \<open>Validation\<close>

lemma Eval_empty: "isl (unmarshal codec []) \<Longrightarrow> \<exists>x. Eval codec p [] = Return x"
  by (auto simp: Eval_def isl_def)

lemma resolve_Panic:
  "resolveJSONPathPlaceholder codec p fn orig r = Panic e \<Longrightarrow> \<exists>path. Eval codec path (r_Body r) = Panic e"
  "resolveBody codec fn r = Panic e \<Longrightarrow> \<exists>path. Eval codec path (r_Body r) = Panic e"
  by (auto simp: resolveJSONPathPlaceholder_def resolveBody_def Let_def
      split: outcome.splits if_splits sum.splits prod.splits functionType.splits)

lemma ResolvePlaceholder_Panic:
  "ResolvePlaceholder codec p r c = Panic e \<Longrightarrow> \<exists>path. Eval codec path (r_Body r) = Panic e"
  by (auto simp: ResolvePlaceholder_def Let_def resolveContextPlaceholder_no_panic
      split: prod.splits if_splits dest: resolve_Panic)

lemma ResolvePlaceholder_empty:
  assumes "isl (unmarshal codec [])" and "r_Body r = []"
  shows "\<exists>s. ResolvePlaceholder codec p r None = Return (Inr s)"
proof (cases "ResolvePlaceholder codec p r None")
  case (Return res)
  then show ?thesis using ResolvePlaceholder_no_error by (cases res) auto
next
  case (Panic e)
  from ResolvePlaceholder_Panic [OF this] assms(2) obtain path where "Eval codec path [] = Panic e"
    by auto
  with Eval_empty [OF assms(1), of path] show ?thesis by simp
qed

lemma sanitize_empty:
  assumes "isl (unmarshal codec [])" and "r_Body r = []"
  shows "\<exists>x. sanitizeAndResolveWithContext codec es r None = Return x"
proof (induction es)
  case (Cons e es)
  from ResolvePlaceholder_empty [OF assms, of "TrimSpace e"] Cons show ?case by (auto simp: Let_def)
qed simp

lemma evaluate_empty:
  assumes "isl (unmarshal codec [])" and "r_Body r = []"
  shows "\<exists>x. evaluate codec c r dr rs None = Return x"
proof -
  have "\<exists>x. evaluate_text codec c op holds r sr None = Return x" for op holds sr
    using sanitize_empty [OF assms, of "Split c ('' '' @ op @ '' '')"]
    by (auto simp: evaluate_text_def Let_def)
  moreover have "\<exists>x. evaluate_numerical codec c op holds r sr None = Return x" for op holds sr
    using sanitize_empty [OF assms, of "Split c ('' '' @ op @ '' '')"]
    by (auto simp: evaluate_numerical_def sanitizeAndResolveNumericalWithContext_def Let_def)
  ultimately show ?thesis by (auto simp: evaluate_def Let_def)
qed

lemma empty_Result_simps [simp]:
  "r_Errors empty_Result = []" "r_Body empty_Result = []" "r_ConditionResults empty_Result = []"
  by (simp_all add: empty_Result_def)

lemma Condition_Validate_iff:
  assumes "isl (unmarshal codec [])"
  shows "Condition_Validate codec c =
    Return (if has_operator c then None else Some (''invalid condition: '' @ c))"
proof -
  obtain b r where e: "evaluate codec c empty_Result False False None = Return (b, r)"
    using evaluate_empty [OF assms, of empty_Result c False False] by auto
  from evaluate_result [OF e] show ?thesis
    by (auto simp: Condition_Validate_def e AddError_def)
qed

section \<open>Integer sides\<close>

text \<open>
  What a condition means when both sides resolve to the text of integers: the comparison of these
  integers, whatever the operator. The two lemmas on the text of an integer are the bridge.
\<close>

fun int_compare :: "operator \<Rightarrow> int \<Rightarrow> int \<Rightarrow> bool" where
  "int_compare OpEq a b = (a = b)"
| "int_compare OpNe a b = (a \<noteq> b)"
| "int_compare OpLe a b = (a \<le> b)"
| "int_compare OpGe a b = (a \<ge> b)"
| "int_compare OpGt a b = (a > b)"
| "int_compare OpLt a b = (a < b)"

lemma is_digit_plain: "is_digit c \<Longrightarrow> c \<notin> set '')([ ,'' \<and> \<not> is_space c"
  by (auto simp: is_digit_def is_space_def)

lemma Itoa_char_plain:
  "c \<in> set (Itoa i) \<Longrightarrow> c \<noteq> CHR '')'' \<and> c \<noteq> CHR ''['' \<and> c \<noteq> CHR '' '' \<and> \<not> is_space c"
  by (drule Itoa_chars) (auto simp: is_digit_def is_space_def)

lemma side_Itoa: "side (Itoa i)"
  using Itoa_char_plain by (auto simp: side_def)

lemma HasSuffix_paren_Itoa: "\<not> HasSuffix (Itoa i) FunctionSuffix"
proof
  assume "HasSuffix (Itoa i) FunctionSuffix"
  then have "CHR '')'' \<in> set (Itoa i)" by (auto simp: FunctionSuffix_def elim!: HasSuffixE)
  then show False using Itoa_char_plain by blast
qed

lemma Itoa_hd: "is_digit (hd (Itoa i)) \<or> hd (Itoa i) = CHR ''-''"
  using Itoa_chars [of "hd (Itoa i)" i] by simp

lemma literal_Itoa: "literal_element (Itoa i)"
  using Itoa_hd [of i] side_Itoa [of i]
  by (auto simp: literal_element_def TrimSpace_no_blank side_def is_digit_def function_names
      elim!: HasPrefixE)

lemma numerical_value_Itoa: "in_int64 i \<Longrightarrow> numerical_value (Itoa i) = i"
  by (simp add: numerical_value_def ParseDuration_Itoa Let_def ParseInt_Itoa_0)

lemma isEqual_Itoa: "in_int64 i \<Longrightarrow> in_int64 j \<Longrightarrow> isEqual (Itoa i) (Itoa j) \<longleftrightarrow> i = j"
  by (simp add: isEqual_def HasSuffix_paren_Itoa isEqual_plain_def ParseInt_Itoa_0)

lemma operator_holds_Itoa:
  "in_int64 i \<Longrightarrow> in_int64 j \<Longrightarrow> operator_holds op (Itoa i) (Itoa j) = int_compare op i j"
  by (cases op) (simp_all add: isEqual_Itoa numerical_value_Itoa)

lemma evaluate_integers:
  assumes "side s" and "ResolvePlaceholder codec s r ctx = Return (Inr (Itoa i))"
    and "in_int64 i" and "in_int64 n"
  shows "\<exists>d. evaluate codec (condition_of s op (Itoa n)) r dr rs ctx =
    Return (int_compare op i n, record_condition r d (int_compare op i n))"
  using evaluate_condition_of [OF assms(1) side_Itoa assms(2) ResolvePlaceholder_literal
      [OF literal_Itoa], of op n dr rs] operator_holds_Itoa [OF assms(3,4), of op]
  by (auto simp: Let_def)

lemma resolve_integer_placeholders:
  "ResolvePlaceholder codec StatusPlaceholder r ctx = Return (Inr (Itoa (r_HTTPStatus r)))"
  "ResolvePlaceholder codec ResponseTimePlaceholder r ctx =
     Return (Inr (Itoa (Milliseconds (r_Duration r))))"
  "ResolvePlaceholder codec CertificateExpirationPlaceholder r ctx =
     Return (Inr (Itoa (Milliseconds (r_CertificateExpiration r))))"
  "ResolvePlaceholder codec DomainExpirationPlaceholder r ctx =
     Return (Inr (Itoa (Milliseconds (r_DomainExpiration r))))"
  by (simp_all add: ResolvePlaceholder_def placeholder_names function_names
      extractFunctionWrapper_def HasPrefix_def HasSuffix_def TrimSpace_def is_space_def ToUpper_def
      ascii_lower_to_upper_def Let_def formatWithFunction_def)

text \<open>The placeholders that stand for an integer, and that integer.\<close>

definition placeholder_integer :: "string \<Rightarrow> Result \<Rightarrow> int option" where
  "placeholder_integer p r =
     (if p = StatusPlaceholder then Some (r_HTTPStatus r)
      else if p = ResponseTimePlaceholder then Some (Milliseconds (r_Duration r))
      else if p = CertificateExpirationPlaceholder then
        Some (Milliseconds (r_CertificateExpiration r))
      else if p = DomainExpirationPlaceholder then Some (Milliseconds (r_DomainExpiration r))
      else None)"

lemma placeholder_integer_resolves:
  "placeholder_integer p r = Some i \<Longrightarrow>
   side p \<and> ResolvePlaceholder codec p r ctx = Return (Inr (Itoa i))"
  unfolding placeholder_integer_def
  by (auto simp: resolve_integer_placeholders split: if_splits)
     (auto simp: side_def placeholder_names is_space_def)

section \<open>Properties\<close>

text \<open>
  C30. A condition that compares an integer placeholder ([STATUS], [RESPONSE_TIME],
  [CERTIFICATE_EXPIRATION] or [DOMAIN_EXPIRATION]) with an integer holds, for each of the six
  operators, exactly when the two 64-bit integers are so related, and the outcome is appended to
  the result, which is otherwise unchanged.
\<close>

theorem evaluate_integer_placeholder:
  assumes "placeholder_integer p r = Some i" and "in_int64 i" and "in_int64 n"
  shows "\<exists>d. evaluate codec (condition_of p op (Itoa n)) r dontResolve resolve ctx =
    Return (int_compare op i n, record_condition r d (int_compare op i n))"
  using placeholder_integer_resolves [OF assms(1)] assms(2,3)
  by (intro evaluate_integers) auto

theorem evaluate_integer_placeholder_witness:
  "\<exists>d. evaluate \<lparr>unmarshal = (\<lambda>b. Inl b), marshal = fmt_v\<rparr> ''[STATUS] < 300''
      (empty_Result\<lparr>r_HTTPStatus := 200\<rparr>) False False None =
    Return (True, record_condition (empty_Result\<lparr>r_HTTPStatus := 200\<rparr>) d True)"
proof -
  have "condition_of StatusPlaceholder OpLt (Itoa 300) = ''[STATUS] < 300''" by code_simp
  moreover have "placeholder_integer StatusPlaceholder (empty_Result\<lparr>r_HTTPStatus := 200\<rparr>) = Some 200"
    by (simp add: placeholder_integer_def)
  ultimately show ?thesis
    using evaluate_integer_placeholder [of StatusPlaceholder "empty_Result\<lparr>r_HTTPStatus := 200\<rparr>"
        200 300 "\<lparr>unmarshal = (\<lambda>b. Inl b), marshal = fmt_v\<rparr>" OpLt False False None]
    by (simp add: in_int64_def max_int64_def min_int64_def)
qed

text \<open>
  Whatever the condition, an evaluation that returns either appends one condition result
  carrying the value it returns and changes nothing else, or, when the condition has none of the
  operators, returns false and adds the error that says so.
\<close>

theorem evaluate_records_outcome:
  assumes "evaluate codec c r dontResolve resolve ctx = Return (b, r')"
  shows "if has_operator c
    then \<exists>d. r' = r\<lparr>r_ConditionResults :=
      r_ConditionResults r @ [\<lparr>cr_Condition = d, cr_Success = b\<rparr>]\<rparr>
    else \<not> b \<and> r' = AddError r (''invalid condition: '' @ c)"
  using evaluate_result [OF assms] by (auto simp: record_condition_def)

theorem evaluate_records_outcome_witness:
  "r_Errors (snd (case evaluate \<lparr>unmarshal = (\<lambda>b. Inl b), marshal = fmt_v\<rparr> ''[STATUS]=200''
      empty_Result False False None of Return x \<Rightarrow> x | Panic e \<Rightarrow> (True, empty_Result))) =
    [''invalid condition: [STATUS]=200'']"
proof -
  let ?codec = "\<lparr>unmarshal = (\<lambda>b. Inl b), marshal = fmt_v\<rparr>"
  obtain b r where e: "evaluate ?codec ''[STATUS]=200'' empty_Result False False None = Return (b, r)"
    using evaluate_empty [of ?codec empty_Result "''[STATUS]=200''" False False] by auto
  have "\<not> has_operator ''[STATUS]=200''" unfolding has_operator_iff by code_simp
  with evaluate_records_outcome [OF e] show ?thesis by (simp add: e AddError_def)
qed

text \<open>
  Equality of two sides does not depend on which side is written first, patterns and
  \<open>any\<close> lists included.
\<close>

theorem isEqual_commute: "isEqual a b \<longleftrightarrow> isEqual b a"
  by (simp only: isEqual_symmetric)

text \<open>
  A side \<open>any(o1,o2,...)\<close> equals exactly the texts that are one of the trimmed
  options, and a side \<open>pat(a*b)\<close>, for texts a and b without the special characters, equals
  exactly the texts that start with a and end with b, without overlap and path separators aside.
\<close>

theorem isEqual_functions:
  assumes "\<not> HasSuffix s FunctionSuffix"
    and "opts \<noteq> []" and "\<forall>opt \<in> set opts. CHR '','' \<notin> set opt"
    and "no_meta a" and "no_meta b"
  shows "(isEqual (''any('' @ Join opts '','' @ '')'') s \<longleftrightarrow> s \<in> TrimSpace ` set opts) \<and>
    (isEqual s (''pat('' @ (a @ ''*'' @ b) @ '')'') \<longleftrightarrow>
      (\<exists>m. strip_sep s = strip_sep a @ m @ strip_sep b))"
proof
  show "isEqual (''any('' @ Join opts '','' @ '')'') s \<longleftrightarrow> s \<in> TrimSpace ` set opts"
    using isEqual_any [OF assms(1,2)] assms(3) by blast
  have "isEqual s (''pat('' @ (a @ ''*'' @ b) @ '')'') = Match (a @ ''*'' @ b) s"
    unfolding isEqual_symmetric [of s] by (rule isEqual_pattern) (use assms(1) in blast)
  also have "\<dots> \<longleftrightarrow> (\<exists>m. strip_sep s = strip_sep a @ m @ strip_sep b)"
    by (rule Match_infix [OF assms(4,5)])
  finally show "isEqual s (''pat('' @ (a @ ''*'' @ b) @ '')'') \<longleftrightarrow>
      (\<exists>m. strip_sep s = strip_sep a @ m @ strip_sep b)" .
qed

theorem isEqual_functions_witness: "isEqual ''any(ok, up)'' ''up'' \<and> isEqual ''up'' ''pat(u*)''"
proof -
  have "\<not> HasSuffix ''up'' FunctionSuffix" "no_meta ''u''" "no_meta []"
    by (simp_all add: HasSuffix_def FunctionSuffix_def no_meta_def)
  moreover have "TrimSpace '' up'' = ''up''" "strip_sep ''up'' = strip_sep ''u'' @ ''p'' @ strip_sep []"
    by (simp_all add: TrimSpace_def is_space_def strip_sep_def)
  ultimately show ?thesis
    using isEqual_functions [of "''up''" "[''ok'', '' up'']" "''u''" "[]"] by auto
qed

text \<open>
  Validation of a condition never panics, provided the JSON decoder rejects the empty
  text, and it accepts exactly the conditions that contain one of the operators between blanks.
\<close>

theorem Validate_accepts_operators:
  assumes "isl (unmarshal codec [])"
  shows "Condition_Validate codec c =
    Return (if has_operator c then None else Some (''invalid condition: '' @ c))"
  by (rule Condition_Validate_iff [OF assms])

theorem Validate_accepts_operators_witness:
  "Condition_Validate \<lparr>unmarshal = (\<lambda>b. Inl ''unexpected end of JSON input''), marshal = fmt_v\<rparr>
     ''[STATUS]=200'' = Return (Some ''invalid condition: [STATUS]=200'')"
proof -
  have "\<not> has_operator ''[STATUS]=200''" unfolding has_operator_iff by code_simp
  then show ?thesis
    using Validate_accepts_operators [of "\<lparr>unmarshal = (\<lambda>b. Inl ''unexpected end of JSON input''),
        marshal = fmt_v\<rparr>" "''[STATUS]=200''"] by simp
qed

text \<open>
  The displayed duration loses a zero that belongs to its number: ten seconds read as \<open>1\<close>,
  an hour and ten minutes as \<open>1h1\<close>.
\<close>

lemma formatDuration_drops_digit:
  "formatDuration (10 * second) = ''1'' \<and> formatDuration (hour + 10 * minute) = ''1h1''"
  by code_simp

text \<open>
  The name of the context placeholder is recognised in any case but only removed in upper case.
\<close>

lemma context_placeholder_lower_case:
  "ResolvePlaceholder codec ''[context].a'' r (Some \<lparr>ctx_values = [(''a'', VStr ''x'')]\<rparr>) =
     Return (Inr ''[context].a (INVALID)'')"
proof -
  have "resolveContextPlaceholder ''[context].a'' noFunction ''[context].a''
      \<lparr>ctx_values = [(''a'', VStr ''x'')]\<rparr> = Return (Inr ''[context].a (INVALID)'')"
    by code_simp
  moreover have "ToUpper ''[context].a'' = ''[CONTEXT].A''" "TrimSpace ''[context].a'' = ''[context].a''"
    by code_simp+
  ultimately show ?thesis
    by (simp add: ResolvePlaceholder_def extractFunctionWrapper_def function_names
        ContextPlaceholder_def HasPrefix_def Let_def)
qed

text \<open>
  A JSON number of seven digits prints in exponent form, so it differs from its decimal text.
\<close>

lemma body_number_not_equal:
  "isEqual (fmt_v (VFloat (round_f64 False 1234567 1))) ''1234567'' = False"
  by code_simp

end
