(* ===== verification/Endpoint.thy ===== *)
theory Endpoint
  imports Alert Maintenance Client_Config Condition
begin

text \<open>
  The configuration of a monitored endpoint: \<open>config/endpoint/endpoint.go\<close> (the fields and
  their validation), \<open>common.go\<close>, \<open>external_endpoint.go\<close> and the sub-configurations
  \<open>dns\<close>, \<open>ssh\<close>, \<open>ui\<close> and \<open>heartbeat\<close>. What validation asks of the
  libraries is the record \<open>validation_env\<close>: the JSON decoder, the zone database, the loading
  of a key pair, the names of the DNS query types, the request constructor of \<open>net/http\<close> and
  the random strings of a body.
\<close>

section \<open>Sub-configurations\<close>

record DNS_Config =
  dns_QueryType :: string
  dns_QueryName :: string

datatype dns_error = ErrDNSWithNoQueryName | ErrDNSWithInvalidQueryType

definition DNS_ValidateAndSetDefault ::
  "(string \<Rightarrow> bool) \<Rightarrow> DNS_Config \<Rightarrow> dns_error option \<times> DNS_Config" where
  "DNS_ValidateAndSetDefault StringToType d =
     (if dns_QueryName d = [] then (Some ErrDNSWithNoQueryName, d)
      else
        let d = (if HasSuffix (dns_QueryName d) ''.'' then d
                 else d\<lparr>dns_QueryName := dns_QueryName d @ ''.''\<rparr>)
        in if StringToType (dns_QueryType d) then (None, d) else (Some ErrDNSWithInvalidQueryType, d))"

record SSH_Config =
  ssh_Username :: string
  ssh_Password :: string
  ssh_PrivateKey :: string

datatype ssh_error = ErrEndpointWithoutSSHUsername | ErrEndpointWithoutSSHAuth

definition SSH_Validate :: "SSH_Config \<Rightarrow> ssh_error option" where
  "SSH_Validate c =
     (if ssh_Username c = [] \<and> ssh_Password c = [] \<and> ssh_PrivateKey c = [] then None
      else if ssh_Username c = [] then Some ErrEndpointWithoutSSHUsername
      else if ssh_Password c = [] \<and> ssh_PrivateKey c = [] then Some ErrEndpointWithoutSSHAuth
      else None)"

text \<open>The badge is an option, its response time too: both are pointers of the source.\<close>

record UI_Config =
  ui_HideConditions :: bool
  ui_HideHostname :: bool
  ui_HideURL :: bool
  ui_HidePort :: bool
  ui_HideErrors :: bool
  ui_DontResolveFailedConditions :: bool
  ui_ResolveSuccessfulConditions :: bool
  ui_Badge :: "int list option option"

datatype ui_error = ErrInvalidBadgeResponseTimeConfig

definition UI_GetDefaultConfig :: UI_Config where
  "UI_GetDefaultConfig =
     \<lparr>ui_HideConditions = False, ui_HideHostname = False, ui_HideURL = False, ui_HidePort = False,
      ui_HideErrors = False, ui_DontResolveFailedConditions = False,
      ui_ResolveSuccessfulConditions = False, ui_Badge = Some (Some [50, 200, 300, 500, 750])\<rparr>"

definition UI_ValidateAndSetDefaults :: "(ui_error, UI_Config) step" where
  "UI_ValidateAndSetDefaults config =
     (case ui_Badge config of
        None \<Rightarrow> Return (None, config\<lparr>ui_Badge := ui_Badge UI_GetDefaultConfig\<rparr>)
      | Some None \<Rightarrow> Panic ''nil pointer dereference''
      | Some (Some thresholds) \<Rightarrow>
          if length thresholds \<noteq> 5 then Return (Some ErrInvalidBadgeResponseTimeConfig, config)
          else if list_ex (\<lambda>i. thresholds ! i < thresholds ! (i - 1)) [4, 3, 2, 1]
            then Return (Some ErrInvalidBadgeResponseTimeConfig, config)
          else Return (None, config))"

record Heartbeat_Config =
  hb_Interval :: duration

section \<open>Endpoints\<close>

record Endpoint =
  e_Enabled :: "bool option"
  e_Name :: string
  e_Group :: string
  e_URL :: string
  e_Method :: string
  e_Body :: string
  e_GraphQL :: bool
  e_Headers :: "(string \<times> string) list"
  e_ExtraLabels :: "(string \<times> string) list"
  e_Interval :: duration
  e_Conditions :: "string list"
  e_Alerts :: "Alert list"
  e_MaintenanceWindows :: "Maintenance_Config list"
  e_DNSConfig :: "DNS_Config option"
  e_SSHConfig :: "SSH_Config option"
  e_ClientConfig :: "Client_Config option"
  e_UIConfig :: "UI_Config option"
  e_NumberOfFailuresInARow :: int
  e_NumberOfSuccessesInARow :: int
  e_KeyOverride :: string
  e_LastReminderSent :: instant
  e_Store :: "(string \<times> string) list"
  e_AlwaysRun :: bool

text \<open>\<open>&Endpoint{}\<close>\<close>

definition empty_Endpoint :: Endpoint where
  "empty_Endpoint =
     \<lparr>e_Enabled = None, e_Name = [], e_Group = [], e_URL = [], e_Method = [], e_Body = [],
      e_GraphQL = False, e_Headers = [], e_ExtraLabels = [], e_Interval = 0, e_Conditions = [],
      e_Alerts = [], e_MaintenanceWindows = [], e_DNSConfig = None, e_SSHConfig = None,
      e_ClientConfig = None, e_UIConfig = None, e_NumberOfFailuresInARow = 0,
      e_NumberOfSuccessesInARow = 0, e_KeyOverride = [], e_LastReminderSent = zero_time,
      e_Store = [], e_AlwaysRun = False\<rparr>"

datatype EndpointType =
    TypeDNS | TypeTCP | TypeSCTP | TypeUDP | TypeICMP | TypeSTARTTLS | TypeTLS | TypeHTTP
  | TypeGRPC | TypeWS | TypeSSH | TypeUNKNOWN

definition Endpoint_IsEnabled :: "Endpoint \<Rightarrow> bool" where
  "Endpoint_IsEnabled e = (case e_Enabled e of None \<Rightarrow> True | Some b \<Rightarrow> b)"

definition Endpoint_Type :: "Endpoint \<Rightarrow> EndpointType" where
  "Endpoint_Type e =
     (if e_DNSConfig e \<noteq> None then TypeDNS
      else if HasPrefix (e_URL e) ''tcp://'' then TypeTCP
      else if HasPrefix (e_URL e) ''sctp://'' then TypeSCTP
      else if HasPrefix (e_URL e) ''udp://'' then TypeUDP
      else if HasPrefix (e_URL e) ''icmp://'' then TypeICMP
      else if HasPrefix (e_URL e) ''starttls://'' then TypeSTARTTLS
      else if HasPrefix (e_URL e) ''tls://'' then TypeTLS
      else if HasPrefix (e_URL e) ''http://'' \<or> HasPrefix (e_URL e) ''https://'' then TypeHTTP
      else if HasPrefix (e_URL e) ''grpc://'' \<or> HasPrefix (e_URL e) ''grpcs://'' then TypeGRPC
      else if HasPrefix (e_URL e) ''ws://'' \<or> HasPrefix (e_URL e) ''wss://'' then TypeWS
      else if HasPrefix (e_URL e) ''ssh://'' then TypeSSH
      else TypeUNKNOWN)"

definition Endpoint_DisplayName :: "Endpoint \<Rightarrow> string" where
  "Endpoint_DisplayName e = (if e_Group e \<noteq> [] then e_Group e @ ''/'' @ e_Name e else e_Name e)"

definition Endpoint_Key :: "Endpoint \<Rightarrow> string" where
  "Endpoint_Key e =
     (if e_KeyOverride e \<noteq> [] then e_KeyOverride e
      else ConvertGroupAndNameToKey (e_Group e) (e_Name e))"

definition hasHeader :: "(string \<times> string) list \<Rightarrow> string \<Rightarrow> bool" where
  "hasHeader headers name \<longleftrightarrow> list_ex (\<lambda>(k, v). EqualFold k name) headers"

definition UserAgentHeader :: string where "UserAgentHeader = ''User-Agent''"
definition ContentTypeHeader :: string where "ContentTypeHeader = ''Content-Type''"
definition HostHeader :: string where "HostHeader = ''Host''"
definition GatusUserAgent :: string where "GatusUserAgent = ''Gatus/1.0''"

definition needsToReadBody :: "Endpoint \<Rightarrow> bool" where
  "needsToReadBody e \<longleftrightarrow>
     list_ex hasBodyPlaceholder (e_Conditions e) \<or>
     list_ex (\<lambda>(k, v). Contains v BodyPlaceholder) (e_Store e)"

definition needsToRetrieveDomainExpiration :: "Endpoint \<Rightarrow> bool" where
  "needsToRetrieveDomainExpiration e = list_ex hasDomainExpirationPlaceholder (e_Conditions e)"

definition needsToRetrieveIP :: "Endpoint \<Rightarrow> bool" where
  "needsToRetrieveIP e = list_ex hasIPPlaceholder (e_Conditions e)"

section \<open>The body of the request\<close>

text \<open>
  \<open>[RANDOM_STRING_<n>]\<close> stands for a random string of \<open>n\<close> characters, at most 8192:
  \<open>random i n\<close> is the string drawn for the i-th occurrence. A number too big for an integer
  reads as the biggest one.
\<close>

definition random_marker :: "string \<Rightarrow> (nat \<times> string) option" where
  "random_marker s =
     (if prefix ''[RANDOM_STRING_'' s then
        (let rest = drop 15 s; ds = takeWhile is_digit rest; tail = dropWhile is_digit rest in
         if ds \<noteq> [] \<and> tail \<noteq> [] \<and> hd tail = CHR '']'' then
           Some (case Atoi ds of None \<Rightarrow> 8192 | Some n \<Rightarrow> nat (if 8192 < n then 8192 else n), tl tail)
         else None)
      else None)"

lemma length_random_marker: "random_marker s = Some (n, t) \<Longrightarrow> length t < length s"
proof -
  assume *: "random_marker s = Some (n, t)"
  let ?tail = "dropWhile is_digit (drop 15 s)"
  from * have "t = tl ?tail" "?tail \<noteq> []" by (auto simp: random_marker_def Let_def split: if_splits)
  then have "length t < length ?tail" by simp
  also have "\<dots> \<le> length (drop 15 s)" by (rule length_dropWhile_le)
  finally show ?thesis by simp
qed

function replace_random :: "(nat \<Rightarrow> nat \<Rightarrow> string) \<Rightarrow> nat \<Rightarrow> string \<Rightarrow> string" where
  "replace_random random i s =
     (case random_marker s of
        Some (n, t) \<Rightarrow> random i n @ replace_random random (Suc i) t
      | None \<Rightarrow> (case s of [] \<Rightarrow> [] | c # t \<Rightarrow> c # replace_random random i t))"
  by pat_completeness auto
termination
  by (relation "measure (\<lambda>(r, i, s). length s)") (auto dest: length_random_marker)

declare replace_random.simps [simp del]

definition getParsedBody :: "(nat \<Rightarrow> nat \<Rightarrow> string) \<Rightarrow> Endpoint \<Rightarrow> string" where
  "getParsedBody random e =
     (let body = ReplaceAll (e_Body e) ''[ENDPOINT_NAME]'' (e_Name e);
          body = ReplaceAll body ''[ENDPOINT_GROUP]'' (e_Group e);
          body = ReplaceAll body ''[ENDPOINT_URL]'' (e_URL e)
      in replace_random random 0 body)"

section \<open>Validation\<close>

record validation_env =
  v_codec :: json_codec
  v_LoadLocation :: "string \<Rightarrow> string + location"
  v_LoadX509KeyPair :: "string \<Rightarrow> string \<Rightarrow> string option"
  v_StringToType :: "string \<Rightarrow> bool"
  v_NewRequest :: "string \<Rightarrow> string \<Rightarrow> string option"
  v_random :: "nat \<Rightarrow> nat \<Rightarrow> string"

datatype endpoint_error =
    ErrEndpointWithNoName
  | ErrEndpointWithInvalidNameOrGroup
  | ErrEndpointWithNoCondition
  | ErrEndpointWithNoURL
  | ErrUnknownEndpointType
  | ErrInvalidConditionFormat string
  | ErrInvalidEndpointIntervalForDomainExpirationPlaceholder
  | ErrAlert alert_error
  | ErrClient client_error
  | ErrUI ui_error
  | ErrDNS dns_error
  | ErrSSH ssh_error
  | ErrMaintenance maintenance_error
  | ErrNewRequest string
  | ErrExternalEndpointWithNoToken
  | ErrInvalidExternalEndpointKey
  | ErrExternalEndpointHeartbeatIntervalTooLow

definition invalid_name_chars :: string where "invalid_name_chars = [CHR 0x22, CHR 0x5C]"

definition validateEndpointNameGroupAndAlerts ::
  "string \<Rightarrow> string \<Rightarrow> Alert list \<Rightarrow> endpoint_error option \<times> Alert list" where
  "validateEndpointNameGroupAndAlerts name grp alerts =
     (if name = [] then (Some ErrEndpointWithNoName, alerts)
      else if ContainsAny name invalid_name_chars \<or> ContainsAny grp invalid_name_chars
        then (Some ErrEndpointWithInvalidNameOrGroup, alerts)
      else case first_error Alert_ValidateAndSetDefaults alerts of
             (err, alerts') \<Rightarrow> (map_option ErrAlert err, alerts'))"

fun validate_conditions :: "json_codec \<Rightarrow> duration \<Rightarrow> string list \<Rightarrow> endpoint_error option outcome" where
  "validate_conditions codec interval [] = Return None"
| "validate_conditions codec interval (c # cs) =
     (if interval < 5 * minute \<and> hasDomainExpirationPlaceholder c
        then Return (Some ErrInvalidEndpointIntervalForDomainExpirationPlaceholder)
      else case Condition_Validate codec c of
             Panic p \<Rightarrow> Panic p
           | Return (Some e) \<Rightarrow> Return (Some (ErrInvalidConditionFormat e))
           | Return None \<Rightarrow> validate_conditions codec interval cs)"

definition step_name_group_alerts :: "(endpoint_error, Endpoint) step" where
  "step_name_group_alerts e =
     (case validateEndpointNameGroupAndAlerts (e_Name e) (e_Group e) (e_Alerts e) of
        (err, alerts) \<Rightarrow> Return (err, e\<lparr>e_Alerts := alerts\<rparr>))"

definition step_client :: "validation_env \<Rightarrow> (endpoint_error, Endpoint) step" where
  "step_client env e =
     (case e_ClientConfig e of
        None \<Rightarrow> Return (None, e\<lparr>e_ClientConfig := Some Client_GetDefaultConfig\<rparr>)
      | Some c \<Rightarrow>
          (case Client_ValidateAndSetDefaults (v_LoadX509KeyPair env) c of
             (err, c') \<Rightarrow> Return (map_option ErrClient err, e\<lparr>e_ClientConfig := Some c'\<rparr>)))"

definition step_ui :: "(endpoint_error, Endpoint) step" where
  "step_ui e =
     (case e_UIConfig e of
        None \<Rightarrow> Return (None, e\<lparr>e_UIConfig := Some UI_GetDefaultConfig\<rparr>)
      | Some u \<Rightarrow>
          (case UI_ValidateAndSetDefaults u of
             Panic p \<Rightarrow> Panic p
           | Return (err, u') \<Rightarrow> Return (map_option ErrUI err, e\<lparr>e_UIConfig := Some u'\<rparr>)))"

definition set_request_defaults :: "Endpoint \<Rightarrow> Endpoint" where
  "set_request_defaults e0 =
     (let e = (if e_Interval e0 = 0 then e0\<lparr>e_Interval := 1 * minute\<rparr> else e0);
          e = (if e_Method e = [] then e\<lparr>e_Method := ''GET''\<rparr> else e);
          e = (if \<not> hasHeader (e_Headers e) UserAgentHeader
               then e\<lparr>e_Headers := AList.update UserAgentHeader GatusUserAgent (e_Headers e)\<rparr> else e);
          e = (if \<not> hasHeader (e_Headers e) ContentTypeHeader \<and> e_GraphQL e
               then e\<lparr>e_Headers := AList.update ContentTypeHeader ''application/json'' (e_Headers e)\<rparr>
               else e)
      in e)"

definition step_conditions :: "validation_env \<Rightarrow> (endpoint_error, Endpoint) step" where
  "step_conditions env e =
     (case validate_conditions (v_codec env) (e_Interval e) (e_Conditions e) of
        Panic p \<Rightarrow> Panic p
      | Return err \<Rightarrow> Return (err, e))"

text \<open>
  The end of the function: a DNS or SSH endpoint returns from the middle of it, before the type,
  the maintenance windows and the request are looked at.
\<close>

definition step_maintenance :: "validation_env \<Rightarrow> (endpoint_error, Endpoint) step" where
  "step_maintenance env e =
     (case first_error (Maintenance_ValidateAndSetDefaults (v_LoadLocation env)) (e_MaintenanceWindows e) of
        (err, ws) \<Rightarrow> Return (map_option ErrMaintenance err, e\<lparr>e_MaintenanceWindows := ws\<rparr>))"

definition step_by_type :: "validation_env \<Rightarrow> (endpoint_error, Endpoint) step" where
  "step_by_type env e =
     (case e_DNSConfig e of
        Some d \<Rightarrow>
          (case DNS_ValidateAndSetDefault (v_StringToType env) d of
             (err, d') \<Rightarrow> Return (map_option ErrDNS err, e\<lparr>e_DNSConfig := Some d'\<rparr>))
      | None \<Rightarrow>
          (case e_SSHConfig e of
             Some c \<Rightarrow> Return (map_option ErrSSH (SSH_Validate c), e)
           | None \<Rightarrow>
               run_steps
                 [check (\<lambda>e. if Endpoint_Type e = TypeUNKNOWN then Some ErrUnknownEndpointType else None),
                  step_maintenance env,
                  check (\<lambda>e. map_option ErrNewRequest (v_NewRequest env (e_Method e) (e_URL e)))] e))"

definition Endpoint_ValidateAndSetDefaults :: "validation_env \<Rightarrow> (endpoint_error, Endpoint) step" where
  "Endpoint_ValidateAndSetDefaults env =
     run_steps
       [step_name_group_alerts,
        check (\<lambda>e. if e_URL e = [] then Some ErrEndpointWithNoURL else None),
        step_client env,
        step_ui,
        modify set_request_defaults,
        check (\<lambda>e. if e_Conditions e = [] then Some ErrEndpointWithNoCondition else None),
        step_conditions env,
        step_by_type env]"

section \<open>External endpoints\<close>

record ExternalEndpoint =
  ee_Enabled :: "bool option"
  ee_Name :: string
  ee_Group :: string
  ee_CustomKey :: string
  ee_Token :: string
  ee_Alerts :: "Alert list"
  ee_MaintenanceWindows :: "Maintenance_Config list"
  ee_Heartbeat :: Heartbeat_Config
  ee_NumberOfFailuresInARow :: int
  ee_NumberOfSuccessesInARow :: int

text \<open>The pattern \<open>^[a-z0-9][a-z0-9_-]*$\<close>.\<close>

definition is_lower_alnum :: "char \<Rightarrow> bool" where
  "is_lower_alnum c \<longleftrightarrow> is_digit c \<or> (let n = of_char c :: nat in 97 \<le> n \<and> n \<le> 122)"

definition externalEndpointKeyPattern :: "string \<Rightarrow> bool" where
  "externalEndpointKeyPattern s \<longleftrightarrow>
     s \<noteq> [] \<and> is_lower_alnum (hd s) \<and> list_all (\<lambda>c. is_lower_alnum c \<or> c \<in> {CHR ''_'', CHR ''-''}) (tl s)"

definition External_ValidateAndSetDefaults ::
  "ExternalEndpoint \<Rightarrow> endpoint_error option \<times> ExternalEndpoint" where
  "External_ValidateAndSetDefaults ee =
     (case validateEndpointNameGroupAndAlerts (ee_Name ee) (ee_Group ee) (ee_Alerts ee) of
        (Some err, alerts) \<Rightarrow> (Some err, ee\<lparr>ee_Alerts := alerts\<rparr>)
      | (None, alerts) \<Rightarrow>
          (let ee = ee\<lparr>ee_Alerts := alerts\<rparr> in
           if ee_Token ee = [] then (Some ErrExternalEndpointWithNoToken, ee)
           else if ee_CustomKey ee \<noteq> [] \<and> \<not> externalEndpointKeyPattern (ee_CustomKey ee)
             then (Some ErrInvalidExternalEndpointKey, ee)
           else if hb_Interval (ee_Heartbeat ee) \<noteq> 0 \<and> hb_Interval (ee_Heartbeat ee) < 10 * second
             then (Some ErrExternalEndpointHeartbeatIntervalTooLow, ee)
           else (None, ee)))"

definition External_IsEnabled :: "ExternalEndpoint \<Rightarrow> bool" where
  "External_IsEnabled ee = (case ee_Enabled ee of None \<Rightarrow> True | Some b \<Rightarrow> b)"

definition External_DisplayName :: "ExternalEndpoint \<Rightarrow> string" where
  "External_DisplayName ee =
     (if ee_Group ee \<noteq> [] then ee_Group ee @ ''/'' @ ee_Name ee else ee_Name ee)"

definition External_Key :: "ExternalEndpoint \<Rightarrow> string" where
  "External_Key ee =
     (if ee_CustomKey ee \<noteq> [] then ee_CustomKey ee
      else ConvertGroupAndNameToKey (ee_Group ee) (ee_Name ee))"

definition ToEndpoint :: "ExternalEndpoint \<Rightarrow> Endpoint" where
  "ToEndpoint ee =
     empty_Endpoint
       \<lparr>e_Enabled := ee_Enabled ee, e_Name := ee_Name ee, e_Group := ee_Group ee,
        e_KeyOverride := ee_CustomKey ee, e_Alerts := ee_Alerts ee,
        e_NumberOfFailuresInARow := ee_NumberOfFailuresInARow ee,
        e_NumberOfSuccessesInARow := ee_NumberOfSuccessesInARow ee\<rparr>"

section \<open>What validation establishes\<close>

definition invalid_name :: "string \<Rightarrow> bool" where
  "invalid_name s = ContainsAny s invalid_name_chars"

definition validated_endpoint :: "Endpoint \<Rightarrow> bool" where
  "validated_endpoint e \<longleftrightarrow>
     e_Name e \<noteq> [] \<and> \<not> invalid_name (e_Name e) \<and> \<not> invalid_name (e_Group e) \<and>
     (\<forall>a \<in> set (e_Alerts e). valid_alert a) \<and> e_URL e \<noteq> [] \<and> e_Interval e \<noteq> 0 \<and>
     e_Method e \<noteq> [] \<and> hasHeader (e_Headers e) UserAgentHeader \<and>
     e_ClientConfig e \<noteq> None \<and> e_UIConfig e \<noteq> None \<and>
     e_Conditions e \<noteq> [] \<and> (\<forall>c \<in> set (e_Conditions e). has_operator c) \<and>
     (needsToRetrieveDomainExpiration e \<longrightarrow> 5 * minute \<le> e_Interval e)"

lemma first_error_validated:
  assumes "first_error f xs = (None, ys)" and "\<And>x y. f x = (None, y) \<Longrightarrow> P y" and "y \<in> set ys"
  shows "P y"
  using first_error_None [OF assms(1)] assms(2,3) by (auto simp: list_all2_conv_all_nth in_set_conv_nth)

lemma step_name_group_alerts_None:
  assumes "step_name_group_alerts e = Return (None, e')"
  shows "e_Name e \<noteq> [] \<and> \<not> invalid_name (e_Name e) \<and> \<not> invalid_name (e_Group e) \<and>
    (\<exists>as. e' = e\<lparr>e_Alerts := as\<rparr> \<and> (\<forall>a \<in> set as. valid_alert a))"
proof -
  from assms obtain as where as: "first_error Alert_ValidateAndSetDefaults (e_Alerts e) = (None, as)"
    and e': "e' = e\<lparr>e_Alerts := as\<rparr>"
    and names: "e_Name e \<noteq> [] \<and> \<not> invalid_name (e_Name e) \<and> \<not> invalid_name (e_Group e)"
    by (auto simp: step_name_group_alerts_def validateEndpointNameGroupAndAlerts_def
        invalid_name_def split: if_splits prod.splits)
  have "\<forall>a \<in> set as. valid_alert a"
    using first_error_validated [OF as, of valid_alert] Alert_ValidateAndSetDefaults_valid by blast
  with e' names show ?thesis by blast
qed

lemma step_client_None:
  "step_client env e = Return (None, e') \<Longrightarrow> \<exists>c. e' = e\<lparr>e_ClientConfig := Some c\<rparr>"
  by (auto simp: step_client_def split: option.splits prod.splits)

lemma step_ui_None:
  "step_ui e = Return (None, e') \<Longrightarrow> \<exists>u. e' = e\<lparr>e_UIConfig := Some u\<rparr>"
  by (auto simp: step_ui_def split: option.splits outcome.splits prod.splits)

lemma hasHeader_update: "hasHeader (AList.update k v hs) n \<longleftrightarrow> EqualFold k n \<or> hasHeader hs n"
  by (induction hs) (auto simp: hasHeader_def)

lemma EqualFold_refl [simp]: "EqualFold s s"
  by (simp add: EqualFold_def)

lemma set_request_defaults_simps [simp]:
  "e_Name (set_request_defaults e) = e_Name e" "e_Group (set_request_defaults e) = e_Group e"
  "e_URL (set_request_defaults e) = e_URL e" "e_Alerts (set_request_defaults e) = e_Alerts e"
  "e_ClientConfig (set_request_defaults e) = e_ClientConfig e"
  "e_UIConfig (set_request_defaults e) = e_UIConfig e"
  "e_Conditions (set_request_defaults e) = e_Conditions e"
  "e_KeyOverride (set_request_defaults e) = e_KeyOverride e"
  "e_DNSConfig (set_request_defaults e) = e_DNSConfig e"
  "e_SSHConfig (set_request_defaults e) = e_SSHConfig e"
  "e_MaintenanceWindows (set_request_defaults e) = e_MaintenanceWindows e"
  by (simp_all add: set_request_defaults_def Let_def)

lemma set_request_defaults_sets:
  "e_Interval (set_request_defaults e) = (if e_Interval e = 0 then minute else e_Interval e)"
  "e_Method (set_request_defaults e) \<noteq> []"
  "hasHeader (e_Headers (set_request_defaults e)) UserAgentHeader"
  by (simp_all add: set_request_defaults_def Let_def hasHeader_update)

lemma validate_conditions_None:
  "validate_conditions codec i cs = Return None \<Longrightarrow> isl (unmarshal codec []) \<Longrightarrow> c \<in> set cs \<Longrightarrow>
   has_operator c \<and> (hasDomainExpirationPlaceholder c \<longrightarrow> 5 * minute \<le> i)"
  by (induction cs) (auto simp: Condition_Validate_iff split: if_splits)

text \<open>The last step only touches the DNS configuration or the maintenance windows.\<close>

lemma step_by_type_None:
  assumes "step_by_type env e = Return (None, e')"
  shows "(\<exists>d. e_DNSConfig e \<noteq> None \<and> e' = e\<lparr>e_DNSConfig := Some d\<rparr>) \<or>
    (e_DNSConfig e = None \<and> e_SSHConfig e \<noteq> None \<and> e' = e) \<or>
    (e_DNSConfig e = None \<and> e_SSHConfig e = None \<and> Endpoint_Type e \<noteq> TypeUNKNOWN \<and>
      (\<exists>ws. e' = e\<lparr>e_MaintenanceWindows := ws\<rparr> \<and>
        (\<forall>w \<in> set ws. Maintenance_IsEnabled w \<longrightarrow> valid_maintenance w)))"
proof -
  have windows: "w \<in> set ws \<Longrightarrow> Maintenance_IsEnabled w \<longrightarrow> valid_maintenance w"
    if "first_error (Maintenance_ValidateAndSetDefaults ld) ws0 = (None, ws)" for ld ws0 ws w
  proof (rule first_error_validated [OF that])
    fix x y assume v: "Maintenance_ValidateAndSetDefaults ld x = (None, y)"
    show "Maintenance_IsEnabled y \<longrightarrow> valid_maintenance y"
    proof (cases "Maintenance_IsEnabled x")
      case True
      with Maintenance_validated [OF v] show ?thesis by simp
    next
      case False
      with v show ?thesis by (simp add: Maintenance_ValidateAndSetDefaults_def)
    qed
  qed
  from assms windows show ?thesis
    by (auto simp: step_by_type_def step_maintenance_def check_def
        split: option.splits prod.splits if_splits)
qed

lemma Endpoint_validated:
  assumes "Endpoint_ValidateAndSetDefaults env e = Return (None, e')"
    and "isl (unmarshal (v_codec env) [])"
  shows "validated_endpoint e' \<and> Endpoint_Key e' = Endpoint_Key e \<and>
    (e_DNSConfig e = None \<and> e_SSHConfig e = None \<longrightarrow> Endpoint_Type e' \<noteq> TypeUNKNOWN \<and>
      (\<forall>w \<in> set (e_MaintenanceWindows e'). Maintenance_IsEnabled w \<longrightarrow> valid_maintenance w))"
proof -
  from assms(1) obtain e1 e2 e3 where
    1: "step_name_group_alerts e = Return (None, e1)" and url: "e_URL e1 \<noteq> []" and
    2: "step_client env e1 = Return (None, e2)" and 3: "step_ui e2 = Return (None, e3)" and
    rest: "run_steps [check (\<lambda>e. if e_Conditions e = [] then Some ErrEndpointWithNoCondition else None),
      step_conditions env, step_by_type env] (set_request_defaults e3) = Return (None, e')"
    unfolding Endpoint_ValidateAndSetDefaults_def
    by (elim run_steps_NoneE) (auto simp: check_def modify_def split: if_splits)
  let ?e4 = "set_request_defaults e3"
  from rest have cs: "e_Conditions ?e4 \<noteq> []" "step_conditions env ?e4 = Return (None, ?e4)"
    and last: "step_by_type env ?e4 = Return (None, e')"
    by (auto simp: step_conditions_def split: if_splits outcome.splits option.splits)
  from cs(2) have vc: "validate_conditions (v_codec env) (e_Interval ?e4) (e_Conditions ?e4) = Return None"
    by (auto simp: step_conditions_def split: outcome.splits)
  have fields: "validated_endpoint ?e4" "Endpoint_Key ?e4 = Endpoint_Key e"
    "e_DNSConfig ?e4 = e_DNSConfig e" "e_SSHConfig ?e4 = e_SSHConfig e"
    using step_name_group_alerts_None [OF 1] step_client_None [OF 2] step_ui_None [OF 3] url cs(1)
      set_request_defaults_sets [of e3] validate_conditions_None [OF vc assms(2)]
    by (auto simp: validated_endpoint_def Endpoint_Key_def needsToRetrieveDomainExpiration_def
        list_ex_iff minute_def split: if_splits)
  have "validated_endpoint e'" "Endpoint_Key e' = Endpoint_Key ?e4"
    using fields(1) step_by_type_None [OF last]
    by (auto simp: validated_endpoint_def Endpoint_Key_def needsToRetrieveDomainExpiration_def)
  moreover have "Endpoint_Type e' \<noteq> TypeUNKNOWN \<and>
      (\<forall>w \<in> set (e_MaintenanceWindows e'). Maintenance_IsEnabled w \<longrightarrow> valid_maintenance w)"
    if "e_DNSConfig e = None \<and> e_SSHConfig e = None"
    using that fields(3,4) step_by_type_None [OF last] by (auto simp: Endpoint_Type_def)
  ultimately show ?thesis using fields(2) by simp
qed

text \<open>
  A DNS or SSH endpoint keeps its maintenance windows as they were read: no start is computed for
  them and no error in them is found.
\<close>

lemma DNS_windows_not_validated:
  assumes "step_by_type env e = Return (None, e')" and "e_DNSConfig e \<noteq> None \<or> e_SSHConfig e \<noteq> None"
  shows "e_MaintenanceWindows e' = e_MaintenanceWindows e"
  using step_by_type_None [OF assms(1)] assms(2) by auto

lemma ToEndpoint_Key [simp]: "Endpoint_Key (ToEndpoint ee) = External_Key ee"
  by (simp add: ToEndpoint_def Endpoint_Key_def External_Key_def)

lemma ToEndpoint_simps [simp]:
  "e_Name (ToEndpoint ee) = ee_Name ee" "e_Group (ToEndpoint ee) = ee_Group ee"
  "e_Alerts (ToEndpoint ee) = ee_Alerts ee"
  "e_NumberOfFailuresInARow (ToEndpoint ee) = ee_NumberOfFailuresInARow ee"
  "e_NumberOfSuccessesInARow (ToEndpoint ee) = ee_NumberOfSuccessesInARow ee"
  "e_LastReminderSent (ToEndpoint ee) = zero_time"
  by (simp_all add: ToEndpoint_def empty_Endpoint_def)

section \<open>Properties\<close>

text \<open>
  C31. An endpoint that passes validation has a name, without quotes or backslashes in it or in
  the group, a URL, a method, a user agent, client and UI configurations, valid alerts and
  conditions that all have an operator, and keeps its interval at five minutes or more when a
  condition looks at the domain expiration. Its key is the one it had. Unless it is a DNS or SSH
  endpoint, its type is known and its enabled maintenance windows are valid.
\<close>

theorem validated_endpoint_sound:
  assumes "Endpoint_ValidateAndSetDefaults env e = Return (None, e')"
    and "isl (unmarshal (v_codec env) [])"
  shows "validated_endpoint e' \<and> Endpoint_Key e' = Endpoint_Key e \<and>
    (e_DNSConfig e = None \<longrightarrow> e_SSHConfig e = None \<longrightarrow> Endpoint_Type e' \<noteq> TypeUNKNOWN \<and>
      (\<forall>w \<in> set (e_MaintenanceWindows e'). Maintenance_IsEnabled w \<longrightarrow> valid_maintenance w))"
  using Endpoint_validated [OF assms] by blast

definition example_env :: validation_env where
  "example_env = \<lparr>v_codec = \<lparr>unmarshal = (\<lambda>b. Inl ''unexpected end of JSON input''), marshal = fmt_v\<rparr>,
     v_LoadLocation = (\<lambda>z. Inl ''unknown time zone''), v_LoadX509KeyPair = (\<lambda>c k. None),
     v_StringToType = (\<lambda>t. t = ''A''), v_NewRequest = (\<lambda>m u. None), v_random = (\<lambda>i n. [])\<rparr>"

definition example_endpoint :: Endpoint where
  "example_endpoint = empty_Endpoint\<lparr>e_Name := ''web'', e_URL := ''https://example.org'',
     e_Conditions := [''[STATUS] == 200'']\<rparr>"

lemma example_endpoint_validates:
  "\<exists>e'. Endpoint_ValidateAndSetDefaults example_env example_endpoint = Return (None, e')"
proof -
  have "Condition_Validate (v_codec example_env) ''[STATUS] == 200'' = Return None"
    by (subst Condition_Validate_iff) (simp_all add: example_env_def has_operator_iff, code_simp)
  moreover have "\<not> hasDomainExpirationPlaceholder ''[STATUS] == 200''" by code_simp
  moreover have "v_NewRequest example_env m u = None" for m u by (simp add: example_env_def)
  ultimately show ?thesis
    by (simp add: Endpoint_ValidateAndSetDefaults_def example_endpoint_def empty_Endpoint_def
        step_name_group_alerts_def validateEndpointNameGroupAndAlerts_def invalid_name_chars_def
        ContainsAny_def step_client_def step_ui_def check_def modify_def step_conditions_def
        step_by_type_def step_maintenance_def Endpoint_Type_def HasPrefix_def)
qed

theorem validated_endpoint_sound_witness:
  "\<exists>e'. Endpoint_ValidateAndSetDefaults example_env example_endpoint = Return (None, e') \<and>
     validated_endpoint e' \<and> Endpoint_Key e' = ''_web''"
proof -
  obtain e' where e': "Endpoint_ValidateAndSetDefaults example_env example_endpoint = Return (None, e')"
    using example_endpoint_validates by blast
  have "isl (unmarshal (v_codec example_env) [])" by (simp add: example_env_def)
  from validated_endpoint_sound [OF e' this] e'
  have "validated_endpoint e' \<and> Endpoint_Key e' = Endpoint_Key example_endpoint" by blast
  moreover have "Endpoint_Key example_endpoint = ''_web''" by code_simp
  ultimately show ?thesis using e' by auto
qed

lemma lower_alnum_ToLower: "is_lower_alnum c \<or> c = CHR ''_'' \<or> c = CHR ''-'' \<Longrightarrow> ascii_upper_to_lower c = c"
  by (auto simp: is_lower_alnum_def is_digit_def ascii_upper_to_lower_def Let_def)

lemma key_pattern_ToLower: "externalEndpointKeyPattern s \<Longrightarrow> ToLower s = s"
  unfolding ToLower_def
  by (cases s) (auto simp: externalEndpointKeyPattern_def list_all_iff lower_alnum_ToLower intro!: map_idI)

lemma External_Key_ToLower:
  "ee_CustomKey ee = [] \<or> externalEndpointKeyPattern (ee_CustomKey ee) \<Longrightarrow>
   ToLower (External_Key ee) = External_Key ee"
  by (auto simp: External_Key_def ToLower_key key_pattern_ToLower)

lemma External_validated:
  assumes "External_ValidateAndSetDefaults ee = (None, ee')"
  shows "ee_Name ee' \<noteq> [] \<and> ee_Token ee' \<noteq> [] \<and> (\<forall>a \<in> set (ee_Alerts ee'). valid_alert a) \<and>
    External_Key ee' = External_Key ee \<and>
    (ee_CustomKey ee = [] \<or> externalEndpointKeyPattern (ee_CustomKey ee)) \<and>
    ee_MaintenanceWindows ee' = ee_MaintenanceWindows ee"
proof -
  from assms obtain as where
    v: "validateEndpointNameGroupAndAlerts (ee_Name ee) (ee_Group ee) (ee_Alerts ee) = (None, as)"
    and ee': "ee' = ee\<lparr>ee_Alerts := as\<rparr>" and token: "ee_Token ee \<noteq> []"
    and k: "ee_CustomKey ee = [] \<or> externalEndpointKeyPattern (ee_CustomKey ee)"
    by (auto simp: External_ValidateAndSetDefaults_def Let_def split: prod.splits option.splits if_splits)
  from v have name: "ee_Name ee \<noteq> []"
    and as: "first_error Alert_ValidateAndSetDefaults (ee_Alerts ee) = (None, as)"
    by (auto simp: validateEndpointNameGroupAndAlerts_def split: if_splits prod.splits)
  have "\<forall>a \<in> set as. valid_alert a"
    using first_error_validated [OF as, of valid_alert] Alert_ValidateAndSetDefaults_valid by blast
  with name token k show ?thesis by (simp add: ee' External_Key_def)
qed

text \<open>
  An external endpoint that passes validation has a token, a name and valid alerts; a key
  of its own is made of lower case letters, digits, hyphens and underscores, so that lower-casing
  the key of a URL leaves it; and the endpoint it is converted to has the same key.
\<close>

theorem validated_external_endpoint_sound:
  assumes "External_ValidateAndSetDefaults ee = (None, ee')"
  shows "ee_Name ee' \<noteq> [] \<and> ee_Token ee' \<noteq> [] \<and> (\<forall>a \<in> set (ee_Alerts ee'). valid_alert a) \<and>
    ToLower (External_Key ee') = External_Key ee' \<and> Endpoint_Key (ToEndpoint ee') = External_Key ee"
  using External_validated [OF assms] External_Key_ToLower [of ee] by simp

definition example_external :: ExternalEndpoint where
  "example_external = \<lparr>ee_Enabled = None, ee_Name = ''Backup Job'', ee_Group = ''core'',
     ee_CustomKey = [], ee_Token = ''secret'', ee_Alerts = [], ee_MaintenanceWindows = [],
     ee_Heartbeat = \<lparr>hb_Interval = 30 * minute\<rparr>, ee_NumberOfFailuresInARow = 0,
     ee_NumberOfSuccessesInARow = 0\<rparr>"

lemma example_external_validates: "External_ValidateAndSetDefaults example_external = (None, example_external)"
  by (simp add: External_ValidateAndSetDefaults_def example_external_def ContainsAny_def
      validateEndpointNameGroupAndAlerts_def invalid_name_chars_def duration_units)

theorem validated_external_endpoint_sound_witness:
  "ToLower (External_Key example_external) = External_Key example_external"
  using validated_external_endpoint_sound [OF example_external_validates] by blast

text \<open>
  The maintenance windows of an external endpoint are not validated: whatever their start, the
  offset from midnight that validation would compute is the one they were created with.
\<close>

lemma external_windows_not_validated:
  "External_ValidateAndSetDefaults ee = (None, ee') \<Longrightarrow>
   ee_MaintenanceWindows ee' = ee_MaintenanceWindows ee"
  using External_validated by blast

text \<open>
  An endpoint made from an external endpoint has never sent a reminder, whatever was sent before.
\<close>

lemma ToEndpoint_forgets_reminder: "e_LastReminderSent (ToEndpoint ee) = zero_time"
  by simp

end
