(* ===== verification/Endpoint_Health.thy ===== *)
theory Endpoint_Health
  imports Endpoint
begin

text \<open>
  The evaluation of an endpoint: \<open>EvaluateHealthWithContext\<close> of
  \<open>config/endpoint/endpoint.go\<close> and what it calls. What the network and the clock answer is
  the record \<open>probe\<close>, one function for each function of \<open>client/client.go\<close> and of the
  libraries that the evaluation calls; time measured around a call is part of the answer. A
  certificate is the instant at which it expires.
\<close>

section \<open>Context placeholders in a request\<close>

text \<open>
  The pattern \<open>\[CONTEXT\]\.[\w\.\-]+\<close>: the path that starts a text, and what follows it.
\<close>

definition is_path_char :: "char \<Rightarrow> bool" where
  "is_path_char c \<longleftrightarrow> is_host_char c \<or> c = CHR ''_''"

definition context_marker :: "string \<Rightarrow> (string \<times> string) option" where
  "context_marker s =
     (if prefix ''[CONTEXT].'' s then
        (let path = takeWhile is_path_char (drop 10 s) in
         if path \<noteq> [] then Some (path, dropWhile is_path_char (drop 10 s)) else None)
      else None)"

lemma length_context_marker:
  assumes "context_marker s = Some (p, t)"
  shows "length t < length s"
proof -
  from assms have t: "t = dropWhile is_path_char (drop 10 s)" and ne: "drop 10 s \<noteq> []"
    by (auto simp: context_marker_def Let_def split: if_splits)
  have "length t \<le> length (drop 10 s)" unfolding t by (rule length_dropWhile_le)
  with ne show ?thesis by simp
qed

text \<open>The text with the placeholders replaced, and the paths that were not found.\<close>

function replace_context :: "gontext \<Rightarrow> string \<Rightarrow> string \<times> string list" where
  "replace_context ctx s =
     (case context_marker s of
        Some (path, t) \<Rightarrow>
          (case replace_context ctx t of
             (t', missing) \<Rightarrow>
               (case Get ctx path of
                  Inl err \<Rightarrow> (''[CONTEXT].'' @ path @ t', path # missing)
                | Inr v \<Rightarrow> (fmt_v v @ t', missing)))
      | None \<Rightarrow>
          (case s of
             [] \<Rightarrow> ([], [])
           | c # t \<Rightarrow> (case replace_context ctx t of (t', missing) \<Rightarrow> (c # t', missing))))"
  by pat_completeness auto
termination
  by (relation "measure (\<lambda>(ctx, s). length s)") (auto dest: length_context_marker)

declare replace_context.simps [simp del]

definition replaceContextPlaceholders :: "string \<Rightarrow> gontext option \<Rightarrow> string \<times> string option" where
  "replaceContextPlaceholders input ctx =
     (case ctx of
        None \<Rightarrow> (input, None)
      | Some g \<Rightarrow>
          (case replace_context g input of
             (s, missing) \<Rightarrow>
               if missing = [] then (s, None)
               else (s, Some (''context placeholder resolution failed: '' @
                 Join (map (\<lambda>p. ''path '' @ [CHR 0x27] @ p @ [CHR 0x27] @ '' not found'') missing) '', ''))))"

definition add_error_opt :: "Result \<Rightarrow> string option \<Rightarrow> Result" where
  "add_error_opt r err = (case err of None \<Rightarrow> r | Some e \<Rightarrow> AddError r e)"

fun preprocess_headers ::
  "(string \<times> string) list \<Rightarrow> Result \<Rightarrow> gontext \<Rightarrow> (string \<times> string) list \<times> Result" where
  "preprocess_headers [] result ctx = ([], result)"
| "preprocess_headers ((k, v) # hs) result ctx =
     (case replaceContextPlaceholders v (Some ctx) of
        (v', err) \<Rightarrow>
          (case preprocess_headers hs (add_error_opt result err) ctx of
             (hs', result') \<Rightarrow> ((k, v') # hs', result')))"

definition preprocessWithContext :: "Endpoint \<Rightarrow> Result \<Rightarrow> gontext \<Rightarrow> Endpoint \<times> Result" where
  "preprocessWithContext e result ctx =
     (let (url, err1) = replaceContextPlaceholders (e_URL e) (Some ctx);
          result = add_error_opt result err1;
          (body, err2) = replaceContextPlaceholders (e_Body e) (Some ctx);
          result = add_error_opt result err2;
          (headers, result) = preprocess_headers (e_Headers e) result ctx
      in (e\<lparr>e_URL := url, e_Body := body, e_Headers := headers\<rparr>, result))"

section \<open>The answers of the network\<close>

record http_request =
  hq_Method :: string
  hq_URL :: string
  hq_Body :: string
  hq_Headers :: "(string \<times> string) list"
  hq_Host :: "string option"

record http_response =
  hs_StatusCode :: int
  hs_PeerCertificate :: "instant option"
  hs_Body :: "string \<times> string option"

record probe =
  p_codec :: json_codec
  p_random :: "nat \<Rightarrow> nat \<Rightarrow> string"
  p_ParseURL :: "string \<Rightarrow> string + (string \<times> string)"
  p_LookupIP :: "string \<Rightarrow> string + string"
  p_GetDomainExpiration :: "string \<Rightarrow> duration \<times> string option"
  p_QueryDNS :: "string \<Rightarrow> string \<Rightarrow> string \<Rightarrow> bool \<times> string \<times> string \<times> string option"
  p_CanPerformStartTLS :: "string \<Rightarrow> Client_Config option \<Rightarrow> bool \<times> instant \<times> string option"
  p_CanPerformTLS :: "string \<Rightarrow> string \<Rightarrow> Client_Config option \<Rightarrow> bool \<times> string \<times> instant \<times> string option"
  p_CanCreateNetworkConnection :: "string \<Rightarrow> string \<Rightarrow> string \<Rightarrow> Client_Config option \<Rightarrow> bool \<times> string"
  p_CanCreateSCTPConnection :: "string \<Rightarrow> Client_Config option \<Rightarrow> bool"
  p_Ping :: "string \<Rightarrow> Client_Config option \<Rightarrow> bool \<times> duration"
  p_QueryWebSocket :: "string \<Rightarrow> string \<Rightarrow> (string \<times> string) list \<Rightarrow> Client_Config option \<Rightarrow>
    bool \<times> string \<times> string option"
  p_CheckSSHBanner :: "string \<Rightarrow> Client_Config option \<Rightarrow> bool \<times> int \<times> string option"
  p_CanCreateSSHConnection :: "string \<Rightarrow> SSH_Config \<Rightarrow> Client_Config option \<Rightarrow> bool \<times> nat \<times> string option"
  p_ExecuteSSHCommand :: "nat \<Rightarrow> string \<Rightarrow> Client_Config option \<Rightarrow> bool \<times> int \<times> string \<times> string option"
  p_PerformGRPCHealthCheck :: "string \<Rightarrow> bool \<Rightarrow> Client_Config option \<Rightarrow>
    bool \<times> string \<times> string option \<times> duration"
  p_Do :: "http_request \<Rightarrow> Client_Config option \<Rightarrow> string + http_response"
  p_elapsed :: duration
  p_until :: "instant \<Rightarrow> duration"
  p_now :: instant

section \<open>The call\<close>

definition buildHTTPRequest :: "probe \<Rightarrow> Endpoint \<Rightarrow> http_request" where
  "buildHTTPRequest p e =
     (let body = getParsedBody (p_random p) e in
      \<lparr>hq_Method = e_Method e, hq_URL = e_URL e,
       hq_Body = (if e_GraphQL e then marshal (p_codec p) (VMap [(''query'', VStr body)]) else body),
       hq_Headers = e_Headers e,
       hq_Host = map_option snd (find (\<lambda>(k, v). EqualFold k HostHeader) (e_Headers e))\<rparr>)"

definition getIP :: "probe \<Rightarrow> Result \<Rightarrow> Result" where
  "getIP p result =
     (case p_LookupIP p (r_Hostname result) of
        Inl err \<Rightarrow> AddError result err
      | Inr ip \<Rightarrow> result\<lparr>r_IP := ip\<rparr>)"

definition call_DNS :: "probe \<Rightarrow> Endpoint \<Rightarrow> Result \<Rightarrow> Result" where
  "call_DNS p e result =
     (case e_DNSConfig e of
        None \<Rightarrow> result
      | Some d \<Rightarrow>
          (case p_QueryDNS p (dns_QueryType d) (dns_QueryName d) (e_URL e) of
             (connected, rcode, body, err) \<Rightarrow>
               (let result = result\<lparr>r_Connected := connected, r_DNSRCode := rcode, r_Body := body\<rparr> in
                case err of
                  Some e \<Rightarrow> AddError result e
                | None \<Rightarrow> result\<lparr>r_Duration := p_elapsed p\<rparr>)))"

definition call_TLS :: "probe \<Rightarrow> Endpoint \<Rightarrow> bool \<Rightarrow> Result \<Rightarrow> Result" where
  "call_TLS p e starttls result =
     (let (result, certificate, err) =
        (if starttls then
           (case p_CanPerformStartTLS p (TrimPrefix (e_URL e) ''starttls://'') (e_ClientConfig e) of
              (connected, certificate, err) \<Rightarrow> (result\<lparr>r_Connected := connected\<rparr>, certificate, err))
         else
           (case p_CanPerformTLS p (TrimPrefix (e_URL e) ''tls://'') (getParsedBody (p_random p) e)
                   (e_ClientConfig e) of
              (connected, body, certificate, err) \<Rightarrow>
                (result\<lparr>r_Connected := connected, r_Body := body\<rparr>, certificate, err)))
      in case err of
           Some e \<Rightarrow> AddError result e
         | None \<Rightarrow> result\<lparr>r_Duration := p_elapsed p, r_CertificateExpiration := p_until p certificate\<rparr>)"

definition call_network :: "probe \<Rightarrow> Endpoint \<Rightarrow> string \<Rightarrow> Result \<Rightarrow> Result" where
  "call_network p e protocol result =
     (case p_CanCreateNetworkConnection p protocol (TrimPrefix (e_URL e) (protocol @ ''://''))
             (getParsedBody (p_random p) e) (e_ClientConfig e) of
        (connected, body) \<Rightarrow>
          result\<lparr>r_Connected := connected, r_Body := body, r_Duration := p_elapsed p\<rparr>)"

definition call_WS :: "probe \<Rightarrow> Endpoint \<Rightarrow> Result \<Rightarrow> Result" where
  "call_WS p e result =
     (let wsHeaders = (if \<not> hasHeader (e_Headers e) UserAgentHeader
                       then AList.update UserAgentHeader GatusUserAgent (e_Headers e)
                       else e_Headers e)
      in case p_QueryWebSocket p (e_URL e) (getParsedBody (p_random p) e) wsHeaders (e_ClientConfig e) of
           (connected, body, err) \<Rightarrow>
             (let result = result\<lparr>r_Connected := connected, r_Body := body\<rparr> in
              case err of
                Some e \<Rightarrow> AddError result e
              | None \<Rightarrow> result\<lparr>r_Duration := p_elapsed p\<rparr>))"

definition call_SSH_banner :: "probe \<Rightarrow> Endpoint \<Rightarrow> Result \<Rightarrow> Result" where
  "call_SSH_banner p e result =
     (case p_CheckSSHBanner p (TrimPrefix (e_URL e) ''ssh://'') (e_ClientConfig e) of
        (connected, status, err) \<Rightarrow>
          (let result = result\<lparr>r_Connected := connected, r_HTTPStatus := status\<rparr> in
           case err of
             Some e \<Rightarrow> AddError result e
           | None \<Rightarrow> result\<lparr>r_Success := r_Connected result, r_Duration := p_elapsed p\<rparr>))"

definition call_SSH :: "probe \<Rightarrow> Endpoint \<Rightarrow> Result \<Rightarrow> Result" where
  "call_SSH p e result =
     (case e_SSHConfig e of
        None \<Rightarrow> call_SSH_banner p e result
      | Some c \<Rightarrow>
          if ssh_Username c = [] \<and> ssh_Password c = [] \<and> ssh_PrivateKey c = []
          then call_SSH_banner p e result
          else
            (case p_CanCreateSSHConnection p (TrimPrefix (e_URL e) ''ssh://'') c (e_ClientConfig e) of
               (connected, cli, err) \<Rightarrow>
                 (let result = result\<lparr>r_Connected := connected\<rparr> in
                  case err of
                    Some e \<Rightarrow> AddError result e
                  | None \<Rightarrow>
                      (case p_ExecuteSSHCommand p cli (getParsedBody (p_random p) e) (e_ClientConfig e) of
                         (success, status, output, err) \<Rightarrow>
                           (let result = result\<lparr>r_Success := success, r_HTTPStatus := status\<rparr> in
                            case err of
                              Some e \<Rightarrow> AddError result e
                            | None \<Rightarrow>
                                (let result = (if needsToReadBody e then result\<lparr>r_Body := output\<rparr> else result)
                                 in result\<lparr>r_Duration := p_elapsed p\<rparr>))))))"

definition call_GRPC :: "probe \<Rightarrow> Endpoint \<Rightarrow> Result \<Rightarrow> Result" where
  "call_GRPC p e result =
     (let useTLS = HasPrefix (e_URL e) ''grpcs://'';
          address = TrimPrefix (TrimPrefix (e_URL e) ''grpcs://'') ''grpc://''
      in case p_PerformGRPCHealthCheck p address useTLS (e_ClientConfig e) of
           (connected, status, err, d) \<Rightarrow>
             (case err of
                Some e \<Rightarrow> AddError result e
              | None \<Rightarrow>
                  (let result = result\<lparr>r_Connected := connected, r_Duration := d\<rparr> in
                   if needsToReadBody e then
                     result\<lparr>r_Body := ''{'' @ [CHR 0x22] @ ''status'' @ [CHR 0x22] @ '':'' @ [CHR 0x22] @
                       status @ [CHR 0x22] @ ''}''\<rparr>
                   else result)))"

definition call_HTTP :: "probe \<Rightarrow> Endpoint \<Rightarrow> Result \<Rightarrow> Result" where
  "call_HTTP p e result0 =
     (let result = result0\<lparr>r_Duration := p_elapsed p\<rparr> in
      case p_Do p (buildHTTPRequest p e) (e_ClientConfig e) of
        Inl err \<Rightarrow> AddError result err
      | Inr response \<Rightarrow>
          (let result = (case hs_PeerCertificate response of
                           None \<Rightarrow> result
                         | Some notAfter \<Rightarrow> result\<lparr>r_CertificateExpiration := p_until p notAfter\<rparr>);
               result = result\<lparr>r_HTTPStatus := hs_StatusCode response,
                               r_Connected := (0 < hs_StatusCode response)\<rparr>
           in if needsToReadBody e then
                (case hs_Body response of
                   (body, err) \<Rightarrow>
                     add_error_opt (result\<lparr>r_Body := body\<rparr>)
                       (map_option (\<lambda>e. ''error reading response body:'' @ e) err))
              else result))"

text \<open>
  Every type has its branch; the last one of the source serves HTTP, and an unknown type, for
  which no request has been built.
\<close>

definition call :: "probe \<Rightarrow> Endpoint \<Rightarrow> Result \<Rightarrow> Result outcome" where
  "call p e result =
     (case Endpoint_Type e of
        TypeDNS \<Rightarrow> Return (call_DNS p e result)
      | TypeSTARTTLS \<Rightarrow> Return (call_TLS p e True result)
      | TypeTLS \<Rightarrow> Return (call_TLS p e False result)
      | TypeTCP \<Rightarrow> Return (call_network p e ''tcp'' result)
      | TypeUDP \<Rightarrow> Return (call_network p e ''udp'' result)
      | TypeSCTP \<Rightarrow>
          Return (result\<lparr>r_Connected := p_CanCreateSCTPConnection p (TrimPrefix (e_URL e) ''sctp://'')
                           (e_ClientConfig e), r_Duration := p_elapsed p\<rparr>)
      | TypeICMP \<Rightarrow>
          (case p_Ping p (TrimPrefix (e_URL e) ''icmp://'') (e_ClientConfig e) of
             (connected, d) \<Rightarrow> Return (result\<lparr>r_Connected := connected, r_Duration := d\<rparr>))
      | TypeWS \<Rightarrow> Return (call_WS p e result)
      | TypeSSH \<Rightarrow> Return (call_SSH p e result)
      | TypeGRPC \<Rightarrow> Return (call_GRPC p e result)
      | TypeHTTP \<Rightarrow> Return (call_HTTP p e result)
      | TypeUNKNOWN \<Rightarrow> Panic ''nil request'')"

section \<open>The evaluation\<close>

definition set_hostname :: "probe \<Rightarrow> Endpoint \<Rightarrow> Result \<Rightarrow> Result" where
  "set_hostname p e result =
     (if e_DNSConfig e \<noteq> None then result\<lparr>r_Hostname := TrimSuffix (e_URL e) '':53''\<rparr>
      else if Endpoint_Type e = TypeICMP then result\<lparr>r_Hostname := TrimPrefix (e_URL e) ''icmp://''\<rparr>
      else case p_ParseURL p (e_URL e) of
             Inl err \<Rightarrow> AddError result err
           | Inr (hostname, port) \<Rightarrow> result\<lparr>r_Hostname := hostname, r_port := port\<rparr>)"

definition set_domain_expiration :: "probe \<Rightarrow> Result \<Rightarrow> Result" where
  "set_domain_expiration p result =
     (case p_GetDomainExpiration p (r_Hostname result) of
        (d, err) \<Rightarrow> add_error_opt (result\<lparr>r_DomainExpiration := d\<rparr>) err)"

fun evaluate_conditions ::
  "json_codec \<Rightarrow> string list \<Rightarrow> UI_Config \<Rightarrow> gontext option \<Rightarrow> Result \<Rightarrow> Result outcome" where
  "evaluate_conditions codec [] ui ctx result = Return result"
| "evaluate_conditions codec (c # cs) ui ctx result =
     (case evaluate codec c result (ui_DontResolveFailedConditions ui)
             (ui_ResolveSuccessfulConditions ui) ctx of
        Panic e \<Rightarrow> Panic e
      | Return (success, result') \<Rightarrow>
          evaluate_conditions codec cs ui ctx
            (if success then result' else result'\<lparr>r_Success := False\<rparr>))"

definition redact :: "string \<Rightarrow> Result \<Rightarrow> Result" where
  "redact secret result =
     result\<lparr>r_Errors := map (\<lambda>e. ReplaceAll e secret ''<redacted>'') (r_Errors result)\<rparr>"

definition clean_up :: "Endpoint \<Rightarrow> UI_Config \<Rightarrow> Result \<Rightarrow> Result" where
  "clean_up e ui result0 =
     (let result = (if ui_HideURL ui then redact (e_URL e) result0 else result0);
          result = (if ui_HideHostname ui then (redact (r_Hostname result) result)\<lparr>r_Hostname := []\<rparr>
                    else result);
          result = (if ui_HidePort ui \<and> r_port result \<noteq> []
                    then (redact (r_port result) result)\<lparr>r_port := []\<rparr> else result);
          result = (if ui_HideErrors ui then result\<lparr>r_Errors := []\<rparr> else result)
      in if ui_HideConditions ui then result\<lparr>r_ConditionResults := []\<rparr> else result)"

text \<open>What precedes the call: the endpoint that is called and the result so far.\<close>

definition prepare :: "probe \<Rightarrow> Endpoint \<Rightarrow> gontext option \<Rightarrow> Endpoint \<times> Result" where
  "prepare p e ctx =
     (let result = empty_Result\<lparr>r_Success := True\<rparr>;
          (processed, result) =
            (case ctx of None \<Rightarrow> (e, result) | Some g \<Rightarrow> preprocessWithContext e result g);
          result = set_hostname p processed result;
          result = (if needsToRetrieveIP processed then getIP p result else result);
          result = (if needsToRetrieveDomainExpiration processed \<and> r_Hostname result \<noteq> []
                    then set_domain_expiration p result else result)
      in (processed, result))"

definition EvaluateHealthWithContext ::
  "probe \<Rightarrow> Endpoint \<Rightarrow> gontext option \<Rightarrow> Result outcome" where
  "EvaluateHealthWithContext p e ctx =
     (case prepare p e ctx of
        (processed, result) \<Rightarrow>
          (case (if r_Errors result = [] then call p processed result
                 else Return (result\<lparr>r_Success := False\<rparr>)) of
             Panic msg \<Rightarrow> Panic msg
           | Return result \<Rightarrow>
               (case e_UIConfig processed of
                  None \<Rightarrow> Panic ''nil pointer dereference''
                | Some ui \<Rightarrow>
                    (case evaluate_conditions (p_codec p) (e_Conditions processed) ui ctx result of
                       Panic msg \<Rightarrow> Panic msg
                     | Return result \<Rightarrow>
                         Return (clean_up processed ui (result\<lparr>r_Timestamp := p_now p\<rparr>))))))"

definition EvaluateHealth :: "probe \<Rightarrow> Endpoint \<Rightarrow> Result outcome" where
  "EvaluateHealth p e = EvaluateHealthWithContext p e None"

section \<open>Conditions are independent of one another\<close>

text \<open>
  The part of a result that a condition can read. Success, errors and condition results are
  written by the evaluation and never read by it.
\<close>

definition data_of :: "Result \<Rightarrow> Result" where
  "data_of r = r\<lparr>r_Success := True, r_Errors := [], r_ConditionResults := []\<rparr>"

definition same_data :: "Result \<Rightarrow> Result \<Rightarrow> bool" where
  "same_data r r' \<longleftrightarrow> data_of r = data_of r'"

lemma same_data_refl [simp]: "same_data r r"
  by (simp add: same_data_def)

lemma same_data_trans: "same_data r r' \<Longrightarrow> same_data r' r'' \<Longrightarrow> same_data r r''"
  by (simp add: same_data_def)

lemma same_data_steps [simp]:
  "same_data r (record_condition r d b)" "same_data r (AddError r e)" "same_data r (r\<lparr>r_Success := b\<rparr>)"
  by (simp_all add: same_data_def data_of_def record_condition_def AddError_def)

lemma data_of_simps [simp]:
  "r_HTTPStatus (data_of r) = r_HTTPStatus r" "r_DNSRCode (data_of r) = r_DNSRCode r"
  "r_IP (data_of r) = r_IP r" "r_Connected (data_of r) = r_Connected r"
  "r_Duration (data_of r) = r_Duration r" "r_Body (data_of r) = r_Body r"
  "r_CertificateExpiration (data_of r) = r_CertificateExpiration r"
  "r_DomainExpiration (data_of r) = r_DomainExpiration r"
  by (simp_all add: data_of_def)

lemma ResolvePlaceholder_data: "ResolvePlaceholder codec p (data_of r) ctx = ResolvePlaceholder codec p r ctx"
proof -
  obtain fn q where ex: "extractFunctionWrapper (TrimSpace p) = (fn, q)" by fastforce
  have body: "resolveBody codec fn (data_of r) = resolveBody codec fn r"
    by (cases fn) (simp_all add: resolveBody_def Let_def)
  have json: "resolveJSONPathPlaceholder codec q fn orig (data_of r) =
      resolveJSONPathPlaceholder codec q fn orig r" for orig
    by (simp add: resolveJSONPathPlaceholder_def)
  show ?thesis
    by (simp only: ResolvePlaceholder_def Let_def ex prod.case data_of_simps body json)
qed

lemma ResolvePlaceholder_same_data:
  "same_data r r' \<Longrightarrow> ResolvePlaceholder codec p r' ctx = ResolvePlaceholder codec p r ctx"
  by (metis ResolvePlaceholder_data same_data_def)

lemma sanitize_same_data:
  assumes "same_data r r'"
  shows "sanitizeAndResolveWithContext codec es r' ctx =
    (case sanitizeAndResolveWithContext codec es r ctx of
       Panic e \<Rightarrow> Panic e | Return (ps, vs, _) \<Rightarrow> Return (ps, vs, r'))"
proof (induction es)
  case (Cons e es)
  note same = ResolvePlaceholder_same_data [OF assms, of codec "TrimSpace e" ctx]
  show ?case
  proof (cases "ResolvePlaceholder codec (TrimSpace e) r ctx")
    case (Return res)
    then obtain v where "res = Inr v" using ResolvePlaceholder_no_error by (cases res) auto
    with Return Cons same show ?thesis by (auto simp: Let_def split: outcome.splits)
  qed (simp add: same Let_def)
qed simp

lemma evaluate_same_data:
  assumes "same_data r r'"
  shows "map_outcome fst (evaluate codec c r' dr rs ctx) = map_outcome fst (evaluate codec c r dr rs ctx)"
proof -
  have "map_outcome fst (evaluate_text codec c op h r' sr ctx) =
      map_outcome fst (evaluate_text codec c op h r sr ctx)" for op h sr
    using sanitize_same_data [OF assms] by (simp add: evaluate_text_def Let_def split: outcome.splits)
  moreover have "map_outcome fst (evaluate_numerical codec c op h r' sr ctx) =
      map_outcome fst (evaluate_numerical codec c op h r sr ctx)" for op h sr
    using sanitize_same_data [OF assms]
    by (simp add: evaluate_numerical_def sanitizeAndResolveNumericalWithContext_def Let_def
        split: outcome.splits)
  ultimately show ?thesis by (simp add: evaluate_def Let_def)
qed

text \<open>The value of a condition on what a call left, alone.\<close>

definition condition_holds :: "json_codec \<Rightarrow> gontext option \<Rightarrow> Result \<Rightarrow> string \<Rightarrow> bool" where
  "condition_holds codec ctx r c \<longleftrightarrow> map_outcome fst (evaluate codec c r True False ctx) = Return True"

lemma evaluate_value_display:
  "map_outcome fst (evaluate codec c r dr rs ctx) = map_outcome fst (evaluate codec c r True False ctx)"
  by (simp add: evaluate_def evaluate_text_def evaluate_numerical_def Let_def split: outcome.splits)

lemma evaluate_value:
  assumes "same_data r r'" and "evaluate codec c r' dr rs ctx = Return (b, r'')"
  shows "b = condition_holds codec ctx r c" and "same_data r r''"
proof -
  have "map_outcome fst (evaluate codec c r' dr rs ctx) = map_outcome fst (evaluate codec c r True False ctx)"
    using evaluate_same_data [OF assms(1)] evaluate_value_display by metis
  with assms(2) show "b = condition_holds codec ctx r c" by (auto simp: condition_holds_def)
  have "same_data r' r''" using evaluate_result [OF assms(2)] by auto
  with assms(1) show "same_data r r''" by (rule same_data_trans)
qed

lemma evaluate_conditions_values:
  "same_data r0 r \<Longrightarrow> evaluate_conditions codec cs ui ctx r = Return r' \<Longrightarrow>
   same_data r0 r' \<and> r_Success r' = (r_Success r \<and> (\<forall>c \<in> set cs. condition_holds codec ctx r0 c)) \<and>
   map cr_Success (r_ConditionResults r') =
     map cr_Success (r_ConditionResults r) @ map (condition_holds codec ctx r0) (filter has_operator cs)"
proof (induction cs arbitrary: r)
  case (Cons c cs)
  from Cons.prems(2) obtain b r1 where e: "evaluate codec c r (ui_DontResolveFailedConditions ui)
      (ui_ResolveSuccessfulConditions ui) ctx = Return (b, r1)"
    and rest: "evaluate_conditions codec cs ui ctx (if b then r1 else r1\<lparr>r_Success := False\<rparr>) = Return r'"
    by (auto split: outcome.splits)
  let ?r2 = "if b then r1 else r1\<lparr>r_Success := False\<rparr>"
  note bv = evaluate_value [OF Cons.prems(1) e]
  have "same_data r0 ?r2" using bv(2) same_data_trans [of r0 r1] by simp
  from Cons.IH [OF this rest] bv(1) evaluate_result [OF e]
  show ?case by auto
qed simp

lemma clean_up_Success [simp]: "r_Success (clean_up e ui r) = r_Success r"
  by (simp add: clean_up_def redact_def Let_def)

lemma clean_up_conditions:
  "\<not> ui_HideConditions ui \<Longrightarrow> r_ConditionResults (clean_up e ui r) = r_ConditionResults r"
  by (simp add: clean_up_def redact_def Let_def)

lemma EvaluateHealth_cases:
  assumes "EvaluateHealth p e = Return res"
  obtains r ui r' where "e_UIConfig e = Some ui"
    and "if r_Errors (snd (prepare p e None)) = [] then call p e (snd (prepare p e None)) = Return r
         else r = (snd (prepare p e None))\<lparr>r_Success := False\<rparr>"
    and "evaluate_conditions (p_codec p) (e_Conditions e) ui None r = Return r'"
    and "res = clean_up e ui (r'\<lparr>r_Timestamp := p_now p\<rparr>)"
proof -
  have "fst (prepare p e None) = e" by (simp add: prepare_def Let_def)
  then obtain r0 where "prepare p e None = (e, r0)" by (metis prod.collapse)
  with assms that show thesis
    by (auto simp: EvaluateHealth_def EvaluateHealthWithContext_def
        split: outcome.splits option.splits if_splits)
qed

text \<open>
  A call cannot make a result that was a failure before it: it leaves the success as it was, but
  for SSH, where it sets it from the connection or the command.
\<close>

lemma add_error_opt_Success [simp]: "r_Success (add_error_opt r e) = r_Success r"
  by (simp add: add_error_opt_def split: option.splits)

lemma call_Success:
  "call p e r = Return r' \<Longrightarrow> Endpoint_Type e \<noteq> TypeSSH \<Longrightarrow> r_Success r' = r_Success r"
  by (auto simp: call_def call_DNS_def call_TLS_def call_network_def call_WS_def call_GRPC_def
      call_HTTP_def Let_def split: EndpointType.splits prod.splits option.splits sum.splits if_splits)

lemma prepare_Success: "r_Success (snd (prepare p e None))"
  by (simp add: prepare_def set_hostname_def getIP_def set_domain_expiration_def empty_Result_def
      Let_def split: prod.splits sum.splits)

section \<open>Hiding\<close>

text \<open>
  A text without the character that separates two parts occurs in the whole exactly when it occurs
  in one of them.
\<close>

lemma prefix_sep: "c \<notin> set p \<Longrightarrow> prefix p (a @ c # b) \<longleftrightarrow> prefix p a"
proof (induction p arbitrary: a)
  case (Cons x p)
  then show ?case by (cases a) auto
qed simp

lemma Contains_sep:
  "c \<notin> set p \<Longrightarrow> p \<noteq> [] \<Longrightarrow> Contains (a @ c # b) p \<longleftrightarrow> Contains a p \<or> Contains b p"
proof (induction a)
  case Nil
  then show ?case using prefix_sep [of c p "[]" b] by (simp add: Contains_def sublist_Cons_right)
next
  case (Cons x a)
  then show ?case
    using prefix_sep [of c p "x # a" b] by (auto simp: Contains_def sublist_Cons_right)
qed

lemma Contains_mono: "Contains t p \<Longrightarrow> sublist t s \<Longrightarrow> Contains s p"
  unfolding Contains_def by (rule sublist_order.order.trans)

definition hideable :: "string \<Rightarrow> bool" where
  "hideable p \<longleftrightarrow> p \<noteq> [] \<and> CHR ''<'' \<notin> set p \<and> CHR ''>'' \<notin> set p \<and> \<not> Contains ''redacted'' p"

lemma Contains_redacted:
  assumes "hideable p"
  shows "Contains (a @ ''<redacted>'' @ b) p \<longleftrightarrow> Contains a p \<or> Contains b p"
proof -
  have "Contains (a @ ''<redacted>'' @ b) p \<longleftrightarrow> Contains a p \<or> Contains (''redacted'' @ CHR ''>'' # b) p"
    using Contains_sep [of "CHR ''<''" p a "''redacted'' @ CHR ''>'' # b"] assms
    by (simp add: hideable_def)
  also have "\<dots> \<longleftrightarrow> Contains a p \<or> Contains b p"
    using Contains_sep [of "CHR ''>''" p "''redacted''" b] assms by (simp add: hideable_def)
  finally show ?thesis .
qed

lemma concat_redacted:
  assumes "hideable p" and "\<not> Contains s p"
  shows "\<not> Contains (''<redacted>'' @ concat (map (\<lambda>c. c # ''<redacted>'') s)) p"
  using assms(2)
proof (induction s)
  case Nil
  show ?case using Contains_redacted [OF assms(1), of "[]" "[]"] assms(1)
    by (auto simp: hideable_def Contains_def)
next
  case (Cons c s)
  have "\<not> Contains s p" "\<not> Contains [c] p"
    using Cons.prems Contains_mono [of s p "c # s"] Contains_mono [of "[c]" p "c # s"]
    by (auto simp: sublist_Cons_right)
  moreover have "\<not> Contains [] p" using assms(1) by (auto simp: hideable_def Contains_def)
  ultimately show ?case
    using Contains_redacted [OF assms(1), of "[]" "[c] @ ''<redacted>'' @ concat (map (\<lambda>c. c # ''<redacted>'') s)"]
      Contains_redacted [OF assms(1), of "[c]" "concat (map (\<lambda>c. c # ''<redacted>'') s)"]
      Contains_redacted [OF assms(1), of "[]" "concat (map (\<lambda>c. c # ''<redacted>'') s)"] Cons.IH
    by auto
qed

text \<open>Nothing occurs before the first occurrence.\<close>

lemma Cut_before: "Cut p s = Some (b, a) \<Longrightarrow> p \<noteq> [] \<Longrightarrow> \<not> Contains b p"
proof (induction s arbitrary: b)
  case (Cons c s)
  show ?case
  proof (cases "prefix p (c # s)")
    case True
    with Cons.prems show ?thesis by (auto simp: Contains_def)
  next
    case False
    with Cons.prems(1) obtain b' where b': "b = c # b'" "Cut p s = Some (b', a)" by auto
    have "b' @ p @ a = s" using Cut_eq [OF b'(2)] by simp
    have "\<not> prefix p (c # b')"
      using False \<open>b' @ p @ a = s\<close> by (metis append_Cons prefix_prefix)
    with Cons.IH [OF b'(2) Cons.prems(2)] show ?thesis by (simp add: b'(1) Contains_def sublist_Cons_right)
  qed
qed (simp split: if_splits)

lemma ReplaceAll_redacted:
  assumes "hideable p"
  shows "\<not> Contains s p \<or> old = p \<Longrightarrow> \<not> Contains (ReplaceAll s old ''<redacted>'') p"
proof (induction s old "''<redacted>''" rule: ReplaceAll.induct)
  case (1 s old)
  show ?case
  proof (cases "old = []")
    case True
    with assms "1.prems" have "\<not> Contains s p" by (auto simp: hideable_def)
    with True concat_redacted [OF assms] show ?thesis by (subst ReplaceAll.simps) simp
  next
    case False
    show ?thesis
    proof (cases "Cut old s")
      case None
      with False "1.prems" show ?thesis
        by (auto simp: ReplaceAll.simps [of s] Cut_None_iff [symmetric])
    next
      case (Some ba)
      obtain b a where ba: "ba = (b, a)" by (cases ba)
      note s = Cut_eq [OF Some [unfolded ba]]
      have ab: "sublist a s" "sublist b s" unfolding s
        by (rule sublist_appendI [of a "b @ old" "[]", simplified], rule sublist_append_rightI)
      have b: "\<not> Contains b p"
      proof (cases "old = p")
        case True
        then show ?thesis using Some ba Cut_before [of p s b a] False by simp
      next
        case F: False
        with "1.prems" ab(2) Contains_mono show ?thesis by blast
      qed
      have "\<not> Contains (ReplaceAll a old ''<redacted>'') p"
        using "1.hyps" [OF False Some ba [symmetric]] "1.prems" ab(1) Contains_mono by blast
      with b show ?thesis
        unfolding ReplaceAll_Cut [OF False Some [unfolded ba]] Contains_redacted [OF assms, of b]
        by blast
    qed
  qed
qed

lemma redact_hides:
  assumes "hideable p" and "\<forall>e \<in> set (r_Errors r). \<not> Contains e p"
  shows "\<forall>e \<in> set (r_Errors (redact old r)). \<not> Contains e p"
  using assms(2) ReplaceAll_redacted [OF assms(1)] by (auto simp: redact_def)

lemma redact_hides_self: "hideable p \<Longrightarrow> \<forall>e \<in> set (r_Errors (redact p r)). \<not> Contains e p"
  using ReplaceAll_redacted by (auto simp: redact_def)

lemma clean_up_hides_URL:
  assumes "hideable (e_URL e)" and "ui_HideURL ui"
  shows "\<forall>x \<in> set (r_Errors (clean_up e ui r)). \<not> Contains x (e_URL e)"
proof -
  note self = redact_hides_self [OF assms(1)] and keep = redact_hides [OF assms(1)]
  define r1 where "r1 = redact (e_URL e) r"
  define r2 where "r2 = (if ui_HideHostname ui then (redact (r_Hostname r1) r1)\<lparr>r_Hostname := []\<rparr> else r1)"
  define r3 where "r3 = (if ui_HidePort ui \<and> r_port r2 \<noteq> []
    then (redact (r_port r2) r2)\<lparr>r_port := []\<rparr> else r2)"
  have "\<forall>x \<in> set (r_Errors r1). \<not> Contains x (e_URL e)" unfolding r1_def by (rule self)
  then have "\<forall>x \<in> set (r_Errors r2). \<not> Contains x (e_URL e)"
    using keep [of r1] by (simp add: r2_def)
  then have "\<forall>x \<in> set (r_Errors r3). \<not> Contains x (e_URL e)"
    using keep [of r2] by (simp add: r3_def)
  moreover have "r_Errors (clean_up e ui r) = (if ui_HideErrors ui then [] else r_Errors r3)"
    unfolding r3_def r2_def r1_def clean_up_def Let_def using assms(2) by simp
  ultimately show ?thesis by simp
qed

section \<open>Properties\<close>

text \<open>
  C4. The result of an evaluation is a success exactly when nothing failed before the call, the
  call reported no failure and every condition holds on what the call left, each condition judged
  on its own; unless they are hidden, the condition results are these values, in the order of the
  conditions.
\<close>

theorem EvaluateHealth_success:
  assumes "EvaluateHealth p e = Return res"
  shows "\<exists>r. (if r_Errors (snd (prepare p e None)) = [] then call p e (snd (prepare p e None)) = Return r
      else r = (snd (prepare p e None))\<lparr>r_Success := False\<rparr>) \<and>
    (r_Success res \<longleftrightarrow>
      r_Success r \<and> (\<forall>c \<in> set (e_Conditions e). condition_holds (p_codec p) None r c)) \<and>
    (\<not> ui_HideConditions (the (e_UIConfig e)) \<longrightarrow>
      map cr_Success (r_ConditionResults res) = map cr_Success (r_ConditionResults r) @
        map (condition_holds (p_codec p) None r) (filter has_operator (e_Conditions e)))"
proof -
  from assms obtain r ui r' where ui: "e_UIConfig e = Some ui"
    and r: "if r_Errors (snd (prepare p e None)) = [] then call p e (snd (prepare p e None)) = Return r
         else r = (snd (prepare p e None))\<lparr>r_Success := False\<rparr>"
    and r': "evaluate_conditions (p_codec p) (e_Conditions e) ui None r = Return r'"
    and res: "res = clean_up e ui (r'\<lparr>r_Timestamp := p_now p\<rparr>)"
    by (rule EvaluateHealth_cases)
  from evaluate_conditions_values [OF same_data_refl r'] r ui show ?thesis
    by (intro exI [of _ r]) (simp add: res clean_up_conditions)
qed

definition example_probe :: probe where
  "example_probe = \<lparr>p_codec = v_codec example_env, p_random = (\<lambda>i n. []),
     p_ParseURL = (\<lambda>u. Inr (''example.org'', [])), p_LookupIP = (\<lambda>h. Inr ''192.0.2.1''),
     p_GetDomainExpiration = (\<lambda>h. (0, None)), p_QueryDNS = (\<lambda>t n u. (True, ''NOERROR'', [], None)),
     p_CanPerformStartTLS = (\<lambda>a c. (True, 0, None)), p_CanPerformTLS = (\<lambda>a b c. (True, [], 0, None)),
     p_CanCreateNetworkConnection = (\<lambda>n a b c. (True, [])), p_CanCreateSCTPConnection = (\<lambda>a c. True),
     p_Ping = (\<lambda>a c. (True, 5 * millisecond)), p_QueryWebSocket = (\<lambda>u b h c. (True, [], None)),
     p_CheckSSHBanner = (\<lambda>a c. (True, 0, None)), p_CanCreateSSHConnection = (\<lambda>a s c. (True, 0, None)),
     p_ExecuteSSHCommand = (\<lambda>n b c. (True, 0, [], None)),
     p_PerformGRPCHealthCheck = (\<lambda>a t c. (True, ''SERVING'', None, 0)),
     p_Do = (\<lambda>r c. Inl ''connection to https://example.org refused''), p_elapsed = millisecond,
     p_until = (\<lambda>t. 0), p_now = 0\<rparr>"

definition hiding_endpoint :: Endpoint where
  "hiding_endpoint = example_endpoint\<lparr>e_UIConfig := Some (UI_GetDefaultConfig\<lparr>ui_HideURL := True\<rparr>)\<rparr>"

lemma hiding_endpoint_evaluates:
  "\<exists>res. EvaluateHealth example_probe hiding_endpoint = Return res \<and>
     r_Errors res = [''connection to <redacted> refused''] \<and> \<not> r_Success res"
proof -
  have "case EvaluateHealth example_probe hiding_endpoint of
      Return res \<Rightarrow> r_Errors res = [''connection to <redacted> refused''] \<and> \<not> r_Success res
    | Panic e \<Rightarrow> False"
    by code_simp
  then show ?thesis by (simp split: outcome.splits)
qed

theorem EvaluateHealth_success_witness:
  "\<exists>res r. EvaluateHealth example_probe hiding_endpoint = Return res \<and>
     (r_Success r \<longrightarrow> \<not> condition_holds (p_codec example_probe) None r ''[STATUS] == 200'')"
proof -
  obtain res where res: "EvaluateHealth example_probe hiding_endpoint = Return res" "\<not> r_Success res"
    using hiding_endpoint_evaluates by blast
  have "e_Conditions hiding_endpoint = [''[STATUS] == 200'']"
    by (simp add: hiding_endpoint_def example_endpoint_def)
  with EvaluateHealth_success [OF res(1)] res show ?thesis by auto
qed

text \<open>
  C38. When the URL is to be hidden, no error of the result contains it, whatever the call and
  the other redactions put there, for a URL without angle brackets that is not a part of the word
  redacted.
\<close>

theorem EvaluateHealth_hides_URL:
  assumes "EvaluateHealth p e = Return res" and "e_UIConfig e = Some ui" and "ui_HideURL ui"
    and "e_URL e \<noteq> []" and "CHR ''<'' \<notin> set (e_URL e)" and "CHR ''>'' \<notin> set (e_URL e)"
    and "\<not> Contains ''redacted'' (e_URL e)"
  shows "\<forall>x \<in> set (r_Errors res). \<not> Contains x (e_URL e)"
proof -
  from assms(1) obtain r where "res = clean_up e ui r"
    by (rule EvaluateHealth_cases) (use assms(2) in auto)
  with clean_up_hides_URL [of e ui r] assms(3-7) show ?thesis by (simp add: hideable_def)
qed

theorem EvaluateHealth_hides_URL_witness:
  "\<exists>res. EvaluateHealth example_probe hiding_endpoint = Return res \<and> r_Errors res \<noteq> [] \<and>
     (\<forall>x \<in> set (r_Errors res). \<not> Contains x ''https://example.org'')"
proof -
  obtain res where res: "EvaluateHealth example_probe hiding_endpoint = Return res" "r_Errors res \<noteq> []"
    using hiding_endpoint_evaluates by auto
  have url: "e_URL hiding_endpoint = ''https://example.org''"
    by (simp add: hiding_endpoint_def example_endpoint_def)
  have "\<not> Contains ''redacted'' ''https://example.org''" by code_simp
  moreover have "e_UIConfig hiding_endpoint = Some (UI_GetDefaultConfig\<lparr>ui_HideURL := True\<rparr>)"
    by (simp add: hiding_endpoint_def)
  ultimately show ?thesis
    using EvaluateHealth_hides_URL [OF res(1)] res url by auto
qed

text \<open>
  Hiding the host name of an endpoint whose URL does not parse replaces the empty text, which
  mangles every error.
\<close>

lemma empty_hostname_mangles_errors:
  "r_Errors (clean_up e (UI_GetDefaultConfig\<lparr>ui_HideHostname := True\<rparr>)
     (empty_Result\<lparr>r_Errors := [''no'']\<rparr>)) = [''<redacted>n<redacted>o<redacted>'']"
  by (simp add: clean_up_def redact_def UI_GetDefaultConfig_def empty_Result_def ReplaceAll.simps Let_def)

text \<open>
  A failed connection is an error of the result but not by itself a failure: with a condition on
  the response time alone the result is a success.
\<close>

lemma failed_call_can_succeed:
  "case EvaluateHealth example_probe (hiding_endpoint\<lparr>e_Conditions := [''[RESPONSE_TIME] < 500'']\<rparr>) of
     Return res \<Rightarrow> r_Success res \<and> r_Errors res \<noteq> []
   | Panic e \<Rightarrow> False"
  by code_simp

end
