(* ===== verification/Suite.thy ===== *)
theory Suite
  imports Endpoint_Health
begin

text \<open>
  \<open>config/suite/\<close>: endpoints executed one after the other with a shared context. The record
  \<open>suite_env\<close> gives, for the position of an endpoint in the suite, what the network answers
  to it, when it starts, how long it takes and whether the timer of the suite has gone off when it
  is about to start. The mappings of an endpoint are stored in the order of their list, where Go
  takes them in any order.
\<close>

record Suite =
  s_Name :: string
  s_Group :: string
  s_Enabled :: "bool option"
  s_Interval :: duration
  s_Timeout :: duration
  s_InitialContext :: "gomap option"
  s_Endpoints :: "Endpoint list"

record Suite_Result =
  sr_Name :: string
  sr_Group :: string
  sr_Success :: bool
  sr_Timestamp :: instant
  sr_Duration :: duration
  sr_EndpointResults :: "Result list"
  sr_Context :: gomap
  sr_Errors :: "string list"

record Suite_Status =
  ss_Name :: string
  ss_Group :: string
  ss_Key :: string
  ss_Results :: "Suite_Result list"

datatype suite_error =
    ErrSuiteWithNoName
  | ErrSuiteWithNoEndpoints
  | ErrSuiteWithDuplicateEndpointNames string
  | ErrSuiteWithInvalidTimeout
  | ErrSuiteEndpoint string endpoint_error

definition DefaultInterval :: duration where "DefaultInterval = 10 * minute"
definition DefaultTimeout :: duration where "DefaultTimeout = 5 * minute"

definition Suite_IsEnabled :: "Suite \<Rightarrow> bool" where
  "Suite_IsEnabled s = (case s_Enabled s of None \<Rightarrow> True | Some b \<Rightarrow> b)"

definition Suite_Key :: "Suite \<Rightarrow> string" where
  "Suite_Key s = ConvertGroupAndNameToKey (s_Group s) (s_Name s)"

definition NewSuiteStatus :: "Suite \<Rightarrow> Suite_Status" where
  "NewSuiteStatus s =
     \<lparr>ss_Name = s_Name s, ss_Group = s_Group s, ss_Key = Suite_Key s, ss_Results = []\<rparr>"

section \<open>Validation\<close>

text \<open>The loop over the endpoints: the names seen so far, the endpoints left.\<close>

fun validate_suite_endpoints ::
  "validation_env \<Rightarrow> string \<Rightarrow> string list \<Rightarrow> Endpoint list \<Rightarrow>
   (suite_error option \<times> Endpoint list) outcome" where
  "validate_suite_endpoints env grp seen [] = Return (None, [])"
| "validate_suite_endpoints env grp seen (ep # eps) =
     (if e_Name ep \<in> set seen
        then Return (Some (ErrSuiteWithDuplicateEndpointNames (e_Name ep)), ep # eps)
      else
        case Endpoint_ValidateAndSetDefaults env (ep\<lparr>e_Group := grp\<rparr>) of
          Panic p \<Rightarrow> Panic p
        | Return (Some err, ep') \<Rightarrow> Return (Some (ErrSuiteEndpoint (e_Name ep') err), ep' # eps)
        | Return (None, ep') \<Rightarrow>
            (case validate_suite_endpoints env grp (e_Name ep # seen) eps of
               Panic p \<Rightarrow> Panic p
             | Return (err, eps') \<Rightarrow> Return (err, ep' # eps')))"

definition step_suite_endpoints :: "validation_env \<Rightarrow> (suite_error, Suite) step" where
  "step_suite_endpoints env s =
     (case validate_suite_endpoints env (s_Group s) [] (s_Endpoints s) of
        Panic p \<Rightarrow> Panic p
      | Return (err, eps) \<Rightarrow> Return (err, s\<lparr>s_Endpoints := eps\<rparr>))"

definition Suite_ValidateAndSetDefaults :: "validation_env \<Rightarrow> (suite_error, Suite) step" where
  "Suite_ValidateAndSetDefaults env =
     run_steps
       [check (\<lambda>s. if s_Name s = [] then Some ErrSuiteWithNoName else None),
        check (\<lambda>s. if s_Endpoints s = [] then Some ErrSuiteWithNoEndpoints else None),
        step_suite_endpoints env,
        modify (\<lambda>s. if s_Interval s = 0 then s\<lparr>s_Interval := DefaultInterval\<rparr> else s),
        modify (\<lambda>s. if s_Timeout s = 0 then s\<lparr>s_Timeout := DefaultTimeout\<rparr> else s),
        check (\<lambda>s. if s_Timeout s < 0 then Some ErrSuiteWithInvalidTimeout else None),
        modify (\<lambda>s. if s_InitialContext s = None then s\<lparr>s_InitialContext := Some []\<rparr> else s)]"

section \<open>Values carried from one endpoint to the next\<close>

definition invalid_suffix :: string where
  "invalid_suffix = '' '' @ InvalidConditionElementSuffix"

definition extractValueForStorage ::
  "json_codec \<Rightarrow> string \<Rightarrow> Result \<Rightarrow> (string + goval) outcome" where
  "extractValueForStorage codec placeholder result =
     (case ResolvePlaceholder codec placeholder result None of
        Panic p \<Rightarrow> Panic p
      | Return (Inl err) \<Rightarrow> Return (Inl err)
      | Return (Inr resolved) \<Rightarrow>
          Return
            (if HasSuffix resolved invalid_suffix
               then Inl (''invalid path: '' @ TrimSuffix resolved invalid_suffix)
             else case ParseInt resolved 10 of
                    Some num \<Rightarrow> Inr (VInt num)
                  | None \<Rightarrow>
                      (case ParseFloat resolved of
                         Some num \<Rightarrow> Inr (VFloat num)
                       | None \<Rightarrow>
                           (case ParseBool resolved of
                              Some b \<Rightarrow> Inr (VBool b)
                            | None \<Rightarrow> Inr (VStr resolved)))))"

text \<open>The context after the mappings, and the errors of the values that could not be extracted.\<close>

fun store_values ::
  "json_codec \<Rightarrow> gontext \<Rightarrow> (string \<times> string) list \<Rightarrow> Result \<Rightarrow> (gontext \<times> string list) outcome" where
  "store_values codec ctx [] result = Return (ctx, [])"
| "store_values codec ctx ((contextKey, placeholder) # mappings) result =
     (case extractValueForStorage codec placeholder result of
        Panic p \<Rightarrow> Panic p
      | Return (Inl err) \<Rightarrow>
          (case store_values codec ctx mappings result of
             Panic p \<Rightarrow> Panic p
           | Return (ctx', errs) \<Rightarrow> Return (ctx', (contextKey @ '': '' @ err) # errs))
      | Return (Inr v) \<Rightarrow> store_values codec (Set ctx contextKey v) mappings result)"

definition StoreResultValues ::
  "json_codec \<Rightarrow> gontext \<Rightarrow> (string \<times> string) list \<Rightarrow> Result \<Rightarrow> (gontext \<times> string option) outcome" where
  "StoreResultValues codec ctx mappings result =
     (case store_values codec ctx mappings result of
        Panic p \<Rightarrow> Panic p
      | Return (ctx', errs) \<Rightarrow>
          Return (ctx', if errs = [] then None
                        else Some (''failed to extract values: '' @ Join errs ''; '')))"

section \<open>Execution\<close>

record suite_env =
  se_start :: instant
  se_probe :: "nat \<Rightarrow> probe"
  se_epStart :: "nat \<Rightarrow> instant"
  se_epDuration :: "nat \<Rightarrow> duration"
  se_timed_out :: "nat \<Rightarrow> bool"
  se_duration :: duration

definition Suite_AddError :: "Suite_Result \<Rightarrow> string \<Rightarrow> Suite_Result" where
  "Suite_AddError r err = r\<lparr>sr_Errors := sr_Errors r @ [err]\<rparr>"

definition CalculateSuccess :: "Suite_Result \<Rightarrow> Suite_Result" where
  "CalculateSuccess r =
     r\<lparr>sr_Success := list_all r_Success (sr_EndpointResults r) \<and> sr_Errors r = []\<rparr>"

text \<open>One endpoint: its result with the values stored, and the context after it.\<close>

definition execute_endpoint ::
  "suite_env \<Rightarrow> nat \<Rightarrow> Endpoint \<Rightarrow> gontext \<Rightarrow> (Result \<times> gontext) outcome" where
  "execute_endpoint env i ep ctx =
     (case EvaluateHealthWithContext (se_probe env i) ep (Some ctx) of
        Panic p \<Rightarrow> Panic p
      | Return epResult \<Rightarrow>
          (let epResult = epResult\<lparr>r_Name := e_Name ep, r_Timestamp := se_epStart env i,
                                   r_Duration := se_epDuration env i\<rparr>
           in case StoreResultValues (p_codec (se_probe env i)) ctx (e_Store ep) epResult of
                Panic p \<Rightarrow> Panic p
              | Return (ctx', err) \<Rightarrow>
                  Return (add_error_opt epResult (map_option (\<lambda>e. ''failed to store values: '' @ e) err),
                          ctx')))"

text \<open>
  The loop: the position, whether the suite has failed, whether the timer has been received, the
  context and the result. The \<open>break\<close> of the source leaves the \<open>select\<close>, not the loop,
  so an endpoint runs after the timer too.
\<close>

fun execute_endpoints ::
  "suite_env \<Rightarrow> duration \<Rightarrow> nat \<Rightarrow> Endpoint list \<Rightarrow> bool \<Rightarrow> bool \<Rightarrow> gontext \<Rightarrow> Suite_Result \<Rightarrow>
   (gontext \<times> Suite_Result) outcome" where
  "execute_endpoints env timeout i [] failed received ctx result = Return (ctx, result)"
| "execute_endpoints env timeout i (ep # eps) failed received ctx result =
     (if failed \<and> \<not> e_AlwaysRun ep then
        execute_endpoints env timeout (Suc i) eps failed received ctx result
      else
        let timer = (se_timed_out env i \<and> \<not> received);
            result = (if timer
                      then (Suite_AddError result
                              (''suite execution timed out after '' @ duration_String timeout))
                             \<lparr>sr_Success := False\<rparr>
                      else result)
        in case execute_endpoint env i ep ctx of
             Panic p \<Rightarrow> Panic p
           | Return (epResult, ctx') \<Rightarrow>
               (let result = result\<lparr>sr_EndpointResults := sr_EndpointResults result @ [epResult]\<rparr>;
                    result = (if r_Success epResult then result else result\<lparr>sr_Success := False\<rparr>)
                in execute_endpoints env timeout (Suc i) eps (failed \<or> \<not> r_Success epResult)
                     (received \<or> timer) ctx' result))"

definition Suite_Execute :: "suite_env \<Rightarrow> Suite \<Rightarrow> Suite_Result outcome" where
  "Suite_Execute env s =
     (let result = \<lparr>sr_Name = s_Name s, sr_Group = s_Group s, sr_Success = True,
                    sr_Timestamp = se_start env, sr_Duration = 0, sr_EndpointResults = [],
                    sr_Context = [], sr_Errors = []\<rparr>
      in case execute_endpoints env (s_Timeout s) 0 (s_Endpoints s) False False
                (New (s_InitialContext s)) result of
           Panic p \<Rightarrow> Panic p
         | Return (ctx, result) \<Rightarrow>
             Return (CalculateSuccess (result\<lparr>sr_Context := GetAll ctx, sr_Duration := se_duration env\<rparr>)))"

section \<open>Facts on validation\<close>

lemma Endpoint_validated_name:
  assumes "Endpoint_ValidateAndSetDefaults env e = Return (None, e')"
  shows "e_Name e' = e_Name e \<and> e_Group e' = e_Group e"
proof -
  from assms obtain e1 e2 e3 where
    "step_name_group_alerts e = Return (None, e1)" "step_client env e1 = Return (None, e2)"
    "step_ui e2 = Return (None, e3)" "step_by_type env (set_request_defaults e3) = Return (None, e')"
    unfolding Endpoint_ValidateAndSetDefaults_def
    by (elim run_steps_NoneE) (auto simp: step_conditions_def split: if_splits outcome.splits)
  then show ?thesis
    using step_name_group_alerts_None [of e e1] step_client_None [of env e1 e2] step_ui_None [of e2 e3]
      step_by_type_None [of env "set_request_defaults e3" e'] by auto
qed

lemma validate_suite_endpoints_None:
  "validate_suite_endpoints env grp seen eps = Return (None, eps') \<Longrightarrow>
   isl (unmarshal (v_codec env) []) \<Longrightarrow>
   map e_Name eps' = map e_Name eps \<and> distinct (map e_Name eps) \<and>
   set (map e_Name eps) \<inter> set seen = {} \<and>
   (\<forall>ep \<in> set eps'. validated_endpoint ep \<and> e_Group ep = grp)"
proof (induction eps arbitrary: seen eps')
  case (Cons ep eps)
  from Cons.prems(1) obtain ep1 rest where new: "e_Name ep \<notin> set seen"
    and v: "Endpoint_ValidateAndSetDefaults env (ep\<lparr>e_Group := grp\<rparr>) = Return (None, ep1)"
    and r: "validate_suite_endpoints env grp (e_Name ep # seen) eps = Return (None, rest)"
    and eps': "eps' = ep1 # rest"
    by (auto split: if_splits outcome.splits option.splits)
  from Cons.IH [OF r Cons.prems(2)] Endpoint_validated [OF v Cons.prems(2)]
    Endpoint_validated_name [OF v] new eps'
  show ?case by auto
qed simp

section \<open>Facts on the execution\<close>

text \<open>
  Which endpoints run, from the results alone: once a result is a failure only the endpoints that
  always run do.
\<close>

fun executed_by :: "Endpoint list \<Rightarrow> Result list \<Rightarrow> bool \<Rightarrow> bool" where
  "executed_by [] rs failed = (rs = [])"
| "executed_by (ep # eps) rs failed =
     (if failed \<and> \<not> e_AlwaysRun ep then executed_by eps rs failed
      else case rs of
             [] \<Rightarrow> False
           | r # rs' \<Rightarrow> r_Name r = e_Name ep \<and> executed_by eps rs' (failed \<or> \<not> r_Success r))"

lemma add_error_opt_Name [simp]: "r_Name (add_error_opt r e) = r_Name r"
  by (simp add: add_error_opt_def split: option.splits)

lemma execute_endpoint_Name:
  "execute_endpoint env i ep ctx = Return (r, ctx') \<Longrightarrow> r_Name r = e_Name ep"
  by (auto simp: execute_endpoint_def Let_def split: outcome.splits prod.splits)

lemma execute_endpoints_executed_by:
  "execute_endpoints env t i eps failed received ctx res = Return (ctx', res') \<Longrightarrow>
   \<exists>rs. sr_EndpointResults res' = sr_EndpointResults res @ rs \<and> executed_by eps rs failed"
proof (induction env t i eps failed received ctx res rule: execute_endpoints.induct)
  case (2 env t i ep eps failed received ctx res)
  show ?case
  proof (cases "failed \<and> \<not> e_AlwaysRun ep")
    case True
    with 2(1,3) show ?thesis by simp
  next
    case False
    let ?timer = "se_timed_out env i \<and> \<not> received"
    let ?res = "if ?timer
      then (Suite_AddError res (''suite execution timed out after '' @ duration_String t))\<lparr>sr_Success := False\<rparr>
      else res"
    from 2(3) False obtain r c where e: "execute_endpoint env i ep ctx = Return (r, c)"
      by (auto simp: Let_def split: outcome.splits)
    from 2(2) [OF False refl refl e refl refl refl] 2(3) False e
    obtain rs where "sr_EndpointResults res' = sr_EndpointResults res @ r # rs"
      and "executed_by eps rs (failed \<or> \<not> r_Success r)"
      by (fastforce simp: Let_def Suite_AddError_def split: if_splits)
    with False execute_endpoint_Name [OF e] show ?thesis
      by (intro exI [of _ "r # rs"]) auto
  qed
qed simp

text \<open>The only error of a suite is its timeout, reported at most once.\<close>

lemma execute_endpoints_errors:
  "execute_endpoints env t i eps failed received ctx res = Return (ctx', res') \<Longrightarrow>
   \<exists>es. sr_Errors res' = sr_Errors res @ es \<and>
     es \<in> {[], [''suite execution timed out after '' @ duration_String t]} \<and> (received \<longrightarrow> es = [])"
proof (induction env t i eps failed received ctx res rule: execute_endpoints.induct)
  case (2 env t i ep eps failed received ctx res)
  show ?case
  proof (cases "failed \<and> \<not> e_AlwaysRun ep")
    case True
    with 2(1,3) show ?thesis by simp
  next
    case False
    from 2(3) False obtain r c where e: "execute_endpoint env i ep ctx = Return (r, c)"
      by (auto simp: Let_def split: outcome.splits)
    from 2(2) [OF False refl refl e refl refl refl] 2(3) False e
    show ?thesis by (fastforce simp: Let_def Suite_AddError_def split: if_splits)
  qed
qed simp

text \<open>What an endpoint stores is the extracted values, written one after the other.\<close>

fun extracted :: "json_codec \<Rightarrow> Result \<Rightarrow> (string \<times> string) list \<Rightarrow> (string \<times> goval) list" where
  "extracted codec r [] = []"
| "extracted codec r ((k, p) # ms) =
     (case extractValueForStorage codec p r of
        Return (Inr v) \<Rightarrow> (k, v) # extracted codec r ms
      | _ \<Rightarrow> extracted codec r ms)"

lemma store_values_store_all:
  "store_values codec ctx mappings r = Return (ctx', errs) \<Longrightarrow>
   ctx' = gctx.store_all ctx (extracted codec r mappings)"
proof (induction codec ctx mappings r arbitrary: errs rule: store_values.induct)
  case (2 codec ctx k p mappings r)
  then show ?case by (auto split: outcome.splits sum.splits)
qed simp

lemma extracted_fst: "kv \<in> set (extracted codec r ms) \<Longrightarrow> fst kv \<in> fst ` set ms"
  by (induction codec r ms rule: extracted.induct) (auto split: outcome.splits sum.splits)

lemma extracted_indep:
  "sorted_wrt (\<lambda>x y. path_indep (fst y) (fst x)) ms \<Longrightarrow>
   sorted_wrt (\<lambda>x y. path_indep (fst y) (fst x)) (extracted codec r ms)"
proof (induction codec r ms rule: extracted.induct)
  case (2 codec r k p ms)
  have "\<forall>y \<in> set (extracted codec r ms). path_indep (fst y) k"
    using "2.prems" extracted_fst [of _ codec r ms] by fastforce
  with 2 show ?case by (auto split: outcome.splits sum.splits)
qed simp

lemma extracted_mem:
  "(k, p) \<in> set ms \<Longrightarrow> extractValueForStorage codec p r = Return (Inr v) \<Longrightarrow>
   (k, v) \<in> set (extracted codec r ms)"
  by (induction codec r ms rule: extracted.induct) (auto split: outcome.splits sum.splits)

text \<open>What the placeholder of a context path resolves to.\<close>

lemma resolve_context_path:
  assumes "Get ctx k = Inr v" and "k \<noteq> []" and "\<not> is_space (last k)" and "hd k \<noteq> CHR ''.''"
  shows "ResolvePlaceholder codec (''[CONTEXT].'' @ k) r (Some ctx) = Return (Inr (fmt_v v))"
proof -
  let ?p = "''[CONTEXT].'' @ k"
  have "dropWhile is_space ?p = ?p" by (simp add: is_space_def)
  moreover have "dropWhile is_space (rev ?p) = rev ?p"
    unfolding dropWhile_eq_self_iff using assms(2,3) by (simp only: hd_rev last_appendR) simp
  ultimately have "TrimSpace ?p = ?p" by (simp only: TrimSpace_def rev_rev_ident)
  moreover have "extractFunctionWrapper ?p = (noFunction, ?p)"
    by (simp add: extractFunctionWrapper_def function_names HasPrefix_def)
  moreover have "HasPrefix (ToUpper ?p) ContextPlaceholder"
    by (simp add: HasPrefix_def ToUpper_def ContextPlaceholder_def ascii_lower_to_upper_def)
  moreover have "TrimPrefix (TrimPrefix ?p ContextPlaceholder) ''.'' = k"
    by (simp add: TrimPrefix_def HasPrefix_def ContextPlaceholder_def)
  ultimately show ?thesis
    using assms(1,2) by (simp add: ResolvePlaceholder_def resolveContextPlaceholder_def Let_def)
qed

section \<open>Properties\<close>

text \<open>
  C28. The results of an execution are those of the endpoints in order, where after the first
  failed result only the endpoints that always run have one; the suite is a success exactly when
  all these results are and the timer did not report, which it does at most once and never keeps an
  endpoint from running.
\<close>

theorem Suite_Execute_runs:
  assumes "Suite_Execute env s = Return res"
  shows "executed_by (s_Endpoints s) (sr_EndpointResults res) False \<and>
    (sr_Success res \<longleftrightarrow> (\<forall>r \<in> set (sr_EndpointResults res). r_Success r) \<and> sr_Errors res = []) \<and>
    sr_Errors res \<in> {[], [''suite execution timed out after '' @ duration_String (s_Timeout s)]}"
proof -
  let ?res0 = "\<lparr>sr_Name = s_Name s, sr_Group = s_Group s, sr_Success = True,
    sr_Timestamp = se_start env, sr_Duration = 0, sr_EndpointResults = [],
    sr_Context = [], sr_Errors = []\<rparr>"
  from assms obtain ctx r where
    run: "execute_endpoints env (s_Timeout s) 0 (s_Endpoints s) False False
      (New (s_InitialContext s)) ?res0 = Return (ctx, r)"
    and res: "res = CalculateSuccess (r\<lparr>sr_Context := GetAll ctx, sr_Duration := se_duration env\<rparr>)"
    by (auto simp: Suite_Execute_def Let_def split: outcome.splits)
  from execute_endpoints_executed_by [OF run] execute_endpoints_errors [OF run] show ?thesis
    by (auto simp: res CalculateSuccess_def list_all_iff)
qed

definition example_suite_env :: suite_env where
  "example_suite_env = \<lparr>se_start = 0,
     se_probe = (\<lambda>i. example_probe\<lparr>p_Do := (\<lambda>r c. Inr \<lparr>hs_StatusCode = (if i = 0 then 500 else 200),
       hs_PeerCertificate = None, hs_Body = ([], None)\<rparr>)\<rparr>),
     se_epStart = (\<lambda>i. int i * second), se_epDuration = (\<lambda>i. millisecond),
     se_timed_out = (\<lambda>i. i > 0), se_duration = 3 * second\<rparr>"

definition example_suite :: Suite where
  "example_suite = \<lparr>s_Name = ''checkout'', s_Group = ''shop'', s_Enabled = None,
     s_Interval = DefaultInterval, s_Timeout = second, s_InitialContext = None,
     s_Endpoints = [hiding_endpoint\<lparr>e_Name := ''create''\<rparr>, hiding_endpoint\<lparr>e_Name := ''check''\<rparr>,
       hiding_endpoint\<lparr>e_Name := ''delete'', e_AlwaysRun := True\<rparr>]\<rparr>"

lemma example_suite_executes:
  "\<exists>res. Suite_Execute example_suite_env example_suite = Return res \<and>
     map r_Name (sr_EndpointResults res) = [''create'', ''delete''] \<and>
     map r_Success (sr_EndpointResults res) = [False, True] \<and>
     sr_Errors res = [''suite execution timed out after 1s'']"
proof -
  have "case Suite_Execute example_suite_env example_suite of
      Return res \<Rightarrow> map r_Name (sr_EndpointResults res) = [''create'', ''delete''] \<and>
        map r_Success (sr_EndpointResults res) = [False, True] \<and>
        sr_Errors res = [''suite execution timed out after 1s'']
    | Panic e \<Rightarrow> False"
    by code_simp
  then show ?thesis by (simp split: outcome.splits)
qed

text \<open>
  A suite of three endpoints whose first one fails: the second is skipped, the third always runs
  even though the timer has gone off before it.
\<close>

theorem Suite_Execute_runs_witness:
  "\<exists>res. Suite_Execute example_suite_env example_suite = Return res \<and>
     executed_by (s_Endpoints example_suite) (sr_EndpointResults res) False \<and> \<not> sr_Success res"
proof -
  obtain res where res: "Suite_Execute example_suite_env example_suite = Return res"
    and "sr_Errors res = [''suite execution timed out after 1s'']"
    using example_suite_executes by blast
  with Suite_Execute_runs [OF res] show ?thesis by auto
qed

text \<open>
  C35. A value that an endpoint extracts under a key is what the following endpoints find in the
  context: the key reads back as the value, and the placeholder of the key resolves to its text,
  when the keys of the endpoint are independent paths.
\<close>

theorem stored_value_available:
  assumes "StoreResultValues codec ctx mappings r = Return (ctx', err)"
    and "(k, p) \<in> set mappings" and "extractValueForStorage codec p r = Return (Inr v)"
    and "sorted_wrt (\<lambda>x y. path_indep (fst y) (fst x)) mappings"
    and "k \<noteq> []" and "\<not> is_space (last k)" and "hd k \<noteq> CHR ''.''"
  shows "Get ctx' k = Inr v \<and>
    ResolvePlaceholder codec (''[CONTEXT].'' @ k) r' (Some ctx') = Return (Inr (fmt_v v))"
proof -
  from assms(1) have "ctx' = gctx.store_all ctx (extracted codec r mappings)"
    by (auto simp: StoreResultValues_def dest: store_values_store_all split: outcome.splits)
  then have "Get ctx' k = Inr v"
    using gctx.lookup_store_all [OF extracted_mem [OF assms(2,3)] extracted_indep [OF assms(4)]] by simp
  then show ?thesis using resolve_context_path assms(5-7) by blast
qed

theorem stored_value_available_witness:
  "\<exists>ctx' err. StoreResultValues (v_codec example_env) (New None)
      [(''code'', ''[STATUS]''), (''ok'', ''[CONNECTED]'')]
      (empty_Result\<lparr>r_HTTPStatus := 201, r_Connected := True\<rparr>) = Return (ctx', err) \<and>
    Get ctx' ''ok'' = Inr (VBool True)"
proof -
  let ?ms = "[(''code'', ''[STATUS]''), (''ok'', ''[CONNECTED]'')]"
  let ?r = "empty_Result\<lparr>r_HTTPStatus := 201, r_Connected := True\<rparr>"
  have "case StoreResultValues (v_codec example_env) (New None) ?ms ?r of
      Return _ \<Rightarrow> True | Panic e \<Rightarrow> False" by code_simp
  then obtain ctx' err where
    s: "StoreResultValues (v_codec example_env) (New None) ?ms ?r = Return (ctx', err)"
    by (auto split: outcome.splits)
  have "extractValueForStorage (v_codec example_env) ''[CONNECTED]'' ?r = Return (Inr (VBool True))"
    by code_simp
  moreover have "path_indep ''ok'' ''code''" by (simp add: path_indep_no_dot)
  ultimately show ?thesis
    using stored_value_available [OF s, of "''ok''" "''[CONNECTED]''" "VBool True"] s
    by (auto simp: is_space_def)
qed

text \<open>
  A suite that passes validation has endpoints of pairwise different names, all valid and
  all of the group of the suite, a positive timeout and an interval.
\<close>

theorem validated_suite_sound:
  assumes "Suite_ValidateAndSetDefaults env s = Return (None, s')"
    and "isl (unmarshal (v_codec env) [])"
  shows "s_Name s' \<noteq> [] \<and> s_Endpoints s' \<noteq> [] \<and> distinct (map e_Name (s_Endpoints s')) \<and>
    (\<forall>ep \<in> set (s_Endpoints s'). validated_endpoint ep \<and> e_Group ep = s_Group s') \<and>
    0 < s_Timeout s' \<and> s_Interval s' \<noteq> 0 \<and> Suite_Key s' = Suite_Key s"
proof -
  let ?i = "\<lambda>s. if s_Interval s = 0 then s\<lparr>s_Interval := DefaultInterval\<rparr> else s"
  let ?t = "\<lambda>s. if s_Timeout s = 0 then s\<lparr>s_Timeout := DefaultTimeout\<rparr> else s"
  let ?c = "\<lambda>s. if s_InitialContext s = None then s\<lparr>s_InitialContext := Some []\<rparr> else s"
  from assms(1) obtain eps where n: "s_Name s \<noteq> []" "s_Endpoints s \<noteq> []"
    and v: "validate_suite_endpoints env (s_Group s) [] (s_Endpoints s) = Return (None, eps)"
    and s': "s' = ?c (?t (?i (s\<lparr>s_Endpoints := eps\<rparr>)))" and t: "\<not> s_Timeout s' < 0"
    unfolding Suite_ValidateAndSetDefaults_def step_suite_endpoints_def
    by (elim run_steps_NoneE) (auto split: if_splits outcome.splits)
  from validate_suite_endpoints_None [OF v assms(2)] n
  have "eps \<noteq> []" "distinct (map e_Name eps)" "\<forall>ep \<in> set eps. validated_endpoint ep \<and> e_Group ep = s_Group s"
    by auto
  with n t show ?thesis
    by (simp add: s' Suite_Key_def DefaultInterval_def DefaultTimeout_def duration_units split: if_splits)
qed

theorem validated_suite_sound_witness:
  "\<exists>s'. Suite_ValidateAndSetDefaults example_env example_suite = Return (None, s') \<and>
     distinct (map e_Name (s_Endpoints s')) \<and> 0 < s_Timeout s'"
proof -
  have "case Suite_ValidateAndSetDefaults example_env example_suite of
      Return (None, s') \<Rightarrow> True | _ \<Rightarrow> False"
    by code_simp
  then obtain s' where s': "Suite_ValidateAndSetDefaults example_env example_suite = Return (None, s')"
    by (auto split: outcome.splits option.splits)
  have "isl (unmarshal (v_codec example_env) [])" by (simp add: example_env_def)
  from validated_suite_sound [OF s' this] s' show ?thesis by blast
qed

text \<open>
  Whatever looks like a number is stored as one: a text with leading zeros comes back without them,
  and one of digits and an e in another notation.
\<close>

lemma stored_text_becomes_number:
  "extractValueForStorage (v_codec example_env) ''[BODY]'' (empty_Result\<lparr>r_Body := ''0042''\<rparr>) =
     Return (Inr (VInt 42)) \<and>
   map_outcome (map_sum id fmt_v) (extractValueForStorage (v_codec example_env) ''[BODY]''
     (empty_Result\<lparr>r_Body := ''12e5''\<rparr>)) = Return (Inr ''1.2e+06'')"
  by code_simp

end
