(* ===== verification/Memory_Store.thy ===== *)
theory Memory_Store
  imports Suite
begin

text \<open>
  \<open>storage/store/memory/\<close>: the storage that keeps the statuses of endpoints and suites in two
  caches, with \<open>storage/store/common/\<close> (errors, paging). The cache is a library of its own:
  its operations are the record \<open>cache_ops\<close>, and what the store relies on, that a cache
  without size limit is a map, is the locale \<open>kv_cache\<close>. The lock of the store makes each
  operation atomic. The limits on results and events are natural numbers, since the configuration
  replaces those below one.

  The locale \<open>result_store\<close> is what the store promises of results: it keeps the most recent
  ones of every key. It holds of endpoints and of suites.
\<close>

section \<open>The cache\<close>

record ('c, 'v) cache_ops =
  c_Get :: "'c \<Rightarrow> string \<Rightarrow> 'v option"
  c_Set :: "'c \<Rightarrow> string \<Rightarrow> 'v \<Rightarrow> 'c"
  c_GetAll :: "'c \<Rightarrow> (string \<times> 'v) list"
  c_DeleteAll :: "'c \<Rightarrow> string list \<Rightarrow> 'c \<times> nat"
  c_Empty :: "'c"

locale kv_cache =
  fixes ops :: "('c, 'v) cache_ops"
  assumes Get_Set: "c_Get ops (c_Set ops c k v) k' = (if k' = k then Some v else c_Get ops c k')"
    and Get_Empty: "c_Get ops (c_Empty ops) k = None"
    and GetAll: "(k, v) \<in> set (c_GetAll ops c) \<longleftrightarrow> c_Get ops c k = Some v"
    and GetAll_distinct: "distinct (map fst (c_GetAll ops c))"
    and Get_DeleteAll:
      "c_Get ops (fst (c_DeleteAll ops c ks)) k = (if k \<in> set ks then None else c_Get ops c k)"

section \<open>Paging\<close>

record EndpointStatusParams =
  EventsPage :: int
  EventsPageSize :: int
  ResultsPage :: int
  ResultsPageSize :: int
  IncludeResultsCount :: bool

record SuiteStatusParams =
  Page :: int
  PageSize :: int

definition NewEndpointStatusParams :: EndpointStatusParams where
  "NewEndpointStatusParams =
     \<lparr>EventsPage = 0, EventsPageSize = 0, ResultsPage = 0, ResultsPageSize = 0,
      IncludeResultsCount = False\<rparr>"

definition WithEvents :: "EndpointStatusParams \<Rightarrow> int \<Rightarrow> int \<Rightarrow> EndpointStatusParams" where
  "WithEvents params page pageSize = params\<lparr>EventsPage := page, EventsPageSize := pageSize\<rparr>"

definition WithResults :: "EndpointStatusParams \<Rightarrow> int \<Rightarrow> int \<Rightarrow> EndpointStatusParams" where
  "WithResults params page pageSize = params\<lparr>ResultsPage := page, ResultsPageSize := pageSize\<rparr>"

definition WithResultsCount :: "EndpointStatusParams \<Rightarrow> EndpointStatusParams" where
  "WithResultsCount params = params\<lparr>IncludeResultsCount := True\<rparr>"

definition NewSuiteStatusParams :: SuiteStatusParams where
  "NewSuiteStatusParams = \<lparr>Page = 1, PageSize = 20\<rparr>"

definition WithPagination :: "SuiteStatusParams \<Rightarrow> int \<Rightarrow> int \<Rightarrow> SuiteStatusParams" where
  "WithPagination params page pageSize = params\<lparr>Page := page, PageSize := pageSize\<rparr>"

definition getStartAndEndIndex :: "int \<Rightarrow> int \<Rightarrow> int \<Rightarrow> int \<times> int" where
  "getStartAndEndIndex numberOfResults page pageSize =
     (if page < 1 \<or> pageSize < 0 then (-1, -1)
      else
        let start = wrap64 (numberOfResults - wrap64 (page * pageSize));
            stop = wrap64 (numberOfResults - wrap64 ((page - 1) * pageSize));
            start = (if numberOfResults < start then -1 else if start < 0 then 0 else start);
            stop = (if numberOfResults < stop then numberOfResults else stop)
        in (start, stop))"

text \<open>A slice expression \<open>xs[i:j]\<close> panics unless \<open>i <= j <= len(xs)\<close>.\<close>

definition slice :: "'a list \<Rightarrow> int \<Rightarrow> int \<Rightarrow> 'a list outcome" where
  "slice xs i j =
     (if 0 \<le> i \<and> i \<le> j \<and> j \<le> int (length xs) then Return (drop (nat i) (take (nat j) xs))
      else Panic ''slice bounds out of range'')"

definition page_of :: "'a list \<Rightarrow> int \<Rightarrow> int \<Rightarrow> 'a list outcome" where
  "page_of xs page pageSize =
     (case getStartAndEndIndex (int (length xs)) page pageSize of
        (start, stop) \<Rightarrow> if start < 0 \<or> stop < 0 then Return [] else slice xs start stop)"

definition ShallowCopyEndpointStatus ::
  "Status \<Rightarrow> EndpointStatusParams option \<Rightarrow> Status outcome" where
  "ShallowCopyEndpointStatus ss params =
     (let copy = ss\<lparr>st_ResultsCount := (case params of
                       Some p \<Rightarrow> if IncludeResultsCount p then int (length (st_Results ss)) else 0
                     | None \<Rightarrow> 0),
                    st_Uptime := NewUptime\<rparr>
      in case params of
           None \<Rightarrow> Return copy
         | Some p \<Rightarrow>
             if ResultsPage p = 0 \<and> ResultsPageSize p = 0 \<and> EventsPage p = 0 \<and> EventsPageSize p = 0
             then Return copy
             else
               (case page_of (st_Results ss) (ResultsPage p) (ResultsPageSize p) of
                  Panic e \<Rightarrow> Panic e
                | Return results \<Rightarrow>
                    (case page_of (st_Events ss) (EventsPage p) (EventsPageSize p) of
                       Panic e \<Rightarrow> Panic e
                     | Return events \<Rightarrow> Return (copy\<lparr>st_Results := results, st_Events := events\<rparr>))))"

definition ShallowCopySuiteStatus ::
  "Suite_Status \<Rightarrow> SuiteStatusParams option \<Rightarrow> Suite_Status outcome" where
  "ShallowCopySuiteStatus ss params =
     (case params of
        None \<Rightarrow> Return ss
      | Some p \<Rightarrow>
          if Page p = 0 \<and> PageSize p = 0 then Return ss
          else (case page_of (ss_Results ss) (Page p) (PageSize p) of
                  Panic e \<Rightarrow> Panic e
                | Return results \<Rightarrow> Return (ss\<lparr>ss_Results := results\<rparr>)))"

section \<open>Uptime\<close>

definition uptimeCleanUpThreshold :: nat where "uptimeCleanUpThreshold = 32 * 24"

definition uptimeRetention :: duration where "uptimeRetention = 30 * 24 * hour"

definition hour_bucket :: "instant \<Rightarrow> int" where
  "hour_bucket t = Unix (Truncate_time t hour)"

definition empty_hour :: HourlyUptimeStatistics where
  "empty_hour = \<lparr>TotalExecutions = 0, SuccessfulExecutions = 0, TotalExecutionsResponseTime = 0\<rparr>"

definition count_result :: "Result \<Rightarrow> HourlyUptimeStatistics \<Rightarrow> HourlyUptimeStatistics" where
  "count_result result h =
     \<lparr>TotalExecutions = uwrap64 (TotalExecutions h + 1),
      SuccessfulExecutions =
        (if r_Success result then uwrap64 (SuccessfulExecutions h + 1) else SuccessfulExecutions h),
      TotalExecutionsResponseTime =
        uwrap64 (TotalExecutionsResponseTime h + uwrap64 (Milliseconds (r_Duration result)))\<rparr>"

definition processUptimeAfterResult :: "instant \<Rightarrow> Uptime \<Rightarrow> Result \<Rightarrow> Uptime" where
  "processUptimeAfterResult now uptime result =
     (let k = hour_bucket (r_Timestamp result);
          h = (case map_of (HourlyStatistics uptime) k of None \<Rightarrow> empty_hour | Some h \<Rightarrow> h);
          stats = AList.update k (count_result result h) (HourlyStatistics uptime)
      in if uptimeCleanUpThreshold < length stats then
           let sevenDaysAgo = Unix (now - (uptimeRetention + hour)) in
           uptime\<lparr>HourlyStatistics := filter (\<lambda>(t, _). \<not> t < sevenDaysAgo) stats\<rparr>
         else uptime\<lparr>HourlyStatistics := stats\<rparr>)"

section \<open>Adding a result\<close>

definition AddResult :: "instant \<Rightarrow> Status \<Rightarrow> Result \<Rightarrow> nat \<Rightarrow> nat \<Rightarrow> Status" where
  "AddResult now ss result maximumNumberOfResults maximumNumberOfEvents =
     (let events =
            (if st_Results ss \<noteq> [] then
               (if r_Success (last (st_Results ss)) \<noteq> r_Success result then
                  (let evs = st_Events ss @ [NewEventFromResult result] in
                   if maximumNumberOfEvents < length evs then last_n maximumNumberOfEvents evs else evs)
                else st_Events ss)
             else st_Events ss @ [NewEventFromResult result]);
          results = st_Results ss @ [result];
          results = (if maximumNumberOfResults < length results
                     then last_n maximumNumberOfResults results else results)
      in ss\<lparr>st_Events := events, st_Results := results,
            st_Uptime := processUptimeAfterResult now (st_Uptime ss) result\<rparr>)"

section \<open>The store\<close>

datatype store_error = ErrEndpointNotFound | ErrSuiteNotFound | ErrInvalidTimeRange

record ('e, 's) Store =
  endpointCache :: 'e
  suiteCache :: 's
  maximumNumberOfResults :: nat
  maximumNumberOfEvents :: nat

type_synonym 'e endpoint_cache = "('e, Status) cache_ops"
type_synonym 's suite_cache = "('s, Suite_Status) cache_ops"

definition NewStore :: "'e endpoint_cache \<Rightarrow> 's suite_cache \<Rightarrow> nat \<Rightarrow> nat \<Rightarrow> ('e, 's) Store" where
  "NewStore ec sc maxResults maxEvents =
     \<lparr>endpointCache = c_Empty ec, suiteCache = c_Empty sc,
      maximumNumberOfResults = maxResults, maximumNumberOfEvents = maxEvents\<rparr>"

definition InsertEndpointResult ::
  "'e endpoint_cache \<Rightarrow> instant \<Rightarrow> ('e, 's) Store \<Rightarrow> Endpoint \<Rightarrow> Result \<Rightarrow> ('e, 's) Store" where
  "InsertEndpointResult ec now s ep result =
     (let endpointKey = Endpoint_Key ep;
          status =
            (case c_Get ec (endpointCache s) endpointKey of
               Some status \<Rightarrow> status
             | None \<Rightarrow>
                 (NewStatus (e_Group ep) (e_Name ep))
                   \<lparr>st_Key := endpointKey,
                    st_Events := [\<lparr>ev_Type = EventStart, ev_Timestamp = now\<rparr>]\<rparr>);
          status = AddResult now status result (maximumNumberOfResults s) (maximumNumberOfEvents s)
      in s\<lparr>endpointCache := c_Set ec (endpointCache s) endpointKey status\<rparr>)"

definition InsertSuiteResult ::
  "'s suite_cache \<Rightarrow> ('e, 's) Store \<Rightarrow> Suite \<Rightarrow> Suite_Result \<Rightarrow> ('e, 's) Store" where
  "InsertSuiteResult sc s su result =
     (let suiteKey = Suite_Key su;
          status =
            (case c_Get sc (suiteCache s) suiteKey of
               Some status \<Rightarrow> status
             | None \<Rightarrow> \<lparr>ss_Name = s_Name su, ss_Group = s_Group su, ss_Key = Suite_Key su, ss_Results = []\<rparr>);
          results = ss_Results status @ [result];
          results = (if maximumNumberOfResults s < length results
                     then last_n (maximumNumberOfResults s) results else results)
      in s\<lparr>suiteCache := c_Set sc (suiteCache s) suiteKey (status\<lparr>ss_Results := results\<rparr>)\<rparr>)"

fun outcome_all :: "'a outcome list \<Rightarrow> 'a list outcome" where
  "outcome_all [] = Return []"
| "outcome_all (x # xs) =
     (case x of
        Panic e \<Rightarrow> Panic e
      | Return y \<Rightarrow> (case outcome_all xs of Panic e \<Rightarrow> Panic e | Return ys \<Rightarrow> Return (y # ys)))"

definition GetAllEndpointStatuses ::
  "'e endpoint_cache \<Rightarrow> ('e, 's) Store \<Rightarrow> EndpointStatusParams option \<Rightarrow> Status list outcome" where
  "GetAllEndpointStatuses ec s params =
     map_outcome (sort_key st_Key)
       (outcome_all (map (\<lambda>(k, status). ShallowCopyEndpointStatus status params)
          (c_GetAll ec (endpointCache s))))"

definition GetAllSuiteStatuses ::
  "'s suite_cache \<Rightarrow> ('e, 's) Store \<Rightarrow> SuiteStatusParams option \<Rightarrow> Suite_Status list outcome" where
  "GetAllSuiteStatuses sc s params =
     map_outcome (sort_key ss_Key)
       (outcome_all (map (\<lambda>(k, status). ShallowCopySuiteStatus status params)
          (c_GetAll sc (suiteCache s))))"

definition GetEndpointStatusByKey ::
  "'e endpoint_cache \<Rightarrow> ('e, 's) Store \<Rightarrow> string \<Rightarrow> EndpointStatusParams option \<Rightarrow>
   (store_error + Status) outcome" where
  "GetEndpointStatusByKey ec s k params =
     (case c_Get ec (endpointCache s) k of
        None \<Rightarrow> Return (Inl ErrEndpointNotFound)
      | Some status \<Rightarrow> map_outcome Inr (ShallowCopyEndpointStatus status params))"

definition GetEndpointStatus ::
  "'e endpoint_cache \<Rightarrow> ('e, 's) Store \<Rightarrow> string \<Rightarrow> string \<Rightarrow> EndpointStatusParams option \<Rightarrow>
   (store_error + Status) outcome" where
  "GetEndpointStatus ec s groupName endpointName params =
     GetEndpointStatusByKey ec s (ConvertGroupAndNameToKey groupName endpointName) params"

definition GetSuiteStatusByKey ::
  "'s suite_cache \<Rightarrow> ('e, 's) Store \<Rightarrow> string \<Rightarrow> SuiteStatusParams option \<Rightarrow>
   (store_error + Suite_Status) outcome" where
  "GetSuiteStatusByKey sc s k params =
     (case c_Get sc (suiteCache s) k of
        None \<Rightarrow> Return (Inl ErrSuiteNotFound)
      | Some status \<Rightarrow> map_outcome Inr (ShallowCopySuiteStatus status params))"

text \<open>
  The loops over the hours from \<open>from\<close> to \<open>to\<close>: the buckets that are looked at, and the
  statistics found there with at least one execution.
\<close>

function hour_buckets :: "instant \<Rightarrow> instant \<Rightarrow> int list" where
  "hour_buckets current to =
     (if 0 \<le> Sub to current then hour_bucket current # hour_buckets (current + hour) to else [])"
  by pat_completeness auto
termination
  by (relation "measure (\<lambda>(current, to). nat (to + 1 - current))")
     (auto simp: go_time hour_def)

declare hour_buckets.simps [simp del]

definition buckets_found :: "Uptime \<Rightarrow> instant \<Rightarrow> instant \<Rightarrow> (int \<times> HourlyUptimeStatistics) list" where
  "buckets_found uptime current to =
     concat (map (\<lambda>k. case map_of (HourlyStatistics uptime) k of
         None \<Rightarrow> []
       | Some h \<Rightarrow> if TotalExecutions h = 0 then [] else [(k, h)]) (hour_buckets current to))"

definition sum_uint64 :: "int list \<Rightarrow> int" where
  "sum_uint64 xs = foldl (\<lambda>a x. uwrap64 (a + x)) 0 xs"

text \<open>The division \<open>float64(a) / float64(b)\<close> of two unsigned integers rounds three times.\<close>

definition float_ratio :: "int \<Rightarrow> int \<Rightarrow> f64" where
  "float_ratio a b =
     (case (round_f64 False (nat a) 1, round_f64 False (nat b) 1) of
        (F_Fin _ m e, F_Fin _ m' e') \<Rightarrow>
          if m' = 0 then (if m = 0 then F_NaN else F_Inf False)
          else round_f64 False (m * 2 ^ nat (e - min e e')) (m' * 2 ^ nat (e' - min e e'))
      | _ \<Rightarrow> F_NaN)"

definition GetUptimeByKey ::
  "'e endpoint_cache \<Rightarrow> ('e, 's) Store \<Rightarrow> string \<Rightarrow> instant \<Rightarrow> instant \<Rightarrow> store_error + f64" where
  "GetUptimeByKey ec s k start to =
     (if to < start then Inl ErrInvalidTimeRange
      else case c_Get ec (endpointCache s) k of
             None \<Rightarrow> Inl ErrEndpointNotFound
           | Some status \<Rightarrow>
               (let hs = map snd (buckets_found (st_Uptime status) start to);
                    successfulExecutions = sum_uint64 (map SuccessfulExecutions hs);
                    totalExecutions = sum_uint64 (map TotalExecutions hs)
                in if totalExecutions = 0 then Inr (F_Fin False 0 0)
                   else Inr (float_ratio successfulExecutions totalExecutions)))"

definition GetAverageResponseTimeByKey ::
  "'e endpoint_cache \<Rightarrow> ('e, 's) Store \<Rightarrow> string \<Rightarrow> instant \<Rightarrow> instant \<Rightarrow> store_error + int" where
  "GetAverageResponseTimeByKey ec s k start to =
     (if to < start then Inl ErrInvalidTimeRange
      else case c_Get ec (endpointCache s) k of
             None \<Rightarrow> Inl ErrEndpointNotFound
           | Some status \<Rightarrow>
               (let hs = map snd (buckets_found (st_Uptime status) start to);
                    totalExecutions = sum_uint64 (map TotalExecutions hs);
                    totalResponseTime = sum_uint64 (map TotalExecutionsResponseTime hs)
                in if totalExecutions = 0 then Inr 0
                   else Inr (int64_of_f64 (float_ratio totalResponseTime totalExecutions))))"

definition GetHourlyAverageResponseTimeByKey ::
  "'e endpoint_cache \<Rightarrow> ('e, 's) Store \<Rightarrow> string \<Rightarrow> instant \<Rightarrow> instant \<Rightarrow>
   store_error + (int \<times> int) list" where
  "GetHourlyAverageResponseTimeByKey ec s k start to =
     (if to < start then Inl ErrInvalidTimeRange
      else case c_Get ec (endpointCache s) k of
             None \<Rightarrow> Inl ErrEndpointNotFound
           | Some status \<Rightarrow>
               Inr (map (\<lambda>(t, h). (t, int64_of_f64
                      (float_ratio (TotalExecutionsResponseTime h) (TotalExecutions h))))
                    (buckets_found (st_Uptime status) start to)))"

definition DeleteAllEndpointStatusesNotInKeys ::
  "'e endpoint_cache \<Rightarrow> ('e, 's) Store \<Rightarrow> string list \<Rightarrow> nat \<times> ('e, 's) Store" where
  "DeleteAllEndpointStatusesNotInKeys ec s keys =
     (let keysToDelete = filter (\<lambda>k. k \<notin> set keys) (map fst (c_GetAll ec (endpointCache s)))
      in case c_DeleteAll ec (endpointCache s) keysToDelete of
           (c, n) \<Rightarrow> (n, s\<lparr>endpointCache := c\<rparr>))"

definition DeleteAllSuiteStatusesNotInKeys ::
  "'s suite_cache \<Rightarrow> ('e, 's) Store \<Rightarrow> string list \<Rightarrow> nat \<times> ('e, 's) Store" where
  "DeleteAllSuiteStatusesNotInKeys sc s keys =
     (let keysToDelete = filter (\<lambda>k. k \<notin> set keys) (map fst (c_GetAll sc (suiteCache s)))
      in case c_DeleteAll sc (suiteCache s) keysToDelete of
           (c, n) \<Rightarrow> (n, s\<lparr>suiteCache := c\<rparr>))"

definition HasEndpointStatusNewerThan ::
  "'e endpoint_cache \<Rightarrow> ('e, 's) Store \<Rightarrow> string \<Rightarrow> instant \<Rightarrow> bool" where
  "HasEndpointStatusNewerThan ec s k timestamp =
     (case c_Get ec (endpointCache s) k of
        None \<Rightarrow> False
      | Some status \<Rightarrow> list_ex (\<lambda>r. timestamp < r_Timestamp r) (st_Results status))"

definition Clear :: "'e endpoint_cache \<Rightarrow> 's suite_cache \<Rightarrow> ('e, 's) Store \<Rightarrow> ('e, 's) Store" where
  "Clear ec sc s = s\<lparr>endpointCache := c_Empty ec, suiteCache := c_Empty sc\<rparr>"

text \<open>The store has no persistence, so it never knows of a triggered alert.\<close>

definition Memory_GetTriggeredEndpointAlert ::
  "('e, 's) Store \<Rightarrow> Endpoint \<Rightarrow> Alert \<Rightarrow> bool \<times> string \<times> int" where
  "Memory_GetTriggeredEndpointAlert s ep a = (False, [], 0)"

section \<open>Keeping the most recent results\<close>

text \<open>
  What a storage promises of the results of a kind of object: inserting a result for an object that
  is admitted appends it, as far as the storage remembers it, to those of the key of the object, of which the most recent ones are kept,
  and leaves the other keys alone. The storage in memory and the one in a database are both of this
  kind.
\<close>

locale result_store =
  fixes insert_result :: "'s \<Rightarrow> 'o \<Rightarrow> 'r \<Rightarrow> 's"
    and results :: "'s \<Rightarrow> string \<Rightarrow> 'v list"
    and view :: "'r \<Rightarrow> 'v"
    and key_of :: "'o \<Rightarrow> string"
    and bound :: "'s \<Rightarrow> nat"
    and inv :: "'s \<Rightarrow> bool"
    and admitted :: "'o \<Rightarrow> bool"
  assumes results_insert: "inv s \<Longrightarrow> admitted x \<Longrightarrow>
      results (insert_result s x r) (key_of x) = last_n (bound s) (results s (key_of x) @ [view r])"
    and results_insert_other: "inv s \<Longrightarrow> admitted x \<Longrightarrow> k \<noteq> key_of x \<Longrightarrow>
      results (insert_result s x r) k = results s k"
    and bound_insert: "inv s \<Longrightarrow> admitted x \<Longrightarrow> bound (insert_result s x r) = bound s"
    and inv_insert: "inv s \<Longrightarrow> admitted x \<Longrightarrow> inv (insert_result s x r)"
begin

definition insert_all :: "'s \<Rightarrow> ('o \<times> 'r) list \<Rightarrow> 's" where
  "insert_all s xs = foldl (\<lambda>s (x, r). insert_result s x r) s xs"

lemma insert_all_simps [simp]:
  "insert_all s [] = s"
  "insert_all s ((x, r) # xs) = insert_all (insert_result s x r) xs"
  by (simp_all add: insert_all_def)

definition results_for :: "string \<Rightarrow> ('o \<times> 'r) list \<Rightarrow> 'v list" where
  "results_for k xs = map (\<lambda>y. view (snd y)) (filter (\<lambda>(x, r). key_of x = k) xs)"

lemma last_n_last_n_append: "last_n n (last_n n xs @ ys) = last_n n (xs @ ys)"
proof (cases "length xs \<le> n")
  case False
  then have "length (last_n n xs) = n" "length xs = (length xs - n) + n" by simp_all
  then show ?thesis using False by (simp add: last_n_def add.commute)
qed simp

lemma inv_insert_all: "inv s \<Longrightarrow> \<forall>(x, r) \<in> set xs. admitted x \<Longrightarrow> inv (insert_all s xs)"
  by (induction xs arbitrary: s) (auto simp: inv_insert)

lemma results_insert_all:
  "inv s \<Longrightarrow> \<forall>(x, r) \<in> set xs. admitted x \<Longrightarrow> length (results s k) \<le> bound s \<Longrightarrow>
   results (insert_all s xs) k = last_n (bound s) (results s k @ results_for k xs)"
proof (induction xs arbitrary: s)
  case (Cons a xs)
  obtain x r where a: "a = (x, r)" by (cases a)
  let ?s = "insert_result s x r"
  have x: "inv s" "admitted x" using Cons.prems a by auto
  note laws = results_insert [OF x] results_insert_other [OF x] bound_insert [OF x] inv_insert [OF x]
  show ?case
  proof (cases "key_of x = k")
    case True
    then have k: "results ?s k = last_n (bound s) (results s k @ [view r])" using laws(1) by metis
    then have "results (insert_all ?s xs) k = last_n (bound s) (results ?s k @ results_for k xs)"
      using Cons.IH [of ?s] Cons.prems laws by simp
    also have "\<dots> = last_n (bound s) (results s k @ view r # results_for k xs)"
      using last_n_last_n_append [of "bound s" "results s k @ [view r]"] by (simp add: k)
    finally show ?thesis using True a by (simp add: results_for_def)
  next
    case False
    then have "results ?s k = results s k" using laws(2) by metis
    then show ?thesis using Cons False a laws by (simp add: results_for_def)
  qed
qed (simp add: results_for_def)

end

section \<open>The store over any cache\<close>

lemma last_n_if: "(if n < length xs then last_n n xs else xs) = last_n n xs"
  by simp

lemma AddResult_simps [simp]:
  "st_Results (AddResult now ss r m e) = last_n m (st_Results ss @ [r])"
  "st_Key (AddResult now ss r m e) = st_Key ss"
  "st_Name (AddResult now ss r m e) = st_Name ss"
  "st_Group (AddResult now ss r m e) = st_Group ss"
  "st_Uptime (AddResult now ss r m e) = processUptimeAfterResult now (st_Uptime ss) r"
  by (simp_all add: AddResult_def Let_def last_n_if del: last_n_all)

definition stored_results :: "'e endpoint_cache \<Rightarrow> ('e, 's) Store \<Rightarrow> string \<Rightarrow> Result list" where
  "stored_results ec s k =
     (case c_Get ec (endpointCache s) k of None \<Rightarrow> [] | Some status \<Rightarrow> st_Results status)"

definition stored_suite_results :: "'s suite_cache \<Rightarrow> ('e, 's) Store \<Rightarrow> string \<Rightarrow> Suite_Result list" where
  "stored_suite_results sc s k =
     (case c_Get sc (suiteCache s) k of None \<Rightarrow> [] | Some status \<Rightarrow> ss_Results status)"

lemma Insert_limits [simp]:
  "maximumNumberOfResults (InsertEndpointResult ec now s ep r) = maximumNumberOfResults s"
  "maximumNumberOfEvents (InsertEndpointResult ec now s ep r) = maximumNumberOfEvents s"
  "maximumNumberOfResults (InsertSuiteResult sc s su r') = maximumNumberOfResults s"
  by (simp_all add: InsertEndpointResult_def InsertSuiteResult_def Let_def)

locale memory_store = ec: kv_cache ec + sc: kv_cache sc
  for ec :: "'e endpoint_cache" and sc :: "'s suite_cache"
begin

lemma InsertEndpointResult_results:
  "stored_results ec (InsertEndpointResult ec now s ep r) k =
   (if k = Endpoint_Key ep
    then last_n (maximumNumberOfResults s) (stored_results ec s k @ [r]) else stored_results ec s k)"
  by (simp add: stored_results_def InsertEndpointResult_def Let_def ec.Get_Set split: option.splits)

lemma InsertSuiteResult_results:
  "stored_suite_results sc (InsertSuiteResult sc s su r) k =
   (if k = Suite_Key su
    then last_n (maximumNumberOfResults s) (stored_suite_results sc s k @ [r])
    else stored_suite_results sc s k)"
  by (simp add: stored_suite_results_def InsertSuiteResult_def Let_def sc.Get_Set last_n_if
      del: last_n_all split: option.splits)

end

text \<open>An endpoint is inserted with the time of the insertion.\<close>

sublocale memory_store \<subseteq> endpoints: result_store
  "\<lambda>s (ep, now) r. InsertEndpointResult ec now s ep r" "stored_results ec" "\<lambda>r. r"
  "\<lambda>(ep, now). Endpoint_Key ep" maximumNumberOfResults "\<lambda>s. True" "\<lambda>x. True"
  by unfold_locales (auto simp: InsertEndpointResult_results)

sublocale memory_store \<subseteq> suites: result_store
  "InsertSuiteResult sc" "stored_suite_results sc" "\<lambda>r. r" Suite_Key maximumNumberOfResults "\<lambda>s. True" "\<lambda>x. True"
  by unfold_locales (auto simp: InsertSuiteResult_results)

section \<open>A cache\<close>

text \<open>A cache as an association list, which satisfies what the store asks of one.\<close>

definition list_cache :: "((string \<times> 'v) list, 'v) cache_ops" where
  "list_cache =
     \<lparr>c_Get = map_of,
      c_Set = (\<lambda>c k v. AList.update k v c),
      c_GetAll = (\<lambda>c. AList.clearjunk c),
      c_DeleteAll = (\<lambda>c ks. (filter (\<lambda>(k, v). k \<notin> set ks) c,
        length (filter (\<lambda>k. k \<in> set ks) (map fst (AList.clearjunk c))))),
      c_Empty = []\<rparr>"

lemma map_of_filter_key: "map_of (filter (\<lambda>(k, v). P k) c) k = (if P k then map_of c k else None)"
  by (induction c) auto

interpretation list_cache: kv_cache "list_cache :: ((string \<times> 'v) list, 'v) cache_ops"
proof unfold_locales
  fix c :: "(string \<times> 'v) list" and k k' v ks
  show "c_Get list_cache (c_Set list_cache c k v) k' = (if k' = k then Some v else c_Get list_cache c k')"
    by (simp add: list_cache_def map_of_update)
  show "c_Get list_cache (c_Empty list_cache) k = (None :: 'v option)" by (simp add: list_cache_def)
  show "(k, v) \<in> set (c_GetAll list_cache c) \<longleftrightarrow> c_Get list_cache c k = Some v"
    using map_of_eq_Some_iff [OF distinct_clearjunk [of c], of k v]
    by (simp add: list_cache_def map_of_clearjunk)
  show "distinct (map fst (c_GetAll list_cache c))"
    by (simp add: list_cache_def distinct_clearjunk)
  show "c_Get list_cache (fst (c_DeleteAll list_cache c ks)) k =
      (if k \<in> set ks then None else c_Get list_cache c k)"
    using map_of_filter_key [of "\<lambda>k. k \<notin> set ks" c k] by (simp add: list_cache_def)
qed

interpretation mem: memory_store list_cache list_cache
  by unfold_locales

section \<open>Pages\<close>

lemma wrap64_cases:
  assumes "- (2 ^ 64) \<le> x" and "x < 2 ^ 64"
  shows "wrap64 x = (if x < - (2 ^ 63) then x + 2 ^ 64 else if x < 2 ^ 63 then x else x - 2 ^ 64)"
proof -
  consider "x < - (2 ^ 63)" | "- (2 ^ 63) \<le> x" "x < 2 ^ 63" | "2 ^ 63 \<le> x" by linarith
  then show ?thesis
  proof cases
    case 1
    have "(x + 2 ^ 63) mod 2 ^ 64 = (x + 2 ^ 63 + 2 ^ 64) mod 2 ^ 64" by (rule mod_add_self2 [symmetric])
    also have "\<dots> = x + 2 ^ 63 + 2 ^ 64" using assms 1 by (intro mod_pos_pos_trivial) auto
    finally show ?thesis using 1 by (simp add: wrap64_def)
  next
    case 2
    then show ?thesis by (simp add: wrap64_id in_int64_def min_int64_def max_int64_def)
  next
    case 3
    then show ?thesis using assms by (simp add: wrap64_above)
  qed
qed

lemma wrap64_cong: "(x - y) mod 2 ^ 64 = 0 \<Longrightarrow> wrap64 x = wrap64 y"
proof -
  assume "(x - y) mod 2 ^ 64 = 0"
  then have "((x + 2 ^ 63) - (y + 2 ^ 63)) mod 2 ^ 64 = 0" by simp
  then have "(x + 2 ^ 63) mod 2 ^ 64 = (y + 2 ^ 63) mod 2 ^ 64"
    by (metis dvd_imp_mod_0 mod_0_imp_dvd mod_eq_dvd_iff)
  then show ?thesis by (simp add: wrap64_def)
qed

text \<open>The product of a page is that of the page before, plus the size, wrapped again.\<close>

lemma wrap64_add: "wrap64 (wrap64 x + y) = wrap64 (x + y)"
proof (rule wrap64_cong)
  have "(wrap64 x - x) mod 2 ^ 64 = 0"
    using minus_div_mult_eq_mod [of "x + 2 ^ 63" "2 ^ 64"]
    by (simp add: wrap64_def flip: minus_div_mult_eq_mod)
  then show "(wrap64 x + y - (x + y)) mod 2 ^ 64 = 0" by simp
qed

lemma getStartAndEndIndex_valid:
  assumes n: "0 \<le> n" "n \<le> max_int64" and size: "pageSize \<le> max_int64"
    and idx: "getStartAndEndIndex n page pageSize = (i, j)"
  shows "i < 0 \<or> j < 0 \<or> (i \<le> j \<and> j \<le> n)"
proof (cases "page < 1 \<or> pageSize < 0")
  case True
  with idx show ?thesis by (simp add: getStartAndEndIndex_def)
next
  case False
  define a where "a = wrap64 ((page - 1) * pageSize)"
  have prod: "page * pageSize = (page - 1) * pageSize + pageSize" by (simp add: algebra_simps)
  have b: "wrap64 (page * pageSize) = wrap64 (a + pageSize)"
    unfolding a_def wrap64_add prod ..
  have a: "- (2 ^ 63) \<le> a" "a < 2 ^ 63"
    using wrap64_range [of "(page - 1) * pageSize"]
    by (simp_all add: a_def in_int64_def min_int64_def max_int64_def)
  have s: "0 \<le> pageSize" "pageSize < 2 ^ 63" "n < 2 ^ 63"
    using False size n by (simp_all add: max_int64_def)
  have i: "i = (let x = wrap64 (n - wrap64 (a + pageSize)) in if n < x then -1 else if x < 0 then 0 else x)"
    and j: "j = (let x = wrap64 (n - a) in if n < x then n else x)"
    using idx False by (auto simp: getStartAndEndIndex_def Let_def b a_def [symmetric])
  show ?thesis
    using a s n i j wrap64_cases [of "a + pageSize"] wrap64_cases [of "n - a"]
      wrap64_cases [of "n - wrap64 (a + pageSize)"]
    by (auto simp: Let_def split: if_splits)
qed

lemma page_of_Return:
  assumes "int (length xs) \<le> max_int64" and "pageSize \<le> max_int64"
  shows "\<exists>ys. page_of xs page pageSize = Return ys"
proof -
  obtain i j where idx: "getStartAndEndIndex (int (length xs)) page pageSize = (i, j)" by fastforce
  from getStartAndEndIndex_valid [OF _ assms idx] show ?thesis
    by (auto simp: page_of_def idx slice_def)
qed

text \<open>A page that does not overflow is the p-th block from the end.\<close>

definition block :: "'a list \<Rightarrow> nat \<Rightarrow> nat \<Rightarrow> 'a list" where
  "block xs p w = drop (length xs - p * w) (take (length xs - (p - 1) * w) xs)"

lemma page_of_block:
  assumes "1 \<le> p" and "int (p * w) \<le> max_int64" and "int (length xs) \<le> max_int64"
  shows "page_of xs (int p) (int w) = Return (block xs p w)"
proof -
  define n where "n = int (length xs)"
  define P where "P = int (p * w)"
  define Q where "Q = int ((p - 1) * w)"
  obtain q where q: "p = Suc q" using assms(1) by (cases p) auto
  have e: "int p * int w = P" "(int p - 1) * int w = Q"
    by (simp_all add: P_def Q_def q distrib_right)
  have bounds: "0 \<le> Q" "Q \<le> P" "P \<le> max_int64" "0 \<le> n" "n \<le> max_int64"
    using assms by (simp_all add: P_def Q_def q n_def)
  then have range: "in_int64 P" "in_int64 Q" "in_int64 (n - P)" "in_int64 (n - Q)"
    unfolding in_int64_def min_int64_def max_int64_def by linarith+
  have "\<not> (int p < 1 \<or> int w < 0)" using assms(1) by simp
  then have idx: "getStartAndEndIndex n (int p) (int w) = (if n < P then 0 else n - P, n - Q)"
    using bounds unfolding getStartAndEndIndex_def e range [THEN wrap64_id] Let_def by auto
  have "nat (int a - int b) = a - b" for a b by linarith
  then have nats: "nat (n - Q) = length xs - (p - 1) * w"
    "nat (if n < P then 0 else n - P) = length xs - p * w"
    by (auto simp only: n_def P_def Q_def split: if_splits)
  show ?thesis
  proof (cases "n < Q")
    case True
    then have "length xs \<le> (p - 1) * w" by (simp add: n_def Q_def flip: of_nat_mult)
    with True idx show ?thesis by (simp add: page_of_def block_def flip: n_def)
  next
    case False
    with bounds have "page_of xs (int p) (int w) =
        Return (drop (nat (if n < P then 0 else n - P)) (take (nat (n - Q)) xs))"
      by (simp add: page_of_def idx slice_def flip: n_def)
    then show ?thesis by (simp only: nats block_def)
  qed
qed

lemma concat_blocks: "concat (map (\<lambda>p. block xs p w) (rev [1..<Suc n])) = drop (length xs - n * w) xs"
proof (induction n)
  case (Suc n)
  have "drop (length xs - Suc n * w) xs =
      drop (length xs - Suc n * w) (take (length xs - n * w) xs) @ drop (length xs - n * w) xs"
  proof -
    have "length xs - Suc n * w \<le> length xs - n * w" by simp
    then show ?thesis
      using append_take_drop_id [of "length xs - n * w" xs] drop_append
      by (metis diff_is_0_eq drop0 length_take min.absorb2 diff_le_self)
  qed
  then show ?case using Suc by (simp add: block_def)
qed simp

section \<open>Events\<close>

definition event_of :: "bool \<Rightarrow> EventType" where
  "event_of success = (if success then EventHealthy else EventUnhealthy)"

definition events_ok :: "Status \<Rightarrow> bool" where
  "events_ok ss \<longleftrightarrow>
     st_Results ss \<noteq> [] \<and> st_Events ss \<noteq> [] \<and>
     successively (\<lambda>a b. ev_Type a \<noteq> ev_Type b) (st_Events ss) \<and>
     ev_Type (last (st_Events ss)) = event_of (r_Success (last (st_Results ss)))"

lemma NewEventFromResult_Type [simp]: "ev_Type (NewEventFromResult r) = event_of (r_Success r)"
  by (simp add: NewEventFromResult_def event_of_def)

lemma event_of_inject [simp]: "event_of a = event_of b \<longleftrightarrow> a = b"
  by (simp add: event_of_def)

lemma successively_last_n: "successively P xs \<Longrightarrow> successively P (last_n n xs)"
proof -
  assume "successively P xs"
  then have "successively P (take (length xs - n) xs @ drop (length xs - n) xs)" by simp
  then show ?thesis unfolding last_n_def successively_append_iff by blast
qed

lemma successively_snoc:
  "xs \<noteq> [] \<Longrightarrow> successively P (xs @ [x]) \<longleftrightarrow> successively P xs \<and> P (last xs) x"
  by (simp add: successively_append_iff)

lemma AddResult_events:
  assumes "0 < m" and "0 < e" and "events_ok ss"
  shows "events_ok (AddResult now ss r m e) \<and>
    length (st_Events (AddResult now ss r m e)) \<le> max (length (st_Events ss)) e"
proof (cases "r_Success (last (st_Results ss)) = r_Success r")
  case True
  then show ?thesis using assms by (auto simp: events_ok_def AddResult_def Let_def)
next
  case False
  let ?evs = "st_Events ss @ [NewEventFromResult r]"
  have evs: "st_Events (AddResult now ss r m e) = last_n e ?evs"
    using False assms(3) by (simp add: AddResult_def Let_def events_ok_def last_n_if del: last_n_all)
  have "successively (\<lambda>a b. ev_Type a \<noteq> ev_Type b) ?evs"
    using assms(3) False by (simp add: successively_snoc events_ok_def)
  then have "successively (\<lambda>a b. ev_Type a \<noteq> ev_Type b) (last_n e ?evs)" by (rule successively_last_n)
  then show ?thesis using assms unfolding events_ok_def evs by auto
qed

lemma AddResult_first:
  "st_Results ss = [] \<Longrightarrow> 0 < m \<Longrightarrow> st_Events ss = [\<lparr>ev_Type = EventStart, ev_Timestamp = t\<rparr>] \<Longrightarrow>
   events_ok (AddResult now ss r m e) \<and> length (st_Events (AddResult now ss r m e)) = 2"
  by (simp add: events_ok_def AddResult_def Let_def event_of_def)

end
