(* ===== verification/Memory_Properties.thy ===== *)
theory Memory_Properties
  imports Memory_Store
begin

text \<open>
  The properties of the memory storage: the results, pages and events a reader gets, the clean-up
  of keys, and the uptime. The counters of the hours never wrap as long as fewer than 2 to the 64
  results are inserted, which is what makes the uptime a ratio between 0 and 1.
\<close>

section \<open>Counting\<close>

definition total_executions :: "Uptime \<Rightarrow> int" where
  "total_executions u = sum_list (map (\<lambda>(k, h). TotalExecutions h) (HourlyStatistics u))"

definition hour_ok :: "HourlyUptimeStatistics \<Rightarrow> bool" where
  "hour_ok h \<longleftrightarrow> 0 \<le> SuccessfulExecutions h \<and> SuccessfulExecutions h \<le> TotalExecutions h"

definition uptime_ok :: "int \<Rightarrow> Uptime \<Rightarrow> bool" where
  "uptime_ok n u \<longleftrightarrow>
     distinct (map fst (HourlyStatistics u)) \<and> (\<forall>(k, h) \<in> set (HourlyStatistics u). hour_ok h) \<and>
     total_executions u \<le> n"

lemma sum_update:
  "distinct (map fst xs) \<Longrightarrow>
   sum_list (map (\<lambda>(k, h). f h :: int) (AList.update k v xs)) =
   sum_list (map (\<lambda>(k, h). f h) xs) + f v - (case map_of xs k of None \<Rightarrow> 0 | Some h \<Rightarrow> f h)"
proof (induction xs)
  case (Cons x xs)
  then show ?case
    by (cases x) (auto simp: map_of_eq_None_iff [symmetric] split: option.splits)
qed simp

lemma hour_ok_bound: "uptime_ok n u \<Longrightarrow> (k, h) \<in> set (HourlyStatistics u) \<Longrightarrow> TotalExecutions h \<le> n"
proof -
  assume u: "uptime_ok n u" and m: "(k, h) \<in> set (HourlyStatistics u)"
  have "\<forall>x \<in> set (map (\<lambda>(k, h). TotalExecutions h) (HourlyStatistics u)). 0 \<le> x"
    using u by (fastforce simp: uptime_ok_def hour_ok_def)
  then have "TotalExecutions h \<le> total_executions u"
    unfolding total_executions_def using m
    by (intro member_le_sum_list) (auto simp: image_iff intro!: bexI [of _ "(k, h)"])
  with u show ?thesis by (simp add: uptime_ok_def)
qed

lemma sum_list_filter_le: "\<forall>x \<in> set xs. 0 \<le> f x \<Longrightarrow> sum_list (map f (filter P xs)) \<le> (sum_list (map f xs) :: int)"
  by (induction xs) auto

lemma uptime_ok_filter:
  assumes "uptime_ok n u"
  shows "uptime_ok n (u\<lparr>HourlyStatistics := filter P (HourlyStatistics u)\<rparr>)"
proof -
  have "sum_list (map (\<lambda>(k, h). TotalExecutions h) (filter P (HourlyStatistics u))) \<le> total_executions u"
    unfolding total_executions_def using assms
    by (intro sum_list_filter_le) (auto simp: uptime_ok_def hour_ok_def)
  then show ?thesis using assms by (auto simp: uptime_ok_def total_executions_def distinct_map_filter)
qed


lemma total_executions_update:
  "distinct (map fst (HourlyStatistics u)) \<Longrightarrow>
   total_executions (u\<lparr>HourlyStatistics := AList.update k h (HourlyStatistics u)\<rparr>) =
   total_executions u + TotalExecutions h -
   (case map_of (HourlyStatistics u) k of None \<Rightarrow> 0 | Some h' \<Rightarrow> TotalExecutions h')"
  by (simp add: total_executions_def sum_update)

lemma set_update_subset: "set (AList.update k v xs) \<subseteq> insert (k, v) (set xs)"
  by (induction xs) auto

lemma count_result_exact:
  "hour_ok h \<Longrightarrow> TotalExecutions h + 1 < 2 ^ 64 \<Longrightarrow>
   TotalExecutions (count_result r h) = TotalExecutions h + 1 \<and> hour_ok (count_result r h)"
  by (auto simp: hour_ok_def count_result_def uwrap64_def)

lemma processUptime_ok:
  assumes u: "uptime_ok n u" and n: "n + 1 < 2 ^ 64" "0 \<le> n"
  shows "uptime_ok (n + 1) (processUptimeAfterResult now u r)"
proof -
  define k where "k = hour_bucket (r_Timestamp r)"
  define h where "h = (case map_of (HourlyStatistics u) k of None \<Rightarrow> empty_hour | Some h \<Rightarrow> h)"
  define u' where "u' = u\<lparr>HourlyStatistics := AList.update k (count_result r h) (HourlyStatistics u)\<rparr>"
  have d: "distinct (map fst (HourlyStatistics u))" using u by (simp add: uptime_ok_def)
  have h_ok: "hour_ok h \<and> TotalExecutions h \<le> n"
  proof (cases "map_of (HourlyStatistics u) k")
    case None
    then show ?thesis using n by (simp add: h_def hour_ok_def empty_hour_def)
  next
    case (Some h')
    then have "(k, h') \<in> set (HourlyStatistics u)" by (rule map_of_SomeD)
    with u Some hour_ok_bound [OF u this] show ?thesis by (auto simp: h_def uptime_ok_def)
  qed
  with n have c: "TotalExecutions (count_result r h) = TotalExecutions h + 1" "hour_ok (count_result r h)"
    using count_result_exact [of h r] by auto
  have "total_executions u' = total_executions u + 1"
    unfolding u'_def total_executions_update [OF d] c
    by (auto simp: h_def empty_hour_def split: option.splits)
  moreover have "\<forall>(k, h) \<in> set (HourlyStatistics u'). hour_ok h"
    using u c set_update_subset [of k "count_result r h" "HourlyStatistics u"]
    by (auto simp: u'_def uptime_ok_def)
  ultimately have "uptime_ok (n + 1) u'"
    using u by (auto simp: uptime_ok_def u'_def distinct_update)
  then show ?thesis
    using uptime_ok_filter [of "n + 1" u'] unfolding processUptimeAfterResult_def Let_def
    by (simp add: u'_def flip: k_def h_def)
qed

section \<open>The store after a sequence of insertions\<close>

text \<open>An insertion of a result of an endpoint, at a time.\<close>

type_synonym insertion = "(Endpoint \<times> instant) \<times> Result"

abbreviation insert_results :: "('e, 's) Store \<Rightarrow> 'e endpoint_cache \<Rightarrow> insertion list \<Rightarrow> ('e, 's) Store" where
  "insert_results s ec xs \<equiv> foldl (\<lambda>s ((ep, now), r). InsertEndpointResult ec now s ep r) s xs"

abbreviation new_store :: "nat \<Rightarrow> nat \<Rightarrow> ((string \<times> Status) list, (string \<times> Suite_Status) list) Store" where
  "new_store m e \<equiv> NewStore list_cache list_cache m e"

lemma stored_results_new: "stored_results list_cache (new_store m e) k = []"
  by (simp add: stored_results_def NewStore_def list_cache.Get_Empty)

abbreviation first_status :: "Endpoint \<Rightarrow> instant \<Rightarrow> Status" where
  "first_status ep now \<equiv> (NewStatus (e_Group ep) (e_Name ep))
     \<lparr>st_Key := Endpoint_Key ep, st_Events := [\<lparr>ev_Type = EventStart, ev_Timestamp = now\<rparr>]\<rparr>"

lemma insert_results_limits [simp]:
  "maximumNumberOfResults (insert_results s ec xs) = maximumNumberOfResults s"
  "maximumNumberOfEvents (insert_results s ec xs) = maximumNumberOfEvents s"
  by (induction xs arbitrary: s) auto

lemma NewStore_limits [simp]:
  "maximumNumberOfResults (NewStore ec sc m e) = m" "maximumNumberOfEvents (NewStore ec sc m e) = e"
  by (simp_all add: NewStore_def)

text \<open>
  What holds of every status of the store after n insertions, when it holds of a first result and
  every further result keeps it.
\<close>

context memory_store
begin

lemma insert_results_statuses:
  assumes "\<And>n ss now r. n < length xs \<Longrightarrow> P n ss \<Longrightarrow> P (Suc n) ss \<and> P (Suc n) (AddResult now ss r m e)"
    and "\<And>n ep now r. n < length xs \<Longrightarrow> P (Suc n) (AddResult now (first_status ep now) r m e)"
    and "c_Get ec (endpointCache (insert_results (NewStore ec sc m e) ec xs)) k = Some ss"
  shows "P (length xs) ss"
  using assms
proof (induction xs arbitrary: k ss rule: rev_induct)
  case Nil
  then show ?case by (simp add: NewStore_def ec.Get_Empty)
next
  case (snoc x xs)
  obtain ep now r where x: "x = ((ep, now), r)" by (metis prod.exhaust)
  let ?s = "insert_results (NewStore ec sc m e) ec xs"
  have IH: "P (length xs) ss" if "c_Get ec (endpointCache ?s) k = Some ss" for k ss
    using snoc.IH [OF _ _ that] snoc.prems(1,2) by simp
  have "c_Get ec (endpointCache (InsertEndpointResult ec now ?s ep r)) k = Some ss"
    using snoc.prems(3) x by simp
  then have "c_Get ec (endpointCache ?s) k = Some ss \<or>
      ss = AddResult now (case c_Get ec (endpointCache ?s) (Endpoint_Key ep) of
        None \<Rightarrow> first_status ep now | Some status \<Rightarrow> status) r m e"
    by (auto simp: InsertEndpointResult_def [of _ _ ?s] Let_def ec.Get_Set split: if_splits)
  then show ?case
    using IH snoc.prems(1,2) [of "length xs"] by (auto split: option.splits)
qed

end

text \<open>The hours of a range are pairwise different.\<close>

lemma hour_bucket_shift: "hour_bucket (t + hour) = hour_bucket t + 3600"
proof -
  have "t + hour - (t + hour) mod hour = (t - t mod hour) + 3600 * second"
    by (simp add: duration_units)
  then show ?thesis unfolding hour_bucket_def Truncate_time_hour Unix_def by (simp add: second_def)
qed

lemma hour_buckets_above: "k \<in> set (hour_buckets t u) \<Longrightarrow> hour_bucket t \<le> k"
proof (induction t u rule: hour_buckets.induct)
  case (1 t u)
  from "1.prems" show ?case
    by (subst (asm) hour_buckets.simps) (auto simp: hour_bucket_shift dest!: "1.IH" split: if_splits)
qed

lemma distinct_hour_buckets: "distinct (hour_buckets t u)"
proof (induction t u rule: hour_buckets.induct)
  case (1 t u)
  show ?case
    using "1.IH" hour_buckets_above [of "hour_bucket t" "t + hour" u]
    by (subst hour_buckets.simps) (auto simp: hour_bucket_shift)
qed

section \<open>Sums over the hours of a range\<close>

lemma sum_uint64_exact:
  assumes "\<forall>x \<in> set xs. 0 \<le> x" and "sum_list xs < 2 ^ 64"
  shows "sum_uint64 xs = sum_list xs"
proof -
  have *: "uwrap64 (foldl (\<lambda>a x. uwrap64 (a + x)) a xs) = uwrap64 (a + sum_list xs)" for a
    by (induction xs arbitrary: a) (simp_all add: uwrap64_def mod_simps add.assoc)
  have r: "uwrap64 (foldl (\<lambda>a x. uwrap64 (a + x)) 0 xs) = foldl (\<lambda>a x. uwrap64 (a + x)) 0 xs"
    by (cases xs rule: rev_cases) (simp_all add: uwrap64_def)
  have "0 \<le> sum_list xs" using assms(1) by (simp add: sum_list_nonneg)
  then show ?thesis using * [of 0] r assms(2) by (simp add: sum_uint64_def uwrap64_def)
qed

lemma buckets_found_sum:
  fixes f :: "HourlyUptimeStatistics \<Rightarrow> int"
  shows "sum_list (map f (map snd (buckets_found u t t'))) =
   sum_list (map (\<lambda>k. case map_of (HourlyStatistics u) k of
       None \<Rightarrow> 0 | Some h \<Rightarrow> if TotalExecutions h = 0 then 0 else f h) (hour_buckets t t'))"
proof -
  have "sum_list (map f (map snd (concat (map (\<lambda>k. case map_of st k of
         None \<Rightarrow> [] | Some h \<Rightarrow> if TotalExecutions h = 0 then [] else [(k, h)]) ks)))) =
     sum_list (map (\<lambda>k. case map_of st k of
       None \<Rightarrow> 0 | Some h \<Rightarrow> if TotalExecutions h = 0 then 0 else f h) ks)" for st ks
    by (induction ks) (auto split: option.splits)
  then show ?thesis by (simp only: buckets_found_def)
qed

section \<open>The uptime of a key\<close>

definition stored_uptime :: "'e endpoint_cache \<Rightarrow> ('e, 's) Store \<Rightarrow> string \<Rightarrow> Uptime" where
  "stored_uptime ec s k =
     (case c_Get ec (endpointCache s) k of None \<Rightarrow> NewUptime | Some status \<Rightarrow> st_Uptime status)"

definition inserted_for :: "string \<Rightarrow> insertion list \<Rightarrow> (instant \<times> Result) list" where
  "inserted_for k xs = map (\<lambda>((ep, now), r). (now, r)) (filter (\<lambda>((ep, now), r). Endpoint_Key ep = k) xs)"

abbreviation process_all :: "Uptime \<Rightarrow> (instant \<times> Result) list \<Rightarrow> Uptime" where
  "process_all u xs \<equiv> foldl (\<lambda>u (now, r). processUptimeAfterResult now u r) u xs"

context memory_store
begin

lemma InsertEndpointResult_uptime:
  "stored_uptime ec (InsertEndpointResult ec now s ep r) k =
   (if k = Endpoint_Key ep then processUptimeAfterResult now (stored_uptime ec s k) r
    else stored_uptime ec s k)"
  by (simp add: stored_uptime_def InsertEndpointResult_def Let_def ec.Get_Set NewStatus_def
      split: option.splits)

lemma insert_results_uptime:
  "stored_uptime ec (insert_results s ec xs) k = process_all (stored_uptime ec s k) (inserted_for k xs)"
proof (induction xs rule: rev_induct)
  case (snoc x xs)
  obtain ep now r where x: "x = ((ep, now), r)" by (metis prod.exhaust)
  show ?case using snoc by (auto simp: x InsertEndpointResult_uptime inserted_for_def)
qed (simp add: inserted_for_def)

lemma insert_results_known:
  "c_Get ec (endpointCache (insert_results (NewStore ec sc m e) ec xs)) k = None \<longleftrightarrow>
   map snd (inserted_for k xs) = []"
proof (induction xs rule: rev_induct)
  case (snoc x xs)
  obtain ep now r where x: "x = ((ep, now), r)" by (metis prod.exhaust)
  show ?case using snoc
    by (simp add: x inserted_for_def ec.Get_Set InsertEndpointResult_def
        [of _ _ "insert_results (NewStore ec sc m e) ec xs"] Let_def)
qed (simp add: inserted_for_def NewStore_def ec.Get_Empty)

lemma stored_uptime_new: "stored_uptime ec (NewStore ec sc m e) k = NewUptime"
  by (simp add: stored_uptime_def NewStore_def ec.Get_Empty)

end


abbreviation num :: "('a \<Rightarrow> bool) \<Rightarrow> 'a list \<Rightarrow> int" where
  "num P xs \<equiv> int (length (filter P xs))"






lemma num_mono: "(\<And>x. P x \<Longrightarrow> Q x) \<Longrightarrow> num P xs \<le> num Q xs"
  by (induction xs) auto



lemma insert_results_stored:
  "stored_results list_cache (insert_results (new_store m e) list_cache xs) k =
     last_n m (map snd (filter (\<lambda>((ep, now), r). Endpoint_Key ep = k) xs))"
proof -
  have f: "(\<lambda>(x, r). (case x of (ep, now) \<Rightarrow> Endpoint_Key ep) = k) =
      (\<lambda>((ep, now), r). Endpoint_Key ep = k)" by (auto simp: fun_eq_iff)
  show ?thesis
    using mem.endpoints.results_insert_all [of xs "new_store m e" k]
    unfolding mem.endpoints.insert_all_def mem.endpoints.results_for_def stored_results_new f
      NewStore_limits by simp
qed

section \<open>Properties\<close>

text \<open>
  C5. After any sequence of insertions into a new store, what is stored for a key is the most
  recent results inserted for it, in order, at most as many as the store keeps; the results of other
  keys do not disturb it. So it is for suites.
\<close>

theorem recent_results_kept:
  "stored_results list_cache (insert_results (new_store m e) list_cache xs) k =
     last_n m (map snd (filter (\<lambda>((ep, now), r). Endpoint_Key ep = k) xs)) \<and>
   stored_suite_results list_cache
       (foldl (\<lambda>s (su, r). InsertSuiteResult list_cache s su r) (new_store m e) ys) k =
     last_n m (map snd (filter (\<lambda>(su, r). Suite_Key su = k) ys))"
proof (rule conjI)
  show "stored_results list_cache (insert_results (new_store m e) list_cache xs) k =
      last_n m (map snd (filter (\<lambda>((ep, now), r). Endpoint_Key ep = k) xs))"
    by (rule insert_results_stored)
  show "stored_suite_results list_cache
       (foldl (\<lambda>s (su, r). InsertSuiteResult list_cache s su r) (new_store m e) ys) k =
     last_n m (map snd (filter (\<lambda>(su, r). Suite_Key su = k) ys))"
    using mem.suites.results_insert_all [of ys "new_store m e" k]
    by (simp add: mem.suites.insert_all_def mem.suites.results_for_def stored_suite_results_def
        NewStore_def list_cache.Get_Empty)
qed

text \<open>
  C34. Reading never panics, whatever page is asked for; the pages of a size are the blocks of
  that many results counted from the most recent one, and the pages that cover the results,
  the oldest first, put together are exactly the results.
\<close>

theorem pages_partition_results:
  assumes "int (length (ss_Results ss)) \<le> max_int64" and "PageSize params \<le> max_int64"
    and "int (n * w) \<le> max_int64" and "length (ss_Results ss) \<le> n * w"
  shows "(\<exists>ss'. ShallowCopySuiteStatus ss (Some params) = Return ss') \<and>
    (\<exists>pages. (\<forall>p \<in> {1..n}. ShallowCopySuiteStatus ss (Some \<lparr>Page = int p, PageSize = int w\<rparr>) =
        Return (ss\<lparr>ss_Results := pages p\<rparr>)) \<and>
      concat (map pages (rev [1..<Suc n])) = ss_Results ss)"
proof
  show "\<exists>ss'. ShallowCopySuiteStatus ss (Some params) = Return ss'"
    using page_of_Return [OF assms(1,2), of "Page params"]
    by (auto simp: ShallowCopySuiteStatus_def)
  have "ShallowCopySuiteStatus ss (Some \<lparr>Page = int p, PageSize = int w\<rparr>) =
      Return (ss\<lparr>ss_Results := block (ss_Results ss) p w\<rparr>)" if "p \<in> {1..n}" for p
  proof -
    have "p * w \<le> n * w" using that by simp
    then have "int (p * w) \<le> max_int64" using assms(3) of_nat_mono [of "p * w" "n * w"] by (meson order_trans)
    then have "page_of (ss_Results ss) (int p) (int w) = Return (block (ss_Results ss) p w)"
      using that page_of_block [OF _ _ assms(1), of p w] by auto
    then show ?thesis using that by (simp add: ShallowCopySuiteStatus_def)
  qed
  moreover have "concat (map (\<lambda>p. block (ss_Results ss) p w) (rev [1..<Suc n])) = ss_Results ss"
    using assms(4) by (simp only: concat_blocks) simp
  ultimately show "\<exists>pages. (\<forall>p \<in> {1..n}. ShallowCopySuiteStatus ss (Some \<lparr>Page = int p, PageSize = int w\<rparr>) =
        Return (ss\<lparr>ss_Results := pages p\<rparr>)) \<and>
      concat (map pages (rev [1..<Suc n])) = ss_Results ss"
    by (intro exI [of _ "\<lambda>p. block (ss_Results ss) p w"] conjI ballI)
qed

definition example_suite_status :: Suite_Status where
  "example_suite_status = \<lparr>ss_Name = ''s'', ss_Group = ''g'', ss_Key = ''g_s'', ss_Results =
     map (\<lambda>d. \<lparr>sr_Name = ''s'', sr_Group = ''g'', sr_Success = True, sr_Timestamp = 0, sr_Duration = d,
       sr_EndpointResults = [], sr_Context = [], sr_Errors = []\<rparr>) [1, 2, 3]\<rparr>"

theorem pages_partition_results_witness:
  "\<exists>pages. ShallowCopySuiteStatus example_suite_status (Some \<lparr>Page = 2, PageSize = 2\<rparr>) =
      Return (example_suite_status\<lparr>ss_Results := pages (2::nat)\<rparr>) \<and>
    pages 2 @ pages 1 = ss_Results example_suite_status"
proof -
  have l: "length (ss_Results example_suite_status) = 3" by (simp add: example_suite_status_def)
  obtain pages :: "nat \<Rightarrow> Suite_Result list" where
    "\<forall>p \<in> {1..2}. ShallowCopySuiteStatus example_suite_status (Some \<lparr>Page = int p, PageSize = int 2\<rparr>) =
      Return (example_suite_status\<lparr>ss_Results := pages p\<rparr>)"
    and "concat (map pages (rev [1..<Suc 2])) = ss_Results example_suite_status"
    using pages_partition_results [of example_suite_status NewSuiteStatusParams 2 2] l
    by (auto simp: NewSuiteStatusParams_def max_int64_def)
  then have "ShallowCopySuiteStatus example_suite_status (Some \<lparr>Page = 2, PageSize = 2\<rparr>) =
      Return (example_suite_status\<lparr>ss_Results := pages 2\<rparr>) \<and>
    pages 2 @ pages 1 = ss_Results example_suite_status"
    by (auto simp: numeral_2_eq_2 dest: bspec [of _ _ 2])
  then show ?thesis by blast
qed

text \<open>
  C33. In a store that keeps results and events, every status has events of which no two
  neighbours are of the same kind, the last one tells whether the last result is a success, and
  there are at most as many as the store keeps (or the two of the first insertion).
\<close>

theorem stored_events_alternate:
  assumes "0 < m" and "0 < e"
    and "c_Get list_cache (endpointCache (insert_results (new_store m e) list_cache xs)) k = Some ss"
  shows "successively (\<lambda>a b. ev_Type a \<noteq> ev_Type b) (st_Events ss) \<and>
    ev_Type (last (st_Events ss)) =
      (if r_Success (last (st_Results ss)) then EventHealthy else EventUnhealthy) \<and>
    length (st_Events ss) \<le> max 2 e"
proof -
  have "events_ok ss \<and> length (st_Events ss) \<le> max 2 e"
  proof (rule mem.insert_results_statuses
      [where P = "\<lambda>n ss. events_ok ss \<and> length (st_Events ss) \<le> max 2 e", OF _ _ assms(3)])
    show "(events_ok ss \<and> length (st_Events ss) \<le> max 2 e) \<and>
        events_ok (AddResult now ss r m e) \<and> length (st_Events (AddResult now ss r m e)) \<le> max 2 e"
      if "events_ok ss \<and> length (st_Events ss) \<le> max 2 e" for ss now r
      using AddResult_events [OF assms(1,2), of ss now r] that by auto
    show "events_ok (AddResult now (first_status ep now) r m e) \<and>
        length (st_Events (AddResult now (first_status ep now) r m e)) \<le> max 2 e" for ep now r
      using AddResult_first [of "first_status ep now" m now now r e] assms(1) by (simp add: NewStatus_def)
  qed
  then show ?thesis by (simp add: events_ok_def event_of_def)
qed

definition example_insertions :: "insertion list" where
  "example_insertions =
     [((example_endpoint, 1000), empty_Result\<lparr>r_Success := True, r_Timestamp := 1000\<rparr>),
      ((example_endpoint, 2000), empty_Result\<lparr>r_Success := False, r_Timestamp := 2000\<rparr>),
      ((example_endpoint, 3000), empty_Result\<lparr>r_Success := False, r_Timestamp := 3000\<rparr>)]"

lemma example_insertions_stored:
  "\<exists>ss. c_Get list_cache (endpointCache (insert_results (new_store 2 2) list_cache example_insertions))
     (Endpoint_Key example_endpoint) = Some ss"
proof -
  have "map snd (inserted_for (Endpoint_Key example_endpoint) example_insertions) \<noteq> []"
    by (simp add: inserted_for_def example_insertions_def)
  then show ?thesis using mem.insert_results_known by blast
qed

theorem stored_events_alternate_witness:
  "\<exists>ss. c_Get list_cache (endpointCache (insert_results (new_store 2 2) list_cache example_insertions))
       (Endpoint_Key example_endpoint) = Some ss \<and>
     successively (\<lambda>a b. ev_Type a \<noteq> ev_Type b) (st_Events ss) \<and> length (st_Events ss) \<le> 2"
  using example_insertions_stored
    stored_events_alternate [of 2 2 example_insertions "Endpoint_Key example_endpoint"] by auto

text \<open>
  C39. After the clean-up, the status of every listed key is what it was and no other key has one.
  The clean-up reports how many keys lost theirs.
\<close>

theorem cleanup_keeps_listed_keys:
  "(case DeleteAllEndpointStatusesNotInKeys list_cache s keys of
      (n, s') \<Rightarrow> (\<forall>k params. GetEndpointStatusByKey list_cache s' k params =
          (if k \<in> set keys then GetEndpointStatusByKey list_cache s k params
           else Return (Inl ErrEndpointNotFound))) \<and>
        n = card {k. k \<notin> set keys \<and> c_Get list_cache (endpointCache s) k \<noteq> None})"
proof -
  let ?c = "endpointCache s"
  let ?del = "filter (\<lambda>k. k \<notin> set keys) (map fst (c_GetAll list_cache ?c))"
  have mem: "k \<in> fst ` set (c_GetAll list_cache ?c) \<longleftrightarrow> c_Get list_cache ?c k \<noteq> None" for k
    using list_cache.GetAll [of k _ ?c] by force
  have get: "c_Get list_cache (fst (c_DeleteAll list_cache ?c ?del)) k =
      (if k \<in> set keys then c_Get list_cache ?c k else None)" for k
    using mem [of k] by (auto simp: list_cache.Get_DeleteAll)
  let ?ks = "map fst (AList.clearjunk ?c)"
  have "snd (c_DeleteAll list_cache ?c ?del) = length (filter (\<lambda>k. k \<notin> set keys) ?ks)"
    unfolding list_cache_def by (auto intro!: arg_cong [of _ _ length] filter_cong) force
  also have "\<dots> = card {k. k \<notin> set keys \<and> c_Get list_cache ?c k \<noteq> None}"
    using mem distinct_card [of "filter (\<lambda>k. k \<notin> set keys) ?ks"]
    by (simp add: list_cache_def distinct_clearjunk conj_commute)
  finally show ?thesis using get
    by (auto simp: DeleteAllEndpointStatusesNotInKeys_def Let_def GetEndpointStatusByKey_def case_prod_beta)
qed



lemma sum_lookups_le:
  fixes f :: "'v \<Rightarrow> int"
  shows "distinct ks \<Longrightarrow> distinct (map fst st) \<Longrightarrow> \<forall>(k, h) \<in> set st. 0 \<le> f h \<Longrightarrow>
    sum_list (map (\<lambda>k. case map_of st k of None \<Rightarrow> 0 | Some h \<Rightarrow> f h) ks) \<le>
    sum_list (map (\<lambda>(k, h). f h) st)"
proof (induction st arbitrary: ks)
  case (Cons x st)
  obtain k h where x: "x = (k, h)" by (cases x)
  let ?g = "\<lambda>k. case map_of st k of None \<Rightarrow> 0 | Some h \<Rightarrow> f h"
  let ?g' = "\<lambda>k'. case map_of (x # st) k' of None \<Rightarrow> 0 | Some h \<Rightarrow> f h"
  have same: "map ?g' ks' = map ?g ks'" if "k \<notin> set ks'" for ks'
    using that by (auto simp: x)
  have h: "0 \<le> f h" using Cons.prems(3) by (simp add: x)
  show ?case
  proof (cases "k \<in> set ks")
    case True
    have "sum_list (map ?g' ks) = ?g' k + sum_list (map ?g' (remove1 k ks))"
      using True by (rule sum_list_map_remove1)
    also have "\<dots> = f h + sum_list (map ?g (remove1 k ks))"
      by (subst same) (use Cons.prems(1) in \<open>simp_all add: x\<close>)
    also have "\<dots> \<le> f h + sum_list (map (\<lambda>(k, h). f h) st)"
      using Cons.IH [of "remove1 k ks"] Cons.prems by (simp add: x)
    finally show ?thesis by (simp add: x)
  next
    case False
    then have "sum_list (map ?g' ks) = sum_list (map ?g ks)" by (subst same) simp_all
    also have "\<dots> \<le> sum_list (map (\<lambda>(k, h). f h) st)" using Cons.IH [of ks] Cons.prems by simp
    finally show ?thesis using h by (simp add: x)
  qed
qed (induction ks, auto)

lemma sum_list_le: "(\<And>x. x \<in> set xs \<Longrightarrow> f x \<le> g x) \<Longrightarrow> sum_list (map f xs) \<le> (sum_list (map g xs) :: int)"
  by (induction xs) (auto intro: add_mono)

lemma uptime_ok_sums:
  assumes u: "uptime_ok n u" and n: "n < 2 ^ 64"
  shows "\<exists>a b. sum_uint64 (map SuccessfulExecutions (map snd (buckets_found u t t'))) = a \<and>
    sum_uint64 (map TotalExecutions (map snd (buckets_found u t t'))) = b \<and> 0 \<le> a \<and> a \<le> b \<and> b \<le> n"
proof -
  let ?hs = "map snd (buckets_found u t t')"
  have ok: "hour_ok h" if "h \<in> set ?hs" for h
    using that u by (auto simp: buckets_found_def uptime_ok_def split: option.splits if_splits dest: map_of_SomeD)
  have "sum_list (map TotalExecutions ?hs) = sum_list (map (\<lambda>k. case map_of (HourlyStatistics u) k of
      None \<Rightarrow> 0 | Some h \<Rightarrow> TotalExecutions h) (hour_buckets t t'))"
    unfolding buckets_found_sum by (auto intro!: arg_cong [of _ _ sum_list] split: option.splits)
  also have "\<dots> \<le> total_executions u"
    unfolding total_executions_def using u distinct_hour_buckets
    by (intro sum_lookups_le) (auto simp: uptime_ok_def hour_ok_def)
  finally have b: "sum_list (map TotalExecutions ?hs) \<le> n" using u by (simp add: uptime_ok_def)
  have a: "sum_list (map SuccessfulExecutions ?hs) \<le> sum_list (map TotalExecutions ?hs)"
    using ok by (intro sum_list_le) (simp add: hour_ok_def)
  have pos: "\<forall>x \<in> set (map SuccessfulExecutions ?hs). 0 \<le> x" "\<forall>x \<in> set (map TotalExecutions ?hs). 0 \<le> x"
    using ok by (fastforce simp: hour_ok_def)+
  from pos(1) have "0 \<le> sum_list (map SuccessfulExecutions ?hs)" by (metis sum_list_nonneg)
  moreover have "sum_uint64 (map SuccessfulExecutions ?hs) = sum_list (map SuccessfulExecutions ?hs)"
    "sum_uint64 (map TotalExecutions ?hs) = sum_list (map TotalExecutions ?hs)"
    using pos a b n by (intro sum_uint64_exact; linarith)+
  ultimately show ?thesis using a b by metis
qed

lemma process_all_ok:
  "int (length xs) < 2 ^ 64 \<Longrightarrow> uptime_ok (int (length xs)) (process_all NewUptime xs)"
proof (induction xs rule: rev_induct)
  case (snoc x xs)
  obtain now r where x: "x = (now, r)" by (cases x)
  show ?case
    using snoc processUptime_ok [of "int (length xs)" "process_all NewUptime xs" now r]
    by (simp add: x add.commute)
qed (simp add: uptime_ok_def NewUptime_def total_executions_def)

text \<open>
  Whatever the clean-up drops, an uptime is zero or the ratio of two counters of which the
  first is at most the second, which is at most the number of results inserted for the key.
\<close>

theorem uptime_is_a_ratio:
  assumes "int (length (inserted_for k xs)) < 2 ^ 64"
    and "GetUptimeByKey list_cache (insert_results (new_store m e) list_cache xs) k t t' = Inr f"
  shows "\<exists>a b. 0 \<le> a \<and> a \<le> b \<and> b \<le> int (length (inserted_for k xs)) \<and>
    f = (if b = 0 then F_Fin False 0 0 else float_ratio a b)"
proof -
  let ?s = "insert_results (new_store m e) list_cache xs"
  have "stored_uptime list_cache ?s k = process_all NewUptime (inserted_for k xs)"
    by (simp add: mem.insert_results_uptime mem.stored_uptime_new)
  then have u: "uptime_ok (int (length (inserted_for k xs))) (stored_uptime list_cache ?s k)"
    using process_all_ok [OF assms(1)] by simp
  from assms(2) obtain ss where Some: "c_Get list_cache (endpointCache ?s) k = Some ss"
    and "\<not> t' < t" by (auto simp: GetUptimeByKey_def split: if_splits option.splits)
  then have up: "st_Uptime ss = stored_uptime list_cache ?s k" by (simp add: stored_uptime_def)
  obtain a b where ab: "sum_uint64 (map SuccessfulExecutions (map snd (buckets_found (st_Uptime ss) t t'))) = a"
    "sum_uint64 (map TotalExecutions (map snd (buckets_found (st_Uptime ss) t t'))) = b"
    and le: "0 \<le> a" "a \<le> b" "b \<le> int (length (inserted_for k xs))"
    using uptime_ok_sums [OF u assms(1)] up by metis
  have "f = (if b = 0 then F_Fin False 0 0 else float_ratio a b)"
    using assms(2) \<open>\<not> t' < t\<close> unfolding GetUptimeByKey_def Let_def Some option.case ab
    by (simp split: if_splits)
  with le show ?thesis by blast
qed

lemma example_uptime_known:
  "\<exists>f. GetUptimeByKey list_cache (insert_results (new_store 2 2) list_cache example_insertions)
     (Endpoint_Key example_endpoint) 0 1 = Inr f"
  using example_insertions_stored by (auto simp: GetUptimeByKey_def Let_def)

theorem uptime_is_a_ratio_witness:
  "\<exists>a b. 0 \<le> a \<and> a \<le> b \<and> b \<le> 3 \<and>
     GetUptimeByKey list_cache (insert_results (new_store 2 2) list_cache example_insertions)
       (Endpoint_Key example_endpoint) 0 1 = Inr (if b = 0 then F_Fin False 0 0 else float_ratio a b)"
proof -
  obtain f where f: "GetUptimeByKey list_cache (insert_results (new_store 2 2) list_cache example_insertions)
     (Endpoint_Key example_endpoint) 0 1 = Inr f" using example_uptime_known by blast
  moreover have "length (inserted_for (Endpoint_Key example_endpoint) example_insertions) = 3"
    by (simp add: inserted_for_def example_insertions_def)
  ultimately show ?thesis using uptime_is_a_ratio [OF _ f] by auto
qed

end
