(* ===== verification/Storage.thy ===== *)
theory Storage
  imports Memory_Store
begin

text \<open>
  \<open>storage/config.go\<close>, \<open>storage/type.go\<close> and the interface of
  \<open>storage/store/store.go\<close>: the configuration of the storage, and the operations of a store
  that the watchdog and the start-up of the program call. An error of a store that the callers only
  write to the log is not part of the model; what the store is after it, is.

  The memory storage is one instance. What the start-up relies on to bring triggered alerts back is
  the locale \<open>alert_persistence\<close>, which the SQL storage provides and the memory storage does not.
\<close>

section \<open>Configuration\<close>

record Storage_Config =
  sto_Path :: string
  sto_Type :: string
  sto_Caching :: bool
  sto_MaximumNumberOfResults :: int
  sto_MaximumNumberOfEvents :: int

definition TypeMemory :: string where "TypeMemory = ''memory''"
definition TypeSQLite :: string where "TypeSQLite = ''sqlite''"
definition TypePostgres :: string where "TypePostgres = ''postgres''"

definition DefaultMaximumNumberOfResults :: int where "DefaultMaximumNumberOfResults = 100"
definition DefaultMaximumNumberOfEvents :: int where "DefaultMaximumNumberOfEvents = 50"

datatype storage_error = ErrSQLStorageRequiresPath | ErrMemoryStorageDoesNotSupportPath

definition Storage_ValidateAndSetDefaults :: "Storage_Config \<Rightarrow> storage_error option \<times> Storage_Config" where
  "Storage_ValidateAndSetDefaults c0 =
     (let c = (if sto_Type c0 = [] then c0\<lparr>sto_Type := TypeMemory\<rparr> else c0)
      in if (sto_Type c = TypePostgres \<or> sto_Type c = TypeSQLite) \<and> sto_Path c = []
           then (Some ErrSQLStorageRequiresPath, c)
         else if sto_Type c = TypeMemory \<and> sto_Path c \<noteq> []
           then (Some ErrMemoryStorageDoesNotSupportPath, c)
         else
           (None,
            c\<lparr>sto_MaximumNumberOfResults :=
                (if sto_MaximumNumberOfResults c \<le> 0 then DefaultMaximumNumberOfResults
                 else sto_MaximumNumberOfResults c),
              sto_MaximumNumberOfEvents :=
                (if sto_MaximumNumberOfEvents c \<le> 0 then DefaultMaximumNumberOfEvents
                 else sto_MaximumNumberOfEvents c)\<rparr>))"

section \<open>The interface\<close>

record 's store_iface =
  so_InsertEndpointResult :: "'s \<Rightarrow> instant \<Rightarrow> Endpoint \<Rightarrow> Result \<Rightarrow> 's"
  so_InsertSuiteResult :: "'s \<Rightarrow> Suite \<Rightarrow> Suite_Result \<Rightarrow> 's"
  so_HasEndpointStatusNewerThan :: "'s \<Rightarrow> string \<Rightarrow> instant \<Rightarrow> string + bool"
  so_DeleteAllEndpointStatusesNotInKeys :: "'s \<Rightarrow> string list \<Rightarrow> 's"
  so_DeleteAllSuiteStatusesNotInKeys :: "'s \<Rightarrow> string list \<Rightarrow> 's"
  so_GetTriggeredEndpointAlert :: "'s \<Rightarrow> Endpoint \<Rightarrow> Alert \<Rightarrow> string + bool \<times> string \<times> int"
  so_UpsertTriggeredEndpointAlert :: "'s \<Rightarrow> Endpoint \<Rightarrow> Alert \<Rightarrow> 's"
  so_DeleteTriggeredEndpointAlert :: "'s \<Rightarrow> Endpoint \<Rightarrow> Alert \<Rightarrow> 's"
  so_DeleteAllTriggeredAlertsNotInChecksumsByEndpoint :: "'s \<Rightarrow> Endpoint \<Rightarrow> string list \<Rightarrow> 's"

definition memory_iface ::
  "'e endpoint_cache \<Rightarrow> 's suite_cache \<Rightarrow> ('e, 's) Store store_iface" where
  "memory_iface ec sc =
     \<lparr>so_InsertEndpointResult = (\<lambda>s now ep r. InsertEndpointResult ec now s ep r),
      so_InsertSuiteResult = InsertSuiteResult sc,
      so_HasEndpointStatusNewerThan = (\<lambda>s k t. Inr (HasEndpointStatusNewerThan ec s k t)),
      so_DeleteAllEndpointStatusesNotInKeys = (\<lambda>s ks. snd (DeleteAllEndpointStatusesNotInKeys ec s ks)),
      so_DeleteAllSuiteStatusesNotInKeys = (\<lambda>s ks. snd (DeleteAllSuiteStatusesNotInKeys sc s ks)),
      so_GetTriggeredEndpointAlert = (\<lambda>s ep a. Inr (Memory_GetTriggeredEndpointAlert s ep a)),
      so_UpsertTriggeredEndpointAlert = (\<lambda>s ep a. s),
      so_DeleteTriggeredEndpointAlert = (\<lambda>s ep a. s),
      so_DeleteAllTriggeredAlertsNotInChecksumsByEndpoint = (\<lambda>s ep cs. s)\<rparr>"

section \<open>Triggered alerts that outlive the program\<close>

text \<open>
  What the start-up relies on: the triggered alert of an endpoint, found under the key of the
  endpoint and the checksum of the alert, is what the last update left, until it is deleted or
  its checksum is no longer listed. \<open>known\<close> are the keys the store has an entry for.
\<close>

locale alert_persistence =
  fixes iface :: "'s store_iface"
    and checksum :: "Alert \<Rightarrow> string"
    and stored_alert :: "'s \<Rightarrow> string \<Rightarrow> string \<Rightarrow> (string \<times> int) option"
    and known :: "'s \<Rightarrow> string \<Rightarrow> bool"
    and inv :: "'s \<Rightarrow> bool"
  assumes get: "inv s \<Longrightarrow> so_GetTriggeredEndpointAlert iface s ep a =
      Inr (case stored_alert s (Endpoint_Key ep) (checksum a) of
             None \<Rightarrow> (False, [], 0) | Some (rk, n) \<Rightarrow> (True, rk, n))"
    and upsert: "inv s \<Longrightarrow> known s (Endpoint_Key ep) \<Longrightarrow>
      stored_alert (so_UpsertTriggeredEndpointAlert iface s ep a) k c =
        (if k = Endpoint_Key ep \<and> c = checksum a
         then Some (al_ResolveKey a, e_NumberOfSuccessesInARow ep) else stored_alert s k c)"
    and delete: "inv s \<Longrightarrow> stored_alert (so_DeleteTriggeredEndpointAlert iface s ep a) k c =
        (if k = Endpoint_Key ep \<and> c = checksum a then None else stored_alert s k c)"
    and delete_others: "inv s \<Longrightarrow>
      stored_alert (so_DeleteAllTriggeredAlertsNotInChecksumsByEndpoint iface s ep cs) k c =
        (if k = Endpoint_Key ep \<and> c \<notin> set cs then None else stored_alert s k c)"
    and inv_upsert: "inv s \<Longrightarrow> known s (Endpoint_Key ep) \<Longrightarrow>
      inv (so_UpsertTriggeredEndpointAlert iface s ep a)"
    and inv_delete: "inv s \<Longrightarrow> inv (so_DeleteTriggeredEndpointAlert iface s ep a)"
    and inv_delete_others: "inv s \<Longrightarrow>
      inv (so_DeleteAllTriggeredAlertsNotInChecksumsByEndpoint iface s ep cs)"
    and known_upsert: "inv s \<Longrightarrow> known s k \<Longrightarrow> known (so_UpsertTriggeredEndpointAlert iface s ep a) k"
    and known_delete: "inv s \<Longrightarrow> known s k \<Longrightarrow> known (so_DeleteTriggeredEndpointAlert iface s ep a) k"
    and known_delete_others: "inv s \<Longrightarrow> known s k \<Longrightarrow>
      known (so_DeleteAllTriggeredAlertsNotInChecksumsByEndpoint iface s ep cs) k"

section \<open>Properties\<close>

text \<open>
  A storage configuration that passes validation has positive limits, a path exactly for the
  SQL storages when its type is one of the three, and is not changed by a second validation.
\<close>

theorem Storage_validated:
  assumes "Storage_ValidateAndSetDefaults c = (None, c')"
  shows "0 < sto_MaximumNumberOfResults c' \<and> 0 < sto_MaximumNumberOfEvents c' \<and>
    (sto_Type c' \<in> {TypeSQLite, TypePostgres} \<longrightarrow> sto_Path c' \<noteq> []) \<and>
    (sto_Type c' = TypeMemory \<longrightarrow> sto_Path c' = []) \<and>
    Storage_ValidateAndSetDefaults c' = (None, c')"
  using assms
  by (auto simp: Storage_ValidateAndSetDefaults_def Let_def TypeMemory_def TypeSQLite_def TypePostgres_def
      DefaultMaximumNumberOfResults_def DefaultMaximumNumberOfEvents_def split: if_splits)

theorem Storage_validated_witness:
  "\<exists>c'. Storage_ValidateAndSetDefaults \<lparr>sto_Path = ''data.db'', sto_Type = ''sqlite'', sto_Caching = False,
      sto_MaximumNumberOfResults = 0, sto_MaximumNumberOfEvents = -1\<rparr> = (None, c') \<and>
    0 < sto_MaximumNumberOfResults c' \<and> 0 < sto_MaximumNumberOfEvents c' \<and> sto_Path c' \<noteq> []"
proof -
  let ?c = "\<lparr>sto_Path = ''data.db'', sto_Type = ''sqlite'', sto_Caching = False,
      sto_MaximumNumberOfResults = 0, sto_MaximumNumberOfEvents = -1\<rparr>"
  have "fst (Storage_ValidateAndSetDefaults ?c) = None \<and> sto_Type (snd (Storage_ValidateAndSetDefaults ?c)) = TypeSQLite"
    by code_simp
  then obtain c' where c': "Storage_ValidateAndSetDefaults ?c = (None, c')" and "sto_Type c' = TypeSQLite"
    by (metis prod.collapse)
  with Storage_validated [OF c'] show ?thesis by auto
qed

end
