(* ===== verification/Alerting_Config.thy ===== *)
theory Alerting_Config
  imports Endpoint
begin

text \<open>
  \<open>alerting/alert/type.go\<close>, \<open>alerting/config.go\<close> and the interface of
  \<open>alerting/provider/provider.go\<close>. The configuration has one field per type of alert, whose YAML
  tag is the type; it is modelled as the list of the fields that are set. Reflection over the
  fields is then a search by tag.

  A provider is what the interface asks for. Its \<open>Send\<close> is a function of what it is given and of
  the position of the alert; it returns the error of the attempt, if any, and the resolve key that it
  leaves in the alert.
\<close>

definition AlertTypes :: "string list" where
  "AlertTypes =
     [''aws-ses'', ''clickup'', ''custom'', ''datadog'', ''discord'', ''email'', ''github'', ''gitlab'',
      ''gitea'', ''googlechat'', ''gotify'', ''homeassistant'', ''ifttt'', ''ilert'', ''incident-io'',
      ''line'', ''matrix'', ''mattermost'', ''messagebird'', ''newrelic'', ''n8n'', ''ntfy'', ''opsgenie'',
      ''pagerduty'', ''plivo'', ''pushover'', ''rocketchat'', ''sendgrid'', ''signal'', ''signl4'', ''slack'',
      ''splunk'', ''squadcast'', ''teams'', ''teams-workflows'', ''telegram'', ''twilio'', ''vonage'',
      ''webex'', ''zapier'', ''zulip'']"

type_synonym alert_provider =
  "nat \<Rightarrow> Endpoint \<Rightarrow> Alert \<Rightarrow> Result \<Rightarrow> bool \<Rightarrow> string option \<times> string"

record AlertProvider =
  ap_Validate :: "string option"
  ap_GetDefaultAlert :: "Alert option"
  ap_ValidateOverrides :: "string \<Rightarrow> Alert \<Rightarrow> string option"
  ap_Send :: alert_provider

type_synonym Alerting_Config = "(string \<times> AlertProvider) list"

text \<open>The YAML tags of the fields of the configuration, in the order of the struct.\<close>

definition alerting_fields :: "string list" where
  "alerting_fields =
     [''aws-ses'', ''clickup'', ''custom'', ''datadog'', ''discord'', ''email'', ''github'', ''gitlab'',
      ''gitea'', ''googlechat'', ''gotify'', ''homeassistant'', ''ifttt'', ''ilert'', ''incident-io'',
      ''line'', ''matrix'', ''mattermost'', ''messagebird'', ''newrelic'', ''n8n'', ''ntfy'', ''opsgenie'',
      ''pagerduty'', ''plivo'', ''pushover'', ''rocketchat'', ''sendgrid'', ''signal'', ''signl4'', ''slack'',
      ''splunk'', ''squadcast'', ''teams'', ''teams-workflows'', ''telegram'', ''twilio'', ''vonage'',
      ''webex'', ''zapier'', ''zulip'']"

definition GetAlertingProviderByAlertType :: "Alerting_Config \<Rightarrow> string \<Rightarrow> AlertProvider option" where
  "GetAlertingProviderByAlertType config alertType =
     (case find (\<lambda>tag. tag = alertType) alerting_fields of
        None \<Rightarrow> None
      | Some tag \<Rightarrow> map_of config tag)"

definition SetAlertingProviderToNil :: "Alerting_Config \<Rightarrow> string \<Rightarrow> Alerting_Config" where
  "SetAlertingProviderToNil config alertType = AList.delete alertType config"

lemma GetAlertingProviderByAlertType_eq:
  "GetAlertingProviderByAlertType config ty = (if ty \<in> set alerting_fields then map_of config ty else None)"
  by (auto simp: GetAlertingProviderByAlertType_def find_None_iff find_Some_iff split: option.splits)

lemma GetAlertingProvider_SetToNil:
  "GetAlertingProviderByAlertType (SetAlertingProviderToNil config ty) ty' =
   (if ty' = ty then None else GetAlertingProviderByAlertType config ty')"
  by (simp add: GetAlertingProviderByAlertType_eq SetAlertingProviderToNil_def delete_conv)

text \<open>Every type of alert has a field, and the fields are told apart by their tags.\<close>

lemma alerting_fields_AlertTypes: "alerting_fields = AlertTypes"
  by (simp add: alerting_fields_def AlertTypes_def)

lemma distinct_alerting_fields: "distinct alerting_fields"
  by code_simp

end
