(* ===== verification/Watchdog_Alerting.thy ===== *)
theory Watchdog_Alerting
  imports Storage Memory_Properties Alerting_Config
begin

text \<open>
  \<open>watchdog/alerting.go\<close>: what a result does to the alerts of an endpoint. A handler takes the
  endpoint and the store and returns them with the notifications it tried to send, in order. The
  alerts are pointers in the source: an alert is changed in place, so the endpoint the provider and
  the store are given carries the changes made so far.

  A provider is a function of what it is given and of the position of the alert; it returns the
  error of the attempt, if any, and the resolve key it leaves in the alert. The clock is read for
  every alert.
\<close>

section \<open>Environment\<close>

record 's alerting_env =
  ae_configured :: bool
  ae_GetAlertingProvider :: "string \<Rightarrow> alert_provider option"
  ae_now :: "nat \<Rightarrow> instant"
  ae_sent_at :: "nat \<Rightarrow> instant"
  ae_mock :: bool
  ae_mock_error :: bool
  ae_store :: "'s store_iface"

record notification =
  n_alert :: nat
  n_resolved :: bool
  n_initial :: bool
  n_error :: "string option"

type_synonym 's alerting_state = "Endpoint \<times> 's \<times> notification list"

definition set_alert :: "Endpoint \<Rightarrow> nat \<Rightarrow> Alert \<Rightarrow> Endpoint" where
  "set_alert ep i a = ep\<lparr>e_Alerts := (e_Alerts ep)[i := a]\<rparr>"

section \<open>Triggering\<close>

text \<open>Whether an alert is triggered for the first time or reminded of.\<close>

definition sendInitialAlert :: "Alert \<Rightarrow> bool" where
  "sendInitialAlert a \<longleftrightarrow> \<not> al_Triggered a"

definition sendReminder :: "instant \<Rightarrow> instant \<Rightarrow> Alert \<Rightarrow> bool" where
  "sendReminder now lastReminderSent a \<longleftrightarrow>
     al_Triggered a \<and> 0 < al_MinimumReminderInterval a \<and>
     al_MinimumReminderInterval a \<le> Sub now lastReminderSent"

text \<open>The attempt: the error and the resolve key, without a call when the provider is mocked.\<close>

definition send_trigger ::
  "'s alerting_env \<Rightarrow> alert_provider \<Rightarrow> nat \<Rightarrow> Endpoint \<Rightarrow> Alert \<Rightarrow> Result \<Rightarrow> string option \<times> string" where
  "send_trigger env provider i ep a result =
     (if ae_mock env then (if ae_mock_error env then Some ''error'' else None, al_ResolveKey a)
      else provider i ep a result False)"

definition trigger_alert ::
  "'s alerting_env \<Rightarrow> Result \<Rightarrow> instant \<Rightarrow> nat \<Rightarrow> 's alerting_state \<Rightarrow> 's alerting_state" where
  "trigger_alert env result lastReminderSent i = (\<lambda>(ep, s, ns).
     let a = e_Alerts ep ! i in
     if \<not> IsEnabled a \<or> e_NumberOfFailuresInARow ep < al_FailureThreshold a then (ep, s, ns)
     else if \<not> sendInitialAlert a \<and> \<not> sendReminder (ae_now env i) lastReminderSent a then (ep, s, ns)
     else
       case ae_GetAlertingProvider env (al_Type a) of
         None \<Rightarrow> (ep, s, ns)
       | Some provider \<Rightarrow>
           (case send_trigger env provider i ep a result of
              (err, resolveKey) \<Rightarrow>
                let ns = ns @ [\<lparr>n_alert = i, n_resolved = False, n_initial = sendInitialAlert a,
                                n_error = err\<rparr>];
                    a' = a\<lparr>al_ResolveKey := resolveKey\<rparr>
                in if err \<noteq> None then (set_alert ep i a', s, ns)
                   else
                     let a' = (if sendInitialAlert a then a'\<lparr>al_Triggered := True\<rparr> else a');
                         ep = (set_alert ep i a')\<lparr>e_LastReminderSent := ae_sent_at env i\<rparr>
                     in (ep, so_UpsertTriggeredEndpointAlert (ae_store env) s ep a', ns)))"

definition for_alerts :: "(nat \<Rightarrow> 's alerting_state \<Rightarrow> 's alerting_state) \<Rightarrow> Endpoint \<Rightarrow> 's \<Rightarrow> 's alerting_state" where
  "for_alerts step ep s = foldl (\<lambda>st i. step i st) (ep, s, []) [0..<length (e_Alerts ep)]"

definition handleAlertsToTrigger ::
  "'s alerting_env \<Rightarrow> Endpoint \<Rightarrow> Result \<Rightarrow> 's \<Rightarrow> 's alerting_state" where
  "handleAlertsToTrigger env ep0 result s =
     (let ep = ep0\<lparr>e_NumberOfSuccessesInARow := 0,
                   e_NumberOfFailuresInARow := wrap64 (e_NumberOfFailuresInARow ep0 + 1)\<rparr>
      in for_alerts (trigger_alert env result (e_LastReminderSent ep)) ep s)"

section \<open>Resolving\<close>

definition resolve_alert ::
  "'s alerting_env \<Rightarrow> Result \<Rightarrow> nat \<Rightarrow> 's alerting_state \<Rightarrow> 's alerting_state" where
  "resolve_alert env result i = (\<lambda>(ep, s, ns).
     let a = e_Alerts ep ! i;
         isStillBelowSuccessThreshold = e_NumberOfSuccessesInARow ep < al_SuccessThreshold a;
         s = (if isStillBelowSuccessThreshold \<and> IsEnabled a \<and> al_Triggered a
              then so_UpsertTriggeredEndpointAlert (ae_store env) s ep a else s)
     in if \<not> IsEnabled a \<or> \<not> al_Triggered a \<or> isStillBelowSuccessThreshold then (ep, s, ns)
        else
          let a = a\<lparr>al_Triggered := False\<rparr>;
              ep = set_alert ep i a;
              s = so_DeleteTriggeredEndpointAlert (ae_store env) s ep a
          in if \<not> IsSendingOnResolved a then (ep, s, ns)
             else
               case ae_GetAlertingProvider env (al_Type a) of
                 None \<Rightarrow> (ep, s, ns)
               | Some provider \<Rightarrow>
                   (case provider i ep a result True of
                      (err, resolveKey) \<Rightarrow>
                        (set_alert ep i (a\<lparr>al_ResolveKey := resolveKey\<rparr>), s,
                         ns @ [\<lparr>n_alert = i, n_resolved = True, n_initial = False, n_error = err\<rparr>])))"

definition handleAlertsToResolve ::
  "'s alerting_env \<Rightarrow> Endpoint \<Rightarrow> Result \<Rightarrow> 's \<Rightarrow> 's alerting_state" where
  "handleAlertsToResolve env ep0 result s =
     (case for_alerts (resolve_alert env result)
             (ep0\<lparr>e_NumberOfSuccessesInARow := wrap64 (e_NumberOfSuccessesInARow ep0 + 1)\<rparr>) s of
        (ep, s', ns) \<Rightarrow> (ep\<lparr>e_NumberOfFailuresInARow := 0\<rparr>, s', ns))"

definition HandleAlerting ::
  "'s alerting_env \<Rightarrow> Endpoint \<Rightarrow> Result \<Rightarrow> 's \<Rightarrow> 's alerting_state" where
  "HandleAlerting env ep result s =
     (if \<not> ae_configured env then (ep, s, [])
      else if r_Success result then handleAlertsToResolve env ep result s
      else handleAlertsToTrigger env ep result s)"

section \<open>One pass over the alerts\<close>

text \<open>What a pass leaves alone: everything but the alerts and the time of the last reminder.\<close>

definition same_but_alerts :: "Endpoint \<Rightarrow> Endpoint \<Rightarrow> bool" where
  "same_but_alerts ep ep' \<longleftrightarrow>
     length (e_Alerts ep') = length (e_Alerts ep) \<and>
     ep'\<lparr>e_Alerts := [], e_LastReminderSent := 0\<rparr> = ep\<lparr>e_Alerts := [], e_LastReminderSent := 0\<rparr>"

text \<open>What a pass leaves alone of an alert: its configuration.\<close>

definition same_config :: "Alert \<Rightarrow> Alert \<Rightarrow> bool" where
  "same_config a a' \<longleftrightarrow>
     a'\<lparr>al_ResolveKey := [], al_Triggered := False\<rparr> = a\<lparr>al_ResolveKey := [], al_Triggered := False\<rparr>"

lemma same_config_simps:
  assumes "same_config a a'"
  shows "al_Type a' = al_Type a" "IsEnabled a' = IsEnabled a" "al_FailureThreshold a' = al_FailureThreshold a"
    "al_SuccessThreshold a' = al_SuccessThreshold a" "IsSendingOnResolved a' = IsSendingOnResolved a"
    "al_MinimumReminderInterval a' = al_MinimumReminderInterval a" "checksum_text a' = checksum_text a"
  using assms
  by (cases a; cases a'; simp add: same_config_def IsEnabled_def IsSendingOnResolved_def checksum_text_def
      GetDescription_def)+

lemma same_config_refl [simp]: "same_config a a"
  by (simp add: same_config_def)

lemma same_config_updates [simp]:
  "same_config a (a'\<lparr>al_ResolveKey := k\<rparr>) \<longleftrightarrow> same_config a a'"
  "same_config a (a'\<lparr>al_Triggered := b\<rparr>) \<longleftrightarrow> same_config a a'"
  by (simp_all add: same_config_def)

lemma same_but_alerts_simps:
  assumes "same_but_alerts ep ep'"
  shows "e_NumberOfFailuresInARow ep' = e_NumberOfFailuresInARow ep"
    "e_NumberOfSuccessesInARow ep' = e_NumberOfSuccessesInARow ep" "Endpoint_Key ep' = Endpoint_Key ep"
    "length (e_Alerts ep') = length (e_Alerts ep)" "e_Group ep' = e_Group ep"
  using assms by (cases ep; cases ep'; simp add: same_but_alerts_def Endpoint_Key_def)+

lemma Endpoint_Key_updates [simp]:
  "Endpoint_Key (ep\<lparr>e_NumberOfSuccessesInARow := n\<rparr>) = Endpoint_Key ep"
  "Endpoint_Key (ep\<lparr>e_NumberOfFailuresInARow := n\<rparr>) = Endpoint_Key ep"
  "Endpoint_Key (ep\<lparr>e_LastReminderSent := t\<rparr>) = Endpoint_Key ep"
  "Endpoint_Key (ep\<lparr>e_Alerts := as\<rparr>) = Endpoint_Key ep"
  by (simp_all add: Endpoint_Key_def)

lemma same_but_alerts_refl [simp]: "same_but_alerts ep ep"
  by (simp add: same_but_alerts_def)

lemma same_but_alerts_trans: "same_but_alerts a b \<Longrightarrow> same_but_alerts b c \<Longrightarrow> same_but_alerts a c"
  by (simp add: same_but_alerts_def)

lemma same_but_alerts_updates [simp]:
  "same_but_alerts ep (set_alert ep' i a) \<longleftrightarrow> same_but_alerts ep ep'"
  "same_but_alerts ep (ep'\<lparr>e_LastReminderSent := t\<rparr>) \<longleftrightarrow> same_but_alerts ep ep'"
  by (simp_all add: same_but_alerts_def set_alert_def)

lemma set_alert_Alerts [simp]: "e_Alerts (set_alert ep i a) = (e_Alerts ep)[i := a]"
  by (simp add: set_alert_def)

text \<open>
  A step on the i-th alert that touches nothing else and whose effect on the alert and on the
  notifications is related by P: after the pass, P relates every alert to what it became and to the
  notifications about it.
\<close>

locale alert_pass =
  fixes step :: "nat \<Rightarrow> 's alerting_state \<Rightarrow> 's alerting_state"
    and P :: "Endpoint \<Rightarrow> nat \<Rightarrow> Alert \<Rightarrow> Alert \<Rightarrow> notification list \<Rightarrow> bool"
  assumes step_local: "i < length (e_Alerts ep) \<Longrightarrow> step i (ep, s, ns) = (ep', s', ns') \<Longrightarrow>
      \<exists>a' new. same_but_alerts ep ep' \<and> e_Alerts ep' = (e_Alerts ep)[i := a'] \<and> ns' = ns @ new \<and>
        (\<forall>n \<in> set new. n_alert n = i) \<and> P ep i (e_Alerts ep ! i) a' new"
    and P_frame: "same_but_alerts ep ep' \<Longrightarrow> P ep' i a a' new \<Longrightarrow> P ep i a a' new"
begin

lemma pass:
  assumes "foldl (\<lambda>st i. step i st) (ep, s, []) [0..<k] = (ep', s', ns)" and "k \<le> length (e_Alerts ep)"
  shows "same_but_alerts ep ep' \<and> (\<forall>n \<in> set ns. n_alert n < k) \<and>
    (\<forall>i. k \<le> i \<longrightarrow> i < length (e_Alerts ep) \<longrightarrow> e_Alerts ep' ! i = e_Alerts ep ! i) \<and>
    (\<forall>i < k. P ep i (e_Alerts ep ! i) (e_Alerts ep' ! i) (filter (\<lambda>n. n_alert n = i) ns))"
  using assms
proof (induction k arbitrary: ep' s' ns)
  case (Suc k)
  obtain ep1 s1 ns1 where st: "foldl (\<lambda>st i. step i st) (ep, s, []) [0..<k] = (ep1, s1, ns1)"
    by (metis prod.exhaust)
  then have step: "step k (ep1, s1, ns1) = (ep', s', ns)" using Suc.prems(1) by simp
  from Suc.IH [OF st] Suc.prems(2) have IH: "same_but_alerts ep ep1" "\<forall>n \<in> set ns1. n_alert n < k"
    "\<And>i. k \<le> i \<Longrightarrow> i < length (e_Alerts ep) \<Longrightarrow> e_Alerts ep1 ! i = e_Alerts ep ! i"
    "\<And>i. i < k \<Longrightarrow> P ep i (e_Alerts ep ! i) (e_Alerts ep1 ! i) (filter (\<lambda>n. n_alert n = i) ns1)" by auto
  have k: "k < length (e_Alerts ep1)" using Suc.prems(2) same_but_alerts_simps(4) [OF IH(1)] by simp
  from step_local [OF k step] obtain a' new where a': "same_but_alerts ep1 ep'"
    "e_Alerts ep' = (e_Alerts ep1)[k := a']" "ns = ns1 @ new" "\<forall>n \<in> set new. n_alert n = k"
    "P ep1 k (e_Alerts ep1 ! k) a' new" by blast
  have new: "filter (\<lambda>n. n_alert n = i) new = (if i = k then new else [])" for i
    using a'(4) by (auto simp: filter_empty_conv filter_id_conv)
  have old: "filter (\<lambda>n. n_alert n = k) ns1 = []" using IH(2) by (auto simp: filter_empty_conv)
  have "P ep i (e_Alerts ep ! i) (e_Alerts ep' ! i) (filter (\<lambda>n. n_alert n = i) ns)" if "i < Suc k" for i
  proof (cases "i = k")
    case True
    then show ?thesis
      using P_frame [OF IH(1) a'(5)] IH(3) [of k] Suc.prems(2) k by (simp add: a'(2,3) new old)
  next
    case False
    then show ?thesis using that IH(4) [of i] by (simp add: a'(2,3) new)
  qed
  moreover have "\<forall>n \<in> set ns. n_alert n < Suc k" using a'(3,4) IH(2) by auto
  moreover have "same_but_alerts ep ep'" using IH(1) a'(1) by (rule same_but_alerts_trans)
  ultimately show ?case using IH(3) a'(2) by simp
qed simp

lemma for_alerts:
  assumes "for_alerts step ep s = (ep', s', ns)"
  shows "same_but_alerts ep ep'" and "\<forall>n \<in> set ns. n_alert n < length (e_Alerts ep)"
    and "i < length (e_Alerts ep) \<Longrightarrow>
      P ep i (e_Alerts ep ! i) (e_Alerts ep' ! i) (filter (\<lambda>n. n_alert n = i) ns)"
  using pass [of ep s "length (e_Alerts ep)" ep' s' ns] assms by (auto simp: for_alerts_def)

end

section \<open>What each pass does to an alert\<close>

definition trigger_due :: "'s alerting_env \<Rightarrow> instant \<Rightarrow> Endpoint \<Rightarrow> nat \<Rightarrow> Alert \<Rightarrow> bool" where
  "trigger_due env since ep i a \<longleftrightarrow>
     IsEnabled a \<and> al_FailureThreshold a \<le> e_NumberOfFailuresInARow ep \<and>
     (\<not> al_Triggered a \<or>
      0 < al_MinimumReminderInterval a \<and> al_MinimumReminderInterval a \<le> Sub (ae_now env i) since) \<and>
     ae_GetAlertingProvider env (al_Type a) \<noteq> None"

text \<open>A provider that never fails to send an alert of a configuration for the endpoints of a group.\<close>

definition reliable :: "'s alerting_env \<Rightarrow> string \<Rightarrow> Alert \<Rightarrow> bool" where
  "reliable env g a \<longleftrightarrow>
     (\<forall>p i ep a' r. ae_GetAlertingProvider env (al_Type a) = Some p \<longrightarrow> same_config a a' \<longrightarrow> e_Group ep = g \<longrightarrow>
        fst (send_trigger env p i ep a' r) = None)"

lemma reliable_same_config:
  assumes "reliable env g a" and "same_config a a'"
  shows "reliable env g a'"
proof -
  have "same_config a a''" if "same_config a' a''" for a''
    using that assms(2) by (simp add: same_config_def)
  then show ?thesis
    using assms(1) same_config_simps(1) [OF assms(2)] by (auto simp: reliable_def)
qed

definition triggers ::
  "'s alerting_env \<Rightarrow> instant \<Rightarrow> Endpoint \<Rightarrow> nat \<Rightarrow> Alert \<Rightarrow> Alert \<Rightarrow> notification list \<Rightarrow> bool" where
  "triggers env since ep i a a' new \<longleftrightarrow>
     (if trigger_due env since ep i a
      then same_config a a' \<and>
        (\<exists>err. new = [\<lparr>n_alert = i, n_resolved = False, n_initial = \<not> al_Triggered a, n_error = err\<rparr>] \<and>
          (al_Triggered a' \<longleftrightarrow> al_Triggered a \<or> err = None) \<and>
          (reliable env (e_Group ep) a \<longrightarrow> err = None))
      else a' = a \<and> new = [])"

definition resolve_due :: "Endpoint \<Rightarrow> Alert \<Rightarrow> bool" where
  "resolve_due ep a \<longleftrightarrow>
     IsEnabled a \<and> al_Triggered a \<and> al_SuccessThreshold a \<le> e_NumberOfSuccessesInARow ep"

definition resolves ::
  "'s alerting_env \<Rightarrow> Endpoint \<Rightarrow> nat \<Rightarrow> Alert \<Rightarrow> Alert \<Rightarrow> notification list \<Rightarrow> bool" where
  "resolves env ep i a a' new \<longleftrightarrow>
     (if resolve_due ep a
      then same_config a a' \<and> \<not> al_Triggered a' \<and>
        (if IsSendingOnResolved a \<and> ae_GetAlertingProvider env (al_Type a) \<noteq> None
         then \<exists>err. new = [\<lparr>n_alert = i, n_resolved = True, n_initial = False, n_error = err\<rparr>]
         else new = [])
      else a' = a \<and> new = [])"

lemma list_update_same_nth [simp]: "xs[i := xs ! i] = xs"
  by (rule list_update_id)

interpretation trigger: alert_pass "trigger_alert env result since" "triggers env since" for env result since
proof unfold_locales
  fix i ep s ns ep' s' ns'
  assume i: "i < length (e_Alerts ep)" and step: "trigger_alert env result since i (ep, s, ns) = (ep', s', ns')"
  let ?a = "e_Alerts ep ! i"
  show "\<exists>a' new. same_but_alerts ep ep' \<and> e_Alerts ep' = (e_Alerts ep)[i := a'] \<and> ns' = ns @ new \<and>
        (\<forall>n \<in> set new. n_alert n = i) \<and> triggers env since ep i ?a a' new"
  proof (cases "trigger_due env since ep i ?a")
    case True
    then obtain provider where p: "ae_GetAlertingProvider env (al_Type ?a) = Some provider"
      by (auto simp: trigger_due_def)
    obtain err key where send: "send_trigger env provider i ep ?a result = (err, key)" by fastforce
    let ?a' = "?a\<lparr>al_ResolveKey := key, al_Triggered := al_Triggered ?a \<or> err = None\<rparr>"
    let ?n = "\<lparr>n_alert = i, n_resolved = False, n_initial = \<not> al_Triggered ?a, n_error = err\<rparr>"
    have "e_Alerts ep' = (e_Alerts ep)[i := ?a'] \<and> ns' = ns @ [?n] \<and> same_but_alerts ep ep'"
      using step True
      by (auto simp: trigger_alert_def Let_def p send trigger_due_def sendInitialAlert_def sendReminder_def
          split: if_splits intro!: arg_cong [where f = "list_update _ _"] Alert.equality)
    moreover have "reliable env (e_Group ep) ?a \<longrightarrow> err = None"
      using p send by (auto simp: reliable_def) (metis fst_conv option.distinct(1) same_config_refl)
    ultimately show ?thesis using True
      by (intro exI [of _ ?a'] exI [of _ "[?n]"]) (auto simp: triggers_def)
  next
    case False
    then have "(ep', s', ns') = (ep, s, ns)"
      using step by (auto simp: trigger_alert_def Let_def trigger_due_def sendInitialAlert_def sendReminder_def
          split: if_splits option.splits)
    then show ?thesis using False
      by (intro exI [of _ ?a] exI [of _ "[]"]) (auto simp: triggers_def)
  qed
next
  fix ep ep' i a a' new
  assume "same_but_alerts ep ep'" "triggers env since ep' i a a' new"
  then show "triggers env since ep i a a' new"
    by (simp add: triggers_def trigger_due_def same_but_alerts_simps cong: if_cong)
qed

interpretation resolve: alert_pass "resolve_alert env result" "resolves env" for env result
proof unfold_locales
  fix i ep s ns ep' s' ns'
  assume i: "i < length (e_Alerts ep)" and step: "resolve_alert env result i (ep, s, ns) = (ep', s', ns')"
  let ?a = "e_Alerts ep ! i"
  show "\<exists>a' new. same_but_alerts ep ep' \<and> e_Alerts ep' = (e_Alerts ep)[i := a'] \<and> ns' = ns @ new \<and>
        (\<forall>n \<in> set new. n_alert n = i) \<and> resolves env ep i ?a a' new"
  proof (cases "resolve_due ep ?a")
    case True
    let ?a1 = "?a\<lparr>al_Triggered := False\<rparr>"
    show ?thesis
    proof (cases "IsSendingOnResolved ?a \<and> ae_GetAlertingProvider env (al_Type ?a) \<noteq> None")
      case False
      then have "e_Alerts ep' = (e_Alerts ep)[i := ?a1] \<and> ns' = ns \<and> same_but_alerts ep ep'"
        using step True by (auto simp: resolve_alert_def Let_def resolve_due_def IsSendingOnResolved_def
            split: option.splits if_splits)
      then show ?thesis using True False
        by (intro exI [of _ ?a1] exI [of _ "[]"]) (auto simp: resolves_def)
    next
      case send: True
      then obtain provider where p: "ae_GetAlertingProvider env (al_Type ?a) = Some provider" by blast
      have on: "IsSendingOnResolved ?a1" using send by (simp add: IsSendingOnResolved_def)
      obtain err key where r: "provider i (set_alert ep i ?a1) ?a1 result True = (err, key)" by fastforce
      let ?a' = "?a1\<lparr>al_ResolveKey := key\<rparr>"
      let ?n = "\<lparr>n_alert = i, n_resolved = True, n_initial = False, n_error = err\<rparr>"
      have "e_Alerts ep' = (e_Alerts ep)[i := ?a'] \<and> ns' = ns @ [?n] \<and> same_but_alerts ep ep'"
        using step True p on r by (auto simp: resolve_alert_def Let_def resolve_due_def)
      then show ?thesis using True send
        by (intro exI [of _ ?a'] exI [of _ "[?n]"]) (auto simp: resolves_def)
    qed
  next
    case False
    then have "ep' = ep \<and> ns' = ns"
      using step by (auto simp: resolve_alert_def Let_def resolve_due_def split: if_splits)
    then show ?thesis using False
      by (intro exI [of _ ?a] exI [of _ "[]"]) (auto simp: resolves_def)
  qed
next
  fix ep ep' i a a' new
  assume "same_but_alerts ep ep'" "resolves env ep' i a a' new"
  then show "resolves env ep i a a' new"
    by (simp add: resolves_def resolve_due_def same_but_alerts_simps)
qed

text \<open>The effect of a whole handling, for either outcome.\<close>

lemma handleAlertsToTrigger_effect:
  assumes h: "handleAlertsToTrigger env ep r s = (ep', s', ns)"
  shows "e_NumberOfSuccessesInARow ep' = 0"
    and "e_NumberOfFailuresInARow ep' = wrap64 (e_NumberOfFailuresInARow ep + 1)"
    and "length (e_Alerts ep') = length (e_Alerts ep)" and "Endpoint_Key ep' = Endpoint_Key ep"
    and "\<forall>n \<in> set ns. n_alert n < length (e_Alerts ep)"
    and "i < length (e_Alerts ep) \<Longrightarrow> triggers env (e_LastReminderSent ep) ep' i
      (e_Alerts ep ! i) (e_Alerts ep' ! i) (filter (\<lambda>n. n_alert n = i) ns)"
proof -
  let ?ep = "ep\<lparr>e_NumberOfSuccessesInARow := 0,
    e_NumberOfFailuresInARow := wrap64 (e_NumberOfFailuresInARow ep + 1)\<rparr>"
  have f: "for_alerts (trigger_alert env r (e_LastReminderSent ep)) ?ep s = (ep', s', ns)"
    using h by (simp add: handleAlertsToTrigger_def Let_def)
  note same = trigger.for_alerts(1) [OF f]
  show "e_NumberOfSuccessesInARow ep' = 0" "length (e_Alerts ep') = length (e_Alerts ep)"
    and fails: "e_NumberOfFailuresInARow ep' = wrap64 (e_NumberOfFailuresInARow ep + 1)"
    using same_but_alerts_simps [OF same] by simp_all
  show "Endpoint_Key ep' = Endpoint_Key ep"
    using same_but_alerts_simps(3) [OF same] by simp
  show "\<forall>n \<in> set ns. n_alert n < length (e_Alerts ep)"
    using trigger.for_alerts(2) [OF f] by simp
  show "triggers env (e_LastReminderSent ep) ep' i
      (e_Alerts ep ! i) (e_Alerts ep' ! i) (filter (\<lambda>n. n_alert n = i) ns)" if "i < length (e_Alerts ep)"
    using trigger.for_alerts(3) [OF f, of i] that same_but_alerts_simps(5) [OF same]
    by (simp add: triggers_def trigger_due_def fails cong: if_cong)
qed

lemma handleAlertsToResolve_effect:
  assumes h: "handleAlertsToResolve env ep r s = (ep', s', ns)"
  shows "e_NumberOfSuccessesInARow ep' = wrap64 (e_NumberOfSuccessesInARow ep + 1)"
    and "e_NumberOfFailuresInARow ep' = 0"
    and "length (e_Alerts ep') = length (e_Alerts ep)" and "Endpoint_Key ep' = Endpoint_Key ep"
    and "\<forall>n \<in> set ns. n_alert n < length (e_Alerts ep)"
    and "i < length (e_Alerts ep) \<Longrightarrow> resolves env ep' i
      (e_Alerts ep ! i) (e_Alerts ep' ! i) (filter (\<lambda>n. n_alert n = i) ns)"
proof -
  let ?ep = "ep\<lparr>e_NumberOfSuccessesInARow := wrap64 (e_NumberOfSuccessesInARow ep + 1)\<rparr>"
  obtain ep1 where f: "for_alerts (resolve_alert env r) ?ep s = (ep1, s', ns)"
    and ep': "ep' = ep1\<lparr>e_NumberOfFailuresInARow := 0\<rparr>"
    using h by (auto simp: handleAlertsToResolve_def split: prod.splits)
  note same = resolve.for_alerts(1) [OF f]
  show succ: "e_NumberOfSuccessesInARow ep' = wrap64 (e_NumberOfSuccessesInARow ep + 1)"
    and "length (e_Alerts ep') = length (e_Alerts ep)" "e_NumberOfFailuresInARow ep' = 0"
    using same_but_alerts_simps [OF same] by (simp_all add: ep')
  show "Endpoint_Key ep' = Endpoint_Key ep"
    using same_but_alerts_simps(3) [OF same] by (simp add: ep')
  show "\<forall>n \<in> set ns. n_alert n < length (e_Alerts ep)"
    using resolve.for_alerts(2) [OF f] by simp
  show "resolves env ep' i (e_Alerts ep ! i) (e_Alerts ep' ! i) (filter (\<lambda>n. n_alert n = i) ns)"
    if "i < length (e_Alerts ep)"
    using resolve.for_alerts(3) [OF f, of i] that succ by (simp add: resolves_def resolve_due_def ep')
qed

lemmas handling_effect = handleAlertsToTrigger_effect handleAlertsToResolve_effect

lemma HandleAlerting_Group:
  assumes "HandleAlerting env ep r s = (ep', s', ns)"
  shows "e_Group ep' = e_Group ep"
  using assms trigger.for_alerts(1) resolve.for_alerts(1)
  by (fastforce simp: HandleAlerting_def handleAlertsToTrigger_def handleAlertsToResolve_def Let_def
      dest: same_but_alerts_simps(5) split: if_splits prod.splits)

section \<open>Runs\<close>

text \<open>
  The endpoint, the store, the notifications and the results after any number of handlings, in
  environments of a kind. Between two handlings the store may change: results are inserted, other
  endpoints are handled.
\<close>

inductive alerting_run ::
  "('s alerting_env \<Rightarrow> bool) \<Rightarrow> Endpoint \<Rightarrow> Endpoint \<times> 's \<times> notification list \<times> Result list \<Rightarrow> bool"
  for ok ep0 where
  start: "alerting_run ok ep0 (ep0, s, [], [])"
| handle: "alerting_run ok ep0 (ep, s, tr, rs) \<Longrightarrow> ok env \<Longrightarrow>
    HandleAlerting env ep r s = (ep', s', ns) \<Longrightarrow>
    alerting_run ok ep0 (ep', s', tr @ ns, rs @ [r])"
| elsewhere: "alerting_run ok ep0 (ep, s, tr, rs) \<Longrightarrow> alerting_run ok ep0 (ep, s', tr, rs)"

inductive_cases alerting_runE: "alerting_run ok ep0 (ep, s, tr, rs)"

lemma alerting_run_length: "alerting_run ok ep0 (ep, s, tr, rs) \<Longrightarrow> length (e_Alerts ep) = length (e_Alerts ep0)"
proof (induction "(ep, s, tr, rs)" arbitrary: ep s tr rs rule: alerting_run.induct)
  case (handle ep s tr rs env r ep' s' ns)
  then show ?case
    using handling_effect(3) [of env ep r s ep' s' ns] handling_effect(9) [of env ep r s ep' s' ns]
    by (auto simp: HandleAlerting_def split: if_splits)
qed simp

lemma alerting_run_Group: "alerting_run ok ep0 (ep, s, tr, rs) \<Longrightarrow> e_Group ep = e_Group ep0"
  by (induction "(ep, s, tr, rs)" arbitrary: ep s tr rs rule: alerting_run.induct) (auto dest: HandleAlerting_Group)

text \<open>The i-th alert keeps its configuration along a run.\<close>

lemma alerting_run_config:
  assumes "alerting_run ok ep0 (ep, s, tr, rs)" and "i < length (e_Alerts ep0)"
  shows "same_config (e_Alerts ep0 ! i) (e_Alerts ep ! i)"
  using assms
proof (induction "(ep, s, tr, rs)" arbitrary: ep s tr rs rule: alerting_run.induct)
  case (handle ep s tr rs env r ep' s' ns)
  have l: "length (e_Alerts ep) = length (e_Alerts ep0)" using handle.hyps(1) by (rule alerting_run_length)
  then have "same_config (e_Alerts ep ! i) (e_Alerts ep' ! i)"
    using handle handling_effect(6) [of env ep r s ep' s' ns i] handling_effect(12) [of env ep r s ep' s' ns i]
    by (auto simp: HandleAlerting_def triggers_def resolves_def split: if_splits)
  then show ?case using handle by (auto simp: same_config_def)
qed simp

text \<open>
  The life of an alert: whether it is triggered, and the failures and successes in a row, as a
  function of the outcomes alone.
\<close>

fun alert_automaton :: "Alert \<Rightarrow> bool \<times> int \<times> int \<Rightarrow> bool \<Rightarrow> bool \<times> int \<times> int" where
  "alert_automaton a (triggered, failures, successes) True =
     (triggered \<and> successes + 1 < al_SuccessThreshold a, 0, successes + 1)"
| "alert_automaton a (triggered, failures, successes) False =
     (triggered \<or> al_FailureThreshold a \<le> failures + 1, failures + 1, 0)"

definition outcomes_of :: "Result list \<Rightarrow> bool list" where
  "outcomes_of rs = map r_Success rs"

abbreviation alert_state :: "Alert \<Rightarrow> bool list \<Rightarrow> bool \<times> int \<times> int" where
  "alert_state a bs \<equiv> foldl (alert_automaton a) (False, 0, 0) bs"

lemma alert_state_counters:
  "snd (alert_state a bs) =
     (int (length (takeWhile (\<lambda>b. \<not> b) (rev bs))), int (length (takeWhile (\<lambda>b. b) (rev bs))))"
proof (induction bs rule: rev_induct)
  case (snoc b bs)
  obtain t f n where st: "alert_state a bs = (t, f, n)" by (metis prod.exhaust)
  with snoc show ?case by (cases b) auto
qed simp

lemma alert_state_bound: "snd (alert_state a bs) = (f, n) \<Longrightarrow> 0 \<le> f \<and> f \<le> int (length bs) \<and> 0 \<le> n \<and> n \<le> int (length bs)"
  using alert_state_counters [of a bs] length_takeWhile_le [of "\<lambda>b. \<not> b" "rev bs"]
    length_takeWhile_le [of "\<lambda>b. b" "rev bs"] by auto

lemma alerting_run_automaton:
  assumes "alerting_run (\<lambda>env. ae_configured env \<and> reliable env (e_Group ep0) a \<and>
      ae_GetAlertingProvider env (al_Type a) \<noteq> None) ep0 (ep, s, tr, rs)"
    and "i < length (e_Alerts ep0)" and "a = e_Alerts ep0 ! i" and "IsEnabled a" and "\<not> al_Triggered a"
    and "e_NumberOfFailuresInARow ep0 = 0" and "e_NumberOfSuccessesInARow ep0 = 0"
    and "int (length rs) < 2 ^ 63"
  shows "(al_Triggered (e_Alerts ep ! i), e_NumberOfFailuresInARow ep, e_NumberOfSuccessesInARow ep) =
    alert_state a (outcomes_of rs)"
  using assms(1,8)
proof (induction "(ep, s, tr, rs)" arbitrary: ep s tr rs rule: alerting_run.induct)
  case start
  then show ?case using assms by (simp add: outcomes_of_def)
next
  case (elsewhere ep s tr rs s')
  then show ?case by blast
next
  case (handle ep s tr rs env r ep' s' ns)
  obtain t f n where st: "alert_state a (outcomes_of rs) = (t, f, n)" by (metis prod.exhaust)
  let ?a = "e_Alerts ep ! i"
  from handle st have now: "al_Triggered ?a = t" "e_NumberOfFailuresInARow ep = f"
    "e_NumberOfSuccessesInARow ep = n" by auto
  have i: "i < length (e_Alerts ep)" using alerting_run_length [OF handle.hyps(1)] assms(2) by simp
  have c: "same_config a ?a" using alerting_run_config [OF handle.hyps(1) assms(2)] assms(3) by simp
  note conf = same_config_simps [OF c]
  have "0 \<le> f \<and> f \<le> int (length rs) \<and> 0 \<le> n \<and> n \<le> int (length rs)"
    using alert_state_bound [of a "outcomes_of rs" f n] st by (simp add: outcomes_of_def)
  then have w: "wrap64 (f + 1) = f + 1" "wrap64 (n + 1) = n + 1"
    using handle.prems by (auto intro!: wrap64_id simp: in_int64_def min_int64_def max_int64_def)
  show ?case
  proof (cases "r_Success r")
    case True
    then have h: "handleAlertsToResolve env ep r s = (ep', s', ns)"
      using handle.hyps by (simp add: HandleAlerting_def)
    note eff = handleAlertsToResolve_effect [OF h]
    from eff(6) [OF i] have "al_Triggered (e_Alerts ep' ! i) \<longleftrightarrow> t \<and> n + 1 < al_SuccessThreshold a"
      using assms(4) by (auto simp: resolves_def resolve_due_def eff(1) now w conf split: if_splits)
    then show ?thesis using st True by (simp add: outcomes_of_def eff(1,2) now w)
  next
    case False
    then have h: "handleAlertsToTrigger env ep r s = (ep', s', ns)"
      using handle.hyps by (simp add: HandleAlerting_def)
    note eff = handleAlertsToTrigger_effect [OF h]
    have "reliable env (e_Group ep') ?a"
      using handle.hyps(3) HandleAlerting_Group [OF handle.hyps(4)] alerting_run_Group [OF handle.hyps(1)]
      by (auto intro: reliable_same_config [OF _ c])
    with eff(6) [OF i] have "al_Triggered (e_Alerts ep' ! i) \<longleftrightarrow> t \<or> al_FailureThreshold a \<le> f + 1"
      using assms(4) handle.hyps(3)
      by (auto simp: triggers_def trigger_due_def eff(2) now w conf split: if_splits)
    then show ?thesis using st False by (simp add: outcomes_of_def eff(1,2) now w)
  qed
qed

section \<open>An example\<close>

definition slack_alert :: Alert where
  "slack_alert = \<lparr>al_Type = ''slack'', al_Enabled = None, al_FailureThreshold = 2, al_SuccessThreshold = 1,
     al_MinimumReminderInterval = 0, al_Description = None, al_SendOnResolved = Some True,
     al_ProviderOverride = [], al_ResolveKey = [], al_Triggered = False\<rparr>"

definition watched_endpoint :: Endpoint where
  "watched_endpoint = example_endpoint\<lparr>e_Alerts := [slack_alert]\<rparr>"

definition slack_env ::
  "((string \<times> Status) list, (string \<times> Suite_Status) list) Store alerting_env" where
  "slack_env = \<lparr>ae_configured = True,
     ae_GetAlertingProvider = (\<lambda>ty. if ty = ''slack'' then Some (\<lambda>i ep a r resolved. (None, [])) else None),
     ae_now = (\<lambda>i. 100), ae_sent_at = (\<lambda>i. 100), ae_mock = False, ae_mock_error = False,
     ae_store = memory_iface list_cache list_cache\<rparr>"

definition failed_result :: Result where
  "failed_result = empty_Result\<lparr>r_Success := False\<rparr>"

definition ok_result :: Result where
  "ok_result = empty_Result\<lparr>r_Success := True\<rparr>"

lemma watched_simps [simp]:
  "e_Alerts watched_endpoint = [slack_alert]" "e_NumberOfFailuresInARow watched_endpoint = 0"
  "e_NumberOfSuccessesInARow watched_endpoint = 0" "r_Success failed_result = False" "r_Success ok_result"
  "al_Type slack_alert = ''slack''" "IsEnabled slack_alert" "IsSendingOnResolved slack_alert"
  "\<not> al_Triggered slack_alert" "al_FailureThreshold slack_alert = 2" "al_SuccessThreshold slack_alert = 1"
  "ae_configured slack_env" "reliable slack_env g a" "ae_GetAlertingProvider slack_env ''slack'' \<noteq> None"
  by (simp_all add: watched_endpoint_def example_endpoint_def empty_Endpoint_def slack_alert_def
      failed_result_def ok_result_def IsEnabled_def IsSendingOnResolved_def slack_env_def reliable_def
      send_trigger_def)

lemma alerting_run_mono:
  "alerting_run ok ep0 st \<Longrightarrow> (\<And>env. ok env \<Longrightarrow> ok' env) \<Longrightarrow> alerting_run ok' ep0 st"
  by (induction rule: alerting_run.induct) (auto intro: alerting_run.intros)

text \<open>A handling always ends, so there is a run for every list of results.\<close>

lemma alerting_run_exists: "ok env \<Longrightarrow> \<exists>ep s tr. alerting_run ok ep0 (ep, s, tr, rs)"
proof (induction rs rule: rev_induct)
  case (snoc r rs)
  then obtain ep s tr where run: "alerting_run ok ep0 (ep, s, tr, rs)" by blast
  obtain ep' s' ns where h: "HandleAlerting env ep r s = (ep', s', ns)" by (metis prod.exhaust)
  show ?case using alerting_run.handle [OF run snoc.prems h] by blast
qed (blast intro: alerting_run.start)

section \<open>Properties\<close>

text \<open>
  C7. A failed result counts one more failure in a row and no success, and attempts a notification
  for an alert, at most one, exactly when the alert is enabled, the failures have reached its
  threshold, its provider is configured and it either has not been triggered, which makes it an
  initial one, or is due for a reminder. The alert is triggered afterwards exactly when it was before
  or that attempt succeeded; nothing else of it but the resolve key changes.
\<close>

theorem failure_notifies_when_due:
  assumes "HandleAlerting env ep r s = (ep', s', ns)" and "ae_configured env" and "\<not> r_Success r"
    and "i < length (e_Alerts ep)"
  shows "e_NumberOfFailuresInARow ep' = wrap64 (e_NumberOfFailuresInARow ep + 1) \<and>
    e_NumberOfSuccessesInARow ep' = 0 \<and>
    (let a = e_Alerts ep ! i; a' = e_Alerts ep' ! i; mine = filter (\<lambda>n. n_alert n = i) ns;
         due = IsEnabled a \<and> al_FailureThreshold a \<le> wrap64 (e_NumberOfFailuresInARow ep + 1) \<and>
           (\<not> al_Triggered a \<or> 0 < al_MinimumReminderInterval a \<and>
             al_MinimumReminderInterval a \<le> Sub (ae_now env i) (e_LastReminderSent ep)) \<and>
           ae_GetAlertingProvider env (al_Type a) \<noteq> None
     in length mine = (if due then 1 else 0) \<and>
        (\<forall>n \<in> set mine. \<not> n_resolved n \<and> n_initial n = (\<not> al_Triggered a)) \<and>
        (al_Triggered a' \<longleftrightarrow> al_Triggered a \<or> (\<exists>n \<in> set mine. n_error n = None)) \<and> same_config a a')"
proof -
  have h: "handleAlertsToTrigger env ep r s = (ep', s', ns)"
    using assms(1-3) by (simp add: HandleAlerting_def)
  note eff = handleAlertsToTrigger_effect [OF h]
  define mine where "mine = filter (\<lambda>n. n_alert n = i) ns"
  from eff(6) [OF assms(4), folded mine_def] show ?thesis
    unfolding Let_def mine_def [symmetric] eff(1,2) by (auto simp: triggers_def trigger_due_def eff(1,2) split: if_splits)
qed

text \<open>
  C8. A success counts one more success in a row and no failure. An alert that is triggered,
  enabled and whose success threshold is reached is no longer triggered, whether or not its provider
  could be told, and its provider is told once exactly when it is configured and the alert sends on
  resolution; every other alert is left as it was and nothing is sent for it.
\<close>

theorem success_resolves_when_due:
  assumes "HandleAlerting env ep r s = (ep', s', ns)" and "ae_configured env" and "r_Success r"
    and "i < length (e_Alerts ep)"
  shows "e_NumberOfSuccessesInARow ep' = wrap64 (e_NumberOfSuccessesInARow ep + 1) \<and>
    e_NumberOfFailuresInARow ep' = 0 \<and>
    (let a = e_Alerts ep ! i; a' = e_Alerts ep' ! i; mine = filter (\<lambda>n. n_alert n = i) ns;
         due = IsEnabled a \<and> al_Triggered a \<and>
           al_SuccessThreshold a \<le> wrap64 (e_NumberOfSuccessesInARow ep + 1)
     in (if due then \<not> al_Triggered a' \<and> same_config a a' else a' = a) \<and>
        length mine = (if due \<and> IsSendingOnResolved a \<and> ae_GetAlertingProvider env (al_Type a) \<noteq> None
          then 1 else 0) \<and> (\<forall>n \<in> set mine. n_resolved n))"
proof -
  have h: "handleAlertsToResolve env ep r s = (ep', s', ns)"
    using assms(1-3) by (simp add: HandleAlerting_def)
  note eff = handleAlertsToResolve_effect [OF h]
  define mine where "mine = filter (\<lambda>n. n_alert n = i) ns"
  from eff(6) [OF assms(4), folded mine_def] show ?thesis
    unfolding Let_def mine_def [symmetric] eff(1,2) by (auto simp: resolves_def resolve_due_def eff(1,2) split: if_splits)
qed

text \<open>
  C1. With a provider that never fails to send an alert of its configuration, an enabled alert of a fresh endpoint lives through any
  run as the automaton over the outcomes says: it is triggered by the failure that reaches the failure
  threshold in a row and resolved by the success that reaches the success threshold, and the counters
  are the lengths of the last runs of failures and successes.
\<close>

theorem alerting_refines_automaton:
  assumes "alerting_run (\<lambda>env. ae_configured env \<and> reliable env (e_Group ep0) a \<and>
      ae_GetAlertingProvider env (al_Type a) \<noteq> None) ep0 (ep, s, tr, rs)"
    and "i < length (e_Alerts ep0)" and "a = e_Alerts ep0 ! i" and "IsEnabled a" and "\<not> al_Triggered a"
    and "e_NumberOfFailuresInARow ep0 = 0" and "e_NumberOfSuccessesInARow ep0 = 0"
    and "int (length rs) < 2 ^ 63"
  shows "(al_Triggered (e_Alerts ep ! i), e_NumberOfFailuresInARow ep, e_NumberOfSuccessesInARow ep) =
    alert_state a (outcomes_of rs)"
  using assms by (rule alerting_run_automaton)

text \<open>
  C9. Along any run, whatever fails to be sent and whatever the reminders, the successful
  initial notifications and the resolution notifications of an enabled alert that sends on
  resolution alternate, starting with an initial one, and the alert is triggered exactly between them.
\<close>

theorem initial_and_resolved_alternate:
  assumes "alerting_run (\<lambda>env. ae_GetAlertingProvider env (al_Type a) \<noteq> None) ep0 (ep, s, tr, rs)"
    and "i < length (e_Alerts ep0)" and "a = e_Alerts ep0 ! i" and "IsSendingOnResolved a" and "\<not> al_Triggered a"
  shows "let events = filter (\<lambda>n. n_alert n = i \<and> (n_resolved n \<or> n_initial n \<and> n_error n = None)) tr
    in successively (\<lambda>x y. n_resolved x \<noteq> n_resolved y) events \<and>
       (events \<noteq> [] \<longrightarrow> \<not> n_resolved (hd events)) \<and>
       (al_Triggered (e_Alerts ep ! i) \<longleftrightarrow> events \<noteq> [] \<and> \<not> n_resolved (last events))"
  using assms(1)
proof (induction "(ep, s, tr, rs)" arbitrary: ep s tr rs rule: alerting_run.induct)
  case start
  then show ?case using assms by simp
next
  case (elsewhere ep s tr rs s')
  then show ?case by blast
next
  case (handle ep s tr rs env r ep' s' ns)
  let ?sig = "\<lambda>n. n_resolved n \<or> n_initial n \<and> n_error n = None"
  let ?a = "e_Alerts ep ! i"
  define mine where "mine = filter (\<lambda>n. n_alert n = i) ns"
  have split: "filter (\<lambda>n. n_alert n = i \<and> ?sig n) xs = filter ?sig (filter (\<lambda>n. n_alert n = i) xs)" for xs
    by (simp add: conj_commute)
  have i: "i < length (e_Alerts ep)" using alerting_run_length [OF handle.hyps(1)] assms(2) by simp
  have c: "same_config a ?a" using alerting_run_config [OF handle.hyps(1) assms(2)] assms(3) by simp
  note conf = same_config_simps [OF c]
  have "filter ?sig mine = [] \<and> al_Triggered (e_Alerts ep' ! i) = al_Triggered ?a \<or>
    (\<exists>n. filter ?sig mine = [n] \<and> n_resolved n = al_Triggered ?a \<and> al_Triggered (e_Alerts ep' ! i) = (\<not> n_resolved n))"
  proof -
    consider (off) "\<not> ae_configured env" | (ok) "ae_configured env" "r_Success r" | (ko) "ae_configured env" "\<not> r_Success r"
      by blast
    then show ?thesis
    proof cases
      case off
      then show ?thesis using handle.hyps by (simp add: HandleAlerting_def mine_def)
    next
      case ok
      then have h: "handleAlertsToResolve env ep r s = (ep', s', ns)"
        using handle.hyps by (simp add: HandleAlerting_def)
      from handleAlertsToResolve_effect(6) [OF h i, folded mine_def] show ?thesis
        using assms(4) handle.hyps(3) by (auto simp: resolves_def resolve_due_def conf split: if_splits)
    next
      case ko
      then have h: "handleAlertsToTrigger env ep r s = (ep', s', ns)"
        using handle.hyps by (simp add: HandleAlerting_def)
      from handleAlertsToTrigger_effect(6) [OF h i, folded mine_def] show ?thesis
        by (cases "al_Triggered ?a") (auto simp: triggers_def split: if_splits)
    qed
  qed
  moreover define ev where "ev = filter ?sig (filter (\<lambda>n. n_alert n = i) tr)"
  moreover have "successively (\<lambda>x y. n_resolved x \<noteq> n_resolved y) ev \<and> (ev \<noteq> [] \<longrightarrow> \<not> n_resolved (hd ev)) \<and>
      (al_Triggered ?a \<longleftrightarrow> ev \<noteq> [] \<and> \<not> n_resolved (last ev))"
    using handle.hyps(2) unfolding Let_def split ev_def .
  ultimately show ?case
    unfolding Let_def split filter_append mine_def [symmetric] ev_def [symmetric]
    by (cases "ev = []") (auto simp: successively_append_iff)
qed

theorem failure_notifies_when_due_witness:
  "\<exists>ep' s' ns. HandleAlerting slack_env (watched_endpoint\<lparr>e_NumberOfFailuresInARow := 1\<rparr>) failed_result
      (new_store 5 5) = (ep', s', ns) \<and> e_NumberOfFailuresInARow ep' = 2 \<and>
      length (filter (\<lambda>n. n_alert n = 0) ns) = 1"
proof -
  obtain ep' s' ns where h: "HandleAlerting slack_env (watched_endpoint\<lparr>e_NumberOfFailuresInARow := 1\<rparr>)
    failed_result (new_store 5 5) = (ep', s', ns)" by (metis prod.exhaust)
  have "wrap64 2 = 2" by code_simp
  with failure_notifies_when_due [OF h, of 0] h show ?thesis by (simp add: Let_def)
qed

theorem success_resolves_when_due_witness:
  "\<exists>ep' s' ns. HandleAlerting slack_env
      (watched_endpoint\<lparr>e_Alerts := [slack_alert\<lparr>al_Triggered := True\<rparr>]\<rparr>) ok_result
      (new_store 5 5) = (ep', s', ns) \<and> \<not> al_Triggered (e_Alerts ep' ! 0) \<and>
      length (filter (\<lambda>n. n_alert n = 0) ns) = 1"
proof -
  let ?ep = "watched_endpoint\<lparr>e_Alerts := [slack_alert\<lparr>al_Triggered := True\<rparr>]\<rparr>"
  obtain ep' s' ns where h: "HandleAlerting slack_env ?ep ok_result (new_store 5 5) = (ep', s', ns)"
    by (metis prod.exhaust)
  have "wrap64 1 = 1" by code_simp
  moreover have "IsEnabled (slack_alert\<lparr>al_Triggered := True\<rparr>)"
    "IsSendingOnResolved (slack_alert\<lparr>al_Triggered := True\<rparr>)"
    by (simp_all add: slack_alert_def IsEnabled_def IsSendingOnResolved_def)
  ultimately show ?thesis
    using success_resolves_when_due [OF h, of 0] h by (simp add: Let_def)
qed

theorem alerting_refines_automaton_witness:
  "\<exists>ep s tr. alerting_run (\<lambda>env. env = slack_env) watched_endpoint
      (ep, s, tr, [failed_result, failed_result, failed_result]) \<and>
    al_Triggered (e_Alerts ep ! 0) \<and> e_NumberOfFailuresInARow ep = 3"
proof -
  let ?ok = "\<lambda>env. ae_configured env \<and> reliable env (e_Group watched_endpoint) slack_alert \<and>
    ae_GetAlertingProvider env (al_Type slack_alert) \<noteq> None"
  obtain ep s tr where run: "alerting_run (\<lambda>env. env = slack_env) watched_endpoint
      (ep, s, tr, [failed_result, failed_result, failed_result])"
    using alerting_run_exists [of "\<lambda>env. env = slack_env" slack_env watched_endpoint] by blast
  then have "alerting_run ?ok watched_endpoint (ep, s, tr, [failed_result, failed_result, failed_result])"
    by (rule alerting_run_mono) simp
  from alerting_refines_automaton [OF this, of 0] run show ?thesis
    by (auto simp: outcomes_of_def)
qed

theorem initial_and_resolved_alternate_witness:
  "\<exists>ep s tr. alerting_run (\<lambda>env. env = slack_env) watched_endpoint (ep, s, tr, [failed_result, failed_result, ok_result]) \<and>
    successively (\<lambda>x y. n_resolved x \<noteq> n_resolved y)
      (filter (\<lambda>n. n_alert n = 0 \<and> (n_resolved n \<or> n_initial n \<and> n_error n = None)) tr)"
proof -
  obtain ep s tr where run: "alerting_run (\<lambda>env. env = slack_env) watched_endpoint
      (ep, s, tr, [failed_result, failed_result, ok_result])"
    using alerting_run_exists [of "\<lambda>env. env = slack_env" slack_env watched_endpoint] by blast
  then have "alerting_run (\<lambda>env. ae_GetAlertingProvider env (al_Type slack_alert) \<noteq> None) watched_endpoint
      (ep, s, tr, [failed_result, failed_result, ok_result])"
    by (rule alerting_run_mono) simp
  from initial_and_resolved_alternate [OF this, of 0] run show ?thesis
    by (auto simp: Let_def)
qed

end
