(* ===== verification/Config_Parts.thy ===== *)
theory Config_Parts
  imports Storage
begin

text \<open>
  The smaller sections of the configuration: \<open>config/web/\<close>, \<open>config/ui/\<close>,
  \<open>config/announcement/\<close>, \<open>config/connectivity/\<close> and \<open>config/remote/\<close>, with
  their defaults and validation. Loading a key pair and executing the page template are arguments;
  an error of theirs is a text.
\<close>

section \<open>Web\<close>

record Web_TLSConfig =
  wt_CertificateFile :: string
  wt_PrivateKeyFile :: string

record Web_Config =
  w_Address :: string
  w_Port :: int
  w_ReadBufferSize :: int
  w_TLS :: "Web_TLSConfig option"

definition DefaultAddress :: string where "DefaultAddress = ''0.0.0.0''"
definition DefaultPort :: int where "DefaultPort = 8080"
definition DefaultReadBufferSize :: int where "DefaultReadBufferSize = 8192"
definition MinimumReadBufferSize :: int where "MinimumReadBufferSize = 4096"

datatype web_error = ErrInvalidPort | ErrInvalidTLSConfig string

definition Web_GetDefaultConfig :: Web_Config where
  "Web_GetDefaultConfig =
     \<lparr>w_Address = DefaultAddress, w_Port = DefaultPort, w_ReadBufferSize = DefaultReadBufferSize, w_TLS = None\<rparr>"

definition Web_TLSConfig_isValid :: "(string \<Rightarrow> string \<Rightarrow> string option) \<Rightarrow> Web_TLSConfig \<Rightarrow> string option" where
  "Web_TLSConfig_isValid LoadX509KeyPair t =
     (if 0 < length (wt_CertificateFile t) \<and> 0 < length (wt_PrivateKeyFile t)
      then LoadX509KeyPair (wt_CertificateFile t) (wt_PrivateKeyFile t)
      else Some ''certificate-file and private-key-file must be specified'')"

definition Web_ValidateAndSetDefaults ::
  "(string \<Rightarrow> string \<Rightarrow> string option) \<Rightarrow> Web_Config \<Rightarrow> web_error option \<times> Web_Config" where
  "Web_ValidateAndSetDefaults LoadX509KeyPair c0 =
     (let c = (if w_Address c0 = [] then c0\<lparr>w_Address := DefaultAddress\<rparr> else c0)
      in if w_Port c \<noteq> 0 \<and> (w_Port c < 0 \<or> 65535 < w_Port c) then (Some ErrInvalidPort, c)
         else
           let c = (if w_Port c = 0 then c\<lparr>w_Port := DefaultPort\<rparr> else c);
               c = (if w_ReadBufferSize c = 0 then c\<lparr>w_ReadBufferSize := DefaultReadBufferSize\<rparr>
                    else if w_ReadBufferSize c < MinimumReadBufferSize
                    then c\<lparr>w_ReadBufferSize := MinimumReadBufferSize\<rparr> else c)
           in case w_TLS c of
                None \<Rightarrow> (None, c)
              | Some t \<Rightarrow> (map_option ErrInvalidTLSConfig (Web_TLSConfig_isValid LoadX509KeyPair t), c))"

definition HasTLS :: "Web_Config \<Rightarrow> bool" where
  "HasTLS c \<longleftrightarrow>
     (case w_TLS c of None \<Rightarrow> False
      | Some t \<Rightarrow> 0 < length (wt_CertificateFile t) \<and> 0 < length (wt_PrivateKeyFile t))"

definition SocketAddress :: "Web_Config \<Rightarrow> string" where
  "SocketAddress c = w_Address c @ '':'' @ Itoa (w_Port c)"

section \<open>User interface\<close>

record Button =
  bt_Name :: string
  bt_Link :: string

record Favicon =
  fv_Default :: string
  fv_Size16x16 :: string
  fv_Size32x32 :: string

record Page_Config =
  pg_Title :: string
  pg_Description :: string
  pg_DashboardHeading :: string
  pg_DashboardSubheading :: string
  pg_Header :: string
  pg_Logo :: string
  pg_Link :: string
  pg_Favicon :: Favicon
  pg_Buttons :: "Button list"
  pg_CustomCSS :: string
  pg_DarkMode :: "bool option"
  pg_DefaultSortBy :: string
  pg_DefaultFilterBy :: string
  pg_SingleEndpoint :: string
  pg_LoginSubtitle :: string
  pg_UptimeStatistics :: "bool option"
  pg_CurrentHealth :: "bool option"
  pg_ResponseTimeTrend :: "bool option"
  pg_Events :: "bool option"
  pg_ResponseTimeBadgePeriods :: "string list option"
  pg_MaximumNumberOfResults :: int

datatype page_error =
    ErrButtonValidationFailed
  | ErrInvalidDefaultSortBy
  | ErrInvalidDefaultFilterBy
  | ErrInvalidResponseTimeBadgePeriod
  | ErrTemplate string

definition defaultTitle :: string where "defaultTitle = ''Health Dashboard | Gatus''"
definition defaultDescription :: string where
  "defaultDescription = ''Gatus is an advanced automated status page that lets you monitor your applications and configure alerts to notify you if there's an issue''"
definition defaultHeader :: string where "defaultHeader = ''Gatus''"
definition defaultDashboardHeading :: string where "defaultDashboardHeading = ''Health Dashboard''"
definition defaultDashboardSubheading :: string where
  "defaultDashboardSubheading = ''Monitor the health of your endpoints in real-time''"
definition defaultFavicon :: Favicon where
  "defaultFavicon = \<lparr>fv_Default = ''/favicon.ico'', fv_Size16x16 = ''/favicon-16x16.png'',
     fv_Size32x32 = ''/favicon-32x32.png''\<rparr>"
definition defaultSortBy :: string where "defaultSortBy = ''name''"
definition defaultFilterBy :: string where "defaultFilterBy = ''none''"
definition defaultLoginSubtitle :: string where "defaultLoginSubtitle = ''System Monitoring Dashboard''"
definition defaultResponseTimeBadgePeriods :: "string list" where
  "defaultResponseTimeBadgePeriods = [''30d'', ''7d'', ''24h'', ''1h'']"

definition Page_GetDefaultConfig :: Page_Config where
  "Page_GetDefaultConfig =
     \<lparr>pg_Title = defaultTitle, pg_Description = defaultDescription,
      pg_DashboardHeading = defaultDashboardHeading, pg_DashboardSubheading = defaultDashboardSubheading,
      pg_Header = defaultHeader, pg_Logo = [], pg_Link = [], pg_Favicon = defaultFavicon, pg_Buttons = [],
      pg_CustomCSS = [], pg_DarkMode = Some True, pg_DefaultSortBy = defaultSortBy,
      pg_DefaultFilterBy = defaultFilterBy, pg_SingleEndpoint = [], pg_LoginSubtitle = defaultLoginSubtitle,
      pg_UptimeStatistics = Some True, pg_CurrentHealth = Some True, pg_ResponseTimeTrend = Some True,
      pg_Events = Some True, pg_ResponseTimeBadgePeriods = Some defaultResponseTimeBadgePeriods,
      pg_MaximumNumberOfResults = DefaultMaximumNumberOfResults\<rparr>"

definition Button_Validate :: "Button \<Rightarrow> page_error option" where
  "Button_Validate b = (if bt_Name b = [] \<or> bt_Link b = [] then Some ErrButtonValidationFailed else None)"

fun validate_buttons :: "Button list \<Rightarrow> page_error option" where
  "validate_buttons [] = None"
| "validate_buttons (b # bs) = (case Button_Validate b of Some e \<Rightarrow> Some e | None \<Rightarrow> validate_buttons bs)"

text \<open>The loop over the periods, with those seen so far.\<close>

fun validate_periods :: "string list \<Rightarrow> string list \<Rightarrow> page_error option" where
  "validate_periods seen [] = None"
| "validate_periods seen (p # ps) =
     (if p \<notin> {''30d'', ''7d'', ''24h'', ''1h''} then Some ErrInvalidResponseTimeBadgePeriod
      else if p \<in> set seen then Some ErrInvalidResponseTimeBadgePeriod
      else validate_periods (p # seen) ps)"

definition or_default :: "string \<Rightarrow> string \<Rightarrow> string" where
  "or_default d s = (if s = [] then d else s)"

definition or_true :: "bool option \<Rightarrow> bool option" where
  "or_true b = (if b = None then Some True else b)"

definition page_texts :: "Page_Config \<Rightarrow> Page_Config" where
  "page_texts c =
     c\<lparr>pg_Title := or_default defaultTitle (pg_Title c),
       pg_Description := or_default defaultDescription (pg_Description c),
       pg_DashboardHeading := or_default defaultDashboardHeading (pg_DashboardHeading c),
       pg_DashboardSubheading := or_default defaultDashboardSubheading (pg_DashboardSubheading c),
       pg_Header := or_default defaultHeader (pg_Header c), pg_DarkMode := or_true (pg_DarkMode c)\<rparr>"

definition page_sections :: "Page_Config \<Rightarrow> Page_Config" where
  "page_sections c =
     c\<lparr>pg_LoginSubtitle := or_default defaultLoginSubtitle (pg_LoginSubtitle c),
       pg_UptimeStatistics := or_true (pg_UptimeStatistics c), pg_CurrentHealth := or_true (pg_CurrentHealth c),
       pg_ResponseTimeTrend := or_true (pg_ResponseTimeTrend c), pg_Events := or_true (pg_Events c),
       pg_ResponseTimeBadgePeriods :=
         (if pg_ResponseTimeBadgePeriods c = None then Some defaultResponseTimeBadgePeriods
          else pg_ResponseTimeBadgePeriods c)\<rparr>"

definition page_favicon :: "Page_Config \<Rightarrow> Page_Config" where
  "page_favicon c =
     c\<lparr>pg_Favicon := \<lparr>fv_Default = or_default (fv_Default defaultFavicon) (fv_Default (pg_Favicon c)),
         fv_Size16x16 = or_default (fv_Size16x16 defaultFavicon) (fv_Size16x16 (pg_Favicon c)),
         fv_Size32x32 = or_default (fv_Size32x32 defaultFavicon) (fv_Size32x32 (pg_Favicon c))\<rparr>\<rparr>"

definition Page_ValidateAndSetDefaults ::
  "(Page_Config \<Rightarrow> string option) \<Rightarrow> (page_error, Page_Config) step" where
  "Page_ValidateAndSetDefaults render =
     run_steps
       [modify page_texts,
        check (\<lambda>c. if pg_DefaultSortBy c \<notin> {[], ''name'', ''group'', ''health''}
                   then Some ErrInvalidDefaultSortBy else None),
        modify (\<lambda>c. c\<lparr>pg_DefaultSortBy := or_default defaultSortBy (pg_DefaultSortBy c)\<rparr>),
        check (\<lambda>c. if pg_DefaultFilterBy c \<notin> {[], ''none'', ''failing'', ''unstable''}
                   then Some ErrInvalidDefaultFilterBy else None),
        modify (\<lambda>c. c\<lparr>pg_DefaultFilterBy := or_default defaultFilterBy (pg_DefaultFilterBy c)\<rparr>),
        modify page_sections,
        check (\<lambda>c. validate_periods [] (case pg_ResponseTimeBadgePeriods c of None \<Rightarrow> [] | Some ps \<Rightarrow> ps)),
        modify page_favicon,
        check (\<lambda>c. validate_buttons (pg_Buttons c)),
        check (\<lambda>c. map_option ErrTemplate (render c))]"

definition IsDarkMode :: "Page_Config \<Rightarrow> bool" where
  "IsDarkMode c = (case pg_DarkMode c of Some b \<Rightarrow> b | None \<Rightarrow> True)"

definition IsUptimeStatisticsEnabled :: "Page_Config \<Rightarrow> bool" where
  "IsUptimeStatisticsEnabled c = (case pg_UptimeStatistics c of Some b \<Rightarrow> b | None \<Rightarrow> True)"

definition IsCurrentHealthEnabled :: "Page_Config \<Rightarrow> bool" where
  "IsCurrentHealthEnabled c = (case pg_CurrentHealth c of Some b \<Rightarrow> b | None \<Rightarrow> True)"

definition IsResponseTimeTrendEnabled :: "Page_Config \<Rightarrow> bool" where
  "IsResponseTimeTrendEnabled c = (case pg_ResponseTimeTrend c of Some b \<Rightarrow> b | None \<Rightarrow> True)"

definition IsEventsEnabled :: "Page_Config \<Rightarrow> bool" where
  "IsEventsEnabled c = (case pg_Events c of Some b \<Rightarrow> b | None \<Rightarrow> True)"

definition ResponseTimeBadgePeriodsCSV :: "Page_Config \<Rightarrow> string" where
  "ResponseTimeBadgePeriodsCSV c =
     Join (case pg_ResponseTimeBadgePeriods c of None \<Rightarrow> [] | Some ps \<Rightarrow> ps) '',''"

section \<open>Announcements\<close>

record Announcement =
  an_Timestamp :: instant
  an_Type :: string
  an_Message :: string
  an_Archived :: bool

datatype announcement_error = ErrInvalidAnnouncementType | ErrEmptyMessage | ErrMissingTimestamp

definition TypeNone :: string where "TypeNone = ''none''"

definition validTypes :: "string list" where
  "validTypes = [''outage'', ''warning'', ''information'', ''operational'', TypeNone]"

definition Announcement_ValidateAndSetDefaults ::
  "Announcement \<Rightarrow> announcement_error option \<times> Announcement" where
  "Announcement_ValidateAndSetDefaults a0 =
     (if an_Message a0 = [] then (Some ErrEmptyMessage, a0)
      else
        let a = (if an_Type a0 = [] then a0\<lparr>an_Type := TypeNone\<rparr> else a0)
        in if an_Type a \<notin> set validTypes then (Some ErrInvalidAnnouncementType, a)
           else if an_Timestamp a = zero_time then (Some ErrMissingTimestamp, a)
           else (None, a))"

definition Announcements_ValidateAndSetDefaults ::
  "Announcement list \<Rightarrow> announcement_error option \<times> Announcement list" where
  "Announcements_ValidateAndSetDefaults as = first_error Announcement_ValidateAndSetDefaults as"

text \<open>The newest first. The sort of the source leaves the order of equal times open; this one is stable.\<close>

definition SortByTimestamp :: "Announcement list \<Rightarrow> Announcement list" where
  "SortByTimestamp as = sort_key (\<lambda>a. - an_Timestamp a) as"

section \<open>Connectivity\<close>

record Checker =
  ck_Target :: string
  ck_Interval :: duration
  ck_isConnected :: bool
  ck_lastCheck :: instant

record Connectivity_Config =
  cn_Checker :: "Checker option"

datatype connectivity_error = ErrInvalidInterval | ErrInvalidDNSTarget

definition Connectivity_ValidateAndSetDefaults ::
  "Connectivity_Config \<Rightarrow> connectivity_error option \<times> Connectivity_Config" where
  "Connectivity_ValidateAndSetDefaults c =
     (case cn_Checker c of
        None \<Rightarrow> (None, c)
      | Some k \<Rightarrow>
          if ck_Interval k \<noteq> 0 \<and> ck_Interval k < 5 * second then (Some ErrInvalidInterval, c)
          else
            let k = (if ck_Interval k = 0 then k\<lparr>ck_Interval := 60 * second\<rparr> else k)
            in (if \<not> HasSuffix (ck_Target k) '':53'' then Some ErrInvalidDNSTarget else None,
                c\<lparr>cn_Checker := Some k\<rparr>))"

text \<open>The answer of the checker and the checker after it, given the clock and what a check would find.\<close>

definition IsConnected :: "instant \<Rightarrow> bool \<Rightarrow> Checker \<Rightarrow> bool \<times> Checker" where
  "IsConnected now found k =
     (let k = (if ck_lastCheck k + ck_Interval k < now then k\<lparr>ck_lastCheck := now, ck_isConnected := found\<rparr> else k)
      in (ck_isConnected k, k))"

section \<open>Remote instances\<close>

record Instance =
  in_EndpointPrefix :: string
  in_URL :: string

record Remote_Config =
  rm_Instances :: "Instance list"
  rm_ClientConfig :: "Client_Config option"

definition Remote_ValidateAndSetDefaults ::
  "(string \<Rightarrow> string \<Rightarrow> string option) \<Rightarrow> Remote_Config \<Rightarrow> client_error option \<times> Remote_Config" where
  "Remote_ValidateAndSetDefaults LoadX509KeyPair c =
     (case rm_ClientConfig c of
        None \<Rightarrow> (None, c\<lparr>rm_ClientConfig := Some Client_GetDefaultConfig\<rparr>)
      | Some cl \<Rightarrow>
          (case Client_ValidateAndSetDefaults LoadX509KeyPair cl of
             (err, cl') \<Rightarrow> (err, c\<lparr>rm_ClientConfig := Some cl'\<rparr>)))"

end
