(* ===== verification/Security.thy ===== *)
theory Security
  imports Go_Time
begin

text \<open>
  \<open>security/\<close>: basic authentication and OpenID Connect. What is decided here is modelled: the
  validation of the configuration, the check of a request by the middleware, and the callback that
  creates a session. The HTTP server, bcrypt, base64, the OpenID Connect library, the generator of
  identifiers and the session cache are parameters; what is relied on of the cache is the locale
  \<open>session_cache\<close>.
\<close>

section \<open>Configuration\<close>

record BasicConfig =
  ba_Username :: string
  ba_PasswordBcryptHashBase64Encoded :: string

record OIDCConfig =
  oi_IssuerURL :: string
  oi_RedirectURL :: string
  oi_ClientID :: string
  oi_ClientSecret :: string
  oi_Scopes :: "string list"
  oi_AllowedSubjects :: "string list"
  oi_SessionTTL :: duration

record Security_Config =
  sec_Basic :: "BasicConfig option"
  sec_OIDC :: "OIDCConfig option"

definition DefaultOIDCSessionTTL :: duration where "DefaultOIDCSessionTTL = 8 * hour"

definition BasicConfig_isValid :: "BasicConfig \<Rightarrow> bool" where
  "BasicConfig_isValid c \<longleftrightarrow>
     0 < length (ba_Username c) \<and> 0 < length (ba_PasswordBcryptHashBase64Encoded c)"

definition OIDC_ValidateAndSetDefaults :: "OIDCConfig \<Rightarrow> bool \<times> OIDCConfig" where
  "OIDC_ValidateAndSetDefaults c0 =
     (let c = (if oi_SessionTTL c0 \<le> 0 then c0\<lparr>oi_SessionTTL := DefaultOIDCSessionTTL\<rparr> else c0)
      in (0 < length (oi_IssuerURL c) \<and> 0 < length (oi_RedirectURL c) \<and>
          HasSuffix (oi_RedirectURL c) ''/authorization-code/callback'' \<and>
          0 < length (oi_ClientID c) \<and> 0 < length (oi_ClientSecret c) \<and> 0 < length (oi_Scopes c), c))"

text \<open>The second half of the conjunction, which sets a default, is not evaluated when the first fails.\<close>

definition Security_ValidateAndSetDefaults :: "Security_Config \<Rightarrow> bool \<times> Security_Config" where
  "Security_ValidateAndSetDefaults c =
     (if \<not> (case sec_Basic c of None \<Rightarrow> True | Some b \<Rightarrow> BasicConfig_isValid b) then (False, c)
      else case sec_OIDC c of
             None \<Rightarrow> (True, c)
           | Some o1 \<Rightarrow> (case OIDC_ValidateAndSetDefaults o1 of (ok, o2) \<Rightarrow> (ok, c\<lparr>sec_OIDC := Some o2\<rparr>)))"

section \<open>Sessions\<close>

text \<open>
  The cache of sessions: the subject under the identifier of the session, for a time. Reading
  depends on the clock.
\<close>

record 'c session_ops =
  ss_Get :: "'c \<Rightarrow> instant \<Rightarrow> string \<Rightarrow> string option"
  ss_SetWithTTL :: "'c \<Rightarrow> instant \<Rightarrow> string \<Rightarrow> string \<Rightarrow> duration \<Rightarrow> 'c"

locale session_cache =
  fixes ops :: "'c session_ops"
  assumes Get_Set: "ss_Get ops (ss_SetWithTTL ops c now k v ttl) t k' =
      (if k' = k then (if t \<le> now + ttl then Some v else None) else ss_Get ops c t k')"

definition cookieNameState :: string where "cookieNameState = ''gatus_state''"
definition cookieNameNonce :: string where "cookieNameNonce = ''gatus_nonce''"
definition cookieNameSession :: string where "cookieNameSession = ''gatus_session''"

text \<open>What is read of a request.\<close>

record http_request_in =
  rq_query :: "string \<Rightarrow> string"
  rq_cookie :: "string \<Rightarrow> string option"
  rq_basic :: "(string \<times> string) option"

section \<open>The middleware\<close>

record auth_lib =
  au_base64 :: "string \<Rightarrow> string option"
  au_CompareHashAndPassword :: "string \<Rightarrow> string \<Rightarrow> bool"

text \<open>
  The middleware as a predicate on requests: with OpenID Connect the session cookie must be that of a
  session, with basic authentication the authoriser is asked; without either there is no
  middleware. The result is None when the password hash cannot be decoded.
\<close>

definition session_token :: "http_request_in \<Rightarrow> string" where
  "session_token rq = (case rq_cookie rq cookieNameSession of None \<Rightarrow> [] | Some v \<Rightarrow> v)"

definition basic_authorizer ::
  "auth_lib \<Rightarrow> BasicConfig \<Rightarrow> string \<Rightarrow> string \<Rightarrow> string \<Rightarrow> bool" where
  "basic_authorizer lib b decodedBcryptHash username password =
     (if 0 < length (ba_PasswordBcryptHashBase64Encoded b)
      then \<not> (username \<noteq> ba_Username b \<or> \<not> au_CompareHashAndPassword lib decodedBcryptHash password)
      else True)"

definition ApplySecurityMiddleware ::
  "auth_lib \<Rightarrow> 'c session_ops \<Rightarrow> Security_Config \<Rightarrow> ('c \<Rightarrow> instant \<Rightarrow> http_request_in \<Rightarrow> bool) option" where
  "ApplySecurityMiddleware lib ops c =
     (if sec_OIDC c \<noteq> None then
        Some (\<lambda>sessions now rq. ss_Get ops sessions now (session_token rq) \<noteq> None)
      else case sec_Basic c of
             None \<Rightarrow> Some (\<lambda>sessions now rq. True)
           | Some b \<Rightarrow>
               (case (if 0 < length (ba_PasswordBcryptHashBase64Encoded b)
                      then au_base64 lib (ba_PasswordBcryptHashBase64Encoded b) else Some []) of
                  None \<Rightarrow> None
                | Some decoded \<Rightarrow>
                    Some (\<lambda>sessions now rq.
                      case rq_basic rq of
                        None \<Rightarrow> False
                      | Some (username, password) \<Rightarrow> basic_authorizer lib b decoded username password)))"

text \<open>
  Whether the user interface shows the user as logged in: without OpenID Connect there is no gate,
  and the answer is no.
\<close>

definition IsAuthenticated :: "'c session_ops \<Rightarrow> Security_Config \<Rightarrow> 'c \<Rightarrow> instant \<Rightarrow> http_request_in \<Rightarrow> bool" where
  "IsAuthenticated ops c sessions now rq =
     (if sec_OIDC c \<noteq> None then ss_Get ops sessions now (session_token rq) \<noteq> None else False)"

section \<open>The callback\<close>

record id_token =
  it_Subject :: string
  it_Nonce :: string

text \<open>The exchange of the code yields the raw identity token, if the answer has one.\<close>

record oidc_lib =
  ol_Exchange :: "string \<Rightarrow> string + string option"
  ol_Verify :: "string \<Rightarrow> string + id_token"

datatype callback_response = HTTP_Error string nat | HTTP_Redirect string "(string \<times> duration) option"

text \<open>The session cookie that comes with a redirection: the identifier and the time it lives.\<close>

definition setSessionCookie ::
  "'c session_ops \<Rightarrow> OIDCConfig \<Rightarrow> string \<Rightarrow> instant \<Rightarrow> id_token \<Rightarrow> 'c \<Rightarrow> (string \<times> duration) \<times> 'c" where
  "setSessionCookie ops c sessionID now idToken sessions =
     ((sessionID, oi_SessionTTL c),
      ss_SetWithTTL ops sessions now sessionID (it_Subject idToken) (oi_SessionTTL c))"

definition subject_allowed :: "OIDCConfig \<Rightarrow> id_token \<Rightarrow> bool" where
  "subject_allowed c idToken \<longleftrightarrow>
     oi_AllowedSubjects c = [] \<or>
     list_ex (\<lambda>s. ToLower s = ToLower (it_Subject idToken)) (oi_AllowedSubjects c)"

definition callbackHandler ::
  "'c session_ops \<Rightarrow> oidc_lib \<Rightarrow> OIDCConfig \<Rightarrow> string \<Rightarrow> instant \<Rightarrow> http_request_in \<Rightarrow> 'c \<Rightarrow>
   callback_response \<times> 'c" where
  "callbackHandler ops lib c sessionID now rq sessions =
     (if 0 < length (rq_query rq ''error'') then
        (HTTP_Error (rq_query rq ''error'' @ '': '' @ rq_query rq ''error_description'') 400, sessions)
      else case rq_cookie rq cookieNameState of
             None \<Rightarrow> (HTTP_Error ''state not found'' 400, sessions)
           | Some state \<Rightarrow>
               if rq_query rq ''state'' \<noteq> state then (HTTP_Error ''state did not match'' 400, sessions)
               else case ol_Exchange lib (rq_query rq ''code'') of
                      Inl err \<Rightarrow> (HTTP_Error (''Error exchanging token: '' @ err) 500, sessions)
                    | Inr None \<Rightarrow> (HTTP_Error ''Missing 'id_token' in oauth2 token'' 500, sessions)
                    | Inr (Some rawIDToken) \<Rightarrow>
                        (case ol_Verify lib rawIDToken of
                           Inl err \<Rightarrow> (HTTP_Error (''Failed to verify id_token: '' @ err) 500, sessions)
                         | Inr idToken \<Rightarrow>
                             (case rq_cookie rq cookieNameNonce of
                                None \<Rightarrow> (HTTP_Error ''nonce not found'' 400, sessions)
                              | Some nonce \<Rightarrow>
                                  if it_Nonce idToken \<noteq> nonce
                                    then (HTTP_Error ''nonce did not match'' 400, sessions)
                                  else if subject_allowed c idToken
                                    then (case setSessionCookie ops c sessionID now idToken sessions of
                                            (cookie, sessions') \<Rightarrow> (HTTP_Redirect ''/'' (Some cookie), sessions'))
                                  else (HTTP_Redirect ''/?error=access_denied'' None, sessions))))"

section \<open>A cache of sessions\<close>

definition list_sessions :: "(string \<times> string \<times> instant) list session_ops" where
  "list_sessions =
     \<lparr>ss_Get = (\<lambda>c now k. case map_of c k of
         None \<Rightarrow> None | Some (v, expires) \<Rightarrow> if now \<le> expires then Some v else None),
      ss_SetWithTTL = (\<lambda>c now k v ttl. (k, v, now + ttl) # c)\<rparr>"

interpretation list_sessions: session_cache list_sessions
  by unfold_locales (simp add: list_sessions_def)

section \<open>What the callback grants\<close>

text \<open>A request that comes back from the provider with everything in order, for a subject.\<close>

definition callback_grants :: "oidc_lib \<Rightarrow> OIDCConfig \<Rightarrow> http_request_in \<Rightarrow> string \<Rightarrow> bool" where
  "callback_grants lib c rq subject \<longleftrightarrow>
     rq_query rq ''error'' = [] \<and> rq_cookie rq cookieNameState = Some (rq_query rq ''state'') \<and>
     (\<exists>raw tok. ol_Exchange lib (rq_query rq ''code'') = Inr (Some raw) \<and> ol_Verify lib raw = Inr tok \<and>
        rq_cookie rq cookieNameNonce = Some (it_Nonce tok) \<and>
        (oi_AllowedSubjects c = [] \<or>
         (\<exists>s \<in> set (oi_AllowedSubjects c). ToLower s = ToLower (it_Subject tok))) \<and>
        subject = it_Subject tok)"

lemma callbackHandler_granted:
  "callback_grants lib c rq subject \<Longrightarrow>
   callbackHandler ops lib c sid now rq sessions =
     (HTTP_Redirect ''/'' (Some (sid, oi_SessionTTL c)),
      ss_SetWithTTL ops sessions now sid subject (oi_SessionTTL c))"
  by (auto simp: callback_grants_def callbackHandler_def setSessionCookie_def subject_allowed_def
      list_ex_iff split: sum.splits option.splits)

lemma callbackHandler_refused:
  "\<nexists>subject. callback_grants lib c rq subject \<Longrightarrow>
   snd (callbackHandler ops lib c sid now rq sessions) = sessions"
  by (auto simp: callback_grants_def callbackHandler_def setSessionCookie_def subject_allowed_def
      list_ex_iff split: sum.splits option.splits)

context session_cache
begin

lemma session_after_callback:
  "ss_Get ops (snd (callbackHandler ops lib c sid now rq sessions)) t k \<noteq> None \<longleftrightarrow>
   (if k = sid \<and> (\<exists>subject. callback_grants lib c rq subject)
    then t \<le> now + oi_SessionTTL c else ss_Get ops sessions t k \<noteq> None)"
proof (cases "\<exists>subject. callback_grants lib c rq subject")
  case True
  then obtain s where s: "callback_grants lib c rq s" by blast
  then show ?thesis by (auto simp: callbackHandler_granted [OF s] Get_Set)
next
  case False
  then show ?thesis by (simp add: callbackHandler_refused)
qed

end

section \<open>Properties\<close>

text \<open>
  C36. With OpenID Connect, a request passes the middleware after a callback exactly when its cookie
  is a session of before, or it is the session of that callback, not expired, and the callback came
  with the expected state, a token that verifies, the expected nonce and a subject that is allowed.
\<close>

theorem callback_grants_only_allowed:
  assumes "ApplySecurityMiddleware auth list_sessions cfg = Some passes" and "sec_OIDC cfg = Some c"
    and "session_token rq' = k"
  shows "passes (snd (callbackHandler list_sessions lib c sid now rq sessions)) t rq' \<longleftrightarrow>
    (if k = sid \<and> rq_query rq ''error'' = [] \<and>
        rq_cookie rq cookieNameState = Some (rq_query rq ''state'') \<and>
        (\<exists>raw tok. ol_Exchange lib (rq_query rq ''code'') = Inr (Some raw) \<and> ol_Verify lib raw = Inr tok \<and>
           rq_cookie rq cookieNameNonce = Some (it_Nonce tok) \<and>
           (oi_AllowedSubjects c = [] \<or>
            (\<exists>s \<in> set (oi_AllowedSubjects c). ToLower s = ToLower (it_Subject tok))))
     then t \<le> now + oi_SessionTTL c else passes sessions t rq')"
proof -
  have passes: "passes sessions t rq' \<longleftrightarrow> ss_Get list_sessions sessions t k \<noteq> None" for sessions
    using assms by (auto simp: ApplySecurityMiddleware_def)
  have grants: "(\<exists>subject. callback_grants lib c rq subject) \<longleftrightarrow> rq_query rq ''error'' = [] \<and>
        rq_cookie rq cookieNameState = Some (rq_query rq ''state'') \<and>
        (\<exists>raw tok. ol_Exchange lib (rq_query rq ''code'') = Inr (Some raw) \<and> ol_Verify lib raw = Inr tok \<and>
           rq_cookie rq cookieNameNonce = Some (it_Nonce tok) \<and>
           (oi_AllowedSubjects c = [] \<or>
            (\<exists>s \<in> set (oi_AllowedSubjects c). ToLower s = ToLower (it_Subject tok))))"
    unfolding callback_grants_def by blast
  show ?thesis unfolding passes list_sessions.session_after_callback grants ..
qed

definition example_oidc :: OIDCConfig where
  "example_oidc = \<lparr>oi_IssuerURL = ''https://id.example.org'',
     oi_RedirectURL = ''https://status.example.org/authorization-code/callback'', oi_ClientID = ''gatus'',
     oi_ClientSecret = ''secret'', oi_Scopes = [''openid''], oi_AllowedSubjects = [''Admin@example.org''],
     oi_SessionTTL = 60\<rparr>"

definition example_oidc_lib :: oidc_lib where
  "example_oidc_lib = \<lparr>ol_Exchange = (\<lambda>code. if code = ''c0de'' then Inr (Some ''raw'') else Inl ''bad code''),
     ol_Verify = (\<lambda>raw. Inr \<lparr>it_Subject = ''admin@example.org'', it_Nonce = ''n0nce''\<rparr>)\<rparr>"

definition example_callback :: http_request_in where
  "example_callback = \<lparr>rq_query = (\<lambda>q. if q = ''state'' then ''s'' else if q = ''code'' then ''c0de'' else []),
     rq_cookie = (\<lambda>n. if n = ''gatus_state'' then Some ''s'' else if n = ''gatus_nonce'' then Some ''n0nce'' else None),
     rq_basic = None\<rparr>"

theorem callback_grants_only_allowed_witness:
  "\<exists>passes. ApplySecurityMiddleware \<lparr>au_base64 = \<lambda>s. None, au_CompareHashAndPassword = \<lambda>h p. False\<rparr>
      list_sessions \<lparr>sec_Basic = None, sec_OIDC = Some example_oidc\<rparr> = Some passes \<and>
    passes (snd (callbackHandler list_sessions example_oidc_lib example_oidc ''id'' 0 example_callback [])) 60
      (example_callback\<lparr>rq_cookie := \<lambda>n. if n = ''gatus_session'' then Some ''id'' else None\<rparr>) \<and>
    \<not> passes (snd (callbackHandler list_sessions example_oidc_lib example_oidc ''id'' 0 example_callback [])) 61
      (example_callback\<lparr>rq_cookie := \<lambda>n. if n = ''gatus_session'' then Some ''id'' else None\<rparr>)"
proof -
  let ?auth = "\<lparr>au_base64 = \<lambda>s. None, au_CompareHashAndPassword = \<lambda>h p. False\<rparr>"
  let ?cfg = "\<lparr>sec_Basic = None, sec_OIDC = Some example_oidc\<rparr>"
  let ?rq = "example_callback\<lparr>rq_cookie := \<lambda>n. if n = ''gatus_session'' then Some ''id'' else None\<rparr>"
  obtain passes where p: "ApplySecurityMiddleware ?auth list_sessions ?cfg = Some passes"
    by (simp add: ApplySecurityMiddleware_def)
  have tok: "session_token ?rq = ''id''" by (simp add: session_token_def cookieNameSession_def)
  have low: "ToLower ''Admin@example.org'' = ToLower ''admin@example.org''" by code_simp
  have "passes (snd (callbackHandler list_sessions example_oidc_lib example_oidc ''id'' 0 example_callback [])) t ?rq
      \<longleftrightarrow> t \<le> 60" for t
    unfolding callback_grants_only_allowed [OF p _ tok, of example_oidc, simplified]
    using low by (simp add: example_callback_def example_oidc_lib_def example_oidc_def
        cookieNameState_def cookieNameNonce_def)
  with p show ?thesis by auto
qed

text \<open>
  A security configuration that passes validation and names a method of authentication lets no
  request through that has neither: with basic authentication, the user name and a password that
  matches the hash; with OpenID Connect, which then comes first, a session. What is accepted of an
  OpenID Connect configuration has a positive time to live.
\<close>

theorem validated_security_protects:
  assumes "Security_ValidateAndSetDefaults c0 = (True, c)" and "sec_Basic c \<noteq> None \<or> sec_OIDC c \<noteq> None"
    and "ApplySecurityMiddleware lib ops c = Some passes" and "passes sessions now rq"
  shows "case sec_OIDC c of
      Some oidc \<Rightarrow> 0 < oi_SessionTTL oidc \<and> ss_Get ops sessions now (session_token rq) \<noteq> None
    | None \<Rightarrow> (\<exists>b hash password. sec_Basic c = Some b \<and>
        au_base64 lib (ba_PasswordBcryptHashBase64Encoded b) = Some hash \<and> ba_Username b \<noteq> [] \<and>
        rq_basic rq = Some (ba_Username b, password) \<and> au_CompareHashAndPassword lib hash password)"
  using assms
  by (auto simp: Security_ValidateAndSetDefaults_def OIDC_ValidateAndSetDefaults_def Let_def
      ApplySecurityMiddleware_def basic_authorizer_def BasicConfig_isValid_def DefaultOIDCSessionTTL_def hour_def
      split: if_splits option.splits prod.splits)

theorem validated_security_protects_witness:
  "\<exists>passes. ApplySecurityMiddleware \<lparr>au_base64 = Some, au_CompareHashAndPassword = (=)\<rparr> list_sessions
      \<lparr>sec_Basic = Some \<lparr>ba_Username = ''u'', ba_PasswordBcryptHashBase64Encoded = ''h''\<rparr>, sec_OIDC = None\<rparr>
      = Some passes \<and>
    passes [] 0 (example_callback\<lparr>rq_basic := Some (''u'', ''h'')\<rparr>) \<and>
    \<not> passes [] 0 (example_callback\<lparr>rq_basic := Some (''u'', ''x'')\<rparr>)"
proof -
  let ?lib = "\<lparr>au_base64 = Some, au_CompareHashAndPassword = (=)\<rparr> :: auth_lib"
  let ?c = "\<lparr>sec_Basic = Some \<lparr>ba_Username = ''u'', ba_PasswordBcryptHashBase64Encoded = ''h''\<rparr>, sec_OIDC = None\<rparr>"
  obtain passes where p: "ApplySecurityMiddleware ?lib list_sessions ?c = Some passes"
    by (simp add: ApplySecurityMiddleware_def)
  have v: "Security_ValidateAndSetDefaults ?c = (True, ?c)"
    by (simp add: Security_ValidateAndSetDefaults_def BasicConfig_isValid_def)
  have "passes [] 0 (example_callback\<lparr>rq_basic := Some (''u'', ''h'')\<rparr>)"
    using p by (auto simp: ApplySecurityMiddleware_def basic_authorizer_def)
  with p validated_security_protects [OF v _ p, of "[]" 0 "example_callback\<lparr>rq_basic := Some (''u'', ''x'')\<rparr>"]
  show ?thesis by auto
qed

end
