(* ===== verification/Config.thy ===== *)
theory Config
  imports Config_Parts Alerting_Config Security
begin

text \<open>
  \<open>config/config.go\<close>: the configuration of the program, where it is read from and its validation.
  YAML, the merge of YAML documents, the file system and the environment variables are arguments
  (\<open>config_env\<close>). A validation is a sequence of steps on the configuration, in the order of the
  source; an error of a part is wrapped with what it is about.
\<close>

section \<open>Data\<close>

record Config =
  c_Metrics :: bool
  c_SkipInvalidConfigUpdate :: bool
  c_DisableMonitoringLock :: bool
  c_Concurrency :: int
  c_Security :: "Security_Config option"
  c_Alerting :: "Alerting_Config option"
  c_Endpoints :: "Endpoint list"
  c_ExternalEndpoints :: "ExternalEndpoint list"
  c_Suites :: "Suite list"
  c_Storage :: "Storage_Config option"
  c_Web :: "Web_Config option"
  c_UI :: "Page_Config option"
  c_Maintenance :: "Maintenance_Config option"
  c_Remote :: "Remote_Config option"
  c_Connectivity :: "Connectivity_Config option"
  c_Tunneling :: "Tunneling_Config option"
  c_Announcements :: "Announcement list"
  c_configPath :: string
  c_lastFileModTime :: instant

datatype config_error =
    ErrNoEndpointOrSuiteInConfig
  | ErrConfigFileNotFound
  | ErrInvalidSecurityConfig
  | ErrInvalidSingleEndpoint string
  | ErrUnmarshal string
  | ErrReading string
  | ErrDuplicateEndpoint string
  | ErrInvalidEndpoint string endpoint_error
  | ErrDuplicateExternalEndpoint string
  | ErrInvalidExternalEndpoint string endpoint_error
  | ErrWeb web_error
  | ErrPage page_error
  | ErrConfigMaintenance maintenance_error
  | ErrStorage storage_error
  | ErrRemote client_error
  | ErrConnectivity connectivity_error
  | ErrTunneling string
  | ErrTunnelOfEndpoint string string
  | ErrTunnelOfSuiteEndpoint string string string
  | ErrAnnouncement announcement_error
  | ErrDuplicateSuite string
  | ErrInvalidSuite string suite_error
  | ErrEmptyContextKey string string
  | ErrEmptyStorePlaceholder string string string
  | ErrDuplicateKey string string

record config_env =
  ce_validation :: validation_env
  ce_ssh :: ssh_lib
  ce_render :: "Page_Config \<Rightarrow> string option"
  ce_Unmarshal :: "string \<Rightarrow> string + Config option"
  ce_Getenv :: "string \<Rightarrow> string"
  ce_merge :: "string \<Rightarrow> string \<Rightarrow> string + string"
  ce_now :: instant

definition DefaultConcurrency :: int where "DefaultConcurrency = 3"
definition DefaultConfigurationFilePath :: string where "DefaultConfigurationFilePath = ''config/config.yaml''"
definition DefaultFallbackConfigurationFilePath :: string where
  "DefaultFallbackConfigurationFilePath = ''config/config.yml''"

section \<open>Lookups\<close>

text \<open>
  The labels of the enabled endpoints without repetition; the labels of an endpoint are a map, whose
  order the sort makes irrelevant.
\<close>

definition GetUniqueExtraMetricLabels :: "Config \<Rightarrow> string list" where
  "GetUniqueExtraMetricLabels config =
     sort (foldl (\<lambda>labels label. if label \<in> set labels then labels else labels @ [label]) []
       (concat (map (\<lambda>ep. if Endpoint_IsEnabled ep then map fst (e_ExtraLabels ep) else []) (c_Endpoints config))))"

definition GetEndpointByKey :: "Config \<Rightarrow> string \<Rightarrow> Endpoint option" where
  "GetEndpointByKey config k = find (\<lambda>ep. Endpoint_Key ep = ToLower k) (c_Endpoints config)"

definition GetExternalEndpointByKey :: "Config \<Rightarrow> string \<Rightarrow> ExternalEndpoint option" where
  "GetExternalEndpointByKey config k = find (\<lambda>ee. External_Key ee = ToLower k) (c_ExternalEndpoints config)"

section \<open>Alerting\<close>

definition alertTypes :: "string list" where
  "alertTypes =
     [''aws-ses'', ''clickup'', ''custom'', ''datadog'', ''discord'', ''email'', ''github'', ''gitlab'',
      ''gitea'', ''googlechat'', ''gotify'', ''homeassistant'', ''ifttt'', ''ilert'', ''incident-io'',
      ''line'', ''matrix'', ''mattermost'', ''messagebird'', ''n8n'', ''newrelic'', ''ntfy'', ''opsgenie'',
      ''pagerduty'', ''plivo'', ''pushover'', ''rocketchat'', ''sendgrid'', ''signal'', ''signl4'', ''slack'',
      ''splunk'', ''squadcast'', ''teams'', ''teams-workflows'', ''telegram'', ''twilio'', ''vonage'',
      ''webex'', ''zapier'', ''zulip'']"

text \<open>The alerts of a type take the default alert of their provider as a baseline; invalid overrides are only logged.\<close>

definition merge_default :: "string \<Rightarrow> Alert option \<Rightarrow> Alert list \<Rightarrow> Alert list" where
  "merge_default alertType d alerts =
     (if d = None then alerts
      else map (\<lambda>a. if alertType = al_Type a then MergeProviderDefaultAlertIntoEndpointAlert d a else a) alerts)"

record alerting_validation =
  av_Alerting :: Alerting_Config
  av_Endpoints :: "Endpoint list"
  av_ExternalEndpoints :: "ExternalEndpoint list"
  av_valid :: "string list"
  av_invalid :: "string list"

definition validate_alert_type :: "alerting_validation \<Rightarrow> string \<Rightarrow> alerting_validation" where
  "validate_alert_type v alertType =
     (case GetAlertingProviderByAlertType (av_Alerting v) alertType of
        None \<Rightarrow> v\<lparr>av_invalid := av_invalid v @ [alertType]\<rparr>
      | Some p \<Rightarrow>
          if ap_Validate p = None then
            v\<lparr>av_Endpoints := map (\<lambda>ep. ep\<lparr>e_Alerts := merge_default alertType (ap_GetDefaultAlert p) (e_Alerts ep)\<rparr>)
                (av_Endpoints v),
              av_ExternalEndpoints :=
                map (\<lambda>ee. ee\<lparr>ee_Alerts := merge_default alertType (ap_GetDefaultAlert p) (ee_Alerts ee)\<rparr>)
                  (av_ExternalEndpoints v),
              av_valid := av_valid v @ [alertType]\<rparr>
          else
            v\<lparr>av_Alerting := SetAlertingProviderToNil (av_Alerting v) alertType,
              av_invalid := av_invalid v @ [alertType]\<rparr>)"

definition ValidateAlertingConfig ::
  "Alerting_Config \<Rightarrow> Endpoint list \<Rightarrow> ExternalEndpoint list \<Rightarrow> alerting_validation" where
  "ValidateAlertingConfig alerting endpoints externalEndpoints =
     foldl validate_alert_type
       \<lparr>av_Alerting = alerting, av_Endpoints = endpoints, av_ExternalEndpoints = externalEndpoints,
        av_valid = [], av_invalid = []\<rparr> alertTypes"

definition step_alerting :: "Config \<Rightarrow> Config" where
  "step_alerting config =
     (case c_Alerting config of
        None \<Rightarrow> config
      | Some a \<Rightarrow>
          let v = ValidateAlertingConfig a (c_Endpoints config) (c_ExternalEndpoints config)
          in config\<lparr>c_Alerting := Some (av_Alerting v), c_Endpoints := av_Endpoints v,
                    c_ExternalEndpoints := av_ExternalEndpoints v\<rparr>)"

section \<open>Endpoints\<close>

text \<open>The loops keep the keys seen so far; the second starts with those of the first.\<close>

fun validate_endpoint_list ::
  "validation_env \<Rightarrow> string list \<Rightarrow> Endpoint list \<Rightarrow>
   (config_error option \<times> Endpoint list \<times> string list) outcome" where
  "validate_endpoint_list env seen [] = Return (None, [], seen)"
| "validate_endpoint_list env seen (ep # eps) =
     (if Endpoint_Key ep \<in> set seen then Return (Some (ErrDuplicateEndpoint (Endpoint_Key ep)), ep # eps, seen)
      else
        let seen = Endpoint_Key ep # seen
        in case Endpoint_ValidateAndSetDefaults env ep of
             Panic p \<Rightarrow> Panic p
           | Return (Some err, ep') \<Rightarrow>
               Return (Some (ErrInvalidEndpoint (Endpoint_Key ep') err), ep' # eps, seen)
           | Return (None, ep') \<Rightarrow>
               (case validate_endpoint_list env seen eps of
                  Panic p \<Rightarrow> Panic p
                | Return (err, eps', seen') \<Rightarrow> Return (err, ep' # eps', seen')))"

fun validate_external_list ::
  "string list \<Rightarrow> ExternalEndpoint list \<Rightarrow> config_error option \<times> ExternalEndpoint list" where
  "validate_external_list seen [] = (None, [])"
| "validate_external_list seen (ee # ees) =
     (if External_Key ee \<in> set seen
        then (Some (ErrDuplicateExternalEndpoint (External_Key ee)), ee # ees)
      else
        case External_ValidateAndSetDefaults ee of
          (Some err, ee') \<Rightarrow> (Some (ErrInvalidExternalEndpoint (External_Key ee') err), ee' # ees)
        | (None, ee') \<Rightarrow>
            (case validate_external_list (External_Key ee # seen) ees of (err, ees') \<Rightarrow> (err, ee' # ees')))"

definition ValidateEndpointsConfig :: "validation_env \<Rightarrow> (config_error, Config) step" where
  "ValidateEndpointsConfig env config =
     (case validate_endpoint_list env [] (c_Endpoints config) of
        Panic p \<Rightarrow> Panic p
      | Return (Some err, eps, _) \<Rightarrow> Return (Some err, config\<lparr>c_Endpoints := eps\<rparr>)
      | Return (None, eps, seen) \<Rightarrow>
          (case validate_external_list seen (c_ExternalEndpoints config) of
             (err, ees) \<Rightarrow> Return (err, config\<lparr>c_Endpoints := eps, c_ExternalEndpoints := ees\<rparr>)))"

section \<open>The other sections\<close>

definition ValidateSecurityConfig :: "(config_error, Config) step" where
  "ValidateSecurityConfig config =
     (case c_Security config of
        None \<Rightarrow> Return (None, config)
      | Some s \<Rightarrow>
          (case Security_ValidateAndSetDefaults s of
             (ok, s') \<Rightarrow> Return (if ok then None else Some ErrInvalidSecurityConfig, config\<lparr>c_Security := Some s'\<rparr>)))"

definition ValidateWebConfig :: "validation_env \<Rightarrow> (config_error, Config) step" where
  "ValidateWebConfig env config =
     (case c_Web config of
        None \<Rightarrow> Return (None, config\<lparr>c_Web := Some Web_GetDefaultConfig\<rparr>)
      | Some w \<Rightarrow>
          (case Web_ValidateAndSetDefaults (v_LoadX509KeyPair env) w of
             (err, w') \<Rightarrow> Return (map_option ErrWeb err, config\<lparr>c_Web := Some w'\<rparr>)))"

definition ValidateUIConfig :: "(Page_Config \<Rightarrow> string option) \<Rightarrow> (config_error, Config) step" where
  "ValidateUIConfig render config =
     (case c_UI config of
        None \<Rightarrow> Return (None, config\<lparr>c_UI := Some Page_GetDefaultConfig\<rparr>)
      | Some p \<Rightarrow>
          (case Page_ValidateAndSetDefaults render p of
             Panic m \<Rightarrow> Panic m
           | Return (err, p') \<Rightarrow> Return (map_option ErrPage err, config\<lparr>c_UI := Some p'\<rparr>)))"

definition ValidateSingleEndpointConfig :: "(config_error, Config) step" where
  "ValidateSingleEndpointConfig config =
     (case c_UI config of
        None \<Rightarrow> Return (None, config)
      | Some p \<Rightarrow>
          if pg_SingleEndpoint p = [] then Return (None, config)
          else
            case GetEndpointByKey config (pg_SingleEndpoint p) of
              Some ep \<Rightarrow>
                if Endpoint_IsEnabled ep
                then Return (None, config\<lparr>c_UI := Some (p\<lparr>pg_SingleEndpoint := Endpoint_Key ep\<rparr>)\<rparr>)
                else
                  (case GetExternalEndpointByKey config (pg_SingleEndpoint p) of
                     Some ee \<Rightarrow>
                       if External_IsEnabled ee
                       then Return (None, config\<lparr>c_UI := Some (p\<lparr>pg_SingleEndpoint := External_Key ee\<rparr>)\<rparr>)
                       else Return (Some (ErrInvalidSingleEndpoint (pg_SingleEndpoint p)), config)
                   | None \<Rightarrow> Return (Some (ErrInvalidSingleEndpoint (pg_SingleEndpoint p)), config))
            | None \<Rightarrow>
                (case GetExternalEndpointByKey config (pg_SingleEndpoint p) of
                   Some ee \<Rightarrow>
                     if External_IsEnabled ee
                     then Return (None, config\<lparr>c_UI := Some (p\<lparr>pg_SingleEndpoint := External_Key ee\<rparr>)\<rparr>)
                     else Return (Some (ErrInvalidSingleEndpoint (pg_SingleEndpoint p)), config)
                 | None \<Rightarrow> Return (Some (ErrInvalidSingleEndpoint (pg_SingleEndpoint p)), config)))"

definition ValidateMaintenanceConfig :: "validation_env \<Rightarrow> (config_error, Config) step" where
  "ValidateMaintenanceConfig env config =
     (case c_Maintenance config of
        None \<Rightarrow> Return (None, config\<lparr>c_Maintenance := Some Maintenance_GetDefaultConfig\<rparr>)
      | Some m \<Rightarrow>
          (case Maintenance_ValidateAndSetDefaults (v_LoadLocation env) m of
             (err, m') \<Rightarrow> Return (map_option ErrConfigMaintenance err, config\<lparr>c_Maintenance := Some m'\<rparr>)))"

definition default_storage :: Storage_Config where
  "default_storage =
     \<lparr>sto_Path = [], sto_Type = TypeMemory, sto_Caching = False,
      sto_MaximumNumberOfResults = DefaultMaximumNumberOfResults,
      sto_MaximumNumberOfEvents = DefaultMaximumNumberOfEvents\<rparr>"

definition ValidateStorageConfig :: "(config_error, Config) step" where
  "ValidateStorageConfig config =
     (case c_Storage config of
        None \<Rightarrow> Return (None, config\<lparr>c_Storage := Some default_storage\<rparr>)
      | Some s \<Rightarrow>
          (case Storage_ValidateAndSetDefaults s of
             (err, s') \<Rightarrow> Return (map_option ErrStorage err, config\<lparr>c_Storage := Some s'\<rparr>)))"

definition ValidateRemoteConfig :: "validation_env \<Rightarrow> (config_error, Config) step" where
  "ValidateRemoteConfig env config =
     (case c_Remote config of
        None \<Rightarrow> Return (None, config)
      | Some r \<Rightarrow>
          (case Remote_ValidateAndSetDefaults (v_LoadX509KeyPair env) r of
             (err, r') \<Rightarrow> Return (map_option ErrRemote err, config\<lparr>c_Remote := Some r'\<rparr>)))"

definition ValidateConnectivityConfig :: "(config_error, Config) step" where
  "ValidateConnectivityConfig config =
     (case c_Connectivity config of
        None \<Rightarrow> Return (None, config)
      | Some c \<Rightarrow>
          (case Connectivity_ValidateAndSetDefaults c of
             (err, c') \<Rightarrow> Return (map_option ErrConnectivity err, config\<lparr>c_Connectivity := Some c'\<rparr>)))"

definition ValidateAnnouncementsConfig :: "(config_error, Config) step" where
  "ValidateAnnouncementsConfig config =
     (case Announcements_ValidateAndSetDefaults (c_Announcements config) of
        (Some err, as) \<Rightarrow> Return (Some (ErrAnnouncement err), config\<lparr>c_Announcements := as\<rparr>)
      | (None, as) \<Rightarrow> Return (None, config\<lparr>c_Announcements := SortByTimestamp as\<rparr>))"

section \<open>Tunnels\<close>

text \<open>The error, and the tunnelling and the client configuration after it.\<close>

definition resolveTunnelForClientConfig ::
  "ssh_lib \<Rightarrow> Tunneling_Config option \<Rightarrow> Client_Config option \<Rightarrow>
   string option \<times> Tunneling_Config option \<times> Client_Config option" where
  "resolveTunnelForClientConfig lib tunneling clientConfig =
     (case clientConfig of
        None \<Rightarrow> (None, tunneling, None)
      | Some cl \<Rightarrow>
          if cl_Tunnel cl = [] then (None, tunneling, Some cl)
          else
            let tunnelName = TrimSpace (cl_Tunnel cl)
            in if tunnelName = [] then (Some ''tunnel name cannot be empty'', tunneling, Some cl)
               else
                 case tunneling of
                   None \<Rightarrow> (Some (''tunnel '' @ tunnelName @ '' referenced but no tunneling configuration defined''),
                            None, Some cl)
                 | Some tc \<Rightarrow>
                     if map_of (tc_Tunnels tc) tunnelName = None
                     then (Some (''tunnel '' @ tunnelName @ '' not found in tunneling configuration''),
                           Some tc, Some cl)
                     else
                       (case GetTunnel lib tc tunnelName of
                          (Inl err, tc') \<Rightarrow>
                            (Some (''failed to get tunnel '' @ tunnelName @ '': '' @ err), Some tc', Some cl)
                        | (Inr tunnel, tc') \<Rightarrow>
                            (None, Some tc', Some (cl\<lparr>cl_ResolvedTunnel := Some tunnel\<rparr>))))"

fun resolve_tunnels ::
  "ssh_lib \<Rightarrow> (Endpoint \<Rightarrow> string \<Rightarrow> config_error) \<Rightarrow> Tunneling_Config option \<Rightarrow> Endpoint list \<Rightarrow>
   config_error option \<times> Tunneling_Config option \<times> Endpoint list" where
  "resolve_tunnels lib wrap tunneling [] = (None, tunneling, [])"
| "resolve_tunnels lib wrap tunneling (ep # eps) =
     (case resolveTunnelForClientConfig lib tunneling (e_ClientConfig ep) of
        (Some err, tunneling', cl) \<Rightarrow> (Some (wrap ep err), tunneling', ep\<lparr>e_ClientConfig := cl\<rparr> # eps)
      | (None, tunneling', cl) \<Rightarrow>
          (case resolve_tunnels lib wrap tunneling' eps of
             (err, tunneling'', eps') \<Rightarrow> (err, tunneling'', ep\<lparr>e_ClientConfig := cl\<rparr> # eps')))"

fun resolve_suite_tunnels ::
  "ssh_lib \<Rightarrow> Tunneling_Config option \<Rightarrow> Suite list \<Rightarrow> config_error option \<times> Tunneling_Config option \<times> Suite list" where
  "resolve_suite_tunnels lib tunneling [] = (None, tunneling, [])"
| "resolve_suite_tunnels lib tunneling (s # ss) =
     (case resolve_tunnels lib (\<lambda>ep err. ErrTunnelOfSuiteEndpoint (Suite_Key s) (Endpoint_Key ep) err)
             tunneling (s_Endpoints s) of
        (Some err, tunneling', eps) \<Rightarrow> (Some err, tunneling', s\<lparr>s_Endpoints := eps\<rparr> # ss)
      | (None, tunneling', eps) \<Rightarrow>
          (case resolve_suite_tunnels lib tunneling' ss of
             (err, tunneling'', ss') \<Rightarrow> (err, tunneling'', s\<lparr>s_Endpoints := eps\<rparr> # ss')))"

definition ValidateTunnelingConfig :: "ssh_lib \<Rightarrow> (config_error, Config) step" where
  "ValidateTunnelingConfig lib config =
     (case c_Tunneling config of
        None \<Rightarrow> Return (None, config)
      | Some tc \<Rightarrow>
          (case Tunneling_ValidateAndSetDefaults tc of
             (Some err, tc') \<Rightarrow> Return (Some (ErrTunneling err), config\<lparr>c_Tunneling := Some tc'\<rparr>)
           | (None, tc') \<Rightarrow>
               (case resolve_tunnels lib (\<lambda>ep err. ErrTunnelOfEndpoint (Endpoint_Key ep) err)
                       (Some tc') (c_Endpoints config) of
                  (Some err, t, eps) \<Rightarrow>
                    Return (Some err, config\<lparr>c_Tunneling := t, c_Endpoints := eps\<rparr>)
                | (None, t, eps) \<Rightarrow>
                    (case resolve_suite_tunnels lib t (c_Suites config) of
                       (err, t', ss) \<Rightarrow>
                         Return (err, config\<lparr>c_Tunneling := t', c_Endpoints := eps, c_Suites := ss\<rparr>)))))"

section \<open>Suites\<close>

fun check_store :: "Suite \<Rightarrow> Endpoint \<Rightarrow> (string \<times> string) list \<Rightarrow> config_error option" where
  "check_store s ep [] = None"
| "check_store s ep ((contextKey, placeholder) # rest) =
     (if contextKey = [] then Some (ErrEmptyContextKey (Suite_Key s) (Endpoint_Key ep))
      else if placeholder = [] then Some (ErrEmptyStorePlaceholder (Suite_Key s) (Endpoint_Key ep) contextKey)
      else check_store s ep rest)"

fun check_stores :: "Suite \<Rightarrow> Endpoint list \<Rightarrow> config_error option" where
  "check_stores s [] = None"
| "check_stores s (ep # eps) =
     (case check_store s ep (e_Store ep) of Some err \<Rightarrow> Some err | None \<Rightarrow> check_stores s eps)"

fun validate_suites ::
  "validation_env \<Rightarrow> string list \<Rightarrow> Suite list \<Rightarrow> (config_error option \<times> Suite list) outcome" where
  "validate_suites env names [] = Return (None, [])"
| "validate_suites env names (s # ss) =
     (if s_Name s \<in> set names then Return (Some (ErrDuplicateSuite (Suite_Key s)), s # ss)
      else
        case Suite_ValidateAndSetDefaults env s of
          Panic p \<Rightarrow> Panic p
        | Return (Some err, s') \<Rightarrow> Return (Some (ErrInvalidSuite (Suite_Key s') err), s' # ss)
        | Return (None, s') \<Rightarrow>
            (case check_stores s' (s_Endpoints s') of
               Some err \<Rightarrow> Return (Some err, s' # ss)
             | None \<Rightarrow>
                 (case validate_suites env (s_Name s # names) ss of
                    Panic p \<Rightarrow> Panic p
                  | Return (err, ss') \<Rightarrow> Return (err, s' # ss'))))"

definition ValidateSuitesConfig :: "validation_env \<Rightarrow> (config_error, Config) step" where
  "ValidateSuitesConfig env config =
     (case validate_suites env [] (c_Suites config) of
        Panic p \<Rightarrow> Panic p
      | Return (err, ss) \<Rightarrow> Return (err, config\<lparr>c_Suites := ss\<rparr>))"

section \<open>Unique keys\<close>

text \<open>
  The keys in the order they are entered in the map, each with its description; an endpoint of a
  suite is entered under the group of the suite.
\<close>

definition described_keys :: "Config \<Rightarrow> (string \<times> string) list" where
  "described_keys config =
     map (\<lambda>ep. (Endpoint_Key ep, ''endpoint '' @ Endpoint_Key ep)) (c_Endpoints config) @
     map (\<lambda>ee. (External_Key ee, ''external endpoint '' @ External_Key ee)) (c_ExternalEndpoints config) @
     concat (map (\<lambda>s. (Suite_Key s, ''suite '' @ Suite_Key s) #
       map (\<lambda>ep. let k = ConvertGroupAndNameToKey (s_Group s) (e_Name ep)
                 in (k, ''endpoint '' @ k @ '' in suite '' @ Suite_Key s)) (s_Endpoints s)) (c_Suites config))"

fun first_duplicate :: "(string \<times> string) list \<Rightarrow> (string \<times> string) list \<Rightarrow> (string \<times> string) option" where
  "first_duplicate seen [] = None"
| "first_duplicate seen ((k, d) # rest) =
     (case map_of seen k of Some existing \<Rightarrow> Some (k, existing) | None \<Rightarrow> first_duplicate ((k, d) # seen) rest)"

definition ValidateUniqueKeys :: "Config \<Rightarrow> config_error option" where
  "ValidateUniqueKeys config =
     map_option (\<lambda>(k, existing). ErrDuplicateKey k existing) (first_duplicate [] (described_keys config))"

section \<open>The whole validation\<close>

definition ValidateAndSetConcurrencyDefaults :: "Config \<Rightarrow> Config" where
  "ValidateAndSetConcurrencyDefaults config =
     (if c_DisableMonitoringLock config then config\<lparr>c_Concurrency := 0\<rparr>
      else if c_Concurrency config \<le> 0 then config\<lparr>c_Concurrency := DefaultConcurrency\<rparr>
      else config)"

definition set_page_limit :: "Config \<Rightarrow> Config" where
  "set_page_limit config =
     (case (c_UI config, c_Storage config) of
        (Some p, Some s) \<Rightarrow> config\<lparr>c_UI := Some (p\<lparr>pg_MaximumNumberOfResults := sto_MaximumNumberOfResults s\<rparr>)\<rparr>
      | _ \<Rightarrow> config)"

definition validate_config :: "config_env \<Rightarrow> (config_error, Config) step" where
  "validate_config env =
     run_steps
       [check (\<lambda>c. if c_Endpoints c = [] \<and> c_ExternalEndpoints c = [] \<and> c_Suites c = []
                   then Some ErrNoEndpointOrSuiteInConfig else None),
        modify step_alerting,
        ValidateSecurityConfig,
        ValidateEndpointsConfig (ce_validation env),
        ValidateWebConfig (ce_validation env),
        ValidateUIConfig (ce_render env),
        ValidateSingleEndpointConfig,
        ValidateMaintenanceConfig (ce_validation env),
        ValidateStorageConfig,
        ValidateRemoteConfig (ce_validation env),
        ValidateConnectivityConfig,
        ValidateTunnelingConfig (ce_ssh env),
        ValidateAnnouncementsConfig,
        ValidateSuitesConfig (ce_validation env),
        check ValidateUniqueKeys,
        modify ValidateAndSetConcurrencyDefaults,
        modify set_page_limit]"

section \<open>Environment variables\<close>

text \<open>
  \<open>os.ExpandEnv\<close>: the name after a dollar, and how many characters it takes. A name that is
  empty although characters are taken is bad syntax, which is eaten; an empty name that takes none
  leaves the dollar.
\<close>

definition isShellSpecialVar :: "char \<Rightarrow> bool" where
  "isShellSpecialVar c \<longleftrightarrow> c \<in> set ''*#$@!?-'' \<or> is_digit c"

definition isAlphaNum :: "char \<Rightarrow> bool" where
  "isAlphaNum c \<longleftrightarrow>
     c = CHR ''_'' \<or> is_digit c \<or> (let n = of_char c :: nat in 65 \<le> n \<and> n \<le> 90 \<or> 97 \<le> n \<and> n \<le> 122)"

definition getShellName :: "string \<Rightarrow> string \<times> nat" where
  "getShellName s =
     (case s of
        [] \<Rightarrow> ([], 0)
      | c # cs \<Rightarrow>
          if c = CHR ''{'' then
            (if 2 \<le> length cs \<and> isShellSpecialVar (cs ! 0) \<and> cs ! 1 = CHR ''}'' then ([cs ! 0], 3)
             else
               let name = takeWhile (\<lambda>c. c \<noteq> CHR ''}'') cs
               in if length name = length cs then ([], 1)
                  else if name = [] then ([], 2)
                  else (name, length name + 2))
          else if isShellSpecialVar c then ([c], 1)
          else (takeWhile isAlphaNum s, length (takeWhile isAlphaNum s)))"

function ExpandEnv :: "(string \<Rightarrow> string) \<Rightarrow> string \<Rightarrow> string" where
  "ExpandEnv getenv [] = []"
| "ExpandEnv getenv (c # cs) =
     (if c = CHR ''$'' \<and> cs \<noteq> [] then
        (case getShellName cs of
           (name, w) \<Rightarrow>
             (if name = [] then (if 0 < w then [] else [c]) else getenv name) @ ExpandEnv getenv (drop w cs))
      else c # ExpandEnv getenv cs)"
  by pat_completeness auto
termination by (relation "measure (\<lambda>(getenv, s). length s)") auto

section \<open>Parsing\<close>

definition literal_dollar :: string where
  "literal_dollar = ''__GATUS_LITERAL_DOLLAR_SIGN__''"

text \<open>What is done to the text of the configuration before it is parsed.\<close>

definition expand_config :: "(string \<Rightarrow> string) \<Rightarrow> string \<Rightarrow> string" where
  "expand_config getenv yamlBytes =
     ReplaceAll (ExpandEnv getenv (ReplaceAll yamlBytes ''$$'' literal_dollar)) literal_dollar ''$''"

definition parseAndValidateConfigBytes :: "config_env \<Rightarrow> string \<Rightarrow> (config_error + Config) outcome" where
  "parseAndValidateConfigBytes env yamlBytes =
     (case ce_Unmarshal env (expand_config (ce_Getenv env) yamlBytes) of
        Inl err \<Rightarrow> Return (Inl (ErrUnmarshal err))
      | Inr None \<Rightarrow> Return (Inl ErrNoEndpointOrSuiteInConfig)
      | Inr (Some config) \<Rightarrow>
          (case validate_config env config of
             Panic p \<Rightarrow> Panic p
           | Return (Some err, _) \<Rightarrow> Return (Inl err)
           | Return (None, config') \<Rightarrow> Return (Inr config')))"

section \<open>Files\<close>

text \<open>
  A path is a file or a directory with everything below it, in the order of the walk. What cannot be
  read is an error of its own.
\<close>

record file_entry =
  fe_path :: string
  fe_isDir :: bool
  fe_modTime :: "instant option"
  fe_content :: "string + string"

datatype file_node = Regular instant "string + string" | Directory "file_entry list"

type_synonym file_system = "string \<Rightarrow> file_node option"

text \<open>The files of a directory that hold configuration: \<open>filepath.Ext\<close> is .yml or .yaml.\<close>

definition walkConfigDir :: "file_entry list \<Rightarrow> file_entry list" where
  "walkConfigDir entries =
     filter (\<lambda>f. \<not> fe_isDir f \<and> (HasSuffix (fe_path f) ''.yml'' \<or> HasSuffix (fe_path f) ''.yaml'')) entries"

fun merge_files :: "config_env \<Rightarrow> string \<Rightarrow> file_entry list \<Rightarrow> string + string" where
  "merge_files env acc [] = Inr acc"
| "merge_files env acc (f # fs) =
     (if Contains (fe_path f) ''..'' then merge_files env acc fs
      else
        case fe_content f of
          Inl err \<Rightarrow> Inl (''error reading configuration from file '' @ fe_path f @ '': '' @ err)
        | Inr data \<Rightarrow>
            (case ce_merge env acc data of Inl err \<Rightarrow> Inl err | Inr acc' \<Rightarrow> merge_files env acc' fs))"

definition used_path :: "file_system \<Rightarrow> string \<Rightarrow> string option" where
  "used_path fs configPath =
     find (\<lambda>p. p \<noteq> [] \<and> fs p \<noteq> None)
       [configPath, DefaultConfigurationFilePath, DefaultFallbackConfigurationFilePath]"

text \<open>
  A directory is walked from the path that was asked for, not from the one that was found: without
  a path, or with one that does not exist, nothing is read.
\<close>

definition read_config :: "config_env \<Rightarrow> file_system \<Rightarrow> string \<Rightarrow> string \<Rightarrow> string + string" where
  "read_config env fs configPath usedConfigPath =
     (case fs usedConfigPath of
        None \<Rightarrow> Inr []
      | Some (Regular _ content) \<Rightarrow> content
      | Some (Directory entries) \<Rightarrow>
          if usedConfigPath = configPath then merge_files env [] (walkConfigDir entries) else Inr [])"

definition LoadConfiguration ::
  "config_env \<Rightarrow> file_system \<Rightarrow> string \<Rightarrow> (config_error + Config) outcome" where
  "LoadConfiguration env fs configPath =
     (case used_path fs configPath of
        None \<Rightarrow> Return (Inl ErrConfigFileNotFound)
      | Some usedConfigPath \<Rightarrow>
          (case read_config env fs configPath usedConfigPath of
             Inl err \<Rightarrow> Return (Inl (ErrReading err))
           | Inr configBytes \<Rightarrow>
               if configBytes = [] then Return (Inl ErrConfigFileNotFound)
               else
                 case parseAndValidateConfigBytes env configBytes of
                   Panic p \<Rightarrow> Panic p
                 | Return (Inl err) \<Rightarrow> Return (Inl err)
                 | Return (Inr config) \<Rightarrow>
                     Return (Inr (config\<lparr>c_configPath := usedConfigPath, c_lastFileModTime := ce_now env\<rparr>))))"

definition UpdateLastFileModTime :: "instant \<Rightarrow> Config \<Rightarrow> Config" where
  "UpdateLastFileModTime now config = config\<lparr>c_lastFileModTime := now\<rparr>"

definition HasLoadedConfigurationBeenModified :: "file_system \<Rightarrow> Config \<Rightarrow> bool" where
  "HasLoadedConfigurationBeenModified fs config =
     (case fs (c_configPath config) of
        None \<Rightarrow> False
      | Some (Directory entries) \<Rightarrow>
          list_ex (\<lambda>f. case fe_modTime f of
              None \<Rightarrow> False | Some t \<Rightarrow> Unix (c_lastFileModTime config) < Unix t) (walkConfigDir entries)
      | Some (Regular modTime _) \<Rightarrow>
          modTime \<noteq> zero_time \<and> Unix (c_lastFileModTime config) < Unix modTime)"

end
