(* ===== verification/Config_Properties.thy ===== *)
theory Config_Properties
  imports Config
begin

text \<open>
  What the validation of the configuration establishes: unique keys under which every endpoint is
  found again, sound parts, alerts that carry the defaults of their providers, and the treatment of
  dollar signs in the text.
\<close>

section \<open>Unique keys\<close>

lemma first_duplicate_None:
  "first_duplicate seen xs = None \<longleftrightarrow>
   distinct (map fst xs) \<and> set (map fst xs) \<inter> set (map fst seen) = {}"
proof (induction xs arbitrary: seen)
  case (Cons x xs)
  obtain k d where x: "x = (k, d)" by (cases x)
  show ?case
  proof (cases "map_of seen k")
    case None
    then have "k \<notin> fst ` set seen" by (simp add: map_of_eq_None_iff)
    then show ?thesis using None by (auto simp: x Cons.IH)
  next
    case (Some y)
    then have "k \<in> fst ` set seen" by (metis map_of_eq_None_iff option.distinct(1))
    then show ?thesis using Some by (auto simp: x)
  qed
qed simp

text \<open>All the keys of a configuration.\<close>

definition all_keys :: "Config \<Rightarrow> string list" where
  "all_keys config =
     map Endpoint_Key (c_Endpoints config) @ map External_Key (c_ExternalEndpoints config) @
     concat (map (\<lambda>s. Suite_Key s # map (\<lambda>ep. ConvertGroupAndNameToKey (s_Group s) (e_Name ep)) (s_Endpoints s))
       (c_Suites config))"

lemma described_keys_all: "map fst (described_keys config) = all_keys config"
  by (simp add: described_keys_def all_keys_def map_concat comp_def Let_def)

lemma ValidateUniqueKeys_None: "ValidateUniqueKeys config = None \<longleftrightarrow> distinct (all_keys config)"
  by (simp add: ValidateUniqueKeys_def first_duplicate_None described_keys_all)

section \<open>What every step keeps\<close>

lemma run_steps_invariant:
  assumes "\<And>f s e s'. f \<in> set fs \<Longrightarrow> P s \<Longrightarrow> f s = Return (e, s') \<Longrightarrow> P s'"
    and "P s" and "run_steps fs s = Return (e, s')"
  shows "P s'"
  using assms
proof (induction fs arbitrary: s)
  case (Cons f fs)
  obtain e1 s1 where f: "f s = Return (e1, s1)"
    using Cons.prems(3) by (auto split: outcome.splits)
  then have "P s1" using Cons.prems(1) [of f s e1 s1] Cons.prems(2) by simp
  then show ?case using Cons.prems(3) f Cons.IH [of s1] Cons.prems(1) by (cases e1) auto
qed simp

text \<open>The endpoints and external endpoints are valid, and the keys of the latter are lower case.\<close>

definition valid_external :: "ExternalEndpoint \<Rightarrow> bool" where
  "valid_external ee \<longleftrightarrow>
     ee_Name ee \<noteq> [] \<and> ee_Token ee \<noteq> [] \<and> (\<forall>a \<in> set (ee_Alerts ee). valid_alert a) \<and>
     ToLower (External_Key ee) = External_Key ee"

definition valid_endpoints :: "Config \<Rightarrow> bool" where
  "valid_endpoints config \<longleftrightarrow>
     (\<forall>ep \<in> set (c_Endpoints config). validated_endpoint ep) \<and>
     (\<forall>ee \<in> set (c_ExternalEndpoints config). valid_external ee)"

lemma validate_endpoint_list_valid:
  "validate_endpoint_list env seen eps = Return (None, eps', seen') \<Longrightarrow> isl (unmarshal (v_codec env) []) \<Longrightarrow>
   \<forall>ep \<in> set eps'. validated_endpoint ep"
proof (induction eps arbitrary: seen eps' seen')
  case (Cons ep eps)
  from Cons.prems(1) obtain ep1 rest s where v: "Endpoint_ValidateAndSetDefaults env ep = Return (None, ep1)"
    and r: "validate_endpoint_list env (Endpoint_Key ep # seen) eps = Return (None, rest, s)"
    and eps': "eps' = ep1 # rest"
    by (auto simp: Let_def split: if_splits outcome.splits option.splits)
  from Cons.IH [OF r Cons.prems(2)] Endpoint_validated [OF v Cons.prems(2)] show ?case by (simp add: eps')
qed simp

lemma validate_external_list_valid:
  "validate_external_list seen ees = (None, ees') \<Longrightarrow> \<forall>ee \<in> set ees'. valid_external ee"
proof (induction ees arbitrary: seen ees')
  case (Cons ee ees)
  from Cons.prems obtain ee1 rest where v: "External_ValidateAndSetDefaults ee = (None, ee1)"
    and r: "validate_external_list (External_Key ee # seen) ees = (None, rest)" and ees': "ees' = ee1 # rest"
    by (auto split: if_splits option.splits prod.splits)
  from External_validated [OF v] External_Key_ToLower [of ee] have "valid_external ee1"
    by (simp add: valid_external_def)
  with Cons.IH [OF r] show ?case by (simp add: ees')
qed simp

lemma ValidateEndpointsConfig_valid:
  "ValidateEndpointsConfig env config = Return (None, config') \<Longrightarrow> isl (unmarshal (v_codec env) []) \<Longrightarrow>
   valid_endpoints config'"
  by (auto simp: ValidateEndpointsConfig_def valid_endpoints_def
      split: outcome.splits option.splits prod.splits dest: validate_endpoint_list_valid validate_external_list_valid)

lemma resolveTunnel_keeps:
  "resolveTunnelForClientConfig lib t cl = (e, t', cl') \<Longrightarrow> cl' = None \<longleftrightarrow> cl = None"
  by (auto simp: resolveTunnelForClientConfig_def Let_def split: if_splits option.splits prod.splits sum.splits)

lemma validated_endpoint_client [simp]:
  "validated_endpoint ep \<Longrightarrow> cl \<noteq> None \<Longrightarrow> validated_endpoint (ep\<lparr>e_ClientConfig := cl\<rparr>)"
  by (simp add: validated_endpoint_def needsToRetrieveDomainExpiration_def)

lemma resolve_tunnels_valid:
  "resolve_tunnels lib wrap t eps = (e, t', eps') \<Longrightarrow> \<forall>ep \<in> set eps. validated_endpoint ep \<Longrightarrow>
   \<forall>ep \<in> set eps'. validated_endpoint ep"
proof (induction eps arbitrary: t e t' eps')
  case (Cons ep eps)
  obtain e1 t1 cl where r: "resolveTunnelForClientConfig lib t (e_ClientConfig ep) = (e1, t1, cl)"
    by (metis prod.exhaust)
  have "e_ClientConfig ep \<noteq> None" using Cons.prems(2) by (simp add: validated_endpoint_def)
  then have "cl \<noteq> None" using resolveTunnel_keeps [OF r] by simp
  then have "validated_endpoint (ep\<lparr>e_ClientConfig := cl\<rparr>)" using Cons.prems(2) by simp
  then show ?case using Cons r by (auto split: option.splits prod.splits)
qed simp

text \<open>The steps after the validation of the endpoints.\<close>

lemma later_steps_keep:
  assumes "f \<in> {ValidateWebConfig env, ValidateUIConfig render, ValidateSingleEndpointConfig,
      ValidateMaintenanceConfig env, ValidateStorageConfig, ValidateRemoteConfig env,
      ValidateConnectivityConfig, ValidateTunnelingConfig lib, ValidateAnnouncementsConfig,
      ValidateSuitesConfig env}"
    and "valid_endpoints c" and "f c = Return (e, c')"
  shows "valid_endpoints c'"
proof (cases "f = ValidateTunnelingConfig lib")
  case True
  with assms(2,3) show ?thesis
    by (auto simp: ValidateTunnelingConfig_def valid_endpoints_def
        split: option.splits prod.splits dest: resolve_tunnels_valid)
next
  case False
  then have "c_Endpoints c' = c_Endpoints c \<and> c_ExternalEndpoints c' = c_ExternalEndpoints c"
    using assms(1,3)
    by (auto simp: ValidateWebConfig_def ValidateUIConfig_def ValidateSingleEndpointConfig_def
        ValidateMaintenanceConfig_def ValidateStorageConfig_def ValidateRemoteConfig_def
        ValidateConnectivityConfig_def ValidateAnnouncementsConfig_def ValidateSuitesConfig_def
        split: option.splits prod.splits outcome.splits if_splits)
  then show ?thesis using assms(2) by (simp add: valid_endpoints_def)
qed

section \<open>The whole validation\<close>

definition first_steps :: "config_env \<Rightarrow> (config_error, Config) step list" where
  "first_steps env =
     [check (\<lambda>c. if c_Endpoints c = [] \<and> c_ExternalEndpoints c = [] \<and> c_Suites c = []
                 then Some ErrNoEndpointOrSuiteInConfig else None),
      modify step_alerting, ValidateSecurityConfig]"

definition later_steps :: "config_env \<Rightarrow> (config_error, Config) step list" where
  "later_steps env =
     [ValidateWebConfig (ce_validation env), ValidateUIConfig (ce_render env), ValidateSingleEndpointConfig,
      ValidateMaintenanceConfig (ce_validation env), ValidateStorageConfig,
      ValidateRemoteConfig (ce_validation env), ValidateConnectivityConfig,
      ValidateTunnelingConfig (ce_ssh env), ValidateAnnouncementsConfig,
      ValidateSuitesConfig (ce_validation env)]"

lemma validate_config_split:
  "validate_config env = run_steps (first_steps env @ [ValidateEndpointsConfig (ce_validation env)] @
     later_steps env @ [check ValidateUniqueKeys, modify ValidateAndSetConcurrencyDefaults, modify set_page_limit])"
  by (simp add: validate_config_def first_steps_def later_steps_def)

lemma run_steps_append_None:
  assumes "run_steps (fs @ gs) s = Return (None, s'')"
  obtains s' where "run_steps fs s = Return (None, s')" and "run_steps gs s' = Return (None, s'')"
  using assms by (auto simp: run_steps_append split: outcome.splits option.splits)

lemma final_steps_keep [simp]:
  "c_Endpoints (ValidateAndSetConcurrencyDefaults c) = c_Endpoints c"
  "c_ExternalEndpoints (ValidateAndSetConcurrencyDefaults c) = c_ExternalEndpoints c"
  "c_Suites (ValidateAndSetConcurrencyDefaults c) = c_Suites c"
  "c_Storage (ValidateAndSetConcurrencyDefaults c) = c_Storage c"
  "c_UI (ValidateAndSetConcurrencyDefaults c) = c_UI c"
  "c_Endpoints (set_page_limit c) = c_Endpoints c"
  "c_ExternalEndpoints (set_page_limit c) = c_ExternalEndpoints c"
  "c_Suites (set_page_limit c) = c_Suites c"
  "c_Storage (set_page_limit c) = c_Storage c"
  "c_Concurrency (set_page_limit c) = c_Concurrency c"
  "c_DisableMonitoringLock (set_page_limit c) = c_DisableMonitoringLock c"
  by (simp_all add: ValidateAndSetConcurrencyDefaults_def set_page_limit_def split: option.splits)

lemma validate_config_None:
  assumes "validate_config env c = Return (None, c')" and "isl (unmarshal (v_codec (ce_validation env)) [])"
  obtains c1 where "valid_endpoints c1" and "distinct (all_keys c1)"
    and "c' = set_page_limit (ValidateAndSetConcurrencyDefaults c1)"
proof -
  let ?final = "[check ValidateUniqueKeys, modify ValidateAndSetConcurrencyDefaults, modify set_page_limit]"
  from assms(1) obtain s1 where
    "run_steps ([ValidateEndpointsConfig (ce_validation env)] @ later_steps env @ ?final) s1 = Return (None, c')"
    unfolding validate_config_split by (rule run_steps_append_None)
  then obtain s2 where v: "run_steps [ValidateEndpointsConfig (ce_validation env)] s1 = Return (None, s2)"
    and "run_steps (later_steps env @ ?final) s2 = Return (None, c')" by (rule run_steps_append_None)
  then obtain s3 where l: "run_steps (later_steps env) s2 = Return (None, s3)"
    and f: "run_steps ?final s3 = Return (None, c')" by (blast elim: run_steps_append_None)
  from v have v: "ValidateEndpointsConfig (ce_validation env) s1 = Return (None, s2)"
    by (auto split: outcome.splits option.splits)
  from ValidateEndpointsConfig_valid [OF v assms(2)] have "valid_endpoints s2" .
  moreover have "valid_endpoints s'" if "f \<in> set (later_steps env)" "valid_endpoints s" "f s = Return (e, s')"
    for f s e s'
    using later_steps_keep [of f "ce_validation env" "ce_render env" "ce_ssh env" s e s'] that
    by (auto simp: later_steps_def)
  ultimately have "valid_endpoints s3" using run_steps_invariant [OF _ _ l, of valid_endpoints] by blast
  moreover have "distinct (all_keys s3)" "c' = set_page_limit (ValidateAndSetConcurrencyDefaults s3)"
    using f by (auto simp: ValidateUniqueKeys_None [symmetric] check_def modify_def split: option.splits)
  ultimately show ?thesis by (rule that)
qed

lemma all_keys_final [simp]:
  "all_keys (set_page_limit c) = all_keys c" "all_keys (ValidateAndSetConcurrencyDefaults c) = all_keys c"
  by (simp_all add: all_keys_def)

section \<open>The parts that are set\<close>

text \<open>A step that leaves a part as it is, and what a sequence does to a part that only one of its steps treats.\<close>

definition keeps_part :: "(Config \<Rightarrow> 'p) \<Rightarrow> (config_error, Config) step \<Rightarrow> bool" where
  "keeps_part part f \<longleftrightarrow> (\<forall>s e s'. f s = Return (e, s') \<longrightarrow> part s' = part s)"

lemma run_steps_keep:
  assumes "\<forall>f \<in> set fs. keeps_part part f" and "run_steps fs s = Return (e, s')"
  shows "part s' = part s"
proof (rule run_steps_invariant [where P = "\<lambda>u. part u = part s", OF _ refl assms(2)])
  fix f u e' u' assume "f \<in> set fs" and "part u = part s" and "f u = Return (e', u')"
  then show "part u' = part s" using assms(1) unfolding keeps_part_def by metis
qed

lemma run_steps_part:
  assumes "run_steps fs s = Return (None, s')" and "i < length fs"
    and "\<forall>f \<in> set (take i fs). keeps_part before f" and "\<forall>f \<in> set (drop (Suc i) fs). keeps_part part f"
  obtains s1 s2 where "(fs ! i) s1 = Return (None, s2)" and "before s1 = before s" and "part s' = part s2"
proof -
  have "run_steps (take i fs @ fs ! i # drop (Suc i) fs) s = Return (None, s')"
    using assms(1,2) by (simp add: id_take_nth_drop [symmetric])
  then obtain s1 where s1: "run_steps (take i fs) s = Return (None, s1)"
    and r: "run_steps (fs ! i # drop (Suc i) fs) s1 = Return (None, s')" by (rule run_steps_append_None)
  from r obtain s2 where "(fs ! i) s1 = Return (None, s2)" and "run_steps (drop (Suc i) fs) s2 = Return (None, s')"
    by (rule run_steps_NoneE)
  then show ?thesis using that run_steps_keep [OF assms(3) s1] run_steps_keep [OF assms(4)] by metis
qed

lemmas step_definitions = ValidateSecurityConfig_def ValidateEndpointsConfig_def ValidateWebConfig_def
  ValidateUIConfig_def ValidateSingleEndpointConfig_def ValidateMaintenanceConfig_def ValidateStorageConfig_def
  ValidateRemoteConfig_def ValidateConnectivityConfig_def ValidateTunnelingConfig_def
  ValidateAnnouncementsConfig_def ValidateSuitesConfig_def

lemma keeps_part_check [simp]: "keeps_part part (check f)"
  by (simp add: keeps_part_def check_def)

lemma keeps_part_modify: "(\<And>c. part (f c) = part c) \<Longrightarrow> keeps_part part (modify f)"
  by (simp add: keeps_part_def modify_def)

lemma keeps_part_modify_last [simp]:
  "keeps_part (\<lambda>c. (c_DisableMonitoringLock c, c_Concurrency c)) (modify set_page_limit)"
  "keeps_part c_Web (modify ValidateAndSetConcurrencyDefaults)" "keeps_part c_Web (modify set_page_limit)"
  "keeps_part c_Maintenance (modify ValidateAndSetConcurrencyDefaults)" "keeps_part c_Maintenance (modify set_page_limit)"
  "keeps_part c_Storage (modify ValidateAndSetConcurrencyDefaults)" "keeps_part c_Storage (modify set_page_limit)"
  by (auto intro!: keeps_part_modify simp: ValidateAndSetConcurrencyDefaults_def set_page_limit_def split: option.splits)

lemma keeps_part_modify_alerting [simp]:
  "keeps_part c_Web (modify step_alerting)" "keeps_part c_UI (modify step_alerting)"
  "keeps_part c_Maintenance (modify step_alerting)" "keeps_part c_Storage (modify step_alerting)"
  "keeps_part (\<lambda>c. (c_DisableMonitoringLock c, c_Concurrency c)) (modify step_alerting)"
  by (auto intro!: keeps_part_modify simp: step_alerting_def Let_def split: option.splits)

lemma keeps_Web [simp]:
  "keeps_part c_Web ValidateSecurityConfig"
  "keeps_part c_Web (ValidateEndpointsConfig v)"
  "keeps_part c_Web (ValidateUIConfig r)"
  "keeps_part c_Web ValidateSingleEndpointConfig"
  "keeps_part c_Web (ValidateMaintenanceConfig v)"
  "keeps_part c_Web ValidateStorageConfig"
  "keeps_part c_Web (ValidateRemoteConfig v)"
  "keeps_part c_Web ValidateConnectivityConfig"
  "keeps_part c_Web (ValidateTunnelingConfig l)"
  "keeps_part c_Web ValidateAnnouncementsConfig"
  "keeps_part c_Web (ValidateSuitesConfig v)"
  by (auto simp: keeps_part_def step_definitions split: option.splits prod.splits outcome.splits if_splits)

lemma keeps_Maintenance [simp]:
  "keeps_part c_Maintenance ValidateSecurityConfig"
  "keeps_part c_Maintenance (ValidateEndpointsConfig v)"
  "keeps_part c_Maintenance (ValidateWebConfig v)"
  "keeps_part c_Maintenance (ValidateUIConfig r)"
  "keeps_part c_Maintenance ValidateSingleEndpointConfig"
  "keeps_part c_Maintenance ValidateStorageConfig"
  "keeps_part c_Maintenance (ValidateRemoteConfig v)"
  "keeps_part c_Maintenance ValidateConnectivityConfig"
  "keeps_part c_Maintenance (ValidateTunnelingConfig l)"
  "keeps_part c_Maintenance ValidateAnnouncementsConfig"
  "keeps_part c_Maintenance (ValidateSuitesConfig v)"
  by (auto simp: keeps_part_def step_definitions split: option.splits prod.splits outcome.splits if_splits)

lemma keeps_Storage [simp]:
  "keeps_part c_Storage ValidateSecurityConfig"
  "keeps_part c_Storage (ValidateEndpointsConfig v)"
  "keeps_part c_Storage (ValidateWebConfig v)"
  "keeps_part c_Storage (ValidateUIConfig r)"
  "keeps_part c_Storage ValidateSingleEndpointConfig"
  "keeps_part c_Storage (ValidateMaintenanceConfig v)"
  "keeps_part c_Storage (ValidateRemoteConfig v)"
  "keeps_part c_Storage ValidateConnectivityConfig"
  "keeps_part c_Storage (ValidateTunnelingConfig l)"
  "keeps_part c_Storage ValidateAnnouncementsConfig"
  "keeps_part c_Storage (ValidateSuitesConfig v)"
  by (auto simp: keeps_part_def step_definitions split: option.splits prod.splits outcome.splits if_splits)

lemma keeps_UI [simp]:
  "keeps_part c_UI ValidateSecurityConfig"
  "keeps_part c_UI (ValidateEndpointsConfig v)"
  "keeps_part c_UI (ValidateWebConfig v)"
  "keeps_part c_UI (ValidateMaintenanceConfig v)"
  "keeps_part c_UI ValidateStorageConfig"
  "keeps_part c_UI (ValidateRemoteConfig v)"
  "keeps_part c_UI ValidateConnectivityConfig"
  "keeps_part c_UI (ValidateTunnelingConfig l)"
  "keeps_part c_UI ValidateAnnouncementsConfig"
  "keeps_part c_UI (ValidateSuitesConfig v)"
  by (auto simp: keeps_part_def step_definitions split: option.splits prod.splits outcome.splits if_splits)

lemma keeps_Concurrency [simp]:
  "keeps_part (\<lambda>c. (c_DisableMonitoringLock c, c_Concurrency c)) ValidateSecurityConfig"
  "keeps_part (\<lambda>c. (c_DisableMonitoringLock c, c_Concurrency c)) (ValidateEndpointsConfig v)"
  "keeps_part (\<lambda>c. (c_DisableMonitoringLock c, c_Concurrency c)) (ValidateWebConfig v)"
  "keeps_part (\<lambda>c. (c_DisableMonitoringLock c, c_Concurrency c)) (ValidateUIConfig r)"
  "keeps_part (\<lambda>c. (c_DisableMonitoringLock c, c_Concurrency c)) ValidateSingleEndpointConfig"
  "keeps_part (\<lambda>c. (c_DisableMonitoringLock c, c_Concurrency c)) (ValidateMaintenanceConfig v)"
  "keeps_part (\<lambda>c. (c_DisableMonitoringLock c, c_Concurrency c)) ValidateStorageConfig"
  "keeps_part (\<lambda>c. (c_DisableMonitoringLock c, c_Concurrency c)) (ValidateRemoteConfig v)"
  "keeps_part (\<lambda>c. (c_DisableMonitoringLock c, c_Concurrency c)) ValidateConnectivityConfig"
  "keeps_part (\<lambda>c. (c_DisableMonitoringLock c, c_Concurrency c)) (ValidateTunnelingConfig l)"
  "keeps_part (\<lambda>c. (c_DisableMonitoringLock c, c_Concurrency c)) ValidateAnnouncementsConfig"
  "keeps_part (\<lambda>c. (c_DisableMonitoringLock c, c_Concurrency c)) (ValidateSuitesConfig v)"
  by (auto simp: keeps_part_def step_definitions split: option.splits prod.splits outcome.splits if_splits)

text \<open>The page without the two settings that later steps make: its single endpoint and its page limit.\<close>

definition page_part :: "Config \<Rightarrow> Page_Config option" where
  "page_part c = map_option (\<lambda>p. p\<lparr>pg_SingleEndpoint := [], pg_MaximumNumberOfResults := 0\<rparr>) (c_UI c)"

lemma keeps_page_part [simp]: "keeps_part c_UI f \<Longrightarrow> keeps_part page_part f"
  by (simp add: keeps_part_def page_part_def)

lemma keeps_page_part_last [simp]:
  "keeps_part page_part ValidateSingleEndpointConfig"
  "keeps_part page_part (modify ValidateAndSetConcurrencyDefaults)" "keeps_part page_part (modify set_page_limit)"
  by (auto simp: keeps_part_def page_part_def modify_def ValidateSingleEndpointConfig_def
      ValidateAndSetConcurrencyDefaults_def set_page_limit_def split: option.splits if_splits)

text \<open>A part that is left out is its default, one that is given is what its validation makes of it, without an error.\<close>

definition set_part :: "('p \<Rightarrow> 'e option \<times> 'p) \<Rightarrow> 'p \<Rightarrow> 'p option \<Rightarrow> 'p option \<Rightarrow> bool" where
  "set_part validate d part part' \<longleftrightarrow>
     (case part of None \<Rightarrow> part' = Some d | Some p \<Rightarrow> (\<exists>p'. validate p = (None, p') \<and> part' = Some p'))"

lemma validated_parts:
  assumes "validate_config env c = Return (None, c')"
  shows "set_part (Web_ValidateAndSetDefaults (v_LoadX509KeyPair (ce_validation env))) Web_GetDefaultConfig
      (c_Web c) (c_Web c')"
    and "set_part (Maintenance_ValidateAndSetDefaults (v_LoadLocation (ce_validation env)))
      Maintenance_GetDefaultConfig (c_Maintenance c) (c_Maintenance c')"
    and "set_part Storage_ValidateAndSetDefaults default_storage (c_Storage c) (c_Storage c')"
proof -
  note run = assms [unfolded validate_config_def]
  from run_steps_part [OF run, of 4 c_Web c_Web] obtain s1 s2 where
    "ValidateWebConfig (ce_validation env) s1 = Return (None, s2)" "c_Web s1 = c_Web c" "c_Web c' = c_Web s2" by auto
  then show "set_part (Web_ValidateAndSetDefaults (v_LoadX509KeyPair (ce_validation env))) Web_GetDefaultConfig
      (c_Web c) (c_Web c')"
    by (auto simp: set_part_def ValidateWebConfig_def split: option.splits prod.splits)
  from run_steps_part [OF run, of 7 c_Maintenance c_Maintenance] obtain s1 s2 where
    "ValidateMaintenanceConfig (ce_validation env) s1 = Return (None, s2)" "c_Maintenance s1 = c_Maintenance c"
    "c_Maintenance c' = c_Maintenance s2" by auto
  then show "set_part (Maintenance_ValidateAndSetDefaults (v_LoadLocation (ce_validation env)))
      Maintenance_GetDefaultConfig (c_Maintenance c) (c_Maintenance c')"
    by (auto simp: set_part_def ValidateMaintenanceConfig_def split: option.splits prod.splits)
  from run_steps_part [OF run, of 8 c_Storage c_Storage] obtain s1 s2 where
    "ValidateStorageConfig s1 = Return (None, s2)" "c_Storage s1 = c_Storage c" "c_Storage c' = c_Storage s2" by auto
  then show "set_part Storage_ValidateAndSetDefaults default_storage (c_Storage c) (c_Storage c')"
    by (auto simp: set_part_def ValidateStorageConfig_def split: option.splits prod.splits)
qed

text \<open>The page as validated, but for the two settings; and the concurrency.\<close>

definition set_page :: "(Page_Config \<Rightarrow> string option) \<Rightarrow> Page_Config option \<Rightarrow> Page_Config option \<Rightarrow> int \<Rightarrow> bool" where
  "set_page render part part' limit \<longleftrightarrow>
     (\<exists>p k. (case part of None \<Rightarrow> p = Page_GetDefaultConfig
           | Some p0 \<Rightarrow> Page_ValidateAndSetDefaults render p0 = Return (None, p)) \<and>
       part' = Some (p\<lparr>pg_SingleEndpoint := k, pg_MaximumNumberOfResults := limit\<rparr>))"

lemma page_erased:
  assumes "p\<lparr>pg_SingleEndpoint := [], pg_MaximumNumberOfResults := 0\<rparr> =
      (q :: Page_Config)\<lparr>pg_SingleEndpoint := [], pg_MaximumNumberOfResults := 0\<rparr>"
  shows "p = q\<lparr>pg_SingleEndpoint := pg_SingleEndpoint p, pg_MaximumNumberOfResults := pg_MaximumNumberOfResults p\<rparr>"
  using assms by (cases p, cases q) simp

lemma validated_page:
  assumes "validate_config env c = Return (None, c')"
  shows "\<exists>s. c_Storage c' = Some s \<and> set_page (ce_render env) (c_UI c) (c_UI c') (sto_MaximumNumberOfResults s)"
proof -
  note run = assms [unfolded validate_config_def]
  from run_steps_part [OF run, of 5 c_UI page_part] obtain s1 s2 where
    u: "ValidateUIConfig (ce_render env) s1 = Return (None, s2)" "c_UI s1 = c_UI c" "page_part c' = page_part s2" by auto
  then obtain q where q: "c_UI s2 = Some q" "case c_UI c of None \<Rightarrow> q = Page_GetDefaultConfig
      | Some p0 \<Rightarrow> Page_ValidateAndSetDefaults (ce_render env) p0 = Return (None, q)"
    by (auto simp: ValidateUIConfig_def split: option.splits prod.splits outcome.splits)
  then obtain p where p: "c_UI c' = Some p" "p\<lparr>pg_SingleEndpoint := [], pg_MaximumNumberOfResults := 0\<rparr> =
      q\<lparr>pg_SingleEndpoint := [], pg_MaximumNumberOfResults := 0\<rparr>"
    using u(3) by (auto simp: page_part_def)
  from validated_parts(3) [OF assms] obtain s where s: "c_Storage c' = Some s" by (auto simp: set_part_def split: option.splits)
  from run_steps_part [OF run, of 16 "\<lambda>_. ()" "\<lambda>u. u"] obtain c2 where "c' = set_page_limit c2"
    by (auto simp: keeps_part_def modify_def)
  then have "pg_MaximumNumberOfResults p = sto_MaximumNumberOfResults s"
    using p(1) s by (auto simp: set_page_limit_def split: option.splits)
  then show ?thesis using page_erased [OF p(2)] p(1) s q(2) by (auto simp: set_page_def intro!: exI [of _ q])
qed

lemma validated_concurrency:
  assumes "validate_config env c = Return (None, c')"
  shows "c_Concurrency c' = (if c_DisableMonitoringLock c then 0
      else if c_Concurrency c \<le> 0 then DefaultConcurrency else c_Concurrency c)"
proof -
  let ?part = "\<lambda>c. (c_DisableMonitoringLock c, c_Concurrency c)"
  from run_steps_part [OF assms [unfolded validate_config_def], of 15 ?part ?part] obtain s1 where
    "?part s1 = ?part c" "?part c' = ?part (ValidateAndSetConcurrencyDefaults s1)" by (auto simp: modify_def)
  then show ?thesis by (auto simp: ValidateAndSetConcurrencyDefaults_def)
qed

text \<open>
  C2. In a configuration that passes validation, all keys, of endpoints, external endpoints, suites
  and endpoints of suites, are pairwise different, every endpoint and every external endpoint is
  valid, and each is what is found under its own key. And every part with a default has been set: the web server,
  the maintenance, the storage and the page are their defaults where they were left out, and otherwise what
  their validation, which found no error, made of them. The page differs in two settings: its page limit is the number of
  results the storage keeps, and its single endpoint is set by a later step. The concurrency is that of the file, unless it is not positive or the
  monitoring lock is disabled.
\<close>

theorem validated_config_keys:
  assumes "validate_config env c = Return (None, c')" and "isl (unmarshal (v_codec (ce_validation env)) [])"
    and "\<forall>ep \<in> set (c_Endpoints c'). e_KeyOverride ep = []"
  shows "distinct (all_keys c') \<and>
    (\<forall>ep \<in> set (c_Endpoints c'). validated_endpoint ep \<and> GetEndpointByKey c' (Endpoint_Key ep) = Some ep) \<and>
    (\<forall>ee \<in> set (c_ExternalEndpoints c'). valid_external ee \<and> GetExternalEndpointByKey c' (External_Key ee) = Some ee) \<and>
    set_part (Web_ValidateAndSetDefaults (v_LoadX509KeyPair (ce_validation env))) Web_GetDefaultConfig
      (c_Web c) (c_Web c') \<and>
    set_part (Maintenance_ValidateAndSetDefaults (v_LoadLocation (ce_validation env))) Maintenance_GetDefaultConfig
      (c_Maintenance c) (c_Maintenance c') \<and>
    set_part Storage_ValidateAndSetDefaults default_storage (c_Storage c) (c_Storage c') \<and>
    (\<exists>s. c_Storage c' = Some s \<and> set_page (ce_render env) (c_UI c) (c_UI c') (sto_MaximumNumberOfResults s)) \<and>
    c_Concurrency c' = (if c_DisableMonitoringLock c then 0
      else if c_Concurrency c \<le> 0 then DefaultConcurrency else c_Concurrency c)"
proof -
  from validate_config_None [OF assms(1,2)] obtain c1 where c1: "valid_endpoints c1" "distinct (all_keys c1)"
    "c' = set_page_limit (ValidateAndSetConcurrencyDefaults c1)" by blast
  have low: "ToLower (Endpoint_Key ep) = Endpoint_Key ep" if "ep \<in> set (c_Endpoints c')" for ep
    using that assms(3) by (simp add: Endpoint_Key_def)
  have "distinct (map Endpoint_Key (c_Endpoints c'))" "distinct (map External_Key (c_ExternalEndpoints c'))"
    using c1(2,3) by (simp_all add: all_keys_def)
  note found = find_distinct_key [OF this(1)] find_distinct_key [OF this(2)]
  have "distinct (all_keys c') \<and>
    (\<forall>ep \<in> set (c_Endpoints c'). validated_endpoint ep \<and> GetEndpointByKey c' (Endpoint_Key ep) = Some ep) \<and>
    (\<forall>ee \<in> set (c_ExternalEndpoints c'). valid_external ee \<and> GetExternalEndpointByKey c' (External_Key ee) = Some ee)"
    using c1 low found by (auto simp: valid_endpoints_def GetEndpointByKey_def GetExternalEndpointByKey_def valid_external_def)
  with validated_parts [OF assms(1)] validated_page [OF assms(1)] validated_concurrency [OF assms(1)]
  show ?thesis by blast
qed

definition example_config :: Config where
  "example_config =
     \<lparr>c_Metrics = False, c_SkipInvalidConfigUpdate = False, c_DisableMonitoringLock = False, c_Concurrency = 0,
      c_Security = None, c_Alerting = None, c_Endpoints = [example_endpoint],
      c_ExternalEndpoints = [example_external], c_Suites = [], c_Storage = None, c_Web = None, c_UI = None,
      c_Maintenance = None, c_Remote = None, c_Connectivity = None, c_Tunneling = None, c_Announcements = [],
      c_configPath = [], c_lastFileModTime = 0\<rparr>"

definition example_config_env :: config_env where
  "example_config_env =
     \<lparr>ce_validation = example_env, ce_ssh = \<lparr>ParsePrivateKey = \<lambda>k. None, ssh_Dial = \<lambda>n. Inl [], client_Dial = \<lambda>n c. Inl []\<rparr>,
      ce_render = (\<lambda>p. None), ce_Unmarshal = (\<lambda>s. Inr (Some example_config)), ce_Getenv = (\<lambda>n. []),
      ce_merge = (\<lambda>a b. Inr (a @ b)), ce_now = 0\<rparr>"

lemma example_config_validates:
  "case validate_config example_config_env example_config of
     Return (None, c') \<Rightarrow> list_all (\<lambda>ep. e_KeyOverride ep = []) (c_Endpoints c') \<and>
       map Endpoint_Key (c_Endpoints c') = [''_web'']
   | _ \<Rightarrow> False"
  by code_simp

theorem validated_config_keys_witness:
  "\<exists>c'. validate_config example_config_env example_config = Return (None, c') \<and>
    (\<forall>ep \<in> set (c_Endpoints c'). GetEndpointByKey c' (Endpoint_Key ep) = Some ep) \<and>
    c_Web c' = Some Web_GetDefaultConfig \<and> c_Storage c' = Some default_storage \<and>
    c_Concurrency c' = DefaultConcurrency"
proof -
  obtain c' where v: "validate_config example_config_env example_config = Return (None, c')"
    and k: "\<forall>ep \<in> set (c_Endpoints c'). e_KeyOverride ep = []"
    using example_config_validates by (auto simp: list_all_iff split: outcome.splits option.splits prod.splits)
  have "isl (unmarshal (v_codec (ce_validation example_config_env)) [])"
    by (simp add: example_config_env_def example_env_def)
  note c' = validated_config_keys [OF v this k]
  have "c_Web example_config = None" "c_Storage example_config = None" "\<not> c_DisableMonitoringLock example_config"
    "c_Concurrency example_config = 0" by (simp_all add: example_config_def)
  with c' v show ?thesis by (intro exI [of _ c']) (simp add: set_part_def)
qed

section \<open>Default alerts\<close>

text \<open>The default alert that applies to the alerts of a type: that of its provider, when it is valid.\<close>

definition effective_default :: "Alerting_Config \<Rightarrow> string \<Rightarrow> Alert option" where
  "effective_default alerting ty =
     (case GetAlertingProviderByAlertType alerting ty of
        None \<Rightarrow> None
      | Some p \<Rightarrow> if ty \<in> set alertTypes \<and> ap_Validate p = None then ap_GetDefaultAlert p else None)"

abbreviation with_defaults :: "(string \<Rightarrow> Alert option) \<Rightarrow> Alert list \<Rightarrow> Alert list" where
  "with_defaults eff \<equiv> map (\<lambda>a. MergeProviderDefaultAlertIntoEndpointAlert (eff (al_Type a)) a)"

lemma Merge_None [simp]: "MergeProviderDefaultAlertIntoEndpointAlert None a = a"
  by (simp add: MergeProviderDefaultAlertIntoEndpointAlert_def)

lemma Merge_Type [simp]: "al_Type (MergeProviderDefaultAlertIntoEndpointAlert d a) = al_Type a"
  by (simp add: MergeProviderDefaultAlertIntoEndpointAlert_def split: option.splits)

lemma merge_default_with:
  "eff t = None \<Longrightarrow> merge_default t d (with_defaults eff as) = with_defaults (eff(t := d)) as"
  by (auto simp: merge_default_def)

text \<open>The same for the types treated so far.\<close>

definition usable_within :: "Alerting_Config \<Rightarrow> string list \<Rightarrow> string \<Rightarrow> bool" where
  "usable_within alerting ts ty \<longleftrightarrow> ty \<in> set ts \<and>
     (\<exists>p. GetAlertingProviderByAlertType alerting ty = Some p \<and> ap_Validate p = None)"

definition default_within :: "Alerting_Config \<Rightarrow> string list \<Rightarrow> string \<Rightarrow> Alert option" where
  "default_within alerting ts ty =
     (if usable_within alerting ts ty
      then ap_GetDefaultAlert (the (GetAlertingProviderByAlertType alerting ty)) else None)"

lemma validate_alert_types:
  assumes "distinct ts"
  shows "foldl validate_alert_type
      \<lparr>av_Alerting = alerting, av_Endpoints = eps, av_ExternalEndpoints = ees, av_valid = [], av_invalid = []\<rparr> ts = v \<Longrightarrow>
    av_Endpoints v = map (\<lambda>ep. ep\<lparr>e_Alerts := with_defaults (default_within alerting ts) (e_Alerts ep)\<rparr>) eps \<and>
    av_ExternalEndpoints v = map (\<lambda>ee. ee\<lparr>ee_Alerts := with_defaults (default_within alerting ts) (ee_Alerts ee)\<rparr>) ees \<and>
    (\<forall>ty. GetAlertingProviderByAlertType (av_Alerting v) ty =
      (if ty \<in> set ts \<and> \<not> usable_within alerting ts ty then None else GetAlertingProviderByAlertType alerting ty)) \<and>
    av_valid v = filter (usable_within alerting ts) ts \<and> av_invalid v = filter (\<lambda>ty. \<not> usable_within alerting ts ty) ts"
  using assms
proof (induction ts arbitrary: v rule: rev_induct)
  case Nil
  then show ?case by (auto simp: default_within_def usable_within_def)
next
  case (snoc t ts)
  define w where "w = foldl validate_alert_type
      \<lparr>av_Alerting = alerting, av_Endpoints = eps, av_ExternalEndpoints = ees, av_valid = [], av_invalid = []\<rparr> ts"
  have new: "t \<notin> set ts" using snoc.prems(2) by simp
  note IH = snoc.IH [OF w_def [symmetric]]
  have v: "v = validate_alert_type w t" using snoc.prems(1) by (simp add: w_def)
  have get: "GetAlertingProviderByAlertType (av_Alerting w) t = GetAlertingProviderByAlertType alerting t"
    using IH new snoc.prems(2) by (simp add: usable_within_def)
  have old: "filter (\<lambda>a. a = t \<or> P a) ts = filter P ts" "filter (\<lambda>a. a \<noteq> t \<and> P a) ts = filter P ts" for P
    using new by (auto intro!: filter_cong)
  have none: "default_within alerting ts t = None" using new by (simp add: default_within_def usable_within_def)
  show ?case
  proof (cases "usable_within alerting (ts @ [t]) t")
    case True
    then obtain p where p: "GetAlertingProviderByAlertType alerting t = Some p" "ap_Validate p = None"
      by (auto simp: usable_within_def)
    have within: "usable_within alerting (ts @ [t]) ty \<longleftrightarrow> ty = t \<or> usable_within alerting ts ty" for ty
      using True by (auto simp: usable_within_def)
    have eff: "default_within alerting (ts @ [t]) = (default_within alerting ts)(t := ap_GetDefaultAlert p)"
      using p new by (auto simp: fun_eq_iff default_within_def usable_within_def)
    have "v = w\<lparr>av_Endpoints := map (\<lambda>ep. ep\<lparr>e_Alerts := merge_default t (ap_GetDefaultAlert p) (e_Alerts ep)\<rparr>)
          (av_Endpoints w),
        av_ExternalEndpoints := map (\<lambda>ee. ee\<lparr>ee_Alerts := merge_default t (ap_GetDefaultAlert p) (ee_Alerts ee)\<rparr>)
          (av_ExternalEndpoints w),
        av_valid := av_valid w @ [t]\<rparr>"
      unfolding v validate_alert_type_def get p(1) option.case p(2) by simp
    then show ?thesis
      using IH snoc.prems(2) none unfolding eff by (auto simp: merge_default_with within old)
  next
    case False
    have within: "usable_within alerting (ts @ [t]) ty \<longleftrightarrow> usable_within alerting ts ty" for ty
      using False by (auto simp: usable_within_def)
    have eff: "default_within alerting (ts @ [t]) = default_within alerting ts" using False new by (auto simp: fun_eq_iff default_within_def usable_within_def)
    have "av_Endpoints v = av_Endpoints w \<and> av_ExternalEndpoints v = av_ExternalEndpoints w \<and>
      av_valid v = av_valid w \<and> av_invalid v = av_invalid w @ [t] \<and>
      (\<forall>ty. GetAlertingProviderByAlertType (av_Alerting v) ty =
        (if ty = t then None else GetAlertingProviderByAlertType (av_Alerting w) ty))"
      using False get
      by (auto simp: v validate_alert_type_def usable_within_def GetAlertingProvider_SetToNil split: option.splits)
    then show ?thesis using IH snoc.prems(2) False unfolding eff by (auto simp: within)
  qed
qed

text \<open>
  C37. The validation of the alerting configuration gives every alert the default of the provider of
  its type, when that provider is configured and valid, and leaves every other alert as it was;
  the providers that remain are the valid ones, and the types are reported as valid or invalid
  accordingly.
\<close>

theorem alerts_carry_defaults:
  "let v = ValidateAlertingConfig alerting eps ees;
       usable = (\<lambda>ty. \<exists>p. GetAlertingProviderByAlertType alerting ty = Some p \<and> ap_Validate p = None)
   in av_Endpoints v = map (\<lambda>ep. ep\<lparr>e_Alerts :=
        map (\<lambda>a. MergeProviderDefaultAlertIntoEndpointAlert (effective_default alerting (al_Type a)) a)
          (e_Alerts ep)\<rparr>) eps \<and>
      av_ExternalEndpoints v = map (\<lambda>ee. ee\<lparr>ee_Alerts :=
        map (\<lambda>a. MergeProviderDefaultAlertIntoEndpointAlert (effective_default alerting (al_Type a)) a)
          (ee_Alerts ee)\<rparr>) ees \<and>
      (\<forall>ty. GetAlertingProviderByAlertType (av_Alerting v) ty =
        (if ty \<in> set alertTypes \<and> \<not> usable ty then None else GetAlertingProviderByAlertType alerting ty)) \<and>
      av_valid v = filter usable alertTypes \<and> av_invalid v = filter (\<lambda>ty. \<not> usable ty) alertTypes"
proof -
  have d: "distinct alertTypes" by code_simp
  have eff: "default_within alerting alertTypes = effective_default alerting"
    by (auto simp: fun_eq_iff effective_default_def default_within_def usable_within_def split: option.splits)
  let ?usable = "\<lambda>ty. \<exists>p. GetAlertingProviderByAlertType alerting ty = Some p \<and> ap_Validate p = None"
  have f: "filter (usable_within alerting alertTypes) alertTypes = filter ?usable alertTypes"
    "filter (\<lambda>ty. \<not> usable_within alerting alertTypes ty) alertTypes = filter (\<lambda>ty. \<not> ?usable ty) alertTypes"
    by (auto intro!: filter_cong simp: usable_within_def)
  show ?thesis
    using validate_alert_types [OF d ValidateAlertingConfig_def [symmetric], of alerting eps ees]
    unfolding eff f Let_def by (auto simp: usable_within_def)
qed

section \<open>Dollar signs\<close>

lemma ReplaceAll_Cons:
  "old \<noteq> [] \<Longrightarrow> ReplaceAll (c # s) old new =
     (if prefix old (c # s) then new @ ReplaceAll (drop (length old) (c # s)) old new
      else c # ReplaceAll s old new)"
  by (cases "Cut old s") (auto simp: ReplaceAll.simps [of "c # s"] ReplaceAll.simps [of s] split: option.splits)

lemma ReplaceAll_Nil: "old \<noteq> [] \<Longrightarrow> ReplaceAll [] old new = []"
  by (simp add: ReplaceAll.simps)

lemma ReplaceAll_append_old:
  assumes "old \<noteq> []"
  shows "ReplaceAll (old @ t) old new = new @ ReplaceAll t old new"
proof -
  obtain c o' where o: "old = c # o'" using assms by (cases old) auto
  have "prefix old (c # o' @ t)" "drop (length old) (c # o' @ t) = t" by (simp_all add: o)
  then show ?thesis using ReplaceAll_Cons [OF assms, of c "o' @ t" new] by (simp add: o)
qed

lemma ReplaceAll_doubled:
  "ReplaceAll (ReplaceAll s ''$'' ''$$'') ''$$'' new = ReplaceAll s ''$'' new"
  by (induction s) (auto simp: ReplaceAll_Nil ReplaceAll_Cons)

lemma ExpandEnv_no_dollar: "CHR ''$'' \<notin> set s \<Longrightarrow> ExpandEnv getenv s = s"
  by (induction s) auto

lemma no_dollar_left: "CHR ''$'' \<notin> set new \<Longrightarrow> CHR ''$'' \<notin> set (ReplaceAll s ''$'' new)"
  by (induction s) (auto simp: ReplaceAll_Nil ReplaceAll_Cons)

text \<open>Up to the first dollar the text is left alone.\<close>

lemma ReplaceAll_dollar_split:
  "\<exists>rest. ReplaceAll s ''$'' new = takeWhile (\<lambda>c. c \<noteq> CHR ''$'') s @ rest \<and>
     (if CHR ''$'' \<in> set s then prefix new rest else rest = [])"
  by (induction s) (auto simp: ReplaceAll_Nil ReplaceAll_Cons)

text \<open>
  The marker does not overlap itself by more than two characters, so it only occurs where a dollar was,
  as long as the text does not contain the middle of it.
\<close>

lemma marker_positions:
  "\<forall>k \<in> {1..<27}. literal_dollar ! k \<noteq> literal_dollar ! 0 \<or> literal_dollar ! Suc k \<noteq> literal_dollar ! 1"
proof -
  have "list_all (\<lambda>k. literal_dollar ! k \<noteq> literal_dollar ! 0 \<or> literal_dollar ! Suc k \<noteq> literal_dollar ! 1) [1..<27]"
    by code_simp
  then show ?thesis by (simp add: list_all_iff)
qed

lemma no_early_marker:
  assumes "s \<noteq> []" and "hd s \<noteq> CHR ''$''" and "\<not> Contains s ''GATUS_LITERAL_DOLLAR_SIGN''"
  shows "\<not> prefix literal_dollar (ReplaceAll s ''$'' literal_dollar)"
proof
  assume pre: "prefix literal_dollar (ReplaceAll s ''$'' literal_dollar)"
  let ?p = "takeWhile (\<lambda>c. c \<noteq> CHR ''$'') s"
  let ?M = literal_dollar
  have M: "?M = ''__'' @ ''GATUS_LITERAL_DOLLAR_SIGN'' @ ''__''" "length ?M = 29"
    by (simp_all add: literal_dollar_def)
  obtain rest where rest: "ReplaceAll s ''$'' ?M = ?p @ rest"
    "if CHR ''$'' \<in> set s then prefix ?M rest else rest = []"
    using ReplaceAll_dollar_split by blast
  have p: "1 \<le> length ?p" using assms(1,2) by (cases s) auto
  show False
  proof (cases "27 \<le> length ?p")
    case True
    have "take 27 (?p @ rest) = take 27 ?M" using pre M(2) by (auto simp: rest(1) [symmetric] prefix_def)
    moreover have "take 27 ?M = ''__'' @ ''GATUS_LITERAL_DOLLAR_SIGN''" by (simp add: literal_dollar_def)
    moreover have "take 27 (?p @ rest) = take 27 ?p" using True by simp
    ultimately have "take 27 ?p = ''__'' @ ''GATUS_LITERAL_DOLLAR_SIGN''" by (metis (no_types, lifting))
    then have "?p = ''__'' @ ''GATUS_LITERAL_DOLLAR_SIGN'' @ drop 27 ?p"
      by (metis append_assoc append_take_drop_id)
    then have "sublist ''GATUS_LITERAL_DOLLAR_SIGN'' ?p" unfolding sublist_def by blast
    moreover have "sublist ?p s" by (metis takeWhile_dropWhile_id sublist_append_rightI)
    ultimately show False using assms(3) sublist_order.order_trans by (auto simp: Contains_def)
  next
    case False
    let ?k = "length ?p"
    have nth: "?M ! i = (?p @ rest) ! i" if "i < 29" for i
      using pre that M(2) by (auto simp: rest(1) [symmetric] prefix_def nth_append)
    have "CHR ''$'' \<in> set s"
    proof (rule ccontr)
      assume "\<not> ?thesis"
      then show False using pre rest False M(2) by (auto simp: prefix_def dest!: arg_cong [of _ _ length])
    qed
    then obtain t where t: "rest = ?M @ t" using rest(2) by (auto simp: prefix_def)
    have "?M ! ?k = ?M ! 0" "?M ! Suc ?k = ?M ! 1"
      using nth [of ?k] nth [of "Suc ?k"] False M(2) by (simp_all add: t nth_append)
    then show False using marker_positions p False by auto
  qed
qed

lemma Contains_Cons: "\<not> Contains (c # s) p \<Longrightarrow> \<not> Contains s p"
  by (auto simp: Contains_def sublist_Cons_right)

text \<open>
  A text in which every dollar is doubled is read as the text with single dollars, whatever the
  environment, as long as it does not contain the words of the internal marker; a text without
  dollars is then read as it is.
\<close>

theorem doubled_dollars_are_literal:
  assumes "\<not> Contains s ''GATUS_LITERAL_DOLLAR_SIGN''"
  shows "expand_config getenv (ReplaceAll s ''$'' ''$$'') = s"
proof -
  have "ReplaceAll (ReplaceAll s ''$'' literal_dollar) literal_dollar ''$'' = s"
    using assms
  proof (induction s)
    case Nil
    then show ?case by (simp add: ReplaceAll_Nil literal_dollar_def)
  next
    case (Cons c s)
    have ne: "literal_dollar \<noteq> []" by (simp add: literal_dollar_def)
    have IH: "ReplaceAll (ReplaceAll s ''$'' literal_dollar) literal_dollar ''$'' = s"
      using Cons Contains_Cons by blast
    show ?case
    proof (cases "c = CHR ''$''")
      case True
      then have "ReplaceAll (c # s) ''$'' literal_dollar = literal_dollar @ ReplaceAll s ''$'' literal_dollar"
        by (simp add: ReplaceAll_Cons)
      then show ?thesis using IH True by (simp add: ReplaceAll_append_old [OF ne])
    next
      case False
      have x: "ReplaceAll (c # s) ''$'' literal_dollar = c # ReplaceAll s ''$'' literal_dollar"
        using False by (simp add: ReplaceAll_Cons)
      have "\<not> prefix literal_dollar (c # ReplaceAll s ''$'' literal_dollar)"
        using no_early_marker [of "c # s"] False Cons.prems unfolding x by simp
      then show ?thesis unfolding x by (simp add: ReplaceAll_Cons [OF ne] IH)
    qed
  qed
  moreover have "CHR ''$'' \<notin> set literal_dollar" by (simp add: literal_dollar_def)
  ultimately show ?thesis
    by (simp add: expand_config_def ReplaceAll_doubled ExpandEnv_no_dollar no_dollar_left)
qed

theorem doubled_dollars_are_literal_witness:
  "expand_config (\<lambda>name. ''expanded'') (ReplaceAll ''pass: $HOME'' ''$'' ''$$'') = ''pass: $HOME''"
proof -
  have "\<not> Contains ''pass: $HOME'' ''GATUS_LITERAL_DOLLAR_SIGN''"
    by (auto simp: Contains_def dest: sublist_length_le)
  then show ?thesis by (rule doubled_dollars_are_literal)
qed

text \<open>A concurrency of zero, which the documentation calls unlimited, becomes the default.\<close>

lemma concurrency_zero_is_default:
  "\<not> c_DisableMonitoringLock c \<Longrightarrow> c_Concurrency c = 0 \<Longrightarrow>
   c_Concurrency (ValidateAndSetConcurrencyDefaults c) = 3"
  by (simp add: ValidateAndSetConcurrencyDefaults_def DefaultConcurrency_def)

end
