(* ===== verification/Watchdog.thy ===== *)
theory Watchdog
  imports Watchdog_Alerting Config_Properties
begin

text \<open>
  \<open>watchdog/endpoint.go\<close>, \<open>watchdog/external_endpoint.go\<close>, \<open>watchdog/suite.go\<close>
  and \<open>watchdog/watchdog.go\<close>: one execution of a monitored target, and the goroutines that
  execute the targets under a semaphore.

  The targets are pointers held by the configuration, so an execution returns the configuration
  with the target as it leaves it, the store, the notifications it tried to send, and the results it
  published as metrics. Logging is left out.
\<close>

section \<open>Environment\<close>

text \<open>
  What an execution reads from outside: the context of the program, the clocks, the network, the
  store. The clock is read at each use. \<open>we_Local\<close> is the zone of the machine.
\<close>

record 's watch_env =
  we_cancelled :: bool
  we_connected :: bool
  we_checked_at :: instant
  we_inserted_at :: instant
  we_windows_at :: instant
  we_heartbeat_at :: instant
  we_heartbeat_made_at :: instant
  we_Local :: location
  we_probe :: probe
  we_suite :: suite_env
  we_alert_now :: "nat \<Rightarrow> instant"
  we_alert_sent_at :: "nat \<Rightarrow> instant"
  we_mock :: bool
  we_mock_error :: bool
  we_store :: "'s store_iface"

datatype publication = Published_Endpoint Result | Published_Suite Suite_Result

record 's watched =
  wd_config :: Config
  wd_store :: 's
  wd_sent :: "notification list"
  wd_published :: "publication list"

definition alerting_env_of :: "'s watch_env \<Rightarrow> Config \<Rightarrow> 's alerting_env" where
  "alerting_env_of env cfg =
     \<lparr>ae_configured = (c_Alerting cfg \<noteq> None),
      ae_GetAlertingProvider = (\<lambda>ty. case c_Alerting cfg of
          None \<Rightarrow> None | Some a \<Rightarrow> map_option ap_Send (GetAlertingProviderByAlertType a ty)),
      ae_now = we_alert_now env, ae_sent_at = we_alert_sent_at env,
      ae_mock = we_mock env, ae_mock_error = we_mock_error env, ae_store = we_store env\<rparr>"

text \<open>Whether the connectivity check lets an execution go on; a check is remembered in the configuration.\<close>

definition has_connectivity :: "'s watch_env \<Rightarrow> Config \<Rightarrow> bool \<times> Config" where
  "has_connectivity env cfg =
     (case c_Connectivity cfg of
        None \<Rightarrow> (True, cfg)
      | Some cn \<Rightarrow>
          (case cn_Checker cn of
             None \<Rightarrow> (True, cfg)
           | Some k \<Rightarrow>
               (case IsConnected (we_checked_at env) (we_connected env) k of
                  (ok, k') \<Rightarrow> (ok, cfg\<lparr>c_Connectivity := Some (cn\<lparr>cn_Checker := Some k'\<rparr>)\<rparr>))))"

text \<open>The window of the whole configuration: its absence would be a null pointer.\<close>

definition under_maintenance :: "'s watch_env \<Rightarrow> Config \<Rightarrow> bool outcome" where
  "under_maintenance env cfg =
     (case c_Maintenance cfg of
        None \<Rightarrow> Panic ''invalid memory address or nil pointer dereference''
      | Some m \<Rightarrow> Return (IsUnderMaintenance (we_Local env) m (we_windows_at env)))"

definition in_endpoint_window :: "'s watch_env \<Rightarrow> Maintenance_Config list \<Rightarrow> bool" where
  "in_endpoint_window env ms = list_ex (\<lambda>m. IsUnderMaintenance (we_Local env) m (we_windows_at env)) ms"

section \<open>Endpoints\<close>

definition UpdateEndpointStatus :: "'s watch_env \<Rightarrow> 's \<Rightarrow> Endpoint \<Rightarrow> Result \<Rightarrow> 's" where
  "UpdateEndpointStatus env s ep result =
     so_InsertEndpointResult (we_store env) s (we_inserted_at env) ep result"

definition set_endpoint :: "Config \<Rightarrow> nat \<Rightarrow> Endpoint \<Rightarrow> Config" where
  "set_endpoint cfg i ep = cfg\<lparr>c_Endpoints := (c_Endpoints cfg)[i := ep]\<rparr>"

definition executeEndpoint :: "'s watch_env \<Rightarrow> nat \<Rightarrow> Config \<Rightarrow> 's \<Rightarrow> 's watched outcome" where
  "executeEndpoint env i cfg0 s =
     (if we_cancelled env then Return \<lparr>wd_config = cfg0, wd_store = s, wd_sent = [], wd_published = []\<rparr>
      else case has_connectivity env cfg0 of
        (False, cfg) \<Rightarrow> Return \<lparr>wd_config = cfg, wd_store = s, wd_sent = [], wd_published = []\<rparr>
      | (True, cfg) \<Rightarrow>
          let ep = c_Endpoints cfg ! i in
          (case EvaluateHealth (we_probe env) ep of
             Panic p \<Rightarrow> Panic p
           | Return result \<Rightarrow>
               let published = (if c_Metrics cfg then [Published_Endpoint result] else []);
                   s' = UpdateEndpointStatus env s ep result
               in (case under_maintenance env cfg of
                     Panic p \<Rightarrow> Panic p
                   | Return global \<Rightarrow>
                       if \<not> global \<and> \<not> in_endpoint_window env (e_MaintenanceWindows ep) then
                         (case HandleAlerting (alerting_env_of env cfg) ep result s' of
                            (ep', s'', ns) \<Rightarrow>
                              Return \<lparr>wd_config = set_endpoint cfg i ep', wd_store = s'', wd_sent = ns,
                                      wd_published = published\<rparr>)
                       else Return \<lparr>wd_config = cfg, wd_store = s', wd_sent = [], wd_published = published\<rparr>)))"

section \<open>Heartbeats of external endpoints\<close>

text \<open>
  The endpoint an external endpoint is converted to shares its alerts, which are pointers; its
  counters are copied back.
\<close>

definition set_external :: "Config \<Rightarrow> nat \<Rightarrow> ExternalEndpoint \<Rightarrow> Config" where
  "set_external cfg i ee = cfg\<lparr>c_ExternalEndpoints := (c_ExternalEndpoints cfg)[i := ee]\<rparr>"

definition heartbeat_failure :: "'s watch_env \<Rightarrow> ExternalEndpoint \<Rightarrow> Result" where
  "heartbeat_failure env ee =
     empty_Result\<lparr>r_Timestamp := we_heartbeat_made_at env, r_Success := False,
       r_Errors := [''heartbeat: no update received within '' @ duration_String (hb_Interval (ee_Heartbeat ee))]\<rparr>"

definition executeExternalEndpointHeartbeat ::
  "'s watch_env \<Rightarrow> nat \<Rightarrow> Config \<Rightarrow> 's \<Rightarrow> 's watched outcome" where
  "executeExternalEndpointHeartbeat env i cfg0 s =
     (if we_cancelled env then Return \<lparr>wd_config = cfg0, wd_store = s, wd_sent = [], wd_published = []\<rparr>
      else case has_connectivity env cfg0 of
        (False, cfg) \<Rightarrow> Return \<lparr>wd_config = cfg, wd_store = s, wd_sent = [], wd_published = []\<rparr>
      | (True, cfg) \<Rightarrow>
          let ee = c_ExternalEndpoints cfg ! i; convertedEndpoint = ToEndpoint ee in
          (case so_HasEndpointStatusNewerThan (we_store env) s (External_Key ee)
                  (we_heartbeat_at env - hb_Interval (ee_Heartbeat ee)) of
             Inl err \<Rightarrow> Return \<lparr>wd_config = cfg, wd_store = s, wd_sent = [], wd_published = []\<rparr>
           | Inr True \<Rightarrow> Return \<lparr>wd_config = cfg, wd_store = s, wd_sent = [], wd_published = []\<rparr>
           | Inr False \<Rightarrow>
               let result = heartbeat_failure env ee;
                   published = (if c_Metrics cfg then [Published_Endpoint result] else []);
                   s' = UpdateEndpointStatus env s convertedEndpoint result
               in (case under_maintenance env cfg of
                     Panic p \<Rightarrow> Panic p
                   | Return global \<Rightarrow>
                       if \<not> global \<and> \<not> in_endpoint_window env (ee_MaintenanceWindows ee) then
                         (case HandleAlerting (alerting_env_of env cfg) convertedEndpoint result s' of
                            (ep', s'', ns) \<Rightarrow>
                              Return \<lparr>wd_config = set_external cfg i
                                        (ee\<lparr>ee_Alerts := e_Alerts ep',
                                            ee_NumberOfSuccessesInARow := e_NumberOfSuccessesInARow ep',
                                            ee_NumberOfFailuresInARow := e_NumberOfFailuresInARow ep'\<rparr>),
                                      wd_store = s'', wd_sent = ns, wd_published = published\<rparr>)
                       else Return \<lparr>wd_config = cfg, wd_store = s', wd_sent = [], wd_published = published\<rparr>)))"

section \<open>Suites\<close>

definition UpdateSuiteStatus :: "'s watch_env \<Rightarrow> 's \<Rightarrow> Suite \<Rightarrow> Suite_Result \<Rightarrow> 's" where
  "UpdateSuiteStatus env s su result = so_InsertSuiteResult (we_store env) s su result"

text \<open>
  The alerts of the endpoints of a suite: the endpoint at a position is given the result at that
  position, as far as there are results.
\<close>

fun alert_suite ::
  "'s watch_env \<Rightarrow> Config \<Rightarrow> Endpoint list \<Rightarrow> Result list \<Rightarrow> 's \<Rightarrow> (Endpoint list \<times> 's \<times> notification list) outcome" where
  "alert_suite env cfg [] results s = Return ([], s, [])"
| "alert_suite env cfg (ep # eps) [] s = Return (ep # eps, s, [])"
| "alert_suite env cfg (ep # eps) (epResult # results) s =
     (case (if c_Alerting cfg = None then Return True else under_maintenance env cfg) of
        Panic p \<Rightarrow> Panic p
      | Return silent \<Rightarrow>
          (case (if silent \<or> in_endpoint_window env (e_MaintenanceWindows ep) then (ep, s, [])
                 else HandleAlerting (alerting_env_of env cfg) ep epResult s) of
             (ep', s', ns) \<Rightarrow>
               (case alert_suite env cfg eps results s' of
                  Panic p \<Rightarrow> Panic p
                | Return (eps', s'', ns') \<Rightarrow> Return (ep' # eps', s'', ns @ ns'))))"

definition executeSuite :: "'s watch_env \<Rightarrow> nat \<Rightarrow> Config \<Rightarrow> 's \<Rightarrow> 's watched outcome" where
  "executeSuite env i cfg0 s =
     (if we_cancelled env then Return \<lparr>wd_config = cfg0, wd_store = s, wd_sent = [], wd_published = []\<rparr>
      else case has_connectivity env cfg0 of
        (False, cfg) \<Rightarrow> Return \<lparr>wd_config = cfg, wd_store = s, wd_sent = [], wd_published = []\<rparr>
      | (True, cfg) \<Rightarrow>
          let su = c_Suites cfg ! i in
          (case Suite_Execute (we_suite env) su of
             Panic p \<Rightarrow> Panic p
           | Return result \<Rightarrow>
               (case alert_suite env cfg (s_Endpoints su) (sr_EndpointResults result)
                       (UpdateSuiteStatus env s su result) of
                  Panic p \<Rightarrow> Panic p
                | Return (eps', s', ns) \<Rightarrow>
                    Return \<lparr>wd_config = cfg\<lparr>c_Suites := (c_Suites cfg)[i := su\<lparr>s_Endpoints := eps'\<rparr>]\<rparr>,
                            wd_store = s', wd_sent = ns,
                            wd_published = (if c_Metrics cfg then [Published_Suite result] else [])\<rparr>)))"

section \<open>Facts\<close>

text \<open>What every update of the triggered alerts keeps of the store, a handling keeps.\<close>

lemma for_alerts_store:
  assumes "\<And>i ep s ns. Q s \<Longrightarrow> Q (fst (snd (step i (ep, s, ns))))" and "Q s"
  shows "Q (fst (snd (for_alerts step ep s)))"
proof -
  have "Q (fst (snd (foldl (\<lambda>st i. step i st) st is)))" if "Q (fst (snd st))" for st "is"
    using that
  proof (induction "is" arbitrary: st)
    case (Cons i "is")
    obtain ep s ns where st: "st = (ep, s, ns)" by (metis prod.exhaust)
    then show ?case using Cons.IH [of "step i st"] Cons.prems assms(1) [of s i ep ns] by simp
  qed simp
  from this [of "(ep, s, [])"] assms(2) show ?thesis by (simp add: for_alerts_def)
qed

lemma HandleAlerting_store:
  assumes "\<And>s ep a. Q s \<Longrightarrow> Q (so_UpsertTriggeredEndpointAlert (ae_store env) s ep a)"
    and "\<And>s ep a. Q s \<Longrightarrow> Q (so_DeleteTriggeredEndpointAlert (ae_store env) s ep a)"
    and "Q s" and "HandleAlerting env ep r s = (ep', s', ns)"
  shows "Q s'"
proof -
  have t: "Q s \<Longrightarrow> Q (fst (snd (trigger_alert env r since i (ep, s, ns))))" for since i ep s ns
    by (auto simp: trigger_alert_def Let_def assms(1) split: option.splits prod.splits)
  have d: "Q s \<Longrightarrow> Q (fst (snd (resolve_alert env r i (ep, s, ns))))" for i ep s ns
    by (auto simp: resolve_alert_def Let_def assms(1,2) split: option.splits prod.splits)
  have T: "Q (fst (snd (handleAlertsToTrigger env ep r s)))"
    unfolding handleAlertsToTrigger_def Let_def by (rule for_alerts_store [where Q = Q]) (use t assms(3) in blast)+
  have "Q (fst (snd (for_alerts (resolve_alert env r) ep1 s)))" for ep1
    by (rule for_alerts_store [where Q = Q]) (use d assms(3) in blast)+
  then have D: "Q (fst (snd (handleAlertsToResolve env ep r s)))"
    unfolding handleAlertsToResolve_def by (auto split: prod.splits simp: case_prod_beta)
  show ?thesis using T D assms(3,4) by (auto simp: HandleAlerting_def split: if_splits)
qed

lemma HandleAlerting_memory:
  "ae_store env = memory_iface ec sc \<Longrightarrow> HandleAlerting env ep r s = (ep', s', ns) \<Longrightarrow> s' = s"
  by (rule HandleAlerting_store [where Q = "\<lambda>x. x = s"]) (simp_all add: memory_iface_def)

lemma has_connectivity_config:
  "has_connectivity env cfg = (ok, cfg') \<Longrightarrow> \<exists>cn. cfg' = cfg\<lparr>c_Connectivity := cn\<rparr>"
  by (cases cfg) (auto simp: has_connectivity_def split: option.splits prod.splits)

text \<open>The executions that evaluate the endpoint, and those whose result does not reach the alerts.\<close>

definition goes_on :: "'s watch_env \<Rightarrow> Config \<Rightarrow> bool" where
  "goes_on env cfg \<longleftrightarrow> \<not> we_cancelled env \<and> fst (has_connectivity env cfg)"

definition silenced :: "'s watch_env \<Rightarrow> Config \<Rightarrow> nat \<Rightarrow> bool" where
  "silenced env cfg i \<longleftrightarrow>
     under_maintenance env cfg \<noteq> Return False \<or> in_endpoint_window env (e_MaintenanceWindows (c_Endpoints cfg ! i))"

lemma alerting_env_of_connectivity [simp]:
  "alerting_env_of env (cfg\<lparr>c_Connectivity := cn\<rparr>) = alerting_env_of env cfg"
  by (simp add: alerting_env_of_def)

lemma executeEndpoint_stops:
  assumes "executeEndpoint env i cfg s = Return w" and "\<not> goes_on env cfg"
  shows "(\<exists>cn. wd_config w = cfg\<lparr>c_Connectivity := cn\<rparr>) \<and> wd_store w = s \<and> wd_sent w = []"
proof -
  obtain b cfg1 where c: "has_connectivity env cfg = (b, cfg1)" by fastforce
  obtain cn where cn: "cfg1 = cfg\<lparr>c_Connectivity := cn\<rparr>" using has_connectivity_config [OF c] by blast
  show ?thesis
  proof (cases "we_cancelled env")
    case True
    then have "wd_config w = cfg\<lparr>c_Connectivity := c_Connectivity cfg\<rparr> \<and> wd_store w = s \<and> wd_sent w = []"
      using assms(1) by (auto simp: executeEndpoint_def)
    then show ?thesis by blast
  next
    case False
    then have "\<not> b" using assms(2) by (simp add: goes_on_def c)
    then have "w = \<lparr>wd_config = cfg1, wd_store = s, wd_sent = [], wd_published = []\<rparr>"
      using assms(1) False by (simp add: executeEndpoint_def c)
    then show ?thesis by (auto simp: cn)
  qed
qed

lemma executeEndpoint_goes_on:
  assumes "executeEndpoint env i cfg s = Return w" and "goes_on env cfg"
    and "EvaluateHealth (we_probe env) (c_Endpoints cfg ! i) = Return r"
  shows "\<exists>cn. if silenced env cfg i
      then wd_config w = cfg\<lparr>c_Connectivity := cn\<rparr> \<and> wd_sent w = [] \<and>
        wd_store w = UpdateEndpointStatus env s (c_Endpoints cfg ! i) r
      else \<exists>ep'. wd_config w = set_endpoint (cfg\<lparr>c_Connectivity := cn\<rparr>) i ep' \<and>
        HandleAlerting (alerting_env_of env cfg) (c_Endpoints cfg ! i) r
          (UpdateEndpointStatus env s (c_Endpoints cfg ! i) r) = (ep', wd_store w, wd_sent w)"
proof -
  obtain cfg1 where c: "has_connectivity env cfg = (True, cfg1)"
    using assms(2) by (cases "has_connectivity env cfg") (simp add: goes_on_def)
  from has_connectivity_config [OF c] obtain cn where cfg1: "cfg1 = cfg\<lparr>c_Connectivity := cn\<rparr>" by blast
  have "under_maintenance env cfg1 = under_maintenance env cfg" by (simp add: cfg1 under_maintenance_def)
  with assms show ?thesis
    by (intro exI [of _ cn])
      (auto simp: executeEndpoint_def goes_on_def c Let_def silenced_def cfg1 split: if_splits outcome.splits prod.splits)
qed

section \<open>Runs\<close>

text \<open>
  Executions of the endpoints in any order, in environments of a kind: the configuration, the
  store, the notifications with the position of their endpoint, and what was observed, which is the
  position, whether the alerts were silenced, and the result.
\<close>

inductive watch_run ::
  "('s watch_env \<Rightarrow> bool) \<Rightarrow> Config \<Rightarrow> 's \<Rightarrow>
   Config \<times> 's \<times> (nat \<times> notification) list \<times> (nat \<times> bool \<times> Result) list \<Rightarrow> bool"
  for ok cfg0 s0 where
  start: "watch_run ok cfg0 s0 (cfg0, s0, [], [])"
| skip: "watch_run ok cfg0 s0 (cfg, s, tr, obs) \<Longrightarrow> ok env \<Longrightarrow> i < length (c_Endpoints cfg) \<Longrightarrow>
    executeEndpoint env i cfg s = Return w \<Longrightarrow> \<not> goes_on env cfg \<Longrightarrow>
    watch_run ok cfg0 s0 (wd_config w, wd_store w, tr, obs)"
| execute: "watch_run ok cfg0 s0 (cfg, s, tr, obs) \<Longrightarrow> ok env \<Longrightarrow> i < length (c_Endpoints cfg) \<Longrightarrow>
    executeEndpoint env i cfg s = Return w \<Longrightarrow> goes_on env cfg \<Longrightarrow>
    EvaluateHealth (we_probe env) (c_Endpoints cfg ! i) = Return r \<Longrightarrow>
    watch_run ok cfg0 s0 (wd_config w, wd_store w, tr @ map (Pair i) (wd_sent w),
      obs @ [(i, silenced env cfg i, r)])"

definition sent_for :: "nat \<Rightarrow> (nat \<times> notification) list \<Rightarrow> notification list" where
  "sent_for i tr = map snd (filter (\<lambda>(k, n). k = i) tr)"

definition observed :: "nat \<Rightarrow> (nat \<times> bool \<times> Result) list \<Rightarrow> Result list" where
  "observed i obs = map (\<lambda>(k, q, r). r) (filter (\<lambda>(k, q, r). k = i) obs)"

definition alerting_observed :: "nat \<Rightarrow> (nat \<times> bool \<times> Result) list \<Rightarrow> Result list" where
  "alerting_observed i obs = map (\<lambda>(k, q, r). r) (filter (\<lambda>(k, q, r). k = i \<and> \<not> q) obs)"

lemmas trace_defs = sent_for_def observed_def alerting_observed_def

lemma trace_append [simp]:
  "sent_for i (tr @ tr') = sent_for i tr @ sent_for i tr'"
  "observed i (obs @ obs') = observed i obs @ observed i obs'"
  "alerting_observed i (obs @ obs') = alerting_observed i obs @ alerting_observed i obs'"
  by (simp_all add: trace_defs)

lemma trace_single [simp]:
  "sent_for i (map (Pair k) ns) = (if k = i then ns else [])"
  "observed i [(k, q, r)] = (if k = i then [r] else [])"
  "alerting_observed i [(k, q, r)] = (if k = i \<and> \<not> q then [r] else [])"
  "sent_for i [] = []" "observed i [] = []" "alerting_observed i [] = []"
  by (simp_all add: trace_defs comp_def filter_map)

lemma HandleAlerting_frame:
  assumes "HandleAlerting env ep r s = (ep', s', ns)"
  shows "length (e_Alerts ep') = length (e_Alerts ep)" and "Endpoint_Key ep' = Endpoint_Key ep"
  using assms handling_effect(3,4,9,10) [of env ep r s ep' s' ns]
  by (auto simp: HandleAlerting_def split: if_splits)

text \<open>A run of the watchdog is a run of the alerting of every endpoint.\<close>

lemma watch_run_alerting:
  assumes "watch_run ok cfg0 s0 (cfg, s, tr, obs)" and "i < length (c_Endpoints cfg0)"
    and "\<And>env cfg. ok env \<Longrightarrow> c_Alerting cfg = c_Alerting cfg0 \<Longrightarrow> ok' (alerting_env_of env cfg)"
  shows "c_Alerting cfg = c_Alerting cfg0 \<and> length (c_Endpoints cfg) = length (c_Endpoints cfg0) \<and>
    map Endpoint_Key (c_Endpoints cfg) = map Endpoint_Key (c_Endpoints cfg0) \<and>
    alerting_run ok' (c_Endpoints cfg0 ! i) (c_Endpoints cfg ! i, s, sent_for i tr, alerting_observed i obs)"
  using assms(1)
proof (induction "(cfg, s, tr, obs)" arbitrary: cfg s tr obs rule: watch_run.induct)
  case start
  then show ?case by (auto intro: alerting_run.start)
next
  case (skip cfg s tr obs env k w)
  from executeEndpoint_stops [OF skip.hyps(5,6)] skip.hyps(2) show ?case
    by (auto intro: alerting_run.elsewhere)
next
  case (execute cfg s tr obs env k w r)
  let ?ep = "c_Endpoints cfg ! k"
  from execute.hyps(2) have IH: "c_Alerting cfg = c_Alerting cfg0" "length (c_Endpoints cfg) = length (c_Endpoints cfg0)"
    "map Endpoint_Key (c_Endpoints cfg) = map Endpoint_Key (c_Endpoints cfg0)"
    "alerting_run ok' (c_Endpoints cfg0 ! i) (c_Endpoints cfg ! i, s, sent_for i tr, alerting_observed i obs)"
    by blast+
  from executeEndpoint_goes_on [OF execute.hyps(5,6,7)] show ?case
  proof (cases "silenced env cfg k")
    case True
    with executeEndpoint_goes_on [OF execute.hyps(5,6,7)] IH show ?thesis
      by (auto intro: alerting_run.elsewhere)
  next
    case False
    with executeEndpoint_goes_on [OF execute.hyps(5,6,7)] obtain cn ep' where
      w: "wd_config w = set_endpoint (cfg\<lparr>c_Connectivity := cn\<rparr>) k ep'"
      and h: "HandleAlerting (alerting_env_of env cfg) ?ep r (UpdateEndpointStatus env s ?ep r) =
        (ep', wd_store w, wd_sent w)" by auto
    have keys: "map Endpoint_Key ((c_Endpoints cfg)[k := ep']) = map Endpoint_Key (c_Endpoints cfg)"
      using HandleAlerting_frame(2) [OF h] execute.hyps(4) by (simp add: map_update list_update_same_conv)
    have "alerting_run ok' (c_Endpoints cfg0 ! i) (c_Endpoints (wd_config w) ! i, wd_store w,
      sent_for i (tr @ map (Pair k) (wd_sent w)), alerting_observed i (obs @ [(k, False, r)]))"
    proof (cases "k = i")
      case True
      from alerting_run.elsewhere [OF IH(4)]
      have "alerting_run ok' (c_Endpoints cfg0 ! i) (?ep, UpdateEndpointStatus env s ?ep r, sent_for i tr,
        alerting_observed i obs)" using True by blast
      from alerting_run.handle [OF this assms(3) h] execute.hyps(3) IH(1) show ?thesis
        using True execute.hyps(4) by (simp add: w set_endpoint_def)
    next
      case False
      then show ?thesis using alerting_run.elsewhere [OF IH(4)] by (simp add: w set_endpoint_def)
    qed
    then show ?thesis using IH keys False by (simp add: w set_endpoint_def)
  qed
qed

text \<open>What the memory storage holds for an endpoint along a run.\<close>

lemma watch_run_stored:
  assumes "watch_run ok cfg0 (new_store m e) (cfg, s, tr, obs)" and "i < length (c_Endpoints cfg0)"
    and "distinct (map Endpoint_Key (c_Endpoints cfg0))"
    and "\<And>env. ok env \<Longrightarrow> we_store env = memory_iface list_cache list_cache"
  shows "stored_results list_cache s (Endpoint_Key (c_Endpoints cfg0 ! i)) = last_n m (observed i obs) \<and>
    maximumNumberOfResults s = m"
  using assms(1)
proof (induction "(cfg, s, tr, obs)" arbitrary: cfg s tr obs rule: watch_run.induct)
  case start
  then show ?case by (simp add: stored_results_new)
next
  case (skip cfg s tr obs env k w)
  from executeEndpoint_stops [OF skip.hyps(5,6)] skip.hyps(2) show ?case by simp
next
  case (execute cfg s tr obs env k w r)
  let ?ep = "c_Endpoints cfg ! k" and ?key = "Endpoint_Key (c_Endpoints cfg0 ! i)"
  have frame: "length (c_Endpoints cfg) = length (c_Endpoints cfg0)"
    "map Endpoint_Key (c_Endpoints cfg) = map Endpoint_Key (c_Endpoints cfg0)"
    using watch_run_alerting [OF execute.hyps(1) assms(2), of "\<lambda>_. True"] by simp_all
  have key: "Endpoint_Key ?ep = ?key \<longleftrightarrow> k = i"
    using frame execute.hyps(4) assms(2,3) by (metis distinct_conv_nth length_map nth_map)
  have store: "wd_store w = InsertEndpointResult list_cache (we_inserted_at env) s ?ep r"
  proof (cases "silenced env cfg k")
    case True
    with executeEndpoint_goes_on [OF execute.hyps(5,6,7)] assms(4) [OF execute.hyps(3)] show ?thesis
      by (simp add: UpdateEndpointStatus_def memory_iface_def)
  next
    case False
    have st: "ae_store (alerting_env_of env cfg) = memory_iface list_cache list_cache"
      using assms(4) [OF execute.hyps(3)] by (simp add: alerting_env_of_def)
    from False executeEndpoint_goes_on [OF execute.hyps(5,6,7)] obtain ep' where
      "HandleAlerting (alerting_env_of env cfg) ?ep r (UpdateEndpointStatus env s ?ep r) =
        (ep', wd_store w, wd_sent w)" by auto
    from HandleAlerting_memory [OF st this] assms(4) [OF execute.hyps(3)] show ?thesis
      by (simp add: UpdateEndpointStatus_def memory_iface_def)
  qed
  have "stored_results list_cache s ?key = last_n m (observed i obs)" "maximumNumberOfResults s = m"
    using execute.hyps(2) by simp_all
  moreover have "stored_results list_cache (wd_store w) ?key =
      (if k = i then last_n (maximumNumberOfResults s) (stored_results list_cache s ?key @ [r])
       else stored_results list_cache s ?key)"
    unfolding store mem.InsertEndpointResult_results using key by (simp add: eq_commute)
  ultimately show ?case
    using mem.endpoints.last_n_last_n_append [of m "observed i obs" "[r]"] by (simp add: store)
qed

text \<open>A run can be computed.\<close>

fun watch_rounds ::
  "('s watch_env \<times> nat) list \<Rightarrow> Config \<times> 's \<times> (nat \<times> notification) list \<times> (nat \<times> bool \<times> Result) list \<Rightarrow>
   (Config \<times> 's \<times> (nat \<times> notification) list \<times> (nat \<times> bool \<times> Result) list) option" where
  "watch_rounds [] st = Some st"
| "watch_rounds ((env, i) # rounds) (cfg, s, tr, obs) =
     (if length (c_Endpoints cfg) \<le> i then None
      else case executeEndpoint env i cfg s of
             Panic p \<Rightarrow> None
           | Return w \<Rightarrow>
               if \<not> goes_on env cfg then watch_rounds rounds (wd_config w, wd_store w, tr, obs)
               else case EvaluateHealth (we_probe env) (c_Endpoints cfg ! i) of
                      Panic p \<Rightarrow> None
                    | Return r \<Rightarrow> watch_rounds rounds (wd_config w, wd_store w, tr @ map (Pair i) (wd_sent w),
                                                       obs @ [(i, silenced env cfg i, r)]))"

lemma watch_rounds_run:
  "watch_rounds rounds st = Some st' \<Longrightarrow> watch_run ok cfg0 s0 st \<Longrightarrow> \<forall>(env, i) \<in> set rounds. ok env \<Longrightarrow>
   watch_run ok cfg0 s0 st'"
proof (induction rounds st rule: watch_rounds.induct)
  case (2 env i rounds cfg s tr obs)
  then obtain w where i: "i < length (c_Endpoints cfg)" and w: "executeEndpoint env i cfg s = Return w"
    and ok: "ok env" by (auto split: if_splits outcome.splits)
  show ?case
  proof (cases "goes_on env cfg")
    case True
    with 2 i w obtain r where "EvaluateHealth (we_probe env) (c_Endpoints cfg ! i) = Return r"
      by (auto split: outcome.splits)
    with 2 True i w watch_run.execute [OF "2.prems"(2) ok i w True] show ?thesis by auto
  next
    case False
    with 2 i w watch_run.skip [OF "2.prems"(2) ok i w False] show ?thesis by auto
  qed
qed simp

section \<open>An example\<close>

definition watched_config :: Config where
  "watched_config = example_config\<lparr>
     c_Endpoints := [hiding_endpoint\<lparr>e_Alerts := [slack_alert]\<rparr>, hiding_endpoint\<lparr>e_Name := ''api''\<rparr>],
     c_Maintenance := Some Maintenance_GetDefaultConfig,
     c_Alerting := Some [(''slack'', \<lparr>ap_Validate = None, ap_GetDefaultAlert = None,
       ap_ValidateOverrides = (\<lambda>g a. None), ap_Send = (\<lambda>i ep a r resolved. (None, []))\<rparr>)]\<rparr>"

definition watched_env ::
  "((string \<times> Status) list, (string \<times> Suite_Status) list) Store watch_env" where
  "watched_env =
     \<lparr>we_cancelled = False, we_connected = True, we_checked_at = 0, we_inserted_at = 0, we_windows_at = 0,
      we_heartbeat_at = 0, we_heartbeat_made_at = 0, we_Local = UTC, we_probe = example_probe, we_suite = example_suite_env,
      we_alert_now = (\<lambda>i. 0), we_alert_sent_at = (\<lambda>i. 0), we_mock = False, we_mock_error = False,
      we_store = memory_iface list_cache list_cache\<rparr>"

section \<open>Properties\<close>

text \<open>
  C3. The endpoints of a configuration whose keys are distinct are executed in any order,
  some executions skipped for lack of connectivity, some results silenced by a maintenance window,
  with providers that never fail and the memory storage. Then for every endpoint the storage holds
  exactly the most recent results of its own executions, and each of its alerts is where the automaton
  over the outcomes outside the maintenance windows says, with the counters to match: the
  executions of other endpoints disturb neither.
\<close>

theorem watched_endpoints_run:
  assumes "watch_run (\<lambda>env. we_store env = memory_iface list_cache list_cache \<and> \<not> we_mock_error env)
      cfg0 (new_store m e) (cfg, s, tr, obs)"
    and "distinct (map Endpoint_Key (c_Endpoints cfg0))" and "i < length (c_Endpoints cfg0)"
    and "ep0 = c_Endpoints cfg0 ! i" and "j < length (e_Alerts ep0)" and "a = e_Alerts ep0 ! j"
    and "c_Alerting cfg0 = Some alerting" and "GetAlertingProviderByAlertType alerting (al_Type a) = Some p"
    and "\<forall>k ep al r. e_Group ep = e_Group ep0 \<longrightarrow> same_config a al \<longrightarrow> fst (ap_Send p k ep al r False) = None"
    and "IsEnabled a" and "\<not> al_Triggered a"
    and "e_NumberOfFailuresInARow ep0 = 0" and "e_NumberOfSuccessesInARow ep0 = 0"
    and "int (length (alerting_observed i obs)) < 2 ^ 63"
  shows "stored_results list_cache s (Endpoint_Key ep0) = last_n m (observed i obs) \<and>
    (let ep = c_Endpoints cfg ! i
     in (al_Triggered (e_Alerts ep ! j), e_NumberOfFailuresInARow ep, e_NumberOfSuccessesInARow ep) =
          alert_state a (outcomes_of (alerting_observed i obs)))"
proof -
  let ?ok' = "\<lambda>env. ae_configured env \<and> reliable env (e_Group ep0) a \<and>
      ae_GetAlertingProvider env (al_Type a) \<noteq> None"
  have ok: "?ok' (alerting_env_of env c)" if "\<not> we_mock_error env" "c_Alerting c = c_Alerting cfg0" for env c
  proof -
    have p: "ae_GetAlertingProvider (alerting_env_of env c) (al_Type a) = Some (ap_Send p)"
      and "ae_configured (alerting_env_of env c)" "\<not> ae_mock_error (alerting_env_of env c)"
      using that assms(7,8) by (simp_all add: alerting_env_of_def)
    moreover from this assms(9) have "reliable (alerting_env_of env c) (e_Group ep0) a"
      by (simp add: reliable_def send_trigger_def)
    ultimately show ?thesis by simp
  qed
  have "alerting_run ?ok' ep0 (c_Endpoints cfg ! i, s, sent_for i tr, alerting_observed i obs)"
    unfolding assms(4)
    by (rule watch_run_alerting [OF assms(1,3), THEN conjunct2, THEN conjunct2, THEN conjunct2])
      (use ok [unfolded assms(4)] in blast)
  from alerting_run_automaton [OF this assms(5,6,10-14)]
    watch_run_stored [OF assms(1,3,2)] show ?thesis by (simp add: assms(4))
qed

theorem watched_endpoints_run_witness:
  "\<exists>cfg s tr obs. watch_rounds [(watched_env, 0), (watched_env, 1), (watched_env, 0)]
      (watched_config, new_store 1 5, [], []) = Some (cfg, s, tr, obs) \<and>
    length (stored_results list_cache s ''_web'') = 1 \<and>
    al_Triggered (e_Alerts (c_Endpoints cfg ! 0) ! 0)"
proof -
  have "case watch_rounds [(watched_env, 0), (watched_env, 1), (watched_env, 0)]
      (watched_config, new_store 1 5, [], []) of
      None \<Rightarrow> False
    | Some (cfg, s, tr, obs) \<Rightarrow> map (\<lambda>(k, q, r). (k, q, r_Success r)) obs =
        [(0, False, False), (1, False, False), (0, False, False)]"
    by code_simp
  then obtain cfg s tr obs where rounds: "watch_rounds [(watched_env, 0), (watched_env, 1), (watched_env, 0)]
      (watched_config, new_store 1 5, [], []) = Some (cfg, s, tr, obs)"
    and obs: "map (\<lambda>(k, q, r). (k, q, r_Success r)) obs =
        [(0, False, False), (1, False, False), (0, False, False)]"
    by (auto split: option.splits)
  let ?ok = "\<lambda>env. we_store env = memory_iface list_cache list_cache \<and> \<not> we_mock_error env"
  have run: "watch_run ?ok watched_config (new_store 1 5) (cfg, s, tr, obs)"
    by (rule watch_rounds_run [OF rounds watch_run.start]) (simp add: watched_env_def)
  obtain r1 r2 r3 where o: "obs = [(0, False, r1), (1, False, r2), (0, False, r3)]"
    "\<not> r_Success r1" "\<not> r_Success r3" using obs by (auto simp: map_eq_Cons_conv)
  have keys: "map Endpoint_Key (c_Endpoints watched_config) = [''_web'', ''_api'']" by code_simp
  have n: "e_NumberOfFailuresInARow (c_Endpoints watched_config ! 0) = 0"
    "e_NumberOfSuccessesInARow (c_Endpoints watched_config ! 0) = 0"
    "e_Alerts (c_Endpoints watched_config ! 0) = [slack_alert]"
    by (simp_all add: watched_config_def hiding_endpoint_def example_endpoint_def empty_Endpoint_def)
  obtain al p where al: "c_Alerting watched_config = Some al"
    "GetAlertingProviderByAlertType al (al_Type slack_alert) = Some p"
    "\<forall>k ep a r. e_Group ep = e_Group (c_Endpoints watched_config ! 0) \<longrightarrow> same_config slack_alert a \<longrightarrow>
      fst (ap_Send p k ep a r False) = None"
    by (simp add: watched_config_def GetAlertingProviderByAlertType_eq alerting_fields_def)
  have d: "distinct (map Endpoint_Key (c_Endpoints watched_config))" by (simp add: keys)
  have l: "0 < length (c_Endpoints watched_config)" by (simp add: watched_config_def)
  from watched_endpoints_run [OF run d l refl, of 0 slack_alert, OF _ _ al] n
  have "stored_results list_cache s (Endpoint_Key (c_Endpoints watched_config ! 0)) = last_n 1 (observed 0 obs) \<and>
     al_Triggered (e_Alerts (c_Endpoints cfg ! 0) ! 0)"
    by (simp add: Let_def o outcomes_of_def alerting_observed_def)
  moreover have "Endpoint_Key (c_Endpoints watched_config ! 0) = ''_web''"
    using keys l by (metis nth_Cons_0 nth_map)
  ultimately show ?thesis using rounds by (auto simp: o observed_def)
qed

text \<open>The relation between the question the heartbeat asks and the results that are stored.\<close>

lemma HasEndpointStatusNewerThan_stored:
  "HasEndpointStatusNewerThan ec s k t \<longleftrightarrow> (\<exists>r \<in> set (stored_results ec s k). t < r_Timestamp r)"
  by (auto simp: HasEndpointStatusNewerThan_def stored_results_def list_ex_iff split: option.splits)

definition external_silenced :: "'s watch_env \<Rightarrow> Config \<Rightarrow> nat \<Rightarrow> bool" where
  "external_silenced env cfg i \<longleftrightarrow>
     under_maintenance env cfg \<noteq> Return False \<or>
     in_endpoint_window env (ee_MaintenanceWindows (c_ExternalEndpoints cfg ! i))"

lemma heartbeat_cases:
  assumes "executeExternalEndpointHeartbeat env i cfg s = Return w" and "goes_on env cfg"
    and "we_store env = memory_iface ec sc" and "ee = c_ExternalEndpoints cfg ! i"
  shows "if HasEndpointStatusNewerThan ec s (External_Key ee) (we_heartbeat_at env - hb_Interval (ee_Heartbeat ee))
    then wd_store w = s \<and> wd_sent w = [] \<and> c_ExternalEndpoints (wd_config w) = c_ExternalEndpoints cfg
    else wd_store w = InsertEndpointResult ec (we_inserted_at env) s (ToEndpoint ee) (heartbeat_failure env ee) \<and>
      (if external_silenced env cfg i
       then wd_sent w = [] \<and> c_ExternalEndpoints (wd_config w) = c_ExternalEndpoints cfg
       else \<exists>ep'. HandleAlerting (alerting_env_of env cfg) (ToEndpoint ee) (heartbeat_failure env ee)
            (wd_store w) = (ep', wd_store w, wd_sent w) \<and>
          c_ExternalEndpoints (wd_config w) = (c_ExternalEndpoints cfg)[i :=
            ee\<lparr>ee_Alerts := e_Alerts ep', ee_NumberOfSuccessesInARow := e_NumberOfSuccessesInARow ep',
               ee_NumberOfFailuresInARow := e_NumberOfFailuresInARow ep'\<rparr>])"
proof -
  obtain cfg1 where c: "has_connectivity env cfg = (True, cfg1)"
    using assms(2) by (cases "has_connectivity env cfg") (simp add: goes_on_def)
  from has_connectivity_config [OF c] obtain cn where cfg1: "cfg1 = cfg\<lparr>c_Connectivity := cn\<rparr>" by blast
  have m: "under_maintenance env cfg1 = under_maintenance env cfg" by (simp add: cfg1 under_maintenance_def)
  have st: "ae_store (alerting_env_of env cfg) = memory_iface ec sc" by (simp add: alerting_env_of_def assms(3))
  have up: "UpdateEndpointStatus env s ep r = InsertEndpointResult ec (we_inserted_at env) s ep r" for ep r
    by (simp add: UpdateEndpointStatus_def assms(3) memory_iface_def)
  have newer: "so_HasEndpointStatusNewerThan (we_store env) s k t = Inr (HasEndpointStatusNewerThan ec s k t)" for k t
    by (simp add: assms(3) memory_iface_def)
  have x: "c_ExternalEndpoints cfg1 = c_ExternalEndpoints cfg" "alerting_env_of env cfg1 = alerting_env_of env cfg"
    by (simp_all add: cfg1)
  have "\<not> we_cancelled env" using assms(2) by (simp add: goes_on_def)
  then have exec: "executeExternalEndpointHeartbeat env i cfg s = Return w"
    and nc: "we_cancelled env = False" using assms(1) by simp_all
  note run = executeExternalEndpointHeartbeat_def c newer up m x nc assms(4) [symmetric] Let_def
  show ?thesis
  proof (cases "HasEndpointStatusNewerThan ec s (External_Key ee) (we_heartbeat_at env - hb_Interval (ee_Heartbeat ee))")
    case True
    then show ?thesis using exec by (auto simp: run)
  next
    case False
    obtain ep' s'' ns where h: "HandleAlerting (alerting_env_of env cfg) (ToEndpoint ee) (heartbeat_failure env ee)
        (InsertEndpointResult ec (we_inserted_at env) s (ToEndpoint ee) (heartbeat_failure env ee)) = (ep', s'', ns)"
      by (metis prod.exhaust)
    have s'': "s'' = InsertEndpointResult ec (we_inserted_at env) s (ToEndpoint ee) (heartbeat_failure env ee)"
      by (rule HandleAlerting_memory [OF st h])
    show ?thesis
      using exec False h by (auto simp: run external_silenced_def s'' set_external_def split: if_splits outcome.splits)
  qed
qed

text \<open>
  C26. With the memory storage, a heartbeat that is checked within the interval of a stored result
  leaves the storage, the external endpoint and its alerts alone and sends nothing. Otherwise a
  failure is stored after the results that are kept, for that external endpoint only, and outside the
  maintenance windows, with alerting configured, it counts one more failure in a row.
\<close>

theorem heartbeat_detects_silence:
  assumes "executeExternalEndpointHeartbeat env i cfg s = Return w" and "goes_on env cfg"
    and "we_store env = memory_iface list_cache list_cache" and "i < length (c_ExternalEndpoints cfg)"
    and "ee = c_ExternalEndpoints cfg ! i"
  shows "if \<exists>r \<in> set (stored_results list_cache s (External_Key ee)).
        we_heartbeat_at env - hb_Interval (ee_Heartbeat ee) < r_Timestamp r
    then wd_store w = s \<and> wd_sent w = [] \<and> c_ExternalEndpoints (wd_config w) = c_ExternalEndpoints cfg
    else stored_results list_cache (wd_store w) (External_Key ee) =
        last_n (maximumNumberOfResults s) (stored_results list_cache s (External_Key ee) @ [heartbeat_failure env ee]) \<and>
      (\<forall>k. k \<noteq> External_Key ee \<longrightarrow> stored_results list_cache (wd_store w) k = stored_results list_cache s k) \<and>
      (\<not> external_silenced env cfg i \<and> c_Alerting cfg \<noteq> None \<longrightarrow>
        ee_NumberOfFailuresInARow (c_ExternalEndpoints (wd_config w) ! i) =
          wrap64 (ee_NumberOfFailuresInARow ee + 1) \<and>
        ee_NumberOfSuccessesInARow (c_ExternalEndpoints (wd_config w) ! i) = 0)"
proof -
  have counters: "e_NumberOfFailuresInARow ep' = wrap64 (ee_NumberOfFailuresInARow ee + 1) \<and>
      e_NumberOfSuccessesInARow ep' = 0"
    if "HandleAlerting (alerting_env_of env cfg) (ToEndpoint ee) (heartbeat_failure env ee) s' = (ep', s'', ns)"
      "c_Alerting cfg \<noteq> None" for s' ep' s'' ns
    using that handleAlertsToTrigger_effect(1,2) [of "alerting_env_of env cfg" "ToEndpoint ee"
        "heartbeat_failure env ee" s' ep' s'' ns]
    by (auto simp: HandleAlerting_def alerting_env_of_def heartbeat_failure_def)
  from heartbeat_cases [OF assms(1-3,5)] show ?thesis
    unfolding HasEndpointStatusNewerThan_stored
    using assms(4) by (auto simp: mem.InsertEndpointResult_results dest: counters split: if_splits)
qed

definition backup_config :: Config where
  "backup_config = watched_config\<lparr>c_ExternalEndpoints := [example_external]\<rparr>"

theorem heartbeat_detects_silence_witness:
  "\<exists>w. executeExternalEndpointHeartbeat watched_env 0 backup_config (new_store 5 5) = Return w \<and>
    map r_Errors (stored_results list_cache (wd_store w) (External_Key example_external)) =
      [[''heartbeat: no update received within 30m0s'']]"
proof -
  have "case executeExternalEndpointHeartbeat watched_env 0 backup_config (new_store 5 5) of
      Return w \<Rightarrow> True | Panic p \<Rightarrow> False"
    by code_simp
  then obtain w where w: "executeExternalEndpointHeartbeat watched_env 0 backup_config (new_store 5 5) = Return w"
    by (auto split: outcome.splits)
  have g: "goes_on watched_env backup_config"
    by (simp add: goes_on_def has_connectivity_def watched_env_def backup_config_def watched_config_def example_config_def)
  have m: "we_store watched_env = memory_iface list_cache list_cache" by (simp add: watched_env_def)
  have ee: "example_external = c_ExternalEndpoints backup_config ! 0" "0 < length (c_ExternalEndpoints backup_config)"
    by (simp_all add: backup_config_def)
  have d: "duration_String (30 * minute) = ''30m0s''" by code_simp
  from heartbeat_detects_silence [OF w g m ee(2,1)] w d show ?thesis
    by (simp add: stored_results_new heartbeat_failure_def example_external_def)
qed

text \<open>
  An endpoint of a suite that was skipped is given the result of another. In the suite of three
  endpoints whose first one fails, the second is not executed, but its alerts count the success of the
  third, whose own count none.
\<close>

definition suite_config :: Config where
  "suite_config = watched_config\<lparr>c_Suites := [example_suite]\<rparr>"

lemma skipped_endpoint_takes_a_result:
  "case executeSuite watched_env 0 suite_config (new_store 5 5) of
     Return w \<Rightarrow>
       map e_Name (s_Endpoints (c_Suites (wd_config w) ! 0)) = [''create'', ''check'', ''delete''] \<and>
       map (map r_Name \<circ> sr_EndpointResults) (stored_suite_results list_cache (wd_store w) (Suite_Key example_suite)) =
         [[''create'', ''delete'']] \<and>
       map e_NumberOfSuccessesInARow (s_Endpoints (c_Suites (wd_config w) ! 0)) = [0, 1, 0]
   | Panic p \<Rightarrow> False"
  by code_simp

end
