(* ===== verification/Monitor.thy ===== *)
theory Monitor
  imports Watchdog
begin

text \<open>
  \<open>watchdog/watchdog.go\<close> and the loops of the \<open>monitor\<close> functions: one goroutine per target,
  all of them limited by a semaphore, until the context is cancelled. A goroutine waits for its
  ticker, acquires the semaphore, executes its target, releases the semaphore and waits again. Only the
  control is modelled here; the effect of an execution is that of the theory on the watchdog.
  The semaphore is modelled by its documentation: an acquisition succeeds as long as the weight is
  not exceeded and fails once the context is cancelled.
\<close>

section \<open>What is started\<close>

definition UnlimitedConcurrencyWeight :: int where "UnlimitedConcurrencyWeight = 10000"

datatype task = Task_Endpoint nat | Task_External nat | Task_Suite nat

definition positions :: "('a \<Rightarrow> bool) \<Rightarrow> 'a list \<Rightarrow> nat list" where
  "positions P xs = filter (\<lambda>i. P (xs ! i)) [0..<length xs]"

text \<open>Where a goroutine stands; the fourth is that of one that has returned.\<close>

datatype phase = Waiting | Acquiring | Running | Stopped

record monitor_state =
  mo_tasks :: "(task \<times> phase) list"
  mo_held :: int
  mo_cancelled :: bool

definition semaphore_weight :: "Config \<Rightarrow> int" where
  "semaphore_weight cfg =
     (if c_Concurrency cfg = 0 then UnlimitedConcurrencyWeight else c_Concurrency cfg)"

text \<open>Endpoints and suites are executed at once, heartbeats are first checked after an interval.\<close>

definition Monitor :: "Config \<Rightarrow> monitor_state" where
  "Monitor cfg =
     \<lparr>mo_tasks =
        map (\<lambda>i. (Task_Endpoint i, Acquiring)) (positions Endpoint_IsEnabled (c_Endpoints cfg)) @
        map (\<lambda>i. (Task_External i, Waiting))
          (positions (\<lambda>ee. External_IsEnabled ee \<and> 0 < hb_Interval (ee_Heartbeat ee)) (c_ExternalEndpoints cfg)) @
        map (\<lambda>i. (Task_Suite i, Acquiring)) (positions Suite_IsEnabled (c_Suites cfg)),
      mo_held = 0, mo_cancelled = False\<rparr>"

section \<open>Steps\<close>

definition set_phase :: "monitor_state \<Rightarrow> nat \<Rightarrow> phase \<Rightarrow> monitor_state" where
  "set_phase st i p = st\<lparr>mo_tasks := (mo_tasks st)[i := (fst (mo_tasks st ! i), p)]\<rparr>"

abbreviation phase_of :: "monitor_state \<Rightarrow> nat \<Rightarrow> phase" where
  "phase_of st i \<equiv> snd (mo_tasks st ! i)"

inductive monitor_step :: "int \<Rightarrow> monitor_state \<Rightarrow> monitor_state \<Rightarrow> bool" for weight where
  tick: "i < length (mo_tasks st) \<Longrightarrow> phase_of st i = Waiting \<Longrightarrow>
    monitor_step weight st (set_phase st i Acquiring)"
| acquire: "i < length (mo_tasks st) \<Longrightarrow> phase_of st i = Acquiring \<Longrightarrow> \<not> mo_cancelled st \<Longrightarrow>
    mo_held st + 1 \<le> weight \<Longrightarrow> monitor_step weight st ((set_phase st i Running)\<lparr>mo_held := mo_held st + 1\<rparr>)"
| give_up: "i < length (mo_tasks st) \<Longrightarrow> phase_of st i = Acquiring \<Longrightarrow> mo_cancelled st \<Longrightarrow>
    monitor_step weight st (set_phase st i Waiting)"
| release: "i < length (mo_tasks st) \<Longrightarrow> phase_of st i = Running \<Longrightarrow>
    monitor_step weight st ((set_phase st i Waiting)\<lparr>mo_held := mo_held st - 1\<rparr>)"
| finish: "i < length (mo_tasks st) \<Longrightarrow> phase_of st i = Waiting \<Longrightarrow> mo_cancelled st \<Longrightarrow>
    monitor_step weight st (set_phase st i Stopped)"
| shutdown: "monitor_step weight st (st\<lparr>mo_cancelled := True\<rparr>)"

definition monitor_reachable :: "Config \<Rightarrow> monitor_state \<Rightarrow> bool" where
  "monitor_reachable cfg st \<longleftrightarrow> (monitor_step (semaphore_weight cfg))\<^sup>*\<^sup>* (Monitor cfg) st"

section \<open>Facts\<close>

definition running :: "monitor_state \<Rightarrow> nat" where
  "running st = length (filter (\<lambda>(t, p). p = Running) (mo_tasks st))"

lemma set_phase_simps [simp]:
  "mo_held (set_phase st i p) = mo_held st" "mo_cancelled (set_phase st i p) = mo_cancelled st"
  "length (mo_tasks (set_phase st i p)) = length (mo_tasks st)"
  by (simp_all add: set_phase_def)

lemma set_phase_tasks [simp]:
  "i < length (mo_tasks st) \<Longrightarrow> map fst (mo_tasks (set_phase st i p)) = map fst (mo_tasks st)"
  by (simp add: set_phase_def map_update list_update_same_conv)

lemma running_more [simp]:
  "running (st\<lparr>mo_held := h\<rparr>) = running st" "running (st\<lparr>mo_cancelled := c\<rparr>) = running st"
  by (simp_all add: running_def)

lemma count_update:
  "i < length xs \<Longrightarrow> length (filter P (xs[i := y])) + (if P (xs ! i) then 1 else 0) =
     length (filter P xs) + (if P y then 1 else 0)"
proof (induction xs arbitrary: i)
  case (Cons x xs)
  then show ?case by (cases i) auto
qed simp

lemma running_set_phase:
  assumes "i < length (mo_tasks st)"
  shows "running (set_phase st i p) + (if phase_of st i = Running then 1 else 0) =
    running st + (if p = Running then 1 else 0)"
  using count_update [OF assms, of "\<lambda>(t, p). p = Running" "(fst (mo_tasks st ! i), p)"]
  by (simp add: running_def set_phase_def case_prod_beta)

lemma set_phase_members:
  "(t, p) \<in> set (mo_tasks (set_phase st i q)) \<Longrightarrow> (t, p) \<in> set (mo_tasks st) \<or> p = q"
  by (auto simp: set_phase_def dest!: set_update_subset_insert [THEN subsetD])

text \<open>What holds in every reachable state.\<close>

definition monitor_inv :: "Config \<Rightarrow> monitor_state \<Rightarrow> bool" where
  "monitor_inv cfg st \<longleftrightarrow>
     map fst (mo_tasks st) = map fst (mo_tasks (Monitor cfg)) \<and> mo_held st = int (running st) \<and>
     mo_held st \<le> semaphore_weight cfg \<and> (\<forall>t. (t, Stopped) \<in> set (mo_tasks st) \<longrightarrow> mo_cancelled st)"

lemma monitor_inv_start: "0 \<le> semaphore_weight cfg \<Longrightarrow> monitor_inv cfg (Monitor cfg)"
  by (auto simp: monitor_inv_def Monitor_def running_def filter_map comp_def)

lemma monitor_inv_step:
  "monitor_step (semaphore_weight cfg) st st' \<Longrightarrow> monitor_inv cfg st \<Longrightarrow> monitor_inv cfg st'"
proof (induction rule: monitor_step.induct)
  case (tick i st)
  then show ?case using running_set_phase [of i st Acquiring]
    by (auto simp: monitor_inv_def dest: set_phase_members)
next
  case (acquire i st)
  then show ?case using running_set_phase [of i st Running]
    by (auto simp: monitor_inv_def dest: set_phase_members)
next
  case (give_up i st)
  then show ?case using running_set_phase [of i st Waiting]
    by (auto simp: monitor_inv_def dest: set_phase_members)
next
  case (release i st)
  then show ?case using running_set_phase [of i st Waiting]
    by (auto simp: monitor_inv_def dest: set_phase_members)
next
  case (finish i st)
  then show ?case using running_set_phase [of i st Stopped]
    by (auto simp: monitor_inv_def)
next
  case (shutdown st)
  then show ?case by (auto simp: monitor_inv_def)
qed

lemma monitor_reachable_inv:
  assumes "monitor_reachable cfg st" and "0 \<le> semaphore_weight cfg"
  shows "monitor_inv cfg st"
  using assms(1) unfolding monitor_reachable_def
  by (induction rule: rtranclp_induct) (auto intro: monitor_inv_start monitor_inv_step assms(2))

lemma validated_weight: "0 < semaphore_weight (ValidateAndSetConcurrencyDefaults c)"
  by (simp add: semaphore_weight_def ValidateAndSetConcurrencyDefaults_def UnlimitedConcurrencyWeight_def
      DefaultConcurrency_def)

lemma distinct_tasks: "distinct (map fst (mo_tasks (Monitor cfg)))"
  by (auto simp: Monitor_def positions_def comp_def distinct_map inj_on_def)

text \<open>A cancelled monitor gets closer to its end with the next step of any goroutine that has not returned.\<close>

definition distance_of :: "phase \<Rightarrow> nat" where
  "distance_of p = (case p of Stopped \<Rightarrow> 0 | Waiting \<Rightarrow> 1 | _ \<Rightarrow> 2)"

definition distance_to_end :: "monitor_state \<Rightarrow> nat" where
  "distance_to_end st = sum_list (map (distance_of \<circ> snd) (mo_tasks st))"

lemma sum_list_update_nat:
  "i < length xs \<Longrightarrow> sum_list (map f (xs[i := y])) + (f (xs ! i) :: nat) = sum_list (map f xs) + f y"
proof (induction xs arbitrary: i)
  case (Cons x xs)
  then show ?case by (cases i) auto
qed simp

lemma distance_set_phase:
  "i < length (mo_tasks st) \<Longrightarrow>
   distance_to_end (set_phase st i p) + distance_of (phase_of st i) = distance_to_end st + distance_of p"
  using sum_list_update_nat [of i "mo_tasks st" "distance_of \<circ> snd"]
  by (simp add: distance_to_end_def set_phase_def)

lemma distance_held [simp]: "distance_to_end (st\<lparr>mo_held := h\<rparr>) = distance_to_end st"
  by (simp add: distance_to_end_def)

lemma cancelled_progress:
  assumes "mo_cancelled st" and "i < length (mo_tasks st)" and "phase_of st i \<noteq> Stopped"
  shows "\<exists>st'. monitor_step weight st st' \<and> mo_cancelled st' \<and> distance_to_end st' < distance_to_end st"
proof (cases "phase_of st i")
  case Waiting
  then show ?thesis using assms monitor_step.finish [OF assms(2) Waiting assms(1)] distance_set_phase [OF assms(2), of Stopped]
    by (intro exI [of _ "set_phase st i Stopped"]) (simp add: distance_of_def)
next
  case Acquiring
  then show ?thesis using assms monitor_step.give_up [OF assms(2) Acquiring assms(1)] distance_set_phase [OF assms(2), of Waiting]
    by (intro exI [of _ "set_phase st i Waiting"]) (simp add: distance_of_def)
next
  case Running
  then show ?thesis using assms monitor_step.release [OF assms(2) Running] distance_set_phase [OF assms(2), of Waiting]
    by (intro exI [of _ "(set_phase st i Waiting)\<lparr>mo_held := mo_held st - 1\<rparr>"]) (simp add: distance_of_def)
qed (use assms(3) in simp)

lemma cancelled_ends:
  "mo_cancelled st \<Longrightarrow> \<exists>st'. (monitor_step weight)\<^sup>*\<^sup>* st st' \<and> (\<forall>(t, p) \<in> set (mo_tasks st'). p = Stopped)"
proof (induction "distance_to_end st" arbitrary: st rule: less_induct)
  case less
  show ?case
  proof (cases "\<exists>i < length (mo_tasks st). phase_of st i \<noteq> Stopped")
    case True
    then obtain st' where "monitor_step weight st st'" "mo_cancelled st'" "distance_to_end st' < distance_to_end st"
      using cancelled_progress less.prems by blast
    with less.hyps show ?thesis by (meson converse_rtranclp_into_rtranclp)
  next
    case False
    then have "\<forall>(t, p) \<in> set (mo_tasks st). p = Stopped" by (auto simp: in_set_conv_nth) (metis snd_conv)
    then show ?thesis by blast
  qed
qed

lemma cancelled_starts_nothing:
  "monitor_step weight st st' \<Longrightarrow> mo_cancelled st \<Longrightarrow> mo_cancelled st' \<and> running st' \<le> running st"
proof (induction rule: monitor_step.induct)
  case (tick i st)
  then show ?case using running_set_phase [of i st Acquiring] by simp
next
  case (give_up i st)
  then show ?case using running_set_phase [of i st Waiting] by simp
next
  case (release i st)
  then show ?case using running_set_phase [of i st Waiting] by simp
next
  case (finish i st)
  then show ?case using running_set_phase [of i st Stopped] by simp
qed simp_all

section \<open>Properties\<close>

text \<open>
  C10. With a configuration whose concurrency has been validated, every goroutine is about a
  target of its own, never more executions are in progress than the configured concurrency, or the
  practical limit of an unlimited one, and the semaphore is held exactly by them; a goroutine has
  returned only after the shutdown. After the shutdown no further execution starts, and the goroutines
  that remain can always all return.
\<close>

theorem monitor_bounded:
  assumes "monitor_reachable cfg st" and "cfg = ValidateAndSetConcurrencyDefaults c"
  shows "distinct (map fst (mo_tasks st)) \<and> mo_held st = int (running st) \<and>
    int (running st) \<le> (if c_Concurrency cfg = 0 then 10000 else c_Concurrency cfg) \<and>
    (\<forall>t. (t, Stopped) \<in> set (mo_tasks st) \<longrightarrow> mo_cancelled st) \<and>
    (mo_cancelled st \<longrightarrow>
      (\<forall>st'. monitor_step (semaphore_weight cfg) st st' \<longrightarrow> mo_cancelled st' \<and> running st' \<le> running st) \<and>
      (\<exists>st'. (monitor_step (semaphore_weight cfg))\<^sup>*\<^sup>* st st' \<and> (\<forall>(t, p) \<in> set (mo_tasks st'). p = Stopped)))"
proof -
  have "0 \<le> semaphore_weight cfg" using validated_weight [of c] assms(2) by simp
  from monitor_reachable_inv [OF assms(1) this] distinct_tasks [of cfg] show ?thesis
    by (auto simp: monitor_inv_def semaphore_weight_def UnlimitedConcurrencyWeight_def
        dest: cancelled_starts_nothing intro: cancelled_ends)
qed

theorem monitor_bounded_witness:
  "\<exists>cfg st. cfg = ValidateAndSetConcurrencyDefaults watched_config \<and> monitor_reachable cfg st \<and>
    running st = 1 \<and> int (running st) \<le> 3"
proof -
  let ?cfg = "ValidateAndSetConcurrencyDefaults watched_config"
  have c: "c_Concurrency ?cfg = 3"
    by (simp add: ValidateAndSetConcurrencyDefaults_def watched_config_def example_config_def DefaultConcurrency_def)
  have t: "mo_tasks (Monitor ?cfg) ! 0 = (Task_Endpoint 0, Acquiring)" "0 < length (mo_tasks (Monitor ?cfg))"
    "\<not> mo_cancelled (Monitor ?cfg)" "mo_held (Monitor ?cfg) = 0" "running (Monitor ?cfg) = 0"
    by code_simp+
  let ?st = "(set_phase (Monitor ?cfg) 0 Running)\<lparr>mo_held := mo_held (Monitor ?cfg) + 1\<rparr>"
  have "monitor_step (semaphore_weight ?cfg) (Monitor ?cfg) ?st"
    by (rule monitor_step.acquire) (use t c in \<open>simp_all add: semaphore_weight_def\<close>)
  then have r: "monitor_reachable ?cfg ?st" by (simp add: monitor_reachable_def)
  have "running ?st = 1" using running_set_phase [OF t(2), of Running] t by simp
  with monitor_bounded [OF r refl] r c show ?thesis by auto
qed

end
