(* ===== verification/Sql_Store.thy ===== *)
theory Sql_Store
  imports Storage Maintenance
begin

text \<open>
  \<open>storage/store/sql/sql.go\<close>: the storage in a database. A table is the list of its rows in the
  order of their insertion, and a query is what its text says on these lists. The tables, with
  their unique and foreign keys, are those of the SQLite schema, where the identifier of a new row
  is the largest one in use plus one; an insertion that violates a unique key fails and leaves the
  transaction usable. Apart from that the database does what it is asked: beginning and committing a
  transaction succeed. The write-through cache is a library and a parameter.
\<close>

section \<open>Tables\<close>

record endpoint_row =
  er_id :: int
  er_key :: string
  er_name :: string
  er_group :: string

record event_row =
  ev_id :: int
  ev_endpoint :: int
  ev_event :: Event

record result_row =
  rr_id :: int
  rr_endpoint :: int
  rr_success :: bool
  rr_errors :: string
  rr_connected :: bool
  rr_status :: int
  rr_dns_rcode :: string
  rr_certificate_expiration :: duration
  rr_domain_expiration :: duration
  rr_hostname :: string
  rr_ip :: string
  rr_duration :: duration
  rr_timestamp :: instant
  rr_suite_result :: "int option"

record condition_row =
  co_id :: int
  co_result :: int
  co_condition :: string
  co_success :: bool

record uptime_row =
  up_id :: int
  up_endpoint :: int
  up_hour :: int
  up_total :: int
  up_successful :: int
  up_response :: int

record alert_row =
  ar_id :: int
  ar_endpoint :: int
  ar_checksum :: string
  ar_resolve_key :: string
  ar_successes :: int

record suite_row =
  su_id :: int
  su_key :: string
  su_name :: string
  su_group :: string

record suite_result_row =
  sx_id :: int
  sx_suite :: int
  sx_success :: bool
  sx_errors :: string
  sx_duration :: duration
  sx_timestamp :: instant

record Db =
  db_suites :: "suite_row list"
  db_suite_results :: "suite_result_row list"
  db_endpoints :: "endpoint_row list"
  db_events :: "event_row list"
  db_results :: "result_row list"
  db_conditions :: "condition_row list"
  db_uptimes :: "uptime_row list"
  db_alerts :: "alert_row list"

definition createSQLiteSchema :: Db where
  "createSQLiteSchema =
     \<lparr>db_suites = [], db_suite_results = [], db_endpoints = [], db_events = [], db_results = [],
      db_conditions = [], db_uptimes = [], db_alerts = []\<rparr>"

text \<open>The identifier of a new row of an INTEGER PRIMARY KEY.\<close>

definition fresh_id :: "int list \<Rightarrow> int" where
  "fresh_id ids = fold max ids 0 + 1"

text \<open>LIMIT and OFFSET: a negative limit is no limit, a negative offset is none.\<close>

definition sql_limit :: "int \<Rightarrow> int \<Rightarrow> 'a list \<Rightarrow> 'a list" where
  "sql_limit lim offset xs = (let ys = drop (nat offset) xs in if lim < 0 then ys else take (nat lim) ys)"

text \<open>The rows ordered by descending identifier.\<close>

definition order_desc :: "('a \<Rightarrow> int) \<Rightarrow> 'a list \<Rightarrow> 'a list" where
  "order_desc f xs = rev (sort_key f xs)"

text \<open>Deletions and what they cascade to.\<close>

definition delete_results :: "(result_row \<Rightarrow> bool) \<Rightarrow> Db \<Rightarrow> Db" where
  "delete_results P db =
     (let gone = map rr_id (filter P (db_results db))
      in db\<lparr>db_results := filter (\<lambda>r. \<not> P r) (db_results db),
            db_conditions := filter (\<lambda>c. co_result c \<notin> set gone) (db_conditions db)\<rparr>)"

definition delete_suite_results :: "(suite_result_row \<Rightarrow> bool) \<Rightarrow> Db \<Rightarrow> Db" where
  "delete_suite_results P db =
     (let gone = map sx_id (filter P (db_suite_results db))
      in delete_results (\<lambda>r. case rr_suite_result r of None \<Rightarrow> False | Some i \<Rightarrow> i \<in> set gone)
           (db\<lparr>db_suite_results := filter (\<lambda>r. \<not> P r) (db_suite_results db)\<rparr>))"

definition delete_suites :: "(suite_row \<Rightarrow> bool) \<Rightarrow> Db \<Rightarrow> Db" where
  "delete_suites P db =
     (let gone = map su_id (filter P (db_suites db))
      in delete_suite_results (\<lambda>r. sx_suite r \<in> set gone)
           (db\<lparr>db_suites := filter (\<lambda>r. \<not> P r) (db_suites db)\<rparr>))"

definition delete_endpoints :: "(endpoint_row \<Rightarrow> bool) \<Rightarrow> Db \<Rightarrow> Db" where
  "delete_endpoints P db =
     (let gone = map er_id (filter P (db_endpoints db))
      in delete_results (\<lambda>r. rr_endpoint r \<in> set gone)
           (db\<lparr>db_endpoints := filter (\<lambda>r. \<not> P r) (db_endpoints db),
               db_events := filter (\<lambda>r. ev_endpoint r \<notin> set gone) (db_events db),
               db_uptimes := filter (\<lambda>r. up_endpoint r \<notin> set gone) (db_uptimes db),
               db_alerts := filter (\<lambda>r. ar_endpoint r \<notin> set gone) (db_alerts db)\<rparr>))"

section \<open>Constants\<close>

definition arraySeparator :: string where "arraySeparator = ''|~|''"
definition eventsAboveMaximumCleanUpThreshold :: int where "eventsAboveMaximumCleanUpThreshold = 10"
definition resultsAboveMaximumCleanUpThreshold :: int where "resultsAboveMaximumCleanUpThreshold = 10"
definition uptimeTotalEntriesMergeThreshold :: int where "uptimeTotalEntriesMergeThreshold = 100"
definition uptimeAgeCleanUpThreshold :: duration where "uptimeAgeCleanUpThreshold = 32 * 24 * hour"
definition Sql_uptimeRetention :: duration where "Sql_uptimeRetention = 30 * 24 * hour"
definition uptimeHourlyBuffer :: duration where "uptimeHourlyBuffer = 48 * hour"

section \<open>Endpoints\<close>

definition getEndpointID :: "Db \<Rightarrow> Endpoint \<Rightarrow> int option" where
  "getEndpointID db ep = map_option er_id (find (\<lambda>r. er_key r = Endpoint_Key ep) (db_endpoints db))"

definition getEndpointIDGroupAndNameByKey :: "Db \<Rightarrow> string \<Rightarrow> (int \<times> string \<times> string) option" where
  "getEndpointIDGroupAndNameByKey db k =
     map_option (\<lambda>r. (er_id r, er_group r, er_name r)) (find (\<lambda>r. er_key r = k) (db_endpoints db))"

text \<open>The key is unique, and so is the name in its group.\<close>

definition insertEndpoint :: "Db \<Rightarrow> Endpoint \<Rightarrow> (int \<times> Db) option" where
  "insertEndpoint db ep =
     (if list_ex (\<lambda>r. er_key r = Endpoint_Key ep \<or> er_name r = e_Name ep \<and> er_group r = e_Group ep)
           (db_endpoints db) then None
      else
        let id = fresh_id (map er_id (db_endpoints db))
        in Some (id, db\<lparr>db_endpoints := db_endpoints db @
                  [\<lparr>er_id = id, er_key = Endpoint_Key ep, er_name = e_Name ep, er_group = e_Group ep\<rparr>]\<rparr>))"

definition getAllEndpointKeys :: "Db \<Rightarrow> string list" where
  "getAllEndpointKeys db =
     sort (remdups (map er_key (filter (\<lambda>e.
       list_ex (\<lambda>r. rr_endpoint r = er_id e \<and> rr_suite_result r = None) (db_results db)) (db_endpoints db))))"

section \<open>Events\<close>

definition insertEndpointEvent :: "Db \<Rightarrow> int \<Rightarrow> Event \<Rightarrow> Db" where
  "insertEndpointEvent db endpointID event =
     db\<lparr>db_events := db_events db @
       [\<lparr>ev_id = fresh_id (map ev_id (db_events db)), ev_endpoint = endpointID, ev_event = event\<rparr>]\<rparr>"

definition getNumberOfEventsByEndpointID :: "Db \<Rightarrow> int \<Rightarrow> int" where
  "getNumberOfEventsByEndpointID db endpointID =
     int (length (filter (\<lambda>r. ev_endpoint r = endpointID) (db_events db)))"

definition getEndpointEventsByEndpointID :: "Db \<Rightarrow> int \<Rightarrow> int \<Rightarrow> int \<Rightarrow> Event list" where
  "getEndpointEventsByEndpointID db endpointID page pageSize =
     map ev_event (sort_key ev_id
       (sql_limit pageSize ((page - 1) * pageSize)
         (order_desc ev_id (filter (\<lambda>r. ev_endpoint r = endpointID) (db_events db)))))"

definition deleteOldEndpointEvents :: "Db \<Rightarrow> int \<Rightarrow> int \<Rightarrow> Db" where
  "deleteOldEndpointEvents db endpointID limit =
     (let kept = map ev_id (sql_limit limit 0
                   (order_desc ev_id (filter (\<lambda>r. ev_endpoint r = endpointID) (db_events db))))
      in db\<lparr>db_events := filter (\<lambda>r. \<not> (ev_endpoint r = endpointID \<and> ev_id r \<notin> set kept)) (db_events db)\<rparr>)"

section \<open>Results\<close>

definition insertConditionResults :: "Db \<Rightarrow> int \<Rightarrow> ConditionResult list \<Rightarrow> Db" where
  "insertConditionResults db endpointResultID conditionResults =
     foldl (\<lambda>db cr. db\<lparr>db_conditions := db_conditions db @
         [\<lparr>co_id = fresh_id (map co_id (db_conditions db)), co_result = endpointResultID,
           co_condition = cr_Condition cr, co_success = cr_Success cr\<rparr>]\<rparr>) db conditionResults"

definition insertEndpointResultWithSuiteID :: "Db \<Rightarrow> int \<Rightarrow> Result \<Rightarrow> int option \<Rightarrow> Db" where
  "insertEndpointResultWithSuiteID db endpointID result suiteResultID =
     (let id = fresh_id (map rr_id (db_results db))
      in insertConditionResults
           (db\<lparr>db_results := db_results db @
              [\<lparr>rr_id = id, rr_endpoint = endpointID, rr_success = r_Success result,
                rr_errors = Join (r_Errors result) arraySeparator, rr_connected = r_Connected result,
                rr_status = r_HTTPStatus result, rr_dns_rcode = r_DNSRCode result,
                rr_certificate_expiration = r_CertificateExpiration result,
                rr_domain_expiration = r_DomainExpiration result, rr_hostname = r_Hostname result,
                rr_ip = r_IP result, rr_duration = r_Duration result,
                rr_timestamp = r_Timestamp result, rr_suite_result = suiteResultID\<rparr>]\<rparr>)
           id (r_ConditionResults result))"

definition insertEndpointResult :: "Db \<Rightarrow> int \<Rightarrow> Result \<Rightarrow> Db" where
  "insertEndpointResult db endpointID result = insertEndpointResultWithSuiteID db endpointID result None"

definition getNumberOfResultsByEndpointID :: "Db \<Rightarrow> int \<Rightarrow> int" where
  "getNumberOfResultsByEndpointID db endpointID =
     int (length (filter (\<lambda>r. rr_endpoint r = endpointID) (db_results db)))"

definition getLastEndpointResultSuccessValue :: "Db \<Rightarrow> int \<Rightarrow> bool option" where
  "getLastEndpointResultSuccessValue db endpointID =
     (case sql_limit 1 0 (order_desc rr_id (filter (\<lambda>r. rr_endpoint r = endpointID) (db_results db))) of
        [] \<Rightarrow> None | r # _ \<Rightarrow> Some (rr_success r))"

text \<open>The conditions of a result come in the order of their insertion.\<close>

definition conditions_of :: "Db \<Rightarrow> int \<Rightarrow> ConditionResult list" where
  "conditions_of db resultID =
     map (\<lambda>c. \<lparr>cr_Condition = co_condition c, cr_Success = co_success c\<rparr>)
       (filter (\<lambda>c. co_result c = resultID) (db_conditions db))"

definition split_errors :: "string \<Rightarrow> string list" where
  "split_errors joinedErrors = (if joinedErrors = [] then [] else Split joinedErrors arraySeparator)"

definition result_of_row :: "Db \<Rightarrow> result_row \<Rightarrow> Result" where
  "result_of_row db r =
     empty_Result\<lparr>r_Success := rr_success r, r_Errors := split_errors (rr_errors r),
       r_Connected := rr_connected r, r_HTTPStatus := rr_status r, r_DNSRCode := rr_dns_rcode r,
       r_CertificateExpiration := rr_certificate_expiration r,
       r_DomainExpiration := rr_domain_expiration r, r_Hostname := rr_hostname r, r_IP := rr_ip r,
       r_Duration := rr_duration r, r_Timestamp := rr_timestamp r,
       r_ConditionResults := conditions_of db (rr_id r)\<rparr>"

definition getEndpointResultsByEndpointID :: "Db \<Rightarrow> int \<Rightarrow> int \<Rightarrow> int \<Rightarrow> Result list" where
  "getEndpointResultsByEndpointID db endpointID page pageSize =
     rev (map (result_of_row db)
       (sql_limit pageSize ((page - 1) * pageSize)
         (order_desc rr_id (filter (\<lambda>r. rr_endpoint r = endpointID) (db_results db)))))"

definition deleteOldEndpointResults :: "Db \<Rightarrow> int \<Rightarrow> int \<Rightarrow> Db" where
  "deleteOldEndpointResults db endpointID limit =
     (let kept = map rr_id (sql_limit limit 0
                   (order_desc rr_id (filter (\<lambda>r. rr_endpoint r = endpointID) (db_results db))))
      in delete_results (\<lambda>r. rr_endpoint r = endpointID \<and> rr_id r \<notin> set kept) db)"

section \<open>Uptime\<close>

definition upsert_uptime ::
  "(uptime_row \<Rightarrow> uptime_row) \<Rightarrow> Db \<Rightarrow> int \<Rightarrow> int \<Rightarrow> int \<Rightarrow> int \<Rightarrow> int \<Rightarrow> Db" where
  "upsert_uptime onConflict db endpointID h n ok resp =
     (if list_ex (\<lambda>u. up_endpoint u = endpointID \<and> up_hour u = h) (db_uptimes db)
      then db\<lparr>db_uptimes := map (\<lambda>u. if up_endpoint u = endpointID \<and> up_hour u = h then onConflict u else u)
                (db_uptimes db)\<rparr>
      else db\<lparr>db_uptimes := db_uptimes db @
                [\<lparr>up_id = fresh_id (map up_id (db_uptimes db)), up_endpoint = endpointID, up_hour = h,
                  up_total = n, up_successful = ok, up_response = resp\<rparr>]\<rparr>)"

definition updateEndpointUptime :: "Db \<Rightarrow> int \<Rightarrow> Result \<Rightarrow> Db" where
  "updateEndpointUptime db endpointID result =
     (let unixTimestampFlooredAtHour = Unix (Truncate_time (r_Timestamp result) hour);
          successfulExecutions = (if r_Success result then 1 else 0);
          response = Milliseconds (r_Duration result)
      in upsert_uptime
           (\<lambda>u. u\<lparr>up_total := 1 + up_total u, up_successful := successfulExecutions + up_successful u,
                  up_response := response + up_response u\<rparr>)
           db endpointID unixTimestampFlooredAtHour 1 successfulExecutions response)"

definition uptime_rows :: "Db \<Rightarrow> int \<Rightarrow> instant \<Rightarrow> instant \<Rightarrow> uptime_row list" where
  "uptime_rows db endpointID start to =
     filter (\<lambda>u. up_endpoint u = endpointID \<and> Unix start \<le> up_hour u \<and> up_hour u \<le> Unix to) (db_uptimes db)"

text \<open>The quotient of two integers as a float; the second is positive where it is used.\<close>

definition int_ratio :: "int \<Rightarrow> int \<Rightarrow> f64" where
  "int_ratio a b =
     (case float_ratio \<bar>a\<bar> b of F_Fin _ m e \<Rightarrow> F_Fin (a < 0) m e | x \<Rightarrow> x)"

definition getEndpointUptime :: "Db \<Rightarrow> int \<Rightarrow> instant \<Rightarrow> instant \<Rightarrow> f64" where
  "getEndpointUptime db endpointID start to =
     (let rows = uptime_rows db endpointID start to;
          totalExecutions = sum_list (map up_total rows);
          totalSuccessfulExecutions = sum_list (map up_successful rows)
      in if 0 < totalExecutions then int_ratio totalSuccessfulExecutions totalExecutions
         else F_Fin False 0 0)"

definition getEndpointAverageResponseTime :: "Db \<Rightarrow> int \<Rightarrow> instant \<Rightarrow> instant \<Rightarrow> int" where
  "getEndpointAverageResponseTime db endpointID start to =
     (let rows = filter (\<lambda>u. 0 < up_total u) (uptime_rows db endpointID start to);
          totalExecutions = sum_list (map up_total rows);
          totalResponseTime = sum_list (map up_response rows)
      in if totalExecutions = 0 then 0 else int64_of_f64 (int_ratio totalResponseTime totalExecutions))"

definition getEndpointHourlyAverageResponseTimes :: "Db \<Rightarrow> int \<Rightarrow> instant \<Rightarrow> instant \<Rightarrow> (int \<times> int) list" where
  "getEndpointHourlyAverageResponseTimes db endpointID start to =
     map (\<lambda>u. (up_hour u, int64_of_f64 (int_ratio (up_response u) (up_total u))))
       (filter (\<lambda>u. 0 < up_total u) (uptime_rows db endpointID start to))"

definition getNumberOfUptimeEntriesByEndpointID :: "Db \<Rightarrow> int \<Rightarrow> int" where
  "getNumberOfUptimeEntriesByEndpointID db endpointID =
     int (length (filter (\<lambda>u. up_endpoint u = endpointID) (db_uptimes db)))"

definition getAgeOfOldestEndpointUptimeEntry :: "instant \<Rightarrow> Db \<Rightarrow> int \<Rightarrow> duration option" where
  "getAgeOfOldestEndpointUptimeEntry now db endpointID =
     (case sort_key up_hour (filter (\<lambda>u. up_endpoint u = endpointID) (db_uptimes db)) of
        [] \<Rightarrow> None | u # _ \<Rightarrow> Some (Sub now (up_hour u * second)))"

definition deleteOldUptimeEntries :: "Db \<Rightarrow> int \<Rightarrow> instant \<Rightarrow> Db" where
  "deleteOldUptimeEntries db endpointID maxAge =
     db\<lparr>db_uptimes := filter (\<lambda>u. \<not> (up_endpoint u = endpointID \<and> up_hour u < Unix maxAge)) (db_uptimes db)\<rparr>"

text \<open>
  The merge of the hourly entries of the days before the last two into an entry per day, in the
  zone of the machine. The source keeps the sums per day in a map; here they are a list in the order
  the days appear in the table.
\<close>

record uptime_entry =
  en_total :: int
  en_successful :: int
  en_response :: int

definition add_daily :: "location \<Rightarrow> (int \<times> uptime_entry) list \<Rightarrow> uptime_row \<Rightarrow> (int \<times> uptime_entry) list" where
  "add_daily Local daily u =
     (let d = Unix (local_midnight Local (local_day Local (up_hour u * second)))
      in case map_of daily d of
           None \<Rightarrow> daily @ [(d, \<lparr>en_total = up_total u, en_successful = up_successful u, en_response = up_response u\<rparr>)]
         | Some e \<Rightarrow> AList.update d \<lparr>en_total = en_total e + up_total u,
             en_successful = en_successful e + up_successful u, en_response = en_response e + up_response u\<rparr> daily)"

definition daily_entries :: "location \<Rightarrow> uptime_row list \<Rightarrow> (int \<times> uptime_entry) list" where
  "daily_entries Local us = foldl (add_daily Local) [] us"

definition merge_threshold :: "location \<Rightarrow> instant \<Rightarrow> instant" where
  "merge_threshold Local now = local_midnight Local (local_day Local (now - uptimeHourlyBuffer))"

definition mergeHourlyUptimeEntries :: "location \<Rightarrow> instant \<Rightarrow> Db \<Rightarrow> int \<Rightarrow> Db" where
  "mergeHourlyUptimeEntries Local now db endpointID =
     (let minThreshold = Unix (merge_threshold Local now);
          maxThreshold = Unix (now - Sql_uptimeRetention);
          rows = filter (\<lambda>u. up_endpoint u = endpointID \<and> up_hour u < minThreshold \<and> maxThreshold \<le> up_hour u)
                   (db_uptimes db);
          db = db\<lparr>db_uptimes := filter (\<lambda>u. \<not> (up_endpoint u = endpointID \<and> up_hour u < minThreshold)) (db_uptimes db)\<rparr>
      in foldl (\<lambda>db (d, e). upsert_uptime
           (\<lambda>u. u\<lparr>up_total := en_total e, up_successful := en_successful e, up_response := en_response e\<rparr>)
           db endpointID d (en_total e) (en_successful e) (en_response e)) db (daily_entries Local rows))"

section \<open>The cache\<close>

record 'c sql_cache_ops =
  sc_Get :: "'c \<Rightarrow> string \<Rightarrow> Status option"
  sc_Set :: "'c \<Rightarrow> string \<Rightarrow> Status \<Rightarrow> 'c"
  sc_Delete :: "'c \<Rightarrow> string \<Rightarrow> 'c"
  sc_GetKeysByPattern :: "'c \<Rightarrow> string \<Rightarrow> string list"
  sc_Clear :: "'c \<Rightarrow> 'c"

definition generateCacheKey :: "string \<Rightarrow> EndpointStatusParams \<Rightarrow> string" where
  "generateCacheKey endpointKey p =
     endpointKey @ ''-'' @ Itoa (EventsPage p) @ ''-'' @ Itoa (EventsPageSize p) @ ''-'' @
     Itoa (ResultsPage p) @ ''-'' @ Itoa (ResultsPageSize p) @ ''-'' @ FormatBool (IncludeResultsCount p)"

definition extractKeyAndParamsFromCacheKey :: "string \<Rightarrow> (string \<times> EndpointStatusParams) option" where
  "extractKeyAndParamsFromCacheKey cacheKey =
     (let parts = Split cacheKey ''-''; n = length parts
      in if n < 6 then None
         else case (Atoi (parts ! (n - 5)), Atoi (parts ! (n - 4)), Atoi (parts ! (n - 3)), Atoi (parts ! (n - 2)),
                    ParseBool (parts ! (n - 1))) of
                (Some a, Some b, Some c, Some d, Some e) \<Rightarrow>
                  Some (Join (take (n - 5) parts) ''-'',
                        \<lparr>EventsPage = a, EventsPageSize = b, ResultsPage = c, ResultsPageSize = d,
                         IncludeResultsCount = e\<rparr>)
              | _ \<Rightarrow> None)"

section \<open>The store\<close>

record 'c Sql_Store =
  sq_db :: Db
  sq_cache :: "'c option"
  sq_maximumNumberOfResults :: int
  sq_maximumNumberOfEvents :: int

datatype sql_error = ErrConstraint | ErrNotFound store_error | ErrTimestampZero

text \<open>A new store; the driver and the path must not be empty.\<close>

datatype sql_open_error = ErrDatabaseDriverNotSpecified | ErrPathNotSpecified

definition Sql_NewStore ::
  "'c \<Rightarrow> string \<Rightarrow> string \<Rightarrow> bool \<Rightarrow> int \<Rightarrow> int \<Rightarrow> sql_open_error + 'c Sql_Store" where
  "Sql_NewStore empty_cache driver path caching maxResults maxEvents =
     (if driver = [] then Inl ErrDatabaseDriverNotSpecified
      else if path = [] then Inl ErrPathNotSpecified
      else Inr \<lparr>sq_db = createSQLiteSchema, sq_cache = (if caching then Some empty_cache else None),
                sq_maximumNumberOfResults = maxResults, sq_maximumNumberOfEvents = maxEvents\<rparr>)"

text \<open>The status of an endpoint as the tables have it.\<close>

definition read_endpoint_status :: "Db \<Rightarrow> string \<Rightarrow> EndpointStatusParams \<Rightarrow> Status option" where
  "read_endpoint_status db k parameters =
     (case getEndpointIDGroupAndNameByKey db k of
        None \<Rightarrow> None
      | Some (endpointID, groupName, endpointName) \<Rightarrow>
          Some ((NewStatus groupName endpointName)\<lparr>
            st_Key := k,
            st_ResultsCount :=
              (if IncludeResultsCount parameters then getNumberOfResultsByEndpointID db endpointID else 0),
            st_Events :=
              (if 0 < EventsPageSize parameters
               then getEndpointEventsByEndpointID db endpointID (EventsPage parameters) (EventsPageSize parameters)
               else []),
            st_Results :=
              (if 0 < ResultsPageSize parameters
               then getEndpointResultsByEndpointID db endpointID (ResultsPage parameters) (ResultsPageSize parameters)
               else [])\<rparr>))"

definition getEndpointStatusByKey ::
  "'c sql_cache_ops \<Rightarrow> 'c Sql_Store \<Rightarrow> string \<Rightarrow> EndpointStatusParams \<Rightarrow>
   (sql_error + Status) \<times> 'c Sql_Store" where
  "getEndpointStatusByKey co s k parameters =
     (case sq_cache s of
        None \<Rightarrow>
          (case read_endpoint_status (sq_db s) k parameters of
             None \<Rightarrow> (Inl (ErrNotFound ErrEndpointNotFound), s)
           | Some status \<Rightarrow> (Inr status, s))
      | Some c \<Rightarrow>
          let cacheKey = generateCacheKey k parameters in
          (case sc_Get co c cacheKey of
             Some status \<Rightarrow> (Inr status, s)
           | None \<Rightarrow>
               (case read_endpoint_status (sq_db s) k parameters of
                  None \<Rightarrow> (Inl (ErrNotFound ErrEndpointNotFound), s)
                | Some status \<Rightarrow> (Inr status, s\<lparr>sq_cache := Some (sc_Set co c cacheKey status)\<rparr>))))"

definition Sql_GetEndpointStatusByKey ::
  "'c sql_cache_ops \<Rightarrow> 'c Sql_Store \<Rightarrow> string \<Rightarrow> EndpointStatusParams \<Rightarrow>
   (sql_error + Status) \<times> 'c Sql_Store" where
  "Sql_GetEndpointStatusByKey co s k params = getEndpointStatusByKey co s k params"

definition Sql_GetEndpointStatus ::
  "'c sql_cache_ops \<Rightarrow> 'c Sql_Store \<Rightarrow> string \<Rightarrow> string \<Rightarrow> EndpointStatusParams \<Rightarrow>
   (sql_error + Status) \<times> 'c Sql_Store" where
  "Sql_GetEndpointStatus co s groupName endpointName params =
     Sql_GetEndpointStatusByKey co s (ConvertGroupAndNameToKey groupName endpointName) params"

fun collect_statuses ::
  "'c sql_cache_ops \<Rightarrow> 'c Sql_Store \<Rightarrow> EndpointStatusParams \<Rightarrow> string list \<Rightarrow> Status list \<times> 'c Sql_Store" where
  "collect_statuses co s params [] = ([], s)"
| "collect_statuses co s params (k # ks) =
     (case getEndpointStatusByKey co s k params of
        (Inl err, s') \<Rightarrow> collect_statuses co s' params ks
      | (Inr status, s') \<Rightarrow> (case collect_statuses co s' params ks of (sts, s'') \<Rightarrow> (status # sts, s'')))"

definition Sql_GetAllEndpointStatuses ::
  "'c sql_cache_ops \<Rightarrow> 'c Sql_Store \<Rightarrow> EndpointStatusParams \<Rightarrow> Status list \<times> 'c Sql_Store" where
  "Sql_GetAllEndpointStatuses co s params = collect_statuses co s params (getAllEndpointKeys (sq_db s))"

definition in_range ::
  "'c Sql_Store \<Rightarrow> string \<Rightarrow> instant \<Rightarrow> instant \<Rightarrow> (Db \<Rightarrow> int \<Rightarrow> instant \<Rightarrow> instant \<Rightarrow> 'a) \<Rightarrow> store_error + 'a" where
  "in_range s k start to f =
     (if to < start then Inl ErrInvalidTimeRange
      else case getEndpointIDGroupAndNameByKey (sq_db s) k of
             None \<Rightarrow> Inl ErrEndpointNotFound
           | Some (endpointID, _, _) \<Rightarrow> Inr (f (sq_db s) endpointID start to))"

definition Sql_GetUptimeByKey :: "'c Sql_Store \<Rightarrow> string \<Rightarrow> instant \<Rightarrow> instant \<Rightarrow> store_error + f64" where
  "Sql_GetUptimeByKey s k start to = in_range s k start to getEndpointUptime"

definition Sql_GetAverageResponseTimeByKey :: "'c Sql_Store \<Rightarrow> string \<Rightarrow> instant \<Rightarrow> instant \<Rightarrow> store_error + int" where
  "Sql_GetAverageResponseTimeByKey s k start to = in_range s k start to getEndpointAverageResponseTime"

definition Sql_GetHourlyAverageResponseTimeByKey ::
  "'c Sql_Store \<Rightarrow> string \<Rightarrow> instant \<Rightarrow> instant \<Rightarrow> store_error + (int \<times> int) list" where
  "Sql_GetHourlyAverageResponseTimeByKey s k start to = in_range s k start to getEndpointHourlyAverageResponseTimes"

section \<open>Inserting the result of an endpoint\<close>

text \<open>The endpoint, inserted if it is not known.\<close>

definition get_or_insert_endpoint :: "Db \<Rightarrow> Endpoint \<Rightarrow> (int \<times> Db) option" where
  "get_or_insert_endpoint db ep =
     (case getEndpointID db ep of Some endpointID \<Rightarrow> Some (endpointID, db) | None \<Rightarrow> insertEndpoint db ep)"

definition record_events :: "Db \<Rightarrow> int \<Rightarrow> int \<Rightarrow> Result \<Rightarrow> Db" where
  "record_events db endpointID maxEvents result =
     (let numberOfEvents = getNumberOfEventsByEndpointID db endpointID
      in if numberOfEvents = 0 then
           insertEndpointEvent
             (insertEndpointEvent db endpointID
               \<lparr>ev_Type = EventStart, ev_Timestamp = r_Timestamp result - 50 * millisecond\<rparr>)
             endpointID (NewEventFromResult result)
         else
           let db = (case getLastEndpointResultSuccessValue db endpointID of
                       None \<Rightarrow> db
                     | Some lastResultSuccess \<Rightarrow>
                         if lastResultSuccess \<noteq> r_Success result
                         then insertEndpointEvent db endpointID (NewEventFromResult result) else db)
           in if maxEvents + eventsAboveMaximumCleanUpThreshold < numberOfEvents
              then deleteOldEndpointEvents db endpointID maxEvents else db)"

definition record_result :: "Db \<Rightarrow> int \<Rightarrow> int \<Rightarrow> Result \<Rightarrow> Db" where
  "record_result db endpointID maxResults result =
     (let db = insertEndpointResult db endpointID result
      in if maxResults + resultsAboveMaximumCleanUpThreshold < getNumberOfResultsByEndpointID db endpointID
         then deleteOldEndpointResults db endpointID maxResults else db)"

definition record_uptime :: "location \<Rightarrow> instant \<Rightarrow> Db \<Rightarrow> int \<Rightarrow> Result \<Rightarrow> Db" where
  "record_uptime Local now db endpointID result =
     (let db = updateEndpointUptime db endpointID result;
          db = (if uptimeTotalEntriesMergeThreshold \<le> getNumberOfUptimeEntriesByEndpointID db endpointID
                then mergeHourlyUptimeEntries Local now db endpointID else db)
      in case getAgeOfOldestEndpointUptimeEntry now db endpointID of
           None \<Rightarrow> db
         | Some age \<Rightarrow>
             if uptimeAgeCleanUpThreshold < age
             then deleteOldUptimeEntries db endpointID (now - (Sql_uptimeRetention + hour)) else db)"

text \<open>The cached statuses of the endpoint are dropped and read again.\<close>

definition refresh_key :: "'c sql_cache_ops \<Rightarrow> 'c Sql_Store \<Rightarrow> string \<Rightarrow> 'c Sql_Store" where
  "refresh_key co s cacheKey =
     (case sq_cache s of
        None \<Rightarrow> s
      | Some c \<Rightarrow>
          let s = s\<lparr>sq_cache := Some (sc_Delete co c cacheKey)\<rparr>
          in case extractKeyAndParamsFromCacheKey cacheKey of
               None \<Rightarrow> s
             | Some (endpointKey, params) \<Rightarrow> snd (getEndpointStatusByKey co s endpointKey params))"

definition refresh_cache :: "'c sql_cache_ops \<Rightarrow> 'c Sql_Store \<Rightarrow> string \<Rightarrow> 'c Sql_Store" where
  "refresh_cache co s k =
     (case sq_cache s of
        None \<Rightarrow> s
      | Some c \<Rightarrow> foldl (refresh_key co) s (sc_GetKeysByPattern co c (k @ ''*'')))"

definition Sql_InsertEndpointResult ::
  "'c sql_cache_ops \<Rightarrow> location \<Rightarrow> instant \<Rightarrow> 'c Sql_Store \<Rightarrow> Endpoint \<Rightarrow> Result \<Rightarrow>
   sql_error option \<times> 'c Sql_Store" where
  "Sql_InsertEndpointResult co Local now s ep result =
     (case get_or_insert_endpoint (sq_db s) ep of
        None \<Rightarrow> (Some ErrConstraint, s)
      | Some (endpointID, db) \<Rightarrow>
          let db = record_events db endpointID (sq_maximumNumberOfEvents s) result;
              db = record_result db endpointID (sq_maximumNumberOfResults s) result;
              db = record_uptime Local now db endpointID result
          in (None, refresh_cache co (s\<lparr>sq_db := db\<rparr>) (Endpoint_Key ep)))"

section \<open>Deleting and asking\<close>

text \<open>Both deletions return the number of rows they deleted.\<close>

definition clear_cache :: "'c sql_cache_ops \<Rightarrow> 'c Sql_Store \<Rightarrow> 'c Sql_Store" where
  "clear_cache co s = s\<lparr>sq_cache := map_option (sc_Clear co) (sq_cache s)\<rparr>"

definition Sql_DeleteAllEndpointStatusesNotInKeys ::
  "'c sql_cache_ops \<Rightarrow> 'c Sql_Store \<Rightarrow> string list \<Rightarrow> nat \<times> 'c Sql_Store" where
  "Sql_DeleteAllEndpointStatusesNotInKeys co s keys =
     (let P = (\<lambda>r. er_key r \<notin> set keys)
      in (length (filter P (db_endpoints (sq_db s))),
          clear_cache co (s\<lparr>sq_db := delete_endpoints P (sq_db s)\<rparr>)))"

definition Sql_HasEndpointStatusNewerThan :: "'c Sql_Store \<Rightarrow> string \<Rightarrow> instant \<Rightarrow> sql_error + bool" where
  "Sql_HasEndpointStatusNewerThan s k timestamp =
     (if timestamp = zero_time then Inl ErrTimestampZero
      else Inr (case getEndpointIDGroupAndNameByKey (sq_db s) k of
                  None \<Rightarrow> False
                | Some (endpointID, _, _) \<Rightarrow>
                    0 < length (filter (\<lambda>r. rr_endpoint r = endpointID \<and> timestamp < rr_timestamp r)
                      (db_results (sq_db s)))))"

definition Sql_Clear :: "'c sql_cache_ops \<Rightarrow> 'c Sql_Store \<Rightarrow> 'c Sql_Store" where
  "Sql_Clear co s = clear_cache co (s\<lparr>sq_db := delete_endpoints (\<lambda>r. True) (sq_db s)\<rparr>)"

section \<open>Triggered alerts\<close>

definition Sql_GetTriggeredEndpointAlert ::
  "(string \<Rightarrow> string) \<Rightarrow> 'c Sql_Store \<Rightarrow> Endpoint \<Rightarrow> Alert \<Rightarrow> bool \<times> string \<times> int" where
  "Sql_GetTriggeredEndpointAlert sha s ep a =
     (case getEndpointID (sq_db s) ep of
        None \<Rightarrow> (False, [], 0)
      | Some endpointID \<Rightarrow>
          (case find (\<lambda>r. ar_endpoint r = endpointID \<and> ar_checksum r = Checksum sha a) (db_alerts (sq_db s)) of
             None \<Rightarrow> (False, [], 0)
           | Some r \<Rightarrow> (True, ar_resolve_key r, ar_successes r)))"

definition upsert_alert :: "Db \<Rightarrow> int \<Rightarrow> string \<Rightarrow> string \<Rightarrow> int \<Rightarrow> Db" where
  "upsert_alert db endpointID checksum resolveKey successes =
     (if list_ex (\<lambda>r. ar_endpoint r = endpointID \<and> ar_checksum r = checksum) (db_alerts db)
      then db\<lparr>db_alerts := map (\<lambda>r. if ar_endpoint r = endpointID \<and> ar_checksum r = checksum
                then r\<lparr>ar_resolve_key := resolveKey, ar_successes := successes\<rparr> else r) (db_alerts db)\<rparr>
      else db\<lparr>db_alerts := db_alerts db @
                [\<lparr>ar_id = fresh_id (map ar_id (db_alerts db)), ar_endpoint = endpointID, ar_checksum = checksum,
                  ar_resolve_key = resolveKey, ar_successes = successes\<rparr>]\<rparr>)"

definition Sql_UpsertTriggeredEndpointAlert ::
  "(string \<Rightarrow> string) \<Rightarrow> 'c Sql_Store \<Rightarrow> Endpoint \<Rightarrow> Alert \<Rightarrow> sql_error option \<times> 'c Sql_Store" where
  "Sql_UpsertTriggeredEndpointAlert sha s ep triggeredAlert =
     (case get_or_insert_endpoint (sq_db s) ep of
        None \<Rightarrow> (Some ErrConstraint, s)
      | Some (endpointID, db) \<Rightarrow>
          (None, s\<lparr>sq_db := upsert_alert db endpointID (Checksum sha triggeredAlert) (al_ResolveKey triggeredAlert)
                     (e_NumberOfSuccessesInARow ep)\<rparr>))"

definition delete_alerts :: "(alert_row \<Rightarrow> bool) \<Rightarrow> 'c Sql_Store \<Rightarrow> Endpoint \<Rightarrow> 'c Sql_Store" where
  "delete_alerts P s ep =
     (case getEndpointID (sq_db s) ep of
        None \<Rightarrow> s
      | Some endpointID \<Rightarrow>
          s\<lparr>sq_db := (sq_db s)\<lparr>db_alerts :=
              filter (\<lambda>r. \<not> (ar_endpoint r = endpointID \<and> P r)) (db_alerts (sq_db s))\<rparr>\<rparr>)"

definition Sql_DeleteTriggeredEndpointAlert ::
  "(string \<Rightarrow> string) \<Rightarrow> 'c Sql_Store \<Rightarrow> Endpoint \<Rightarrow> Alert \<Rightarrow> 'c Sql_Store" where
  "Sql_DeleteTriggeredEndpointAlert sha s ep triggeredAlert =
     delete_alerts (\<lambda>r. ar_checksum r = Checksum sha triggeredAlert) s ep"

definition Sql_DeleteAllTriggeredAlertsNotInChecksumsByEndpoint ::
  "'c Sql_Store \<Rightarrow> Endpoint \<Rightarrow> string list \<Rightarrow> nat \<times> 'c Sql_Store" where
  "Sql_DeleteAllTriggeredAlertsNotInChecksumsByEndpoint s ep checksums =
     (case getEndpointID (sq_db s) ep of
        None \<Rightarrow> (0, s)
      | Some endpointID \<Rightarrow>
          (length (filter (\<lambda>r. ar_endpoint r = endpointID \<and> ar_checksum r \<notin> set checksums) (db_alerts (sq_db s))),
           delete_alerts (\<lambda>r. ar_checksum r \<notin> set checksums) s ep))"

section \<open>Suites\<close>

definition getSuiteID :: "Db \<Rightarrow> Suite \<Rightarrow> int option" where
  "getSuiteID db su = map_option su_id (find (\<lambda>r. su_key r = Suite_Key su) (db_suites db))"

definition insertSuite :: "Db \<Rightarrow> Suite \<Rightarrow> (int \<times> Db) option" where
  "insertSuite db su =
     (if list_ex (\<lambda>r. su_key r = Suite_Key su \<or> su_name r = s_Name su \<and> su_group r = s_Group su) (db_suites db)
      then None
      else
        let id = fresh_id (map su_id (db_suites db))
        in Some (id, db\<lparr>db_suites := db_suites db @
                  [\<lparr>su_id = id, su_key = Suite_Key su, su_name = s_Name su, su_group = s_Group su\<rparr>]\<rparr>))"

text \<open>An endpoint of a suite result is stored under the group of the suite and its own name.\<close>

definition suite_endpoint :: "Suite \<Rightarrow> Result \<Rightarrow> Endpoint" where
  "suite_endpoint su epResult = empty_Endpoint\<lparr>e_Name := r_Name epResult, e_Group := s_Group su\<rparr>"

definition insert_suite_endpoint_result :: "Suite \<Rightarrow> int \<Rightarrow> Db \<Rightarrow> Result \<Rightarrow> Db" where
  "insert_suite_endpoint_result su suiteResultID db epResult =
     (case get_or_insert_endpoint db (suite_endpoint su epResult) of
        None \<Rightarrow> db
      | Some (epID, db) \<Rightarrow> insertEndpointResultWithSuiteID db epID epResult (Some suiteResultID))"

definition getNumberOfSuiteResultsByID :: "Db \<Rightarrow> int \<Rightarrow> int" where
  "getNumberOfSuiteResultsByID db suiteID = int (length (filter (\<lambda>r. sx_suite r = suiteID) (db_suite_results db)))"

definition deleteOldSuiteResults :: "Db \<Rightarrow> int \<Rightarrow> int \<Rightarrow> Db" where
  "deleteOldSuiteResults db suiteID limit =
     (let kept = map sx_id (sql_limit limit 0
                   (order_desc sx_id (filter (\<lambda>r. sx_suite r = suiteID) (db_suite_results db))))
      in delete_suite_results (\<lambda>r. sx_suite r = suiteID \<and> sx_id r \<notin> set kept) db)"

definition Sql_InsertSuiteResult ::
  "'c Sql_Store \<Rightarrow> Suite \<Rightarrow> Suite_Result \<Rightarrow> sql_error option \<times> 'c Sql_Store" where
  "Sql_InsertSuiteResult s su result =
     (case (case getSuiteID (sq_db s) su of
              Some suiteID \<Rightarrow> Some (suiteID, sq_db s) | None \<Rightarrow> insertSuite (sq_db s) su) of
        None \<Rightarrow> (Some ErrConstraint, s)
      | Some (suiteID, db) \<Rightarrow>
          let suiteResultID = fresh_id (map sx_id (db_suite_results db));
              db = db\<lparr>db_suite_results := db_suite_results db @
                     [\<lparr>sx_id = suiteResultID, sx_suite = suiteID, sx_success = sr_Success result,
                       sx_errors = Join (sr_Errors result) arraySeparator, sx_duration = sr_Duration result,
                       sx_timestamp = sr_Timestamp result\<rparr>]\<rparr>;
              db = foldl (insert_suite_endpoint_result su suiteResultID) db (sr_EndpointResults result);
              db = (if sq_maximumNumberOfResults s + resultsAboveMaximumCleanUpThreshold
                         < getNumberOfSuiteResultsByID db suiteID
                    then deleteOldSuiteResults db suiteID (sq_maximumNumberOfResults s) else db)
          in (None, s\<lparr>sq_db := db\<rparr>))"

definition suite_endpoint_result_of_row :: "Db \<Rightarrow> result_row \<Rightarrow> Result list" where
  "suite_endpoint_result_of_row db r =
     (case find (\<lambda>e. er_id e = rr_endpoint r) (db_endpoints db) of
        None \<Rightarrow> []
      | Some e \<Rightarrow>
          [empty_Result\<lparr>r_Name := er_name e, r_Success := rr_success r, r_Duration := rr_duration r,
             r_Timestamp := rr_timestamp r, r_Errors := split_errors (rr_errors r),
             r_ConditionResults := conditions_of db (rr_id r)\<rparr>])"

definition suite_result_of_row :: "Db \<Rightarrow> string \<Rightarrow> string \<Rightarrow> suite_result_row \<Rightarrow> Suite_Result" where
  "suite_result_of_row db name grp r =
     \<lparr>sr_Name = name, sr_Group = grp, sr_Success = sx_success r, sr_Timestamp = sx_timestamp r,
      sr_Duration = sx_duration r,
      sr_EndpointResults = concat (map (suite_endpoint_result_of_row db)
        (sort_key rr_id (filter (\<lambda>e. rr_suite_result e = Some (sx_id r)) (db_results db)))),
      sr_Context = [], sr_Errors = split_errors (sx_errors r)\<rparr>"

definition getSuiteResults :: "Db \<Rightarrow> suite_row \<Rightarrow> int \<Rightarrow> int \<Rightarrow> Suite_Result list" where
  "getSuiteResults db su page pageSize =
     rev (map (suite_result_of_row db (su_name su) (su_group su))
       (sql_limit pageSize ((page - 1) * pageSize)
         (order_desc sx_id (filter (\<lambda>r. sx_suite r = su_id su) (db_suite_results db)))))"

definition suite_page :: "SuiteStatusParams option \<Rightarrow> int \<times> int" where
  "suite_page params =
     (case params of
        None \<Rightarrow> (1, 20)
      | Some p \<Rightarrow> (if 0 < Page p then Page p else 1, if 0 < PageSize p then PageSize p else 20))"

definition suite_status_of_row :: "Db \<Rightarrow> SuiteStatusParams option \<Rightarrow> suite_row \<Rightarrow> Suite_Status" where
  "suite_status_of_row db params su =
     (case suite_page params of (page, pageSize) \<Rightarrow>
        \<lparr>ss_Name = su_name su, ss_Group = su_group su, ss_Key = su_key su,
         ss_Results = getSuiteResults db su page pageSize\<rparr>)"

definition Sql_GetAllSuiteStatuses :: "'c Sql_Store \<Rightarrow> SuiteStatusParams option \<Rightarrow> Suite_Status list" where
  "Sql_GetAllSuiteStatuses s params =
     map (suite_status_of_row (sq_db s) params) (sort_key su_key (db_suites (sq_db s)))"

text \<open>A suite that is not known is no error here, but no status either.\<close>

definition Sql_GetSuiteStatusByKey :: "'c Sql_Store \<Rightarrow> string \<Rightarrow> SuiteStatusParams option \<Rightarrow> Suite_Status option" where
  "Sql_GetSuiteStatusByKey s k params =
     map_option (suite_status_of_row (sq_db s) params) (find (\<lambda>r. su_key r = k) (db_suites (sq_db s)))"

definition Sql_DeleteAllSuiteStatusesNotInKeys :: "'c Sql_Store \<Rightarrow> string list \<Rightarrow> nat \<times> 'c Sql_Store" where
  "Sql_DeleteAllSuiteStatusesNotInKeys s keys =
     (let P = (\<lambda>r. su_key r \<notin> set keys)
      in (length (filter P (db_suites (sq_db s))), s\<lparr>sq_db := delete_suites P (sq_db s)\<rparr>))"

section \<open>The interface\<close>

definition sql_iface ::
  "'c sql_cache_ops \<Rightarrow> (string \<Rightarrow> string) \<Rightarrow> location \<Rightarrow> 'c Sql_Store store_iface" where
  "sql_iface co sha Local =
     \<lparr>so_InsertEndpointResult = (\<lambda>s now ep r. snd (Sql_InsertEndpointResult co Local now s ep r)),
      so_InsertSuiteResult = (\<lambda>s su r. snd (Sql_InsertSuiteResult s su r)),
      so_HasEndpointStatusNewerThan = (\<lambda>s k t. case Sql_HasEndpointStatusNewerThan s k t of
          Inl e \<Rightarrow> Inl ''timestamp is zero'' | Inr b \<Rightarrow> Inr b),
      so_DeleteAllEndpointStatusesNotInKeys = (\<lambda>s ks. snd (Sql_DeleteAllEndpointStatusesNotInKeys co s ks)),
      so_DeleteAllSuiteStatusesNotInKeys = (\<lambda>s ks. snd (Sql_DeleteAllSuiteStatusesNotInKeys s ks)),
      so_GetTriggeredEndpointAlert = (\<lambda>s ep a. Inr (Sql_GetTriggeredEndpointAlert sha s ep a)),
      so_UpsertTriggeredEndpointAlert = (\<lambda>s ep a. snd (Sql_UpsertTriggeredEndpointAlert sha s ep a)),
      so_DeleteTriggeredEndpointAlert = Sql_DeleteTriggeredEndpointAlert sha,
      so_DeleteAllTriggeredAlertsNotInChecksumsByEndpoint =
        (\<lambda>s ep cs. snd (Sql_DeleteAllTriggeredAlertsNotInChecksumsByEndpoint s ep cs))\<rparr>"

end
