(* ===== verification/Sql_Tables.thy ===== *)
theory Sql_Tables
  imports Sql_Store
begin

text \<open>
  Facts on the tables of the database: the rows are ordered by their identifiers, references lead
  to rows that exist, and what each statement of the storage does to what a reader finds. The
  invariant \<open>db_ok\<close> is kept by every operation.
\<close>

section \<open>Identifiers and ordered tables\<close>

abbreviation ordered :: "('a \<Rightarrow> int) \<Rightarrow> 'a list \<Rightarrow> bool" where
  "ordered f xs \<equiv> sorted_wrt (<) (map f xs)"

lemma fold_max_start: "a \<le> fold max xs (a :: int)"
proof (induction xs arbitrary: a)
  case (Cons x xs)
  then have "max x a \<le> fold max xs (max x a)" .
  then show ?case by simp
qed simp

lemma fold_max_bound: "x \<in> set xs \<Longrightarrow> x \<le> fold max xs (a :: int)"
proof (induction xs arbitrary: a)
  case (Cons y xs)
  then show ?case using fold_max_start [of "max y a" xs] by (cases "x = y") auto
qed simp

lemma fresh_id_greater: "x \<in> set ids \<Longrightarrow> x < fresh_id ids"
  using fold_max_bound [of x ids 0] by (simp add: fresh_id_def)

lemma fresh_id_new: "fresh_id ids \<notin> set ids"
  using fresh_id_greater by blast

lemma ordered_insert: "ordered f xs \<Longrightarrow> f x = fresh_id (map f xs) \<Longrightarrow> ordered f (xs @ [x])"
  using fresh_id_greater [of _ "map f xs"] by (auto simp: sorted_wrt_append)

lemma ordered_filter: "ordered f xs \<Longrightarrow> ordered f (filter P xs)"
  by (simp add: sorted_wrt_map sorted_wrt_filter)

lemma ordered_map: "(\<And>x. f (g x) = f x) \<Longrightarrow> ordered f (map g xs) \<longleftrightarrow> ordered f xs"
  by (simp add: comp_def)

lemma ordered_sort: "ordered f xs \<Longrightarrow> sort_key f xs = xs"
proof -
  assume o: "ordered f xs"
  then have "sorted (map f xs)" using strict_sorted_iff by blast
  then show ?thesis by (rule sort_key_id_if_sorted)
qed

lemma ordered_distinct: "ordered f xs \<Longrightarrow> distinct (map f xs)"
  using strict_sorted_iff by blast

lemma ordered_inj: "ordered f xs \<Longrightarrow> x \<in> set xs \<Longrightarrow> y \<in> set xs \<Longrightarrow> f x = f y \<Longrightarrow> x = y"
  using ordered_distinct [of f xs] by (auto simp: distinct_map inj_on_def)

lemma order_desc_ordered: "ordered f xs \<Longrightarrow> order_desc f xs = rev xs"
  by (simp add: order_desc_def ordered_sort)

text \<open>The pages of a query in descending order, read in ascending order.\<close>

lemma rev_sql_limit: "0 \<le> lim \<Longrightarrow> rev (sql_limit lim 0 (rev xs)) = last_n (nat lim) xs"
  by (simp add: sql_limit_def last_n_def take_rev)

lemma rev_sql_page:
  assumes "1 \<le> page" and "0 \<le> lim"
  shows "rev (sql_limit lim ((page - 1) * lim) (rev xs)) =
    last_n (nat lim) (take (length xs - nat ((page - 1) * lim)) xs)"
  using assms by (simp add: sql_limit_def last_n_def drop_rev take_rev)

text \<open>Rows of a kind of which only those among the last ones are kept.\<close>

lemma keep_last_rows:
  assumes "ordered f xs" and "0 \<le> lim"
  shows "filter P (filter (\<lambda>x. \<not> (P x \<and> f x \<notin> set (map f (sql_limit lim 0 (order_desc f (filter P xs)))))) xs) =
    last_n (nat lim) (filter P xs)"
proof -
  define ys where "ys = filter P xs"
  have o: "ordered f ys" unfolding ys_def by (rule ordered_filter [OF assms(1)])
  have kept: "set (map f (sql_limit lim 0 (order_desc f ys))) = f ` set (last_n (nat lim) ys)"
    using rev_sql_limit [OF assms(2), of ys] by (metis list.set_map order_desc_ordered [OF o] set_rev)
  have "filter P (filter (\<lambda>x. \<not> (P x \<and> f x \<notin> K)) xs) = filter (\<lambda>x. f x \<in> K) ys" for K
    by (simp add: ys_def) (metis (mono_tags, lifting))
  then have "filter P (filter (\<lambda>x. \<not> (P x \<and> f x \<notin> set (map f (sql_limit lim 0 (order_desc f ys))))) xs) =
      filter (\<lambda>x. f x \<in> f ` set (last_n (nat lim) ys)) ys"
    unfolding kept by blast
  also have "\<dots> = last_n (nat lim) ys"
  proof -
    define n where "n = length ys - nat lim"
    have split: "ys = take n ys @ drop n ys" by simp
    have "f x \<notin> f ` set (drop n ys)" if "x \<in> set (take n ys)" for x
    proof
      assume "f x \<in> f ` set (drop n ys)"
      then obtain y where y: "y \<in> set (drop n ys)" "f x = f y" by blast
      then have "x = y" using ordered_inj [OF o, of x y] that by (meson in_set_dropD in_set_takeD)
      moreover have "distinct ys" using ordered_distinct [OF o] by (simp add: distinct_map)
      ultimately show False using that y(1) set_take_disj_set_drop_if_distinct [of ys n n] by auto
    qed
    then have "filter (\<lambda>x. f x \<in> f ` set (drop n ys)) (take n ys) = []" by (simp add: filter_empty_conv)
    moreover have "filter (\<lambda>x. f x \<in> f ` set (drop n ys)) (drop n ys) = drop n ys" by (simp add: filter_id_conv)
    ultimately have "filter (\<lambda>x. f x \<in> f ` set (drop n ys)) (take n ys @ drop n ys) = drop n ys"
      by (simp only: filter_append append_Nil)
    then show ?thesis by (simp add: last_n_def n_def [symmetric])
  qed
  finally show ?thesis unfolding ys_def .
qed

section \<open>The invariant\<close>

definition endpoint_of :: "Db \<Rightarrow> string \<Rightarrow> endpoint_row option" where
  "endpoint_of db k = find (\<lambda>r. er_key r = k) (db_endpoints db)"

definition db_ok :: "Db \<Rightarrow> bool" where
  "db_ok db \<longleftrightarrow>
     ordered er_id (db_endpoints db) \<and> ordered ev_id (db_events db) \<and> ordered rr_id (db_results db) \<and>
     distinct (map er_key (db_endpoints db)) \<and>
     (\<forall>r \<in> set (db_results db). rr_endpoint r \<in> er_id ` set (db_endpoints db)) \<and>
     (\<forall>r \<in> set (db_events db). ev_endpoint r \<in> er_id ` set (db_endpoints db)) \<and>
     (\<forall>r \<in> set (db_uptimes db). up_endpoint r \<in> er_id ` set (db_endpoints db)) \<and>
     (\<forall>r \<in> set (db_alerts db). ar_endpoint r \<in> er_id ` set (db_endpoints db)) \<and>
     (\<forall>c \<in> set (db_conditions db). co_result c \<in> rr_id ` set (db_results db)) \<and>
     distinct (map (\<lambda>a. (ar_endpoint a, ar_checksum a)) (db_alerts db))"

text \<open>The keys of the endpoints are those made of their group and name.\<close>

definition keys_ok :: "Db \<Rightarrow> bool" where
  "keys_ok db \<longleftrightarrow>
     (\<forall>r \<in> set (db_endpoints db). er_key r = ConvertGroupAndNameToKey (er_group r) (er_name r))"

lemma schema_ok: "db_ok createSQLiteSchema" "keys_ok createSQLiteSchema"
  by (simp_all add: db_ok_def keys_ok_def createSQLiteSchema_def)

lemma endpoint_of_iff:
  assumes "db_ok db"
  shows "endpoint_of db k = Some e \<longleftrightarrow> e \<in> set (db_endpoints db) \<and> er_key e = k"
proof
  assume "endpoint_of db k = Some e"
  then show "e \<in> set (db_endpoints db) \<and> er_key e = k" by (auto simp: endpoint_of_def find_Some_iff)
next
  assume e: "e \<in> set (db_endpoints db) \<and> er_key e = k"
  then obtain e' where e': "endpoint_of db k = Some e'"
    by (cases "endpoint_of db k") (auto simp: endpoint_of_def find_None_iff)
  then have "e' \<in> set (db_endpoints db)" "er_key e' = k" by (auto simp: endpoint_of_def find_Some_iff)
  then have "e' = e" using assms e by (auto simp: db_ok_def distinct_map inj_on_def)
  then show "endpoint_of db k = Some e" using e' by simp
qed

lemma endpoint_of_None: "endpoint_of db k = None \<longleftrightarrow> k \<notin> er_key ` set (db_endpoints db)"
  by (auto simp: endpoint_of_def find_None_iff)

lemma endpoint_of_inj:
  assumes "db_ok db" and "endpoint_of db k = Some e" and "endpoint_of db k' = Some e'" and "er_id e = er_id e'"
  shows "k = k'"
proof -
  have "e \<in> set (db_endpoints db)" "e' \<in> set (db_endpoints db)" "er_key e = k" "er_key e' = k'"
    using assms(2,3) by (auto simp: endpoint_of_iff [OF assms(1)])
  moreover have "ordered er_id (db_endpoints db)" using assms(1) by (simp add: db_ok_def)
  ultimately show ?thesis using ordered_inj assms(4) by metis
qed

lemma getEndpointID_of: "getEndpointID db ep = map_option er_id (endpoint_of db (Endpoint_Key ep))"
  by (simp add: getEndpointID_def endpoint_of_def)

lemma getEndpointIDGroupAndNameByKey_of:
  "getEndpointIDGroupAndNameByKey db k = map_option (\<lambda>r. (er_id r, er_group r, er_name r)) (endpoint_of db k)"
  by (simp add: getEndpointIDGroupAndNameByKey_def endpoint_of_def)

lemma find_append: "find P (xs @ ys) = (case find P xs of None \<Rightarrow> find P ys | Some x \<Rightarrow> Some x)"
  by (induction xs) auto

section \<open>Finding or inserting an endpoint\<close>

lemma insertEndpoint_Some:
  assumes "insertEndpoint db ep = Some (i, db')"
  shows "i = fresh_id (map er_id (db_endpoints db)) \<and>
    db' = db\<lparr>db_endpoints := db_endpoints db @
      [\<lparr>er_id = fresh_id (map er_id (db_endpoints db)), er_key = Endpoint_Key ep, er_name = e_Name ep,
        er_group = e_Group ep\<rparr>]\<rparr>"
proof -
  let ?violated = "list_ex (\<lambda>r. er_key r = Endpoint_Key ep \<or> er_name r = e_Name ep \<and> er_group r = e_Group ep)
    (db_endpoints db)"
  have "\<not> ?violated"
  proof
    assume ?violated
    then have "insertEndpoint db ep = None" by (simp add: insertEndpoint_def)
    with assms show False by simp
  qed
  then show ?thesis
    using assms unfolding insertEndpoint_def Let_def by (simp only: if_False option.inject prod.inject; elim conjE; hypsubst; simp)
qed

lemma get_or_insert_endpoint_effect:
  assumes "db_ok db" and "get_or_insert_endpoint db ep = Some (i, db')"
  shows "db_ok db'" and "\<exists>es. db' = db\<lparr>db_endpoints := db_endpoints db @ es\<rparr>"
    and "\<exists>e. endpoint_of db' (Endpoint_Key ep) = Some e \<and> er_id e = i"
    and "k \<noteq> Endpoint_Key ep \<Longrightarrow> endpoint_of db' k = endpoint_of db k"
    and "endpoint_of db (Endpoint_Key ep) = None \<Longrightarrow> i \<notin> er_id ` set (db_endpoints db)"
    and "endpoint_of db (Endpoint_Key ep) \<noteq> None \<Longrightarrow> db' = db"
proof -
  let ?new = "\<lparr>er_id = fresh_id (map er_id (db_endpoints db)), er_key = Endpoint_Key ep, er_name = e_Name ep,
    er_group = e_Group ep\<rparr>"
  consider (old) e where "endpoint_of db (Endpoint_Key ep) = Some e" "er_id e = i" "db' = db"
    | (new) "endpoint_of db (Endpoint_Key ep) = None" "i = fresh_id (map er_id (db_endpoints db))"
      "db' = db\<lparr>db_endpoints := db_endpoints db @ [?new]\<rparr>"
  proof (cases "endpoint_of db (Endpoint_Key ep)")
    case None
    with assms(2) have "insertEndpoint db ep = Some (i, db')"
      by (simp add: get_or_insert_endpoint_def getEndpointID_of)
    then have "i = fresh_id (map er_id (db_endpoints db)) \<and> db' = db\<lparr>db_endpoints := db_endpoints db @ [?new]\<rparr>"
      by (rule insertEndpoint_Some)
    then show ?thesis using that(2) [OF None] by blast
  next
    case (Some e)
    with assms(2) have "er_id e = i \<and> db' = db" by (auto simp: get_or_insert_endpoint_def getEndpointID_of)
    then show ?thesis using that(1) [OF Some] by blast
  qed
  then have "db_ok db' \<and> (\<exists>es. db' = db\<lparr>db_endpoints := db_endpoints db @ es\<rparr>) \<and>
    (\<exists>e. endpoint_of db' (Endpoint_Key ep) = Some e \<and> er_id e = i) \<and>
    (k \<noteq> Endpoint_Key ep \<longrightarrow> endpoint_of db' k = endpoint_of db k) \<and>
    (endpoint_of db (Endpoint_Key ep) = None \<longrightarrow> i \<notin> er_id ` set (db_endpoints db)) \<and>
    (endpoint_of db (Endpoint_Key ep) \<noteq> None \<longrightarrow> db' = db)"
  proof cases
    case old
    show ?thesis unfolding old(3) using assms(1) old(1,2) by (intro conjI exI [of _ "[]"]) simp_all
  next
    case new
    have "ordered er_id (db_endpoints db @ [?new])"
      using assms(1) ordered_insert [of er_id "db_endpoints db" ?new] by (simp add: db_ok_def)
    moreover have "Endpoint_Key ep \<notin> er_key ` set (db_endpoints db)" using new(1) by (simp add: endpoint_of_None)
    ultimately have "db_ok db'" using assms(1) by (auto simp: db_ok_def new(3))
    moreover have "i \<notin> er_id ` set (db_endpoints db)"
      using fresh_id_new [of "map er_id (db_endpoints db)"] by (simp add: new(2))
    moreover have "endpoint_of db' k' = (if k' = Endpoint_Key ep then Some ?new else endpoint_of db k')" for k'
      using new(1) by (auto simp: endpoint_of_def new(3) find_append split: option.splits)
    ultimately show ?thesis using new by auto
  qed
  then show "db_ok db'" "\<exists>es. db' = db\<lparr>db_endpoints := db_endpoints db @ es\<rparr>"
    "\<exists>e. endpoint_of db' (Endpoint_Key ep) = Some e \<and> er_id e = i"
    "k \<noteq> Endpoint_Key ep \<Longrightarrow> endpoint_of db' k = endpoint_of db k"
    "endpoint_of db (Endpoint_Key ep) = None \<Longrightarrow> i \<notin> er_id ` set (db_endpoints db)"
    "endpoint_of db (Endpoint_Key ep) \<noteq> None \<Longrightarrow> db' = db" by blast+
qed

text \<open>An endpoint without a key of its own can always be inserted next to others of that kind.\<close>

lemma get_or_insert_endpoint_succeeds:
  assumes "keys_ok db" and "e_KeyOverride ep = []"
  shows "\<exists>i db'. get_or_insert_endpoint db ep = Some (i, db') \<and> keys_ok db'"
proof (cases "getEndpointID db ep")
  case (Some i)
  then show ?thesis using assms(1) by (simp add: get_or_insert_endpoint_def)
next
  case None
  have key: "Endpoint_Key ep = ConvertGroupAndNameToKey (e_Group ep) (e_Name ep)"
    using assms(2) by (simp add: Endpoint_Key_def)
  have "er_key r \<noteq> Endpoint_Key ep" if "r \<in> set (db_endpoints db)" for r
    using None that by (auto simp: getEndpointID_def find_None_iff)
  then have "\<not> list_ex (\<lambda>r. er_key r = Endpoint_Key ep \<or> er_name r = e_Name ep \<and> er_group r = e_Group ep)
      (db_endpoints db)"
    using assms(1) key unfolding list_ex_iff keys_ok_def by metis
  then show ?thesis
    using assms(1) key None
    by (auto simp: get_or_insert_endpoint_def insertEndpoint_def Let_def keys_ok_def)
qed

section \<open>Reading results\<close>

definition rows_for :: "Db \<Rightarrow> int \<Rightarrow> result_row list" where
  "rows_for db i = filter (\<lambda>r. rr_endpoint r = i) (db_results db)"

definition results_at :: "Db \<Rightarrow> int \<Rightarrow> Result list" where
  "results_at db i = map (result_of_row db) (rows_for db i)"

text \<open>What the database remembers of a result.\<close>

definition persisted :: "Result \<Rightarrow> Result" where
  "persisted r =
     empty_Result\<lparr>r_Success := r_Success r, r_Errors := split_errors (Join (r_Errors r) arraySeparator),
       r_Connected := r_Connected r, r_HTTPStatus := r_HTTPStatus r, r_DNSRCode := r_DNSRCode r,
       r_CertificateExpiration := r_CertificateExpiration r, r_DomainExpiration := r_DomainExpiration r,
       r_Hostname := r_Hostname r, r_IP := r_IP r, r_Duration := r_Duration r,
       r_Timestamp := r_Timestamp r, r_ConditionResults := r_ConditionResults r\<rparr>"

lemma reading_frame [simp]:
  "rows_for (db\<lparr>db_events := E\<rparr>) i = rows_for db i" "rows_for (db\<lparr>db_uptimes := U\<rparr>) i = rows_for db i"
  "rows_for (db\<lparr>db_endpoints := P\<rparr>) i = rows_for db i" "rows_for (db\<lparr>db_conditions := C\<rparr>) i = rows_for db i"
  "rows_for (db\<lparr>db_alerts := A\<rparr>) i = rows_for db i"
  "conditions_of (db\<lparr>db_events := E\<rparr>) j = conditions_of db j"
  "conditions_of (db\<lparr>db_uptimes := U\<rparr>) j = conditions_of db j"
  "conditions_of (db\<lparr>db_endpoints := P\<rparr>) j = conditions_of db j"
  "conditions_of (db\<lparr>db_results := R\<rparr>) j = conditions_of db j"
  "conditions_of (db\<lparr>db_alerts := A\<rparr>) j = conditions_of db j"
  by (simp_all add: rows_for_def conditions_of_def)

lemma result_of_row_frame [simp]:
  "result_of_row (db\<lparr>db_events := E\<rparr>) r = result_of_row db r"
  "result_of_row (db\<lparr>db_uptimes := U\<rparr>) r = result_of_row db r"
  "result_of_row (db\<lparr>db_endpoints := P\<rparr>) r = result_of_row db r"
  "result_of_row (db\<lparr>db_results := R\<rparr>) r = result_of_row db r"
  "result_of_row (db\<lparr>db_alerts := A\<rparr>) r = result_of_row db r"
  by (simp_all add: result_of_row_def)

lemma results_at_frame [simp]:
  "results_at (db\<lparr>db_events := E\<rparr>) i = results_at db i"
  "results_at (db\<lparr>db_uptimes := U\<rparr>) i = results_at db i"
  "results_at (db\<lparr>db_endpoints := P\<rparr>) i = results_at db i"
  "results_at (db\<lparr>db_alerts := A\<rparr>) i = results_at db i"
  by (simp_all add: results_at_def cong: map_cong)

lemma endpoint_of_frame [simp]:
  "endpoint_of (db\<lparr>db_events := E\<rparr>) k = endpoint_of db k"
  "endpoint_of (db\<lparr>db_uptimes := U\<rparr>) k = endpoint_of db k"
  "endpoint_of (db\<lparr>db_results := R\<rparr>) k = endpoint_of db k"
  "endpoint_of (db\<lparr>db_conditions := C\<rparr>) k = endpoint_of db k"
  "endpoint_of (db\<lparr>db_alerts := A\<rparr>) k = endpoint_of db k"
  by (simp_all add: endpoint_of_def)

section \<open>Inserting a result\<close>

lemma insertConditionResults_eq:
  "\<exists>cs. insertConditionResults db i crs = db\<lparr>db_conditions := db_conditions db @ cs\<rparr> \<and>
     (\<forall>c \<in> set cs. co_result c = i) \<and>
     map (\<lambda>c. \<lparr>cr_Condition = co_condition c, cr_Success = co_success c\<rparr>) cs = crs"
proof (induction crs arbitrary: db)
  case Nil
  show ?case by (rule exI [of _ "[]"]) (simp add: insertConditionResults_def)
next
  case (Cons cr crs)
  let ?c = "\<lparr>co_id = fresh_id (map co_id (db_conditions db)), co_result = i, co_condition = cr_Condition cr,
    co_success = cr_Success cr\<rparr>"
  obtain cs where cs: "insertConditionResults (db\<lparr>db_conditions := db_conditions db @ [?c]\<rparr>) i crs =
      db\<lparr>db_conditions := (db_conditions db @ [?c]) @ cs\<rparr>" "\<forall>c \<in> set cs. co_result c = i"
      "map (\<lambda>c. \<lparr>cr_Condition = co_condition c, cr_Success = co_success c\<rparr>) cs = crs"
    using Cons.IH [of "db\<lparr>db_conditions := db_conditions db @ [?c]\<rparr>"] by auto
  have "insertConditionResults db i (cr # crs) =
      insertConditionResults (db\<lparr>db_conditions := db_conditions db @ [?c]\<rparr>) i crs"
    by (simp add: insertConditionResults_def)
  with cs show ?case by (intro exI [of _ "?c # cs"]) simp
qed

text \<open>The row that is inserted, and what it is read back as.\<close>

lemma insertEndpointResult_effect:
  assumes "db_ok db" and "i \<in> er_id ` set (db_endpoints db)"
    and "db' = insertEndpointResultWithSuiteID db i r su"
  shows "\<exists>row cs. db' = db\<lparr>db_results := db_results db @ [row], db_conditions := db_conditions db @ cs\<rparr> \<and>
      rr_endpoint row = i \<and> rr_suite_result row = su \<and> rr_timestamp row = r_Timestamp r \<and>
      rr_success row = r_Success r \<and> rr_id row \<notin> rr_id ` set (db_results db) \<and>
      result_of_row db' row = persisted r \<and> (\<forall>old \<in> set (db_results db). result_of_row db' old = result_of_row db old)"
    and "db_ok db'"
    and "results_at db' i = results_at db i @ [persisted r]"
    and "j \<noteq> i \<Longrightarrow> results_at db' j = results_at db j"
proof -
  define rid where "rid = fresh_id (map rr_id (db_results db))"
  define row where "row = \<lparr>rr_id = rid, rr_endpoint = i, rr_success = r_Success r,
    rr_errors = Join (r_Errors r) arraySeparator, rr_connected = r_Connected r, rr_status = r_HTTPStatus r,
    rr_dns_rcode = r_DNSRCode r, rr_certificate_expiration = r_CertificateExpiration r,
    rr_domain_expiration = r_DomainExpiration r, rr_hostname = r_Hostname r, rr_ip = r_IP r,
    rr_duration = r_Duration r, rr_timestamp = r_Timestamp r, rr_suite_result = su\<rparr>"
  obtain cs where cs: "db' = db\<lparr>db_results := db_results db @ [row], db_conditions := db_conditions db @ cs\<rparr>"
    "\<forall>c \<in> set cs. co_result c = rid"
    "map (\<lambda>c. \<lparr>cr_Condition = co_condition c, cr_Success = co_success c\<rparr>) cs = r_ConditionResults r"
    using insertConditionResults_eq [of "db\<lparr>db_results := db_results db @ [row]\<rparr>" rid "r_ConditionResults r"]
    unfolding assms(3) insertEndpointResultWithSuiteID_def Let_def rid_def [symmetric] row_def [symmetric] by auto
  have new: "rid \<notin> rr_id ` set (db_results db)"
    using fresh_id_new [of "map rr_id (db_results db)"] by (simp add: rid_def)
  have "filter (\<lambda>c. co_result c = rid) (db_conditions db) = []"
    using assms(1) new by (auto simp: db_ok_def filter_empty_conv)
  moreover have "filter (\<lambda>c. co_result c = rid) cs = cs" using cs(2) by (simp add: filter_id_conv)
  ultimately have row_conditions: "conditions_of db' rid = r_ConditionResults r"
    by (simp add: conditions_of_def cs(1,3))
  have old_conditions: "conditions_of db' j = conditions_of db j" if "j \<noteq> rid" for j
    using cs(2) that by (auto simp: conditions_of_def cs(1) filter_empty_conv)
  have row: "result_of_row db' row = persisted r"
    by (simp add: result_of_row_def persisted_def row_def row_conditions)
  have old: "result_of_row db' x = result_of_row db x" if "x \<in> set (db_results db)" for x
  proof -
    have "rr_id x \<noteq> rid" using new that by blast
    then show ?thesis using old_conditions [of "rr_id x"] by (simp add: result_of_row_def)
  qed
  show "\<exists>row cs. db' = db\<lparr>db_results := db_results db @ [row], db_conditions := db_conditions db @ cs\<rparr> \<and>
      rr_endpoint row = i \<and> rr_suite_result row = su \<and> rr_timestamp row = r_Timestamp r \<and>
      rr_success row = r_Success r \<and> rr_id row \<notin> rr_id ` set (db_results db) \<and>
      result_of_row db' row = persisted r \<and> (\<forall>old \<in> set (db_results db). result_of_row db' old = result_of_row db old)"
    using cs(1) row old new by (intro exI [of _ row] exI [of _ cs]) (simp add: row_def)
  have "ordered rr_id (db_results db @ [row])"
    using assms(1) ordered_insert [of rr_id "db_results db" row] by (simp add: db_ok_def row_def rid_def)
  then show "db_ok db'"
    using assms(1,2) cs(2) by (auto simp: db_ok_def cs(1) row_def)
  have rows: "rows_for db' j = rows_for db j @ (if j = i then [row] else [])" for j
    by (simp add: rows_for_def cs(1) row_def)
  have same: "map (result_of_row db') (rows_for db j) = map (result_of_row db) (rows_for db j)" for j
    using old by (simp add: rows_for_def)
  show "results_at db' i = results_at db i @ [persisted r]"
    by (simp add: results_at_def rows same row)
  show "j \<noteq> i \<Longrightarrow> results_at db' j = results_at db j"
    by (simp add: results_at_def rows same)
qed

text \<open>Trimming keeps the last results of the endpoint, with their conditions.\<close>

lemma delete_results_effect:
  assumes "db_ok db"
  shows "db_ok (delete_results P db)"
    and "results_at (delete_results P db) j = map (result_of_row db) (filter (\<lambda>r. \<not> P r) (rows_for db j))"
proof -
  let ?db' = "delete_results P db"
  have R: "db_results ?db' = filter (\<lambda>r. \<not> P r) (db_results db)" by (simp add: delete_results_def Let_def)
  have ord: "ordered rr_id (db_results db)" using assms by (simp add: db_ok_def)
  have kept: "rr_id x \<notin> rr_id ` {r \<in> set (db_results db). P r}" if "x \<in> set (db_results db)" "\<not> P x" for x
    using ordered_inj [OF ord] that by (auto dest!: ordered_inj [OF ord, of x])
  have "co_result c \<in> rr_id ` {r \<in> set (db_results db). \<not> P r}"
    if "c \<in> set (db_conditions db)" "co_result c \<notin> rr_id ` {r \<in> set (db_results db). P r}" for c
    using assms that by (force simp: db_ok_def)
  then show "db_ok ?db'"
    using assms ordered_filter [OF ord]
    by (simp add: db_ok_def delete_results_def Let_def)
  have "result_of_row ?db' x = result_of_row db x" if "x \<in> set (db_results db)" "\<not> P x" for x
  proof -
    have "conditions_of ?db' (rr_id x) = conditions_of db (rr_id x)"
      using kept [OF that] by (simp add: conditions_of_def delete_results_def Let_def conj_commute)
        (metis (mono_tags, lifting) filter_cong)
    then show ?thesis by (simp add: result_of_row_def)
  qed
  then have "map (result_of_row ?db') (filter (\<lambda>r. \<not> P r) (rows_for db j)) =
      map (result_of_row db) (filter (\<lambda>r. \<not> P r) (rows_for db j))"
    by (simp add: rows_for_def)
  moreover have "rows_for ?db' j = filter (\<lambda>r. \<not> P r) (rows_for db j)"
    by (simp add: rows_for_def R conj_commute)
  ultimately show "results_at ?db' j = map (result_of_row db) (filter (\<lambda>r. \<not> P r) (rows_for db j))"
    by (simp add: results_at_def)
qed

lemma deleteOldEndpointResults_effect:
  assumes "db_ok db" and "0 \<le> lim"
  shows "db_ok (deleteOldEndpointResults db i lim)"
    and "results_at (deleteOldEndpointResults db i lim) j =
      (if j = i then last_n (nat lim) (results_at db i) else results_at db j)"
    and "\<exists>R C. deleteOldEndpointResults db i lim = db\<lparr>db_results := R, db_conditions := C\<rparr>"
proof -
  define K where "K = set (map rr_id (sql_limit lim 0 (order_desc rr_id (filter (\<lambda>r. rr_endpoint r = i) (db_results db)))))"
  have del: "deleteOldEndpointResults db i lim = delete_results (\<lambda>r. rr_endpoint r = i \<and> rr_id r \<notin> K) db"
    by (simp add: deleteOldEndpointResults_def K_def)
  have ord: "ordered rr_id (db_results db)" using assms(1) by (simp add: db_ok_def)
  note eff = delete_results_effect [OF assms(1), of "\<lambda>r. rr_endpoint r = i \<and> rr_id r \<notin> K", folded del]
  show "db_ok (deleteOldEndpointResults db i lim)" by (rule eff(1))
  show "\<exists>R C. deleteOldEndpointResults db i lim = db\<lparr>db_results := R, db_conditions := C\<rparr>"
    unfolding del delete_results_def Let_def by blast
  have "filter (\<lambda>r. \<not> (rr_endpoint r = i \<and> rr_id r \<notin> K)) (rows_for db i) = last_n (nat lim) (rows_for db i)"
    using keep_last_rows [OF ord assms(2), of "\<lambda>r. rr_endpoint r = i", folded K_def]
    by (simp add: rows_for_def conj_commute)
  moreover have "filter (\<lambda>r. \<not> (rr_endpoint r = i \<and> rr_id r \<notin> K)) (rows_for db j) = rows_for db j" if "j \<noteq> i"
    using that by (auto simp: rows_for_def intro: filter_cong)
  ultimately show "results_at (deleteOldEndpointResults db i lim) j =
      (if j = i then last_n (nat lim) (results_at db i) else results_at db j)"
    using eff(2) [of j] by (auto simp: results_at_def last_n_def drop_map)
qed

lemma db_ok_frame:
  "db_ok db \<Longrightarrow> ordered ev_id E \<Longrightarrow> \<forall>e \<in> set E. ev_endpoint e \<in> er_id ` set (db_endpoints db) \<Longrightarrow>
   db_ok (db\<lparr>db_events := E\<rparr>)"
  "db_ok db \<Longrightarrow> \<forall>u \<in> set U. up_endpoint u \<in> er_id ` set (db_endpoints db) \<Longrightarrow> db_ok (db\<lparr>db_uptimes := U\<rparr>)"
  by (simp_all add: db_ok_def)

lemma getNumberOfResults_results_at: "getNumberOfResultsByEndpointID db i = int (length (results_at db i))"
  by (simp add: getNumberOfResultsByEndpointID_def results_at_def rows_for_def)

lemma record_result_effect:
  assumes "db_ok db" and "i \<in> er_id ` set (db_endpoints db)" and "0 \<le> m"
  shows "db_ok (record_result db i m r)"
    and "results_at (record_result db i m r) i =
      (let all = results_at db i @ [persisted r] in if m + 10 < int (length all) then last_n (nat m) all else all)"
    and "j \<noteq> i \<Longrightarrow> results_at (record_result db i m r) j = results_at db j"
    and "\<exists>R C. record_result db i m r = db\<lparr>db_results := R, db_conditions := C\<rparr>"
proof -
  define db1 where "db1 = insertEndpointResult db i r"
  have db1: "db1 = insertEndpointResultWithSuiteID db i r None" by (simp add: db1_def insertEndpointResult_def)
  note ins = insertEndpointResult_effect [OF assms(1,2) db1]
  note del = deleteOldEndpointResults_effect [OF ins(2) assms(3)]
  have rec: "record_result db i m r =
      (if m + 10 < int (length (results_at db1 i)) then deleteOldEndpointResults db1 i m else db1)"
    by (simp add: record_result_def db1_def Let_def getNumberOfResults_results_at
        resultsAboveMaximumCleanUpThreshold_def)
  show "db_ok (record_result db i m r)" using ins(2) del(1) by (simp add: rec)
  show "results_at (record_result db i m r) i =
      (let all = results_at db i @ [persisted r] in if m + 10 < int (length all) then last_n (nat m) all else all)"
    using del(2) [of i i] ins(3) by (simp add: rec Let_def)
  show "j \<noteq> i \<Longrightarrow> results_at (record_result db i m r) j = results_at db j"
    using del(2) [of i j] ins(4) by (simp add: rec)
  from ins(1) obtain R C where "db1 = db\<lparr>db_results := R, db_conditions := C\<rparr>" by blast
  with del(3) show "\<exists>R C. record_result db i m r = db\<lparr>db_results := R, db_conditions := C\<rparr>"
    by (auto simp: rec)
qed

section \<open>Events and uptimes\<close>

lemma insertEndpointEvent_effect:
  assumes "db_ok db" and "i \<in> er_id ` set (db_endpoints db)"
  shows "db_ok (insertEndpointEvent db i e)" and "\<exists>E. insertEndpointEvent db i e = db\<lparr>db_events := E\<rparr>"
    and "j \<noteq> i \<Longrightarrow> filter (\<lambda>r. ev_endpoint r = j) (db_events (insertEndpointEvent db i e)) =
      filter (\<lambda>r. ev_endpoint r = j) (db_events db)"
  using assms ordered_insert [of ev_id "db_events db"
      "\<lparr>ev_id = fresh_id (map ev_id (db_events db)), ev_endpoint = i, ev_event = e\<rparr>"]
  by (auto simp: insertEndpointEvent_def db_ok_def)

lemma deleteOldEndpointEvents_effect:
  assumes "db_ok db"
  shows "db_ok (deleteOldEndpointEvents db i lim)" and "\<exists>E. deleteOldEndpointEvents db i lim = db\<lparr>db_events := E\<rparr>"
    and "j \<noteq> i \<Longrightarrow> filter (\<lambda>r. ev_endpoint r = j) (db_events (deleteOldEndpointEvents db i lim)) =
      filter (\<lambda>r. ev_endpoint r = j) (db_events db)"
proof -
  obtain P where P: "deleteOldEndpointEvents db i lim = db\<lparr>db_events := filter P (db_events db)\<rparr>"
    "\<And>r. ev_endpoint r \<noteq> i \<Longrightarrow> P r"
    unfolding deleteOldEndpointEvents_def Let_def by blast
  have ord: "ordered ev_id (filter P (db_events db))" using assms by (simp add: db_ok_def ordered_filter)
  show "db_ok (deleteOldEndpointEvents db i lim)" using assms ord by (simp add: P(1) db_ok_def)
  show "\<exists>E. deleteOldEndpointEvents db i lim = db\<lparr>db_events := E\<rparr>" using P(1) by blast
  show "j \<noteq> i \<Longrightarrow> filter (\<lambda>r. ev_endpoint r = j) (db_events (deleteOldEndpointEvents db i lim)) =
      filter (\<lambda>r. ev_endpoint r = j) (db_events db)"
    using P(2) by (auto simp: P(1) intro: filter_cong)
qed

lemma record_events_effect:
  assumes "db_ok db" and "i \<in> er_id ` set (db_endpoints db)"
  shows "db_ok (record_events db i m r)" and "\<exists>E. record_events db i m r = db\<lparr>db_events := E\<rparr>"
    and "j \<noteq> i \<Longrightarrow> filter (\<lambda>x. ev_endpoint x = j) (db_events (record_events db i m r)) =
      filter (\<lambda>x. ev_endpoint x = j) (db_events db)"
proof -
  define Q where "Q = (\<lambda>d. db_ok d \<and> (\<exists>E. d = db\<lparr>db_events := E\<rparr>) \<and>
    (\<forall>j. j \<noteq> i \<longrightarrow> filter (\<lambda>x. ev_endpoint x = j) (db_events d) = filter (\<lambda>x. ev_endpoint x = j) (db_events db)))"
  have "db = db\<lparr>db_events := db_events db\<rparr>" by simp
  then have "Q db" unfolding Q_def using assms(1) by blast
  have ins: "Q (insertEndpointEvent d i e)" if "Q d" for d e
  proof -
    have d: "db_ok d" "i \<in> er_id ` set (db_endpoints d)" using that assms(2) by (auto simp: Q_def)
    show ?thesis using that insertEndpointEvent_effect [OF d, where e = e] by (auto simp: Q_def)
  qed
  have del: "Q (deleteOldEndpointEvents d i l)" if "Q d" for d l
  proof -
    have "db_ok d" using that by (simp add: Q_def)
    from deleteOldEndpointEvents_effect [OF this, where i = i and lim = l] that show ?thesis
      by (auto simp: Q_def)
  qed
  have "Q (record_events db i m r)"
    using \<open>Q db\<close> by (auto simp: record_events_def Let_def split: option.splits intro: ins del)
  then show "db_ok (record_events db i m r)" "\<exists>E. record_events db i m r = db\<lparr>db_events := E\<rparr>"
    "j \<noteq> i \<Longrightarrow> filter (\<lambda>x. ev_endpoint x = j) (db_events (record_events db i m r)) =
      filter (\<lambda>x. ev_endpoint x = j) (db_events db)" by (auto simp: Q_def)
qed

lemma upsert_uptime_effect:
  assumes "\<And>u. up_endpoint (f u) = up_endpoint u"
  shows "\<exists>U. upsert_uptime f db i h n a b = db\<lparr>db_uptimes := U\<rparr> \<and>
    (\<forall>u \<in> set U. up_endpoint u = i \<or> up_endpoint u \<in> up_endpoint ` set (db_uptimes db))"
proof (cases "list_ex (\<lambda>u. up_endpoint u = i \<and> up_hour u = h) (db_uptimes db)")
  case True
  show ?thesis
    by (rule exI [of _ "map (\<lambda>u. if up_endpoint u = i \<and> up_hour u = h then f u else u) (db_uptimes db)"])
      (use True assms in \<open>auto simp: upsert_uptime_def\<close>)
next
  case False
  show ?thesis
    by (rule exI [of _ "db_uptimes db @ [\<lparr>up_id = fresh_id (map up_id (db_uptimes db)), up_endpoint = i,
        up_hour = h, up_total = n, up_successful = a, up_response = b\<rparr>]"])
      (use False in \<open>auto simp: upsert_uptime_def\<close>)
qed

lemma record_uptime_effect:
  assumes "db_ok db" and "i \<in> er_id ` set (db_endpoints db)"
  shows "db_ok (record_uptime L now db i r)" and "\<exists>U. record_uptime L now db i r = db\<lparr>db_uptimes := U\<rparr>"
proof -
  define Q where "Q = (\<lambda>d. \<exists>U. d = db\<lparr>db_uptimes := U\<rparr> \<and>
    (\<forall>u \<in> set U. up_endpoint u = i \<or> up_endpoint u \<in> up_endpoint ` set (db_uptimes db)))"
  have "db = db\<lparr>db_uptimes := db_uptimes db\<rparr>" by simp
  then have start: "Q db" unfolding Q_def by blast
  have ups: "Q (upsert_uptime f d i h n a b)" if "Q d" and "\<And>u. up_endpoint (f u) = up_endpoint u" for d f h n a b
    using that(1) upsert_uptime_effect [of f d i h n a b, OF that(2)] unfolding Q_def by fastforce
  have flt: "Q (d\<lparr>db_uptimes := filter P (db_uptimes d)\<rparr>)" if "Q d" for d P
    using that unfolding Q_def by fastforce
  have fold: "Q (foldl (\<lambda>db (d, e). upsert_uptime
           (\<lambda>u. u\<lparr>up_total := en_total e, up_successful := en_successful e, up_response := en_response e\<rparr>)
           db i d (en_total e) (en_successful e) (en_response e)) d es)" if "Q d" for d es
    using that
  proof (induction es arbitrary: d)
    case (Cons x es)
    obtain k e where x: "x = (k, e)" by (cases x)
    have "Q (upsert_uptime (\<lambda>u. u\<lparr>up_total := en_total e, up_successful := en_successful e,
        up_response := en_response e\<rparr>) d i k (en_total e) (en_successful e) (en_response e))"
      by (rule ups [OF Cons.prems]) simp
    then show ?case using Cons.IH by (simp add: x)
  qed simp
  have upd: "Q (updateEndpointUptime d i r)" if "Q d" for d
    unfolding updateEndpointUptime_def Let_def by (rule ups [OF that]) simp
  have mer: "Q (mergeHourlyUptimeEntries L now d i)" if "Q d" for d
    unfolding mergeHourlyUptimeEntries_def Let_def by (rule fold [OF flt [OF that]])
  have old: "Q (deleteOldUptimeEntries d i t)" if "Q d" for d t
    unfolding deleteOldUptimeEntries_def by (rule flt [OF that])
  have "Q (record_uptime L now db i r)"
    using start by (auto simp: record_uptime_def Let_def split: option.splits intro: upd mer old)
  then obtain U where U: "record_uptime L now db i r = db\<lparr>db_uptimes := U\<rparr>"
    "\<forall>u \<in> set U. up_endpoint u = i \<or> up_endpoint u \<in> up_endpoint ` set (db_uptimes db)" unfolding Q_def by blast
  then show "\<exists>U. record_uptime L now db i r = db\<lparr>db_uptimes := U\<rparr>" by blast
  have "\<forall>u \<in> set U. up_endpoint u \<in> er_id ` set (db_endpoints db)"
    using U(2) assms by (auto simp: db_ok_def)
  then show "db_ok (record_uptime L now db i r)" unfolding U(1) by (rule db_ok_frame(2) [OF assms(1)])
qed

end
