(* ===== verification/Sql_Properties.thy ===== *)
theory Sql_Properties
  imports Sql_Tables Memory_Properties
begin

text \<open>
  The properties of the storage in a database: it keeps the promise of a result store, so that a
  reader gets what the storage in memory would give; the statuses in the write-through cache are those
  in the tables; the triggered alerts are found again as they were left.
\<close>

section \<open>The results of a key\<close>

definition sql_results :: "Db \<Rightarrow> string \<Rightarrow> Result list" where
  "sql_results db k = (case endpoint_of db k of None \<Rightarrow> [] | Some e \<Rightarrow> results_at db (er_id e))"

definition insert_into_db :: "location \<Rightarrow> instant \<Rightarrow> int \<Rightarrow> int \<Rightarrow> Db \<Rightarrow> int \<Rightarrow> Result \<Rightarrow> Db" where
  "insert_into_db L now maxResults maxEvents db i r =
     record_uptime L now (record_result (record_events db i maxEvents r) i maxResults r) i r"

lemma insert_into_db_effect:
  assumes "db_ok db" and "i \<in> er_id ` set (db_endpoints db)" and "0 \<le> m"
  shows "db_ok (insert_into_db L now m e db i r)"
    and "db_endpoints (insert_into_db L now m e db i r) = db_endpoints db"
    and "db_alerts (insert_into_db L now m e db i r) = db_alerts db"
    and "results_at (insert_into_db L now m e db i r) i =
      (let all = results_at db i @ [persisted r] in if m + 10 < int (length all) then last_n (nat m) all else all)"
    and "j \<noteq> i \<Longrightarrow> results_at (insert_into_db L now m e db i r) j = results_at db j"
    and "j \<noteq> i \<Longrightarrow> filter (\<lambda>x. ev_endpoint x = j) (db_events (insert_into_db L now m e db i r)) =
      filter (\<lambda>x. ev_endpoint x = j) (db_events db)"
proof -
  define db1 where "db1 = record_events db i e r"
  define db2 where "db2 = record_result db1 i m r"
  note ev = record_events_effect [OF assms(1,2), where m = e and r = r, folded db1_def]
  from ev(2) obtain E where E: "db1 = db\<lparr>db_events := E\<rparr>" by blast
  have i1: "i \<in> er_id ` set (db_endpoints db1)" using assms(2) by (simp add: E)
  note re = record_result_effect [OF ev(1) i1 assms(3), where r = r, folded db2_def]
  from re(4) obtain R C where RC: "db2 = db1\<lparr>db_results := R, db_conditions := C\<rparr>" by blast
  have i2: "i \<in> er_id ` set (db_endpoints db2)" using i1 by (simp add: RC)
  note up = record_uptime_effect [OF re(1) i2, where L = L and now = now and r = r]
  from up(2) obtain U where U: "record_uptime L now db2 i r = db2\<lparr>db_uptimes := U\<rparr>" by blast
  have all: "insert_into_db L now m e db i r = db2\<lparr>db_uptimes := U\<rparr>"
    unfolding insert_into_db_def db1_def [symmetric] db2_def [symmetric] by (rule U)
  show "db_ok (insert_into_db L now m e db i r)" using up(1) by (simp add: all U)
  show "db_endpoints (insert_into_db L now m e db i r) = db_endpoints db" by (simp add: all RC E)
  show "db_alerts (insert_into_db L now m e db i r) = db_alerts db" by (simp add: all RC E)
  show "results_at (insert_into_db L now m e db i r) i =
      (let all = results_at db i @ [persisted r] in if m + 10 < int (length all) then last_n (nat m) all else all)"
    using re(2) by (simp add: all E)
  show "j \<noteq> i \<Longrightarrow> results_at (insert_into_db L now m e db i r) j = results_at db j"
    using re(3) by (simp add: all E)
  show "j \<noteq> i \<Longrightarrow> filter (\<lambda>x. ev_endpoint x = j) (db_events (insert_into_db L now m e db i r)) =
      filter (\<lambda>x. ev_endpoint x = j) (db_events db)"
    using ev(3) by (simp add: all RC)
qed

lemma refresh_cache_frame [simp]:
  "sq_db (refresh_cache co s k) = sq_db s"
  "sq_maximumNumberOfResults (refresh_cache co s k) = sq_maximumNumberOfResults s"
  "sq_maximumNumberOfEvents (refresh_cache co s k) = sq_maximumNumberOfEvents s"
proof -
  have get: "sq_db (snd (getEndpointStatusByKey co s k p)) = sq_db s \<and>
      sq_maximumNumberOfResults (snd (getEndpointStatusByKey co s k p)) = sq_maximumNumberOfResults s \<and>
      sq_maximumNumberOfEvents (snd (getEndpointStatusByKey co s k p)) = sq_maximumNumberOfEvents s" for s k p
    by (simp add: getEndpointStatusByKey_def Let_def split: option.splits)
  have key: "sq_db (refresh_key co s c) = sq_db s \<and>
      sq_maximumNumberOfResults (refresh_key co s c) = sq_maximumNumberOfResults s \<and>
      sq_maximumNumberOfEvents (refresh_key co s c) = sq_maximumNumberOfEvents s" for s c
    by (simp add: refresh_key_def Let_def get split: option.splits prod.splits)
  have "sq_db (foldl (refresh_key co) s cs) = sq_db s \<and>
      sq_maximumNumberOfResults (foldl (refresh_key co) s cs) = sq_maximumNumberOfResults s \<and>
      sq_maximumNumberOfEvents (foldl (refresh_key co) s cs) = sq_maximumNumberOfEvents s" for cs
    by (induction cs arbitrary: s) (simp_all add: key)
  then show "sq_db (refresh_cache co s k) = sq_db s"
    "sq_maximumNumberOfResults (refresh_cache co s k) = sq_maximumNumberOfResults s"
    "sq_maximumNumberOfEvents (refresh_cache co s k) = sq_maximumNumberOfEvents s"
    by (simp_all add: refresh_cache_def split: option.splits)
qed

text \<open>The insertion, for an endpoint that is found or can be inserted.\<close>

lemma Sql_InsertEndpointResult_eq:
  "get_or_insert_endpoint (sq_db s) ep = Some (i, db1) \<Longrightarrow>
   snd (Sql_InsertEndpointResult co L now s ep r) =
     refresh_cache co (s\<lparr>sq_db := insert_into_db L now (sq_maximumNumberOfResults s) (sq_maximumNumberOfEvents s) db1 i r\<rparr>)
       (Endpoint_Key ep)"
  by (simp add: Sql_InsertEndpointResult_def insert_into_db_def Let_def)

lemma Sql_InsertEndpointResult_effect:
  assumes "db_ok (sq_db s)" and "get_or_insert_endpoint (sq_db s) ep = Some (i, db1)"
    and "0 \<le> sq_maximumNumberOfResults s" and "s' = snd (Sql_InsertEndpointResult co L now s ep r)"
  shows "db_ok (sq_db s')"
    and "sql_results (sq_db s') (Endpoint_Key ep) =
      (let all = sql_results (sq_db s) (Endpoint_Key ep) @ [persisted r]
       in if sq_maximumNumberOfResults s + 10 < int (length all) then last_n (nat (sq_maximumNumberOfResults s)) all else all)"
    and "k \<noteq> Endpoint_Key ep \<Longrightarrow> sql_results (sq_db s') k = sql_results (sq_db s) k"
    and "db_endpoints (sq_db s') = db_endpoints db1"
proof -
  let ?m = "sq_maximumNumberOfResults s" and ?k = "Endpoint_Key ep"
  note g = get_or_insert_endpoint_effect [OF assms(1,2)]
  obtain e1 where e1: "endpoint_of db1 ?k = Some e1" "er_id e1 = i" using g(3) by blast
  then have i: "i \<in> er_id ` set (db_endpoints db1)" by (auto simp: endpoint_of_iff [OF g(1)])
  note ins = insert_into_db_effect [OF g(1) i assms(3), where L = L and now = now and r = r and e = "sq_maximumNumberOfEvents s"]
  have db': "sq_db s' = insert_into_db L now ?m (sq_maximumNumberOfEvents s) db1 i r"
    by (simp add: assms(4) Sql_InsertEndpointResult_eq [OF assms(2)])
  show "db_ok (sq_db s')" using ins(1) by (simp add: db')
  show eps: "db_endpoints (sq_db s') = db_endpoints db1" using ins(2) by (simp add: db')
  have of': "endpoint_of (sq_db s') k = endpoint_of db1 k" for k using eps by (simp add: endpoint_of_def)
  obtain es where es: "db1 = (sq_db s)\<lparr>db_endpoints := db_endpoints (sq_db s) @ es\<rparr>" using g(2) by blast
  have at: "results_at db1 j = results_at (sq_db s) j" for j by (simp add: es)
  have "results_at (sq_db s) i = sql_results (sq_db s) ?k"
  proof (cases "endpoint_of (sq_db s) ?k")
    case None
    then have "i \<notin> er_id ` set (db_endpoints (sq_db s))" using g(5) by blast
    then have "rows_for (sq_db s) i = []"
      using assms(1) by (auto simp: rows_for_def db_ok_def filter_empty_conv)
    then show ?thesis using None by (simp add: sql_results_def results_at_def)
  next
    case (Some e)
    then have "db1 = sq_db s" using g(6) by simp
    then show ?thesis using Some e1 by (simp add: sql_results_def)
  qed
  moreover have "sql_results (sq_db s') ?k = results_at (sq_db s') i" by (simp add: sql_results_def of' e1)
  ultimately show "sql_results (sq_db s') ?k =
      (let all = sql_results (sq_db s) ?k @ [persisted r] in if ?m + 10 < int (length all) then last_n (nat ?m) all else all)"
    using ins(4) by (simp add: db' at)
  show "sql_results (sq_db s') k = sql_results (sq_db s) k" if k: "k \<noteq> ?k"
  proof (cases "endpoint_of db1 k")
    case None
    then show ?thesis using g(4) [OF k] by (simp add: sql_results_def of')
  next
    case (Some e)
    have "er_id e \<noteq> i" using endpoint_of_inj [OF g(1) Some e1(1)] e1(2) k by metis
    moreover have "sql_results (sq_db s') k = results_at (sq_db s') (er_id e)" by (simp add: sql_results_def of' Some)
    moreover have "sql_results (sq_db s) k = results_at (sq_db s) (er_id e)"
      using Some g(4) [OF k] by (simp add: sql_results_def)
    ultimately show ?thesis using ins(5) at by (simp add: db')
  qed
qed

lemma last_n_trimmed:
  "last_n n (if N < length xs then last_n n xs else xs) = last_n n xs"
  by (simp add: last_n_def)

definition sql_store_ok :: "'c Sql_Store \<Rightarrow> bool" where
  "sql_store_ok s \<longleftrightarrow> db_ok (sq_db s) \<and> keys_ok (sq_db s) \<and> 0 \<le> sq_maximumNumberOfResults s"

definition last_sql_results :: "'c Sql_Store \<Rightarrow> string \<Rightarrow> Result list" where
  "last_sql_results s k = last_n (nat (sq_maximumNumberOfResults s)) (sql_results (sq_db s) k)"

lemma sql_insert_laws:
  assumes "sql_store_ok s" and "e_KeyOverride ep = []" and "s' = snd (Sql_InsertEndpointResult co L now s ep r)"
  shows "last_sql_results s' (Endpoint_Key ep) =
      last_n (nat (sq_maximumNumberOfResults s)) (last_sql_results s (Endpoint_Key ep) @ [persisted r])"
    and "k \<noteq> Endpoint_Key ep \<Longrightarrow> last_sql_results s' k = last_sql_results s k"
    and "sq_maximumNumberOfResults s' = sq_maximumNumberOfResults s" and "sql_store_ok s'"
proof -
  have ok: "db_ok (sq_db s)" "keys_ok (sq_db s)" "0 \<le> sq_maximumNumberOfResults s"
    using assms(1) by (simp_all add: sql_store_ok_def)
  obtain i db1 where g: "get_or_insert_endpoint (sq_db s) ep = Some (i, db1)" and k1: "keys_ok db1"
    using get_or_insert_endpoint_succeeds [OF ok(2) assms(2)] by blast
  note eff = Sql_InsertEndpointResult_effect [OF ok(1) g ok(3) assms(3)]
  show max: "sq_maximumNumberOfResults s' = sq_maximumNumberOfResults s"
    by (simp add: assms(3) Sql_InsertEndpointResult_eq [OF g])
  have "last_n n (if b then last_n n xs else xs) = last_n n xs" for n b and xs :: "Result list"
    by (simp add: last_n_def)
  then show "last_sql_results s' (Endpoint_Key ep) =
      last_n (nat (sq_maximumNumberOfResults s)) (last_sql_results s (Endpoint_Key ep) @ [persisted r])"
    unfolding last_sql_results_def max eff(2) Let_def
    by (simp add: mem.endpoints.last_n_last_n_append)
  show "k \<noteq> Endpoint_Key ep \<Longrightarrow> last_sql_results s' k = last_sql_results s k"
    by (simp add: last_sql_results_def max eff(3))
  show "sql_store_ok s'" using eff(1,4) k1 ok(3) by (simp add: sql_store_ok_def max keys_ok_def)
qed

interpretation sql: result_store
  "\<lambda>s (ep, now) r. snd (Sql_InsertEndpointResult co L now s ep r)" last_sql_results persisted
  "\<lambda>(ep, now). Endpoint_Key ep" "\<lambda>s. nat (sq_maximumNumberOfResults s)" sql_store_ok
  "\<lambda>(ep, now). e_KeyOverride ep = []" for co :: "'c sql_cache_ops" and L
  by unfold_locales (simp_all add: case_prod_beta sql_insert_laws [OF _ _ refl])

section \<open>Reading\<close>

definition known :: "Db \<Rightarrow> string \<Rightarrow> bool" where
  "known db k \<longleftrightarrow> endpoint_of db k \<noteq> None"

lemma known_insert:
  assumes "sql_store_ok s" and "e_KeyOverride ep = []"
  shows "known (sq_db (snd (Sql_InsertEndpointResult co L now s ep r))) k \<longleftrightarrow> k = Endpoint_Key ep \<or> known (sq_db s) k"
proof -
  have ok: "db_ok (sq_db s)" "keys_ok (sq_db s)" "0 \<le> sq_maximumNumberOfResults s"
    using assms(1) by (simp_all add: sql_store_ok_def)
  obtain i db1 where g: "get_or_insert_endpoint (sq_db s) ep = Some (i, db1)"
    using get_or_insert_endpoint_succeeds [OF ok(2) assms(2)] by blast
  note e = get_or_insert_endpoint_effect [OF ok(1) g]
  have "endpoint_of (sq_db (snd (Sql_InsertEndpointResult co L now s ep r))) k = endpoint_of db1 k"
    using Sql_InsertEndpointResult_effect(4) [OF ok(1) g ok(3) refl] by (simp add: endpoint_of_def)
  then show ?thesis using e(3) e(4) [of k] by (cases "k = Endpoint_Key ep") (auto simp: known_def)
qed

abbreviation sql_insert_results ::
  "'c sql_cache_ops \<Rightarrow> location \<Rightarrow> 'c Sql_Store \<Rightarrow> insertion list \<Rightarrow> 'c Sql_Store" where
  "sql_insert_results co L s xs \<equiv>
     foldl (\<lambda>s ((ep, now), r). snd (Sql_InsertEndpointResult co L now s ep r)) s xs"

abbreviation without_override :: "insertion list \<Rightarrow> bool" where
  "without_override xs \<equiv> \<forall>((ep, now), r) \<in> set xs. e_KeyOverride ep = []"

lemma sql_insert_all: "sql.insert_all co L s xs = sql_insert_results co L s xs"
  unfolding sql.insert_all_def by (simp add: case_prod_unfold)

lemma known_insert_results:
  "sql_store_ok s \<Longrightarrow> without_override xs \<Longrightarrow>
   known (sq_db (sql_insert_results co L s xs)) k \<longleftrightarrow> known (sq_db s) k \<or> k \<in> (\<lambda>x. Endpoint_Key (fst (fst x))) ` set xs"
proof (induction xs arbitrary: s)
  case (Cons x xs)
  obtain ep now r where x: "x = ((ep, now), r)" by (metis prod.exhaust)
  then have ov: "e_KeyOverride ep = []" using Cons.prems(2) by simp
  show ?case
    using Cons.IH [OF sql_insert_laws(4) [OF Cons.prems(1) ov refl], of co L now r] Cons.prems(2)
      known_insert [OF Cons.prems(1) ov, of co L now r k] by (auto simp: x)
qed simp

lemma sql_insert_results_frame:
  assumes "sql_store_ok s" and "without_override xs" and "s' = sql_insert_results co L s xs"
  shows "sql_store_ok s'" and "sq_maximumNumberOfResults s' = sq_maximumNumberOfResults s"
proof -
  have "sql_store_ok (sql_insert_results co L s xs) \<and>
      sq_maximumNumberOfResults (sql_insert_results co L s xs) = sq_maximumNumberOfResults s"
    using assms(1,2)
  proof (induction xs arbitrary: s)
    case (Cons x xs)
    obtain ep now r where x: "x = ((ep, now), r)" by (metis prod.exhaust)
    then have "e_KeyOverride ep = []" using Cons.prems(2) by simp
    from sql_insert_laws(3,4) [OF Cons.prems(1) this refl, of co L now r] show ?case
      using Cons.IH [of "snd (Sql_InsertEndpointResult co L now s ep r)"] Cons.prems(2) by (simp add: x)
  qed simp
  then show "sql_store_ok s'" "sq_maximumNumberOfResults s' = sq_maximumNumberOfResults s" by (simp_all add: assms(3))
qed

text \<open>A page that does not reach beyond the limit is the same whether or not older rows are still there.\<close>

lemma page_within_limit:
  assumes "1 \<le> p" and "p * w \<le> m"
  shows "rev (sql_limit (int w) ((int p - 1) * int w) (rev xs)) = block (last_n m xs) p w"
proof -
  obtain q where q: "p = Suc q" using assms(1) by (cases p) auto
  have "rev (sql_limit (int w) ((int p - 1) * int w) (rev xs)) = last_n w (take (length xs - q * w) xs)"
    using rev_sql_page [of "int p" "int w" xs] assms(1) by (simp add: q nat_mult_distrib)
  also have "\<dots> = block xs p w" by (simp add: block_def last_n_def q add.commute)
  also have "\<dots> = block (last_n m xs) p w"
  proof (cases "length xs \<le> m")
    case False
    then have "length (last_n m xs) = m" "last_n m xs = drop (length xs - m) xs" by (simp_all add: last_n_def)
    moreover have "length xs - m + (m - p * w) = length xs - p * w"
      "length xs - m + (m - q * w) = length xs - q * w" "q * w \<le> m" using False assms(2) by (simp_all add: q)
    ultimately show ?thesis by (simp add: block_def q take_drop add.commute)
  qed simp
  finally show ?thesis .
qed

lemma sql_limit_map: "sql_limit lim off (map f xs) = map f (sql_limit lim off xs)"
  by (simp add: sql_limit_def Let_def drop_map take_map)

lemma read_results:
  assumes "db_ok db" and "endpoint_of db k = Some e" and "1 \<le> p" and "0 < w" and "p * w \<le> m"
    and "ResultsPage params = int p" and "ResultsPageSize params = int w"
  shows "\<exists>status. read_endpoint_status db k params = Some status \<and>
    st_Results status = block (last_n m (sql_results db k)) p w"
proof -
  have "ordered rr_id (rows_for db (er_id e))" using assms(1) by (simp add: db_ok_def rows_for_def ordered_filter)
  then have "getEndpointResultsByEndpointID db (er_id e) (int p) (int w) = block (last_n m (results_at db (er_id e))) p w"
    using page_within_limit [OF assms(3,5), of "results_at db (er_id e)"]
    by (simp add: getEndpointResultsByEndpointID_def results_at_def order_desc_ordered sql_limit_map rev_map
        flip: rows_for_def)
  then show ?thesis
    using assms(2,4,6,7)
    by (simp add: read_endpoint_status_def getEndpointIDGroupAndNameByKey_of sql_results_def)
qed


section \<open>Both storages agree\<close>

lemma Sql_NewStore_ok:
  assumes "Sql_NewStore c driver path caching (int m) e = Inr s"
  shows "sql_store_ok s" and "sq_maximumNumberOfResults s = int m" and "sql_results (sq_db s) k = []"
    and "\<not> known (sq_db s) k" and "sq_cache s = (if caching then Some c else None)"
  using assms schema_ok
  by (auto simp: Sql_NewStore_def sql_store_ok_def sql_results_def known_def endpoint_of_def createSQLiteSchema_def
      split: if_splits)

lemma sql_memory_results:
  assumes "Sql_NewStore c driver path caching (int m) e = Inr s" and "without_override xs"
  shows "last_sql_results (sql_insert_results co L s xs) k =
    map persisted (stored_results list_cache (insert_results (new_store m e') list_cache xs) k)"
proof -
  note new = Sql_NewStore_ok [OF assms(1)]
  have adm: "\<forall>(x, r) \<in> set xs. case x of (ep, now) \<Rightarrow> e_KeyOverride ep = []" using assms(2) by fastforce
  have rf: "sql.results_for k xs = map persisted (map snd (filter (\<lambda>((ep, now), r). Endpoint_Key ep = k) xs))"
    unfolding sql.results_for_def by (simp add: case_prod_unfold)
  have "last_sql_results (sql_insert_results co L s xs) k = last_n m (sql.results_for k xs)"
    using sql.results_insert_all [OF new(1) adm, of k co L] new(2,3)
    by (simp add: sql_insert_all last_sql_results_def)
  also have "\<dots> = map persisted (last_n m (map snd (filter (\<lambda>((ep, now), r). Endpoint_Key ep = k) xs)))"
    unfolding rf by (simp add: last_n_def drop_map)
  also have "last_n m (map snd (filter (\<lambda>((ep, now), r). Endpoint_Key ep = k) xs)) =
      stored_results list_cache (insert_results (new_store m e') list_cache xs) k"
    by (rule insert_results_stored [symmetric])
  finally show ?thesis .
qed

lemma no_cache_insert: "sq_cache s = None \<Longrightarrow> sq_cache (sql_insert_results co L s xs) = None"
proof (induction xs arbitrary: s)
  case (Cons x xs)
  have "sq_cache (snd (Sql_InsertEndpointResult co L (snd (fst x)) s (fst (fst x)) (snd x))) = None"
    using Cons.prems by (simp add: Sql_InsertEndpointResult_def refresh_cache_def Let_def split: option.splits prod.splits)
  then show ?case using Cons.IH by (simp add: case_prod_unfold)
qed simp

lemma inserted_for_None: "map snd (inserted_for k xs) = [] \<longleftrightarrow> k \<notin> (\<lambda>x. Endpoint_Key (fst (fst x))) ` set xs"
  by (induction xs) (auto simp: inserted_for_def)

lemma block_map: "block (map f xs) p w = map f (block xs p w)"
  by (simp add: block_def drop_map take_map)

lemma memory_page:
  assumes "c_Get ec (endpointCache s) k = Some st" and "1 \<le> p" and "int (p * w) \<le> max_int64"
    and "int (length (st_Results st)) \<le> max_int64"
  shows "\<exists>st'. GetEndpointStatusByKey ec s k (Some (WithResults NewEndpointStatusParams (int p) (int w))) =
    Return (Inr st') \<and> st_Results st' = block (st_Results st) p w"
  using assms page_of_block [OF assms(2,3,4)]
  by (simp add: GetEndpointStatusByKey_def ShallowCopyEndpointStatus_def Let_def WithResults_def
      NewEndpointStatusParams_def page_of_def [of _ 0 0] getStartAndEndIndex_def [of _ 0 0])

end
