(* ===== verification/Sql_Cache.thy ===== *)
theory Sql_Cache
  imports Sql_Properties Pattern
begin

text \<open>
  The write-through cache of the storage in a database. Whatever is in it is what the tables
  would give: every operation on endpoints keeps it so, whatever the cache forgets meanwhile, as long as
  the keys of the endpoints have no character that is special in the pattern they are
  looked up with. The insertion of the result of a suite does not.
\<close>

section \<open>The cache\<close>

text \<open>
  What the store relies on: the cache may forget an entry at any time, but never has one that was
  not set; a pattern that is a text without special characters followed by a star finds the keys that
  start with the text, as far as what follows has no separator.
\<close>

locale write_through_cache =
  fixes co :: "'c sql_cache_ops"
  assumes Get_Set: "sc_Get co (sc_Set co c k v) k' = Some w \<Longrightarrow> (if k' = k then w = v else sc_Get co c k' = Some w)"
    and Get_Delete: "sc_Get co (sc_Delete co c k) k' = Some w \<Longrightarrow> k' \<noteq> k \<and> sc_Get co c k' = Some w"
    and Get_Clear: "sc_Get co (sc_Clear co c) k' = None"
    and Keys_sound: "k \<in> set (sc_GetKeysByPattern co c pattern) \<Longrightarrow> sc_Get co c k \<noteq> None"
    and Keys: "no_meta k \<Longrightarrow> separator \<notin> set rest \<Longrightarrow> sc_Get co c (k @ rest) \<noteq> None \<Longrightarrow>
      k @ rest \<in> set (sc_GetKeysByPattern co c (k @ ''*''))"

definition list_sql_cache :: "(string \<times> Status) list sql_cache_ops" where
  "list_sql_cache =
     \<lparr>sc_Get = map_of, sc_Set = (\<lambda>c k v. AList.update k v c), sc_Delete = (\<lambda>c k. AList.delete k c),
      sc_GetKeysByPattern = (\<lambda>c p. filter (filepath_Match p) (map fst c)), sc_Clear = (\<lambda>c. [])\<rparr>"

lemma filepath_Match_prefix:
  assumes "no_meta k" and "separator \<notin> set rest"
  shows "filepath_Match (k @ ''*'') (k @ rest)"
proof -
  have "parse_glob (k @ ''*'') = Some (map Lit k @ [Star])"
    by (simp add: parse_glob_literal [OF assms(1)] parse_glob_Star)
  moreover have "glob_match [Star] rest" using assms(2) by (rule glob_match_Star_all)
  ultimately show ?thesis by (simp add: filepath_Match_def glob_match_Lits)
qed

interpretation list_sql_cache: write_through_cache list_sql_cache
proof unfold_locales
  fix c :: "(string \<times> Status) list" and k k' v w rest
  show "sc_Get list_sql_cache (sc_Set list_sql_cache c k v) k' = Some w \<Longrightarrow>
      (if k' = k then w = v else sc_Get list_sql_cache c k' = Some w)"
    by (auto simp: list_sql_cache_def update_conv' split: if_splits)
  show "sc_Get list_sql_cache (sc_Delete list_sql_cache c k) k' = Some w \<Longrightarrow>
      k' \<noteq> k \<and> sc_Get list_sql_cache c k' = Some w"
    by (auto simp: list_sql_cache_def delete_conv' split: if_splits)
  show "sc_Get list_sql_cache (sc_Clear list_sql_cache c) k' = None" by (simp add: list_sql_cache_def)
  show "k \<in> set (sc_GetKeysByPattern list_sql_cache c pattern) \<Longrightarrow> sc_Get list_sql_cache c k \<noteq> None" for pattern
    by (auto simp: list_sql_cache_def map_of_eq_None_iff)
  show "no_meta k \<Longrightarrow> separator \<notin> set rest \<Longrightarrow> sc_Get list_sql_cache c (k @ rest) \<noteq> None \<Longrightarrow>
      k @ rest \<in> set (sc_GetKeysByPattern list_sql_cache c (k @ ''*''))"
    using filepath_Match_prefix [of k rest] by (simp add: list_sql_cache_def map_of_eq_None_iff)
qed

section \<open>The keys of the cache\<close>

abbreviation paging_value :: "int \<Rightarrow> bool" where
  "paging_value i \<equiv> 0 \<le> i \<and> i \<le> max_int64"

definition paging_ok :: "EndpointStatusParams \<Rightarrow> bool" where
  "paging_ok p \<longleftrightarrow> paging_value (EventsPage p) \<and> paging_value (EventsPageSize p) \<and>
     paging_value (ResultsPage p) \<and> paging_value (ResultsPageSize p)"

lemma Itoa_digits: "0 \<le> i \<Longrightarrow> CHR ''-'' \<notin> set (Itoa i)"
  using Itoa_nonneg_chars [of i "CHR ''-''"] by (auto simp: is_digit_def)

lemma Split_append: "Split (a @ c # b) [c] = Split a [c] @ Split b [c]"
proof (induction a rule: length_induct)
  case (1 a)
  show ?case
  proof (cases "c \<in> set a")
    case True
    then obtain a1 a2 where a: "a = a1 @ c # a2" "c \<notin> set a1" by (metis split_list_first)
    then show ?thesis using 1 by (simp add: Split_single_Cons)
  qed (simp add: Split_single_Cons Split_single_none)
qed

lemma Split_append_parts:
  "\<forall>p \<in> set ps. c \<notin> set p \<Longrightarrow> Split (k @ concat (map (\<lambda>p. c # p) ps)) [c] = Split k [c] @ ps"
proof (induction ps arbitrary: k)
  case (Cons p ps)
  then show ?case using Split_append [of k c "p @ concat (map (\<lambda>p. c # p) ps)"] by (simp add: Split_single_none)
qed simp

lemma extract_generate:
  assumes "paging_ok p"
  shows "extractKeyAndParamsFromCacheKey (generateCacheKey k p) = Some (k, p)"
proof -
  define ps where "ps = [Itoa (EventsPage p), Itoa (EventsPageSize p), Itoa (ResultsPage p), Itoa (ResultsPageSize p),
    FormatBool (IncludeResultsCount p)]"
  have "generateCacheKey k p = k @ concat (map (\<lambda>p. CHR ''-'' # p) ps)"
    by (simp add: generateCacheKey_def ps_def)
  moreover have "\<forall>x \<in> set ps. CHR ''-'' \<notin> set x"
    using assms Itoa_digits by (auto simp: ps_def paging_ok_def FormatBool_def)
  ultimately have parts: "Split (generateCacheKey k p) ''-'' = Split k ''-'' @ ps" by (simp add: Split_append_parts)
  have "in_int64 i" if "paging_value i" for i using that by (simp add: in_int64_def min_int64_def)
  then have "Atoi (Itoa i) = Some i" if "paging_value i" for i using that Atoi_Itoa by blast
  moreover have "0 < length (Split k ''-'')" by simp
  ultimately show ?thesis using assms
    unfolding extractKeyAndParamsFromCacheKey_def parts
    by (simp add: ps_def paging_ok_def nth_append Join_Split FormatBool_def ParseBool_def numeral_eq_Suc)
qed

lemma generateCacheKey_suffix:
  assumes "paging_ok p"
  shows "\<exists>rest. generateCacheKey k p = k @ rest \<and> separator \<notin> set rest"
proof -
  have "separator \<notin> set (Itoa i)" if "0 \<le> i" for i using Itoa_nonneg_chars [OF that, of separator] by (auto simp: is_digit_def)
  then show ?thesis using assms
    by (intro exI conjI) (auto simp: generateCacheKey_def paging_ok_def FormatBool_def split: if_splits)
qed

section \<open>What a status is read from\<close>

definition events_at :: "Db \<Rightarrow> int \<Rightarrow> event_row list" where
  "events_at db i = filter (\<lambda>x. ev_endpoint x = i) (db_events db)"

lemma getEndpointResults_results_at:
  "db_ok db \<Longrightarrow> getEndpointResultsByEndpointID db i page pageSize =
     rev (sql_limit pageSize ((page - 1) * pageSize) (rev (results_at db i)))"
proof -
  assume "db_ok db"
  then have "ordered rr_id (rows_for db i)" by (simp add: db_ok_def rows_for_def ordered_filter)
  then show ?thesis
    by (simp add: getEndpointResultsByEndpointID_def results_at_def order_desc_ordered sql_limit_map rev_map
        flip: rows_for_def)
qed

lemma read_endpoint_status_cong:
  assumes "db_ok db" and "db_ok db'" and "endpoint_of db' k = endpoint_of db k"
    and "\<And>e. endpoint_of db k = Some e \<Longrightarrow> results_at db' (er_id e) = results_at db (er_id e)"
    and "\<And>e. endpoint_of db k = Some e \<Longrightarrow> events_at db' (er_id e) = events_at db (er_id e)"
  shows "read_endpoint_status db' k p = read_endpoint_status db k p"
proof (cases "endpoint_of db k")
  case (Some e)
  note eqs = assms(4) [OF Some] assms(5) [OF Some]
  have n: "getNumberOfResultsByEndpointID db' (er_id e) = getNumberOfResultsByEndpointID db (er_id e)"
    by (simp add: getNumberOfResults_results_at eqs)
  have ev: "getEndpointEventsByEndpointID db' (er_id e) a b = getEndpointEventsByEndpointID db (er_id e) a b" for a b
    using eqs(2) by (simp add: getEndpointEventsByEndpointID_def events_at_def)
  have r: "getEndpointResultsByEndpointID db' (er_id e) a b = getEndpointResultsByEndpointID db (er_id e) a b" for a b
    by (simp add: getEndpointResults_results_at [OF assms(1)] getEndpointResults_results_at [OF assms(2)] eqs(1))
  show ?thesis
    by (simp add: read_endpoint_status_def getEndpointIDGroupAndNameByKey_of assms(3) Some n ev r)
qed (simp add: read_endpoint_status_def getEndpointIDGroupAndNameByKey_of assms(3))

lemma read_unknown: "read_endpoint_status db k p = None \<longleftrightarrow> endpoint_of db k = None"
  by (simp add: read_endpoint_status_def getEndpointIDGroupAndNameByKey_of split: option.splits)

text \<open>An insertion changes what is read of its own key only.\<close>

lemma insert_reads_other:
  assumes "db_ok (sq_db s)" and "get_or_insert_endpoint (sq_db s) ep = Some (i, db1)" and "0 \<le> m"
    and "k \<noteq> Endpoint_Key ep"
  shows "read_endpoint_status (insert_into_db L now m e db1 i r) k p = read_endpoint_status (sq_db s) k p"
proof -
  note g = get_or_insert_endpoint_effect [OF assms(1,2)]
  obtain e1 where e1: "endpoint_of db1 (Endpoint_Key ep) = Some e1" "er_id e1 = i" using g(3) by blast
  then have i: "i \<in> er_id ` set (db_endpoints db1)" by (auto simp: endpoint_of_iff [OF g(1)])
  note ins = insert_into_db_effect [OF g(1) i assms(3), where L = L and now = now and r = r and e = e]
  obtain es where es: "db1 = (sq_db s)\<lparr>db_endpoints := db_endpoints (sq_db s) @ es\<rparr>" using g(2) by blast
  have of: "endpoint_of (insert_into_db L now m e db1 i r) k = endpoint_of (sq_db s) k"
    using ins(2) g(4) [OF assms(4)] by (simp add: endpoint_of_def)
  have other: "er_id e' \<noteq> i" if "endpoint_of (sq_db s) k = Some e'" for e'
    using endpoint_of_inj [OF g(1), of k e' "Endpoint_Key ep" e1] that g(4) [OF assms(4)] e1 assms(4) by auto
  show ?thesis
  proof (rule read_endpoint_status_cong [OF assms(1) ins(1) of])
    fix e' assume e': "endpoint_of (sq_db s) k = Some e'"
    show "results_at (insert_into_db L now m e db1 i r) (er_id e') = results_at (sq_db s) (er_id e')"
      using ins(5) [OF other [OF e']] by (simp add: es)
    show "events_at (insert_into_db L now m e db1 i r) (er_id e') = events_at (sq_db s) (er_id e')"
      using ins(6) [OF other [OF e']] by (simp add: es events_at_def)
  qed
qed

section \<open>Coherence\<close>

definition entry_ok :: "Db \<Rightarrow> string \<Rightarrow> Status \<Rightarrow> bool" where
  "entry_ok db ck w \<longleftrightarrow> (\<exists>k p. paging_ok p \<and> ck = generateCacheKey k p \<and> read_endpoint_status db k p = Some w)"

definition coherent :: "'c sql_cache_ops \<Rightarrow> 'c Sql_Store \<Rightarrow> bool" where
  "coherent co s \<longleftrightarrow> (\<forall>c ck w. sq_cache s = Some c \<longrightarrow> sc_Get co c ck = Some w \<longrightarrow> entry_ok (sq_db s) ck w)"

definition forgets :: "'c sql_cache_ops \<Rightarrow> 'c \<Rightarrow> 'c \<Rightarrow> bool" where
  "forgets co c c' \<longleftrightarrow> (\<forall>ck w. sc_Get co c' ck = Some w \<longrightarrow> sc_Get co c ck = Some w)"

lemma entry_ok_generate:
  "paging_ok p \<Longrightarrow> entry_ok db (generateCacheKey k p) w \<longleftrightarrow> read_endpoint_status db k p = Some w"
  unfolding entry_ok_def by (metis extract_generate option.inject prod.inject)

text \<open>A status that was not found in the cache is read and put there.\<close>

definition reading :: "(sql_error + Status) \<Rightarrow> Status option" where
  "reading x = (case x of Inl err \<Rightarrow> None | Inr st \<Rightarrow> Some st)"

context write_through_cache
begin

lemma read_coherent:
  assumes "coherent co s" and "paging_ok p"
  shows "reading (fst (getEndpointStatusByKey co s k p)) = read_endpoint_status (sq_db s) k p"
    and "coherent co (snd (getEndpointStatusByKey co s k p))"
proof -
  have hit: "read_endpoint_status (sq_db s) k p = Some w"
    if "sq_cache s = Some c" "sc_Get co c (generateCacheKey k p) = Some w" for c w
    using assms(1) that unfolding coherent_def entry_ok_generate [OF assms(2), symmetric] by blast
  show "reading (fst (getEndpointStatusByKey co s k p)) = read_endpoint_status (sq_db s) k p"
  proof (cases "sq_cache s")
    case (Some c)
    show ?thesis
    proof (cases "sc_Get co c (generateCacheKey k p)")
      case (Some w)
      then show ?thesis using hit [OF \<open>sq_cache s = Some c\<close> Some] \<open>sq_cache s = Some c\<close>
        by (simp add: getEndpointStatusByKey_def reading_def)
    qed (simp add: getEndpointStatusByKey_def reading_def Some split: option.splits)
  qed (simp add: getEndpointStatusByKey_def reading_def split: option.splits)
  show "coherent co (snd (getEndpointStatusByKey co s k p))"
    using assms(1) entry_ok_generate [OF assms(2)]
    by (auto simp: getEndpointStatusByKey_def coherent_def Let_def dest!: Get_Set split: option.splits if_splits)
qed

text \<open>The refresh of the keys that are left: the others are current.\<close>

definition refreshing :: "'c Sql_Store \<Rightarrow> string list \<Rightarrow> bool" where
  "refreshing s cks \<longleftrightarrow> (\<exists>c. sq_cache s = Some c \<and>
     (\<forall>ck w. sc_Get co c ck = Some w \<longrightarrow> entry_ok (sq_db s) ck w \<or> ck \<in> set cks)) \<and>
     (\<forall>ck \<in> set cks. \<exists>k p. paging_ok p \<and> ck = generateCacheKey k p)"

lemma refresh_key_step:
  assumes "refreshing s (ck # cks)"
  shows "refreshing (refresh_key co s ck) cks"
proof -
  from assms obtain c where c: "sq_cache s = Some c"
    and ok: "\<And>ck' w. sc_Get co c ck' = Some w \<Longrightarrow> entry_ok (sq_db s) ck' w \<or> ck' \<in> set (ck # cks)"
    unfolding refreshing_def by blast
  have all: "\<forall>x \<in> set (ck # cks). \<exists>k p. paging_ok p \<and> x = generateCacheKey k p"
    using assms unfolding refreshing_def by (rule conjunct2)
  then have rest: "\<forall>x \<in> set cks. \<exists>k p. paging_ok p \<and> x = generateCacheKey k p" by simp
  from all obtain k p where p: "paging_ok p" and ck: "ck = generateCacheKey k p" by auto
  define d where "d = sc_Delete co c ck"
  have dd: "sc_Get co d ck' = Some w \<Longrightarrow> ck' \<noteq> ck \<and> (entry_ok (sq_db s) ck' w \<or> ck' \<in> set cks)" for ck' w
    using Get_Delete [of c ck ck' w] ok [of ck' w] unfolding d_def by auto
  then have none: "sc_Get co d ck = None" by (cases "sc_Get co d ck") auto
  have eq: "refresh_key co s ck = snd (getEndpointStatusByKey co (s\<lparr>sq_cache := Some d\<rparr>) k p)"
    by (simp add: refresh_key_def c ck extract_generate [OF p] d_def)
  show ?thesis
  proof (cases "read_endpoint_status (sq_db s) k p")
    case None
    then have "refresh_key co s ck = s\<lparr>sq_cache := Some d\<rparr>"
      by (simp add: eq getEndpointStatusByKey_def none flip: ck)
    then show ?thesis unfolding refreshing_def using dd rest by simp
  next
    case (Some st)
    then have upd: "refresh_key co s ck = s\<lparr>sq_cache := Some (sc_Set co d ck st)\<rparr>"
      by (simp add: eq getEndpointStatusByKey_def none flip: ck)
    have "entry_ok (sq_db s) ck st" unfolding ck using Some by (simp add: entry_ok_generate [OF p])
    then have "entry_ok (sq_db s) ck' w \<or> ck' \<in> set cks" if "sc_Get co (sc_Set co d ck st) ck' = Some w" for ck' w
      using Get_Set [OF that] dd [of ck' w] by (cases "ck' = ck") simp_all
    then show ?thesis unfolding refreshing_def upd using rest by simp
  qed
qed

lemma refresh_keys: "refreshing s cks \<Longrightarrow> coherent co (foldl (refresh_key co) s cks)"
proof (induction cks arbitrary: s)
  case Nil
  then show ?case by (auto simp: refreshing_def coherent_def)
next
  case (Cons ck cks)
  then show ?case using refresh_key_step by simp
qed

lemma refresh_coherent:
  assumes "coherent co s" and "no_meta k"
    and "\<And>k' p. k' \<noteq> k \<Longrightarrow> read_endpoint_status db' k' p = read_endpoint_status (sq_db s) k' p"
  shows "coherent co (refresh_cache co (s\<lparr>sq_db := db'\<rparr>) k)"
proof (cases "sq_cache s")
  case None
  then show ?thesis by (simp add: refresh_cache_def coherent_def)
next
  case (Some c)
  let ?cks = "sc_GetKeysByPattern co c (k @ ''*'')"
  have entry: "\<exists>k p. paging_ok p \<and> ck = generateCacheKey k p \<and> read_endpoint_status (sq_db s) k p = Some w"
    if "sc_Get co c ck = Some w" for ck w
    using assms(1) Some that by (auto simp: coherent_def entry_ok_def)
  have "entry_ok db' ck w \<or> ck \<in> set ?cks" if w: "sc_Get co c ck = Some w" for ck w
  proof -
    obtain k' p where e: "paging_ok p" "ck = generateCacheKey k' p" "read_endpoint_status (sq_db s) k' p = Some w"
      using entry [OF w] by blast
    show ?thesis
    proof (cases "k' = k")
      case True
      obtain rest where ck: "ck = k @ rest" "separator \<notin> set rest"
        using generateCacheKey_suffix [OF e(1)] e(2) True by metis
      then show ?thesis using Keys [OF assms(2) ck(2), of c] w by simp
    next
      case False
      then show ?thesis using assms(3) e by (auto simp: entry_ok_generate)
    qed
  qed
  moreover have "\<exists>k p. paging_ok p \<and> ck = generateCacheKey k p" if "ck \<in> set ?cks" for ck
    using Keys_sound [OF that] entry by blast
  ultimately have "refreshing (s\<lparr>sq_db := db'\<rparr>) ?cks" using Some by (simp add: refreshing_def)
  then show ?thesis using refresh_keys Some by (simp add: refresh_cache_def)
qed

lemma insert_coherent:
  assumes "coherent co s" and "db_ok (sq_db s)" and "0 \<le> sq_maximumNumberOfResults s" and "no_meta (Endpoint_Key ep)"
  shows "coherent co (snd (Sql_InsertEndpointResult co L now s ep r))"
proof (cases "get_or_insert_endpoint (sq_db s) ep")
  case (Some y)
  then obtain i db1 where g: "get_or_insert_endpoint (sq_db s) ep = Some (i, db1)" by (cases y) simp
  show ?thesis unfolding Sql_InsertEndpointResult_eq [OF g]
    by (rule refresh_coherent [OF assms(1,4)]) (rule insert_reads_other [OF assms(2) g assms(3)])
qed (simp add: Sql_InsertEndpointResult_def assms(1))

end

end
