(* ===== verification/Sql_Alerts.thy ===== *)
theory Sql_Alerts
  imports Sql_Cache
begin

text \<open>
  The rest of what the storage in a database keeps: its tables stay consistent under every operation
  on endpoints and alerts; a triggered alert is found as it was last written, which is the
  interface the start-up relies on; and what is read through the cache is what the tables have.
\<close>

section \<open>Alerts in the tables\<close>

definition alert_row_of :: "Db \<Rightarrow> int \<Rightarrow> string \<Rightarrow> alert_row option" where
  "alert_row_of db i c = find (\<lambda>r. ar_endpoint r = i \<and> ar_checksum r = c) (db_alerts db)"

lemma find_map: "find P (map f xs) = map_option f (find (\<lambda>x. P (f x)) xs)"
  by (induction xs) auto

lemma find_SomeD: "find P xs = Some x \<Longrightarrow> P x"
  by (induction xs) (auto split: if_splits)

lemma find_cong_on: "(\<And>x. x \<in> set xs \<Longrightarrow> P x \<longleftrightarrow> Q x) \<Longrightarrow> find P xs = find Q xs"
  by (induction xs) auto

lemma find_filter_same: "(\<And>x. P x \<Longrightarrow> Q x) \<Longrightarrow> find P (filter Q xs) = find P xs"
  by (induction xs) auto

lemma find_filter_none: "(\<And>x. P x \<Longrightarrow> \<not> Q x) \<Longrightarrow> find P (filter Q xs) = None"
  by (induction xs) auto

lemma upsert_alert_frame: "\<exists>A. upsert_alert db i c rk n = db\<lparr>db_alerts := A\<rparr>"
  by (auto simp: upsert_alert_def)

lemma upsert_alert_effect:
  assumes "db_ok db" and "i \<in> er_id ` set (db_endpoints db)"
  shows "db_ok (upsert_alert db i c rk n)"
    and "map_option (\<lambda>r. (ar_resolve_key r, ar_successes r)) (alert_row_of (upsert_alert db i c rk n) j c') =
      (if j = i \<and> c' = c then Some (rk, n)
       else map_option (\<lambda>r. (ar_resolve_key r, ar_successes r)) (alert_row_of db j c'))"
proof -
  let ?P = "\<lambda>r. ar_endpoint r = i \<and> ar_checksum r = c"
  define f where "f r = (if ?P r then r\<lparr>ar_resolve_key := rk, ar_successes := n\<rparr> else r)" for r :: alert_row
  define new where "new = \<lparr>ar_id = fresh_id (map ar_id (db_alerts db)), ar_endpoint = i, ar_checksum = c,
    ar_resolve_key = rk, ar_successes = n\<rparr>"
  have up: "upsert_alert db i c rk n = (if list_ex ?P (db_alerts db) then db\<lparr>db_alerts := map f (db_alerts db)\<rparr>
      else db\<lparr>db_alerts := db_alerts db @ [new]\<rparr>)"
    by (simp add: upsert_alert_def f_def new_def)
  have f: "ar_endpoint (f r) = ar_endpoint r" "ar_checksum (f r) = ar_checksum r" for r by (simp_all add: f_def)
  have "distinct (map (\<lambda>a. (ar_endpoint a, ar_checksum a)) (db_alerts db))" using assms(1) by (simp add: db_ok_def)
  moreover have "(i, c) \<notin> (\<lambda>a. (ar_endpoint a, ar_checksum a)) ` set (db_alerts db)" if "\<not> list_ex ?P (db_alerts db)"
    using that by (auto simp: list_ex_iff)
  ultimately show "db_ok (upsert_alert db i c rk n)"
    using assms by (auto simp: up db_ok_def f comp_def new_def)
  show "map_option (\<lambda>r. (ar_resolve_key r, ar_successes r)) (alert_row_of (upsert_alert db i c rk n) j c') =
      (if j = i \<and> c' = c then Some (rk, n)
       else map_option (\<lambda>r. (ar_resolve_key r, ar_successes r)) (alert_row_of db j c'))"
  proof (cases "list_ex ?P (db_alerts db)")
    case True
    let ?Q = "\<lambda>r. ar_endpoint r = j \<and> ar_checksum r = c'"
    have row: "alert_row_of (upsert_alert db i c rk n) j c' = map_option f (find ?Q (db_alerts db))"
      using True by (simp add: up alert_row_of_def find_map f)
    show ?thesis
    proof (cases "find ?Q (db_alerts db)")
      case None
      then have "\<not> (j = i \<and> c' = c)" using True by (auto simp: find_None_iff list_ex_iff)
      then show ?thesis using None unfolding row by (simp add: alert_row_of_def)
    next
      case (Some r)
      then have "?Q r" by (rule find_SomeD)
      then show ?thesis using Some unfolding row by (auto simp: alert_row_of_def f_def)
    qed
  next
    case False
    then have none: "find ?P (db_alerts db) = None" by (auto simp: find_None_iff list_ex_iff)
    then show ?thesis using False
      by (auto simp: up alert_row_of_def find_append new_def split: option.splits)
  qed
qed

lemma delete_alerts_effect:
  assumes "db_ok (sq_db s)"
  shows "db_ok (sq_db (delete_alerts P s ep))"
    and "\<exists>A. delete_alerts P s ep = s\<lparr>sq_db := (sq_db s)\<lparr>db_alerts := A\<rparr>\<rparr>"
    and "endpoint_of (sq_db s) k = Some e \<Longrightarrow> (\<And>r. ar_checksum r = c \<Longrightarrow> P r = b) \<Longrightarrow>
      alert_row_of (sq_db (delete_alerts P s ep)) (er_id e) c =
        (if k = Endpoint_Key ep \<and> b then None else alert_row_of (sq_db s) (er_id e) c)"
proof -
  let ?db = "sq_db s"
  consider (none) "endpoint_of ?db (Endpoint_Key ep) = None" "delete_alerts P s ep = s"
    | (some) e' where "endpoint_of ?db (Endpoint_Key ep) = Some e'"
      "delete_alerts P s ep = s\<lparr>sq_db := ?db\<lparr>db_alerts :=
         filter (\<lambda>r. \<not> (ar_endpoint r = er_id e' \<and> P r)) (db_alerts ?db)\<rparr>\<rparr>"
    by (cases "endpoint_of ?db (Endpoint_Key ep)") (auto simp: delete_alerts_def getEndpointID_of)
  then have "db_ok (sq_db (delete_alerts P s ep)) \<and> (\<exists>A. delete_alerts P s ep = s\<lparr>sq_db := ?db\<lparr>db_alerts := A\<rparr>\<rparr>) \<and>
    (endpoint_of ?db k = Some e \<longrightarrow> (\<forall>r. ar_checksum r = c \<longrightarrow> P r = b) \<longrightarrow>
      alert_row_of (sq_db (delete_alerts P s ep)) (er_id e) c =
        (if k = Endpoint_Key ep \<and> b then None else alert_row_of ?db (er_id e) c))"
  proof cases
    case none
    then show ?thesis using assms by (auto intro: exI [of _ "db_alerts ?db"])
  next
    case some
    have "db_ok (sq_db (delete_alerts P s ep))"
      using assms by (auto simp: some(2) db_ok_def distinct_map_filter)
    moreover have "alert_row_of (sq_db (delete_alerts P s ep)) (er_id e) c =
        (if k = Endpoint_Key ep \<and> b then None else alert_row_of ?db (er_id e) c)"
      if k: "endpoint_of ?db k = Some e" and b: "\<forall>r. ar_checksum r = c \<longrightarrow> P r = b"
    proof (cases "k = Endpoint_Key ep")
      case True
      then have "e = e'" using k some(1) by simp
      then show ?thesis using b True
        by (cases b) (auto simp: some(2) alert_row_of_def intro!: find_filter_none find_filter_same)
    next
      case False
      then have "er_id e \<noteq> er_id e'" using endpoint_of_inj [OF assms k some(1)] by blast
      then show ?thesis using False by (auto simp: some(2) alert_row_of_def intro!: find_filter_same)
    qed
    ultimately show ?thesis using some(2) by blast
  qed
  then show "db_ok (sq_db (delete_alerts P s ep))"
    "\<exists>A. delete_alerts P s ep = s\<lparr>sq_db := ?db\<lparr>db_alerts := A\<rparr>\<rparr>"
    "endpoint_of (sq_db s) k = Some e \<Longrightarrow> (\<And>r. ar_checksum r = c \<Longrightarrow> P r = b) \<Longrightarrow>
      alert_row_of (sq_db (delete_alerts P s ep)) (er_id e) c =
        (if k = Endpoint_Key ep \<and> b then None else alert_row_of (sq_db s) (er_id e) c)" by blast+
qed

section \<open>The interface for triggered alerts\<close>

definition stored_alert :: "'c Sql_Store \<Rightarrow> string \<Rightarrow> string \<Rightarrow> (string \<times> int) option" where
  "stored_alert s k c =
     (case endpoint_of (sq_db s) k of
        None \<Rightarrow> None
      | Some e \<Rightarrow> map_option (\<lambda>r. (ar_resolve_key r, ar_successes r)) (alert_row_of (sq_db s) (er_id e) c))"

lemma Upsert_known:
  assumes "known (sq_db s) (Endpoint_Key ep)"
  shows "\<exists>e. endpoint_of (sq_db s) (Endpoint_Key ep) = Some e \<and>
    snd (Sql_UpsertTriggeredEndpointAlert sha s ep a) =
      s\<lparr>sq_db := upsert_alert (sq_db s) (er_id e) (Checksum sha a) (al_ResolveKey a) (e_NumberOfSuccessesInARow ep)\<rparr>"
  using assms
  by (auto simp: known_def Sql_UpsertTriggeredEndpointAlert_def get_or_insert_endpoint_def getEndpointID_of)


lemma Sql_GetTriggered_stored:
  "Sql_GetTriggeredEndpointAlert sha s ep a =
     (case stored_alert s (Endpoint_Key ep) (Checksum sha a) of None \<Rightarrow> (False, [], 0) | Some (rk, n) \<Rightarrow> (True, rk, n))"
  by (simp add: Sql_GetTriggeredEndpointAlert_def stored_alert_def getEndpointID_of alert_row_of_def split: option.splits)

lemma stored_alert_upsert:
  assumes "db_ok (sq_db s)" and "known (sq_db s) (Endpoint_Key ep)"
    and "s' = snd (Sql_UpsertTriggeredEndpointAlert sha s ep a)"
  shows "db_ok (sq_db s')" and "known (sq_db s') k \<longleftrightarrow> known (sq_db s) k"
    and "stored_alert s' k c = (if k = Endpoint_Key ep \<and> c = Checksum sha a
      then Some (al_ResolveKey a, e_NumberOfSuccessesInARow ep) else stored_alert s k c)"
proof -
  obtain e where e: "endpoint_of (sq_db s) (Endpoint_Key ep) = Some e"
    and s': "s' = s\<lparr>sq_db := upsert_alert (sq_db s) (er_id e) (Checksum sha a) (al_ResolveKey a) (e_NumberOfSuccessesInARow ep)\<rparr>"
    using Upsert_known [OF assms(2), of sha a] assms(3) by blast
  have i: "er_id e \<in> er_id ` set (db_endpoints (sq_db s))" using e by (simp add: endpoint_of_iff [OF assms(1)])
  note up = upsert_alert_effect [OF assms(1) i]
  obtain A where A: "sq_db s' = (sq_db s)\<lparr>db_alerts := A\<rparr>" using upsert_alert_frame by (fastforce simp: s')
  show "db_ok (sq_db s')" using up(1) by (simp add: s')
  have of: "endpoint_of (sq_db s') k = endpoint_of (sq_db s) k" for k by (simp add: A)
  show "known (sq_db s') k \<longleftrightarrow> known (sq_db s) k" by (simp add: known_def of)
  show "stored_alert s' k c = (if k = Endpoint_Key ep \<and> c = Checksum sha a
      then Some (al_ResolveKey a, e_NumberOfSuccessesInARow ep) else stored_alert s k c)"
  proof (cases "endpoint_of (sq_db s) k")
    case None
    then show ?thesis using e by (auto simp: stored_alert_def of)
  next
    case (Some e')
    have "er_id e' = er_id e \<longleftrightarrow> k = Endpoint_Key ep"
      using endpoint_of_inj [OF assms(1) Some e] Some e by auto
    then show ?thesis
      using up(2) [of "Checksum sha a" "al_ResolveKey a" "e_NumberOfSuccessesInARow ep" "er_id e'" c] Some
      unfolding stored_alert_def of by (cases "k = Endpoint_Key ep \<and> c = Checksum sha a") (auto simp: s')
  qed
qed

lemma stored_alert_delete:
  assumes "db_ok (sq_db s)" and "\<And>r. ar_checksum r = c \<Longrightarrow> P r = b"
  shows "stored_alert (delete_alerts P s ep) k c = (if k = Endpoint_Key ep \<and> b then None else stored_alert s k c)"
    and "known (sq_db (delete_alerts P s ep)) k \<longleftrightarrow> known (sq_db s) k"
proof -
  obtain A where A: "delete_alerts P s ep = s\<lparr>sq_db := (sq_db s)\<lparr>db_alerts := A\<rparr>\<rparr>"
    using delete_alerts_effect(2) [OF assms(1)] by blast
  then have of: "endpoint_of (sq_db (delete_alerts P s ep)) k = endpoint_of (sq_db s) k" by simp
  then show "known (sq_db (delete_alerts P s ep)) k \<longleftrightarrow> known (sq_db s) k" by (simp add: known_def)
  show "stored_alert (delete_alerts P s ep) k c = (if k = Endpoint_Key ep \<and> b then None else stored_alert s k c)"
    using delete_alerts_effect(3) [OF assms(1) _ assms(2), of k] of
    by (cases "endpoint_of (sq_db s) k") (simp_all add: stored_alert_def)
qed

lemma delete_others_eq:
  "snd (Sql_DeleteAllTriggeredAlertsNotInChecksumsByEndpoint s ep cs) = delete_alerts (\<lambda>r. ar_checksum r \<notin> set cs) s ep"
  by (simp add: Sql_DeleteAllTriggeredAlertsNotInChecksumsByEndpoint_def delete_alerts_def split: option.splits)

lemma known_upsert:
  assumes "db_ok (sq_db s)" and "known (sq_db s) k"
  shows "known (sq_db (snd (Sql_UpsertTriggeredEndpointAlert sha s ep a))) k"
proof (cases "get_or_insert_endpoint (sq_db s) ep")
  case (Some y)
  then obtain i db1 where g: "get_or_insert_endpoint (sq_db s) ep = Some (i, db1)" by (cases y) simp
  note e = get_or_insert_endpoint_effect [OF assms(1) g]
  have "endpoint_of db1 k = endpoint_of (sq_db s) k"
    using e(4,6) assms(2) by (cases "k = Endpoint_Key ep") (auto simp: known_def)
  moreover obtain A where "upsert_alert db1 i (Checksum sha a) (al_ResolveKey a) (e_NumberOfSuccessesInARow ep) =
      db1\<lparr>db_alerts := A\<rparr>" using upsert_alert_frame by blast
  ultimately show ?thesis using assms(2) by (simp add: Sql_UpsertTriggeredEndpointAlert_def g known_def)
qed (simp add: Sql_UpsertTriggeredEndpointAlert_def assms(2))

lemma sql_store_ok_alerts:
  "sql_store_ok s \<Longrightarrow> s' = s\<lparr>sq_db := (sq_db s)\<lparr>db_alerts := A\<rparr>\<rparr> \<Longrightarrow> db_ok (sq_db s') \<Longrightarrow> sql_store_ok s'"
  by (simp add: sql_store_ok_def keys_ok_def)

interpretation sql_alerts: alert_persistence "sql_iface co sha L" "Checksum sha" stored_alert
  "\<lambda>s. known (sq_db s)" sql_store_ok for co :: "'c sql_cache_ops" and sha and L
proof unfold_locales
  fix s :: "'c Sql_Store" and ep a k c cs
  assume inv: "sql_store_ok s"
  then have ok: "db_ok (sq_db s)" by (simp add: sql_store_ok_def)
  note others = stored_alert_delete [OF ok, where P = "\<lambda>r. ar_checksum r \<notin> set cs" and b = "c \<notin> set cs" and c = c]
  note this_one = stored_alert_delete [OF ok, where P = "\<lambda>r. ar_checksum r = Checksum sha a" and b = "c = Checksum sha a" and c = c]
  show "so_GetTriggeredEndpointAlert (sql_iface co sha L) s ep a =
      Inr (case stored_alert s (Endpoint_Key ep) (Checksum sha a) of
             None \<Rightarrow> (False, [], 0) | Some (rk, n) \<Rightarrow> (True, rk, n))"
    by (simp add: sql_iface_def Sql_GetTriggered_stored)
  show "stored_alert (so_DeleteTriggeredEndpointAlert (sql_iface co sha L) s ep a) k c =
      (if k = Endpoint_Key ep \<and> c = Checksum sha a then None else stored_alert s k c)"
    using this_one(1) [of ep k] by (simp add: sql_iface_def Sql_DeleteTriggeredEndpointAlert_def)
  show "stored_alert (so_DeleteAllTriggeredAlertsNotInChecksumsByEndpoint (sql_iface co sha L) s ep cs) k c =
      (if k = Endpoint_Key ep \<and> c \<notin> set cs then None else stored_alert s k c)"
    using others(1) [of ep k]
    by (simp add: sql_iface_def delete_others_eq)
  have del: "sql_store_ok (delete_alerts P s ep)" for P
    using delete_alerts_effect(1,2) [OF ok, of P ep] sql_store_ok_alerts [OF inv] by metis
  show "sql_store_ok (so_DeleteTriggeredEndpointAlert (sql_iface co sha L) s ep a)"
    using del by (simp add: sql_iface_def Sql_DeleteTriggeredEndpointAlert_def)
  show "sql_store_ok (so_DeleteAllTriggeredAlertsNotInChecksumsByEndpoint (sql_iface co sha L) s ep cs)"
    using del by (simp add: sql_iface_def delete_others_eq)
  show "known (sq_db (so_DeleteTriggeredEndpointAlert (sql_iface co sha L) s ep a)) k"
    if "known (sq_db s) k"
    using that this_one(2) [of ep k] by (simp add: sql_iface_def Sql_DeleteTriggeredEndpointAlert_def)
  show "known (sq_db (so_DeleteAllTriggeredAlertsNotInChecksumsByEndpoint (sql_iface co sha L) s ep cs)) k"
    if "known (sq_db s) k"
    using that others(2) [of ep k] by (simp add: sql_iface_def delete_others_eq)
  assume known: "known (sq_db s) (Endpoint_Key ep)"
  note up = stored_alert_upsert [OF ok known refl]
  show "stored_alert (so_UpsertTriggeredEndpointAlert (sql_iface co sha L) s ep a) k c =
      (if k = Endpoint_Key ep \<and> c = Checksum sha a
       then Some (al_ResolveKey a, e_NumberOfSuccessesInARow ep) else stored_alert s k c)"
    by (simp add: sql_iface_def up(3))
  obtain A where A: "snd (Sql_UpsertTriggeredEndpointAlert sha s ep a) = s\<lparr>sq_db := (sq_db s)\<lparr>db_alerts := A\<rparr>\<rparr>"
    using Upsert_known [OF known, of sha a] upsert_alert_frame by metis
  show "sql_store_ok (so_UpsertTriggeredEndpointAlert (sql_iface co sha L) s ep a)"
    using sql_store_ok_alerts [OF inv A up(1)] by (simp add: sql_iface_def)
next
  fix s :: "'c Sql_Store" and ep a k
  assume "sql_store_ok s" and known: "known (sq_db s) k"
  then have ok: "db_ok (sq_db s)" by (simp add: sql_store_ok_def)
  show "known (sq_db (so_UpsertTriggeredEndpointAlert (sql_iface co sha L) s ep a)) k"
    using known_upsert [OF ok known] by (simp add: sql_iface_def)
qed

end
