(* ===== verification/Sql_Runs.thy ===== *)
theory Sql_Runs
  imports Sql_Alerts
begin

text \<open>
  Runs of the storage in a database: the tables stay consistent and the cache current, whatever
  operations on endpoints and alerts are done in any order. The properties of the storage that need
  no other part of the program stand here.
\<close>

section \<open>Deletions\<close>

lemma kept_ids:
  "x \<in> f ` set xs \<Longrightarrow> x \<notin> f ` {r \<in> set xs. P r} \<Longrightarrow> x \<in> f ` {r \<in> set xs. \<not> P r}"
  by auto

lemma delete_endpoints_ok:
  assumes "db_ok db"
  shows "db_ok (delete_endpoints P db)"
proof -
  have o: "ordered er_id (db_endpoints db)" "ordered ev_id (db_events db)" "ordered rr_id (db_results db)"
    and d: "distinct (map er_key (db_endpoints db))" "distinct (map (\<lambda>a. (ar_endpoint a, ar_checksum a)) (db_alerts db))"
    and refs: "\<And>r. r \<in> set (db_results db) \<Longrightarrow> rr_endpoint r \<in> er_id ` set (db_endpoints db)"
      "\<And>r. r \<in> set (db_events db) \<Longrightarrow> ev_endpoint r \<in> er_id ` set (db_endpoints db)"
      "\<And>r. r \<in> set (db_uptimes db) \<Longrightarrow> up_endpoint r \<in> er_id ` set (db_endpoints db)"
      "\<And>r. r \<in> set (db_alerts db) \<Longrightarrow> ar_endpoint r \<in> er_id ` set (db_endpoints db)"
      "\<And>c. c \<in> set (db_conditions db) \<Longrightarrow> co_result c \<in> rr_id ` set (db_results db)"
    using assms by (simp_all add: db_ok_def)
  show ?thesis
    unfolding db_ok_def delete_endpoints_def delete_results_def Let_def
    by (simp add: o d ordered_filter distinct_map_filter) (intro conjI allI impI kept_ids; simp add: refs)
qed

section \<open>Runs\<close>

text \<open>
  What may happen to a store: the operations on endpoints and alerts, and the cache forgetting
  entries, because they expire or there is no room for them. The characters that are special in a pattern
  do not occur in keys, and a page is asked for with natural numbers.
\<close>

inductive sql_run ::
  "'c sql_cache_ops \<Rightarrow> (string \<Rightarrow> string) \<Rightarrow> location \<Rightarrow> 'c Sql_Store \<Rightarrow> 'c Sql_Store \<Rightarrow> bool"
  for co sha L s0 where
  start: "sql_run co sha L s0 s0"
| insert: "sql_run co sha L s0 s \<Longrightarrow> no_meta (Endpoint_Key ep) \<Longrightarrow>
    sql_run co sha L s0 (snd (Sql_InsertEndpointResult co L now s ep r))"
| read: "sql_run co sha L s0 s \<Longrightarrow> paging_ok p \<Longrightarrow>
    sql_run co sha L s0 (snd (Sql_GetEndpointStatusByKey co s k p))"
| read_all: "sql_run co sha L s0 s \<Longrightarrow> paging_ok p \<Longrightarrow>
    sql_run co sha L s0 (snd (Sql_GetAllEndpointStatuses co s p))"
| delete: "sql_run co sha L s0 s \<Longrightarrow> sql_run co sha L s0 (snd (Sql_DeleteAllEndpointStatusesNotInKeys co s ks))"
| clear: "sql_run co sha L s0 s \<Longrightarrow> sql_run co sha L s0 (Sql_Clear co s)"
| upsert: "sql_run co sha L s0 s \<Longrightarrow> sql_run co sha L s0 (snd (Sql_UpsertTriggeredEndpointAlert sha s ep a))"
| delete_alert: "sql_run co sha L s0 s \<Longrightarrow> sql_run co sha L s0 (Sql_DeleteTriggeredEndpointAlert sha s ep a)"
| delete_alerts: "sql_run co sha L s0 s \<Longrightarrow>
    sql_run co sha L s0 (snd (Sql_DeleteAllTriggeredAlertsNotInChecksumsByEndpoint s ep cs))"
| forget: "sql_run co sha L s0 s \<Longrightarrow> sq_cache s = Some c \<Longrightarrow> forgets co c c' \<Longrightarrow>
    sql_run co sha L s0 (s\<lparr>sq_cache := Some c'\<rparr>)"

definition run_inv :: "'c sql_cache_ops \<Rightarrow> 'c Sql_Store \<Rightarrow> bool" where
  "run_inv co s \<longleftrightarrow> db_ok (sq_db s) \<and> 0 \<le> sq_maximumNumberOfResults s \<and> coherent co s"

lemma coherent_more_rows:
  assumes "coherent co s" and "sq_cache s' = sq_cache s"
    and "\<And>k p. endpoint_of (sq_db s) k \<noteq> None \<Longrightarrow> read_endpoint_status (sq_db s') k p = read_endpoint_status (sq_db s) k p"
  shows "coherent co s'"
  unfolding coherent_def
proof (intro allI impI)
  fix c ck w assume "sq_cache s' = Some c" "sc_Get co c ck = Some w"
  then obtain k p where e: "paging_ok p" "ck = generateCacheKey k p" "read_endpoint_status (sq_db s) k p = Some w"
    using assms(1,2) unfolding coherent_def entry_ok_def by metis
  then have "endpoint_of (sq_db s) k \<noteq> None" using read_unknown [of "sq_db s" k p] by auto
  from assms(3) [OF this, of p] e show "entry_ok (sq_db s') ck w" unfolding entry_ok_def by metis
qed

lemma reads_alerts [simp]: "read_endpoint_status (db\<lparr>db_alerts := A\<rparr>) k p = read_endpoint_status db k p"
  by (simp add: read_endpoint_status_def getEndpointIDGroupAndNameByKey_def getNumberOfResultsByEndpointID_def
      getEndpointEventsByEndpointID_def getEndpointResultsByEndpointID_def Let_def split: option.splits)

lemma upsert_run_inv:
  assumes "run_inv co s"
  shows "run_inv co (snd (Sql_UpsertTriggeredEndpointAlert sha s ep a))"
proof (cases "get_or_insert_endpoint (sq_db s) ep")
  case (Some y)
  then obtain i db1 where g: "get_or_insert_endpoint (sq_db s) ep = Some (i, db1)" by (cases y) simp
  have ok: "db_ok (sq_db s)" using assms by (simp add: run_inv_def)
  note e = get_or_insert_endpoint_effect [OF ok g]
  let ?up = "upsert_alert db1 i (Checksum sha a) (al_ResolveKey a) (e_NumberOfSuccessesInARow ep)"
  have s': "snd (Sql_UpsertTriggeredEndpointAlert sha s ep a) = s\<lparr>sq_db := ?up\<rparr>"
    by (simp add: Sql_UpsertTriggeredEndpointAlert_def g)
  have "i \<in> er_id ` set (db_endpoints db1)" using e(3) by (auto simp: endpoint_of_iff [OF e(1)])
  then have ok': "db_ok ?up" by (rule upsert_alert_effect(1) [OF e(1)])
  obtain A where A: "?up = db1\<lparr>db_alerts := A\<rparr>" using upsert_alert_frame by blast
  have reads: "read_endpoint_status ?up k p = read_endpoint_status (sq_db s) k p"
    if k: "endpoint_of (sq_db s) k \<noteq> None" for k p
  proof -
    have "endpoint_of db1 k = endpoint_of (sq_db s) k" using e(4,6) k by (cases "k = Endpoint_Key ep") auto
    moreover obtain es where "db1 = (sq_db s)\<lparr>db_endpoints := db_endpoints (sq_db s) @ es\<rparr>" using e(2) by blast
    ultimately have "read_endpoint_status db1 k p = read_endpoint_status (sq_db s) k p"
      by (intro read_endpoint_status_cong [OF ok e(1)]) (simp_all add: events_at_def)
    then show ?thesis by (simp add: A)
  qed
  have co: "coherent co s" using assms by (simp add: run_inv_def)
  have "coherent co (s\<lparr>sq_db := ?up\<rparr>)" by (rule coherent_more_rows [OF co]) (simp_all add: reads)
  then show ?thesis using assms ok' by (simp add: s' run_inv_def)
qed (simp add: Sql_UpsertTriggeredEndpointAlert_def assms)

lemma delete_alerts_run_inv:
  assumes "run_inv co s"
  shows "run_inv co (delete_alerts P s ep)"
proof -
  have ok: "db_ok (sq_db s)" using assms by (simp add: run_inv_def)
  obtain A where A: "delete_alerts P s ep = s\<lparr>sq_db := (sq_db s)\<lparr>db_alerts := A\<rparr>\<rparr>"
    using delete_alerts_effect(2) [OF ok] by blast
  have co: "coherent co s" using assms by (simp add: run_inv_def)
  have "coherent co (delete_alerts P s ep)" unfolding A by (rule coherent_more_rows [OF co]) simp_all
  then show ?thesis using assms delete_alerts_effect(1) [OF ok, of P ep] by (simp add: A run_inv_def)
qed

context write_through_cache
begin

lemma clear_coherent: "coherent co (clear_cache co s)"
  by (auto simp: clear_cache_def coherent_def Get_Clear)

lemma forget_coherent:
  "coherent co s \<Longrightarrow> sq_cache s = Some c \<Longrightarrow> forgets co c c' \<Longrightarrow> coherent co (s\<lparr>sq_cache := Some c'\<rparr>)"
  by (auto simp: coherent_def forgets_def)

lemma getEndpointStatus_frame:
  "sq_db (snd (getEndpointStatusByKey co s k p)) = sq_db s \<and>
   sq_maximumNumberOfResults (snd (getEndpointStatusByKey co s k p)) = sq_maximumNumberOfResults s"
  by (simp add: getEndpointStatusByKey_def Let_def split: option.splits)

lemma read_run_inv: "run_inv co s \<Longrightarrow> paging_ok p \<Longrightarrow> run_inv co (snd (getEndpointStatusByKey co s k p))"
  using read_coherent(2) [of s p k] getEndpointStatus_frame [of s k p] by (simp add: run_inv_def)

lemma collect_run_inv: "run_inv co s \<Longrightarrow> paging_ok p \<Longrightarrow> run_inv co (snd (collect_statuses co s p ks))"
proof (induction ks arbitrary: s)
  case (Cons k ks)
  obtain x s' where g: "getEndpointStatusByKey co s k p = (x, s')" by fastforce
  then have "run_inv co s'" using read_run_inv [OF Cons.prems, of k] by simp
  then have "run_inv co (snd (collect_statuses co s' p ks))" using Cons by blast
  then show ?case by (cases x; cases "collect_statuses co s' p ks") (simp_all add: g)
qed simp

lemma insert_run_inv:
  assumes "run_inv co s" and "no_meta (Endpoint_Key ep)"
  shows "run_inv co (snd (Sql_InsertEndpointResult co L now s ep r))"
proof (cases "get_or_insert_endpoint (sq_db s) ep")
  case (Some y)
  then obtain i db1 where g: "get_or_insert_endpoint (sq_db s) ep = Some (i, db1)" by (cases y) simp
  have ok: "db_ok (sq_db s)" "0 \<le> sq_maximumNumberOfResults s" "coherent co s" using assms by (simp_all add: run_inv_def)
  show ?thesis
    using Sql_InsertEndpointResult_effect(1) [OF ok(1) g ok(2) refl, of co L now r]
      insert_coherent [OF ok(3,1,2) assms(2)] ok(2)
    by (simp add: run_inv_def Sql_InsertEndpointResult_eq [OF g])
qed (simp add: Sql_InsertEndpointResult_def assms(1))

lemma run_run_inv: "sql_run co sha L s0 s \<Longrightarrow> run_inv co s0 \<Longrightarrow> run_inv co s"
proof (induction rule: sql_run.induct)
  case (delete s ks)
  then show ?case using clear_coherent delete_endpoints_ok
    by (simp add: Sql_DeleteAllEndpointStatusesNotInKeys_def Let_def run_inv_def) (simp add: clear_cache_def)
next
  case (clear s)
  then show ?case using clear_coherent delete_endpoints_ok
    by (simp add: Sql_Clear_def run_inv_def) (simp add: clear_cache_def)
next
  case (forget s c c')
  then show ?case using forget_coherent by (simp add: run_inv_def)
qed (simp_all add: insert_run_inv read_run_inv collect_run_inv upsert_run_inv delete_alerts_run_inv
    Sql_GetEndpointStatusByKey_def Sql_GetAllEndpointStatuses_def Sql_DeleteTriggeredEndpointAlert_def delete_others_eq)

end

section \<open>What the database remembers of a result\<close>

text \<open>An occurrence of the separator cannot begin in a text that does not contain it, even when the text is
  followed by a part of it.\<close>

lemma Cut_separator:
  "sep \<noteq> [] \<Longrightarrow> \<not> Contains (p @ butlast sep) sep \<Longrightarrow> Cut sep (p @ sep @ rest) = Some (p, rest)"
proof (induction p)
  case Nil
  then show ?case by (cases sep) (simp_all add: prefix_def)
next
  case (Cons c p)
  have "\<not> prefix sep (c # p @ sep @ rest)"
  proof
    assume pre: "prefix sep (c # p @ sep @ rest)"
    have "c # p @ sep @ rest = (c # p @ butlast sep) @ last sep # rest" using Cons.prems(1) by simp
    moreover have "length sep \<le> length (c # p @ butlast sep)" using Cons.prems(1) by simp
    ultimately have "prefix sep (c # p @ butlast sep)" using pre by (metis prefix_length_prefix prefixI)
    then show False using Cons.prems(2) by (auto simp: Contains_def intro: prefix_imp_sublist)
  qed
  moreover have "\<not> Contains (p @ butlast sep) sep" using Cons.prems(2) by (auto simp: Contains_def sublist_Cons_right)
  ultimately show ?case using Cons by simp
qed

lemma Split_Join:
  "ps \<noteq> [] \<Longrightarrow> sep \<noteq> [] \<Longrightarrow> (\<And>p. p \<in> set ps \<Longrightarrow> \<not> Contains (p @ butlast sep) sep) \<Longrightarrow> Split (Join ps sep) sep = ps"
proof (induction ps)
  case (Cons p ps)
  have p: "\<not> Contains (p @ butlast sep) sep" using Cons.prems(3) by simp
  show ?case
  proof (cases ps)
    case Nil
    have "\<not> Contains p sep" using p unfolding Contains_def by (meson sublist_append_leftI sublist_append_rightI sublist_order.order_trans)
    then show ?thesis using Nil Cons.prems(2) by (simp add: Split_none)
  next
    case (Cons q qs)
    then have "Split (Join (p # ps) sep) sep = p # Split (Join ps sep) sep"
      using Cut_separator [OF Cons.prems(2) p, of "Join ps sep"] Cons.prems(2)
      by (simp add: Split.simps [of "p @ sep @ Join (q # qs) sep"])
    then show ?thesis using Cons.IH Cons.prems Cons by simp
  qed
qed simp

definition clean_error :: "string \<Rightarrow> bool" where
  "clean_error e \<longleftrightarrow> e \<noteq> [] \<and> \<not> Contains (e @ ''|~'') arraySeparator"

lemma persisted_clean:
  assumes "\<forall>e \<in> set (r_Errors r). clean_error e"
  shows "persisted r = r\<lparr>r_Body := [], r_port := [], r_Name := []\<rparr>"
proof -
  have "split_errors (Join (r_Errors r) arraySeparator) = r_Errors r"
  proof (cases "r_Errors r")
    case (Cons e es)
    then have "Join (r_Errors r) arraySeparator \<noteq> []" using assms by (cases es) (auto simp: clean_error_def)
    moreover have "Split (Join (r_Errors r) arraySeparator) arraySeparator = r_Errors r"
      using assms Cons by (intro Split_Join) (auto simp: clean_error_def arraySeparator_def)
    ultimately show ?thesis by (simp add: split_errors_def)
  qed (simp add: split_errors_def)
  then show ?thesis by (simp add: persisted_def empty_Result_def)
qed

section \<open>Runs of a new store\<close>

lemma new_run_inv: "Sql_NewStore [] driver path caching (int m) e = Inr s0 \<Longrightarrow> run_inv list_sql_cache s0"
  using Sql_NewStore_ok(1,5) [of "[]" driver path caching m e s0]
  by (auto simp: run_inv_def sql_store_ok_def coherent_def list_sql_cache_def split: if_splits)

lemma sql_run_maximum: "sql_run co sha L s0 s \<Longrightarrow> sq_maximumNumberOfResults s = sq_maximumNumberOfResults s0"
proof (induction rule: sql_run.induct)
  case (read_all s p)
  have "sq_maximumNumberOfResults (snd (collect_statuses co s p ks)) = sq_maximumNumberOfResults s" for ks
  proof (induction ks arbitrary: s)
    case (Cons k ks)
    obtain x s' where g: "getEndpointStatusByKey co s k p = (x, s')" by fastforce
    then have "sq_maximumNumberOfResults s' = sq_maximumNumberOfResults s"
      by (auto simp: getEndpointStatusByKey_def Let_def split: option.splits)
    then show ?case using Cons [of s'] by (cases x; cases "collect_statuses co s' p ks") (simp_all add: g)
  qed simp
  then show ?case using read_all by (simp add: Sql_GetAllEndpointStatuses_def)
qed (auto simp: Sql_InsertEndpointResult_def Sql_GetEndpointStatusByKey_def getEndpointStatusByKey_def Let_def
    Sql_DeleteAllEndpointStatusesNotInKeys_def Sql_Clear_def clear_cache_def Sql_UpsertTriggeredEndpointAlert_def
    Sql_DeleteTriggeredEndpointAlert_def delete_others_eq delete_alerts_def split: option.splits prod.splits)

lemma last_of_appended: "0 < m \<Longrightarrow> block (last_n m (xs @ [x])) (Suc 0) (Suc 0) = [x]"
  by (auto simp: block_def last_n_def)

section \<open>Properties\<close>

text \<open>
  C6. Whatever results were inserted into a new store, a page of the results of a key that
  lies within the limit is the same in the database without a cache as in memory, up to what the
  database does not remember of a result; a key that is unknown to one is unknown to the other.
  This holds of endpoints without a key of their own.
\<close>

theorem stores_agree:
  assumes "Sql_NewStore c driver path False (int m) e = Inr s" and "without_override xs"
    and "1 \<le> p" and "0 < w" and "p * w \<le> m" and "int m \<le> max_int64"
    and "params = WithResults NewEndpointStatusParams (int p) (int w)"
  shows "map_outcome (map_sum (\<lambda>err. ErrNotFound err) (\<lambda>st. map persisted (st_Results st)))
      (GetEndpointStatusByKey list_cache (insert_results (new_store m e') list_cache xs) k (Some params)) =
    Return (map_sum (\<lambda>err. err) st_Results
      (fst (Sql_GetEndpointStatusByKey co (sql_insert_results co L s xs) k params)))"
proof -
  let ?mem = "insert_results (new_store m e') list_cache xs" and ?sql = "sql_insert_results co L s xs"
  note new = Sql_NewStore_ok [OF assms(1)]
  have ok: "sql_store_ok ?sql" and max: "sq_maximumNumberOfResults ?sql = int m"
    using sql_insert_results_frame [OF new(1) assms(2) refl] new(2) by simp_all
  have cache: "sq_cache ?sql = None" using no_cache_insert new(5) by simp
  have known: "known (sq_db ?sql) k \<longleftrightarrow> c_Get list_cache (endpointCache ?mem) k \<noteq> None"
    using known_insert_results [OF new(1) assms(2), of co L k] new(4) [of k]
    unfolding mem.insert_results_known inserted_for_None by simp
  show ?thesis
  proof (cases "c_Get list_cache (endpointCache ?mem) k")
    case None
    then have "endpoint_of (sq_db ?sql) k = None" using known by (simp add: known_def)
    then show ?thesis using None
      by (simp add: GetEndpointStatusByKey_def Sql_GetEndpointStatusByKey_def getEndpointStatusByKey_def cache
          read_endpoint_status_def getEndpointIDGroupAndNameByKey_of)
  next
    case (Some st)
    then obtain e1 where e1: "endpoint_of (sq_db ?sql) k = Some e1" using known by (auto simp: known_def)
    have st: "st_Results st = stored_results list_cache ?mem k" using Some by (simp add: stored_results_def)
    then have len: "int (length (st_Results st)) \<le> max_int64"
      using assms(6) by (simp add: insert_results_stored last_n_def)
    have "int (p * w) \<le> max_int64" using assms(5,6) by linarith
    from memory_page [OF Some assms(3) this len] obtain st' where
      mem': "GetEndpointStatusByKey list_cache ?mem k (Some params) = Return (Inr st')"
        "st_Results st' = block (st_Results st) p w" by (auto simp: assms(7))
    have "db_ok (sq_db ?sql)" using ok by (simp add: sql_store_ok_def)
    from read_results [OF this e1 assms(3,4,5), of params] obtain status where
      sql': "read_endpoint_status (sq_db ?sql) k params = Some status"
        "st_Results status = block (last_n m (sql_results (sq_db ?sql) k)) p w"
      by (auto simp: assms(7) WithResults_def)
    have "last_n m (sql_results (sq_db ?sql) k) = map persisted (st_Results st)"
      using sql_memory_results [OF assms(1,2), of co L k e'] by (simp add: last_sql_results_def max st)
    then show ?thesis using mem' sql'
      by (simp add: Sql_GetEndpointStatusByKey_def getEndpointStatusByKey_def cache block_map)
  qed
qed

definition sql_endpoint :: "string \<Rightarrow> Endpoint" where
  "sql_endpoint name = empty_Endpoint\<lparr>e_Name := name, e_Group := ''core''\<rparr>"

definition sql_result :: "int \<Rightarrow> bool \<Rightarrow> Result" where
  "sql_result t ok = empty_Result\<lparr>r_Success := ok, r_Timestamp := t * hour, r_Errors := (if ok then [] else [''timeout''])\<rparr>"

definition sql_insertions :: "insertion list" where
  "sql_insertions =
     [((sql_endpoint ''front'', 1 * hour), sql_result 1 True), ((sql_endpoint ''back'', 2 * hour), sql_result 2 True),
      ((sql_endpoint ''front'', 3 * hour), sql_result 3 False), ((sql_endpoint ''front'', 4 * hour), sql_result 4 True)]"

theorem stores_agree_witness:
  "\<exists>s. Sql_NewStore [] ''sqlite'' ''data.db'' False (int 2) 5 = Inr s \<and>
    map_outcome (map_sum (\<lambda>err. ErrNotFound err) (\<lambda>st. map persisted (st_Results st)))
      (GetEndpointStatusByKey list_cache (insert_results (new_store 2 5) list_cache sql_insertions) ''core_front''
        (Some (WithResults NewEndpointStatusParams (int 1) (int 2)))) =
    Return (map_sum (\<lambda>err. err) st_Results
      (fst (Sql_GetEndpointStatusByKey list_sql_cache
        (sql_insert_results list_sql_cache UTC s sql_insertions) ''core_front''
        (WithResults NewEndpointStatusParams (int 1) (int 2)))))"
proof -
  obtain s :: "(string \<times> Status) list Sql_Store"
    where s: "Sql_NewStore [] ''sqlite'' ''data.db'' False (int 2) 5 = Inr s" by (simp add: Sql_NewStore_def)
  have "without_override sql_insertions" by (simp add: sql_insertions_def sql_endpoint_def empty_Endpoint_def)
  then have "map_outcome (map_sum (\<lambda>err. ErrNotFound err) (\<lambda>st. map persisted (st_Results st)))
      (GetEndpointStatusByKey list_cache (insert_results (new_store 2 5) list_cache sql_insertions) ''core_front''
        (Some (WithResults NewEndpointStatusParams (int 1) (int 2)))) =
    Return (map_sum (\<lambda>err. err) st_Results
      (fst (Sql_GetEndpointStatusByKey list_sql_cache
        (sql_insert_results list_sql_cache UTC s sql_insertions) ''core_front''
        (WithResults NewEndpointStatusParams (int 1) (int 2)))))"
    by (intro stores_agree [OF s, where p = 1 and w = 2]) (simp_all add: max_int64_def)
  then show ?thesis using s by blast
qed

text \<open>
  C12. Whatever operations on endpoints and alerts a new store with a cache has gone through, and
  whatever the cache forgot, reading a status through the cache gives what the tables have.
\<close>

theorem cached_reads_are_current:
  assumes "Sql_NewStore [] driver path caching (int m) e = Inr s0"
    and "sql_run list_sql_cache sha L s0 s" and "paging_ok p"
  shows "reading (fst (Sql_GetEndpointStatusByKey list_sql_cache s k p)) = read_endpoint_status (sq_db s) k p"
  using list_sql_cache.run_run_inv [OF assms(2) new_run_inv [OF assms(1)]]
  unfolding Sql_GetEndpointStatusByKey_def run_inv_def
  by (intro list_sql_cache.read_coherent(1) assms(3)) blast

definition sql_start :: "(string \<times> Status) list Sql_Store" where
  "sql_start = (case Sql_NewStore [] ''sqlite'' ''data.db'' True 2 5 of Inr s \<Rightarrow> s)"

definition insert_front :: "int \<Rightarrow> bool \<Rightarrow> (string \<times> Status) list Sql_Store \<Rightarrow> (string \<times> Status) list Sql_Store" where
  "insert_front t ok s =
     snd (Sql_InsertEndpointResult list_sql_cache UTC (t * hour) s (sql_endpoint ''front'') (sql_result t ok))"

definition front_page :: EndpointStatusParams where
  "front_page = WithResults NewEndpointStatusParams 1 2"

definition read_front :: "(string \<times> Status) list Sql_Store \<Rightarrow> (string \<times> Status) list Sql_Store" where
  "read_front s = snd (Sql_GetEndpointStatusByKey list_sql_cache s ''core_front'' front_page)"

lemma sql_start_eq: "Sql_NewStore [] ''sqlite'' ''data.db'' True (int 2) 5 = Inr sql_start"
  by (simp add: sql_start_def Sql_NewStore_def)

lemma front_facts: "paging_ok front_page" "no_meta (Endpoint_Key (sql_endpoint ''front''))"
  by code_simp+

lemma front_run:
  "sql_run list_sql_cache sha UTC sql_start (insert_front 2 False (read_front (insert_front 1 True sql_start)))"
  unfolding insert_front_def read_front_def
  by (intro sql_run.intros front_facts)

theorem cached_reads_are_current_witness:
  "let s = insert_front 2 False (read_front (insert_front 1 True sql_start))
   in (\<exists>c. sq_cache s = Some c \<and> c \<noteq> []) \<and>
     reading (fst (Sql_GetEndpointStatusByKey list_sql_cache s ''core_front'' front_page)) =
       read_endpoint_status (sq_db s) ''core_front'' front_page"
proof -
  let ?s = "insert_front 2 False (read_front (insert_front 1 True sql_start))"
  have "(case sq_cache ?s of None \<Rightarrow> True | Some c \<Rightarrow> c = []) = False" by code_simp
  then have "\<exists>c. sq_cache ?s = Some c \<and> c \<noteq> []" by (cases "sq_cache ?s") simp_all
  then show ?thesis using cached_reads_are_current [OF sql_start_eq front_run front_facts(1)] by (simp add: Let_def)
qed

text \<open>
  C27. A result of an endpoint whose insertion is reported to succeed is the latest result that is
  read back, as it was but for its body, its port and its name, as long as its errors are not empty texts
  and do not contain the separator they are joined with.
\<close>

theorem inserted_result_read_back:
  assumes "Sql_NewStore [] driver path caching (int m) e = Inr s0" and "0 < m"
    and "sql_run list_sql_cache sha L s0 s" and "no_meta (Endpoint_Key ep)"
    and "Sql_InsertEndpointResult list_sql_cache L now s ep r = (None, s')"
    and "\<forall>x \<in> set (r_Errors r). clean_error x"
  shows "\<exists>status. reading (fst (Sql_GetEndpointStatusByKey list_sql_cache s' (Endpoint_Key ep)
      (WithResults NewEndpointStatusParams 1 1))) = Some status \<and>
    st_Results status = [r\<lparr>r_Body := [], r_port := [], r_Name := []\<rparr>]"
proof -
  have inv: "run_inv list_sql_cache s" by (rule list_sql_cache.run_run_inv [OF assms(3) new_run_inv [OF assms(1)]])
  then have ok: "db_ok (sq_db s)" "0 \<le> sq_maximumNumberOfResults s" by (simp_all add: run_inv_def)
  have max: "sq_maximumNumberOfResults s = int m"
    using sql_run_maximum [OF assms(3)] Sql_NewStore_ok(2) [OF assms(1)] by simp
  have s': "s' = snd (Sql_InsertEndpointResult list_sql_cache L now s ep r)" by (simp add: assms(5))
  obtain i db1 where g: "get_or_insert_endpoint (sq_db s) ep = Some (i, db1)"
    using assms(5) by (auto simp: Sql_InsertEndpointResult_def split: option.splits)
  note eff = Sql_InsertEndpointResult_effect [OF ok(1) g ok(2) s']
  have inv': "run_inv list_sql_cache s'" unfolding s' by (rule list_sql_cache.insert_run_inv [OF inv assms(4)])
  let ?p = "WithResults NewEndpointStatusParams 1 1"
  have "paging_ok ?p" by (simp add: paging_ok_def WithResults_def NewEndpointStatusParams_def max_int64_def)
  then have read: "reading (fst (Sql_GetEndpointStatusByKey list_sql_cache s' (Endpoint_Key ep) ?p)) =
      read_endpoint_status (sq_db s') (Endpoint_Key ep) ?p"
    unfolding Sql_GetEndpointStatusByKey_def
    by (rule list_sql_cache.read_coherent(1) [rotated]) (use inv' in \<open>simp add: run_inv_def\<close>)
  obtain e1 where "endpoint_of (sq_db s') (Endpoint_Key ep) = Some e1"
    using get_or_insert_endpoint_effect(3) [OF ok(1) g] eff(4) by (auto simp: endpoint_of_def)
  from read_results [OF eff(1) this, of 1 1 m ?p] obtain status where
    st: "read_endpoint_status (sq_db s') (Endpoint_Key ep) ?p = Some status"
      "st_Results status = block (last_n m (sql_results (sq_db s') (Endpoint_Key ep))) 1 1"
    using assms(2) by (auto simp: WithResults_def)
  have "st_Results status = [persisted r]"
    unfolding st(2) eff(2) Let_def max by (simp add: last_of_appended [OF assms(2)])
  then show ?thesis using read st(1) persisted_clean [OF assms(6)] by simp
qed

theorem inserted_result_read_back_witness:
  "let s = insert_front 1 True sql_start
   in \<exists>s' status. Sql_InsertEndpointResult list_sql_cache UTC (2 * hour) s (sql_endpoint ''front'') (sql_result 2 False) =
        (None, s') \<and>
      reading (fst (Sql_GetEndpointStatusByKey list_sql_cache s' ''core_front'' (WithResults NewEndpointStatusParams 1 1))) =
        Some status \<and>
      st_Results status = [sql_result 2 False]"
proof -
  let ?s = "insert_front 1 True sql_start"
  have run: "sql_run list_sql_cache sha UTC sql_start ?s" for sha
    unfolding insert_front_def by (intro sql_run.intros front_facts)
  have "fst (Sql_InsertEndpointResult list_sql_cache UTC (2 * hour) ?s (sql_endpoint ''front'') (sql_result 2 False)) = None"
    by code_simp
  then obtain s' where s': "Sql_InsertEndpointResult list_sql_cache UTC (2 * hour) ?s (sql_endpoint ''front'')
      (sql_result 2 False) = (None, s')" by (metis prod.collapse)
  have "\<forall>x \<in> set (r_Errors (sql_result 2 False)). clean_error x" by code_simp
  then obtain status where
    "reading (fst (Sql_GetEndpointStatusByKey list_sql_cache s' (Endpoint_Key (sql_endpoint ''front''))
        (WithResults NewEndpointStatusParams 1 1))) = Some status"
    "st_Results status = [(sql_result 2 False)\<lparr>r_Body := [], r_port := [], r_Name := []\<rparr>]"
    using inserted_result_read_back [OF sql_start_eq _ run front_facts(2) s'] by auto
  moreover have "Endpoint_Key (sql_endpoint ''front'') = ''core_front''" by code_simp
  moreover have "(sql_result 2 False)\<lparr>r_Body := [], r_port := [], r_Name := []\<rparr> = sql_result 2 False"
    by (simp add: sql_result_def empty_Result_def)
  ultimately show ?thesis using s' by (simp add: Let_def)
qed

section \<open>Suites and the cache\<close>

text \<open>
  The result of a suite does not reach the cache: what was read of one of its endpoints is read
  again after the suite has run once more, although the tables have a new result.
\<close>

definition suite_of_front :: Suite where
  "suite_of_front = example_suite\<lparr>s_Name := ''checkout'', s_Group := ''core''\<rparr>"

definition suite_result_of_front :: "int \<Rightarrow> Suite_Result" where
  "suite_result_of_front t =
     \<lparr>sr_Name = ''checkout'', sr_Group = ''core'', sr_Success = True, sr_Timestamp = t * hour, sr_Duration = 0,
      sr_EndpointResults = [(sql_result t True)\<lparr>r_Name := ''front''\<rparr>], sr_Context = [], sr_Errors = []\<rparr>"

definition run_suite_of_front :: "int \<Rightarrow> (string \<times> Status) list Sql_Store \<Rightarrow> (string \<times> Status) list Sql_Store" where
  "run_suite_of_front t s = snd (Sql_InsertSuiteResult s suite_of_front (suite_result_of_front t))"

lemma suite_result_leaves_cache_stale:
  "let s = run_suite_of_front 2 (read_front (run_suite_of_front 1 sql_start))
   in map_option (length \<circ> st_Results) (reading (fst (Sql_GetEndpointStatusByKey list_sql_cache s ''core_front'' front_page))) = Some 1 \<and>
      map_option (length \<circ> st_Results) (read_endpoint_status (sq_db s) ''core_front'' front_page) = Some 2"
  by code_simp

end
