(* ===== verification/Store_Selection.thy ===== *)
theory Store_Selection
  imports Sql_Runs
begin

text \<open>
  \<open>storage/store/store.go\<close>: the choice of the storage. What is on the disk is a function from paths
  to the tables found there; opening a database creates the tables that are missing and leaves the
  others alone. The storage in memory always starts empty.
\<close>

datatype ('e, 's, 'c) opened_store = Opened_Memory "('e, 's) Store" | Opened_Sql "'c Sql_Store"

definition default_storage_config :: Storage_Config where
  "default_storage_config =
     \<lparr>sto_Path = [], sto_Type = [], sto_Caching = False,
      sto_MaximumNumberOfResults = DefaultMaximumNumberOfResults,
      sto_MaximumNumberOfEvents = DefaultMaximumNumberOfEvents\<rparr>"

text \<open>A database opened where tables may be already.\<close>

definition open_tables :: "Db option \<Rightarrow> 'c Sql_Store \<Rightarrow> 'c Sql_Store" where
  "open_tables found s = (case found of None \<Rightarrow> s | Some db \<Rightarrow> s\<lparr>sq_db := db\<rparr>)"

definition Initialize ::
  "'e endpoint_cache \<Rightarrow> 's suite_cache \<Rightarrow> 'c \<Rightarrow> (string \<Rightarrow> Db option) \<Rightarrow> Storage_Config option \<Rightarrow>
   sql_open_error + ('e, 's, 'c) opened_store" where
  "Initialize ec sc empty_cache disk cfg0 =
     (let cfg = (case cfg0 of None \<Rightarrow> default_storage_config | Some c \<Rightarrow> c)
      in if sto_Type cfg = TypeSQLite \<or> sto_Type cfg = TypePostgres then
           map_sum (\<lambda>err. err) (\<lambda>s. Opened_Sql (open_tables (disk (sto_Path cfg)) s))
             (Sql_NewStore empty_cache (sto_Type cfg) (sto_Path cfg) (sto_Caching cfg)
               (sto_MaximumNumberOfResults cfg) (sto_MaximumNumberOfEvents cfg))
         else
           Inr (Opened_Memory (NewStore ec sc (nat (sto_MaximumNumberOfResults cfg))
                                              (nat (sto_MaximumNumberOfEvents cfg)))))"

text \<open>Closing a database leaves its tables on the disk, and the cache empty.\<close>

definition Sql_Close :: "'c sql_cache_ops \<Rightarrow> 'c Sql_Store \<Rightarrow> 'c Sql_Store" where
  "Sql_Close co s = clear_cache co s"

section \<open>Facts\<close>

lemma Initialize_validated:
  assumes "Storage_ValidateAndSetDefaults c = (None, c')"
  shows "isl (Initialize ec sc empty_cache disk (Some c')) = False"
  using assms
  by (auto simp: Initialize_def Sql_NewStore_def Let_def Storage_ValidateAndSetDefaults_def TypeSQLite_def
      TypePostgres_def TypeMemory_def split: if_splits)

end
