(* ===== verification/Lifecycle.thy ===== *)
theory Lifecycle
  imports Store_Selection Monitor
begin

text \<open>
  \<open>main.go\<close>: the start of the program, which removes from the storage what is no longer configured
  and takes over the triggered alerts of the last run, and the loop that loads the configuration again
  when its file has changed. Logging and signals are left out.

  The locale \<open>persistent_store\<close> says what the start-up relies on; over it, a run of the watchdog and
  a start-up bring every alert back to where it was.
\<close>

section \<open>Taking over triggered alerts\<close>

text \<open>The alerts of an endpoint are looked up in order; each that is found decides the counters.\<close>

definition enabled_checksums :: "(Alert \<Rightarrow> string) \<Rightarrow> Alert list \<Rightarrow> string list" where
  "enabled_checksums checksum as = map checksum (filter IsEnabled as)"

definition take_over_alert ::
  "'s store_iface \<Rightarrow> 's \<Rightarrow> nat \<Rightarrow> Endpoint \<Rightarrow> Endpoint" where
  "take_over_alert iface s i ep =
     (let a = e_Alerts ep ! i in
      case so_GetTriggeredEndpointAlert iface s ep a of
        Inl err \<Rightarrow> ep
      | Inr (exists, resolveKey, numberOfSuccessesInARow) \<Rightarrow>
          if exists then
            (set_alert ep i (a\<lparr>al_Triggered := True, al_ResolveKey := resolveKey\<rparr>))
              \<lparr>e_NumberOfSuccessesInARow := numberOfSuccessesInARow,
               e_NumberOfFailuresInARow := al_FailureThreshold a\<rparr>
          else ep)"

definition restore_endpoint ::
  "'s store_iface \<Rightarrow> (Alert \<Rightarrow> string) \<Rightarrow> Endpoint \<Rightarrow> 's \<Rightarrow> Endpoint \<times> 's" where
  "restore_endpoint iface checksum ep s =
     (let s = so_DeleteAllTriggeredAlertsNotInChecksumsByEndpoint iface s ep
                (enabled_checksums checksum (e_Alerts ep))
      in (foldl (\<lambda>ep i. take_over_alert iface s i ep) ep [0..<length (e_Alerts ep)], s))"

text \<open>
  An external endpoint is looked up as the endpoint it is converted to, which shares its alerts; the
  counters are its own.
\<close>

definition restore_external ::
  "'s store_iface \<Rightarrow> (Alert \<Rightarrow> string) \<Rightarrow> ExternalEndpoint \<Rightarrow> 's \<Rightarrow> ExternalEndpoint \<times> 's" where
  "restore_external iface checksum ee s =
     (case restore_endpoint iface checksum (ToEndpoint ee) s of
        (ep, s') \<Rightarrow> (ee\<lparr>ee_Alerts := e_Alerts ep,
                       ee_NumberOfSuccessesInARow := e_NumberOfSuccessesInARow ep,
                       ee_NumberOfFailuresInARow := e_NumberOfFailuresInARow ep\<rparr>, s'))"

fun restore_all :: "('a \<Rightarrow> 's \<Rightarrow> 'a \<times> 's) \<Rightarrow> 'a list \<Rightarrow> 's \<Rightarrow> 'a list \<times> 's" where
  "restore_all f [] s = ([], s)"
| "restore_all f (x # xs) s =
     (case f x s of (x', s') \<Rightarrow> (case restore_all f xs s' of (xs', s'') \<Rightarrow> (x' # xs', s'')))"

definition restore_suite ::
  "'s store_iface \<Rightarrow> (Alert \<Rightarrow> string) \<Rightarrow> Suite \<Rightarrow> 's \<Rightarrow> Suite \<times> 's" where
  "restore_suite iface checksum su s =
     (case restore_all (restore_endpoint iface checksum) (s_Endpoints su) s of
        (eps, s') \<Rightarrow> (su\<lparr>s_Endpoints := eps\<rparr>, s'))"

text \<open>The keys whose statuses are preserved.\<close>

definition preserved_keys :: "Config \<Rightarrow> string list" where
  "preserved_keys cfg =
     map Endpoint_Key (c_Endpoints cfg) @ map External_Key (c_ExternalEndpoints cfg) @
     concat (map (\<lambda>su. map Endpoint_Key (s_Endpoints su)) (c_Suites cfg))"

definition remove_unconfigured :: "'s store_iface \<Rightarrow> Config \<Rightarrow> 's \<Rightarrow> 's" where
  "remove_unconfigured iface cfg s =
     so_DeleteAllEndpointStatusesNotInKeys iface
       (so_DeleteAllSuiteStatusesNotInKeys iface s (map Suite_Key (c_Suites cfg))) (preserved_keys cfg)"

definition initializeStorage ::
  "'s store_iface \<Rightarrow> (Alert \<Rightarrow> string) \<Rightarrow> Config \<Rightarrow> 's \<Rightarrow> Config \<times> 's" where
  "initializeStorage iface checksum cfg s0 =
     (let s = remove_unconfigured iface cfg s0;
          (eps, s) = restore_all (restore_endpoint iface checksum) (c_Endpoints cfg) s;
          (ees, s) = restore_all (restore_external iface checksum) (c_ExternalEndpoints cfg) s;
          (sus, s) = restore_all (restore_suite iface checksum) (c_Suites cfg) s
      in (cfg\<lparr>c_Endpoints := eps, c_ExternalEndpoints := ees, c_Suites := sus\<rparr>, s))"

section \<open>The program\<close>

definition GatusConfigPathEnvVar :: string where "GatusConfigPathEnvVar = ''GATUS_CONFIG_PATH''"
definition GatusConfigFileEnvVar :: string where "GatusConfigFileEnvVar = ''GATUS_CONFIG_FILE''"

definition loadConfiguration ::
  "(string \<Rightarrow> string) \<Rightarrow> config_env \<Rightarrow> file_system \<Rightarrow> (config_error + Config) outcome" where
  "loadConfiguration getenv env fs =
     (let configPath = getenv GatusConfigPathEnvVar
      in LoadConfiguration env fs (if configPath = [] then getenv GatusConfigFileEnvVar else configPath))"

text \<open>
  What runs: the goroutines of the watchdog, the server and the collection of metrics; and the
  configuration and the store they use.
\<close>

record 's program =
  pr_config :: Config
  pr_store :: 's
  pr_monitor :: "monitor_state option"
  pr_serving :: bool
  pr_metrics :: bool

definition start_program :: "Config \<Rightarrow> 's \<Rightarrow> 's program" where
  "start_program cfg s =
     \<lparr>pr_config = cfg, pr_store = s, pr_monitor = Some (Monitor cfg), pr_serving = True, pr_metrics = True\<rparr>"

definition closeTunnels :: "Config \<Rightarrow> Config" where
  "closeTunnels cfg = cfg\<lparr>c_Tunneling := map_option Close_Tunneling (c_Tunneling cfg)\<rparr>"

text \<open>The goroutines are told to stop; those that run finish their execution first.\<close>

definition stop_program :: "'s program \<Rightarrow> 's program" where
  "stop_program p =
     p\<lparr>pr_monitor := map_option (\<lambda>st. st\<lparr>mo_cancelled := True\<rparr>) (pr_monitor p), pr_serving := False,
       pr_metrics := False, pr_config := closeTunnels (pr_config p)\<rparr>"

text \<open>
  One round of the loop that watches the file: the program after it, and whether the loop goes on; the
  loop that does not go on is replaced by that of the new start. A store is opened by \<open>reopen\<close>, from
  the new configuration and the store that was closed.
\<close>

definition listenToConfigurationFileChanges ::
  "(string \<Rightarrow> string) \<Rightarrow> config_env \<Rightarrow> file_system \<Rightarrow> instant \<Rightarrow> 's store_iface \<Rightarrow> (Alert \<Rightarrow> string) \<Rightarrow>
   (Config \<Rightarrow> 's \<Rightarrow> string + 's) \<Rightarrow> 's program \<Rightarrow> ('s program \<times> bool) outcome" where
  "listenToConfigurationFileChanges getenv env fs now iface checksum reopen p =
     (if \<not> HasLoadedConfigurationBeenModified fs (pr_config p) then Return (p, True)
      else
        let p = stop_program p in
        case loadConfiguration getenv env fs of
          Panic e \<Rightarrow> Panic e
        | Return (Inl err) \<Rightarrow>
            if c_SkipInvalidConfigUpdate (pr_config p)
            then Return (p\<lparr>pr_config := UpdateLastFileModTime now (pr_config p)\<rparr>, True)
            else Panic ''failed to load configuration''
        | Return (Inr updatedConfig) \<Rightarrow>
            (case reopen updatedConfig (pr_store p) of
               Inl err \<Rightarrow> Panic err
             | Inr s \<Rightarrow>
                 (case initializeStorage iface checksum updatedConfig s of
                    (cfg, s') \<Rightarrow> Return (start_program cfg s', False))))"


text \<open>
  The start of the process, after the delay it may be asked for. Its end, on a signal, is
  \<open>stop_program\<close>.
\<close>

definition main_program ::
  "(string \<Rightarrow> string) \<Rightarrow> config_env \<Rightarrow> file_system \<Rightarrow> 's store_iface \<Rightarrow> (Alert \<Rightarrow> string) \<Rightarrow>
   (Config \<Rightarrow> string + 's) \<Rightarrow> 's program outcome" where
  "main_program getenv env fs iface checksum open_store =
     (case loadConfiguration getenv env fs of
        Panic e \<Rightarrow> Panic e
      | Return (Inl err) \<Rightarrow> Panic ''failed to load configuration''
      | Return (Inr cfg0) \<Rightarrow>
          (case open_store cfg0 of
             Inl err \<Rightarrow> Panic err
           | Inr s \<Rightarrow>
               (case initializeStorage iface checksum cfg0 s of
                  (cfg, s') \<Rightarrow> Return (start_program cfg s'))))"

section \<open>Facts\<close>

text \<open>
  An update of the configuration that is not valid, although it may be skipped, ends the monitoring:
  what runs has been stopped, and nothing is started again.
\<close>

lemma invalid_update_stops_monitoring:
  assumes "HasLoadedConfigurationBeenModified fs (pr_config p)" and "c_SkipInvalidConfigUpdate (pr_config p)"
    and "loadConfiguration getenv env fs = Return (Inl err)" and "pr_monitor p = Some st"
  shows "\<exists>p' st'. listenToConfigurationFileChanges getenv env fs now iface checksum reopen p = Return (p', True) \<and>
    pr_monitor p' = Some st' \<and> mo_cancelled st' \<and> \<not> pr_serving p' \<and> \<not> pr_metrics p'"
  using assms by (simp add: listenToConfigurationFileChanges_def stop_program_def closeTunnels_def Let_def)

end
