(* ===== verification/Restart.thy ===== *)
theory Restart
  imports Lifecycle
begin

text \<open>
  A start-up after a run. The triggered alerts in the store are those of the running program, as far as
  every handling is followed by an update of the store, so the next start-up brings them back.
\<close>

section \<open>The interface\<close>

text \<open>
  What the start-up and the watchdog rely on together: the triggered alerts of the store are
  not disturbed by insertions, and a clean-up removes those of the keys that are not listed.
  \<open>admitted\<close> are the endpoints whose insertion succeeds.
\<close>

locale persistent_store = alert_persistence iface checksum stored_alert known inv
  for iface :: "'s store_iface" and checksum :: "Alert \<Rightarrow> string"
    and stored_alert :: "'s \<Rightarrow> string \<Rightarrow> string \<Rightarrow> (string \<times> int) option"
    and known :: "'s \<Rightarrow> string \<Rightarrow> bool" and inv :: "'s \<Rightarrow> bool" +
  fixes admitted :: "Endpoint \<Rightarrow> bool"
  assumes checksum_config: "same_config a a' \<Longrightarrow> checksum a' = checksum a"
    and insert_alerts: "inv s \<Longrightarrow> admitted ep \<Longrightarrow>
      stored_alert (so_InsertEndpointResult iface s now ep r) k c = stored_alert s k c"
    and inv_insert: "inv s \<Longrightarrow> admitted ep \<Longrightarrow> inv (so_InsertEndpointResult iface s now ep r)"
    and known_insert: "inv s \<Longrightarrow> admitted ep \<Longrightarrow>
      known (so_InsertEndpointResult iface s now ep r) k \<longleftrightarrow> k = Endpoint_Key ep \<or> known s k"
    and delete_statuses: "inv s \<Longrightarrow>
      stored_alert (so_DeleteAllEndpointStatusesNotInKeys iface s ks) k c =
        (if k \<in> set ks then stored_alert s k c else None)"
    and inv_delete_statuses: "inv s \<Longrightarrow> inv (so_DeleteAllEndpointStatusesNotInKeys iface s ks)"
    and delete_suites: "inv s \<Longrightarrow>
      stored_alert (so_DeleteAllSuiteStatusesNotInKeys iface s ks) k c = stored_alert s k c"
    and inv_delete_suites: "inv s \<Longrightarrow> inv (so_DeleteAllSuiteStatusesNotInKeys iface s ks)"
    and admitted_config: "e_KeyOverride ep' = e_KeyOverride ep \<Longrightarrow> admitted ep' \<longleftrightarrow> admitted ep"

text \<open>The alerts of an endpoint that are enabled have checksums of their own.\<close>

definition distinct_checksums :: "(Alert \<Rightarrow> string) \<Rightarrow> Endpoint \<Rightarrow> bool" where
  "distinct_checksums checksum ep \<longleftrightarrow>
     (\<forall>i < length (e_Alerts ep). \<forall>j < length (e_Alerts ep). i \<noteq> j \<longrightarrow>
        IsEnabled (e_Alerts ep ! i) \<longrightarrow> IsEnabled (e_Alerts ep ! j) \<longrightarrow>
        checksum (e_Alerts ep ! i) \<noteq> checksum (e_Alerts ep ! j))"

text \<open>A provider that fails leaves the resolve key of the alert alone.\<close>

definition keeps_key :: "'s alerting_env \<Rightarrow> bool" where
  "keeps_key env \<longleftrightarrow>
     (\<forall>ty p i ep a r b. ae_GetAlertingProvider env ty = Some p \<longrightarrow> fst (p i ep a r b) \<noteq> None \<longrightarrow>
        snd (p i ep a r b) = al_ResolveKey a)"

section \<open>A pass over the alerts\<close>

lemma Endpoint_Key_set_alert [simp]: "Endpoint_Key (set_alert ep i a) = Endpoint_Key ep"
  by (simp add: set_alert_def)

lemma same_but_alerts_override: "same_but_alerts ep ep' \<Longrightarrow> e_KeyOverride ep' = e_KeyOverride ep"
  by (cases ep; cases ep'; simp add: same_but_alerts_def)

lemma set_alert_twice: "set_alert (set_alert ep i a) i a' = set_alert ep i a'"
  by (simp add: set_alert_def)

lemma for_alerts_inv:
  assumes "\<And>i ep s ns ep' s' ns'. i < n \<Longrightarrow> Q ep s \<Longrightarrow> step i (ep, s, ns) = (ep', s', ns') \<Longrightarrow> Q ep' s'"
    and "Q ep s" and "length (e_Alerts ep) = n" and "for_alerts step ep s = (ep', s', ns)"
  shows "Q ep' s'"
proof -
  have "Q (fst st') (fst (snd st'))"
    if "Q (fst st) (fst (snd st))" "\<forall>i \<in> set is. i < n" "foldl (\<lambda>st i. step i st) st is = st'" for st st' "is"
    using that
  proof (induction "is" arbitrary: st)
    case (Cons i "is")
    obtain ep s ns ep' s' ns' where st: "st = (ep, s, ns)" "step i st = (ep', s', ns')" by (metis prod.exhaust)
    then have "Q ep' s'" using assms(1) [of i ep s ns ep' s' ns'] Cons.prems by simp
    then show ?case using Cons.IH [of "step i st"] Cons.prems st by simp
  qed auto
  from this [of "(ep, s, [])" "[0..<n]" "(ep', s', ns)"] assms(2-4) show ?thesis by (simp add: for_alerts_def)
qed

context persistent_store
begin

text \<open>An alert is triggered exactly when the store has it, with its resolve key.\<close>

definition alert_persisted :: "'s \<Rightarrow> string \<Rightarrow> Alert \<Rightarrow> bool" where
  "alert_persisted s k a \<longleftrightarrow>
     (IsEnabled a \<longrightarrow>
       (if al_Triggered a then \<exists>n. stored_alert s k (checksum a) = Some (al_ResolveKey a, n)
        else stored_alert s k (checksum a) = None))"

definition persisted_alerts :: "'s \<Rightarrow> Endpoint \<Rightarrow> bool" where
  "persisted_alerts s ep \<longleftrightarrow> (\<forall>i < length (e_Alerts ep). alert_persisted s (Endpoint_Key ep) (e_Alerts ep ! i))"

text \<open>What a step on an alert keeps.\<close>

definition pass_inv :: "'s \<Rightarrow> Endpoint \<Rightarrow> Endpoint \<Rightarrow> 's \<Rightarrow> bool" where
  "pass_inv s0 ep0 ep s \<longleftrightarrow>
     inv s \<and> known s (Endpoint_Key ep0) \<and> same_but_alerts ep0 ep \<and>
     (\<forall>i < length (e_Alerts ep0). same_config (e_Alerts ep0 ! i) (e_Alerts ep ! i)) \<and> persisted_alerts s ep \<and>
     (\<forall>k c. k \<noteq> Endpoint_Key ep0 \<longrightarrow> stored_alert s k c = stored_alert s0 k c) \<and>
     (\<forall>k. known s0 k \<longrightarrow> known s k)"

lemma pass_inv_alert:
  assumes "pass_inv s0 ep0 ep s" and "i < length (e_Alerts ep0)" and "distinct_checksums checksum ep0"
    and "inv s'" and "\<And>k. known s k \<Longrightarrow> known s' k"
    and "same_but_alerts ep ep'" and "e_Alerts ep' = (e_Alerts ep)[i := a']" and "same_config (e_Alerts ep ! i) a'"
    and "\<And>k c. \<not> (k = Endpoint_Key ep0 \<and> c = checksum a') \<Longrightarrow> stored_alert s' k c = stored_alert s k c"
    and "alert_persisted s' (Endpoint_Key ep0) a'" and "IsEnabled a'"
  shows "pass_inv s0 ep0 ep' s'"
proof -
  note p = assms(1) [unfolded pass_inv_def]
  have len: "length (e_Alerts ep) = length (e_Alerts ep0)" "Endpoint_Key ep = Endpoint_Key ep0"
    using p same_but_alerts_simps [of ep0 ep] by auto
  have conf: "same_config (e_Alerts ep0 ! j) (e_Alerts ep' ! j)" if "j < length (e_Alerts ep0)" for j
    using p that assms(7,8) len by (cases "j = i") (auto simp: same_config_def)
  have "alert_persisted s' (Endpoint_Key ep0) (e_Alerts ep' ! j)" if j: "j < length (e_Alerts ep0)" for j
  proof (cases "j = i")
    case True
    then show ?thesis using assms(2,7,10) len by simp
  next
    case False
    then have same: "e_Alerts ep' ! j = e_Alerts ep ! j" using assms(7) by simp
    have "checksum (e_Alerts ep ! j) \<noteq> checksum a'" if "IsEnabled (e_Alerts ep ! j)"
    proof -
      have "IsEnabled (e_Alerts ep0 ! j)" "IsEnabled (e_Alerts ep0 ! i)"
        using that assms(11) conf [OF j] conf [OF assms(2)] same same_config_simps(2) assms(2,7) len by auto
      then have "checksum (e_Alerts ep0 ! j) \<noteq> checksum (e_Alerts ep0 ! i)"
        using assms(2,3) j False by (simp add: distinct_checksums_def)
      then show ?thesis
        using checksum_config [OF conf [OF j]] checksum_config [OF conf [OF assms(2)]] same assms(2,7) len by simp
    qed
    then show ?thesis
      using p j len assms(9) [of "Endpoint_Key ep0" "checksum (e_Alerts ep ! j)"]
      by (auto simp: persisted_alerts_def alert_persisted_def same)
  qed
  moreover have "same_but_alerts ep0 ep'" using p assms(6) by (blast intro: same_but_alerts_trans)
  ultimately show ?thesis
    using p assms(4,5,9) conf same_but_alerts_simps [of ep0 ep']
    by (auto simp: pass_inv_def persisted_alerts_def)
qed

lemma trigger_pass_inv:
  assumes "pass_inv s0 ep0 ep s" and "i < length (e_Alerts ep0)" and "distinct_checksums checksum ep0"
    and "ae_store env = iface" and "keeps_key env"
    and "trigger_alert env r since i (ep, s, ns) = (ep', s', ns')"
  shows "pass_inv s0 ep0 ep' s'"
proof -
  note p = assms(1) [unfolded pass_inv_def]
  let ?a = "e_Alerts ep ! i"
  have len: "length (e_Alerts ep) = length (e_Alerts ep0)" "Endpoint_Key ep = Endpoint_Key ep0"
    using p same_but_alerts_simps [of ep0 ep] by auto
  have pa: "alert_persisted s (Endpoint_Key ep0) ?a" using p assms(2) len by (auto simp: persisted_alerts_def)
  show ?thesis
  proof (cases "trigger_due env since ep i ?a")
    case False
    then have "ep' = ep \<and> s' = s"
      using assms(6) by (auto simp: trigger_alert_def Let_def trigger_due_def sendInitialAlert_def sendReminder_def
          split: if_splits option.splits)
    then show ?thesis using assms(1) by simp
  next
    case True
    then obtain provider where pr: "ae_GetAlertingProvider env (al_Type ?a) = Some provider" and en: "IsEnabled ?a"
      by (auto simp: trigger_due_def)
    obtain err key where send: "send_trigger env provider i ep ?a r = (err, key)" by fastforce
    have key: "err \<noteq> None \<Longrightarrow> key = al_ResolveKey ?a"
      using assms(5) pr send by (auto simp: keeps_key_def send_trigger_def split: if_splits) (metis fst_conv snd_conv option.distinct(1))
    show ?thesis
    proof (cases err)
      case (Some x)
      then have "ep' = set_alert ep i ?a \<and> s' = s"
        using assms(6) True key by (auto simp: trigger_alert_def Let_def pr send trigger_due_def
            sendInitialAlert_def sendReminder_def split: if_splits)
      then have "ep' = ep \<and> s' = s" by (simp add: set_alert_def)
      then show ?thesis using assms(1) by simp
    next
      case None
      define a' where "a' = (if sendInitialAlert ?a then ?a\<lparr>al_ResolveKey := key, al_Triggered := True\<rparr> else ?a\<lparr>al_ResolveKey := key\<rparr>)"
      let ?ep = "(set_alert ep i a')\<lparr>e_LastReminderSent := ae_sent_at env i\<rparr>"
      have a': "al_Triggered a'" "same_config ?a a'" "IsEnabled a'"
        using en by (auto simp: a'_def sendInitialAlert_def IsEnabled_def)
      have eq: "ep' = ?ep" "s' = so_UpsertTriggeredEndpointAlert iface s ?ep a'"
        using assms(4,6) True None by (auto simp: trigger_alert_def Let_def pr send trigger_due_def a'_def
            sendInitialAlert_def sendReminder_def split: if_splits)
      have kk: "Endpoint_Key ?ep = Endpoint_Key ep0" by (simp add: len(2))
      have s: "inv s" "known s (Endpoint_Key ?ep)" using p kk by auto
      note up = upsert [OF s, of a'] inv_upsert [OF s, of a']
      have kn: "known s' k" if "known s k" for k using known_upsert [OF s(1) that] by (simp add: eq(2))
      show ?thesis
        by (rule pass_inv_alert [OF assms(1-3) up(2) [folded eq(2)] kn, where a' = a'])
          (use up a' in \<open>auto simp: eq len(2) alert_persisted_def\<close>)
    qed
  qed
qed

lemma resolve_pass_inv:
  assumes "pass_inv s0 ep0 ep s" and "i < length (e_Alerts ep0)" and "distinct_checksums checksum ep0"
    and "ae_store env = iface" and "resolve_alert env r i (ep, s, ns) = (ep', s', ns')"
  shows "pass_inv s0 ep0 ep' s'"
proof -
  note p = assms(1) [unfolded pass_inv_def]
  let ?a = "e_Alerts ep ! i"
  have len: "length (e_Alerts ep) = length (e_Alerts ep0)" "Endpoint_Key ep = Endpoint_Key ep0"
    using p same_but_alerts_simps [of ep0 ep] by auto
  have s: "inv s" "known s (Endpoint_Key ep)" using p len(2) by auto
  show ?thesis
  proof (cases "IsEnabled ?a \<and> al_Triggered ?a")
    case False
    then have "ep' = ep \<and> s' = s" using assms(5) by (auto simp: resolve_alert_def Let_def split: if_splits)
    then show ?thesis using assms(1) by simp
  next
    case True
    show ?thesis
    proof (cases "e_NumberOfSuccessesInARow ep < al_SuccessThreshold ?a")
      case below: True
      then have eq: "ep' = ep" "s' = so_UpsertTriggeredEndpointAlert iface s ep ?a"
        using assms(4,5) True by (auto simp: resolve_alert_def Let_def split: if_splits)
      note up = upsert [OF s, of ?a] inv_upsert [OF s, of ?a]
      have kn: "known s' k" if "known s k" for k using known_upsert [OF s(1) that] by (simp add: eq(2))
      show ?thesis
        by (rule pass_inv_alert [OF assms(1-3) up(2) [folded eq(2)] kn, where a' = ?a])
          (use up True in \<open>auto simp: eq len(2) alert_persisted_def\<close>)
    next
      case False
      let ?a1 = "?a\<lparr>al_Triggered := False\<rparr>"
      obtain key where eq: "ep' = set_alert ep i (?a1\<lparr>al_ResolveKey := key\<rparr>)"
        "s' = so_DeleteTriggeredEndpointAlert iface s (set_alert ep i ?a1) ?a1"
      proof (cases "IsSendingOnResolved ?a1 \<and> ae_GetAlertingProvider env (al_Type ?a) \<noteq> None")
        case send: True
        then obtain provider where "ae_GetAlertingProvider env (al_Type ?a) = Some provider" by blast
        then show ?thesis using that assms(4,5) True False send
          by (cases "provider i (set_alert ep i ?a1) ?a1 r True")
            (auto simp: resolve_alert_def Let_def set_alert_twice)
      next
        case nosend: False
        have "?a1\<lparr>al_ResolveKey := al_ResolveKey ?a\<rparr> = ?a1" by simp
        then show ?thesis using that [of "al_ResolveKey ?a"] assms(4,5) True False nosend
          by (auto simp: resolve_alert_def Let_def split: option.splits if_splits)
      qed
      define a' where "a' = ?a1\<lparr>al_ResolveKey := key\<rparr>"
      have a': "\<not> al_Triggered a'" "same_config ?a a'" "IsEnabled a'" "same_config ?a1 a'"
        using True by (auto simp: a'_def IsEnabled_def same_config_def)
      have c: "checksum ?a1 = checksum a'" using checksum_config [OF a'(4)] by simp
      have inv': "inv s'" using inv_delete [OF s(1)] by (simp add: eq(2))
      have kn: "known s' k" if "known s k" for k using known_delete [OF s(1) that] by (simp add: eq(2))
      show ?thesis
        by (rule pass_inv_alert [OF assms(1-3) inv' kn, where a' = a'])
          (use delete [OF s(1)] a' c in \<open>auto simp: eq len(2) alert_persisted_def simp flip: a'_def\<close>)
    qed
  qed
qed

lemma HandleAlerting_persisted:
  assumes "inv s" and "known s (Endpoint_Key ep)" and "persisted_alerts s ep" and "distinct_checksums checksum ep"
    and "ae_store env = iface" and "keeps_key env" and "HandleAlerting env ep r s = (ep', s', ns)"
  shows "inv s'" and "persisted_alerts s' ep'" and "Endpoint_Key ep' = Endpoint_Key ep"
    and "k \<noteq> Endpoint_Key ep \<Longrightarrow> stored_alert s' k c = stored_alert s k c" and "known s k \<Longrightarrow> known s' k"
    and "length (e_Alerts ep') = length (e_Alerts ep)"
    and "i < length (e_Alerts ep) \<Longrightarrow> same_config (e_Alerts ep ! i) (e_Alerts ep' ! i)"
    and "e_KeyOverride ep' = e_KeyOverride ep"
proof -
  have dist: "distinct_checksums checksum (ep\<lparr>e_NumberOfSuccessesInARow := m, e_NumberOfFailuresInARow := n\<rparr>)"
    "distinct_checksums checksum (ep\<lparr>e_NumberOfSuccessesInARow := m\<rparr>)" for m n
    using assms(4) by (simp_all add: distinct_checksums_def)
  have pers: "persisted_alerts s (ep\<lparr>e_NumberOfSuccessesInARow := m, e_NumberOfFailuresInARow := n\<rparr>)"
    "persisted_alerts s (ep\<lparr>e_NumberOfSuccessesInARow := m\<rparr>)" for m n
    using assms(3) by (simp_all add: persisted_alerts_def)
  have start: "pass_inv s e e s" if "persisted_alerts s e" "Endpoint_Key e = Endpoint_Key ep" for e
    using that assms(1,2) by (simp add: pass_inv_def)
  have "(\<exists>e ep1. pass_inv s e ep1 s' \<and> e_Alerts e = e_Alerts ep \<and> Endpoint_Key e = Endpoint_Key ep \<and>
      e_KeyOverride e = e_KeyOverride ep \<and>
      e_Alerts ep' = e_Alerts ep1 \<and> Endpoint_Key ep' = Endpoint_Key ep1 \<and> e_KeyOverride ep' = e_KeyOverride ep1)"
  proof (cases "ae_configured env")
    case False
    then have "ep' = ep \<and> s' = s" using assms(7) by (simp add: HandleAlerting_def)
    then show ?thesis using start [OF assms(3) refl] by (intro exI [of _ ep]) simp
  next
    case True
    show ?thesis
    proof (cases "r_Success r")
      case success: True
      let ?e = "ep\<lparr>e_NumberOfSuccessesInARow := wrap64 (e_NumberOfSuccessesInARow ep + 1)\<rparr>"
      obtain ep1 where f: "for_alerts (resolve_alert env r) ?e s = (ep1, s', ns)"
        and ep': "ep' = ep1\<lparr>e_NumberOfFailuresInARow := 0\<rparr>"
        using assms(7) True success by (auto simp: HandleAlerting_def handleAlertsToResolve_def split: prod.splits)
      have "pass_inv s ?e ep1 s'"
        by (rule for_alerts_inv [where Q = "pass_inv s ?e" and n = "length (e_Alerts ?e)", OF _ _ refl f])
          (auto intro: resolve_pass_inv dist assms(5) pers start)
      then show ?thesis using ep' by (intro exI [of _ ?e] exI [of _ ep1]) simp
    next
      case failure: False
      let ?e = "ep\<lparr>e_NumberOfSuccessesInARow := 0, e_NumberOfFailuresInARow := wrap64 (e_NumberOfFailuresInARow ep + 1)\<rparr>"
      have f: "for_alerts (trigger_alert env r (e_LastReminderSent ep)) ?e s = (ep', s', ns)"
        using assms(7) True failure by (simp add: HandleAlerting_def handleAlertsToTrigger_def Let_def)
      have "pass_inv s ?e ep' s'"
        by (rule for_alerts_inv [where Q = "pass_inv s ?e" and n = "length (e_Alerts ?e)", OF _ _ refl f])
          (auto intro: trigger_pass_inv dist assms(5,6) pers start)
      then show ?thesis by (intro exI [of _ ?e] exI [of _ ep']) simp
    qed
  qed
  then obtain e ep1 where e: "pass_inv s e ep1 s'" "e_Alerts e = e_Alerts ep" "Endpoint_Key e = Endpoint_Key ep"
    "e_KeyOverride e = e_KeyOverride ep" "e_Alerts ep' = e_Alerts ep1" "Endpoint_Key ep' = Endpoint_Key ep1"
    "e_KeyOverride ep' = e_KeyOverride ep1" by blast
  note p = e(1) [unfolded pass_inv_def]
  have l: "length (e_Alerts ep1) = length (e_Alerts e)" "Endpoint_Key ep1 = Endpoint_Key e"
    using p same_but_alerts_simps [of e ep1] by auto
  show "inv s'" using p by blast
  show "persisted_alerts s' ep'" using p e by (simp add: persisted_alerts_def)
  show "Endpoint_Key ep' = Endpoint_Key ep" using e l by simp
  show "k \<noteq> Endpoint_Key ep \<Longrightarrow> stored_alert s' k c = stored_alert s k c" using p e by simp
  show "known s k \<Longrightarrow> known s' k" using p by blast
  show "length (e_Alerts ep') = length (e_Alerts ep)" using e l by simp
  show "i < length (e_Alerts ep) \<Longrightarrow> same_config (e_Alerts ep ! i) (e_Alerts ep' ! i)" using p e by simp
  show "e_KeyOverride ep' = e_KeyOverride ep" using p e same_but_alerts_override by metis
qed

section \<open>A run of the watchdog\<close>

definition run_persisted :: "Config \<Rightarrow> Config \<Rightarrow> 's \<Rightarrow> bool" where
  "run_persisted cfg0 cfg s \<longleftrightarrow>
     inv s \<and> c_Alerting cfg = c_Alerting cfg0 \<and> length (c_Endpoints cfg) = length (c_Endpoints cfg0) \<and>
     (\<forall>j < length (c_Endpoints cfg0).
        let ep0 = c_Endpoints cfg0 ! j; ep = c_Endpoints cfg ! j
        in Endpoint_Key ep = Endpoint_Key ep0 \<and> e_KeyOverride ep = e_KeyOverride ep0 \<and>
           length (e_Alerts ep) = length (e_Alerts ep0) \<and>
           (\<forall>i < length (e_Alerts ep0). same_config (e_Alerts ep0 ! i) (e_Alerts ep ! i)) \<and> persisted_alerts s ep)"

lemma persisted_alerts_cong:
  "(\<And>c. stored_alert s' (Endpoint_Key ep) c = stored_alert s (Endpoint_Key ep) c) \<Longrightarrow>
   persisted_alerts s' ep = persisted_alerts s ep"
  by (simp add: persisted_alerts_def alert_persisted_def)

lemma distinct_checksums_config:
  assumes "distinct_checksums checksum ep0" and "length (e_Alerts ep) = length (e_Alerts ep0)"
    and "\<And>i. i < length (e_Alerts ep0) \<Longrightarrow> same_config (e_Alerts ep0 ! i) (e_Alerts ep ! i)"
  shows "distinct_checksums checksum ep"
  using assms same_config_simps(2) [OF assms(3)] checksum_config [OF assms(3)] by (simp add: distinct_checksums_def)

lemma distinct_nth_neq: "distinct (map f xs) \<Longrightarrow> i < length xs \<Longrightarrow> j < length xs \<Longrightarrow> i \<noteq> j \<Longrightarrow> f (xs ! i) \<noteq> f (xs ! j)"
  by (metis length_map nth_eq_iff_index_eq nth_map)

lemma execute_persisted:
  assumes "run_persisted cfg0 cfg s" and "distinct (map Endpoint_Key (c_Endpoints cfg0))"
    and "\<And>ep. ep \<in> set (c_Endpoints cfg0) \<Longrightarrow> admitted ep \<and> distinct_checksums checksum ep"
    and "k < length (c_Endpoints cfg)" and "we_store env = iface" and "keeps_key (alerting_env_of env cfg)"
    and "UpdateEndpointStatus env s (c_Endpoints cfg ! k) r = s1"
  shows "run_persisted cfg0 cfg s1"
    and "HandleAlerting (alerting_env_of env cfg) (c_Endpoints cfg ! k) r s1 = (ep', s', ns) \<Longrightarrow>
      run_persisted cfg0 (set_endpoint (cfg\<lparr>c_Connectivity := cn\<rparr>) k ep') s'"
proof -
  note p = assms(1) [unfolded run_persisted_def Let_def]
  let ?ep = "c_Endpoints cfg ! k" and ?start = "c_Endpoints cfg0 ! k"
  have k: "k < length (c_Endpoints cfg0)" using p assms(4) by simp
  have ep: "Endpoint_Key ?ep = Endpoint_Key ?start" "e_KeyOverride ?ep = e_KeyOverride ?start"
    "length (e_Alerts ?ep) = length (e_Alerts ?start)" "persisted_alerts s ?ep"
    "\<And>i. i < length (e_Alerts ?start) \<Longrightarrow> same_config (e_Alerts ?start ! i) (e_Alerts ?ep ! i)"
    using p [THEN conjunct2, THEN conjunct2, THEN conjunct2, rule_format, OF k] by blast+
  have ad: "admitted ?ep" using assms(3) [of ?start] admitted_config [OF ep(2)] k by simp
  have s1: "s1 = so_InsertEndpointResult iface s (we_inserted_at env) ?ep r"
    using assms(5,7) by (simp add: UpdateEndpointStatus_def)
  have i1: "inv s1" "known s1 (Endpoint_Key ?ep)" using p ad inv_insert known_insert by (auto simp: s1)
  have same: "stored_alert s1 a c = stored_alert s a c" for a c using p ad insert_alerts by (simp add: s1)
  then have pers: "persisted_alerts s1 e = persisted_alerts s e" for e by (intro persisted_alerts_cong) simp
  show "run_persisted cfg0 cfg s1" using p i1 by (simp add: run_persisted_def pers)
  assume h: "HandleAlerting (alerting_env_of env cfg) ?ep r s1 = (ep', s', ns)"
  have dc: "distinct_checksums checksum ?ep"
    by (rule distinct_checksums_config [OF _ ep(3,5)]) (use assms(3) k in auto)
  have st: "ae_store (alerting_env_of env cfg) = iface" using assms(5) by (simp add: alerting_env_of_def)
  note a = HandleAlerting_persisted [OF i1 _ dc st assms(6) h]
  have p1: "persisted_alerts s1 ?ep" using ep(4) pers by simp
  note a = a [OF p1]
  have "persisted_alerts s' (c_Endpoints cfg ! j)" if j: "j < length (c_Endpoints cfg0)" "j \<noteq> k" for j
  proof -
    have "Endpoint_Key (c_Endpoints cfg ! j) \<noteq> Endpoint_Key ?ep"
      using distinct_nth_neq [OF assms(2) j(1) k j(2)] p j(1) ep(1) by simp
    then have "persisted_alerts s' (c_Endpoints cfg ! j) = persisted_alerts s1 (c_Endpoints cfg ! j)"
      using a(4) by (intro persisted_alerts_cong) simp
    then show ?thesis using p pers j(1) by simp
  qed
  moreover have "same_config (e_Alerts ?start ! i) (e_Alerts ep' ! i)" if "i < length (e_Alerts ?start)" for i
    using ep(5) [OF that] a(7) [of i] that ep(3) by (auto simp: same_config_def)
  ultimately show "run_persisted cfg0 (set_endpoint (cfg\<lparr>c_Connectivity := cn\<rparr>) k ep') s'"
    using p k a(1,2,3,6,8) ep(1-3) by (auto simp: run_persisted_def set_endpoint_def nth_list_update Let_def)
qed

lemma run_persisted_connectivity [simp]:
  "run_persisted cfg0 (cfg\<lparr>c_Connectivity := cn\<rparr>) s = run_persisted cfg0 cfg s"
  by (simp add: run_persisted_def)

lemma run_keeps_persisted:
  assumes "watch_run ok cfg0 s0 (cfg, s, tr, obs)" and "run_persisted cfg0 cfg0 s0"
    and "distinct (map Endpoint_Key (c_Endpoints cfg0))"
    and "\<And>ep. ep \<in> set (c_Endpoints cfg0) \<Longrightarrow> admitted ep \<and> distinct_checksums checksum ep"
    and "\<And>env cfg. ok env \<Longrightarrow> c_Alerting cfg = c_Alerting cfg0 \<Longrightarrow>
      we_store env = iface \<and> keeps_key (alerting_env_of env cfg)"
  shows "run_persisted cfg0 cfg s"
  using assms(1)
proof (induction "(cfg, s, tr, obs)" arbitrary: cfg s tr obs rule: watch_run.induct)
  case start
  then show ?case using assms(2) by simp
next
  case (skip cfg s tr obs env k w)
  from executeEndpoint_stops [OF skip.hyps(5,6)] skip.hyps(2) show ?case by auto
next
  case (execute cfg s tr obs env k w r)
  have "c_Alerting cfg = c_Alerting cfg0" using execute.hyps(2) by (simp add: run_persisted_def)
  note ok = assms(5) [OF execute.hyps(3) this]
  note x = execute_persisted [OF execute.hyps(2) assms(3,4) execute.hyps(4) conjunct1 [OF ok] conjunct2 [OF ok] refl]
  from executeEndpoint_goes_on [OF execute.hyps(5,6,7)] show ?case
    by (cases "silenced env cfg k") (auto simp: x(1) intro: x(2))
qed

section \<open>A start-up\<close>

text \<open>What the look-up makes of an alert.\<close>

definition restored_alert :: "'s \<Rightarrow> string \<Rightarrow> Alert \<Rightarrow> Alert" where
  "restored_alert s k a =
     (case stored_alert s k (checksum a) of
        None \<Rightarrow> a
      | Some (rk, n) \<Rightarrow> a\<lparr>al_Triggered := True, al_ResolveKey := rk\<rparr>)"

lemma take_over_alert_effect:
  assumes "inv s" and "take_over_alert iface s i ep = ep'"
  shows "e_Alerts ep' = (e_Alerts ep)[i := restored_alert s (Endpoint_Key ep) (e_Alerts ep ! i)]"
    and "Endpoint_Key ep' = Endpoint_Key ep" and "e_KeyOverride ep' = e_KeyOverride ep"
  using assms(2) get [OF assms(1), of ep "e_Alerts ep ! i"]
  by (auto simp: take_over_alert_def Let_def restored_alert_def set_alert_def split: option.splits)

lemma take_over_all:
  assumes "inv s" and "n \<le> length (e_Alerts ep)"
  shows "let ep' = foldl (\<lambda>ep i. take_over_alert iface s i ep) ep [0..<n]
    in e_Alerts ep' = map (restored_alert s (Endpoint_Key ep)) (take n (e_Alerts ep)) @ drop n (e_Alerts ep) \<and>
       Endpoint_Key ep' = Endpoint_Key ep \<and> e_KeyOverride ep' = e_KeyOverride ep"
  using assms(2)
proof (induction n)
  case (Suc n)
  let ?ep = "foldl (\<lambda>ep i. take_over_alert iface s i ep) ep [0..<n]"
  from Suc have IH: "e_Alerts ?ep = map (restored_alert s (Endpoint_Key ep)) (take n (e_Alerts ep)) @ drop n (e_Alerts ep)"
    "Endpoint_Key ?ep = Endpoint_Key ep" "e_KeyOverride ?ep = e_KeyOverride ep" by (simp_all add: Let_def)
  have n: "n < length (e_Alerts ep)" using Suc.prems by simp
  have "drop n (e_Alerts ep) = e_Alerts ep ! n # drop (Suc n) (e_Alerts ep)" by (rule Cons_nth_drop_Suc [OF n, symmetric])
  with take_over_alert_effect [OF assms(1) refl, of n ?ep] n show ?case
    by (simp add: Let_def IH nth_append list_update_append take_Suc_conv_app_nth)
qed simp

lemma restore_endpoint_effect:
  assumes "restore_endpoint iface checksum ep s = (ep', s')" and "inv s"
  shows "inv s'" and "Endpoint_Key ep' = Endpoint_Key ep" and "e_KeyOverride ep' = e_KeyOverride ep"
    and "e_Alerts ep' = map (restored_alert s' (Endpoint_Key ep)) (e_Alerts ep)"
    and "stored_alert s' k c =
      (if k = Endpoint_Key ep \<and> c \<notin> set (enabled_checksums checksum (e_Alerts ep)) then None else stored_alert s k c)"
proof -
  have s': "s' = so_DeleteAllTriggeredAlertsNotInChecksumsByEndpoint iface s ep (enabled_checksums checksum (e_Alerts ep))"
    and ep': "ep' = foldl (\<lambda>ep i. take_over_alert iface s' i ep) ep [0..<length (e_Alerts ep)]"
    using assms(1) by (auto simp: restore_endpoint_def Let_def)
  show "inv s'" using inv_delete_others [OF assms(2)] by (simp add: s')
  from take_over_all [OF this order_refl, of ep] show "Endpoint_Key ep' = Endpoint_Key ep"
    "e_KeyOverride ep' = e_KeyOverride ep" "e_Alerts ep' = map (restored_alert s' (Endpoint_Key ep)) (e_Alerts ep)"
    by (simp_all add: ep' Let_def)
  show "stored_alert s' k c =
      (if k = Endpoint_Key ep \<and> c \<notin> set (enabled_checksums checksum (e_Alerts ep)) then None else stored_alert s k c)"
    using delete_others [OF assms(2)] by (simp add: s')
qed

text \<open>Restoring a list of things, each with keys of its own.\<close>

definition frame_keys :: "('a \<Rightarrow> 's \<Rightarrow> 'a \<times> 's) \<Rightarrow> ('a \<Rightarrow> string set) \<Rightarrow> bool" where
  "frame_keys f keys \<longleftrightarrow>
     (\<forall>x s x' s'. f x s = (x', s') \<longrightarrow> inv s \<longrightarrow>
        inv s' \<and> (\<forall>k c. k \<notin> keys x \<longrightarrow> stored_alert s' k c = stored_alert s k c))"

lemma restore_all_frame:
  assumes "frame_keys f keys"
  shows "frame_keys (restore_all f) (\<lambda>xs. \<Union> (keys ` set xs))"
  unfolding frame_keys_def
proof (intro allI impI)
  fix xs s xs' s'
  assume "restore_all f xs s = (xs', s')" and "inv s"
  then show "inv s' \<and> (\<forall>k c. k \<notin> \<Union> (keys ` set xs) \<longrightarrow> stored_alert s' k c = stored_alert s k c)"
  proof (induction xs arbitrary: s xs')
    case (Cons x xs)
    obtain x1 s1 xs1 where f: "f x s = (x1, s1)" and r: "restore_all f xs s1 = (xs1, s')"
      using Cons.prems(1) by (auto split: prod.splits)
    have "inv s1" "\<And>k c. k \<notin> keys x \<Longrightarrow> stored_alert s1 k c = stored_alert s k c"
      using assms f Cons.prems(2) by (auto simp: frame_keys_def)
    with Cons.IH [OF r] show ?case by auto
  qed simp
qed

lemma restore_all_nth:
  assumes "frame_keys f keys" and "restore_all f xs s = (xs', s')" and "inv s"
    and "\<And>i j. i < j \<Longrightarrow> j < length xs \<Longrightarrow> keys (xs ! i) \<inter> keys (xs ! j) = {}"
  shows "length xs' = length xs \<and>
    (\<forall>j < length xs. \<exists>s1 s2. inv s1 \<and> f (xs ! j) s1 = (xs' ! j, s2) \<and>
      (\<forall>k \<in> keys (xs ! j). \<forall>c. stored_alert s1 k c = stored_alert s k c \<and> stored_alert s' k c = stored_alert s2 k c))"
  using assms(2-)
proof (induction xs arbitrary: s xs')
  case (Cons x xs)
  obtain x1 s1 xs1 where f: "f x s = (x1, s1)" and r: "restore_all f xs s1 = (xs1, s')" and xs': "xs' = x1 # xs1"
    using Cons.prems(1) by (auto split: prod.splits)
  have s1: "inv s1" "\<And>k c. k \<notin> keys x \<Longrightarrow> stored_alert s1 k c = stored_alert s k c"
    using assms(1) f Cons.prems(2) by (auto simp: frame_keys_def)
  have d: "i < j \<Longrightarrow> j < length xs \<Longrightarrow> keys (xs ! i) \<inter> keys (xs ! j) = {}" for i j
    using Cons.prems(3) [of "Suc i" "Suc j"] by simp
  note IH = Cons.IH [OF r s1(1) d]
  have first: "keys x \<inter> keys (xs ! j) = {}" if "j < length xs" for j using Cons.prems(3) [of 0 "Suc j"] that by simp
  have after: "stored_alert s' k c = stored_alert s1 k c" if "k \<in> keys x" for k c
  proof -
    have "k \<notin> \<Union> (keys ` set xs)" using that first by (auto simp: in_set_conv_nth disjoint_iff)
    then show ?thesis using restore_all_frame [OF assms(1)] r s1(1) by (simp add: frame_keys_def)
  qed
  show ?case
  proof (intro conjI allI impI)
    show "length xs' = length (x # xs)" using IH by (simp add: xs')
    fix j assume j: "j < length (x # xs)"
    show "\<exists>s1 s2. inv s1 \<and> f ((x # xs) ! j) s1 = (xs' ! j, s2) \<and>
      (\<forall>k \<in> keys ((x # xs) ! j). \<forall>c. stored_alert s1 k c = stored_alert s k c \<and> stored_alert s' k c = stored_alert s2 k c)"
    proof (cases j)
      case 0
      then show ?thesis using f after Cons.prems(2) by (intro exI [of _ s] exI [of _ s1]) (simp add: xs')
    next
      case (Suc i)
      then have i: "i < length xs" using j by simp
      obtain t1 t2 where t: "inv t1" "f (xs ! i) t1 = (xs1 ! i, t2)"
        "\<And>k c. k \<in> keys (xs ! i) \<Longrightarrow> stored_alert t1 k c = stored_alert s1 k c \<and> stored_alert s' k c = stored_alert t2 k c"
        using IH i by blast
      have "stored_alert t1 k c = stored_alert s k c" if "k \<in> keys (xs ! i)" for k c
        using t(3) [OF that, of c] s1(2) [of k c] first [OF i] that by auto
      with t Suc show ?thesis by (intro exI [of _ t1] exI [of _ t2]) (simp add: xs')
    qed
  qed
qed simp

lemma frame_endpoint: "frame_keys (restore_endpoint iface checksum) (\<lambda>ep. {Endpoint_Key ep})"
  using restore_endpoint_effect(1,5) by (auto simp: frame_keys_def)

lemma frame_external: "frame_keys (restore_external iface checksum) (\<lambda>ee. {External_Key ee})"
  using restore_endpoint_effect(1,5)
  by (auto simp: frame_keys_def restore_external_def split: prod.splits)

lemma frame_suite: "frame_keys (restore_suite iface checksum) (\<lambda>su. Endpoint_Key ` set (s_Endpoints su))"
  using restore_all_frame [OF frame_endpoint]
  by (fastforce simp: frame_keys_def restore_suite_def split: prod.splits)

text \<open>What a start-up makes of an endpoint, whose key no other target has.\<close>

lemma initializeStorage_endpoint:
  assumes "initializeStorage iface checksum cfg s = (cfg', s')" and "inv s" and "distinct (preserved_keys cfg)"
  shows "inv s'" and "c_Alerting cfg' = c_Alerting cfg" and "length (c_Endpoints cfg') = length (c_Endpoints cfg)"
    and "j < length (c_Endpoints cfg) \<Longrightarrow>
      let ep = c_Endpoints cfg ! j; ep' = c_Endpoints cfg' ! j; k = Endpoint_Key ep
      in Endpoint_Key ep' = k \<and> e_KeyOverride ep' = e_KeyOverride ep \<and>
         e_Alerts ep' = map (restored_alert s' k) (e_Alerts ep) \<and>
         (\<forall>c \<in> set (enabled_checksums checksum (e_Alerts ep)). stored_alert s' k c = stored_alert s k c)"
proof -
  let ?keys = "\<lambda>ep. {Endpoint_Key ep}"
  let ?s0 = "remove_unconfigured iface cfg s"
  obtain eps s1 ees s2 sus where
    r: "restore_all (restore_endpoint iface checksum) (c_Endpoints cfg) ?s0 = (eps, s1)"
      "restore_all (restore_external iface checksum) (c_ExternalEndpoints cfg) s1 = (ees, s2)"
      "restore_all (restore_suite iface checksum) (c_Suites cfg) s2 = (sus, s')"
    and cfg': "cfg' = cfg\<lparr>c_Endpoints := eps, c_ExternalEndpoints := ees, c_Suites := sus\<rparr>"
    using assms(1) by (auto simp: initializeStorage_def Let_def split: prod.splits)
  have s0: "inv ?s0" by (simp add: remove_unconfigured_def inv_delete_statuses inv_delete_suites assms(2))
  have kept: "k \<in> set (preserved_keys cfg) \<Longrightarrow> stored_alert ?s0 k c = stored_alert s k c" for k c
    by (simp add: remove_unconfigured_def delete_statuses delete_suites inv_delete_suites assms(2))
  note f1 = restore_all_frame [OF frame_endpoint, unfolded frame_keys_def, rule_format, OF r(1) s0]
  then have i1: "inv s1" by simp
  note f2 = restore_all_frame [OF frame_external, unfolded frame_keys_def, rule_format, OF r(2) i1]
  then have i2: "inv s2" by simp
  note f3 = restore_all_frame [OF frame_suite, unfolded frame_keys_def, rule_format, OF r(3) i2]
  then show "inv s'" by simp
  have d: "distinct (map Endpoint_Key (c_Endpoints cfg))" using assms(3) by (simp add: preserved_keys_def)
  have "i < j \<Longrightarrow> j < length (c_Endpoints cfg) \<Longrightarrow>
      ?keys (c_Endpoints cfg ! i) \<inter> ?keys (c_Endpoints cfg ! j) = {}" for i j
    using distinct_nth_neq [OF d, of i j] by simp
  note n = restore_all_nth [OF frame_endpoint r(1) s0 this]
  then show "length (c_Endpoints cfg') = length (c_Endpoints cfg)" by (simp add: cfg')
  show "c_Alerting cfg' = c_Alerting cfg" by (simp add: cfg')
  assume j: "j < length (c_Endpoints cfg)"
  let ?ep = "c_Endpoints cfg ! j"
  let ?k = "Endpoint_Key ?ep"
  have member: "?k \<in> set (map Endpoint_Key (c_Endpoints cfg))" using j by simp
  then have "?k \<notin> set (map External_Key (c_ExternalEndpoints cfg))"
    "?k \<notin> set (concat (map (\<lambda>su. map Endpoint_Key (s_Endpoints su)) (c_Suites cfg)))"
    using assms(3) unfolding preserved_keys_def distinct_append set_append by blast+
  then have "?k \<notin> \<Union> ((\<lambda>ee. {External_Key ee}) ` set (c_ExternalEndpoints cfg))"
    "?k \<notin> \<Union> ((\<lambda>su. Endpoint_Key ` set (s_Endpoints su)) ` set (c_Suites cfg))"
    by auto
  then have later: "stored_alert s' ?k c = stored_alert s1 ?k c" for c using f2 f3 by simp
  obtain t1 t2 where t: "inv t1" "restore_endpoint iface checksum ?ep t1 = (eps ! j, t2)"
    "\<And>c. stored_alert t1 ?k c = stored_alert ?s0 ?k c" "\<And>c. stored_alert s1 ?k c = stored_alert t2 ?k c"
    using n j by auto
  note e = restore_endpoint_effect [OF t(2,1)]
  have same: "stored_alert s' ?k c = stored_alert t2 ?k c" for c by (simp add: later t(4))
  then have "restored_alert s' ?k = restored_alert t2 ?k" by (simp add: restored_alert_def fun_eq_iff)
  moreover have "stored_alert ?s0 ?k c = stored_alert s ?k c" for c
    using kept member by (simp add: preserved_keys_def)
  ultimately show "let ep = ?ep; ep' = c_Endpoints cfg' ! j; k = Endpoint_Key ep
      in Endpoint_Key ep' = k \<and> e_KeyOverride ep' = e_KeyOverride ep \<and>
         e_Alerts ep' = map (restored_alert s' k) (e_Alerts ep) \<and>
         (\<forall>c \<in> set (enabled_checksums checksum (e_Alerts ep)). stored_alert s' k c = stored_alert s k c)"
    using e same t(3) by (simp add: cfg' Let_def)
qed

text \<open>
  A start-up, a run and another start-up from the same configuration, whose alerts have not been
  triggered in it.
\<close>

definition never_triggered :: "Endpoint \<Rightarrow> bool" where
  "never_triggered ep \<longleftrightarrow> (\<forall>a \<in> set (e_Alerts ep). \<not> al_Triggered a)"

lemma restored_alert_config: "same_config a (restored_alert s k a)"
  by (simp add: restored_alert_def split: option.split)

lemma restored_alert_persisted:
  assumes "\<not> al_Triggered a"
  shows "alert_persisted s k (restored_alert s k a)"
proof -
  have "checksum (restored_alert s k a) = checksum a" by (rule checksum_config [OF restored_alert_config])
  then show ?thesis using assms by (auto simp: restored_alert_def alert_persisted_def split: option.splits)
qed

lemma started_persisted:
  assumes "initializeStorage iface checksum cfg s = (cfg', s')" and "inv s" and "distinct (preserved_keys cfg)"
    and "\<And>ep. ep \<in> set (c_Endpoints cfg) \<Longrightarrow> never_triggered ep"
  shows "run_persisted cfg cfg' s'"
  unfolding run_persisted_def
proof (intro conjI allI impI)
  note i = initializeStorage_endpoint [OF assms(1-3)]
  show "inv s'" "c_Alerting cfg' = c_Alerting cfg" "length (c_Endpoints cfg') = length (c_Endpoints cfg)" by (rule i)+
  fix j assume j: "j < length (c_Endpoints cfg)"
  let ?ep = "c_Endpoints cfg ! j"
  have nt: "never_triggered ?ep" using assms(4) j by simp
  note e = i(4) [OF j, unfolded Let_def]
  then have as: "e_Alerts (c_Endpoints cfg' ! j) = map (restored_alert s' (Endpoint_Key ?ep)) (e_Alerts ?ep)" by blast
  have "alert_persisted s' (Endpoint_Key ?ep) (restored_alert s' (Endpoint_Key ?ep) (e_Alerts ?ep ! i))"
    if "i < length (e_Alerts ?ep)" for i
    by (rule restored_alert_persisted) (use nt that in \<open>simp add: never_triggered_def\<close>)
  then have "persisted_alerts s' (c_Endpoints cfg' ! j)" using e by (simp add: persisted_alerts_def)
  with e show "let ep0 = c_Endpoints cfg ! j; ep = c_Endpoints cfg' ! j
      in Endpoint_Key ep = Endpoint_Key ep0 \<and> e_KeyOverride ep = e_KeyOverride ep0 \<and>
         length (e_Alerts ep) = length (e_Alerts ep0) \<and>
         (\<forall>i < length (e_Alerts ep0). same_config (e_Alerts ep0 ! i) (e_Alerts ep ! i)) \<and> persisted_alerts s' ep"
    by (simp add: Let_def restored_alert_config)
qed

lemma run_persisted_trans:
  assumes "run_persisted cfg0 cfg1 s1" and "run_persisted cfg1 cfg2 s2"
  shows "run_persisted cfg0 cfg2 s2"
  unfolding run_persisted_def Let_def
proof (intro conjI allI impI)
  note q = assms [unfolded run_persisted_def Let_def]
  show "inv s2" "c_Alerting cfg2 = c_Alerting cfg0" "length (c_Endpoints cfg2) = length (c_Endpoints cfg0)"
    using q by simp_all
  fix j assume j: "j < length (c_Endpoints cfg0)"
  then have j1: "j < length (c_Endpoints cfg1)" using q(1) by simp
  note a = q(1) [THEN conjunct2, THEN conjunct2, THEN conjunct2, rule_format, OF j]
    and b = q(2) [THEN conjunct2, THEN conjunct2, THEN conjunct2, rule_format, OF j1]
  show "Endpoint_Key (c_Endpoints cfg2 ! j) = Endpoint_Key (c_Endpoints cfg0 ! j)"
    "e_KeyOverride (c_Endpoints cfg2 ! j) = e_KeyOverride (c_Endpoints cfg0 ! j)"
    "length (e_Alerts (c_Endpoints cfg2 ! j)) = length (e_Alerts (c_Endpoints cfg0 ! j))"
    "persisted_alerts s2 (c_Endpoints cfg2 ! j)"
    using a b by simp_all
  fix i assume "i < length (e_Alerts (c_Endpoints cfg0 ! j))"
  then have "same_config (e_Alerts (c_Endpoints cfg0 ! j) ! i) (e_Alerts (c_Endpoints cfg1 ! j) ! i)"
    "same_config (e_Alerts (c_Endpoints cfg1 ! j) ! i) (e_Alerts (c_Endpoints cfg2 ! j) ! i)" using a b by simp_all
  then show "same_config (e_Alerts (c_Endpoints cfg0 ! j) ! i) (e_Alerts (c_Endpoints cfg2 ! j) ! i)"
    by (simp add: same_config_def)
qed

lemma restart:
  assumes "initializeStorage iface checksum cfg s = (cfg0, s0)" and "inv s" and "distinct (preserved_keys cfg)"
    and "\<And>ep. ep \<in> set (c_Endpoints cfg) \<Longrightarrow> never_triggered ep \<and> admitted ep \<and> distinct_checksums checksum ep"
    and "watch_run ok cfg0 s0 (cfg1, s1, tr, obs)"
    and "\<And>env cfg1. ok env \<Longrightarrow> c_Alerting cfg1 = c_Alerting cfg \<Longrightarrow>
      we_store env = iface \<and> keeps_key (alerting_env_of env cfg1)"
    and "inv s1 \<Longrightarrow> inv s2" and "\<And>k c. stored_alert s2 k c = stored_alert s1 k c"
    and "initializeStorage iface checksum cfg s2 = (cfg3, s3)"
    and "j < length (c_Endpoints cfg)" and "i < length (e_Alerts (c_Endpoints cfg ! j))"
    and "IsEnabled (e_Alerts (c_Endpoints cfg ! j) ! i)"
  shows "al_Triggered (e_Alerts (c_Endpoints cfg3 ! j) ! i) = al_Triggered (e_Alerts (c_Endpoints cfg1 ! j) ! i)"
    and "al_Triggered (e_Alerts (c_Endpoints cfg1 ! j) ! i) \<Longrightarrow>
      al_ResolveKey (e_Alerts (c_Endpoints cfg3 ! j) ! i) = al_ResolveKey (e_Alerts (c_Endpoints cfg1 ! j) ! i)"
proof -
  have nt: "ep \<in> set (c_Endpoints cfg) \<Longrightarrow> never_triggered ep" for ep using assms(4) by blast
  have p0: "run_persisted cfg cfg0 s0" by (rule started_persisted [OF assms(1-3) nt])
  note q0 = p0 [unfolded run_persisted_def Let_def]
  then have al: "c_Alerting cfg0 = c_Alerting cfg" by simp
  have pc: "run_persisted cfg0 cfg0 s0" using q0 by (simp add: run_persisted_def Let_def)
  have keys: "map Endpoint_Key (c_Endpoints cfg0) = map Endpoint_Key (c_Endpoints cfg)"
    using q0 by (auto intro: nth_equalityI)
  have d: "distinct (map Endpoint_Key (c_Endpoints cfg0))" using assms(3) by (simp add: keys preserved_keys_def)
  have ad: "admitted ep \<and> distinct_checksums checksum ep" if "ep \<in> set (c_Endpoints cfg0)" for ep
  proof -
    obtain l where l: "l < length (c_Endpoints cfg)" "ep = c_Endpoints cfg0 ! l"
      using \<open>ep \<in> set (c_Endpoints cfg0)\<close> q0 by (metis in_set_conv_nth)
    then have e: "admitted (c_Endpoints cfg ! l)" "distinct_checksums checksum (c_Endpoints cfg ! l)"
      using assms(4) by simp_all
    have q: "e_KeyOverride ep = e_KeyOverride (c_Endpoints cfg ! l)"
      "length (e_Alerts ep) = length (e_Alerts (c_Endpoints cfg ! l))"
      "\<And>i. i < length (e_Alerts (c_Endpoints cfg ! l)) \<Longrightarrow> same_config (e_Alerts (c_Endpoints cfg ! l) ! i) (e_Alerts ep ! i)"
      using q0 [THEN conjunct2, THEN conjunct2, THEN conjunct2, rule_format, OF l(1)] l(2) by blast+
    from distinct_checksums_config [OF e(2) q(2,3)] admitted_config [OF q(1)] e(1) show ?thesis by simp
  qed
  have p1: "run_persisted cfg cfg1 s1"
    by (rule run_persisted_trans [OF p0 run_keeps_persisted [OF assms(5) pc d ad assms(6) [folded al]]])
  then have inv2: "inv s2" using assms(7) by (simp add: run_persisted_def)
  note q1 = p1 [unfolded run_persisted_def Let_def, THEN conjunct2, THEN conjunct2, THEN conjunct2, rule_format, OF assms(10)]
  let ?ep = "c_Endpoints cfg ! j"
  let ?k = "Endpoint_Key ?ep" and ?a = "e_Alerts ?ep ! i" and ?a1 = "e_Alerts (c_Endpoints cfg1 ! j) ! i"
  note st = initializeStorage_endpoint(4) [OF assms(9) inv2 assms(3,10), unfolded Let_def]
  have a1: "same_config ?a ?a1" and "alert_persisted s1 ?k ?a1"
    using q1 assms(11) by (auto simp: persisted_alerts_def)
  then have ap: "if al_Triggered ?a1 then \<exists>n. stored_alert s1 ?k (checksum ?a) = Some (al_ResolveKey ?a1, n)
      else stored_alert s1 ?k (checksum ?a) = None"
    using assms(12) same_config_simps(2) [OF a1] checksum_config [OF a1]
    by (simp add: alert_persisted_def split: if_splits)
  have "checksum ?a \<in> set (enabled_checksums checksum (e_Alerts ?ep))"
    using assms(11,12) by (auto simp: enabled_checksums_def)
  then have "stored_alert s3 ?k (checksum ?a) = stored_alert s1 ?k (checksum ?a)" using st assms(8) by simp
  moreover have "e_Alerts (c_Endpoints cfg3 ! j) ! i = restored_alert s3 ?k ?a" using st assms(11) by simp
  moreover have "\<not> al_Triggered ?a" using nt [of ?ep] assms(10,11) by (simp add: never_triggered_def)
  ultimately show "al_Triggered (e_Alerts (c_Endpoints cfg3 ! j) ! i) = al_Triggered ?a1"
    "al_Triggered ?a1 \<Longrightarrow> al_ResolveKey (e_Alerts (c_Endpoints cfg3 ! j) ! i) = al_ResolveKey ?a1"
    using ap by (auto simp: restored_alert_def split: if_splits)
qed

end

section \<open>The database keeps this contract\<close>

lemma stored_alert_insert:
  assumes "sql_store_ok s" and "e_KeyOverride ep = []"
  shows "stored_alert (snd (Sql_InsertEndpointResult co L now s ep r)) k c = stored_alert s k c"
proof -
  have ok: "db_ok (sq_db s)" "keys_ok (sq_db s)" "0 \<le> sq_maximumNumberOfResults s"
    using assms(1) by (simp_all add: sql_store_ok_def)
  obtain i db1 where g: "get_or_insert_endpoint (sq_db s) ep = Some (i, db1)"
    using get_or_insert_endpoint_succeeds [OF ok(2) assms(2)] by blast
  note e = get_or_insert_endpoint_effect [OF ok(1) g]
  have i: "i \<in> er_id ` set (db_endpoints db1)" using e(3) by (auto simp: endpoint_of_iff [OF e(1)])
  note ins = insert_into_db_effect [OF e(1) i ok(3), where L = L and now = now and r = r and e = "sq_maximumNumberOfEvents s"]
  have db': "sq_db (snd (Sql_InsertEndpointResult co L now s ep r)) =
      insert_into_db L now (sq_maximumNumberOfResults s) (sq_maximumNumberOfEvents s) db1 i r"
    by (simp add: Sql_InsertEndpointResult_eq [OF g])
  obtain es where es: "db1 = (sq_db s)\<lparr>db_endpoints := db_endpoints (sq_db s) @ es\<rparr>" using e(2) by blast
  have eo: "endpoint_of (sq_db (snd (Sql_InsertEndpointResult co L now s ep r))) k = endpoint_of db1 k"
    by (simp add: db' endpoint_of_def ins(2))
  have ar: "alert_row_of (sq_db (snd (Sql_InsertEndpointResult co L now s ep r))) j c = alert_row_of (sq_db s) j c" for j
    unfolding db' alert_row_of_def ins(3) using es by simp
  show ?thesis
  proof (cases "endpoint_of (sq_db s) k")
    case (Some x)
    then have "endpoint_of db1 k = Some x" using e(4,6) by (cases "k = Endpoint_Key ep") auto
    then show ?thesis by (simp add: stored_alert_def eo ar Some)
  next
    case None
    show ?thesis
    proof (cases "k = Endpoint_Key ep")
      case True
      obtain e1 where e1: "endpoint_of db1 k = Some e1" "er_id e1 = i" using e(3) True by blast
      have "i \<notin> er_id ` set (db_endpoints (sq_db s))" using e(5) None True by simp
      then have "alert_row_of (sq_db s) i c = None"
        using ok(1) by (auto simp: alert_row_of_def db_ok_def find_None_iff)
      then show ?thesis by (simp add: stored_alert_def eo ar None e1)
    next
      case False
      then show ?thesis using e(4) [OF False] None by (simp add: stored_alert_def eo)
    qed
  qed
qed

text \<open>The rows of the endpoints that stay are kept.\<close>

lemma stored_alert_delete_endpoints:
  assumes "db_ok db" and "sq_db s = db" and "sq_db s' = delete_endpoints (\<lambda>r. er_key r \<notin> set ks) db"
  shows "stored_alert s' k c = (if k \<in> set ks then stored_alert s k c else None)"
proof -
  have ok': "db_ok (sq_db s')" using delete_endpoints_ok [OF assms(1)] assms(3) by simp
  have eps: "db_endpoints (sq_db s') = filter (\<lambda>r. er_key r \<in> set ks) (db_endpoints db)"
    by (simp add: assms(3) delete_endpoints_def delete_results_def Let_def)
  have of: "endpoint_of (sq_db s') k = Some e \<longleftrightarrow> endpoint_of db k = Some e \<and> k \<in> set ks" for e
    unfolding endpoint_of_iff [OF ok'] endpoint_of_iff [OF assms(1)] by (auto simp: eps)
  show ?thesis
  proof (cases "endpoint_of (sq_db s') k")
    case None
    then have "endpoint_of db k = None \<or> k \<notin> set ks" using of by fastforce
    then show ?thesis using None by (auto simp: stored_alert_def assms(2))
  next
    case (Some e)
    then have e: "endpoint_of db k = Some e" "k \<in> set ks" using of by simp_all
    have "er_id e \<notin> set (map er_id (filter (\<lambda>r. er_key r \<notin> set ks) (db_endpoints db)))"
    proof
      assume "er_id e \<in> set (map er_id (filter (\<lambda>r. er_key r \<notin> set ks) (db_endpoints db)))"
      then obtain x where x: "er_id x = er_id e" "x \<in> set (db_endpoints db)" "er_key x \<notin> set ks" by auto
      then have "endpoint_of db (er_key x) = Some x" by (simp add: endpoint_of_iff [OF assms(1)])
      then show False using endpoint_of_inj [OF assms(1) _ e(1)] x(1,3) e(2) by blast
    qed
    then have "alert_row_of (sq_db s') (er_id e) c = alert_row_of db (er_id e) c"
      unfolding alert_row_of_def assms(3) delete_endpoints_def delete_results_def Let_def
      by (simp, intro find_filter_same) auto
    then show ?thesis using Some e by (simp add: stored_alert_def assms(2))
  qed
qed

lemma checksum_of_config: "same_config a a' \<Longrightarrow> Checksum sha a' = Checksum sha a"
  by (simp add: Checksum_def same_config_simps)

lemma sql_store_ok_delete_suites:
  "sql_store_ok s \<Longrightarrow> sql_store_ok (snd (Sql_DeleteAllSuiteStatusesNotInKeys s ks)) \<and>
     stored_alert (snd (Sql_DeleteAllSuiteStatusesNotInKeys s ks)) k c = stored_alert s k c"
proof -
  assume ok: "sql_store_ok s"
  obtain P S T where db: "sq_db (snd (Sql_DeleteAllSuiteStatusesNotInKeys s ks)) =
      delete_results P ((sq_db s)\<lparr>db_suites := S, db_suite_results := T\<rparr>)"
    and m: "sq_maximumNumberOfResults (snd (Sql_DeleteAllSuiteStatusesNotInKeys s ks)) = sq_maximumNumberOfResults s"
    by (auto simp: Sql_DeleteAllSuiteStatusesNotInKeys_def delete_suites_def delete_suite_results_def Let_def)
  let ?db = "(sq_db s)\<lparr>db_suites := S, db_suite_results := T\<rparr>"
  have d: "db_ok ?db" using ok by (simp add: sql_store_ok_def db_ok_def)
  then have "db_ok (delete_results P ?db)"
    unfolding db_ok_def delete_results_def Let_def
    by (simp add: ordered_filter) (intro allI impI kept_ids; simp)
  moreover have "endpoint_of (delete_results P ?db) k = endpoint_of (sq_db s) k"
    "alert_row_of (delete_results P ?db) j c = alert_row_of (sq_db s) j c" for j
    by (simp_all add: endpoint_of_def alert_row_of_def delete_results_def Let_def)
  moreover have "keys_ok (delete_results P ?db)"
    using ok by (simp add: sql_store_ok_def keys_ok_def delete_results_def Let_def)
  ultimately show ?thesis using ok m by (simp add: sql_store_ok_def stored_alert_def db split: option.split)
qed

interpretation sql_persistent: persistent_store "sql_iface co sha L" "Checksum sha" stored_alert
  "\<lambda>s. known (sq_db s)" sql_store_ok "\<lambda>ep. e_KeyOverride ep = []" for co :: "'c sql_cache_ops" and sha and L
proof unfold_locales
  fix s :: "'c Sql_Store" and ep :: Endpoint and now r k c and ks :: "string list"
  assume inv: "sql_store_ok s"
  then have ok: "db_ok (sq_db s)" by (simp add: sql_store_ok_def)
  let ?t = "s\<lparr>sq_db := delete_endpoints (\<lambda>r. er_key r \<notin> set ks) (sq_db s)\<rparr>"
  have d: "so_DeleteAllEndpointStatusesNotInKeys (sql_iface co sha L) s ks = clear_cache co ?t"
    by (simp add: sql_iface_def Sql_DeleteAllEndpointStatusesNotInKeys_def Let_def)
  then have db: "sq_db (so_DeleteAllEndpointStatusesNotInKeys (sql_iface co sha L) s ks) =
      delete_endpoints (\<lambda>r. er_key r \<notin> set ks) (sq_db s)" by (simp add: clear_cache_def)
  show "stored_alert (so_DeleteAllEndpointStatusesNotInKeys (sql_iface co sha L) s ks) k c =
      (if k \<in> set ks then stored_alert s k c else None)"
    by (rule stored_alert_delete_endpoints [OF ok refl db])
  have "keys_ok (delete_endpoints (\<lambda>r. er_key r \<notin> set ks) (sq_db s))"
    using inv by (simp add: sql_store_ok_def keys_ok_def delete_endpoints_def delete_results_def Let_def)
  then show "sql_store_ok (so_DeleteAllEndpointStatusesNotInKeys (sql_iface co sha L) s ks)"
    using inv delete_endpoints_ok [OF ok] by (simp add: sql_store_ok_def d clear_cache_def)
  show "stored_alert (so_DeleteAllSuiteStatusesNotInKeys (sql_iface co sha L) s ks) k c = stored_alert s k c"
    and "sql_store_ok (so_DeleteAllSuiteStatusesNotInKeys (sql_iface co sha L) s ks)"
    using sql_store_ok_delete_suites [OF inv] by (simp_all add: sql_iface_def)
  assume ov: "e_KeyOverride ep = []"
  show "stored_alert (so_InsertEndpointResult (sql_iface co sha L) s now ep r) k c = stored_alert s k c"
    using stored_alert_insert [OF inv ov] by (simp add: sql_iface_def)
  show "sql_store_ok (so_InsertEndpointResult (sql_iface co sha L) s now ep r)"
    using sql_insert_laws(4) [OF inv ov refl] by (simp add: sql_iface_def)
  show "known (sq_db (so_InsertEndpointResult (sql_iface co sha L) s now ep r)) k \<longleftrightarrow>
      k = Endpoint_Key ep \<or> known (sq_db s) k"
    using known_insert [OF inv ov] by (simp add: sql_iface_def)
qed (simp_all add: checksum_of_config)

section \<open>Properties\<close>

text \<open>
  C11. A program starts with a database, runs its endpoints in any order, ends, and starts again
  with the same configuration and the tables it left on the disk. No two targets have the same key, the
  enabled alerts of an endpoint have checksums of their own, and a provider that fails leaves the
  resolve key of the alert alone. Then every enabled alert of every endpoint is triggered after the second
  start exactly when it was at the end of the run, with the resolve key it had.
\<close>

theorem restart_keeps_alerts:
  assumes "initializeStorage (sql_iface co sha L) (Checksum sha) cfg s = (cfg0, s0)" and "sql_store_ok s"
    and "distinct (preserved_keys cfg)"
    and "\<forall>ep \<in> set (c_Endpoints cfg). (\<forall>a \<in> set (e_Alerts ep). \<not> al_Triggered a) \<and> e_KeyOverride ep = [] \<and>
      distinct_checksums (Checksum sha) ep"
    and "\<forall>alerting ty p i ep a r b. c_Alerting cfg = Some alerting \<longrightarrow>
      GetAlertingProviderByAlertType alerting ty = Some p \<longrightarrow> fst (ap_Send p i ep a r b) \<noteq> None \<longrightarrow>
      snd (ap_Send p i ep a r b) = al_ResolveKey a"
    and "watch_run (\<lambda>env. we_store env = sql_iface co sha L) cfg0 s0 (cfg1, s1, tr, obs)"
    and "Initialize ec sc ca disk (Some sto) = Inr (Opened_Sql s2)" and "disk (sto_Path sto) = Some (sq_db (Sql_Close co s1))"
    and "0 \<le> sto_MaximumNumberOfResults sto"
    and "initializeStorage (sql_iface co sha L) (Checksum sha) cfg s2 = (cfg3, s3)"
    and "j < length (c_Endpoints cfg)" and "i < length (e_Alerts (c_Endpoints cfg ! j))"
    and "IsEnabled (e_Alerts (c_Endpoints cfg ! j) ! i)"
  shows "al_Triggered (e_Alerts (c_Endpoints cfg3 ! j) ! i) = al_Triggered (e_Alerts (c_Endpoints cfg1 ! j) ! i) \<and>
    (al_Triggered (e_Alerts (c_Endpoints cfg1 ! j) ! i) \<longrightarrow>
      al_ResolveKey (e_Alerts (c_Endpoints cfg3 ! j) ! i) = al_ResolveKey (e_Alerts (c_Endpoints cfg1 ! j) ! i))"
proof -
  have eps: "sql_persistent.never_triggered ep \<and> e_KeyOverride ep = [] \<and> distinct_checksums (Checksum sha) ep"
    if "ep \<in> set (c_Endpoints cfg)" for ep
    using that assms(4) by (simp add: sql_persistent.never_triggered_def)
  have keeps: "we_store env = sql_iface co sha L \<and> keeps_key (alerting_env_of env cfg1)"
    if "we_store env = sql_iface co sha L" "c_Alerting cfg1 = c_Alerting cfg" for env and cfg1 :: Config
    using that assms(5) by (auto simp: keeps_key_def alerting_env_of_def split: option.splits)
  have s2: "sq_db s2 = sq_db s1" "0 \<le> sq_maximumNumberOfResults s2"
    using assms(7,8,9) by (auto simp: Initialize_def Sql_NewStore_def Sql_Close_def clear_cache_def open_tables_def Let_def
        split: if_splits)
  then have ok2: "sql_store_ok s1 \<Longrightarrow> sql_store_ok s2" and st2: "stored_alert s2 k c = stored_alert s1 k c" for k c
    by (simp_all add: sql_store_ok_def stored_alert_def split: option.split)
  note r = sql_persistent.restart [OF assms(1-3) eps assms(6) keeps ok2 st2 assms(10-13)]
  show ?thesis by (intro conjI impI r)
qed

text \<open>A front end whose alert is triggered by two failures, watched with a database.\<close>

definition sql_watched_env :: "(string \<times> Status) list Sql_Store watch_env" where
  "sql_watched_env =
     \<lparr>we_cancelled = False, we_connected = True, we_checked_at = 0, we_inserted_at = 0, we_windows_at = 0,
      we_heartbeat_at = 0, we_heartbeat_made_at = 0, we_Local = UTC, we_probe = example_probe, we_suite = example_suite_env,
      we_alert_now = (\<lambda>i. 0), we_alert_sent_at = (\<lambda>i. 0), we_mock = False, we_mock_error = False,
      we_store = sql_iface list_sql_cache (\<lambda>x. x) UTC\<rparr>"

definition sql_storage_config :: Storage_Config where
  "sql_storage_config =
     \<lparr>sto_Path = ''data.db'', sto_Type = ''sqlite'', sto_Caching = True, sto_MaximumNumberOfResults = 2,
      sto_MaximumNumberOfEvents = 5\<rparr>"

definition opened_disk :: "(string \<times> Status) list Sql_Store option \<Rightarrow> string \<Rightarrow> Db option" where
  "opened_disk s path = (if path = ''data.db'' then map_option sq_db s else None)"

definition start_watched :: "(string \<times> Status) list Sql_Store option \<Rightarrow>
  (Config \<times> (string \<times> Status) list Sql_Store) option" where
  "start_watched left =
     (case Initialize list_cache list_cache [] (opened_disk left) (Some sql_storage_config) of
        Inr (Opened_Sql s) \<Rightarrow> Some (initializeStorage (sql_iface list_sql_cache (\<lambda>x. x) UTC) (Checksum (\<lambda>x. x)) watched_config s)
      | _ \<Rightarrow> None)"

lemma restart_example:
  "case start_watched None of None \<Rightarrow> False
   | Some (cfg0, s0) \<Rightarrow>
       (case watch_rounds [(sql_watched_env, 0), (sql_watched_env, 1), (sql_watched_env, 0)] (cfg0, s0, [], []) of
          None \<Rightarrow> False
        | Some (cfg1, s1, tr, obs) \<Rightarrow> al_Triggered (e_Alerts (c_Endpoints cfg1 ! 0) ! 0))"
  by code_simp

theorem restart_keeps_alerts_witness:
  "\<exists>cfg0 s0 cfg1 s1 tr obs cfg3 s3.
     start_watched None = Some (cfg0, s0) \<and>
     watch_rounds [(sql_watched_env, 0), (sql_watched_env, 1), (sql_watched_env, 0)] (cfg0, s0, [], []) =
       Some (cfg1, s1, tr, obs) \<and>
     start_watched (Some (Sql_Close list_sql_cache s1)) = Some (cfg3, s3) \<and>
     al_Triggered (e_Alerts (c_Endpoints cfg3 ! 0) ! 0)"
proof -
  let ?rounds = "[(sql_watched_env, 0), (sql_watched_env, 1), (sql_watched_env, 0)]"
  let ?iface = "sql_iface list_sql_cache (\<lambda>x. x) UTC" and ?sum = "Checksum (\<lambda>x. x)"
  let ?init = "\<lambda>left. Initialize list_cache list_cache [] (opened_disk left) (Some sql_storage_config) ::
    sql_open_error + ((string \<times> Status) list, (string \<times> Suite_Status) list, (string \<times> Status) list) opened_store"
  obtain cfg0 s0 cfg1 s1 tr obs where start: "start_watched None = Some (cfg0, s0)"
    and rounds: "watch_rounds ?rounds (cfg0, s0, [], []) = Some (cfg1, s1, tr, obs)"
    and triggered: "al_Triggered (e_Alerts (c_Endpoints cfg1 ! 0) ! 0)"
    using restart_example by (auto split: option.splits)
  have opened: "\<exists>s. ?init left = Inr (Opened_Sql s) \<and> sq_maximumNumberOfResults s = 2 \<and>
      sq_db s = (case left of None \<Rightarrow> createSQLiteSchema | Some t \<Rightarrow> sq_db t)" for left
    by (simp add: Initialize_def Sql_NewStore_def sql_storage_config_def open_tables_def opened_disk_def Let_def
        TypeSQLite_def split: option.split)
  obtain s where s: "?init None = Inr (Opened_Sql s)" and ok: "sql_store_ok s"
    using opened [of None] by (auto simp: sql_store_ok_def schema_ok)
  obtain s2 where s2: "?init (Some (Sql_Close list_sql_cache s1)) = Inr (Opened_Sql s2)" using opened by blast
  have i0: "initializeStorage ?iface ?sum watched_config s = (cfg0, s0)"
    using start by (simp add: start_watched_def s)
  obtain cfg3 s3 where i3: "initializeStorage ?iface ?sum watched_config s2 = (cfg3, s3)" by fastforce
  then have restart: "start_watched (Some (Sql_Close list_sql_cache s1)) = Some (cfg3, s3)"
    by (simp add: start_watched_def s2)
  let ?ok = "\<lambda>env. we_store env = ?iface"
  have run: "watch_run ?ok cfg0 s0 (cfg1, s1, tr, obs)"
    by (rule watch_rounds_run [OF rounds watch_run.start]) (simp add: sql_watched_env_def)
  have keys: "distinct (preserved_keys watched_config)" by code_simp
  have eps: "c_Endpoints watched_config = [hiding_endpoint\<lparr>e_Alerts := [slack_alert]\<rparr>, hiding_endpoint\<lparr>e_Name := ''api''\<rparr>]"
    and hid: "e_Alerts hiding_endpoint = []" "e_KeyOverride hiding_endpoint = []"
    by (simp_all add: watched_config_def hiding_endpoint_def example_endpoint_def empty_Endpoint_def)
  have providers: "fst (ap_Send p i ep a r b) = None" if "c_Alerting watched_config = Some alerting"
    "GetAlertingProviderByAlertType alerting ty = Some p" for alerting ty p i ep a r b
    using that by (auto simp: watched_config_def GetAlertingProviderByAlertType_eq split: if_splits)
  have "al_Triggered (e_Alerts (c_Endpoints cfg3 ! 0) ! 0) = al_Triggered (e_Alerts (c_Endpoints cfg1 ! 0) ! 0)"
    using restart_keeps_alerts [OF i0 ok keys _ _ run s2 _ _ i3, of 0 0] eps hid providers
    by (auto simp: distinct_checksums_def opened_disk_def sql_storage_config_def)
  then show ?thesis using start rounds restart triggered by blast
qed

end
