(* ===== verification/Go_Url.thy ===== *)
theory Go_Url
  imports Go_Numbers
begin

text \<open>
  What the program uses of \<open>net/url\<close> and \<open>encoding/base64\<close>: the decoding of keys in the
  paths of requests, the encoding of the parts of a URL and of a form, and the encoding of credentials.
  Strings are lists of bytes.
\<close>

section \<open>Hexadecimal digits\<close>

definition unhex :: "char \<Rightarrow> nat" where
  "unhex c = (case digit_value c of Some d \<Rightarrow> d | None \<Rightarrow> 0)"

definition upper_hex :: "nat \<Rightarrow> char" where
  "upper_hex n = ''0123456789ABCDEF'' ! n"

definition percent :: "char \<Rightarrow> string" where
  "percent c = [CHR ''%'', upper_hex (of_char c div 16), upper_hex (of_char c mod 16)]"

section \<open>Parts of a URL\<close>

text \<open>\<open>url.QueryUnescape\<close>: a plus is a space, a percent sign must be followed by two hexadecimal digits.\<close>

fun QueryUnescape :: "string \<Rightarrow> string option" where
  "QueryUnescape [] = Some []"
| "QueryUnescape (c # s) =
     (if c = CHR ''%'' then
        (case s of
           a # b # rest \<Rightarrow>
             if is_hex_digit a \<and> is_hex_digit b
             then map_option (Cons (char_of (16 * unhex a + unhex b))) (QueryUnescape rest) else None
         | _ \<Rightarrow> None)
      else map_option (Cons (if c = CHR ''+'' then CHR '' '' else c)) (QueryUnescape s))"

definition unreserved :: "char \<Rightarrow> bool" where
  "unreserved c \<longleftrightarrow> is_digit c \<or> c \<in> set ''abcdefghijklmnopqrstuvwxyz'' \<or>
     c \<in> set ''ABCDEFGHIJKLMNOPQRSTUVWXYZ'' \<or> c \<in> set ''-_.~''"

definition path_safe :: "char \<Rightarrow> bool" where
  "path_safe c \<longleftrightarrow> unreserved c \<or> c \<in> set ''$&+=:@''"

text \<open>\<open>url.PathEscape\<close> and \<open>url.QueryEscape\<close>.\<close>

definition PathEscape :: "string \<Rightarrow> string" where
  "PathEscape s = concat (map (\<lambda>c. if path_safe c then [c] else percent c) s)"

definition QueryEscape :: "string \<Rightarrow> string" where
  "QueryEscape s =
     concat (map (\<lambda>c. if unreserved c then [c] else if c = CHR '' '' then ''+'' else percent c) s)"

text \<open>\<open>url.Values.Encode\<close> of a form whose fields have one value each: by keys, in order.\<close>

definition Values_Encode :: "(string \<times> string) list \<Rightarrow> string" where
  "Values_Encode kvs =
     Join (map (\<lambda>(k, v). QueryEscape k @ ''='' @ QueryEscape v) (sort_key fst kvs)) ''&''"

section \<open>Base 64\<close>

definition base64_char :: "nat \<Rightarrow> char" where
  "base64_char n = ''ABCDEFGHIJKLMNOPQRSTUVWXYZabcdefghijklmnopqrstuvwxyz0123456789+/'' ! n"

definition base64_group :: "nat \<Rightarrow> string" where
  "base64_group n =
     map (\<lambda>i. base64_char ((n div 64 ^ i) mod 64)) [3, 2, 1, 0]"

text \<open>\<open>base64.StdEncoding.EncodeToString\<close>, with padding.\<close>

fun Base64 :: "string \<Rightarrow> string" where
  "Base64 (a # b # c # s) =
     base64_group (of_char a * 65536 + of_char b * 256 + of_char c) @ Base64 s"
| "Base64 [a, b] = take 3 (base64_group (of_char a * 65536 + of_char b * 256)) @ ''=''"
| "Base64 [a] = take 2 (base64_group (of_char a * 65536)) @ ''==''"
| "Base64 [] = []"

section \<open>Facts\<close>

text \<open>A byte that is escaped is read back.\<close>

lemma upper_hex_digit: "n < 16 \<Longrightarrow> is_hex_digit (upper_hex n) \<and> unhex (upper_hex n) = n"
proof -
  have "\<forall>n < 16. is_hex_digit (upper_hex n) \<and> unhex (upper_hex n) = n"
    by code_simp
  then show "n < 16 \<Longrightarrow> is_hex_digit (upper_hex n) \<and> unhex (upper_hex n) = n" by blast
qed

lemma escaped_byte: "char_of (16 * unhex (upper_hex (of_char c div 16)) + unhex (upper_hex (of_char c mod 16))) = (c :: char)"
proof -
  have "(of_char c :: nat) < 256" by simp
  then have "(of_char c :: nat) div 16 < 16" "(of_char c :: nat) mod 16 < 16" by linarith+
  then show ?thesis by (simp add: upper_hex_digit del: char_of_take_bit_eq)
qed

lemma QueryUnescape_percent: "QueryUnescape (percent c @ s) = map_option (Cons c) (QueryUnescape s)"
proof -
  have "(of_char c :: nat) < 256" by simp
  then have h: "(of_char c :: nat) div 16 < 16" "(of_char c :: nat) mod 16 < 16" by linarith+
  show ?thesis
    using upper_hex_digit [OF h(1)] upper_hex_digit [OF h(2)] escaped_byte [of c] by (simp add: percent_def)
qed

lemma unreserved_plain: "unreserved c \<Longrightarrow> c \<noteq> CHR ''%'' \<and> c \<noteq> CHR ''+''"
  by (auto simp: unreserved_def is_digit_def)

lemma QueryUnescape_PathEscape: "CHR ''+'' \<notin> set s \<Longrightarrow> QueryUnescape (PathEscape s) = Some s"
proof (induction s)
  case (Cons c s)
  have "path_safe c \<Longrightarrow> c \<noteq> CHR ''%''" using unreserved_plain by (auto simp: path_safe_def)
  then show ?case using Cons by (auto simp: PathEscape_def QueryUnescape_percent)
qed (simp add: PathEscape_def)

lemma QueryUnescape_QueryEscape: "QueryUnescape (QueryEscape s) = Some s"
proof (induction s)
  case (Cons c s)
  then show ?case using unreserved_plain [of c] by (auto simp: QueryEscape_def QueryUnescape_percent)
qed (simp add: QueryEscape_def)

end
