(* ===== verification/Go_Floats.thy ===== *)
theory Go_Floats
  imports Go_Numbers
begin

text \<open>What is computed with floats beyond comparing them: scaling, rounding up and printing.\<close>

text \<open>The exact value of a float is a fraction with a power of two.\<close>

definition f64_frac :: "nat \<Rightarrow> int \<Rightarrow> nat \<times> nat" where
  "f64_frac m e = (m * 2 ^ nat e, 2 ^ nat (- e))"

definition f64_ge :: "f64 \<Rightarrow> f64 \<Rightarrow> bool" where
  "f64_ge x y =
     (case (x, y) of
        (F_Fin a m e, F_Fin b m' e') \<Rightarrow>
          (let (n, d) = f64_frac m e; (n', d') = f64_frac m' e';
               sx = (if a then - 1 else 1); sy = (if b then - 1 else 1)
           in sy * int (n' * d) \<le> sx * int (n * d'))
      | (F_Inf a, F_Inf b) \<Rightarrow> \<not> a \<or> b
      | (F_Inf a, F_Fin _ _ _) \<Rightarrow> \<not> a
      | (F_Fin _ _ _, F_Inf b) \<Rightarrow> b
      | _ \<Rightarrow> False)"

text \<open>The product with \<open>p / q\<close>, which is a float itself, and the float of an integer.\<close>

definition f64_scale :: "f64 \<Rightarrow> nat \<Rightarrow> nat \<Rightarrow> f64" where
  "f64_scale x p q =
     (case x of F_Fin a m e \<Rightarrow> (let (n, d) = f64_frac m e in round_f64 a (n * p) (d * q)) | _ \<Rightarrow> x)"

definition f64_of_int :: "int \<Rightarrow> f64" where
  "f64_of_int i = round_f64 (i < 0) (nat \<bar>i\<bar>) 1"

text \<open>\<open>math.Ceil\<close>, as an integer.\<close>

definition f64_ceil :: "f64 \<Rightarrow> int" where
  "f64_ceil x =
     (case x of
        F_Fin a m e \<Rightarrow>
          (let (n, d) = f64_frac m e in if a then - int (n div d) else - ((- int n) div int d))
      | _ \<Rightarrow> 0)"

text \<open>\<open>%.<prec>f\<close>: the exact value rounded to the nearest decimal, ties to even.\<close>

definition pad_zeros :: "nat \<Rightarrow> string \<Rightarrow> string" where
  "pad_zeros n s = replicate (n - length s) (CHR ''0'') @ s"

definition FormatFixed :: "nat \<Rightarrow> f64 \<Rightarrow> string" where
  "FormatFixed prec x =
     (case x of
        F_NaN \<Rightarrow> ''NaN''
      | F_Inf neg \<Rightarrow> (if neg then ''-Inf'' else ''+Inf'')
      | F_Fin neg m e \<Rightarrow>
          let (n, d) = f64_frac m e;
              v = round_half_even (n * 10 ^ prec) d
          in (if neg then ''-'' else []) @ nat_dec (v div 10 ^ prec) @
             (if prec = 0 then [] else CHR ''.'' # pad_zeros prec (nat_dec (v mod 10 ^ prec))))"

end
