(* ===== verification/Api_Base.thy ===== *)
theory Api_Base
  imports Restart Go_Url Go_Floats
begin

text \<open>
  What the handlers of \<open>api/\<close> share: requests and responses, the
  paging parameters of \<open>api/util.go\<close> and the operations of the storage they read with.

  The web framework is a parameter: a request is what its accessors return, a response what was
  sent. The accessors of query parameters need not agree with each other when a parameter is given twice.
\<close>

section \<open>Requests and responses\<close>

record api_request =
  ar_param :: "string \<Rightarrow> string"
  ar_query :: "string \<Rightarrow> string"
  ar_queries :: "string \<Rightarrow> string option"
  ar_query_bool :: "string \<Rightarrow> bool"
  ar_header :: "string \<Rightarrow> string"
  ar_cookie :: "string \<Rightarrow> string"

text \<open>What is sent: a text, or the value that is marshalled.\<close>

datatype body =
    Text string
  | Statuses "Status list"
  | One_Status Status
  | Suites "Suite_Status list"
  | One_Suite Suite_Status
  | History "(int \<times> int) list"
  | Error_Object string
  | Shields int string string string
  | Rendered "(int \<times> int) list" int
  | Page_View string
  | Client_Config bool bool "Announcement list"

record response =
  rs_status :: int
  rs_type :: string
  rs_location :: string
  rs_body :: body

definition send :: "int \<Rightarrow> string \<Rightarrow> body \<Rightarrow> response" where
  "send status contentType b = \<lparr>rs_status = status, rs_type = contentType, rs_location = [], rs_body = b\<rparr>"

definition send_string :: "int \<Rightarrow> string \<Rightarrow> response" where
  "send_string status s = send status ''text/plain'' (Text s)"

section \<open>Paging parameters\<close>

definition DefaultPage :: int where "DefaultPage = 1"
definition DefaultPageSize :: int where "DefaultPageSize = 50"

definition extractPageAndPageSizeFromRequest :: "api_request \<Rightarrow> int \<Rightarrow> int \<times> int" where
  "extractPageAndPageSizeFromRequest c maxResults =
     (let pageParameter = ar_query c ''page'';
          page = (if pageParameter = [] then DefaultPage
                  else case Atoi pageParameter of
                         None \<Rightarrow> DefaultPage
                       | Some p \<Rightarrow> if p < 1 then DefaultPage else p);
          pageSizeParameter = ar_query c ''pageSize'';
          pageSize = (if pageSizeParameter = [] then DefaultPageSize
                      else case Atoi pageSizeParameter of None \<Rightarrow> DefaultPageSize | Some n \<Rightarrow> n);
          pageSize = (if page = 1 \<and> maxResults < pageSize then maxResults
                      else if pageSize < 1 then DefaultPageSize else pageSize)
      in (page, pageSize))"

section \<open>What is read from the storage\<close>

datatype read_error = Storage_Error store_error | Other_Error string

definition error_text :: "read_error \<Rightarrow> string" where
  "error_text err =
     (case err of
        Storage_Error ErrEndpointNotFound \<Rightarrow> ''endpoint not found''
      | Storage_Error ErrSuiteNotFound \<Rightarrow> ''suite not found''
      | Storage_Error ErrInvalidTimeRange \<Rightarrow> [CHR 0x27] @ ''from'' @ [CHR 0x27] @ '' cannot be older than '' @ [CHR 0x27] @ ''to'' @ [CHR 0x27]
      | Other_Error s \<Rightarrow> s)"

definition error_response :: "read_error \<Rightarrow> response" where
  "error_response err =
     send_string (case err of Storage_Error ErrEndpointNotFound \<Rightarrow> 404
                  | Storage_Error ErrInvalidTimeRange \<Rightarrow> 400 | _ \<Rightarrow> 500) (error_text err)"

record 's api_store =
  as_iface :: "'s store_iface"
  as_InsertEndpointResult :: "'s \<Rightarrow> instant \<Rightarrow> Endpoint \<Rightarrow> Result \<Rightarrow> read_error option \<times> 's"
  as_GetEndpointStatusByKey :: "'s \<Rightarrow> string \<Rightarrow> EndpointStatusParams \<Rightarrow> ((read_error + Status) \<times> 's) outcome"
  as_GetAllEndpointStatuses :: "'s \<Rightarrow> EndpointStatusParams \<Rightarrow> ((read_error + Status list) \<times> 's) outcome"
  as_GetSuiteStatusByKey :: "'s \<Rightarrow> string \<Rightarrow> SuiteStatusParams \<Rightarrow> (read_error + Suite_Status option) outcome"
  as_GetAllSuiteStatuses :: "'s \<Rightarrow> SuiteStatusParams \<Rightarrow> (read_error + Suite_Status list) outcome"
  as_GetUptimeByKey :: "'s \<Rightarrow> string \<Rightarrow> instant \<Rightarrow> instant \<Rightarrow> read_error + f64"
  as_GetAverageResponseTimeByKey :: "'s \<Rightarrow> string \<Rightarrow> instant \<Rightarrow> instant \<Rightarrow> read_error + int"
  as_GetHourlyAverageResponseTimeByKey :: "'s \<Rightarrow> string \<Rightarrow> instant \<Rightarrow> instant \<Rightarrow> read_error + (int \<times> int) list"

definition memory_api :: "'e endpoint_cache \<Rightarrow> 's suite_cache \<Rightarrow> ('e, 's) Store api_store" where
  "memory_api ec sc =
     \<lparr>as_iface = memory_iface ec sc,
      as_InsertEndpointResult = (\<lambda>s now ep r. (None, InsertEndpointResult ec now s ep r)),
      as_GetEndpointStatusByKey = (\<lambda>s k p.
        map_outcome (\<lambda>x. (map_sum Storage_Error (\<lambda>y. y) x, s)) (GetEndpointStatusByKey ec s k (Some p))),
      as_GetAllEndpointStatuses = (\<lambda>s p. map_outcome (\<lambda>x. (Inr x, s)) (GetAllEndpointStatuses ec s (Some p))),
      as_GetSuiteStatusByKey = (\<lambda>s k p. map_outcome (map_sum Storage_Error Some) (GetSuiteStatusByKey sc s k (Some p))),
      as_GetAllSuiteStatuses = (\<lambda>s p. map_outcome Inr (GetAllSuiteStatuses sc s (Some p))),
      as_GetUptimeByKey = (\<lambda>s k t t'. map_sum Storage_Error (\<lambda>y. y) (GetUptimeByKey ec s k t t')),
      as_GetAverageResponseTimeByKey =
        (\<lambda>s k t t'. map_sum Storage_Error (\<lambda>y. y) (GetAverageResponseTimeByKey ec s k t t')),
      as_GetHourlyAverageResponseTimeByKey =
        (\<lambda>s k t t'. map_sum Storage_Error (\<lambda>y. y) (GetHourlyAverageResponseTimeByKey ec s k t t'))\<rparr>"

text \<open>The text of a violated constraint is the database driver's.\<close>

definition sql_read_error :: "string \<Rightarrow> sql_error \<Rightarrow> read_error" where
  "sql_read_error driver_text err =
     (case err of
        ErrNotFound e \<Rightarrow> Storage_Error e
      | ErrTimestampZero \<Rightarrow> Other_Error ''timestamp is zero''
      | ErrConstraint \<Rightarrow> Other_Error driver_text)"

definition sql_api ::
  "'c sql_cache_ops \<Rightarrow> (string \<Rightarrow> string) \<Rightarrow> location \<Rightarrow> string \<Rightarrow> 'c Sql_Store api_store" where
  "sql_api co sha Local driver_text =
     \<lparr>as_iface = sql_iface co sha Local,
      as_InsertEndpointResult = (\<lambda>s now ep r.
        case Sql_InsertEndpointResult co Local now s ep r of
          (err, s') \<Rightarrow> (map_option (sql_read_error driver_text) err, s')),
      as_GetEndpointStatusByKey = (\<lambda>s k p.
        case Sql_GetEndpointStatusByKey co s k p of
          (x, s') \<Rightarrow> Return (map_sum (sql_read_error driver_text) (\<lambda>y. y) x, s')),
      as_GetAllEndpointStatuses = (\<lambda>s p.
        case Sql_GetAllEndpointStatuses co s p of (x, s') \<Rightarrow> Return (Inr x, s')),
      as_GetSuiteStatusByKey = (\<lambda>s k p. Return (Inr (Sql_GetSuiteStatusByKey s k (Some p)))),
      as_GetAllSuiteStatuses = (\<lambda>s p. Return (Inr (Sql_GetAllSuiteStatuses s (Some p)))),
      as_GetUptimeByKey = (\<lambda>s k t t'. map_sum Storage_Error (\<lambda>y. y) (Sql_GetUptimeByKey s k t t')),
      as_GetAverageResponseTimeByKey =
        (\<lambda>s k t t'. map_sum Storage_Error (\<lambda>y. y) (Sql_GetAverageResponseTimeByKey s k t t')),
      as_GetHourlyAverageResponseTimeByKey =
        (\<lambda>s k t t'. map_sum Storage_Error (\<lambda>y. y) (Sql_GetHourlyAverageResponseTimeByKey s k t t'))\<rparr>"

section \<open>Facts\<close>

lemma extract_bounds:
  assumes "extractPageAndPageSizeFromRequest c m = (page, pageSize)"
  shows "1 \<le> page" and "page = 1 \<Longrightarrow> pageSize \<le> m \<or> pageSize = DefaultPageSize"
    and "0 < m \<Longrightarrow> 0 < pageSize"
  using assms
  by (auto simp: extractPageAndPageSizeFromRequest_def DefaultPage_def DefaultPageSize_def Let_def
      split: if_splits option.splits)

end
