(* ===== verification/Api_Badges.thy ===== *)
theory Api_Badges
  imports Api_Base
begin

text \<open>
  \<open>api/raw.go\<close>, \<open>api/badge.go\<close> and \<open>api/chart.go\<close>: the uptime, the response time and the
  health of an endpoint as texts, pictures and data. The library that draws the chart is a
  parameter.
\<close>

section \<open>The ranges\<close>

definition badge_start :: "string \<Rightarrow> instant \<Rightarrow> instant option" where
  "badge_start duration now =
     (if duration = ''30d'' then Some (now - 30 * 24 * hour)
      else if duration = ''7d'' then Some (now - 7 * 24 * hour)
      else if duration = ''24h'' then Some (now - 24 * hour)
      else if duration = ''1h'' then Some (now - 2 * hour)
      else None)"

definition chart_start :: "string \<Rightarrow> instant \<Rightarrow> instant option" where
  "chart_start duration now =
     (let t = Truncate_time now hour
      in if duration = ''30d'' then Some (t - 30 * 24 * hour)
         else if duration = ''7d'' then Some (t - 7 * 24 * hour)
         else if duration = ''24h'' then Some (t - 24 * hour)
         else None)"

text \<open>What every handler of a range does first.\<close>

definition for_range ::
  "instant option \<Rightarrow> string \<Rightarrow> api_request \<Rightarrow> (instant \<Rightarrow> string \<Rightarrow> 'a) \<Rightarrow> (response \<Rightarrow> 'a) \<Rightarrow> 'a" where
  "for_range start supported c f reject =
     (case start of
        None \<Rightarrow> reject (send_string 400 supported)
      | Some t \<Rightarrow>
          (case QueryUnescape (ar_param c ''key'') of
             None \<Rightarrow> reject (send_string 400 ''invalid key encoding'')
           | Some k \<Rightarrow> f t k))"

definition badge_durations :: string where "badge_durations = ''Durations supported: 30d, 7d, 24h, 1h''"
definition chart_durations :: string where "chart_durations = ''Durations supported: 30d, 7d, 24h''"

section \<open>Raw values\<close>

definition UptimeRaw :: "'s api_store \<Rightarrow> 's \<Rightarrow> instant \<Rightarrow> instant \<Rightarrow> api_request \<Rightarrow> response" where
  "UptimeRaw api s now now' c =
     for_range (badge_start (ar_param c ''duration'') now) badge_durations c
       (\<lambda>start k. case as_GetUptimeByKey api s k start now' of
          Inl err \<Rightarrow> error_response err
        | Inr uptime \<Rightarrow> send 200 ''text/plain'' (Text (FormatFixed 6 uptime))) (\<lambda>r. r)"

definition ResponseTimeRaw :: "'s api_store \<Rightarrow> 's \<Rightarrow> instant \<Rightarrow> instant \<Rightarrow> api_request \<Rightarrow> response" where
  "ResponseTimeRaw api s now now' c =
     for_range (badge_start (ar_param c ''duration'') now) badge_durations c
       (\<lambda>start k. case as_GetAverageResponseTimeByKey api s k start now' of
          Inl err \<Rightarrow> error_response err
        | Inr responseTime \<Rightarrow> send 200 ''text/plain'' (Text (Itoa responseTime))) (\<lambda>r. r)"

section \<open>Pictures\<close>

definition badgeColorHexAwesome :: string where "badgeColorHexAwesome = ''#40cc11''"
definition badgeColorHexGreat :: string where "badgeColorHexGreat = ''#94cc11''"
definition badgeColorHexGood :: string where "badgeColorHexGood = ''#ccd311''"
definition badgeColorHexPassable :: string where "badgeColorHexPassable = ''#ccb311''"
definition badgeColorHexBad :: string where "badgeColorHexBad = ''#cc8111''"
definition badgeColorHexVeryBad :: string where "badgeColorHexVeryBad = ''#c7130a''"

definition badgeColors :: "string list" where
  "badgeColors = [badgeColorHexAwesome, badgeColorHexGreat, badgeColorHexGood, badgeColorHexPassable, badgeColorHexBad]"

text \<open>The template the three pictures share: the widths, the color, the label and the value.\<close>

definition svg_lines :: "int \<Rightarrow> int \<Rightarrow> string \<Rightarrow> int \<Rightarrow> int \<Rightarrow> string \<Rightarrow> int \<Rightarrow> string \<Rightarrow> string list" where
  "svg_lines width labelWidth color valueWidth labelX label valueX v =
     [''<svg xmlns=\"http://www.w3.org/2000/svg\" width=\"'' @ Itoa width @ ''\" height=\"20\">'',
      ''  <linearGradient id=\"b\" x2=\"0\" y2=\"100%\">'',
      ''    <stop offset=\"0\" stop-color=\"#bbb\" stop-opacity=\".1\"/>'',
      ''    <stop offset=\"1\" stop-opacity=\".1\"/>'',
      ''  </linearGradient>'',
      ''  <mask id=\"a\">'',
      ''    <rect width=\"'' @ Itoa width @ ''\" height=\"20\" rx=\"3\" fill=\"#fff\"/>'',
      ''  </mask>'',
      ''  <g mask=\"url(#a)\">'',
      ''    <path fill=\"#555\" d=\"M0 0h'' @ Itoa labelWidth @ ''v20H0z\"/>'',
      ''    <path fill=\"'' @ color @ ''\" d=\"M'' @ Itoa labelWidth @ '' 0h'' @ Itoa valueWidth @ ''v20H'' @
        Itoa labelWidth @ ''z\"/>'',
      ''    <path fill=\"url(#b)\" d=\"M0 0h'' @ Itoa width @ ''v20H0z\"/>'',
      ''  </g>'',
      ''  <g fill=\"#fff\" text-anchor=\"middle\" font-family=\"DejaVu Sans,Verdana,Geneva,sans-serif\" font-size=\"11\">'',
      ''    <text x=\"'' @ Itoa labelX @ ''\" y=\"15\" fill=\"#010101\" fill-opacity=\".3\">'',
      ''      '' @ label,
      ''    </text>'',
      ''    <text x=\"'' @ Itoa labelX @ ''\" y=\"14\">'',
      ''      '' @ label,
      ''    </text>'',
      ''    <text x=\"'' @ Itoa valueX @ ''\" y=\"15\" fill=\"#010101\" fill-opacity=\".3\">'',
      ''      '' @ v,
      ''    </text>'',
      ''    <text x=\"'' @ Itoa valueX @ ''\" y=\"14\">'',
      ''      '' @ v,
      ''    </text>'',
      ''  </g>'',
      ''</svg>'']"

definition badge_svg :: "int \<Rightarrow> int \<Rightarrow> string \<Rightarrow> string \<Rightarrow> string \<Rightarrow> string" where
  "badge_svg labelWidth valueWidth color label v =
     Join (svg_lines (labelWidth + valueWidth) labelWidth color valueWidth (labelWidth div 2) label
       (labelWidth + valueWidth div 2) v) [CHR 0x0A]"

definition getBadgeColorFromUptime :: "f64 \<Rightarrow> string" where
  "getBadgeColorFromUptime uptime =
     (if f64_ge uptime (round_f64 False 975 1000) then badgeColorHexAwesome
      else if f64_ge uptime (round_f64 False 95 100) then badgeColorHexGreat
      else if f64_ge uptime (round_f64 False 9 10) then badgeColorHexGood
      else if f64_ge uptime (round_f64 False 8 10) then badgeColorHexPassable
      else if f64_ge uptime (round_f64 False 65 100) then badgeColorHexBad
      else badgeColorHexVeryBad)"

definition TrimRight1 :: "string \<Rightarrow> char \<Rightarrow> string" where
  "TrimRight1 s c = rev (dropWhile (\<lambda>x. x = c) (rev s))"

definition uptime_text :: "f64 \<Rightarrow> string" where
  "uptime_text uptime =
     TrimRight1 (TrimRight1 (FormatFixed 2 (f64_scale uptime 100 1)) (CHR ''0'')) (CHR ''.'') @ ''%''"

definition generateUptimeBadgeSVG :: "string \<Rightarrow> f64 \<Rightarrow> string" where
  "generateUptimeBadgeSVG duration uptime =
     (let labelWidth = (if duration = ''30d'' \<or> duration = ''24h'' then 70
                        else if duration = ''7d'' \<or> duration = ''1h'' then 65 else 0);
          sanitizedValue = uptime_text uptime;
          valueWidthAdjustment = (if Contains sanitizedValue ''.'' then - 10 else 0)
      in badge_svg labelWidth (int (length sanitizedValue) * 11 + valueWidthAdjustment)
           (getBadgeColorFromUptime uptime) (''uptime '' @ duration) sanitizedValue)"

definition UptimeBadge :: "'s api_store \<Rightarrow> 's \<Rightarrow> instant \<Rightarrow> instant \<Rightarrow> api_request \<Rightarrow> response" where
  "UptimeBadge api s now now' c =
     (let duration = ar_param c ''duration''
      in for_range (badge_start duration now) badge_durations c
           (\<lambda>start k. case as_GetUptimeByKey api s k start now' of
              Inl err \<Rightarrow> error_response err
            | Inr uptime \<Rightarrow> send 200 ''image/svg+xml'' (Text (generateUptimeBadgeSVG duration uptime))) (\<lambda>r. r))"

text \<open>
  The thresholds are those of the endpoint, or the default ones; there are five after the
  validation, and a missing one would be an index out of range.
\<close>

fun threshold_color :: "int \<Rightarrow> int list \<Rightarrow> string list \<Rightarrow> string outcome" where
  "threshold_color responseTime thresholds [] = Return badgeColorHexVeryBad"
| "threshold_color responseTime [] (color # colors) = Panic ''index out of range''"
| "threshold_color responseTime (t # thresholds) (color # colors) =
     (if responseTime \<le> t then Return color else threshold_color responseTime thresholds colors)"

definition badge_thresholds :: "UI_Config option \<Rightarrow> int list outcome" where
  "badge_thresholds ui =
     (case ui of
        Some u \<Rightarrow> (case ui_Badge u of Some (Some ts) \<Rightarrow> Return ts | _ \<Rightarrow> Panic ''nil pointer dereference'')
      | None \<Rightarrow> Panic ''nil pointer dereference'')"

definition getBadgeColorFromResponseTime :: "int \<Rightarrow> string \<Rightarrow> Config \<Rightarrow> string outcome" where
  "getBadgeColorFromResponseTime responseTime k cfg =
     (case badge_thresholds (case GetEndpointByKey cfg k of
                               Some ep \<Rightarrow> e_UIConfig ep | None \<Rightarrow> Some UI_GetDefaultConfig) of
        Panic e \<Rightarrow> Panic e
      | Return thresholds \<Rightarrow> threshold_color responseTime thresholds badgeColors)"

definition generateResponseTimeBadgeSVG :: "string \<Rightarrow> int \<Rightarrow> string \<Rightarrow> Config \<Rightarrow> string outcome" where
  "generateResponseTimeBadgeSVG duration averageResponseTime k cfg =
     (let labelWidth = (if duration = ''30d'' \<or> duration = ''24h'' then 110
                        else if duration = ''7d'' \<or> duration = ''1h'' then 105 else 0);
          sanitizedValue = Itoa averageResponseTime @ ''ms''
      in map_outcome (\<lambda>color.
           badge_svg labelWidth (int (length sanitizedValue) * 11) color (''response time '' @ duration) sanitizedValue)
           (getBadgeColorFromResponseTime averageResponseTime k cfg))"

definition ResponseTimeBadge ::
  "Config \<Rightarrow> 's api_store \<Rightarrow> 's \<Rightarrow> instant \<Rightarrow> instant \<Rightarrow> api_request \<Rightarrow> response outcome" where
  "ResponseTimeBadge cfg api s now now' c =
     (let duration = ar_param c ''duration''
      in for_range (badge_start duration now) badge_durations c
           (\<lambda>start k. case as_GetAverageResponseTimeByKey api s k start now' of
              Inl err \<Rightarrow> Return (error_response err)
            | Inr t \<Rightarrow> map_outcome (\<lambda>svg. send 200 ''image/svg+xml'' (Text svg))
                         (generateResponseTimeBadgeSVG duration t k cfg)) Return)"

section \<open>Health\<close>

definition HealthStatusUp :: string where "HealthStatusUp = ''up''"
definition HealthStatusDown :: string where "HealthStatusDown = ''down''"
definition HealthStatusUnknown :: string where "HealthStatusUnknown = ''?''"

definition getBadgeColorFromHealth :: "string \<Rightarrow> string" where
  "getBadgeColorFromHealth healthStatus =
     (if healthStatus = HealthStatusUp then badgeColorHexAwesome
      else if healthStatus = HealthStatusDown then badgeColorHexVeryBad else badgeColorHexPassable)"

definition getBadgeShieldsColorFromHealth :: "string \<Rightarrow> string" where
  "getBadgeShieldsColorFromHealth healthStatus =
     (if healthStatus = HealthStatusUp then ''brightgreen''
      else if healthStatus = HealthStatusDown then ''red'' else ''yellow'')"

definition generateHealthBadgeSVG :: "string \<Rightarrow> string" where
  "generateHealthBadgeSVG healthStatus =
     (let valueWidth = (if healthStatus = HealthStatusUp then 28
                        else if healthStatus = HealthStatusDown then 44
                        else if healthStatus = HealthStatusUnknown then 10 else 0)
      in badge_svg 48 valueWidth (getBadgeColorFromHealth healthStatus) ''health'' healthStatus)"

definition generateHealthBadgeShields :: "string \<Rightarrow> body" where
  "generateHealthBadgeShields healthStatus =
     Shields 1 ''gatus'' healthStatus (getBadgeShieldsColorFromHealth healthStatus)"

text \<open>What both handlers of the health do: the health is that of the first result of a page of one.\<close>

definition latest_page :: EndpointStatusParams where
  "latest_page = WithResults NewEndpointStatusParams 1 1"

definition health_of :: "Status \<Rightarrow> string" where
  "health_of status =
     (case st_Results status of
        [] \<Rightarrow> HealthStatusUnknown
      | r # _ \<Rightarrow> if r_Success r then HealthStatusUp else HealthStatusDown)"

definition with_health ::
  "(string \<Rightarrow> response) \<Rightarrow> 's api_store \<Rightarrow> 's \<Rightarrow> api_request \<Rightarrow> (response \<times> 's) outcome" where
  "with_health f api s c =
     (case QueryUnescape (ar_param c ''key'') of
        None \<Rightarrow> Return (send_string 400 ''invalid key encoding'', s)
      | Some k \<Rightarrow>
          map_outcome (\<lambda>(x, s'). (case x of Inl err \<Rightarrow> error_response err | Inr status \<Rightarrow> f (health_of status), s'))
            (as_GetEndpointStatusByKey api s k latest_page))"

definition HealthBadge :: "'s api_store \<Rightarrow> 's \<Rightarrow> api_request \<Rightarrow> (response \<times> 's) outcome" where
  "HealthBadge = with_health (\<lambda>h. send 200 ''image/svg+xml'' (Text (generateHealthBadgeSVG h)))"

definition HealthBadgeShields :: "'s api_store \<Rightarrow> 's \<Rightarrow> api_request \<Rightarrow> (response \<times> 's) outcome" where
  "HealthBadgeShields = with_health (\<lambda>h. send 200 ''application/json'' (generateHealthBadgeShields h))"

section \<open>Charts\<close>

definition earliest_timestamp :: "int list \<Rightarrow> int" where
  "earliest_timestamp ts = foldl (\<lambda>e t. if e = 0 \<or> t < e then t else e) 0 ts"

text \<open>The hours back to the start of the range.\<close>

function hours_back_to :: "int \<Rightarrow> int \<Rightarrow> int list" where
  "hours_back_to start earliest =
     (if start < earliest then (earliest - 3600) # hours_back_to start (earliest - 3600) else [])"
  by auto
termination by (relation "measure (\<lambda>(start, earliest). nat (earliest - start))") auto

declare hours_back_to.simps [simp del]

definition chart_points :: "int \<Rightarrow> (int \<times> int) list \<Rightarrow> (int \<times> int) list" where
  "chart_points start hourly =
     map (\<lambda>t. (t, case map_of hourly t of None \<Rightarrow> 0 | Some v \<Rightarrow> v))
       (sort (map fst hourly @ hours_back_to start (earliest_timestamp (map fst hourly))))"

definition chart_maximum :: "int list \<Rightarrow> int" where
  "chart_maximum vs =
     f64_ceil (f64_scale (foldl (\<lambda>m v. if f64_ge m (f64_of_int v) then m else f64_of_int v) (F_Fin False 0 0) vs) 5 4)"

definition ResponseTimeHistory :: "'s api_store \<Rightarrow> 's \<Rightarrow> instant \<Rightarrow> instant \<Rightarrow> api_request \<Rightarrow> response" where
  "ResponseTimeHistory api s now now' c =
     for_range (chart_start (ar_param c ''duration'') now) chart_durations c
       (\<lambda>start k. case as_GetHourlyAverageResponseTimeByKey api s k start now' of
          Inl err \<Rightarrow> error_response err
        | Inr hourly \<Rightarrow>
            if hourly = [] then send 200 ''application/json'' (History [])
            else send 200 ''application/json''
                   (History (map (\<lambda>(t, v). (t * 1000, v)) (chart_points (Unix start) hourly)))) (\<lambda>r. r)"

definition ResponseTimeChart ::
  "((int \<times> int) list \<Rightarrow> int \<Rightarrow> string option) \<Rightarrow> 's api_store \<Rightarrow> 's \<Rightarrow> instant \<Rightarrow> instant \<Rightarrow> api_request \<Rightarrow> response" where
  "ResponseTimeChart render_error api s now now' c =
     for_range (chart_start (ar_param c ''duration'') now) chart_durations c
       (\<lambda>start k. case as_GetHourlyAverageResponseTimeByKey api s k start now' of
          Inl err \<Rightarrow> error_response err
        | Inr hourly \<Rightarrow>
            if hourly = [] then send_string 204 []
            else
              let points = chart_points (Unix start) hourly; maximum = chart_maximum (map snd points)
              in (case render_error points maximum of
                    Some err \<Rightarrow> send_string 500 err
                  | None \<Rightarrow> send 200 ''image/svg+xml'' (Rendered points maximum))) (\<lambda>r. r)"

section \<open>Facts\<close>

text \<open>The points of a chart.\<close>

lemma aligned_below:
  assumes "3600 dvd t - s" and "3600 dvd e - s" and "t < (e :: int)"
  shows "t \<le> e - 3600"
proof -
  obtain j k where "t - s = 3600 * j" "e - s = 3600 * k" using assms(1,2) by (auto elim!: dvdE)
  then have "3600 * j < 3600 * k" "t = s + 3600 * j" "e = s + 3600 * k" using assms(3) by linarith+
  then show ?thesis by simp
qed

lemma hours_back_to_set:
  "3600 dvd e - start \<Longrightarrow> set (hours_back_to start e) = {t. start \<le> t \<and> t < e \<and> 3600 dvd t - start}"
proof (induction start e rule: hours_back_to.induct)
  case (1 start e)
  show ?case
  proof (cases "start < e")
    case True
    have "3600 dvd (e - start) - 3600" by (rule dvd_diff [OF "1.prems"]) simp
    then have d: "3600 dvd e - 3600 - start" by (simp add: algebra_simps)
    have "start \<le> e - 3600" by (rule aligned_below [of start start]) (use True "1.prems" in simp_all)
    have "{t. start \<le> t \<and> t < e \<and> 3600 dvd t - start} =
        insert (e - 3600) {t. start \<le> t \<and> t < e - 3600 \<and> 3600 dvd t - start}"
      using d \<open>start \<le> e - 3600\<close> aligned_below [OF _ "1.prems"] by force
    then show ?thesis using "1.IH" [OF True d] True by (simp add: hours_back_to.simps [of start e])
  next
    case False
    then show ?thesis by (auto simp: hours_back_to.simps [of start e])
  qed
qed

lemma hours_back_to_distinct: "distinct (hours_back_to start e) \<and> (\<forall>t \<in> set (hours_back_to start e). t < e)"
proof (induction start e rule: hours_back_to.induct)
  case (1 start e)
  then show ?case by (cases "start < e") (auto simp: hours_back_to.simps [of start e])
qed

lemma earliest_foldl:
  "0 < e \<Longrightarrow> \<forall>t \<in> set ts. 0 < t \<Longrightarrow>
   foldl (\<lambda>e t. if e = 0 \<or> t < e then t else e) e ts \<in> insert e (set ts) \<and>
   (\<forall>t \<in> insert e (set ts). foldl (\<lambda>e t. if e = 0 \<or> t < e then t else e) e ts \<le> (t :: int))"
proof (induction ts arbitrary: e)
  case (Cons t ts)
  let ?e = "if e = 0 \<or> t < e then t else e"
  have "0 < ?e" "\<forall>t \<in> set ts. 0 < t" using Cons.prems by simp_all
  from Cons.IH [OF this] Cons.prems(1) show ?case by (auto split: if_splits)
qed simp

lemma earliest_Min:
  assumes "ts \<noteq> []" and "\<forall>t \<in> set ts. 0 < t"
  shows "earliest_timestamp ts \<in> set ts" and "t \<in> set ts \<Longrightarrow> earliest_timestamp ts \<le> t"
proof -
  obtain a as where ts: "ts = a # as" using assms(1) by (cases ts) simp
  have "earliest_timestamp ts = foldl (\<lambda>e t. if e = 0 \<or> t < e then t else e) a as"
    by (simp add: ts earliest_timestamp_def)
  with earliest_foldl [of a as] assms(2) show "earliest_timestamp ts \<in> set ts"
    "t \<in> set ts \<Longrightarrow> earliest_timestamp ts \<le> t" unfolding ts list.set by auto
qed

text \<open>The points of a chart, for hours that are aligned with the start.\<close>

lemma chart_points_facts:
  assumes "hourly \<noteq> []" and "distinct (map fst hourly)" and "0 < start"
    and "\<forall>h \<in> set (map fst hourly). start \<le> h \<and> 3600 dvd h - start"
  shows "sorted_wrt (<) (map fst (chart_points start hourly))"
    and "fst (hd (chart_points start hourly)) = start"
    and "set (chart_points start hourly) = set hourly \<union>
      {(t, 0) |t. start \<le> t \<and> 3600 dvd t - start \<and> (\<forall>h \<in> set (map fst hourly). t < h)}"
proof -
  let ?hs = "map fst hourly" and ?e = "earliest_timestamp (map fst hourly)"
  let ?ts = "?hs @ hours_back_to start ?e"
  have pos: "\<forall>t \<in> set ?hs. 0 < t"
  proof
    fix t assume "t \<in> set ?hs"
    then have "start \<le> t" using assms(4) by blast
    then show "0 < t" using assms(3) by linarith
  qed
  have "?hs \<noteq> []" using assms(1) by simp
  note e1 = earliest_Min [OF this pos]
  have ed: "3600 dvd ?e - start" "start \<le> ?e" using e1(1) assms(4) by blast+
  note bs = hours_back_to_set [OF ed(1)]
  have dt: "distinct ?ts" using assms(2) hours_back_to_distinct [of start ?e] e1(2) by fastforce
  have fst: "map fst (chart_points start hourly) = sort ?ts" by (simp add: chart_points_def comp_def)
  then show "sorted_wrt (<) (map fst (chart_points start hourly))"
    using dt by (simp add: strict_sorted_iff)
  have "start \<in> set ?ts" using e1(1) ed by (cases "start = ?e") (auto simp: bs simp del: set_map)
  moreover have "\<forall>t \<in> set ?ts. start \<le> t" using assms(4) by (auto simp: bs)
  moreover have ne: "sort ?ts \<noteq> []" using assms(1) by (metis append_is_Nil_conv length_0_conv length_map length_sort)
  ultimately have "hd (sort ?ts) = start"
  proof (cases "sort ?ts")
    case (Cons x xs)
    then have "\<forall>t \<in> set ?ts. x \<le> t" "x \<in> set ?ts"
      using sorted_sort [of ?ts] set_sort [of "\<lambda>x. x" ?ts] by (auto simp del: set_sort sorted_sort)
    then show ?thesis using \<open>start \<in> set ?ts\<close> \<open>\<forall>t \<in> set ?ts. start \<le> t\<close> Cons by fastforce
  qed simp
  then show "fst (hd (chart_points start hourly)) = start"
    using fst ne by (metis hd_map map_is_Nil_conv)
  have before: "t \<in> set (hours_back_to start ?e) \<longleftrightarrow> start \<le> t \<and> 3600 dvd t - start \<and> (\<forall>h \<in> set ?hs. t < h)" for t
    using e1 by (fastforce simp: bs simp del: set_map)
  show "set (chart_points start hourly) = set hourly \<union>
      {(t, 0) |t. start \<le> t \<and> 3600 dvd t - start \<and> (\<forall>h \<in> set ?hs. t < h)}"
  proof -
    let ?v = "\<lambda>t. case map_of hourly t of None \<Rightarrow> 0 | Some v \<Rightarrow> v"
    have "set (chart_points start hourly) = (\<lambda>t. (t, ?v t)) ` (set ?hs \<union> set (hours_back_to start ?e))"
      by (simp add: chart_points_def)
    also have "\<dots> = (\<lambda>t. (t, ?v t)) ` set ?hs \<union> (\<lambda>t. (t, ?v t)) ` set (hours_back_to start ?e)" by (rule image_Un)
    also have "(\<lambda>t. (t, ?v t)) ` set ?hs = set hourly"
      using assms(2) by (force simp: image_iff)
    also have "(\<lambda>t. (t, ?v t)) ` set (hours_back_to start ?e) =
        {(t, 0) |t. start \<le> t \<and> 3600 dvd t - start \<and> (\<forall>h \<in> set ?hs. t < h)}"
    proof -
      have "?v t = 0" if "t \<in> set (hours_back_to start ?e)" for t
      proof -
        have "t \<notin> set ?hs" using that before by blast
        then have "map_of hourly t = None" by (simp add: map_of_eq_None_iff)
        then show ?thesis by simp
      qed
      then show ?thesis using before by (auto simp: image_iff simp del: set_map)
    qed
    finally show ?thesis .
  qed
qed

lemma hour_buckets_aligned: "k \<in> set (hour_buckets t u) \<Longrightarrow> 3600 dvd k - hour_bucket t"
proof (induction t u rule: hour_buckets.induct)
  case (1 t u)
  show ?case
  proof (cases "k = hour_bucket t")
    case False
    then have "0 \<le> Sub u t" "k \<in> set (hour_buckets (t + hour) u)"
      using "1.prems" by (auto simp: hour_buckets.simps [of t u] split: if_splits)
    then have "3600 dvd (k - (hour_bucket t + 3600)) + 3600"
      using "1.IH" by (simp only: hour_bucket_shift dvd_add_triv_right_iff)
    then show ?thesis by (simp add: algebra_simps)
  qed simp
qed

lemma buckets_found_keys:
  "set (map fst (buckets_found u t t')) \<subseteq> set (hour_buckets t t')" "distinct (map fst (buckets_found u t t'))"
proof -
  let ?g = "\<lambda>k. case map_of (HourlyStatistics u) k of None \<Rightarrow> [] | Some h \<Rightarrow> if TotalExecutions h = 0 then [] else [(k, h)]"
  have "set (map fst (concat (map ?g ks))) \<subseteq> set ks \<and> (distinct ks \<longrightarrow> distinct (map fst (concat (map ?g ks))))" for ks
    by (induction ks) (auto split: option.splits)
  then show "set (map fst (buckets_found u t t')) \<subseteq> set (hour_buckets t t')"
    "distinct (map fst (buckets_found u t t'))"
    using distinct_hour_buckets by (auto simp: buckets_found_def)
qed

lemma chart_start_aligned: "chart_start d now = Some start \<Longrightarrow> hour_bucket start = Unix start"
proof -
  assume "chart_start d now = Some start"
  then obtain n where "start = Truncate_time now hour - n * hour"
    by (auto simp: chart_start_def Let_def split: if_splits)
  then have "start mod hour = 0" by (simp add: Truncate_time_hour mod_diff_eq [symmetric])
  then show ?thesis by (simp add: hour_bucket_def Truncate_time_hour)
qed

section \<open>Properties\<close>

text \<open>
  C17. The history of response times of an endpoint in memory starts with the first hour of the
  range and is in strict order of time. It has the average of every hour with results, and nothing besides but
  zeros for the hours of the range before the first of them.
\<close>

theorem history_covers_range:
  assumes "chart_start (ar_param c ''duration'') now = Some start" and "QueryUnescape (ar_param c ''key'') = Some k"
    and "GetHourlyAverageResponseTimeByKey ec s k start now' = Inr hourly" and "hourly \<noteq> []" and "0 < Unix start"
  shows "\<exists>pts. ResponseTimeHistory (memory_api ec sc) s now now' c = send 200 ''application/json'' (History pts) \<and>
    sorted_wrt (<) (map fst pts) \<and> fst (hd pts) = Unix start * 1000 \<and>
    set pts = (\<lambda>(h, v). (h * 1000, v)) ` (set hourly \<union>
      {(h, 0) |h. Unix start \<le> h \<and> 3600 dvd h - Unix start \<and> (\<forall>h' \<in> set (map fst hourly). h < h')})"
proof -
  let ?pts = "chart_points (Unix start) hourly"
  let ?ms = "\<lambda>(h, v). (h * 1000, v) :: int \<times> int"
  obtain u where hourly: "map fst hourly = map fst (buckets_found u start now')"
    using assms(3) by (auto simp: GetHourlyAverageResponseTimeByKey_def comp_def case_prod_beta split: if_splits option.splits)
  have in_range: "set (map fst hourly) \<subseteq> set (hour_buckets start now')" and d: "distinct (map fst hourly)"
    unfolding hourly by (rule buckets_found_keys)+
  have "\<forall>h \<in> set (map fst hourly). Unix start \<le> h \<and> 3600 dvd h - Unix start"
    using in_range hour_buckets_above hour_buckets_aligned chart_start_aligned [OF assms(1)] by (metis subsetD)
  note p = chart_points_facts [OF assms(4) d assms(5) this]
  have ne: "?pts \<noteq> []" using p(3) assms(4) by (cases hourly) auto
  have "ResponseTimeHistory (memory_api ec sc) s now now' c = send 200 ''application/json'' (History (map ?ms ?pts))"
    using assms by (simp add: ResponseTimeHistory_def for_range_def memory_api_def)
  moreover have "sorted_wrt (<) (map fst (map ?ms ?pts))"
    using p(1) by (simp add: sorted_wrt_map case_prod_beta)
  moreover have "fst (hd (map ?ms ?pts)) = Unix start * 1000"
    using p(2) ne by (simp add: hd_map case_prod_beta)
  moreover have "set (map ?ms ?pts) = ?ms ` (set hourly \<union>
      {(h, 0) |h. Unix start \<le> h \<and> 3600 dvd h - Unix start \<and> (\<forall>h' \<in> set (map fst hourly). h < h')})"
    unfolding set_map p(3) ..
  ultimately show ?thesis by blast
qed

text \<open>Two results in the hour of the Unix time 360000.\<close>

definition history_request :: api_request where
  "history_request =
     \<lparr>ar_param = (\<lambda>n. if n = ''duration'' then ''24h'' else if n = ''key'' then ''_web'' else []),
      ar_query = (\<lambda>n. []), ar_queries = (\<lambda>n. None), ar_query_bool = (\<lambda>n. False), ar_header = (\<lambda>n. []),
      ar_cookie = (\<lambda>n. [])\<rparr>"

definition history_store :: "((string \<times> Status) list, (string \<times> Suite_Status) list) Store" where
  "history_store =
     (new_store 5 5)\<lparr>endpointCache :=
        [(''_web'', (NewStatus [] ''web'')\<lparr>st_Uptime := \<lparr>HourlyStatistics = [(360000,
           \<lparr>TotalExecutions = 2, SuccessfulExecutions = 1, TotalExecutionsResponseTime = 500\<rparr>)]\<rparr>\<rparr>)]\<rparr>"

lemma hour_buckets_reach: "t + int n * hour \<le> u \<Longrightarrow> hour_bucket t + int n * 3600 \<in> set (hour_buckets t u)"
proof (induction n arbitrary: t)
  case 0
  then show ?case by (simp add: hour_buckets.simps [of t u] Sub_def min_int64_def max_int64_def)
next
  case (Suc n)
  have h: "0 < hour" by (simp add: hour_def minute_def second_def)
  have "0 \<le> hour * int n" using h by simp
  moreover have "t + (hour * int n + hour) \<le> u" using Suc.prems by (simp add: algebra_simps)
  ultimately have "0 \<le> u - t" using h by linarith
  moreover have "t + hour + int n * hour \<le> u" using Suc.prems by (simp add: algebra_simps)
  from Suc.IH [OF this] have "hour_bucket t + int (Suc n) * 3600 \<in> set (hour_buckets (t + hour) u)"
    unfolding hour_bucket_shift by (simp add: algebra_simps)
  ultimately show ?case by (simp add: hour_buckets.simps [of t u] Sub_def min_int64_def max_int64_def)
qed

lemma concat_single: "distinct ks \<Longrightarrow> k \<in> set ks \<Longrightarrow> concat (map (\<lambda>x. if x = k then [y] else []) ks) = [y]"
proof (induction ks)
  case (Cons x ks)
  then show ?case by (cases "x = k") (auto simp: concat_eq_Nil_conv)
qed simp

theorem history_covers_range_witness:
  "\<exists>pts. ResponseTimeHistory (memory_api list_cache list_cache) history_store (370000 * second) (370000 * second)
      history_request = send 200 ''application/json'' (History pts) \<and>
    fst (hd pts) = 280800000 \<and> (360000000, int64_of_f64 (float_ratio 500 2)) \<in> set pts \<and> (280800000, 0) \<in> set pts"
proof -
  let ?now = "370000 * second"
  let ?start = "280800 * second"
  have start: "chart_start (ar_param history_request ''duration'') ?now = Some ?start"
    by (simp add: chart_start_def history_request_def Truncate_time_hour) (simp add: hour_def minute_def second_def)
  have k: "QueryUnescape (ar_param history_request ''key'') = Some ''_web''" by code_simp
  have u: "Unix ?start = 280800" by (simp add: Unix_def second_def)
  let ?h = "\<lparr>TotalExecutions = 2, SuccessfulExecutions = 1, TotalExecutionsResponseTime = 500\<rparr>"
  have "360000 \<in> set (hour_buckets ?start ?now)"
    using hour_buckets_reach [of ?start 22 ?now] chart_start_aligned [OF start] u by (simp add: hour_def minute_def second_def)
  from concat_single [OF distinct_hour_buckets this, of "(360000, ?h)"]
  have "buckets_found \<lparr>HourlyStatistics = [(360000, ?h)]\<rparr> ?start ?now = [(360000, ?h)]"
    by (simp add: buckets_found_def if_distrib if_distribR cong: if_cong)
  then have hourly: "GetHourlyAverageResponseTimeByKey list_cache history_store ''_web'' ?start ?now =
      Inr [(360000, int64_of_f64 (float_ratio 500 2))]"
    by (simp add: GetHourlyAverageResponseTimeByKey_def history_store_def list_cache_def second_def)
  from history_covers_range [OF start k hourly, of list_cache] show ?thesis unfolding u by (auto simp: image_iff)
qed

end
