(* ===== verification/Api_External.thy ===== *)
theory Api_External
  imports Api_Badges
begin

text \<open>
  \<open>api/external_endpoint.go\<close>: the result of an external endpoint is pushed by a request with the
  endpoint's token.
\<close>

section \<open>The handler\<close>

text \<open>What a push leaves behind: the response, the configuration, the store, what was sent and published.\<close>

record 's pushed =
  pu_response :: response
  pu_config :: Config
  pu_store :: 's
  pu_sent :: "notification list"
  pu_published :: "publication list"

definition refuse :: "int \<Rightarrow> string \<Rightarrow> Config \<Rightarrow> 's \<Rightarrow> 's pushed" where
  "refuse status message cfg s =
     \<lparr>pu_response = send_string status message, pu_config = cfg, pu_store = s, pu_sent = [], pu_published = []\<rparr>"

definition external_position :: "Config \<Rightarrow> string \<Rightarrow> nat option" where
  "external_position cfg k =
     find (\<lambda>i. External_Key (c_ExternalEndpoints cfg ! i) = ToLower k) [0..<length (c_ExternalEndpoints cfg)]"

text \<open>What the checks of a request find: the position of the external endpoint and the success, or a refusal.\<close>

definition authorize_push :: "Config \<Rightarrow> api_request \<Rightarrow> (int \<times> string) + nat" where
  "authorize_push cfg c =
     (if ar_queries c ''success'' \<noteq> Some ''true'' \<and> ar_queries c ''success'' \<noteq> Some ''false''
      then Inl (400, ''missing or invalid success query parameter'')
      else if \<not> HasPrefix (ar_header c ''Authorization'') ''Bearer ''
      then Inl (401, ''invalid Authorization header'')
      else
        let token = TrimSpace (TrimPrefix (ar_header c ''Authorization'') ''Bearer '') in
        if token = [] then Inl (401, ''bearer token must not be empty'')
        else case external_position cfg (ar_param c ''key'') of
               None \<Rightarrow> Inl (404, ''not found'')
             | Some i \<Rightarrow>
                 if ee_Token (c_ExternalEndpoints cfg ! i) \<noteq> token then Inl (401, ''invalid token'')
                 else Inr i)"

text \<open>The result a request describes; the text of an error of the duration is that of the time package.\<close>

definition pushed_result :: "(string \<Rightarrow> string) \<Rightarrow> instant \<Rightarrow> api_request \<Rightarrow> string + Result" where
  "pushed_result duration_error now c =
     (let result = empty_Result\<lparr>r_Timestamp := now, r_Success := ar_query_bool c ''success'', r_Errors := []\<rparr>;
          timed = (if ar_query c ''duration'' = [] then Inr result
                   else case ParseDuration (ar_query c ''duration'') of
                          None \<Rightarrow> Inl (''invalid duration: '' @ duration_error (ar_query c ''duration''))
                        | Some d \<Rightarrow> Inr (result\<lparr>r_Duration := d\<rparr>))
      in map_sum (\<lambda>e. e) (\<lambda>result.
           if \<not> r_Success result \<and> ar_query c ''error'' \<noteq> [] then AddError result (ar_query c ''error'') else result) timed)"

definition CreateExternalEndpointResult ::
  "Config \<Rightarrow> (string \<Rightarrow> string) \<Rightarrow> 's api_store \<Rightarrow> 's watch_env \<Rightarrow> instant \<Rightarrow> api_request \<Rightarrow> 's \<Rightarrow> 's pushed outcome" where
  "CreateExternalEndpointResult cfg duration_error api env now c s =
     (case authorize_push cfg c of
        Inl (status, message) \<Rightarrow> Return (refuse status message cfg s)
      | Inr i \<Rightarrow>
          (case pushed_result duration_error now c of
             Inl message \<Rightarrow> Return (refuse 400 message cfg s)
           | Inr result \<Rightarrow>
               let ee = c_ExternalEndpoints cfg ! i; convertedEndpoint = ToEndpoint ee in
               (case as_InsertEndpointResult api s (we_inserted_at env) convertedEndpoint result of
                  (Some err, s') \<Rightarrow>
                    Return (refuse (if err = Storage_Error ErrEndpointNotFound then 404 else 500) (error_text err) cfg s')
                | (None, s') \<Rightarrow>
                    let published = (if c_Metrics cfg then [Published_Endpoint result] else []) in
                    (case under_maintenance env cfg of
                       Panic p \<Rightarrow> Panic p
                     | Return global \<Rightarrow>
                         if \<not> global \<and> \<not> in_endpoint_window env (ee_MaintenanceWindows ee) then
                           (case HandleAlerting (alerting_env_of (env\<lparr>we_store := as_iface api\<rparr>) cfg)
                                   convertedEndpoint result s' of
                              (ep', s'', ns) \<Rightarrow>
                                Return \<lparr>pu_response = send_string 200 [],
                                        pu_config = set_external cfg i
                                          (ee\<lparr>ee_Alerts := e_Alerts ep',
                                              ee_NumberOfSuccessesInARow := e_NumberOfSuccessesInARow ep',
                                              ee_NumberOfFailuresInARow := e_NumberOfFailuresInARow ep'\<rparr>),
                                        pu_store = s'', pu_sent = ns, pu_published = published\<rparr>)
                         else Return \<lparr>pu_response = send_string 200 [], pu_config = cfg, pu_store = s',
                                      pu_sent = [], pu_published = published\<rparr>))))"

section \<open>Facts\<close>

lemma external_position_endpoint:
  "GetExternalEndpointByKey cfg k = map_option ((!) (c_ExternalEndpoints cfg)) (external_position cfg k)"
proof -
  have "find P xs = map_option ((!) xs) (find (\<lambda>i. P (xs ! i)) [0..<length xs])" for P and xs :: "'a list"
  proof -
    have "map ((!) xs) [0..<length xs] = xs" by (rule map_nth)
    then show ?thesis using find_map [of P "(!) xs" "[0..<length xs]"] by (simp add: comp_def)
  qed
  then show ?thesis by (simp add: external_position_def GetExternalEndpointByKey_def)
qed

lemma external_position_found:
  "external_position cfg k = Some i \<Longrightarrow>
   i < length (c_ExternalEndpoints cfg) \<and> GetExternalEndpointByKey cfg k = Some (c_ExternalEndpoints cfg ! i)"
  by (simp add: external_position_endpoint) (auto simp: external_position_def find_Some_iff)

text \<open>What a push that has any effect has shown.\<close>

lemma authorize_push_accepts:
  assumes "authorize_push cfg c = Inr i"
  shows "\<exists>ee rest. i < length (c_ExternalEndpoints cfg) \<and> ee = c_ExternalEndpoints cfg ! i \<and>
    GetExternalEndpointByKey cfg (ar_param c ''key'') = Some ee \<and>
    ar_header c ''Authorization'' = ''Bearer '' @ rest \<and> TrimSpace rest = ee_Token ee \<and> ee_Token ee \<noteq> [] \<and>
    (ar_queries c ''success'' = Some ''true'' \<or> ar_queries c ''success'' = Some ''false'')"
  using assms
  by (auto simp: authorize_push_def Let_def HasPrefix_def TrimPrefix_def prefix_def
      dest!: external_position_found split: if_splits option.splits)

lemma accepted_push:
  assumes "CreateExternalEndpointResult cfg duration_error api env now c s = Return p" and "rs_status (pu_response p) = 200"
  shows "\<exists>i. authorize_push cfg c = Inr i"
  using assms by (auto simp: CreateExternalEndpointResult_def refuse_def send_string_def send_def
      authorize_push_def Let_def split: sum.splits if_splits option.splits)

section \<open>The interface\<close>

text \<open>
  What the handlers rely on: the latest result of an endpoint is that of its last insertion, a page
  of one shows it, and updates of the triggered alerts do not disturb it.
\<close>

locale served_store =
  fixes api :: "'s api_store"
    and latest :: "'s \<Rightarrow> string \<Rightarrow> bool option"
    and inv :: "'s \<Rightarrow> bool"
    and admitted :: "Endpoint \<Rightarrow> bool"
  assumes read: "inv s \<Longrightarrow> latest s k = Some b \<Longrightarrow>
      \<exists>status s'. as_GetEndpointStatusByKey api s k latest_page = Return (Inr status, s') \<and>
        health_of status = (if b then HealthStatusUp else HealthStatusDown)"
    and insert: "inv s \<Longrightarrow> admitted ep \<Longrightarrow> as_InsertEndpointResult api s now ep r = (None, s') \<Longrightarrow>
      inv s' \<and> latest s' (Endpoint_Key ep) = Some (r_Success r)"
    and upsert: "inv s \<Longrightarrow> inv (so_UpsertTriggeredEndpointAlert (as_iface api) s ep a) \<and>
      latest (so_UpsertTriggeredEndpointAlert (as_iface api) s ep a) k = latest s k"
    and delete: "inv s \<Longrightarrow> inv (so_DeleteTriggeredEndpointAlert (as_iface api) s ep a) \<and>
      latest (so_DeleteTriggeredEndpointAlert (as_iface api) s ep a) k = latest s k"
begin

lemma HandleAlerting_served:
  assumes "ae_store env = as_iface api" and "inv s" and "HandleAlerting env ep r s = (ep', s', ns)"
  shows "inv s'" and "latest s' k = latest s k"
proof -
  have "inv s' \<and> (\<forall>k. latest s' k = latest s k)"
    by (rule HandleAlerting_store [where Q = "\<lambda>x. inv x \<and> (\<forall>k. latest x k = latest s k)", OF _ _ _ assms(3)])
      (use assms(1,2) upsert delete in auto)
  then show "inv s'" "latest s' k = latest s k" by simp_all
qed

lemma push_latest:
  assumes "CreateExternalEndpointResult cfg duration_error api env now c s = Return p"
    and "rs_status (pu_response p) = 200" and "inv s"
    and "\<And>ee. ee \<in> set (c_ExternalEndpoints cfg) \<Longrightarrow> admitted (ToEndpoint ee)"
  shows "\<exists>ee. GetExternalEndpointByKey cfg (ar_param c ''key'') = Some ee \<and> inv (pu_store p) \<and>
    latest (pu_store p) (External_Key ee) = Some (ar_query_bool c ''success'')"
proof -
  obtain i where i: "authorize_push cfg c = Inr i" using accepted_push [OF assms(1,2)] by blast
  obtain result where r: "pushed_result duration_error now c = Inr result"
    using assms(1,2) i by (auto simp: CreateExternalEndpointResult_def refuse_def send_string_def send_def split: sum.splits)
  have success: "r_Success result = ar_query_bool c ''success''"
    using r by (auto simp: pushed_result_def Let_def AddError_def split: if_splits option.splits sum.splits)
  let ?ee = "c_ExternalEndpoints cfg ! i"
  obtain err s1 where ins: "as_InsertEndpointResult api s (we_inserted_at env) (ToEndpoint ?ee) result = (err, s1)" by fastforce
  have err: "err = None"
    using assms(1,2) i r ins by (auto simp: CreateExternalEndpointResult_def refuse_def send_string_def send_def Let_def
        split: option.splits if_splits)
  note acc = authorize_push_accepts [OF i]
  then have ad: "admitted (ToEndpoint ?ee)" using assms(4) by auto
  have s1: "inv s1" "latest s1 (External_Key ?ee) = Some (ar_query_bool c ''success'')"
    using insert [OF assms(3) ad ins [unfolded err]] success by simp_all
  obtain g where g: "under_maintenance env cfg = Return g"
    using assms(1) i r ins err by (auto simp: CreateExternalEndpointResult_def Let_def split: outcome.splits)
  let ?ae = "alerting_env_of (env\<lparr>we_store := as_iface api\<rparr>) cfg"
  obtain ep' s'' ns where h: "HandleAlerting ?ae (ToEndpoint ?ee) result s1 = (ep', s'', ns)" by (metis prod.exhaust)
  have st: "ae_store ?ae = as_iface api" by (simp add: alerting_env_of_def)
  note hs = HandleAlerting_served [OF st s1(1) h]
  have "pu_store p = s1 \<or> pu_store p = s''"
    using assms(1) i r ins err g h by (auto simp: CreateExternalEndpointResult_def Let_def split: if_splits)
  then have "inv (pu_store p) \<and> latest (pu_store p) (External_Key ?ee) = Some (ar_query_bool c ''success'')"
    using s1 hs by auto
  then show ?thesis using acc by auto
qed

lemma badge_after:
  assumes "inv s" and "latest s k = Some b" and "QueryUnescape (ar_param c ''key'') = Some k"
  shows "\<exists>s'. HealthBadge api s c = Return (send 200 ''image/svg+xml''
      (Text (generateHealthBadgeSVG (if b then ''up'' else ''down''))), s')"
  using read [OF assms(1,2)] assms(3)
  by (auto simp: HealthBadge_def with_health_def HealthStatusUp_def HealthStatusDown_def)

end

section \<open>The storages keep this contract\<close>

definition latest_in :: "Result list \<Rightarrow> bool option" where
  "latest_in rs = (if rs = [] then None else Some (r_Success (last rs)))"

definition memory_served :: "'e endpoint_cache \<Rightarrow> ('e, 's) Store \<Rightarrow> bool" where
  "memory_served ec s \<longleftrightarrow> 0 < maximumNumberOfResults s \<and> int (maximumNumberOfResults s) \<le> max_int64 \<and>
     (\<forall>k. length (stored_results ec s k) \<le> maximumNumberOfResults s)"

lemma block_latest: "block xs 1 1 = (if xs = [] then [] else [last xs])"
  by (cases xs rule: rev_cases) (simp_all add: block_def)

lemma last_of_last_n: "0 < n \<Longrightarrow> last (last_n n (xs @ [x])) = x"
  by (simp add: last_n_def drop_append)

context memory_store
begin

lemma memory_read_latest:
  assumes "memory_served ec s" and "latest_in (stored_results ec s k) = Some b"
  shows "\<exists>status s'. as_GetEndpointStatusByKey (memory_api ec sc) s k latest_page = Return (Inr status, s') \<and>
    health_of status = (if b then HealthStatusUp else HealthStatusDown)"
proof -
  obtain st where st: "c_Get ec (endpointCache s) k = Some st" "st_Results st \<noteq> []" "r_Success (last (st_Results st)) = b"
    using assms(2) by (auto simp: latest_in_def stored_results_def split: option.splits if_splits)
  have "int (length (st_Results st)) \<le> max_int64"
    using assms(1) st(1) unfolding memory_served_def stored_results_def
    by (metis (no_types, lifting) of_nat_le_iff option.simps(5) order_trans)
  then have "page_of (st_Results st) 1 1 = Return [last (st_Results st)]"
    using page_of_block [of 1 1 "st_Results st"] st(2) by (simp add: block_latest [simplified] max_int64_def)
  moreover have "page_of (st_Events st) 0 0 = Return []" by (simp add: page_of_def getStartAndEndIndex_def)
  ultimately show ?thesis
    using st(1,3)
    by (auto simp: memory_api_def GetEndpointStatusByKey_def ShallowCopyEndpointStatus_def latest_page_def WithResults_def
        NewEndpointStatusParams_def Let_def health_of_def)
qed

lemma memory_served_insert:
  assumes "memory_served ec s"
  shows "memory_served ec (InsertEndpointResult ec now s ep r)"
    and "latest_in (stored_results ec (InsertEndpointResult ec now s ep r) (Endpoint_Key ep)) = Some (r_Success r)"
proof -
  have m: "maximumNumberOfResults (InsertEndpointResult ec now s ep r) = maximumNumberOfResults s"
    by (simp add: InsertEndpointResult_def Let_def)
  show "memory_served ec (InsertEndpointResult ec now s ep r)"
    using assms by (simp add: memory_served_def m InsertEndpointResult_results)
  have "0 < maximumNumberOfResults s" using assms by (simp add: memory_served_def)
  then show "latest_in (stored_results ec (InsertEndpointResult ec now s ep r) (Endpoint_Key ep)) = Some (r_Success r)"
    using last_of_last_n by (simp add: InsertEndpointResult_results latest_in_def last_n_def)
qed

end

sublocale memory_store \<subseteq> served: served_store "memory_api ec sc" "\<lambda>s k. latest_in (stored_results ec s k)"
  "memory_served ec" "\<lambda>ep. True"
  using memory_read_latest memory_served_insert
  by unfold_locales (auto simp: memory_api_def memory_iface_def)

definition sql_served :: "'c sql_cache_ops \<Rightarrow> 'c Sql_Store \<Rightarrow> bool" where
  "sql_served co s \<longleftrightarrow> run_inv co s \<and> 0 < sq_maximumNumberOfResults s"

lemma upsert_results:
  assumes "db_ok (sq_db s)"
  shows "sql_results (sq_db (snd (Sql_UpsertTriggeredEndpointAlert sha s ep a))) k = sql_results (sq_db s) k"
    and "sq_maximumNumberOfResults (snd (Sql_UpsertTriggeredEndpointAlert sha s ep a)) = sq_maximumNumberOfResults s"
proof -
  show "sq_maximumNumberOfResults (snd (Sql_UpsertTriggeredEndpointAlert sha s ep a)) = sq_maximumNumberOfResults s"
    by (simp add: Sql_UpsertTriggeredEndpointAlert_def split: option.split)
  show "sql_results (sq_db (snd (Sql_UpsertTriggeredEndpointAlert sha s ep a))) k = sql_results (sq_db s) k"
  proof (cases "get_or_insert_endpoint (sq_db s) ep")
    case (Some y)
    then obtain i db1 where g: "get_or_insert_endpoint (sq_db s) ep = Some (i, db1)" by (cases y) simp
    note e = get_or_insert_endpoint_effect [OF assms g]
    obtain A where A: "upsert_alert db1 i (Checksum sha a) (al_ResolveKey a) (e_NumberOfSuccessesInARow ep) =
        db1\<lparr>db_alerts := A\<rparr>" using upsert_alert_frame by blast
    obtain es where es: "db1 = (sq_db s)\<lparr>db_endpoints := db_endpoints (sq_db s) @ es\<rparr>" using e(2) by blast
    have s': "sq_db (snd (Sql_UpsertTriggeredEndpointAlert sha s ep a)) = db1\<lparr>db_alerts := A\<rparr>"
      by (simp add: Sql_UpsertTriggeredEndpointAlert_def g A)
    have "sql_results (db1\<lparr>db_alerts := A\<rparr>) k = sql_results db1 k"
      by (simp add: sql_results_def results_at_def split: option.split)
    moreover have "sql_results db1 k = sql_results (sq_db s) k"
    proof (cases "endpoint_of (sq_db s) k")
      case (Some x)
      then have "endpoint_of db1 k = Some x" using e(4,6) by (cases "k = Endpoint_Key ep") auto
      then show ?thesis using Some by (simp add: sql_results_def es results_at_def)
    next
      case None
      show ?thesis
      proof (cases "k = Endpoint_Key ep")
        case True
        then obtain e1 where e1: "endpoint_of db1 k = Some e1" "er_id e1 = i" using e(3) by blast
        have "i \<notin> er_id ` set (db_endpoints (sq_db s))" using e(5) None True by simp
        then have "rows_for (sq_db s) i = []" using assms by (auto simp: rows_for_def db_ok_def filter_empty_conv)
        then show ?thesis using None e1 by (simp add: sql_results_def es results_at_def)
      next
        case False
        then show ?thesis using e(4) [OF False] None by (simp add: sql_results_def)
      qed
    qed
    ultimately show ?thesis by (simp add: s')
  qed (simp add: Sql_UpsertTriggeredEndpointAlert_def)
qed

lemma delete_alert_results:
  assumes "db_ok (sq_db s)"
  shows "sql_results (sq_db (delete_alerts P s ep)) k = sql_results (sq_db s) k"
    and "sq_maximumNumberOfResults (delete_alerts P s ep) = sq_maximumNumberOfResults s"
proof -
  obtain A where A: "delete_alerts P s ep = s\<lparr>sq_db := (sq_db s)\<lparr>db_alerts := A\<rparr>\<rparr>"
    using delete_alerts_effect(2) [OF assms] by blast
  then show "sq_maximumNumberOfResults (delete_alerts P s ep) = sq_maximumNumberOfResults s" by simp
  show "sql_results (sq_db (delete_alerts P s ep)) k = sql_results (sq_db s) k"
    by (simp add: A sql_results_def results_at_def split: option.split)
qed

context write_through_cache
begin

lemma sql_read_latest:
  assumes "sql_served co s" and "latest_in (sql_results (sq_db s) k) = Some b"
  shows "\<exists>status s'. as_GetEndpointStatusByKey (sql_api co sha L t) s k latest_page = Return (Inr status, s') \<and>
    health_of status = (if b then HealthStatusUp else HealthStatusDown)"
proof -
  have ok: "db_ok (sq_db s)" "coherent co s" "0 < sq_maximumNumberOfResults s"
    using assms(1) by (simp_all add: sql_served_def run_inv_def)
  define m where "m = nat (sq_maximumNumberOfResults s)"
  have m: "0 < m" using ok(3) by (simp add: m_def)
  let ?rs = "sql_results (sq_db s) k"
  have rs: "?rs \<noteq> []" "r_Success (last ?rs) = b" using assms(2) by (auto simp: latest_in_def split: if_splits)
  then obtain e where e: "endpoint_of (sq_db s) k = Some e" by (auto simp: sql_results_def split: option.splits)
  from read_results [OF ok(1) e, of 1 1 m latest_page] m obtain status where
    st: "read_endpoint_status (sq_db s) k latest_page = Some status" "st_Results status = block (last_n m ?rs) 1 1"
    by (auto simp: latest_page_def WithResults_def)
  obtain xs where xs: "?rs = xs @ [last ?rs]" using rs(1) by (metis append_butlast_last_id)
  have "st_Results status = [last ?rs]"
    unfolding st(2) by (subst xs) (rule last_of_appended [OF m, folded One_nat_def])
  then have h: "health_of status = (if b then HealthStatusUp else HealthStatusDown)" using rs(2) by (simp add: health_of_def)
  have "paging_ok latest_page"
    by (simp add: latest_page_def paging_ok_def WithResults_def NewEndpointStatusParams_def max_int64_def)
  from read_coherent(1) [OF ok(2) this, of k] st(1)
  have "reading (fst (getEndpointStatusByKey co s k latest_page)) = Some status" by simp
  then have "fst (getEndpointStatusByKey co s k latest_page) = Inr status"
    by (cases "fst (getEndpointStatusByKey co s k latest_page)") (simp_all add: reading_def)
  then show ?thesis using h
    by (cases "getEndpointStatusByKey co s k latest_page") (simp add: sql_api_def Sql_GetEndpointStatusByKey_def)
qed

lemma sql_served_insert:
  assumes "sql_served co s" and "no_meta (Endpoint_Key ep)" and "Sql_InsertEndpointResult co L now s ep r = (None, s')"
  shows "sql_served co s'" and "latest_in (sql_results (sq_db s') (Endpoint_Key ep)) = Some (r_Success r)"
proof -
  have inv: "run_inv co s" "0 < sq_maximumNumberOfResults s" using assms(1) by (simp_all add: sql_served_def)
  have s': "s' = snd (Sql_InsertEndpointResult co L now s ep r)" by (simp add: assms(3))
  obtain i db1 where g: "get_or_insert_endpoint (sq_db s) ep = Some (i, db1)"
    using assms(3) by (auto simp: Sql_InsertEndpointResult_def split: option.splits)
  have ok: "db_ok (sq_db s)" "0 \<le> sq_maximumNumberOfResults s" using inv by (simp_all add: run_inv_def)
  note eff = Sql_InsertEndpointResult_effect [OF ok(1) g ok(2) s']
  have "sq_maximumNumberOfResults s' = sq_maximumNumberOfResults s" by (simp add: s' Sql_InsertEndpointResult_eq [OF g])
  then show "sql_served co s'" using insert_run_inv [OF inv(1) assms(2)] inv(2) by (simp add: sql_served_def s')
  have "0 < nat (sq_maximumNumberOfResults s)" using inv(2) by simp
  note l = last_of_last_n [OF this]
  show "latest_in (sql_results (sq_db s') (Endpoint_Key ep)) = Some (r_Success r)"
    unfolding eff(2) Let_def using l [of "sql_results (sq_db s) (Endpoint_Key ep)" "persisted r"] inv(2)
    by (auto simp: latest_in_def persisted_def last_n_def)
qed

end

sublocale write_through_cache \<subseteq> served: served_store "sql_api co sha L t"
  "\<lambda>s k. latest_in (sql_results (sq_db s) k)" "sql_served co" "\<lambda>ep. no_meta (Endpoint_Key ep)" for sha L t
proof unfold_locales
  fix s k b ep now r s' a
  show "sql_served co s \<Longrightarrow> latest_in (sql_results (sq_db s) k) = Some b \<Longrightarrow>
      \<exists>status s'. as_GetEndpointStatusByKey (sql_api co sha L t) s k latest_page = Return (Inr status, s') \<and>
        health_of status = (if b then HealthStatusUp else HealthStatusDown)" by (rule sql_read_latest)
  show "sql_served co s \<Longrightarrow> no_meta (Endpoint_Key ep) \<Longrightarrow>
      as_InsertEndpointResult (sql_api co sha L t) s now ep r = (None, s') \<Longrightarrow>
      sql_served co s' \<and> latest_in (sql_results (sq_db s') (Endpoint_Key ep)) = Some (r_Success r)"
    using sql_served_insert [of s ep L now r s'] by (auto simp: sql_api_def split: prod.splits)
next
  fix s ep a k assume s: "sql_served co s"
  then have ok: "db_ok (sq_db s)" "run_inv co s" by (simp_all add: sql_served_def run_inv_def)
  show "sql_served co (so_UpsertTriggeredEndpointAlert (as_iface (sql_api co sha L t)) s ep a) \<and>
      latest_in (sql_results (sq_db (so_UpsertTriggeredEndpointAlert (as_iface (sql_api co sha L t)) s ep a)) k) =
      latest_in (sql_results (sq_db s) k)"
    using s upsert_run_inv [OF ok(2)] upsert_results [OF ok(1)]
    by (simp add: sql_api_def sql_iface_def sql_served_def)
  show "sql_served co (so_DeleteTriggeredEndpointAlert (as_iface (sql_api co sha L t)) s ep a) \<and>
      latest_in (sql_results (sq_db (so_DeleteTriggeredEndpointAlert (as_iface (sql_api co sha L t)) s ep a)) k) =
      latest_in (sql_results (sq_db s) k)"
    using s delete_alerts_run_inv [OF ok(2)] delete_alert_results [OF ok(1)]
    by (simp add: sql_api_def sql_iface_def sql_served_def Sql_DeleteTriggeredEndpointAlert_def)
qed

section \<open>Properties\<close>

text \<open>What a push must have: a success, the token of the external endpoint it names, and no duration that does not parse.\<close>

definition gives_success :: "api_request \<Rightarrow> bool" where
  "gives_success c \<longleftrightarrow> ar_queries c ''success'' = Some ''true'' \<or> ar_queries c ''success'' = Some ''false''"

definition has_token :: "Config \<Rightarrow> api_request \<Rightarrow> bool" where
  "has_token cfg c \<longleftrightarrow>
     (\<exists>ee rest. GetExternalEndpointByKey cfg (ar_param c ''key'') = Some ee \<and> ee_Token ee \<noteq> [] \<and>
       ar_header c ''Authorization'' = ''Bearer '' @ rest \<and> TrimSpace rest = ee_Token ee)"

definition well_timed :: "api_request \<Rightarrow> bool" where
  "well_timed c \<longleftrightarrow> ar_query c ''duration'' = [] \<or> ParseDuration (ar_query c ''duration'') \<noteq> None"

lemma authorize_push_Inr: "(\<exists>i. authorize_push cfg c = Inr i) \<longleftrightarrow> gives_success c \<and> has_token cfg c"
proof
  assume "\<exists>i. authorize_push cfg c = Inr i"
  then show "gives_success c \<and> has_token cfg c"
    using authorize_push_accepts unfolding gives_success_def has_token_def by blast
next
  assume a: "gives_success c \<and> has_token cfg c"
  then obtain ee rest i where "GetExternalEndpointByKey cfg (ar_param c ''key'') = Some ee" "ee_Token ee \<noteq> []"
    "ar_header c ''Authorization'' = ''Bearer '' @ rest" "TrimSpace rest = ee_Token ee"
    "external_position cfg (ar_param c ''key'') = Some i" "c_ExternalEndpoints cfg ! i = ee"
    by (auto simp: has_token_def external_position_endpoint)
  then have "authorize_push cfg c = Inr i"
    using a by (simp add: authorize_push_def gives_success_def HasPrefix_def TrimPrefix_def split: if_splits)
  then show "\<exists>i. authorize_push cfg c = Inr i" by blast
qed

lemma authorize_push_Inl:
  assumes "authorize_push cfg c = Inl (status, message)"
  shows "status \<in> (if gives_success c then {401, 404} else {400})"
  using assms by (auto simp: authorize_push_def gives_success_def Let_def split: if_splits option.splits)

lemma pushed_result_timed:
  "pushed_result duration_error now c =
     (if well_timed c then Inr (projr (pushed_result duration_error now c))
      else Inl (''invalid duration: '' @ duration_error (ar_query c ''duration'')))"
  by (auto simp: pushed_result_def well_timed_def Let_def split: option.split)

lemma stored_push:
  assumes "CreateExternalEndpointResult cfg duration_error api env now c s = Return p"
    and "authorize_push cfg c = Inr i" and "pushed_result duration_error now c = Inr result"
  shows "rs_status (pu_response p) = 200 \<longleftrightarrow>
    fst (as_InsertEndpointResult api s (we_inserted_at env) (ToEndpoint (c_ExternalEndpoints cfg ! i)) result) = None"
  using assms by (auto simp: CreateExternalEndpointResult_def refuse_def send_string_def send_def Let_def
      split: prod.splits option.splits outcome.splits if_splits)

text \<open>
  C14. A push is taken only with a success that is true or false, with the token of the external
  endpoint whose key it names, which is not empty, and with a duration that parses, when it gives one. Without the first
  it is refused with 400, without the second with 401 or 404, and without the third with 400 and the error of the duration; a push that
  is refused leaves the storage and the configuration, its alerts included, as they were, and nothing is sent or published. A push with all
  three is accepted exactly when the storage takes its result.
\<close>

theorem push_needs_token:
  assumes "CreateExternalEndpointResult cfg duration_error api env now c s = Return p"
  shows "if \<not> gives_success c then \<exists>message. p = refuse 400 message cfg s
    else if \<not> has_token cfg c then \<exists>status message. status \<in> {401, 404} \<and> p = refuse status message cfg s
    else if \<not> well_timed c then p = refuse 400 (''invalid duration: '' @ duration_error (ar_query c ''duration'')) cfg s
    else \<exists>ee result. GetExternalEndpointByKey cfg (ar_param c ''key'') = Some ee \<and>
      pushed_result duration_error now c = Inr result \<and>
      (rs_status (pu_response p) = 200 \<longleftrightarrow>
       fst (as_InsertEndpointResult api s (we_inserted_at env) (ToEndpoint ee) result) = None)"
proof (cases "authorize_push cfg c")
  case (Inl e)
  obtain status message where e: "e = (status, message)" by fastforce
  have "p = refuse status message cfg s" using assms Inl e by (simp add: CreateExternalEndpointResult_def)
  moreover have "\<not> (gives_success c \<and> has_token cfg c)" using authorize_push_Inr [of cfg c] Inl by simp
  ultimately show ?thesis using authorize_push_Inl [of cfg c status message] Inl e by (auto split: if_splits)
next
  case (Inr i)
  then have a: "gives_success c" "has_token cfg c" using authorize_push_Inr [of cfg c] by auto
  show ?thesis
  proof (cases "well_timed c")
    case True
    then obtain result where r: "pushed_result duration_error now c = Inr result"
      using pushed_result_timed [of duration_error now c] by auto
    from authorize_push_accepts [OF Inr] stored_push [OF assms Inr r] show ?thesis using a True r by auto
  next
    case False
    then have "pushed_result duration_error now c = Inl (''invalid duration: '' @ duration_error (ar_query c ''duration''))"
      using pushed_result_timed [of duration_error now c] by simp
    with assms Inr have "p = refuse 400 (''invalid duration: '' @ duration_error (ar_query c ''duration'')) cfg s"
      by (simp add: CreateExternalEndpointResult_def)
    then show ?thesis using a False by simp
  qed
qed

text \<open>
  C15. Once a push is accepted by a program with a database, whatever the store and its cache have
  gone through before, the badge of the endpoint says that it is up when the push said so and that it is
  down otherwise.
\<close>

theorem pushed_result_shown:
  assumes "Sql_NewStore [] driver path caching (int m) e = Inr s0" and "0 < m" and "sql_run list_sql_cache sha L s0 s"
    and "\<forall>ee \<in> set (c_ExternalEndpoints cfg). no_meta (External_Key ee)"
    and "\<forall>v. ar_queries c ''success'' = Some v \<longrightarrow> ar_query_bool c ''success'' = (v = ''true'')"
    and "CreateExternalEndpointResult cfg duration_error (sql_api list_sql_cache sha L t) env now c s = Return p"
    and "rs_status (pu_response p) = 200"
    and "GetExternalEndpointByKey cfg (ar_param c ''key'') = Some ee" and "QueryUnescape (ar_param b ''key'') = Some (External_Key ee)"
  shows "\<exists>s'. HealthBadge (sql_api list_sql_cache sha L t) (pu_store p) b = Return (send 200 ''image/svg+xml''
    (Text (generateHealthBadgeSVG (if ar_queries c ''success'' = Some ''true'' then ''up'' else ''down''))), s')"
proof -
  have "sql_served list_sql_cache s"
    using list_sql_cache.run_run_inv [OF assms(3) new_run_inv [OF assms(1)]] sql_run_maximum [OF assms(3)]
      Sql_NewStore_ok(2) [OF assms(1)] assms(2) by (simp add: sql_served_def)
  from list_sql_cache.served.push_latest [OF assms(6,7) this] assms(4,8)
  have l: "sql_served list_sql_cache (pu_store p)"
    "latest_in (sql_results (sq_db (pu_store p)) (External_Key ee)) = Some (ar_query_bool c ''success'')" by auto
  have "ar_queries c ''success'' = Some ''true'' \<or> ar_queries c ''success'' = Some ''false''"
    using accepted_push [OF assms(6,7)] authorize_push_accepts by blast
  then have "ar_query_bool c ''success'' = (ar_queries c ''success'' = Some ''true'')" using assms(5) by auto
  with list_sql_cache.served.badge_after [OF l assms(9), of sha L t] show ?thesis by simp
qed

text \<open>A failure is pushed for the nightly backup, with its token.\<close>

definition push_request :: "string \<Rightarrow> api_request" where
  "push_request token =
     \<lparr>ar_param = (\<lambda>n. if n = ''key'' then External_Key example_external else []),
      ar_query = (\<lambda>n. if n = ''success'' then ''false'' else if n = ''duration'' then ''10s'' else []),
      ar_queries = (\<lambda>n. if n = ''success'' then Some ''false'' else None), ar_query_bool = (\<lambda>n. False),
      ar_header = (\<lambda>n. if n = ''Authorization'' then ''Bearer '' @ token else []), ar_cookie = (\<lambda>n. [])\<rparr>"

abbreviation push_backup ::
  "(string \<times> Status) list Sql_Store \<Rightarrow> (string \<times> Status) list Sql_Store pushed outcome" where
  "push_backup s \<equiv> CreateExternalEndpointResult backup_config (\<lambda>d. []) (sql_api list_sql_cache (\<lambda>x. x) UTC [])
     sql_watched_env (5 * hour) (push_request (ee_Token example_external)) s"

lemma backup_pushed:
  "case push_backup sql_start of Panic e \<Rightarrow> False
   | Return p \<Rightarrow> rs_status (pu_response p) = 200 \<and> pu_published p = [] \<and> length (db_results (sq_db (pu_store p))) = 1"
  by code_simp

lemma backup_key:
  "GetExternalEndpointByKey backup_config (ar_param (push_request t) ''key'') = Some example_external"
  "no_meta (External_Key example_external)" "c_ExternalEndpoints backup_config = [example_external]"
proof -
  have "ToLower (External_Key example_external) = External_Key example_external" by code_simp
  then show "GetExternalEndpointByKey backup_config (ar_param (push_request t) ''key'') = Some example_external"
    by (simp add: GetExternalEndpointByKey_def backup_config_def push_request_def)
  show "no_meta (External_Key example_external)" by code_simp
  show "c_ExternalEndpoints backup_config = [example_external]" by (simp add: backup_config_def)
qed

definition mistimed_request :: api_request where
  "mistimed_request = (push_request (ee_Token example_external))\<lparr>ar_query := (\<lambda>n. if n = ''duration'' then ''10x'' else [])\<rparr>"

abbreviation push_mistimed ::
  "(string \<times> Status) list Sql_Store \<Rightarrow> (string \<times> Status) list Sql_Store pushed outcome" where
  "push_mistimed s \<equiv> CreateExternalEndpointResult backup_config (\<lambda>d. d) (sql_api list_sql_cache (\<lambda>x. x) UTC [])
     sql_watched_env (5 * hour) mistimed_request s"

lemma mistimed_checks: "authorize_push backup_config mistimed_request = Inr 0" "\<not> well_timed mistimed_request"
  "case push_mistimed sql_start of Panic e \<Rightarrow> False | Return p \<Rightarrow> True"
  by code_simp+

theorem push_needs_token_witness:
  "(\<exists>p. push_mistimed sql_start = Return p \<and> p = refuse 400 ''invalid duration: 10x'' backup_config sql_start) \<and>
   (\<exists>p. push_backup sql_start = Return p \<and> rs_status (pu_response p) = 200)"
proof
  obtain p where p: "push_mistimed sql_start = Return p" using mistimed_checks(3) by (auto split: outcome.splits)
  have "gives_success mistimed_request" "has_token backup_config mistimed_request"
    using authorize_push_Inr mistimed_checks(1) by blast+
  with push_needs_token [OF p] mistimed_checks(2) p
  show "\<exists>p. push_mistimed sql_start = Return p \<and> p = refuse 400 ''invalid duration: 10x'' backup_config sql_start"
    by (simp add: mistimed_request_def)
  show "\<exists>p. push_backup sql_start = Return p \<and> rs_status (pu_response p) = 200"
    using backup_pushed by (auto split: outcome.splits)
qed

theorem pushed_result_shown_witness:
  "\<exists>p s'. push_backup sql_start = Return p \<and>
    HealthBadge (sql_api list_sql_cache (\<lambda>x. x) UTC []) (pu_store p) (push_request []) =
      Return (send 200 ''image/svg+xml'' (Text (generateHealthBadgeSVG ''down'')), s')"
proof -
  obtain p where p: "push_backup sql_start = Return p" "rs_status (pu_response p) = 200"
    using backup_pushed by (auto split: outcome.splits)
  have k: "QueryUnescape (ar_param (push_request []) ''key'') = Some (External_Key example_external)" by code_simp
  have m: "0 < (2 :: nat)" by simp
  have "\<exists>s'. HealthBadge (sql_api list_sql_cache (\<lambda>x. x) UTC []) (pu_store p) (push_request []) =
      Return (send 200 ''image/svg+xml'' (Text (generateHealthBadgeSVG
        (if ar_queries (push_request (ee_Token example_external)) ''success'' = Some ''true'' then ''up'' else ''down''))), s')"
    by (rule pushed_result_shown [OF sql_start_eq m sql_run.start _ _ p backup_key(1) k])
      (simp_all add: backup_key push_request_def)
  then show ?thesis using p by (simp add: push_request_def)
qed

end
