(* ===== verification/Api_Status.thy ===== *)
theory Api_Status
  imports Api_External
begin

text \<open>
  The handlers of \<open>api/endpoint_status.go\<close>, \<open>api/suite_status.go\<close>, \<open>api/spa.go\<close>,
  \<open>api/config.go\<close> and \<open>api/custom_css.go\<close>, and the routes of \<open>api/api.go\<close>. What is
  marshalled is the body of a response; the cache of responses and the requests to remote instances
  are parameters.
\<close>

section \<open>The statuses of all endpoints\<close>

record 'a response_cache =
  rc_Get :: "'a \<Rightarrow> instant \<Rightarrow> string \<Rightarrow> Status list option"
  rc_SetWithTTL :: "'a \<Rightarrow> instant \<Rightarrow> string \<Rightarrow> Status list \<Rightarrow> duration \<Rightarrow> 'a"

definition cacheTTL :: duration where "cacheTTL = 10 * second"

text \<open>
  The statuses a remote instance answers with, if it answers and they can be decoded. The error that
  no instance has been successful is logged only.
\<close>

definition getEndpointStatusesFromRemoteInstances ::
  "(string \<Rightarrow> Status list option) \<Rightarrow> Remote_Config option \<Rightarrow> string + Status list option" where
  "getEndpointStatusesFromRemoteInstances fetch remote =
     (case remote of
        None \<Rightarrow> Inr None
      | Some rm \<Rightarrow>
          if rm_Instances rm = [] then Inr None
          else
            let all = concat (map (\<lambda>i. case fetch (in_URL i) of
                        None \<Rightarrow> []
                      | Some statuses \<Rightarrow> map (\<lambda>st. st\<lparr>st_Name := in_EndpointPrefix i @ st_Name st\<rparr>) statuses) (rm_Instances rm))
            in if all = [] then Inl ''failed to retrieve endpoint statuses from all remote instances''
               else Inr (Some all))"

definition nil_pointer :: string where "nil_pointer = ''invalid memory address or nil pointer dereference''"

definition only_single :: "string \<Rightarrow> Status list \<Rightarrow> Status list" where
  "only_single single statuses =
     (if single = [] then statuses
      else case find (\<lambda>st. st_Key st = single) statuses of None \<Rightarrow> [] | Some st \<Rightarrow> [st])"

text \<open>What is computed when the cache has no answer.\<close>

definition computed_statuses ::
  "'s api_store \<Rightarrow> (string \<Rightarrow> Status list option) \<Rightarrow> Remote_Config option \<Rightarrow> string \<Rightarrow> int \<Rightarrow> int \<Rightarrow> 's \<Rightarrow>
   ((read_error + Status list) \<times> 's) outcome" where
  "computed_statuses api fetch remote single page pageSize s =
     map_outcome (\<lambda>(x, s').
       (case x of
          Inl err \<Rightarrow> Inl err
        | Inr statuses \<Rightarrow>
            (case getEndpointStatusesFromRemoteInstances fetch remote of
               Inr (Some others) \<Rightarrow> Inr (only_single single (statuses @ others))
             | _ \<Rightarrow> Inr (only_single single statuses)), s'))
       (as_GetAllEndpointStatuses api s (WithResults NewEndpointStatusParams page pageSize))"

definition statuses_cache_key :: "string \<Rightarrow> int \<Rightarrow> int \<Rightarrow> string" where
  "statuses_cache_key single page pageSize =
     ''endpoint-status-'' @ Itoa page @ ''-'' @ Itoa pageSize @ (if single = [] then [] else ''-'' @ single)"

definition EndpointStatuses ::
  "Config \<Rightarrow> 's api_store \<Rightarrow> 'a response_cache \<Rightarrow> (string \<Rightarrow> Status list option) \<Rightarrow> instant \<Rightarrow> api_request \<Rightarrow>
   's \<times> 'a \<Rightarrow> (response \<times> 's \<times> 'a) outcome" where
  "EndpointStatuses cfg api rc fetch now c st =
     (case (c_Storage cfg, c_UI cfg, st) of
        (Some sto, Some ui, (s, cache)) \<Rightarrow>
          (case extractPageAndPageSizeFromRequest c (sto_MaximumNumberOfResults sto) of
             (page, pageSize) \<Rightarrow>
               let cacheKey = statuses_cache_key (pg_SingleEndpoint ui) page pageSize in
               (case rc_Get rc cache now cacheKey of
                  Some data \<Rightarrow> Return (send 200 ''application/json'' (Statuses data), s, cache)
                | None \<Rightarrow>
                    map_outcome (\<lambda>(x, s').
                      (case x of
                         Inl err \<Rightarrow> (send_string 500 (error_text err), s', cache)
                       | Inr data \<Rightarrow> (send 200 ''application/json'' (Statuses data), s',
                                        rc_SetWithTTL rc cache now cacheKey data cacheTTL)))
                      (computed_statuses api fetch (c_Remote cfg) (pg_SingleEndpoint ui) page pageSize s)))
      | _ \<Rightarrow> Panic nil_pointer)"

section \<open>The status of one endpoint\<close>

definition EndpointStatus ::
  "Config \<Rightarrow> 's api_store \<Rightarrow> api_request \<Rightarrow> 's \<Rightarrow> (response \<times> 's) outcome" where
  "EndpointStatus cfg api c s =
     (case c_Storage cfg of
        None \<Rightarrow> Panic nil_pointer
      | Some sto \<Rightarrow>
          (case extractPageAndPageSizeFromRequest c (sto_MaximumNumberOfResults sto) of
             (page, pageSize) \<Rightarrow>
               (case QueryUnescape (ar_param c ''key'') of
                  None \<Rightarrow> Return (send_string 400 ''invalid key encoding'', s)
                | Some k \<Rightarrow>
                    map_outcome (\<lambda>(x, s').
                      (case x of
                         Inl err \<Rightarrow> send_string (if err = Storage_Error ErrEndpointNotFound then 404 else 500) (error_text err)
                       | Inr status \<Rightarrow> send 200 ''application/json'' (One_Status status), s'))
                      (as_GetEndpointStatusByKey api s k
                        (WithResultsCount (WithEvents (WithResults NewEndpointStatusParams page pageSize)
                          1 (sto_MaximumNumberOfEvents sto)))))))"

section \<open>Suites\<close>

definition SuiteStatuses :: "Config \<Rightarrow> 's api_store \<Rightarrow> api_request \<Rightarrow> 's \<Rightarrow> response outcome" where
  "SuiteStatuses cfg api c s =
     (case extractPageAndPageSizeFromRequest c 100 of
        (page, pageSize) \<Rightarrow>
          map_outcome (\<lambda>x.
            case x of
              Inl err \<Rightarrow> send 500 ''application/json'' (Error_Object (''Failed to retrieve suite statuses: '' @ error_text err))
            | Inr statuses \<Rightarrow>
                send 200 ''application/json''
                  (Suites (if statuses = [] then map NewSuiteStatus (filter Suite_IsEnabled (c_Suites cfg)) else statuses)))
            (as_GetAllSuiteStatuses api s (WithPagination NewSuiteStatusParams page pageSize)))"

definition SuiteStatus :: "Config \<Rightarrow> 's api_store \<Rightarrow> api_request \<Rightarrow> 's \<Rightarrow> response outcome" where
  "SuiteStatus cfg api c s =
     (case extractPageAndPageSizeFromRequest c 100 of
        (page, pageSize) \<Rightarrow>
          let k = ar_param c ''key'' in
          map_outcome (\<lambda>x.
            case x of
              Inr (Some status) \<Rightarrow> send 200 ''application/json'' (One_Suite status)
            | _ \<Rightarrow>
                (case find (\<lambda>su. Suite_Key su = k) (c_Suites cfg) of
                   Some su \<Rightarrow> send 200 ''application/json'' (One_Suite (NewSuiteStatus su))
                 | None \<Rightarrow> send 404 ''application/json''
                     (Error_Object (''Suite with key '' @ [CHR 0x27] @ k @ [CHR 0x27] @ '' not found''))))
            (as_GetSuiteStatusByKey api s k (WithPagination NewSuiteStatusParams page pageSize)))"

section \<open>Pages\<close>

definition themed :: "Page_Config \<Rightarrow> api_request \<Rightarrow> string" where
  "themed ui c =
     (let themeFromCookie = ar_cookie c ''theme''
      in if themeFromCookie \<noteq> [] then (if themeFromCookie = ''dark'' then ''dark'' else [])
         else if IsDarkMode ui then ''dark'' else [])"

text \<open>The template parses and executes when there is no error, as the validation has made sure of.\<close>

definition SinglePageApplication :: "(string \<Rightarrow> bool) \<Rightarrow> Page_Config \<Rightarrow> api_request \<Rightarrow> response" where
  "SinglePageApplication renders ui c =
     (if renders (themed ui c) then send 200 ''text/html'' (Page_View (themed ui c))
      else send_string 500
        ''Failed to parse template. This should never happen, because the template is validated on start.'')"

definition SingleEndpointRoot :: "(string \<Rightarrow> bool) \<Rightarrow> Page_Config \<Rightarrow> api_request \<Rightarrow> response" where
  "SingleEndpointRoot renders ui c =
     (if pg_SingleEndpoint ui \<noteq> []
      then \<lparr>rs_status = 302, rs_type = [], rs_location = ''/endpoints/'' @ PathEscape (pg_SingleEndpoint ui),
            rs_body = Text []\<rparr>
      else SinglePageApplication renders ui c)"

text \<open>The restriction to one endpoint: the response instead of the next handler's, if there is one.\<close>

definition RestrictToSingleEndpoint :: "Page_Config \<Rightarrow> api_request \<Rightarrow> response option" where
  "RestrictToSingleEndpoint ui c =
     (if pg_SingleEndpoint ui = [] then None
      else case QueryUnescape (ar_param c ''key'') of
             None \<Rightarrow> Some (send_string 400 ''invalid key encoding'')
           | Some k \<Rightarrow>
               if \<not> EqualFold k (pg_SingleEndpoint ui) then Some (send_string 404 ''Not Found'') else None)"

text \<open>What the user interface is told: whether there is a log-in, whether the user is in, and the announcements.\<close>

definition GetConfig ::
  "'c session_ops \<Rightarrow> 'c \<Rightarrow> instant \<Rightarrow> http_request_in \<Rightarrow> Config \<Rightarrow> response" where
  "GetConfig ops sessions now rq cfg =
     (let (hasOIDC, isAuthenticated) =
        (case c_Security cfg of
           None \<Rightarrow> (False, True)
         | Some sec \<Rightarrow> (sec_OIDC sec \<noteq> None, IsAuthenticated ops sec sessions now rq))
      in send 200 ''application/json'' (Client_Config hasOIDC isAuthenticated (c_Announcements cfg)))"

definition GetCustomCSS :: "Page_Config \<Rightarrow> response" where
  "GetCustomCSS ui = send 200 ''text/css'' (Text (pg_CustomCSS ui))"

end
