(* ===== verification/Api_Routes.thy ===== *)
theory Api_Routes
  imports Api_Status
begin

text \<open>
  \<open>api/api.go\<close>: the routes, in the order of their registration, and what a request runs through. How
  the framework matches the path of a request with that of a route or of a middleware is a parameter,
  as are the files it serves and the handlers of the metrics and of the health of the program. The
  framework answers a panic of a handler with an error; compression and the routes of the OpenID
  Connect log-in are left out.
\<close>

section \<open>Routes\<close>

datatype target =
    Metrics_Handler | Config_Handler | Health_Badge | Health_Badge_Shields | Uptime_Raw | Uptime_Badge
  | Response_Time_Raw | Response_Time_Badge | Response_Time_Chart | Response_Time_History | External_Push
  | Root_Page | Endpoint_Page | Suite_Page | Program_Health | Custom_CSS
  | Endpoint_Statuses | One_Endpoint_Status | Suite_Statuses | One_Suite_Status

record route =
  rt_method :: string
  rt_path :: string
  rt_restricted :: bool
  rt_target :: target

definition route_get :: "string \<Rightarrow> bool \<Rightarrow> target \<Rightarrow> route" where
  "route_get path restricted t = \<lparr>rt_method = ''GET'', rt_path = path, rt_restricted = restricted, rt_target = t\<rparr>"

definition unprotected_routes :: "Config \<Rightarrow> route list" where
  "unprotected_routes cfg =
     (if c_Metrics cfg then [route_get ''/metrics'' False Metrics_Handler] else []) @
     [route_get ''/api/v1/config'' False Config_Handler,
      route_get ''/api/v1/endpoints/:key/health/badge.svg'' True Health_Badge,
      route_get ''/api/v1/endpoints/:key/health/badge.shields'' True Health_Badge_Shields,
      route_get ''/api/v1/endpoints/:key/uptimes/:duration'' True Uptime_Raw,
      route_get ''/api/v1/endpoints/:key/uptimes/:duration/badge.svg'' True Uptime_Badge,
      route_get ''/api/v1/endpoints/:key/response-times/:duration'' True Response_Time_Raw,
      route_get ''/api/v1/endpoints/:key/response-times/:duration/badge.svg'' True Response_Time_Badge,
      route_get ''/api/v1/endpoints/:key/response-times/:duration/chart.svg'' True Response_Time_Chart,
      route_get ''/api/v1/endpoints/:key/response-times/:duration/history'' True Response_Time_History,
      \<lparr>rt_method = ''POST'', rt_path = ''/api/v1/endpoints/:key/external'', rt_restricted = False,
       rt_target = External_Push\<rparr>,
      route_get ''/'' False Root_Page,
      route_get ''/endpoints/:key'' True Endpoint_Page,
      route_get ''/suites/:key'' False Suite_Page,
      route_get ''/health'' False Program_Health,
      route_get ''/css/custom.css'' False Custom_CSS]"

definition protected_routes :: "route list" where
  "protected_routes =
     [route_get ''/api/v1/endpoints/statuses'' False Endpoint_Statuses,
      route_get ''/api/v1/endpoints/:key/statuses'' True One_Endpoint_Status,
      route_get ''/api/v1/suites/statuses'' False Suite_Statuses,
      route_get ''/api/v1/suites/:key/statuses'' False One_Suite_Status]"

section \<open>Serving a request\<close>

text \<open>What the handlers need besides the request.\<close>

record ('s, 'a, 'c) server =
  sv_config :: Config
  sv_store :: 's
  sv_cache :: 'a
  sv_sessions :: 'c

record ('s, 'a, 'c) surroundings =
  su_api :: "'s api_store"
  su_responses :: "'a response_cache"
  su_session_ops :: "'c session_ops"
  su_auth :: auth_lib
  su_matches :: "string \<Rightarrow> string \<Rightarrow> bool"
  su_below :: "string \<Rightarrow> string \<Rightarrow> bool"
  su_file :: "string \<Rightarrow> response option"
  su_metrics :: response
  su_health :: response
  su_fetch :: "string \<Rightarrow> Status list option"
  su_render_error :: "(int \<times> int) list \<Rightarrow> int \<Rightarrow> string option"
  su_renders :: "string \<Rightarrow> bool"
  su_duration_error :: "string \<Rightarrow> string"
  su_watch :: "'s watch_env"
  su_now :: instant
  su_then :: instant

record incoming =
  ic_method :: string
  ic_path :: string
  ic_request :: api_request
  ic_credentials :: http_request_in

definition only_store :: "('s, 'a, 'c) server \<Rightarrow> (response \<times> 's) outcome \<Rightarrow> (response \<times> ('s, 'a, 'c) server) outcome" where
  "only_store sv x = map_outcome (\<lambda>(r, s). (r, sv\<lparr>sv_store := s\<rparr>)) x"

definition same_server :: "('s, 'a, 'c) server \<Rightarrow> response outcome \<Rightarrow> (response \<times> ('s, 'a, 'c) server) outcome" where
  "same_server sv x = map_outcome (\<lambda>r. (r, sv)) x"

fun handle :: "('s, 'a, 'c) surroundings \<Rightarrow> Page_Config \<Rightarrow> ('s, 'a, 'c) server \<Rightarrow> incoming \<Rightarrow> target \<Rightarrow>
    (response \<times> ('s, 'a, 'c) server) outcome" where
  "handle su ui sv ic Metrics_Handler = Return (su_metrics su, sv)"
| "handle su ui sv ic Config_Handler =
     Return (GetConfig (su_session_ops su) (sv_sessions sv) (su_now su) (ic_credentials ic) (sv_config sv), sv)"
| "handle su ui sv ic Health_Badge = only_store sv (HealthBadge (su_api su) (sv_store sv) (ic_request ic))"
| "handle su ui sv ic Health_Badge_Shields = only_store sv (HealthBadgeShields (su_api su) (sv_store sv) (ic_request ic))"
| "handle su ui sv ic Uptime_Raw =
     Return (UptimeRaw (su_api su) (sv_store sv) (su_now su) (su_then su) (ic_request ic), sv)"
| "handle su ui sv ic Uptime_Badge =
     Return (UptimeBadge (su_api su) (sv_store sv) (su_now su) (su_then su) (ic_request ic), sv)"
| "handle su ui sv ic Response_Time_Raw =
     Return (ResponseTimeRaw (su_api su) (sv_store sv) (su_now su) (su_then su) (ic_request ic), sv)"
| "handle su ui sv ic Response_Time_Badge =
     same_server sv (ResponseTimeBadge (sv_config sv) (su_api su) (sv_store sv) (su_now su) (su_then su) (ic_request ic))"
| "handle su ui sv ic Response_Time_Chart =
     Return (ResponseTimeChart (su_render_error su) (su_api su) (sv_store sv) (su_now su) (su_then su) (ic_request ic), sv)"
| "handle su ui sv ic Response_Time_History =
     Return (ResponseTimeHistory (su_api su) (sv_store sv) (su_now su) (su_then su) (ic_request ic), sv)"
| "handle su ui sv ic External_Push =
     map_outcome (\<lambda>p. (pu_response p, sv\<lparr>sv_config := pu_config p, sv_store := pu_store p\<rparr>))
       (CreateExternalEndpointResult (sv_config sv) (su_duration_error su) (su_api su) (su_watch su) (su_now su)
         (ic_request ic) (sv_store sv))"
| "handle su ui sv ic Root_Page = Return (SingleEndpointRoot (su_renders su) ui (ic_request ic), sv)"
| "handle su ui sv ic Endpoint_Page = Return (SinglePageApplication (su_renders su) ui (ic_request ic), sv)"
| "handle su ui sv ic Suite_Page = Return (SinglePageApplication (su_renders su) ui (ic_request ic), sv)"
| "handle su ui sv ic Program_Health = Return (su_health su, sv)"
| "handle su ui sv ic Custom_CSS = Return (GetCustomCSS ui, sv)"
| "handle su ui sv ic Endpoint_Statuses =
     map_outcome (\<lambda>(r, s, a). (r, sv\<lparr>sv_store := s, sv_cache := a\<rparr>))
       (EndpointStatuses (sv_config sv) (su_api su) (su_responses su) (su_fetch su) (su_now su) (ic_request ic)
         (sv_store sv, sv_cache sv))"
| "handle su ui sv ic One_Endpoint_Status =
     only_store sv (EndpointStatus (sv_config sv) (su_api su) (ic_request ic) (sv_store sv))"
| "handle su ui sv ic Suite_Statuses =
     same_server sv (SuiteStatuses (sv_config sv) (su_api su) (ic_request ic) (sv_store sv))"
| "handle su ui sv ic One_Suite_Status =
     same_server sv (SuiteStatus (sv_config sv) (su_api su) (ic_request ic) (sv_store sv))"

definition run_route :: "('s, 'a, 'c) surroundings \<Rightarrow> Page_Config \<Rightarrow> ('s, 'a, 'c) server \<Rightarrow> incoming \<Rightarrow> route \<Rightarrow>
    (response \<times> ('s, 'a, 'c) server) outcome" where
  "run_route su ui sv ic rt =
     (case (if rt_restricted rt then RestrictToSingleEndpoint ui (ic_request ic) else None) of
        Some r \<Rightarrow> Return (r, sv)
      | None \<Rightarrow> handle su ui sv ic (rt_target rt))"

definition route_for :: "('s, 'a, 'c) surroundings \<Rightarrow> incoming \<Rightarrow> route list \<Rightarrow> route option" where
  "route_for su ic = find (\<lambda>rt. rt_method rt = ic_method ic \<and> su_matches su (rt_path rt) (ic_path ic))"

text \<open>The middleware of the security, if there is one; that it cannot be set up is a panic at the start.\<close>

definition security_gate ::
  "('s, 'a, 'c) surroundings \<Rightarrow> Config \<Rightarrow> ('c \<Rightarrow> instant \<Rightarrow> http_request_in \<Rightarrow> bool) option" where
  "security_gate su cfg =
     (case c_Security cfg of
        None \<Rightarrow> Some (\<lambda>sessions now rq. True)
      | Some sec \<Rightarrow> ApplySecurityMiddleware (su_auth su) (su_session_ops su) sec)"

text \<open>
  A request in the order of registration: the unprotected routes, the files, and for a path below
  \<open>/api\<close> the middleware of the security and the protected routes.
\<close>

definition createRouter :: "('s, 'a, 'c) surroundings \<Rightarrow> ('s, 'a, 'c) server \<Rightarrow> incoming \<Rightarrow>
    (response \<times> ('s, 'a, 'c) server) outcome" where
  "createRouter su sv ic =
     (case (c_UI (sv_config sv), security_gate su (sv_config sv)) of
        (Some ui, Some passes) \<Rightarrow>
          (case route_for su ic (unprotected_routes (sv_config sv)) of
             Some rt \<Rightarrow> run_route su ui sv ic rt
           | None \<Rightarrow>
               if ic_path ic = ''/index.html''
               then Return (\<lparr>rs_status = 301, rs_type = [], rs_location = ''/'', rs_body = Text []\<rparr>, sv)
               else
                 (case su_file su (ic_path ic) of
                    Some r \<Rightarrow> Return (r, sv)
                  | None \<Rightarrow>
                      if su_below su ''/api'' (ic_path ic) \<and> \<not> passes (sv_sessions sv) (su_now su) (ic_credentials ic)
                      then Return (send_string 401 ''Unauthorized'', sv)
                      else (case route_for su ic protected_routes of
                              Some rt \<Rightarrow> run_route su ui sv ic rt
                            | None \<Rightarrow> Return (send_string 404 (''Cannot '' @ ic_method ic @ '' '' @ ic_path ic), sv))))
      | _ \<Rightarrow> Panic ''no router'')"

text \<open>A program without a configuration of its pages has the default one.\<close>

definition Api_New :: "Config \<Rightarrow> Config" where
  "Api_New cfg =
     cfg\<lparr>c_Web := (case c_Web cfg of None \<Rightarrow> Some Web_GetDefaultConfig | Some w \<Rightarrow> Some w),
         c_UI := (case c_UI cfg of None \<Rightarrow> Some Page_GetDefaultConfig | Some p \<Rightarrow> Some p)\<rparr>"

end
