(* ===== verification/Api_Properties.thy ===== *)
theory Api_Properties
  imports Api_Routes
begin

text \<open>
  What the API promises: the statuses with their results and events are given to authenticated requests only, the list of statuses is
  never older than the time its cache keeps it, and the page of a single endpoint can be reached.
\<close>

section \<open>Authentication\<close>

text \<open>
  The four bodies with details: the statuses of endpoints and of suites, with their results and events. The badges and the
  history of response times are of other bodies.
\<close>

definition shows_details :: "body \<Rightarrow> bool" where
  "shows_details b \<longleftrightarrow> (case b of Statuses _ \<Rightarrow> True | One_Status _ \<Rightarrow> True | Suites _ \<Rightarrow> True | One_Suite _ \<Rightarrow> True | _ \<Rightarrow> False)"

lemma shows_details_simps [simp]:
  "\<not> shows_details (Text t)" "\<not> shows_details (History h)" "\<not> shows_details (Rendered p m)"
  "\<not> shows_details (Page_View v)" "\<not> shows_details (Client_Config a b c)" "\<not> shows_details (Error_Object e)"
  "\<not> shows_details (Shields n l text color)"
  by (simp_all add: shows_details_def)

lemma texts_show_none [simp]:
  "\<not> shows_details (rs_body (send_string n t))" "\<not> shows_details (rs_body (error_response e))"
  "rs_body (send n t b) = b"
  by (simp_all add: send_string_def error_response_def send_def)

lemma map_outcome_Return: "map_outcome f x = Return y \<longleftrightarrow> (\<exists>z. x = Return z \<and> y = f z)"
  by (cases x) auto

lemma ranges_show_none:
  "(\<And>t k. \<not> shows_details (rs_body (f t k))) \<Longrightarrow> \<not> shows_details (rs_body (for_range start supported c f (\<lambda>r. r)))"
  by (simp add: for_range_def split: option.split)

lemma range_handlers_show_none:
  "\<not> shows_details (rs_body (UptimeRaw api s n n' c))" "\<not> shows_details (rs_body (ResponseTimeRaw api s n n' c))"
  "\<not> shows_details (rs_body (UptimeBadge api s n n' c))" "\<not> shows_details (rs_body (ResponseTimeHistory api s n n' c))"
  "\<not> shows_details (rs_body (ResponseTimeChart f api s n n' c))"
  unfolding UptimeRaw_def ResponseTimeRaw_def UptimeBadge_def ResponseTimeHistory_def ResponseTimeChart_def Let_def
  by (rule ranges_show_none, simp split: sum.split option.split)+

lemma health_shows_none:
  assumes "with_health f api s c = Return (r, s')" and "\<And>h. \<not> shows_details (rs_body (f h))"
  shows "\<not> shows_details (rs_body r)"
proof (cases "QueryUnescape (ar_param c ''key'')")
  case (Some k)
  then obtain x where "r = (case x of Inl err \<Rightarrow> error_response err | Inr status \<Rightarrow> f (health_of status))"
    using assms(1) by (auto simp: with_health_def map_outcome_Return)
  then show ?thesis using assms(2) by (cases x) simp_all
qed (use assms(1) in \<open>auto simp: with_health_def\<close>)

lemma unprotected_show_none:
  fixes sv :: "('s, 'a, 'c) server"
  assumes "handle su ui sv ic t = Return (r, sv')"
    and "t \<notin> {Endpoint_Statuses, One_Endpoint_Status, Suite_Statuses, One_Suite_Status}"
    and "\<not> shows_details (rs_body (su_metrics su))" and "\<not> shows_details (rs_body (su_health su))"
  shows "\<not> shows_details (rs_body r)"
proof (cases t)
  case External_Push
  then show ?thesis
    using assms(1) by (auto simp: map_outcome_Return CreateExternalEndpointResult_def refuse_def Let_def
        split: sum.splits prod.splits option.splits outcome.splits if_splits)
next
  case Response_Time_Badge
  then show ?thesis
    using assms(1) by (auto simp: same_server_def map_outcome_Return ResponseTimeBadge_def for_range_def Let_def
        split: option.splits sum.splits)
next
  case Health_Badge
  then show ?thesis
    using assms(1) by (auto simp: only_store_def map_outcome_Return HealthBadge_def dest!: health_shows_none)
next
  case Health_Badge_Shields
  then show ?thesis
    using assms(1) by (auto simp: only_store_def map_outcome_Return HealthBadgeShields_def generateHealthBadgeShields_def
        dest!: health_shows_none)
next
  case Config_Handler
  then show ?thesis using assms(1) by (auto simp: GetConfig_def Let_def split: prod.splits)
qed (use assms in \<open>auto simp: range_handlers_show_none SingleEndpointRoot_def SinglePageApplication_def GetCustomCSS_def
    split: if_splits\<close>)

text \<open>
  C13. With a security whose middleware does not let a request through, no response gives the details of an endpoint or a
  suite: its results, its events, its statuses. Such a request, when no open route, redirect or file answers it, leaves the server
  as it is and gets a 401 below \<open>/api\<close>, and a 404 elsewhere. The open routes are open by design, and what they answer is
  not hidden: the badges tell everyone whether an endpoint is healthy, its uptime and its response times, and so do the metrics when
  they are served. The matching of a path with a route below \<open>/api\<close> is one with the middleware below \<open>/api\<close> too,
  and the files and the handlers of metrics and of the health of the program do not answer with such details.
\<close>

theorem details_need_authentication:
  assumes "createRouter su sv ic = Return (r, sv')" and "security_gate su (sv_config sv) = Some passes"
    and "\<not> passes (sv_sessions sv) (su_now su) (ic_credentials ic)"
    and "\<forall>p. HasPrefix p ''/api'' \<longrightarrow> su_matches su p (ic_path ic) \<longrightarrow> su_below su ''/api'' (ic_path ic)"
    and "\<forall>path f. su_file su path = Some f \<longrightarrow> \<not> shows_details (rs_body f)"
    and "\<not> shows_details (rs_body (su_metrics su))" and "\<not> shows_details (rs_body (su_health su))"
  shows "\<not> shows_details (rs_body r) \<and>
    (route_for su ic (unprotected_routes (sv_config sv)) = None \<longrightarrow> ic_path ic \<noteq> ''/index.html'' \<longrightarrow>
     su_file su (ic_path ic) = None \<longrightarrow>
       sv' = sv \<and> r = (if su_below su ''/api'' (ic_path ic) then send_string 401 ''Unauthorized''
                      else send_string 404 (''Cannot '' @ ic_method ic @ '' '' @ ic_path ic)))"
proof -
  obtain ui where ui: "c_UI (sv_config sv) = Some ui"
    using assms(1) by (auto simp: createRouter_def split: option.splits)
  show ?thesis
  proof (cases "route_for su ic (unprotected_routes (sv_config sv))")
    case (Some rt)
    then have "rt \<in> set (unprotected_routes (sv_config sv))" by (auto simp: route_for_def find_Some_iff)
    then have t: "rt_target rt \<notin> {Endpoint_Statuses, One_Endpoint_Status, Suite_Statuses, One_Suite_Status}"
      by (auto simp: unprotected_routes_def route_get_def split: if_splits)
    have "run_route su ui sv ic rt = Return (r, sv')" using assms(1,2) ui Some by (simp add: createRouter_def)
    then show ?thesis
      using unprotected_show_none [OF _ t assms(6,7)] Some
      by (auto simp: run_route_def RestrictToSingleEndpoint_def split: option.splits if_splits)
  next
    case None
    have protected: "rt \<in> set protected_routes \<Longrightarrow> HasPrefix (rt_path rt) ''/api''" for rt
      by (auto simp: protected_routes_def route_get_def HasPrefix_def prefix_def)
    show ?thesis
    proof (cases "su_below su ''/api'' (ic_path ic)")
      case True
      then show ?thesis using assms(1,2,3,5) ui None by (auto simp: createRouter_def split: if_splits option.splits)
    next
      case False
      have "route_for su ic protected_routes = None"
        unfolding route_for_def find_None_iff using assms(4) protected False by blast
      then show ?thesis using assms(1,2,5) ui None False by (auto simp: createRouter_def split: if_splits option.splits)
    qed
  qed
qed

text \<open>A server with basic authentication, and a request for the statuses that has no credentials.\<close>

definition guarded_config :: Config where
  "guarded_config = Api_New (example_config\<lparr>c_Security :=
     Some \<lparr>sec_Basic = Some \<lparr>ba_Username = ''u'', ba_PasswordBcryptHashBase64Encoded = ''h''\<rparr>, sec_OIDC = None\<rparr>\<rparr>)"

definition guarded_server ::
  "(((string \<times> Status) list, (string \<times> Suite_Status) list) Store, unit, (string \<times> string \<times> instant) list) server" where
  "guarded_server = \<lparr>sv_config = guarded_config, sv_store = new_store 5 5, sv_cache = (), sv_sessions = []\<rparr>"

definition guarded_surroundings ::
  "(((string \<times> Status) list, (string \<times> Suite_Status) list) Store, unit, (string \<times> string \<times> instant) list) surroundings" where
  "guarded_surroundings =
     \<lparr>su_api = memory_api list_cache list_cache,
      su_responses = \<lparr>rc_Get = (\<lambda>c now k. None), rc_SetWithTTL = (\<lambda>c now k d ttl. c)\<rparr>,
      su_session_ops = list_sessions, su_auth = \<lparr>au_base64 = Some, au_CompareHashAndPassword = (=)\<rparr>,
      su_matches = (=), su_below = (\<lambda>p path. HasPrefix path p), su_file = (\<lambda>path. None),
      su_metrics = send_string 200 [], su_health = send_string 200 [], su_fetch = (\<lambda>u. None),
      su_render_error = (\<lambda>ps m. None), su_renders = (\<lambda>t. True), su_duration_error = (\<lambda>d. d),
      su_watch = watched_env, su_now = 0, su_then = 0\<rparr>"

definition unauthenticated_request :: incoming where
  "unauthenticated_request =
     \<lparr>ic_method = ''GET'', ic_path = ''/api/v1/endpoints/statuses'', ic_request = history_request,
      ic_credentials = example_callback\<lparr>rq_basic := None\<rparr>\<rparr>"

theorem details_need_authentication_witness:
  "\<exists>r. createRouter guarded_surroundings guarded_server unauthenticated_request = Return (r, guarded_server) \<and>
    rs_status r = 401 \<and> \<not> shows_details (rs_body r)"
proof -
  let ?su = guarded_surroundings and ?sv = guarded_server and ?ic = unauthenticated_request
  have cfg: "c_UI (sv_config ?sv) = Some Page_GetDefaultConfig" "c_Metrics (sv_config ?sv) = False"
    "c_Security (sv_config ?sv) =
      Some \<lparr>sec_Basic = Some \<lparr>ba_Username = ''u'', ba_PasswordBcryptHashBase64Encoded = ''h''\<rparr>, sec_OIDC = None\<rparr>"
    by (simp_all add: guarded_server_def guarded_config_def Api_New_def example_config_def)
  have gate: "security_gate ?su (sv_config ?sv) = Some (\<lambda>sessions now rq.
      case rq_basic rq of None \<Rightarrow> False
      | Some (username, password) \<Rightarrow>
          basic_authorizer \<lparr>au_base64 = Some, au_CompareHashAndPassword = (=)\<rparr> \<lparr>ba_Username = ''u'', ba_PasswordBcryptHashBase64Encoded = ''h''\<rparr> ''h'' username password)"
    by (simp add: security_gate_def cfg ApplySecurityMiddleware_def guarded_surroundings_def)
  have su: "su_matches ?su = (=)" "su_below ?su = (\<lambda>p path. HasPrefix path p)" "su_file ?su = (\<lambda>path. None)"
    "ic_path ?ic = ''/api/v1/endpoints/statuses''" "rq_basic (ic_credentials ?ic) = None"
    by (simp_all add: guarded_surroundings_def unauthenticated_request_def)
  have "\<forall>rt \<in> set (unprotected_routes (sv_config ?sv)). rt_path rt \<noteq> ''/api/v1/endpoints/statuses''"
    by (simp add: unprotected_routes_def cfg route_get_def)
  then have none: "route_for ?su ?ic (unprotected_routes (sv_config ?sv)) = None"
    by (auto simp: route_for_def find_None_iff su)
  have run: "createRouter ?su ?sv ?ic = Return (send_string 401 ''Unauthorized'', ?sv)"
    by (simp add: createRouter_def gate cfg none su HasPrefix_def)
  have "su_metrics ?su = send_string 200 []" "su_health ?su = send_string 200 []"
    by (simp_all add: guarded_surroundings_def)
  with details_need_authentication [OF run gate] run show ?thesis by (simp add: su send_string_def send_def)
qed

section \<open>A single endpoint\<close>

lemma sanitized_no_plus: "CHR ''+'' \<notin> set (ConvertGroupAndNameToKey g n)"
  using sanitize_chars [of g] sanitize_chars [of n] by (auto simp: ConvertGroupAndNameToKey_def)

lemma pattern_no_plus: "externalEndpointKeyPattern s \<Longrightarrow> CHR ''+'' \<notin> set s"
  by (cases s) (auto simp: externalEndpointKeyPattern_def list_all_iff is_lower_alnum_def is_digit_def)

text \<open>
  C18. When the configuration of a single endpoint has been validated, with keys made of names or
  of the pattern for keys of external endpoints, the root of the pages redirects to a page below
  \<open>/endpoints/\<close> whose last part the restriction lets through and decodes to the key of an enabled
  endpoint or external endpoint.
\<close>

theorem single_endpoint_redirect_admitted:
  assumes "ValidateSingleEndpointConfig cfg = Return (None, cfg')" and "c_UI cfg' = Some ui"
    and "pg_SingleEndpoint ui \<noteq> []" and "\<forall>ep \<in> set (c_Endpoints cfg). e_KeyOverride ep = []"
    and "\<forall>ee \<in> set (c_ExternalEndpoints cfg). ee_CustomKey ee = [] \<or> externalEndpointKeyPattern (ee_CustomKey ee)"
  shows "\<exists>p. rs_status (SingleEndpointRoot renders ui c) = 302 \<and>
    rs_location (SingleEndpointRoot renders ui c) = ''/endpoints/'' @ p \<and>
    QueryUnescape p = Some (pg_SingleEndpoint ui) \<and>
    (\<forall>c'. ar_param c' ''key'' = p \<longrightarrow> RestrictToSingleEndpoint ui c' = None) \<and>
    ((\<exists>ep \<in> set (c_Endpoints cfg). Endpoint_IsEnabled ep \<and> Endpoint_Key ep = pg_SingleEndpoint ui) \<or>
     (\<exists>ee \<in> set (c_ExternalEndpoints cfg). External_IsEnabled ee \<and> External_Key ee = pg_SingleEndpoint ui))"
proof -
  have found: "(\<exists>ep \<in> set (c_Endpoints cfg). Endpoint_IsEnabled ep \<and> Endpoint_Key ep = pg_SingleEndpoint ui) \<or>
     (\<exists>ee \<in> set (c_ExternalEndpoints cfg). External_IsEnabled ee \<and> External_Key ee = pg_SingleEndpoint ui)"
    using assms(1-3)
    by (auto simp: ValidateSingleEndpointConfig_def GetEndpointByKey_def GetExternalEndpointByKey_def find_Some_iff
        split: option.splits if_splits) (metis nth_mem)+
  then have "CHR ''+'' \<notin> set (pg_SingleEndpoint ui)"
    using assms(4,5) sanitized_no_plus pattern_no_plus
    by (auto simp: Endpoint_Key_def External_Key_def split: if_splits) metis+
  note q = QueryUnescape_PathEscape [OF this]
  then show ?thesis
    using assms(3) found
    by (intro exI [of _ "PathEscape (pg_SingleEndpoint ui)"])
      (simp add: SingleEndpointRoot_def RestrictToSingleEndpoint_def EqualFold_def)
qed

theorem single_endpoint_redirect_admitted_witness:
  "\<exists>p. rs_location (SingleEndpointRoot (\<lambda>t. True) (Page_GetDefaultConfig\<lparr>pg_SingleEndpoint := ''_web''\<rparr>) history_request) =
      ''/endpoints/'' @ p \<and> QueryUnescape p = Some ''_web''"
proof -
  let ?cfg = "example_config\<lparr>c_UI := Some (Page_GetDefaultConfig\<lparr>pg_SingleEndpoint := ''_WEB''\<rparr>)\<rparr>"
  let ?ui = "Page_GetDefaultConfig\<lparr>pg_SingleEndpoint := ''_web''\<rparr>"
  have e: "Endpoint_Key example_endpoint = ''_web''" "ToLower ''_WEB'' = ''_web''" "Endpoint_IsEnabled example_endpoint"
    by code_simp+
  have v: "ValidateSingleEndpointConfig ?cfg = Return (None, ?cfg\<lparr>c_UI := Some ?ui\<rparr>)"
    by (simp add: ValidateSingleEndpointConfig_def GetEndpointByKey_def example_config_def e)
  have keys: "list_all (\<lambda>ep. e_KeyOverride ep = []) (c_Endpoints ?cfg)"
    "list_all (\<lambda>ee. ee_CustomKey ee = [] \<or> externalEndpointKeyPattern (ee_CustomKey ee)) (c_ExternalEndpoints ?cfg)"
    by (simp_all add: example_config_def example_endpoint_def example_external_def empty_Endpoint_def)
  show ?thesis
    using single_endpoint_redirect_admitted [OF v, of ?ui "\<lambda>t. True" history_request] keys
    by (auto simp: list_all_iff)
qed

section \<open>The age of a list of statuses\<close>

text \<open>A cache with times to live: an entry that is found has not expired, and entries may be evicted.\<close>

locale ttl_cache =
  fixes rc :: "'a response_cache"
    and entry :: "'a \<Rightarrow> string \<Rightarrow> (instant \<times> Status list) option"
  assumes Get_entry: "rc_Get rc cache now k = Some d \<Longrightarrow> \<exists>expiry. entry cache k = Some (expiry, d) \<and> now \<le> expiry"
    and entry_Set: "entry (rc_SetWithTTL rc cache now k d ttl) k' =
        (if k' = k then Some (now + ttl, d) else entry cache k') \<or>
      entry (rc_SetWithTTL rc cache now k d ttl) k' = None"

text \<open>
  Requests for the list, whatever happens to the storage and to the remote instances between them: the
  cache and the instants, stores and answers of the instances at the requests.
\<close>

inductive listing_run ::
  "Config \<Rightarrow> 's api_store \<Rightarrow> 'a response_cache \<Rightarrow> 'a \<Rightarrow> 'a \<times> (instant \<times> 's \<times> (string \<Rightarrow> Status list option)) list \<Rightarrow> bool"
  for cfg api rc init where
  start: "listing_run cfg api rc init (init, [])"
| request: "listing_run cfg api rc init (cache, log) \<Longrightarrow>
    EndpointStatuses cfg api rc fetch now c (s, cache) = Return (r, s', cache') \<Longrightarrow>
    listing_run cfg api rc init (cache', log @ [(now, s, fetch)])"

lemma statuses_cache_key_inject:
  assumes "statuses_cache_key single p n = statuses_cache_key single p' n'" and "1 \<le> p" and "1 \<le> p'"
    and "in_int64 p" and "in_int64 p'" and "in_int64 n" and "in_int64 n'"
  shows "p = p' \<and> n = n'"
proof -
  have no: "CHR ''-'' \<notin> set (Itoa q)" if "1 \<le> q" for q
    using that Itoa_nonneg_chars [of q "CHR ''-''"] by (auto simp: is_digit_def)
  have "Itoa p @ CHR ''-'' # Itoa n @ (if single = [] then [] else ''-'' @ single) =
      Itoa p' @ CHR ''-'' # Itoa n' @ (if single = [] then [] else ''-'' @ single)"
    using assms(1) by (simp add: statuses_cache_key_def)
  from append_sep_inject [OF this no no] assms(2,3) have "Itoa p = Itoa p'" "Itoa n = Itoa n'" by simp_all
  then show ?thesis using Atoi_Itoa assms(4-7) by (metis option.inject)
qed

lemma Atoi_range: "Atoi s = Some i \<Longrightarrow> in_int64 i"
  by (auto simp: Atoi_def ParseInt_def Let_def split: list.splits option.splits if_splits)

lemma extract_range:
  assumes "extractPageAndPageSizeFromRequest c m = (p, n)" and "in_int64 m"
  shows "1 \<le> p" and "in_int64 p" and "in_int64 n"
proof -
  show "1 \<le> p" by (rule extract_bounds(1) [OF assms(1)])
  show "in_int64 p" "in_int64 n"
    using assms
    by (auto simp: extractPageAndPageSizeFromRequest_def DefaultPage_def DefaultPageSize_def Let_def
        in_int64_def [of 1] in_int64_def [of 50] min_int64_def max_int64_def
        dest: Atoi_range split: if_splits option.splits)
qed

text \<open>What a request for the list answers with, and what it leaves in the cache.\<close>

lemma EndpointStatuses_cases:
  assumes "EndpointStatuses cfg api rc fetch now c (s, cache) = Return (r, s', cache')"
    and "c_Storage cfg = Some sto" and "c_UI cfg = Some ui"
    and "extractPageAndPageSizeFromRequest c (sto_MaximumNumberOfResults sto) = (p, n)"
    and "k = statuses_cache_key (pg_SingleEndpoint ui) p n"
  shows "(\<exists>d. rc_Get rc cache now k = Some d \<and> rs_body r = Statuses d \<and> cache' = cache) \<or>
    (rc_Get rc cache now k = None \<and>
      ((\<exists>d. computed_statuses api fetch (c_Remote cfg) (pg_SingleEndpoint ui) p n s = Return (Inr d, s') \<and>
          rs_body r = Statuses d \<and> cache' = rc_SetWithTTL rc cache now k d cacheTTL) \<or>
       (\<exists>t. rs_body r = Text t \<and> cache' = cache)))"
proof (cases "rc_Get rc cache now k")
  case None
  then obtain x s0 where x: "computed_statuses api fetch (c_Remote cfg) (pg_SingleEndpoint ui) p n s = Return (x, s0)"
    using assms(1) by (auto simp: EndpointStatuses_def assms(2-5) map_outcome_Return)
  show ?thesis using assms(1) None x
    by (cases x) (auto simp: EndpointStatuses_def assms(2-5) send_def send_string_def)
next
  case (Some d)
  then show ?thesis using assms(1) by (auto simp: EndpointStatuses_def assms(2-5) Let_def send_def)
qed

context ttl_cache
begin

definition fresh_entries :: "Config \<Rightarrow> 's api_store \<Rightarrow> string \<Rightarrow> 'a \<Rightarrow>
    (instant \<times> 's \<times> (string \<Rightarrow> Status list option)) list \<Rightarrow> bool" where
  "fresh_entries cfg api single cache log \<longleftrightarrow>
     (\<forall>k expiry d. entry cache k = Some (expiry, d) \<longrightarrow>
        (\<exists>t s f p n s'. (t, s, f) \<in> set log \<and> expiry = t + cacheTTL \<and> k = statuses_cache_key single p n \<and>
           1 \<le> p \<and> in_int64 p \<and> in_int64 n \<and>
           computed_statuses api f (c_Remote cfg) single p n s = Return (Inr d, s')))"

lemma fresh_entries_step:
  assumes "fresh_entries cfg api single cache log" and "1 \<le> p" and "in_int64 p" and "in_int64 n"
    and "computed_statuses api fetch (c_Remote cfg) single p n s = Return (Inr d, s')"
  shows "fresh_entries cfg api single (rc_SetWithTTL rc cache now (statuses_cache_key single p n) d cacheTTL)
    (log @ [(now, s, fetch)])"
  unfolding fresh_entries_def
proof (intro allI impI)
  fix k expiry d'
  assume e: "entry (rc_SetWithTTL rc cache now (statuses_cache_key single p n) d cacheTTL) k = Some (expiry, d')"
  show "\<exists>t s' f p n s''. (t, s', f) \<in> set (log @ [(now, s, fetch)]) \<and> expiry = t + cacheTTL \<and>
      k = statuses_cache_key single p n \<and> 1 \<le> p \<and> in_int64 p \<and> in_int64 n \<and>
      computed_statuses api f (c_Remote cfg) single p n s' = Return (Inr d', s'')"
  proof (cases "k = statuses_cache_key single p n")
    case True
    then have "expiry = now + cacheTTL" "d' = d" using e entry_Set [of cache now k d cacheTTL k] by auto
    with assms(2-5) True show ?thesis
      by - (rule exI [of _ now], rule exI [of _ s], rule exI [of _ fetch], rule exI [of _ p], rule exI [of _ n],
          rule exI [of _ s'], simp)
  next
    case False
    then have "entry cache k = Some (expiry, d')"
      using e entry_Set [of cache now "statuses_cache_key single p n" d cacheTTL k] by auto
    with assms(1) show ?thesis unfolding fresh_entries_def by fastforce
  qed
qed

lemma fresh_entries_more: "fresh_entries cfg api single cache log \<Longrightarrow> fresh_entries cfg api single cache (log @ xs)"
  unfolding fresh_entries_def by fastforce

lemma listing_run_fresh:
  assumes "listing_run cfg api rc init (cache, log)" and "\<And>k. entry init k = None"
    and "c_Storage cfg = Some sto" and "c_UI cfg = Some ui" and "in_int64 (sto_MaximumNumberOfResults sto)"
  shows "fresh_entries cfg api (pg_SingleEndpoint ui) cache log"
  using assms(1)
proof (induction "(cache, log)" arbitrary: cache log rule: listing_run.induct)
  case start
  then show ?case by (simp add: fresh_entries_def assms(2))
next
  case (request cache log fetch now c s r s' cache')
  obtain p n where pn: "extractPageAndPageSizeFromRequest c (sto_MaximumNumberOfResults sto) = (p, n)" by fastforce
  note range = extract_range [OF pn assms(5)]
  from EndpointStatuses_cases [OF request.hyps(3) assms(3,4) pn refl] show ?case
    using fresh_entries_step [OF request.hyps(2) range] fresh_entries_more [OF request.hyps(2)] by auto
qed

lemma listed_recently:
  assumes "listing_run cfg api rc init (cache, log)" and "\<And>k. entry init k = None"
    and "c_Storage cfg = Some sto" and "c_UI cfg = Some ui" and "in_int64 (sto_MaximumNumberOfResults sto)"
    and "EndpointStatuses cfg api rc fetch now c (s, cache) = Return (r, s', cache')" and "rs_body r = Statuses d"
    and "extractPageAndPageSizeFromRequest c (sto_MaximumNumberOfResults sto) = (p, n)"
  shows "\<exists>t s0 f s1. (t, s0, f) \<in> set (log @ [(now, s, fetch)]) \<and> now \<le> t + cacheTTL \<and>
    computed_statuses api f (c_Remote cfg) (pg_SingleEndpoint ui) p n s0 = Return (Inr d, s1)"
proof -
  let ?k = "statuses_cache_key (pg_SingleEndpoint ui) p n"
  note range = extract_range [OF assms(8,5)]
  note fresh = listing_run_fresh [OF assms(1-5)]
  from EndpointStatuses_cases [OF assms(6,3,4,8) refl] assms(7)
  consider (cached) "rc_Get rc cache now ?k = Some d"
    | (computed) "computed_statuses api fetch (c_Remote cfg) (pg_SingleEndpoint ui) p n s = Return (Inr d, s')" by auto
  then show ?thesis
  proof cases
    case cached
    from Get_entry [OF cached] obtain expiry where e: "entry cache ?k = Some (expiry, d)" "now \<le> expiry" by blast
    from fresh [unfolded fresh_entries_def, rule_format, OF e(1)] obtain t s0 f p' n' s1 where
      t: "(t, s0, f) \<in> set log" "expiry = t + cacheTTL" "?k = statuses_cache_key (pg_SingleEndpoint ui) p' n'"
      "1 \<le> p'" "in_int64 p'" "in_int64 n'"
      "computed_statuses api f (c_Remote cfg) (pg_SingleEndpoint ui) p' n' s0 = Return (Inr d, s1)" by blast
    have "p = p' \<and> n = n'" by (rule statuses_cache_key_inject [OF t(3) range(1) t(4) range(2) t(5) range(3) t(6)])
    with t e(2) show ?thesis by auto
  next
    case computed
    then show ?thesis
      by - (rule exI [of _ now], rule exI [of _ s], rule exI [of _ fetch], rule exI [of _ s'],
          simp add: cacheTTL_def second_def)
  qed
qed

end

section \<open>A cache of responses\<close>

text \<open>At most a hundred entries, of which the oldest go first.\<close>

definition list_responses :: "(string \<times> instant \<times> Status list) list response_cache" where
  "list_responses =
     \<lparr>rc_Get = (\<lambda>c now k. case map_of c k of None \<Rightarrow> None | Some (expiry, d) \<Rightarrow> if now \<le> expiry then Some d else None),
      rc_SetWithTTL = (\<lambda>c now k d ttl. take 100 ((k, now + ttl, d) # filter (\<lambda>e. fst e \<noteq> k) c))\<rparr>"

lemma map_of_take: "map_of (take n xs) k = map_of xs k \<or> map_of (take n xs) k = None"
proof (induction xs arbitrary: n)
  case (Cons x xs)
  then show ?case by (cases n) auto
qed simp

interpretation list_responses: ttl_cache list_responses map_of
proof unfold_locales
  fix cache :: "(string \<times> instant \<times> Status list) list" and now k d ttl k'
  show "rc_Get list_responses cache now k = Some d \<Longrightarrow> \<exists>expiry. map_of cache k = Some (expiry, d) \<and> now \<le> expiry"
    by (auto simp: list_responses_def split: option.splits if_splits)
  have "map_of (filter (\<lambda>e. fst e \<noteq> k) cache) k' = (if k' = k then None else map_of cache k')"
    by (induction cache) auto
  then show "map_of (rc_SetWithTTL list_responses cache now k d ttl) k' =
        (if k' = k then Some (now + ttl, d) else map_of cache k') \<or>
      map_of (rc_SetWithTTL list_responses cache now k d ttl) k' = None"
    using map_of_take [of 100 "(k, now + ttl, d) # filter (\<lambda>e. fst e \<noteq> k) cache" k']
    by (auto simp: list_responses_def simp del: take_Suc_Cons take.simps)
qed

text \<open>
  C16. However the storage and the remote instances change between the requests, a list of statuses
  that is answered is what the list of that page was at one of the requests of the last ten seconds, this
  one included.
\<close>

theorem listed_statuses_are_recent:
  assumes "listing_run cfg api list_responses [] (cache, log)"
    and "c_Storage cfg = Some sto" and "c_UI cfg = Some ui" and "in_int64 (sto_MaximumNumberOfResults sto)"
    and "EndpointStatuses cfg api list_responses fetch now c (s, cache) = Return (r, s', cache')" and "rs_body r = Statuses d"
    and "extractPageAndPageSizeFromRequest c (sto_MaximumNumberOfResults sto) = (p, n)"
  shows "\<exists>t s0 f s1. (t, s0, f) \<in> set (log @ [(now, s, fetch)]) \<and> now \<le> t + 10 * second \<and>
    computed_statuses api f (c_Remote cfg) (pg_SingleEndpoint ui) p n s0 = Return (Inr d, s1)"
  using list_responses.listed_recently [OF assms(1) _ assms(2-7)] by (simp add: cacheTTL_def)

text \<open>
  A list that is asked for again after five seconds, when the storage knows an endpoint it did not know
  before: the answer is that of the first request.
\<close>

definition listing_storage :: Storage_Config where
  "listing_storage = \<lparr>sto_Path = [], sto_Type = TypeMemory, sto_Caching = False, sto_MaximumNumberOfResults = 100,
     sto_MaximumNumberOfEvents = 50\<rparr>"

definition listing_config :: Config where
  "listing_config = Api_New (example_config\<lparr>c_Storage := Some listing_storage\<rparr>)"

theorem listed_statuses_are_recent_witness:
  "\<exists>cache s'. listing_run listing_config (memory_api list_cache list_cache) list_responses []
      (cache, [(0, new_store 5 5, \<lambda>u. None)]) \<and>
    EndpointStatuses listing_config (memory_api list_cache list_cache) list_responses (\<lambda>u. None) (5 * second)
      history_request (history_store, cache) = Return (send 200 ''application/json'' (Statuses []), s', cache) \<and>
    5 * second \<le> 0 + 10 * second"
proof -
  let ?api = "memory_api list_cache list_cache" and ?f = "(\<lambda>u. None) :: string \<Rightarrow> Status list option"
  let ?cache = "[(statuses_cache_key [] 1 50, 10 * second, [])] :: (string \<times> instant \<times> Status list) list"
  have pn: "extractPageAndPageSizeFromRequest history_request 100 = (1, 50)" by code_simp
  have cfg: "c_Storage listing_config = Some listing_storage" "c_UI listing_config = Some Page_GetDefaultConfig"
    "c_Remote listing_config = None" "sto_MaximumNumberOfResults listing_storage = 100"
    "pg_SingleEndpoint Page_GetDefaultConfig = []"
    by (simp_all add: listing_config_def Api_New_def example_config_def listing_storage_def Page_GetDefaultConfig_def)
  have "GetAllEndpointStatuses list_cache (new_store 5 5) (Some (WithResults NewEndpointStatusParams 1 50)) = Return []"
    by (simp add: GetAllEndpointStatuses_def NewStore_def list_cache_def Let_def)
  then have first: "EndpointStatuses listing_config ?api list_responses ?f 0 history_request (new_store 5 5, []) =
      Return (send 200 ''application/json'' (Statuses []), new_store 5 5, ?cache)"
    by (simp add: EndpointStatuses_def cfg pn computed_statuses_def memory_api_def
        list_responses_def getEndpointStatusesFromRemoteInstances_def only_single_def
        cacheTTL_def)
  have second: "EndpointStatuses listing_config ?api list_responses ?f (5 * second) history_request (history_store, ?cache) =
      Return (send 200 ''application/json'' (Statuses []), history_store, ?cache)"
    by (simp add: EndpointStatuses_def cfg pn list_responses_def second_def)
  have run: "listing_run listing_config ?api list_responses [] (?cache, [(0, new_store 5 5, ?f)])"
    using listing_run.request [OF listing_run.start first] by simp
  from listed_statuses_are_recent [OF run cfg(1,2) _ second, of "[]" 1 50] pn cfg(4) run second
  show ?thesis by (fastforce simp: in_int64_def min_int64_def max_int64_def send_def second_def)
qed

end
