(* ===== verification/Go_Json.thy ===== *)
theory Go_Json
  imports Go_Values
begin

text \<open>
  \<open>json.Marshal\<close>: the texts of values. A struct is an object with its fields in order, a Go map an
  object with its keys in order, a nil pointer, slice or map is null. A float that is not finite has no text, which
  is an error. Strings are bytes, and what is not UTF-8 is replaced.

  The decoder of string literals is that of the receivers of the messages.
\<close>

section \<open>Values\<close>

datatype json =
    JNull
  | JBool bool
  | JInt int
  | JFloat f64
  | JStr string
  | JArr "json list"
  | JObj "(string \<times> json) list"

fun json_of :: "goval \<Rightarrow> json" where
  "json_of VNil = JNull"
| "json_of (VBool b) = JBool b"
| "json_of (VInt i) = JInt i"
| "json_of (VFloat f) = JFloat f"
| "json_of (VStr s) = JStr s"
| "json_of (VList vs) = JArr (map json_of vs)"
| "json_of (VMap kvs) = JObj (sort_key fst (map (\<lambda>(k, v). (k, json_of v)) kvs))"

text \<open>The fields of an object, and those that are left out when they are empty.\<close>

definition str_field :: "string \<Rightarrow> string \<Rightarrow> string \<times> json" where
  "str_field k s = (k, JStr s)"

definition int_field :: "string \<Rightarrow> int \<Rightarrow> string \<times> json" where
  "int_field k i = (k, JInt i)"

definition opt_str :: "string \<Rightarrow> string \<Rightarrow> (string \<times> json) list" where
  "opt_str k s = (if s = [] then [] else [(k, JStr s)])"

definition opt_int :: "string \<Rightarrow> int \<Rightarrow> (string \<times> json) list" where
  "opt_int k i = (if i = 0 then [] else [(k, JInt i)])"

definition opt_arr :: "string \<Rightarrow> json list \<Rightarrow> (string \<times> json) list" where
  "opt_arr k js = (if js = [] then [] else [(k, JArr js)])"

text \<open>A slice that is nil when it has no elements.\<close>

definition nil_arr :: "json list \<Rightarrow> json" where
  "nil_arr js = (if js = [] then JNull else JArr js)"

section \<open>Strings\<close>

definition byte_in :: "nat \<Rightarrow> nat \<Rightarrow> char \<Rightarrow> bool" where
  "byte_in lo hi c \<longleftrightarrow> lo \<le> of_char c \<and> of_char c \<le> hi"

text \<open>The length of the UTF-8 sequence at the start of a string; 0 when there is none.\<close>

definition utf8_width :: "string \<Rightarrow> nat" where
  "utf8_width s =
     (case s of
        [] \<Rightarrow> 0
      | a # s' \<Rightarrow>
          let x = (of_char a :: nat) in
          if x < 128 then 1
          else if byte_in 194 223 a then
            (case s' of b # _ \<Rightarrow> if byte_in 128 191 b then 2 else 0 | [] \<Rightarrow> 0)
          else if byte_in 224 239 a then
            (case s' of
               b # c # _ \<Rightarrow>
                 if byte_in (if x = 224 then 160 else 128) (if x = 237 then 159 else 191) b \<and> byte_in 128 191 c
                 then 3 else 0
             | _ \<Rightarrow> 0)
          else if byte_in 240 244 a then
            (case s' of
               b # c # d # _ \<Rightarrow>
                 if byte_in (if x = 240 then 144 else 128) (if x = 244 then 143 else 191) b \<and>
                    byte_in 128 191 c \<and> byte_in 128 191 d
                 then 4 else 0
             | _ \<Rightarrow> 0)
          else 0)"

definition backslash :: char where "backslash = CHR 0x5C"

definition lower_hex :: "nat \<Rightarrow> char" where
  "lower_hex n = ''0123456789abcdef'' ! n"

definition json_ascii :: "char \<Rightarrow> string" where
  "json_ascii c =
     (if c = CHR 0x22 \<or> c = backslash then [backslash, c]
      else if c = CHR 0x08 then [backslash, CHR ''b'']
      else if c = CHR 0x0C then [backslash, CHR ''f'']
      else if c = CHR 0x0A then [backslash, CHR ''n'']
      else if c = CHR 0x0D then [backslash, CHR ''r'']
      else if c = CHR 0x09 then [backslash, CHR ''t'']
      else if of_char c < (32 :: nat) \<or> c \<in> {CHR ''<'', CHR ''>'', CHR ''&''}
      then [backslash, CHR ''u'', CHR ''0'', CHR ''0'', lower_hex (of_char c div 16), lower_hex (of_char c mod 16)]
      else [c])"

text \<open>
  The bytes of a literal: \<open>k\<close> bytes of a sequence are still to be copied. The separators of lines
  and paragraphs, U+2028 and U+2029, are escaped.
\<close>

fun json_chars :: "nat \<Rightarrow> string \<Rightarrow> string" where
  "json_chars k [] = []"
| "json_chars (Suc k) (c # s) = c # json_chars k s"
| "json_chars 0 (c # s) =
     (if of_char c < (128 :: nat) then json_ascii c @ json_chars 0 s
      else case utf8_width (c # s) of
             0 \<Rightarrow> [backslash] @ ''ufffd'' @ json_chars 0 s
           | Suc k \<Rightarrow>
               if take 3 (c # s) = [CHR 0xE2, CHR 0x80, CHR 0xA8] then [backslash] @ ''u2028'' @ json_chars 0 (drop 2 s)
               else if take 3 (c # s) = [CHR 0xE2, CHR 0x80, CHR 0xA9] then [backslash] @ ''u2029'' @ json_chars 0 (drop 2 s)
               else c # json_chars k s)"

definition json_quote :: "string \<Rightarrow> string" where
  "json_quote s = [CHR 0x22] @ json_chars 0 s @ [CHR 0x22]"

section \<open>Texts\<close>

text \<open>A float without an exponent, but for those below a millionth or from \<open>10 ^ 21\<close> on.\<close>

definition json_float :: "f64 \<Rightarrow> string" where
  "json_float f =
     (case f of
        F_Fin neg m e \<Rightarrow>
          (if neg then ''-'' else []) @
          (if m = 0 then ''0''
           else
             let (n, d) = scale_frac 2 (- e) m 1;
                 (digs, dp) = shortest_digits 17 1 n d (dec_exp n d) (F_Fin False m e)
             in if dp < - 5 \<or> 21 < dp then
                  [hd digs] @ (if 1 < length digs then CHR ''.'' # tl digs else []) @
                  (if dp - 1 < 0 then ''e-'' @ nat_dec (nat (1 - dp)) else ''e+'' @ pad_exp (nat (dp - 1)))
                else if dp \<le> 0 then ''0.'' @ replicate (nat (- dp)) (CHR ''0'') @ digs
                else if int (length digs) \<le> dp then digs @ replicate (nat dp - length digs) (CHR ''0'')
                else take (nat dp) digs @ CHR ''.'' # drop (nat dp) digs)
      | _ \<Rightarrow> [])"

fun json_text :: "json \<Rightarrow> string" where
  "json_text JNull = ''null''"
| "json_text (JBool b) = FormatBool b"
| "json_text (JInt i) = Itoa i"
| "json_text (JFloat f) = json_float f"
| "json_text (JStr s) = json_quote s"
| "json_text (JArr js) = ''['' @ Join (map json_text js) '','' @ '']''"
| "json_text (JObj kvs) = ''{'' @ Join (map (\<lambda>(k, j). json_quote k @ '':'' @ json_text j) kvs) '','' @ ''}''"

fun json_finite :: "json \<Rightarrow> bool" where
  "json_finite (JFloat f) = (case f of F_Fin _ _ _ \<Rightarrow> True | _ \<Rightarrow> False)"
| "json_finite (JArr js) = list_all json_finite js"
| "json_finite (JObj kvs) = list_all (\<lambda>(k, j). json_finite j) kvs"
| "json_finite _ = True"

text \<open>With the error ignored, the text of a value that has none is empty.\<close>

definition Marshal :: "json \<Rightarrow> string" where
  "Marshal j = (if json_finite j then json_text j else [])"

section \<open>Reading a literal back\<close>

text \<open>The bytes of a code point below \<open>2 ^ 16\<close>, and a literal, after its first quote, with the text that follows it.\<close>

definition utf8_bytes :: "nat \<Rightarrow> string" where
  "utf8_bytes n =
     (if n < 128 then [char_of n]
      else if n < 2048 then [char_of (192 + n div 64), char_of (128 + n mod 64)]
      else [char_of (224 + n div 4096), char_of (128 + n div 64 mod 64), char_of (128 + n mod 64)])"

definition hex_value :: "char \<Rightarrow> nat" where
  "hex_value c = (let n = of_char c in if n < 58 then n - 48 else if n < 71 then n - 55 else n - 87)"

definition unescaped :: "char \<Rightarrow> char" where
  "unescaped c =
     (if c = CHR ''b'' then CHR 0x08 else if c = CHR ''f'' then CHR 0x0C else if c = CHR ''n'' then CHR 0x0A
      else if c = CHR ''r'' then CHR 0x0D else if c = CHR ''t'' then CHR 0x09 else c)"

fun decode_literal :: "string \<Rightarrow> (string \<times> string) option" where
  "decode_literal [] = None"
| "decode_literal (c # s) =
     (if c = CHR 0x22 then Some ([], s)
      else if c = backslash then
        (case s of
           [] \<Rightarrow> None
         | e # s' \<Rightarrow>
             if e = CHR ''u'' then
               (case s' of
                  h1 # h2 # h3 # h4 # s'' \<Rightarrow>
                    map_option (apfst ((@) (utf8_bytes
                      (((hex_value h1 * 16 + hex_value h2) * 16 + hex_value h3) * 16 + hex_value h4)))) (decode_literal s'')
                | _ \<Rightarrow> None)
             else map_option (apfst (Cons (unescaped e))) (decode_literal s'))
      else map_option (apfst (Cons c)) (decode_literal s))"

text \<open>A string with the bytes that are not UTF-8 replaced by U+FFFD; nothing is replaced in valid UTF-8.\<close>

fun replaced :: "nat \<Rightarrow> string \<Rightarrow> string" where
  "replaced k [] = []"
| "replaced (Suc k) (c # s) = c # replaced k s"
| "replaced 0 (c # s) =
     (if of_char c < (128 :: nat) then c # replaced 0 s
      else case utf8_width (c # s) of
             0 \<Rightarrow> utf8_bytes 65533 @ replaced 0 s
           | Suc k \<Rightarrow> c # replaced k s)"

fun valid_utf8 :: "nat \<Rightarrow> string \<Rightarrow> bool" where
  "valid_utf8 k [] \<longleftrightarrow> True"
| "valid_utf8 (Suc k) (c # s) \<longleftrightarrow> valid_utf8 k s"
| "valid_utf8 0 (c # s) \<longleftrightarrow> (case utf8_width (c # s) of 0 \<Rightarrow> False | Suc k \<Rightarrow> valid_utf8 k s)"

lemma utf8_width_ascii: "of_char c < (128 :: nat) \<Longrightarrow> utf8_width (c # s) = 1"
  by (simp add: utf8_width_def)

lemma replaced_valid: "valid_utf8 k s \<Longrightarrow> replaced k s = s"
  by (induction k s rule: replaced.induct) (auto simp: utf8_width_ascii split: nat.splits)

lemma lower_hex_value: "n < 16 \<Longrightarrow> hex_value (lower_hex n) = n"
proof -
  have "\<forall>n \<in> set [0..<16]. hex_value (lower_hex n) = n" by code_simp
  then show "n < 16 \<Longrightarrow> hex_value (lower_hex n) = n" by simp
qed

lemma backslash_not_quote [simp]: "backslash \<noteq> CHR 0x22" "CHR 0x22 \<noteq> backslash"
  by (simp_all add: backslash_def)

lemma append_single: "(@) [c] = Cons c"
  by (simp add: fun_eq_iff)

lemma decode_escaped:
  assumes "of_char c < (128 :: nat)"
  shows "decode_literal (json_ascii c @ t) = map_option (apfst (Cons c)) (decode_literal t)"
proof (cases "c \<in> {CHR 0x22, backslash, CHR 0x08, CHR 0x0C, CHR 0x0A, CHR 0x0D, CHR 0x09}")
  case True
  then show ?thesis by (auto simp: json_ascii_def unescaped_def backslash_def)
next
  case other: False
  show ?thesis
  proof (cases "of_char c < (32 :: nat) \<or> c \<in> {CHR ''<'', CHR ''>'', CHR ''&''}")
    case True
    then have "json_ascii c =
        [backslash, CHR ''u'', CHR ''0'', CHR ''0'', lower_hex (of_char c div 16), lower_hex (of_char c mod 16)]"
      using other by (auto simp: json_ascii_def)
    moreover have "of_char c div 16 < (16 :: nat)" "of_char c mod 16 < (16 :: nat)" using assms by simp_all
    then have "utf8_bytes (hex_value (lower_hex (of_char c div 16)) * 16 + hex_value (lower_hex (of_char c mod 16))) = [c]"
      using assms by (simp add: lower_hex_value utf8_bytes_def)
    moreover have "hex_value (CHR ''0'') = 0" by (simp add: hex_value_def)
    ultimately show ?thesis by (simp add: append_single)
  next
    case False
    then show ?thesis using other by (simp add: json_ascii_def)
  qed
qed

text \<open>The bytes of a sequence after the first are not ASCII.\<close>

lemma utf8_width_tail:
  assumes "utf8_width (c # s) = Suc k" and "\<not> of_char c < (128 :: nat)"
  shows "k \<le> length s \<and> (\<forall>b \<in> set (take k s). \<not> of_char b < (128 :: nat))"
  using assms
  by (auto simp: utf8_width_def byte_in_def Let_def split: if_splits list.splits)

lemma not_ascii_plain: "\<not> of_char c < (128 :: nat) \<Longrightarrow> c \<noteq> CHR 0x22 \<and> c \<noteq> backslash"
  by (auto simp: backslash_def)

lemma separators:
  "utf8_width (CHR 0xE2 # CHR 0x80 # CHR 0xA8 # t) = Suc (Suc (Suc 0))"
  "utf8_width (CHR 0xE2 # CHR 0x80 # CHR 0xA9 # t) = Suc (Suc (Suc 0))"
  "utf8_bytes 8232 = [CHR 0xE2, CHR 0x80, CHR 0xA8]" "utf8_bytes 8233 = [CHR 0xE2, CHR 0x80, CHR 0xA9]"
  by (simp add: utf8_width_def byte_in_def, simp add: utf8_width_def byte_in_def, code_simp, code_simp)

lemma decode_json_chars:
  assumes "\<forall>b \<in> set (take k s). \<not> of_char b < (128 :: nat)"
  shows "decode_literal (json_chars k s @ CHR 0x22 # rest) = Some (replaced k s, rest)"
  using assms
proof (induction k s rule: json_chars.induct)
  case (1 k)
  then show ?case by simp
next
  case (2 k c s)
  then show ?case using not_ascii_plain [of c] by simp
next
  case (3 c s)
  show ?case
  proof (cases "of_char c < (128 :: nat)")
    case True
    then show ?thesis using 3 by (simp add: decode_escaped)
  next
    case False
    note c = not_ascii_plain [OF False] False
    show ?thesis
    proof (cases "utf8_width (c # s)")
      case 0
      have "decode_literal (json_chars 0 s @ CHR 0x22 # rest) = Some (replaced 0 s, rest)" using 3(2) [OF False 0] by simp
      then show ?thesis using False 0 by (simp add: hex_value_def)
    next
      case (Suc k)
      note tail = utf8_width_tail [OF Suc False]
      consider (sep) "take 3 (c # s) = [CHR 0xE2, CHR 0x80, CHR 0xA8]"
        | (par) "take 3 (c # s) = [CHR 0xE2, CHR 0x80, CHR 0xA9]"
        | (copied) "take 3 (c # s) \<noteq> [CHR 0xE2, CHR 0x80, CHR 0xA8]" "take 3 (c # s) \<noteq> [CHR 0xE2, CHR 0x80, CHR 0xA9]"
        by blast
      then show ?thesis
      proof cases
        case sep
        then obtain t where t: "c = CHR 0xE2" "s = CHR 0x80 # CHR 0xA8 # t" by (cases s; cases "tl s"; auto)
        then have "decode_literal (json_chars 0 t @ CHR 0x22 # rest) = Some (replaced 0 t, rest)"
          using 3(3) [OF False Suc sep] by simp
        then show ?thesis using False Suc sep t separators by (auto simp: hex_value_def)
      next
        case par
        then obtain t where t: "c = CHR 0xE2" "s = CHR 0x80 # CHR 0xA9 # t" by (cases s; cases "tl s"; auto)
        then have "decode_literal (json_chars 0 t @ CHR 0x22 # rest) = Some (replaced 0 t, rest)"
          using 3(4) [OF False Suc _ par] by simp
        then show ?thesis using False Suc par t separators by (auto simp: hex_value_def)
      next
        case copied
        then show ?thesis using 3(5) [OF False Suc copied] tail False Suc c by auto
      qed
    qed
  qed
qed

text \<open>
  Whatever is in a text, an alert's description or the answer of an endpoint, its literal in the body of a
  message is read back as that text, with what is not UTF-8 replaced, and the literal ends where it was made to end:
  no text can break out of its place in the message.
\<close>

theorem marshalled_text_read_back:
  "\<exists>literal. Marshal (JStr s) = CHR 0x22 # literal \<and> decode_literal (literal @ rest) = Some (replaced 0 s, rest) \<and>
    (valid_utf8 0 s \<longrightarrow> replaced 0 s = s)"
  using decode_json_chars [of 0 s rest] replaced_valid [of 0 s] by (simp add: Marshal_def json_quote_def)

theorem marshalled_text_read_back_witness:
  "valid_utf8 0 [CHR ''a'', CHR 0x22, CHR 0xC3, CHR 0xA9] \<and>
    decode_literal (tl (Marshal (JStr [CHR ''a'', CHR 0x22, CHR 0xC3, CHR 0xA9]))) = Some ([CHR ''a'', CHR 0x22, CHR 0xC3, CHR 0xA9], [])"
proof -
  have "valid_utf8 0 [CHR ''a'', CHR 0x22, CHR 0xC3, CHR 0xA9]" by code_simp
  then show ?thesis using marshalled_text_read_back [of "[CHR ''a'', CHR 0x22, CHR 0xC3, CHR 0xA9]" "[]"] by auto
qed

end
