(* ===== verification/Providers_Base.thy ===== *)
theory Providers_Base
  imports Alerting_Config Go_Json Go_Url Go_Floats
begin

text \<open>
  What the providers below \<open>alerting/provider/\<close> share. Each has the same skeleton around its own
  configuration: a default, overrides by group, and an override in the alert, merged in that order
  and validated; then a message is built from the configuration, the endpoint, the alert and the result, and
  sent. The skeleton is defined once here, over the functions of a configuration (\<open>config_ops\<close>); a
  provider without overrides is one whose list of them is empty.

  The network and the libraries are the argument \<open>send_env\<close>; what a call of \<open>Send\<close>
  leaves is the error, the resolve key of the alert and the list of what went out.
\<close>

section \<open>What goes out\<close>

record http_out =
  ho_Method :: string
  ho_URL :: string
  ho_Headers :: "(string \<times> string) list"
  ho_Body :: string
  ho_Client :: "Client_Config option"

record ses_email =
  es_Region :: "string option"
  es_Credentials :: "(string \<times> string) option"
  es_To :: "string list"
  es_From :: string
  es_Subject :: string
  es_Body :: string

record smtp_mail =
  sm_From :: string
  sm_To :: "string list"
  sm_Subject :: string
  sm_Body :: string
  sm_Host :: string
  sm_Port :: int
  sm_LocalName :: string
  sm_Login :: "(string \<times> string) option"
  sm_InsecureSkipVerify :: bool

text \<open>A client of a forge is what it is made of.\<close>

record forge_client =
  fc_BaseURL :: string
  fc_Token :: string
  fc_Insecure :: bool

record issue =
  is_Owner :: string
  is_Repository :: string
  is_Title :: string
  is_Body :: string
  is_Assignees :: "string list"

datatype outgoing =
    Http http_out
  | Ses ses_email
  | Smtp smtp_mail
  | Open_Issue forge_client issue
  | Close_Issue forge_client string string int

record forge =
  fg_NewClient :: "forge_client \<Rightarrow> string option"
  fg_User :: "forge_client \<Rightarrow> string + string"
  fg_Create :: "forge_client \<Rightarrow> issue \<Rightarrow> string option"
  fg_List :: "forge_client \<Rightarrow> string \<Rightarrow> string \<Rightarrow> string \<Rightarrow> string + (int \<times> string) list"
  fg_Close :: "forge_client \<Rightarrow> string \<Rightarrow> string \<Rightarrow> int \<Rightarrow> string option"

text \<open>
  The network, the clock and the libraries at a call: the error of making a request, the answer to one
  (status and body) after what went out before it, and the decoders of the answers that are read.
\<close>

record send_env =
  se_NewRequest :: "http_out \<Rightarrow> string option"
  se_Do :: "outgoing list \<Rightarrow> http_out \<Rightarrow> string + (int \<times> string)"
  se_now :: instant
  se_RFC3339 :: "instant \<Rightarrow> string"
  se_uuid :: string
  se_Intn :: "nat \<Rightarrow> nat"
  se_sha256 :: "string \<Rightarrow> string"
  se_ParseURL :: "string \<Rightarrow> string + (string \<times> string \<times> string)"
  se_tasks :: "string \<Rightarrow> string + (string \<times> string) list"
  se_dedup_key :: "string \<Rightarrow> string + string"
  se_deduplication_key :: "string \<Rightarrow> string option \<times> string"
  se_messages :: "string \<Rightarrow> string + (string \<times> string) list"
  se_LoadAWS :: "string option \<Rightarrow> (string \<times> string) option \<Rightarrow> string option"
  se_SendEmail :: "ses_email \<Rightarrow> string option"
  se_DialAndSend :: "smtp_mail \<Rightarrow> string option"
  se_gitea :: forge
  se_github :: forge

section \<open>Requests\<close>

definition json_post :: "string \<Rightarrow> json \<Rightarrow> http_out" where
  "json_post url j =
     \<lparr>ho_Method = ''POST'', ho_URL = url, ho_Headers = [(''Content-Type'', ''application/json'')],
      ho_Body = Marshal j, ho_Client = None\<rparr>"

definition with_header :: "string \<Rightarrow> string \<Rightarrow> http_out \<Rightarrow> http_out" where
  "with_header k v r = r\<lparr>ho_Headers := ho_Headers r @ [(k, v)]\<rparr>"

definition with_client :: "Client_Config option \<Rightarrow> http_out \<Rightarrow> http_out" where
  "with_client c r = r\<lparr>ho_Client := c\<rparr>"

text \<open>Making a request and sending it.\<close>

definition Do :: "send_env \<Rightarrow> http_out \<Rightarrow> outgoing list \<Rightarrow> (string + int \<times> string) \<times> outgoing list" where
  "Do env r out =
     (case se_NewRequest env r of
        Some e \<Rightarrow> (Inl e, out)
      | None \<Rightarrow> (se_Do env out r, out @ [Http r]))"

definition call_failed :: "string \<Rightarrow> int \<Rightarrow> string \<Rightarrow> string" where
  "call_failed who status body =
     ''call to '' @ who @ '' alert returned status code '' @ Itoa status @ '': '' @ body"

text \<open>A request whose answer only counts by its status.\<close>

definition deliver :: "send_env \<Rightarrow> (int \<Rightarrow> string \<Rightarrow> string) \<Rightarrow> http_out \<Rightarrow> outgoing list \<Rightarrow>
    string option \<times> outgoing list" where
  "deliver env failed r out =
     (case Do env r out of
        (Inl e, out') \<Rightarrow> (Some e, out')
      | (Inr (status, body), out') \<Rightarrow> (if 399 < status then Some (failed status body) else None, out'))"

text \<open>Requests one after the other, up to the first that fails.\<close>

fun deliver_all :: "send_env \<Rightarrow> (int \<Rightarrow> string \<Rightarrow> string) \<Rightarrow> http_out list \<Rightarrow> outgoing list \<Rightarrow>
    string option \<times> outgoing list" where
  "deliver_all env failed [] out = (None, out)"
| "deliver_all env failed (r # rs) out =
     (case deliver env failed r out of
        (Some e, out') \<Rightarrow> (Some e, out')
      | (None, out') \<Rightarrow> deliver_all env failed rs out')"

section \<open>Configurations with overrides\<close>

text \<open>
  What a provider does with its configuration: validating it, which may change it, merging an override into it, whether
  it has overrides for groups at all and checks them, which of them pass, and decoding the override of an alert.
\<close>

record 'c config_ops =
  co_Validate :: "'c \<Rightarrow> string option \<times> 'c"
  co_Merge :: "'c \<Rightarrow> 'c \<Rightarrow> 'c"
  co_has_groups :: bool
  co_checks_groups :: bool
  co_override_ok :: "'c \<Rightarrow> bool"
  co_Unmarshal :: "gomap \<Rightarrow> string + 'c"

record 'c provider =
  pr_DefaultConfig :: 'c
  pr_DefaultAlert :: "Alert option"
  pr_Overrides :: "(string \<times> 'c) list"

fun overrides_ok :: "('c \<Rightarrow> bool) \<Rightarrow> string list \<Rightarrow> (string \<times> 'c) list \<Rightarrow> bool" where
  "overrides_ok f registered [] \<longleftrightarrow> True"
| "overrides_ok f registered ((g, c) # os) \<longleftrightarrow>
     g \<notin> set registered \<and> g \<noteq> [] \<and> f c \<and> overrides_ok f (g # registered) os"

definition ErrDuplicateGroupOverride :: string where
  "ErrDuplicateGroupOverride = ''duplicate group override''"

text \<open>The validation of a provider, which fills in defaults in its default configuration.\<close>

definition Provider_Validate :: "'c config_ops \<Rightarrow> 'c provider \<Rightarrow> string option \<times> 'c provider" where
  "Provider_Validate ops p =
     (if co_checks_groups ops \<and> \<not> overrides_ok (co_override_ok ops) [] (pr_Overrides p)
      then (Some ErrDuplicateGroupOverride, p)
      else case co_Validate ops (pr_DefaultConfig p) of (e, c) \<Rightarrow> (e, p\<lparr>pr_DefaultConfig := c\<rparr>))"

definition validated :: "'c config_ops \<Rightarrow> 'c \<Rightarrow> string + 'c" where
  "validated ops c = (case co_Validate ops c of (Some e, _) \<Rightarrow> Inl e | (None, c') \<Rightarrow> Inr c')"

definition Provider_GetConfig :: "'c config_ops \<Rightarrow> 'c provider \<Rightarrow> string \<Rightarrow> Alert \<Rightarrow> string + 'c" where
  "Provider_GetConfig ops p g a =
     (let cfg = (if \<not> co_has_groups ops then pr_DefaultConfig p
                 else case find (\<lambda>ov. g = fst ov) (pr_Overrides p) of
                   None \<Rightarrow> pr_DefaultConfig p
                 | Some ov \<Rightarrow> co_Merge ops (pr_DefaultConfig p) (snd ov))
      in if al_ProviderOverride a = [] then validated ops cfg
         else case co_Unmarshal ops (al_ProviderOverride a) of
                Inl e \<Rightarrow> Inl e
              | Inr overrideConfig \<Rightarrow> validated ops (co_Merge ops cfg overrideConfig))"

definition Provider_ValidateOverrides :: "'c config_ops \<Rightarrow> 'c provider \<Rightarrow> string \<Rightarrow> Alert \<Rightarrow> string option" where
  "Provider_ValidateOverrides ops p g a =
     (case Provider_GetConfig ops p g a of Inl e \<Rightarrow> Some e | Inr _ \<Rightarrow> None)"

text \<open>What a call of \<open>Send\<close> leaves: the error, the resolve key of the alert and what went out.\<close>

type_synonym sent = "string option \<times> string \<times> outgoing list"

definition keep_key :: "Alert \<Rightarrow> string option \<times> outgoing list \<Rightarrow> sent" where
  "keep_key a x = (fst x, al_ResolveKey a, snd x)"

definition with_config :: "'c config_ops \<Rightarrow> 'c provider \<Rightarrow> Endpoint \<Rightarrow> Alert \<Rightarrow> ('c \<Rightarrow> sent) \<Rightarrow> sent" where
  "with_config ops p ep a f =
     (case Provider_GetConfig ops p (e_Group ep) a of
        Inl e \<Rightarrow> (Some e, al_ResolveKey a, [])
      | Inr cfg \<Rightarrow> f cfg)"

text \<open>The providers that send one request and keep the key.\<close>

definition send_one :: "'c config_ops \<Rightarrow> 'c provider \<Rightarrow> send_env \<Rightarrow> (int \<Rightarrow> string \<Rightarrow> string) \<Rightarrow> Endpoint \<Rightarrow> Alert \<Rightarrow>
    ('c \<Rightarrow> http_out) \<Rightarrow> sent" where
  "send_one ops p env failed ep a request =
     with_config ops p ep a (\<lambda>cfg. keep_key a (deliver env failed (request cfg) []))"

section \<open>Messages\<close>

definition nl :: string where "nl = [CHR 0x0A]"

definition condition_lines :: "(bool \<Rightarrow> string \<Rightarrow> string) \<Rightarrow> Result \<Rightarrow> string" where
  "condition_lines f r = concat (map (\<lambda>cr. f (cr_Success cr) (cr_Condition cr)) (r_ConditionResults r))"

text \<open>
  A value that is set overrides one that may be, in \<open>Merge\<close>; a value that is not set takes the
  default, in \<open>Validate\<close>, which is overriding the default.
\<close>

definition override :: "string \<Rightarrow> string \<Rightarrow> string" where
  "override old new = (if new = [] then old else new)"

definition override_list :: "'a list \<Rightarrow> 'a list \<Rightarrow> 'a list" where
  "override_list old new = (if new = [] then old else new)"

definition override_option :: "'a option \<Rightarrow> 'a option \<Rightarrow> 'a option" where
  "override_option old new = (if new = None then old else new)"

definition override_int :: "int \<Rightarrow> int \<Rightarrow> int" where
  "override_int old new = (if new = 0 then old else new)"

lemma overriding:
  "override x [] = x" "override (override x y) z = override x (override y z)"
  "override_list xs [] = xs" "override_list (override_list xs ys) zs = override_list xs (override_list ys zs)"
  "override_option u None = u" "override_option (override_option u v) w = override_option u (override_option v w)"
  "override_int i 0 = i" "override_int (override_int i j) k = override_int i (override_int j k)" "override_int 0 i = i"
  "override_option u (override_option u v) = override_option u v"
  "override x (override x y) = override x y" "override_int i (override_int i j) = override_int i j"
  "override x y = [] \<longleftrightarrow> x = [] \<and> y = []" "override_list xs ys = [] \<longleftrightarrow> xs = [] \<and> ys = []"
  by (auto simp: override_def override_list_def override_option_def override_int_def)

text \<open>A condition result is marshalled with its two fields.\<close>

definition condition_json :: "ConditionResult \<Rightarrow> json" where
  "condition_json cr = JObj [str_field ''condition'' (cr_Condition cr), (''success'', JBool (cr_Success cr))]"

section \<open>Laws of overriding\<close>

text \<open>
  What the configuration of every provider promises: an override that sets nothing changes nothing,
  overriding twice is overriding by the merged override, and what the validation fills in is filled in
  as well after an override has been merged.
\<close>

locale overridable =
  fixes ops :: "'c config_ops" and unset :: 'c
  assumes Merge_unset: "co_Merge ops c unset = c"
    and Merge_assoc: "co_Merge ops (co_Merge ops c g) a = co_Merge ops c (co_Merge ops g a)"
    and Validate_Merge: "validated ops c = Inr c' \<Longrightarrow>
      validated ops (co_Merge ops c' ov) = validated ops (co_Merge ops c ov)"
begin

lemma Validate_twice: "validated ops c = Inr c' \<Longrightarrow> validated ops c' = Inr c'"
  using Validate_Merge [of c c' unset] by (simp add: Merge_unset)

lemma GetConfig_valid: "Provider_GetConfig ops p g a = Inr cfg \<Longrightarrow> validated ops cfg = Inr cfg"
  by (auto simp: Provider_GetConfig_def Let_def dest: Validate_twice split: option.splits if_splits sum.splits)

text \<open>Whether a provider has been validated in place does not matter to its configurations.\<close>

lemma GetConfig_after_Validate:
  assumes "Provider_Validate ops p = (None, p')"
  shows "Provider_GetConfig ops p' g a = Provider_GetConfig ops p g a"
proof -
  obtain c where c: "validated ops (pr_DefaultConfig p) = Inr c" "p' = p\<lparr>pr_DefaultConfig := c\<rparr>"
    using assms by (auto simp: Provider_Validate_def validated_def split: if_splits prod.splits)
  have "validated ops (co_Merge ops (co_Merge ops c g) a) =
      validated ops (co_Merge ops (co_Merge ops (pr_DefaultConfig p) g) a)" for g a
    unfolding Merge_assoc by (rule Validate_Merge [OF c(1)])
  then show ?thesis
    using Validate_Merge [OF c(1)] Validate_twice [OF c(1)] c
    by (simp add: Provider_GetConfig_def split: option.split sum.split)
qed

lemma configs_after_Validate:
  "Provider_Validate ops p = (None, p') \<Longrightarrow> Provider_GetConfig ops p' = Provider_GetConfig ops p"
  by (intro ext) (rule GetConfig_after_Validate)

end

text \<open>
  The laws for a configuration whose validation changes nothing, and for one whose validation fills in
  defaults and then looks only at what it has filled in.
\<close>

lemma plain_overridable:
  assumes "\<And>c. co_Merge ops c unset = c"
    and "\<And>c g a. co_Merge ops (co_Merge ops c g) a = co_Merge ops c (co_Merge ops g a)"
    and "\<And>c. snd (co_Validate ops c) = c"
  shows "overridable ops unset"
proof
  fix c c' ov
  assume "validated ops c = Inr c'"
  then have "c' = c" using assms(3) [of c] by (auto simp: validated_def split: prod.splits option.splits)
  then show "validated ops (co_Merge ops c' ov) = validated ops (co_Merge ops c ov)" by simp
qed (use assms in blast)+

lemma defaulting_overridable:
  assumes "\<And>c. co_Merge ops c unset = c"
    and "\<And>c g a. co_Merge ops (co_Merge ops c g) a = co_Merge ops c (co_Merge ops g a)"
    and "\<And>c. validated ops c = (case fails (defaults c) of Some e \<Rightarrow> Inl e | None \<Rightarrow> Inr (defaults c))"
    and "\<And>c ov. defaults (co_Merge ops (defaults c) ov) = defaults (co_Merge ops c ov)"
  shows "overridable ops unset"
proof
  fix c c' ov
  assume "validated ops c = Inr c'"
  then have "c' = defaults c" using assms(3) [of c] by (simp split: option.splits)
  then show "validated ops (co_Merge ops c' ov) = validated ops (co_Merge ops c ov)" by (simp add: assms(3,4) split: option.split)
qed (use assms in blast)+

section \<open>Facts\<close>

lemma find_eq_lookup: "find (\<lambda>ov. g = fst ov) os = map_option (Pair g) (map_of os g)"
  by (induction os) auto

lemma ValidateOverrides_accepts:
  "Provider_ValidateOverrides ops p g a = None \<longleftrightarrow> (\<exists>cfg. Provider_GetConfig ops p g a = Inr cfg)"
  by (simp add: Provider_ValidateOverrides_def split: sum.split)

lemma with_config_rejected:
  "Provider_ValidateOverrides ops p (e_Group ep) a = Some e \<Longrightarrow> with_config ops p ep a f = (Some e, al_ResolveKey a, [])"
  by (simp add: Provider_ValidateOverrides_def with_config_def split: sum.splits)

end
