(* ===== verification/Providers_Chat.thy ===== *)
theory Providers_Chat
  imports Providers_Base
begin

text \<open>
  The providers \<open>slack\<close>, \<open>discord\<close>, \<open>mattermost\<close>, \<open>rocketchat\<close>,
  \<open>teams\<close>, \<open>teamsworkflows\<close> and \<open>googlechat\<close>: one request to a webhook, whose body
  is a card with the message and the results of the conditions.
\<close>

definition webhook_failed :: "int \<Rightarrow> string \<Rightarrow> string" where
  "webhook_failed = call_failed ''provider''"

text \<open>The message that most of them share, around the name of the endpoint.\<close>

definition star_message :: "string \<Rightarrow> Endpoint \<Rightarrow> Alert \<Rightarrow> bool \<Rightarrow> string" where
  "star_message star ep a resolved =
     (if resolved
      then (''An alert for '' @ star @ Endpoint_DisplayName ep @ star @ '' has been resolved after passing successfully '' @ Itoa (al_SuccessThreshold a) @ '' time(s) in a row'')
      else (''An alert for '' @ star @ Endpoint_DisplayName ep @ star @ '' has been triggered due to having failed '' @ Itoa (al_FailureThreshold a) @ '' time(s) in a row''))"

definition check_mark :: "bool \<Rightarrow> string" where
  "check_mark ok = (if ok then ('':white_check_mark:'') else ('':x:''))"

definition emoji_mark :: "bool \<Rightarrow> string" where
  "emoji_mark ok = (if ok then ([CHR 0xE2, CHR 0x9C, CHR 0x85]) else ([CHR 0xE2, CHR 0x9D, CHR 0x8C]))"

definition quoted_description :: "Alert \<Rightarrow> string" where
  "quoted_description a = (if GetDescription a = [] then [] else ('':'' @ nl @ ''> '' @ GetDescription a))"

definition helmet :: string where "helmet = ('':helmet_with_white_cross: Gatus'')"

section \<open>Slack\<close>

record Slack_Config =
  slack_WebhookURL :: string
  slack_Title :: string

definition Slack_Validate :: "Slack_Config \<Rightarrow> string option \<times> Slack_Config" where
  "Slack_Validate cfg =
     (if slack_WebhookURL cfg = [] then (Some ''webhook-url not set'', cfg)
      else (None, cfg))"

definition Slack_Merge :: "Slack_Config \<Rightarrow> Slack_Config \<Rightarrow> Slack_Config" where
  "Slack_Merge cfg ov =
     \<lparr>slack_WebhookURL = override (slack_WebhookURL cfg) (slack_WebhookURL ov),
      slack_Title = override (slack_Title cfg) (slack_Title ov)\<rparr>"

definition slack_unset :: Slack_Config where
  "slack_unset =
     \<lparr>slack_WebhookURL = [], slack_Title = []\<rparr>"

definition Slack_ops :: "(gomap \<Rightarrow> string + Slack_Config) \<Rightarrow> Slack_Config config_ops" where
  "Slack_ops un =
     \<lparr>co_Validate = Slack_Validate, co_Merge = Slack_Merge, co_has_groups = True,
      co_checks_groups = True, co_override_ok = (\<lambda>c. True), co_Unmarshal = un\<rparr>"

definition Slack_GetConfig :: "(gomap \<Rightarrow> string + Slack_Config) \<Rightarrow>
    Slack_Config provider \<Rightarrow> string \<Rightarrow> Alert \<Rightarrow> string + Slack_Config" where
  "Slack_GetConfig un = Provider_GetConfig (Slack_ops un)"

definition Slack_AlertProvider_Validate :: "(gomap \<Rightarrow> string + Slack_Config) \<Rightarrow>
    Slack_Config provider \<Rightarrow> string option \<times> Slack_Config provider" where
  "Slack_AlertProvider_Validate un = Provider_Validate (Slack_ops un)"

lemmas slack_config = Slack_ops_def Slack_Validate_def Slack_Merge_def slack_unset_def


definition Slack_body :: "Slack_Config \<Rightarrow> Endpoint \<Rightarrow> Alert \<Rightarrow> Result \<Rightarrow> bool \<Rightarrow> json" where
  "Slack_body cfg ep a r resolved =
     (let formattedConditionResults = condition_lines (\<lambda>ok c. (check_mark ok @ '' - `'' @ c @ ''`'' @ nl)) r
      in JObj
        [str_field ''text'' [],
         (''attachments'', JArr
           [JObj
             ([str_field ''title'' (if slack_Title cfg = [] then helmet else slack_Title cfg),
               str_field ''text'' (star_message ''*'' ep a resolved @ quoted_description a),
               (''short'', JBool False),
               str_field ''color'' (if resolved then ''#36A64F'' else ''#DD0000'')] @
              (if formattedConditionResults = [] then []
               else [(''fields'', JArr
                 [JObj [str_field ''title'' ''Condition results'', str_field ''value'' formattedConditionResults,
                        (''short'', JBool False)]])]))])])"

definition Slack_Send ::
  "(gomap \<Rightarrow> string + Slack_Config) \<Rightarrow> Slack_Config provider \<Rightarrow> send_env \<Rightarrow> Endpoint \<Rightarrow> Alert \<Rightarrow> Result \<Rightarrow> bool \<Rightarrow> sent" where
  "Slack_Send un p env ep a r resolved =
     send_one (Slack_ops un) p env webhook_failed ep a
       (\<lambda>cfg. json_post (slack_WebhookURL cfg) (Slack_body cfg ep a r resolved))"

interpretation slack: overridable "Slack_ops un" slack_unset for un
  by (rule plain_overridable) (simp_all add: slack_config overriding)

section \<open>Discord\<close>

record Discord_Config =
  discord_WebhookURL :: string
  discord_Title :: string
  discord_MessageContent :: string

definition Discord_Validate :: "Discord_Config \<Rightarrow> string option \<times> Discord_Config" where
  "Discord_Validate cfg =
     (if discord_WebhookURL cfg = [] then (Some ''webhook-url not set'', cfg)
      else (None, cfg))"

definition Discord_Merge :: "Discord_Config \<Rightarrow> Discord_Config \<Rightarrow> Discord_Config" where
  "Discord_Merge cfg ov =
     \<lparr>discord_WebhookURL = override (discord_WebhookURL cfg) (discord_WebhookURL ov),
      discord_Title = override (discord_Title cfg) (discord_Title ov),
      discord_MessageContent = override (discord_MessageContent cfg) (discord_MessageContent ov)\<rparr>"

definition discord_unset :: Discord_Config where
  "discord_unset =
     \<lparr>discord_WebhookURL = [], discord_Title = [], discord_MessageContent = []\<rparr>"

definition Discord_ops :: "(gomap \<Rightarrow> string + Discord_Config) \<Rightarrow> Discord_Config config_ops" where
  "Discord_ops un =
     \<lparr>co_Validate = Discord_Validate, co_Merge = Discord_Merge, co_has_groups = True,
      co_checks_groups = True, co_override_ok = (\<lambda>c. discord_WebhookURL c \<noteq> []), co_Unmarshal = un\<rparr>"

definition Discord_GetConfig :: "(gomap \<Rightarrow> string + Discord_Config) \<Rightarrow>
    Discord_Config provider \<Rightarrow> string \<Rightarrow> Alert \<Rightarrow> string + Discord_Config" where
  "Discord_GetConfig un = Provider_GetConfig (Discord_ops un)"

definition Discord_AlertProvider_Validate :: "(gomap \<Rightarrow> string + Discord_Config) \<Rightarrow>
    Discord_Config provider \<Rightarrow> string option \<times> Discord_Config provider" where
  "Discord_AlertProvider_Validate un = Provider_Validate (Discord_ops un)"

lemmas discord_config = Discord_ops_def Discord_Validate_def Discord_Merge_def discord_unset_def


definition Discord_body :: "Discord_Config \<Rightarrow> Endpoint \<Rightarrow> Alert \<Rightarrow> Result \<Rightarrow> bool \<Rightarrow> json" where
  "Discord_body cfg ep a r resolved =
     (let formattedConditionResults = condition_lines (\<lambda>ok c. (check_mark ok @ '' - `'' @ c @ ''`'' @ nl)) r
      in JObj
        [str_field ''content'' (discord_MessageContent cfg),
         (''embeds'', JArr
           [JObj
             ([str_field ''title'' (if discord_Title cfg \<noteq> [] then discord_Title cfg else helmet),
               str_field ''description'' (star_message ''**'' ep a resolved @ quoted_description a),
               int_field ''color'' (if resolved then 3066993 else 15158332)] @
              (if formattedConditionResults = [] then []
               else [(''fields'', JArr
                 [JObj [str_field ''name'' ''Condition results'', str_field ''value'' formattedConditionResults,
                        (''inline'', JBool False)]])]))])])"

definition Discord_Send ::
  "(gomap \<Rightarrow> string + Discord_Config) \<Rightarrow> Discord_Config provider \<Rightarrow> send_env \<Rightarrow> Endpoint \<Rightarrow> Alert \<Rightarrow> Result \<Rightarrow> bool \<Rightarrow> sent" where
  "Discord_Send un p env ep a r resolved =
     send_one (Discord_ops un) p env webhook_failed ep a
       (\<lambda>cfg. json_post (discord_WebhookURL cfg) (Discord_body cfg ep a r resolved))"

interpretation discord: overridable "Discord_ops un" discord_unset for un
  by (rule plain_overridable) (simp_all add: discord_config overriding)

section \<open>Mattermost\<close>

record Mattermost_Config =
  mattermost_WebhookURL :: string
  mattermost_Channel :: string
  mattermost_ClientConfig :: "Client_Config option"

definition Mattermost_Validate :: "Mattermost_Config \<Rightarrow> string option \<times> Mattermost_Config" where
  "Mattermost_Validate cfg =
     (if mattermost_WebhookURL cfg = [] then (Some ''webhook URL not set'', cfg)
      else (None, cfg))"

definition Mattermost_Merge :: "Mattermost_Config \<Rightarrow> Mattermost_Config \<Rightarrow> Mattermost_Config" where
  "Mattermost_Merge cfg ov =
     \<lparr>mattermost_WebhookURL = override (mattermost_WebhookURL cfg) (mattermost_WebhookURL ov),
      mattermost_Channel = override (mattermost_Channel cfg) (mattermost_Channel ov),
      mattermost_ClientConfig = override_option (mattermost_ClientConfig cfg) (mattermost_ClientConfig ov)\<rparr>"

definition mattermost_unset :: Mattermost_Config where
  "mattermost_unset =
     \<lparr>mattermost_WebhookURL = [], mattermost_Channel = [], mattermost_ClientConfig = None\<rparr>"

definition Mattermost_ops :: "(gomap \<Rightarrow> string + Mattermost_Config) \<Rightarrow> Mattermost_Config config_ops" where
  "Mattermost_ops un =
     \<lparr>co_Validate = Mattermost_Validate, co_Merge = Mattermost_Merge, co_has_groups = True,
      co_checks_groups = True, co_override_ok = (\<lambda>c. mattermost_WebhookURL c \<noteq> []), co_Unmarshal = un\<rparr>"

definition Mattermost_GetConfig :: "(gomap \<Rightarrow> string + Mattermost_Config) \<Rightarrow>
    Mattermost_Config provider \<Rightarrow> string \<Rightarrow> Alert \<Rightarrow> string + Mattermost_Config" where
  "Mattermost_GetConfig un = Provider_GetConfig (Mattermost_ops un)"

definition Mattermost_AlertProvider_Validate :: "(gomap \<Rightarrow> string + Mattermost_Config) \<Rightarrow>
    Mattermost_Config provider \<Rightarrow> string option \<times> Mattermost_Config provider" where
  "Mattermost_AlertProvider_Validate un = Provider_Validate (Mattermost_ops un)"

lemmas mattermost_config = Mattermost_ops_def Mattermost_Validate_def Mattermost_Merge_def mattermost_unset_def


definition logo_URL :: string where
  "logo_URL = ''https://raw.githubusercontent.com/TwiN/gatus/master/.github/assets/logo.png''"

definition Mattermost_body :: "Mattermost_Config \<Rightarrow> Endpoint \<Rightarrow> Alert \<Rightarrow> Result \<Rightarrow> bool \<Rightarrow> json" where
  "Mattermost_body cfg ep a r resolved =
     (let message = star_message ''*'' ep a resolved;
          formattedConditionResults = condition_lines (\<lambda>ok c. (check_mark ok @ '' - `'' @ c @ ''`'' @ nl)) r
      in JObj
        (opt_str ''channel'' (mattermost_Channel cfg) @
         [str_field ''text'' [],
          str_field ''username'' ''gatus'',
          str_field ''icon_url'' logo_URL,
          (''attachments'', JArr
            [JObj
              [str_field ''title'' helmet,
               str_field ''fallback'' (''Gatus - '' @ message),
               str_field ''text'' (message @ quoted_description a),
               (''short'', JBool False),
               str_field ''color'' (if resolved then ''#36A64F'' else ''#DD0000''),
               (''fields'', nil_arr
                 (if formattedConditionResults = [] then []
                  else [JObj [str_field ''title'' ''Condition results'', str_field ''value'' formattedConditionResults,
                              (''short'', JBool False)]]))]])]))"

definition Mattermost_Send ::
  "(gomap \<Rightarrow> string + Mattermost_Config) \<Rightarrow> Mattermost_Config provider \<Rightarrow> send_env \<Rightarrow> Endpoint \<Rightarrow> Alert \<Rightarrow> Result \<Rightarrow> bool \<Rightarrow> sent" where
  "Mattermost_Send un p env ep a r resolved =
     send_one (Mattermost_ops un) p env webhook_failed ep a
       (\<lambda>cfg. with_client (mattermost_ClientConfig cfg)
         (json_post (mattermost_WebhookURL cfg) (Mattermost_body cfg ep a r resolved)))"

interpretation mattermost: overridable "Mattermost_ops un" mattermost_unset for un
  by (rule plain_overridable) (simp_all add: mattermost_config overriding)

section \<open>Rocket.Chat\<close>

record RocketChat_Config =
  rocketchat_WebhookURL :: string
  rocketchat_Channel :: string

definition RocketChat_Validate :: "RocketChat_Config \<Rightarrow> string option \<times> RocketChat_Config" where
  "RocketChat_Validate cfg =
     (if rocketchat_WebhookURL cfg = [] then (Some ''webhook-url not set'', cfg)
      else (None, cfg))"

definition RocketChat_Merge :: "RocketChat_Config \<Rightarrow> RocketChat_Config \<Rightarrow> RocketChat_Config" where
  "RocketChat_Merge cfg ov =
     \<lparr>rocketchat_WebhookURL = override (rocketchat_WebhookURL cfg) (rocketchat_WebhookURL ov),
      rocketchat_Channel = override (rocketchat_Channel cfg) (rocketchat_Channel ov)\<rparr>"

definition rocketchat_unset :: RocketChat_Config where
  "rocketchat_unset =
     \<lparr>rocketchat_WebhookURL = [], rocketchat_Channel = []\<rparr>"

definition RocketChat_ops :: "(gomap \<Rightarrow> string + RocketChat_Config) \<Rightarrow> RocketChat_Config config_ops" where
  "RocketChat_ops un =
     \<lparr>co_Validate = RocketChat_Validate, co_Merge = RocketChat_Merge, co_has_groups = True,
      co_checks_groups = True, co_override_ok = (\<lambda>c. True), co_Unmarshal = un\<rparr>"

definition RocketChat_GetConfig :: "(gomap \<Rightarrow> string + RocketChat_Config) \<Rightarrow>
    RocketChat_Config provider \<Rightarrow> string \<Rightarrow> Alert \<Rightarrow> string + RocketChat_Config" where
  "RocketChat_GetConfig un = Provider_GetConfig (RocketChat_ops un)"

definition RocketChat_AlertProvider_Validate :: "(gomap \<Rightarrow> string + RocketChat_Config) \<Rightarrow>
    RocketChat_Config provider \<Rightarrow> string option \<times> RocketChat_Config provider" where
  "RocketChat_AlertProvider_Validate un = Provider_Validate (RocketChat_ops un)"

lemmas rocketchat_config = RocketChat_ops_def RocketChat_Validate_def RocketChat_Merge_def rocketchat_unset_def


definition RocketChat_body :: "RocketChat_Config \<Rightarrow> Endpoint \<Rightarrow> Alert \<Rightarrow> Result \<Rightarrow> bool \<Rightarrow> json" where
  "RocketChat_body cfg ep a r resolved =
     (let formattedConditionResults = condition_lines (\<lambda>ok c. (emoji_mark ok @ '' - `'' @ c @ ''`'' @ nl)) r
      in JObj
        ([str_field ''text'' []] @
         opt_str ''channel'' (rocketchat_Channel cfg) @
         [str_field ''username'' ''Gatus'',
          (''attachments'', JArr
            [JObj
              ([str_field ''title'' ([CHR 0xF0, CHR 0x9F, CHR 0x9A, CHR 0xA8] @ '' Gatus Alert''),
                str_field ''text'' (star_message ''*'' ep a resolved @ quoted_description a),
                str_field ''color'' (if resolved then ''#36a64f'' else ''#dd0000'')] @
               (if formattedConditionResults = [] then []
                else [(''fields'', JArr
                  [JObj [str_field ''title'' ''Condition results'', str_field ''value'' formattedConditionResults,
                         (''short'', JBool False)]])]) @
               [str_field ''author_name'' ''Gatus'',
                str_field ''author_icon'' logo_URL])])]))"

definition RocketChat_Send ::
  "(gomap \<Rightarrow> string + RocketChat_Config) \<Rightarrow> RocketChat_Config provider \<Rightarrow> send_env \<Rightarrow> Endpoint \<Rightarrow> Alert \<Rightarrow> Result \<Rightarrow> bool \<Rightarrow> sent" where
  "RocketChat_Send un p env ep a r resolved =
     send_one (RocketChat_ops un) p env (call_failed ''rocketchat'') ep a
       (\<lambda>cfg. json_post (rocketchat_WebhookURL cfg) (RocketChat_body cfg ep a r resolved))"

interpretation rocketchat: overridable "RocketChat_ops un" rocketchat_unset for un
  by (rule plain_overridable) (simp_all add: rocketchat_config overriding)

section \<open>Teams\<close>

record Teams_Config =
  teams_WebhookURL :: string
  teams_Title :: string
  teams_ClientConfig :: "Client_Config option"

definition Teams_Validate :: "Teams_Config \<Rightarrow> string option \<times> Teams_Config" where
  "Teams_Validate cfg =
     (if teams_WebhookURL cfg = [] then (Some ''webhook-url not set'', cfg)
      else (None, cfg))"

definition Teams_Merge :: "Teams_Config \<Rightarrow> Teams_Config \<Rightarrow> Teams_Config" where
  "Teams_Merge cfg ov =
     \<lparr>teams_WebhookURL = override (teams_WebhookURL cfg) (teams_WebhookURL ov),
      teams_Title = override (teams_Title cfg) (teams_Title ov),
      teams_ClientConfig = override_option (teams_ClientConfig cfg) (teams_ClientConfig ov)\<rparr>"

definition teams_unset :: Teams_Config where
  "teams_unset =
     \<lparr>teams_WebhookURL = [], teams_Title = [], teams_ClientConfig = None\<rparr>"

definition Teams_ops :: "(gomap \<Rightarrow> string + Teams_Config) \<Rightarrow> Teams_Config config_ops" where
  "Teams_ops un =
     \<lparr>co_Validate = Teams_Validate, co_Merge = Teams_Merge, co_has_groups = True,
      co_checks_groups = True, co_override_ok = (\<lambda>c. True), co_Unmarshal = un\<rparr>"

definition Teams_GetConfig :: "(gomap \<Rightarrow> string + Teams_Config) \<Rightarrow>
    Teams_Config provider \<Rightarrow> string \<Rightarrow> Alert \<Rightarrow> string + Teams_Config" where
  "Teams_GetConfig un = Provider_GetConfig (Teams_ops un)"

definition Teams_AlertProvider_Validate :: "(gomap \<Rightarrow> string + Teams_Config) \<Rightarrow>
    Teams_Config provider \<Rightarrow> string option \<times> Teams_Config provider" where
  "Teams_AlertProvider_Validate un = Provider_Validate (Teams_ops un)"

lemmas teams_config = Teams_ops_def Teams_Validate_def Teams_Merge_def teams_unset_def


definition Teams_body :: "Teams_Config \<Rightarrow> Endpoint \<Rightarrow> Alert \<Rightarrow> Result \<Rightarrow> bool \<Rightarrow> json" where
  "Teams_body cfg ep a r resolved =
     (let formattedConditionResults =
            condition_lines (\<lambda>ok c. ((if ok then ''&#x2705;'' else ''&#x274C;'') @ '' - `'' @ c @ ''`<br/>'')) r
      in JObj
        ([str_field ''@type'' ''MessageCard'',
          str_field ''@context'' ''http://schema.org/extensions'',
          str_field ''themeColor'' (if resolved then ''#36A64F'' else ''#DD0000''),
          str_field ''title'' (if teams_Title cfg = [] then (''&#x1F6A8; Gatus'') else teams_Title cfg),
          str_field ''text''
            (star_message ''*'' ep a resolved @ (if GetDescription a = [] then [] else ('': '' @ GetDescription a)))] @
         (if formattedConditionResults = [] then []
          else [(''sections'', JArr
            [JObj [str_field ''activityTitle'' ''Condition results'', str_field ''text'' formattedConditionResults]])])))"

definition Teams_Send ::
  "(gomap \<Rightarrow> string + Teams_Config) \<Rightarrow> Teams_Config provider \<Rightarrow> send_env \<Rightarrow> Endpoint \<Rightarrow> Alert \<Rightarrow> Result \<Rightarrow> bool \<Rightarrow> sent" where
  "Teams_Send un p env ep a r resolved =
     send_one (Teams_ops un) p env webhook_failed ep a
       (\<lambda>cfg. with_client (teams_ClientConfig cfg) (json_post (teams_WebhookURL cfg) (Teams_body cfg ep a r resolved)))"

interpretation teams: overridable "Teams_ops un" teams_unset for un
  by (rule plain_overridable) (simp_all add: teams_config overriding)

section \<open>Teams workflows\<close>

record TeamsWorkflows_Config =
  teamsworkflows_WebhookURL :: string
  teamsworkflows_Title :: string

definition TeamsWorkflows_Validate :: "TeamsWorkflows_Config \<Rightarrow> string option \<times> TeamsWorkflows_Config" where
  "TeamsWorkflows_Validate cfg =
     (if teamsworkflows_WebhookURL cfg = [] then (Some ''webhook-url not set'', cfg)
      else (None, cfg))"

definition TeamsWorkflows_Merge :: "TeamsWorkflows_Config \<Rightarrow> TeamsWorkflows_Config \<Rightarrow> TeamsWorkflows_Config" where
  "TeamsWorkflows_Merge cfg ov =
     \<lparr>teamsworkflows_WebhookURL = override (teamsworkflows_WebhookURL cfg) (teamsworkflows_WebhookURL ov),
      teamsworkflows_Title = override (teamsworkflows_Title cfg) (teamsworkflows_Title ov)\<rparr>"

definition teamsworkflows_unset :: TeamsWorkflows_Config where
  "teamsworkflows_unset =
     \<lparr>teamsworkflows_WebhookURL = [], teamsworkflows_Title = []\<rparr>"

definition TeamsWorkflows_ops :: "(gomap \<Rightarrow> string + TeamsWorkflows_Config) \<Rightarrow> TeamsWorkflows_Config config_ops" where
  "TeamsWorkflows_ops un =
     \<lparr>co_Validate = TeamsWorkflows_Validate, co_Merge = TeamsWorkflows_Merge, co_has_groups = True,
      co_checks_groups = True, co_override_ok = (\<lambda>c. True), co_Unmarshal = un\<rparr>"

definition TeamsWorkflows_GetConfig :: "(gomap \<Rightarrow> string + TeamsWorkflows_Config) \<Rightarrow>
    TeamsWorkflows_Config provider \<Rightarrow> string \<Rightarrow> Alert \<Rightarrow> string + TeamsWorkflows_Config" where
  "TeamsWorkflows_GetConfig un = Provider_GetConfig (TeamsWorkflows_ops un)"

definition TeamsWorkflows_AlertProvider_Validate :: "(gomap \<Rightarrow> string + TeamsWorkflows_Config) \<Rightarrow>
    TeamsWorkflows_Config provider \<Rightarrow> string option \<times> TeamsWorkflows_Config provider" where
  "TeamsWorkflows_AlertProvider_Validate un = Provider_Validate (TeamsWorkflows_ops un)"

lemmas teamsworkflows_config = TeamsWorkflows_ops_def TeamsWorkflows_Validate_def TeamsWorkflows_Merge_def teamsworkflows_unset_def


text \<open>A block of text of a card; a text that is empty is left out.\<close>

definition text_block :: "string \<Rightarrow> bool \<Rightarrow> (string \<times> json) list \<Rightarrow> json" where
  "text_block t wrap rest =
     JObj ([str_field ''type'' ''TextBlock''] @ opt_str ''text'' t @ [(''wrap'', JBool wrap)] @ rest)"

definition TeamsWorkflows_body :: "TeamsWorkflows_Config \<Rightarrow> Endpoint \<Rightarrow> Alert \<Rightarrow> Result \<Rightarrow> bool \<Rightarrow> json" where
  "TeamsWorkflows_body cfg ep a r resolved =
     (let message =
            (if resolved
             then (''An alert for **'' @ Endpoint_DisplayName ep @ ''** has been resolved after passing successfully '' @ Itoa (al_SuccessThreshold a) @ '' time(s) in a row.'')
             else (''An alert for **'' @ Endpoint_DisplayName ep @ ''** has been triggered due to having failed '' @ Itoa (al_FailureThreshold a) @ '' time(s) in a row.''));
          facts = map (\<lambda>cr. JObj [str_field ''title'' (emoji_mark (cr_Success cr)), str_field ''value'' (cr_Condition cr)])
                    (r_ConditionResults r);
          items =
            [text_block (if teamsworkflows_Title cfg \<noteq> [] then teamsworkflows_Title cfg else ([CHR 0xE2, CHR 0x9B, CHR 0x91, CHR 0xEF, CHR 0xB8, CHR 0x8F] @ '' Gatus'')) False
               [str_field ''size'' ''Medium'', str_field ''weight'' ''Bolder''],
             text_block message True [],
             text_block (if GetDescription a = [] then [] else (''**Description**: '' @ GetDescription a)) True [],
             JObj ([str_field ''type'' ''FactSet'', (''wrap'', JBool False)] @ opt_arr ''facts'' facts)];
          cardContent = JObj
            [str_field ''type'' ''AdaptiveCard'',
             str_field ''version'' ''1.4'',
             (''body'', JArr
               [JObj
                 [str_field ''type'' ''Container'',
                  (''wrap'', JBool False),
                  (''items'', JArr
                    [JObj
                      [str_field ''type'' ''Container'',
                       (''wrap'', JBool False),
                       (''items'', JArr items),
                       str_field ''style'' ''Default'']]),
                  str_field ''style'' (if resolved then ''Good'' else ''Attention'')]]),
             (''msteams'', JObj [str_field ''width'' ''Full''])]
      in JObj
        [(''attachments'', JArr
           [JObj [(''content'', cardContent), str_field ''contentType'' ''application/vnd.microsoft.card.adaptive'']]),
         str_field ''type'' ''message''])"

definition TeamsWorkflows_Send ::
  "(gomap \<Rightarrow> string + TeamsWorkflows_Config) \<Rightarrow> TeamsWorkflows_Config provider \<Rightarrow> send_env \<Rightarrow> Endpoint \<Rightarrow> Alert \<Rightarrow> Result \<Rightarrow> bool \<Rightarrow> sent" where
  "TeamsWorkflows_Send un p env ep a r resolved =
     send_one (TeamsWorkflows_ops un) p env webhook_failed ep a
       (\<lambda>cfg. json_post (teamsworkflows_WebhookURL cfg) (TeamsWorkflows_body cfg ep a r resolved))"

interpretation teamsworkflows: overridable "TeamsWorkflows_ops un" teamsworkflows_unset for un
  by (rule plain_overridable) (simp_all add: teamsworkflows_config overriding)

section \<open>Google Chat\<close>

record GoogleChat_Config =
  googlechat_WebhookURL :: string
  googlechat_ClientConfig :: "Client_Config option"

definition GoogleChat_Validate :: "GoogleChat_Config \<Rightarrow> string option \<times> GoogleChat_Config" where
  "GoogleChat_Validate cfg =
     (if googlechat_WebhookURL cfg = [] then (Some ''webhook-url not set'', cfg)
      else (None, cfg))"

definition GoogleChat_Merge :: "GoogleChat_Config \<Rightarrow> GoogleChat_Config \<Rightarrow> GoogleChat_Config" where
  "GoogleChat_Merge cfg ov =
     \<lparr>googlechat_WebhookURL = override (googlechat_WebhookURL cfg) (googlechat_WebhookURL ov),
      googlechat_ClientConfig = override_option (googlechat_ClientConfig cfg) (googlechat_ClientConfig ov)\<rparr>"

definition googlechat_unset :: GoogleChat_Config where
  "googlechat_unset =
     \<lparr>googlechat_WebhookURL = [], googlechat_ClientConfig = None\<rparr>"

definition GoogleChat_ops :: "(gomap \<Rightarrow> string + GoogleChat_Config) \<Rightarrow> GoogleChat_Config config_ops" where
  "GoogleChat_ops un =
     \<lparr>co_Validate = GoogleChat_Validate, co_Merge = GoogleChat_Merge, co_has_groups = True,
      co_checks_groups = True, co_override_ok = (\<lambda>c. googlechat_WebhookURL c \<noteq> []), co_Unmarshal = un\<rparr>"

definition GoogleChat_GetConfig :: "(gomap \<Rightarrow> string + GoogleChat_Config) \<Rightarrow>
    GoogleChat_Config provider \<Rightarrow> string \<Rightarrow> Alert \<Rightarrow> string + GoogleChat_Config" where
  "GoogleChat_GetConfig un = Provider_GetConfig (GoogleChat_ops un)"

definition GoogleChat_AlertProvider_Validate :: "(gomap \<Rightarrow> string + GoogleChat_Config) \<Rightarrow>
    GoogleChat_Config provider \<Rightarrow> string option \<times> GoogleChat_Config provider" where
  "GoogleChat_AlertProvider_Validate un = Provider_Validate (GoogleChat_ops un)"

lemmas googlechat_config = GoogleChat_ops_def GoogleChat_Validate_def GoogleChat_Merge_def googlechat_unset_def


definition key_value :: "string \<Rightarrow> string \<Rightarrow> string \<Rightarrow> string \<Rightarrow> json" where
  "key_value topLabel content bottomLabel icon =
     JObj [(''keyValue'', JObj
       (opt_str ''topLabel'' topLabel @ opt_str ''content'' content @ [str_field ''contentMultiline'' ''true''] @
        opt_str ''bottomLabel'' bottomLabel @ [str_field ''icon'' icon]))]"

definition GoogleChat_body :: "Endpoint \<Rightarrow> Alert \<Rightarrow> Result \<Rightarrow> bool \<Rightarrow> json" where
  "GoogleChat_body ep a r resolved =
     (let message =
            (if resolved
             then (''<font color='' @ [CHR 0x27] @ ''#36A64F'' @ [CHR 0x27] @ ''>An alert has been resolved after passing successfully '' @ Itoa (al_SuccessThreshold a) @ '' time(s) in a row</font>'')
             else (''<font color='' @ [CHR 0x27] @ ''#DD0000'' @ [CHR 0x27] @ ''>An alert has been triggered due to having failed '' @ Itoa (al_FailureThreshold a) @ '' time(s) in a row</font>''));
          formattedConditionResults = condition_lines (\<lambda>ok c. (emoji_mark ok @ ''   '' @ c @ ''<br>'')) r;
          widgets =
            [key_value (Endpoint_DisplayName ep) message (if GetDescription a = [] then [] else ('':: '' @ GetDescription a)) ''BOOKMARK''] @
            (if formattedConditionResults = [] then []
             else [key_value ''Condition results'' formattedConditionResults [] ''DESCRIPTION'']) @
            (if Endpoint_Type ep = TypeHTTP
             then [JObj [(''buttons'', JArr
               [JObj [(''textButton'', JObj
                 [str_field ''text'' ''URL'',
                  (''onClick'', JObj [(''openLink'', JObj [str_field ''url'' (e_URL ep)])])])]])]]
             else [])
      in JObj [(''cards'', JArr [JObj [(''sections'', JArr [JObj [(''widgets'', JArr widgets)]])]])])"

definition GoogleChat_Send ::
  "(gomap \<Rightarrow> string + GoogleChat_Config) \<Rightarrow> GoogleChat_Config provider \<Rightarrow> send_env \<Rightarrow> Endpoint \<Rightarrow> Alert \<Rightarrow> Result \<Rightarrow> bool \<Rightarrow> sent" where
  "GoogleChat_Send un p env ep a r resolved =
     send_one (GoogleChat_ops un) p env webhook_failed ep a
       (\<lambda>cfg. with_client (googlechat_ClientConfig cfg)
         (json_post (googlechat_WebhookURL cfg) (GoogleChat_body ep a r resolved)))"

interpretation googlechat: overridable "GoogleChat_ops un" googlechat_unset for un
  by (rule plain_overridable) (simp_all add: googlechat_config overriding)

end
