(* ===== verification/Providers_Text.thy ===== *)
theory Providers_Text
  imports Providers_Chat
begin

text \<open>
  The providers \<open>telegram\<close>, \<open>zulip\<close>, \<open>matrix\<close>, \<open>webex\<close>, \<open>line\<close>,
  \<open>signal\<close>, \<open>ntfy\<close>, \<open>gotify\<close> and \<open>pushover\<close>: messages that are a text.
\<close>

section \<open>Texts\<close>

text \<open>The list of conditions that several of them append, one to a line.\<close>

definition condition_list :: "string \<Rightarrow> Result \<Rightarrow> string" where
  "condition_list title r =
     (if r_ConditionResults r = [] then []
      else title @ condition_lines (\<lambda>ok c. (nl @ emoji_mark ok @ '' '' @ c)) r)"

definition described :: "Alert \<Rightarrow> string" where
  "described a = (if GetDescription a = [] then [] else ('' with the following description: '' @ GetDescription a))"

section \<open>Telegram\<close>

record Telegram_Config =
  telegram_Token :: string
  telegram_ID :: string
  telegram_TopicID :: string
  telegram_ApiUrl :: string
  telegram_ClientConfig :: "Client_Config option"

definition Telegram_Validate :: "Telegram_Config \<Rightarrow> string option \<times> Telegram_Config" where
  "Telegram_Validate cfg =
     (let cfg = cfg\<lparr>telegram_ApiUrl := override ''https://api.telegram.org'' (telegram_ApiUrl cfg)\<rparr>
      in if telegram_Token cfg = [] then (Some ''token not set'', cfg)
         else if telegram_ID cfg = [] then (Some ''id not set'', cfg)
         else (None, cfg))"

definition Telegram_Merge :: "Telegram_Config \<Rightarrow> Telegram_Config \<Rightarrow> Telegram_Config" where
  "Telegram_Merge cfg ov =
     \<lparr>telegram_Token = override (telegram_Token cfg) (telegram_Token ov),
      telegram_ID = override (telegram_ID cfg) (telegram_ID ov),
      telegram_TopicID = override (telegram_TopicID cfg) (telegram_TopicID ov),
      telegram_ApiUrl = override (telegram_ApiUrl cfg) (telegram_ApiUrl ov),
      telegram_ClientConfig = override_option (telegram_ClientConfig cfg) (telegram_ClientConfig ov)\<rparr>"

definition telegram_unset :: Telegram_Config where
  "telegram_unset =
     \<lparr>telegram_Token = [], telegram_ID = [], telegram_TopicID = [], telegram_ApiUrl = [],
      telegram_ClientConfig = None\<rparr>"

definition Telegram_ops :: "(gomap \<Rightarrow> string + Telegram_Config) \<Rightarrow> Telegram_Config config_ops" where
  "Telegram_ops un =
     \<lparr>co_Validate = Telegram_Validate, co_Merge = Telegram_Merge, co_has_groups = True,
      co_checks_groups = True, co_override_ok = (\<lambda>c. True), co_Unmarshal = un\<rparr>"

definition Telegram_GetConfig :: "(gomap \<Rightarrow> string + Telegram_Config) \<Rightarrow>
    Telegram_Config provider \<Rightarrow> string \<Rightarrow> Alert \<Rightarrow> string + Telegram_Config" where
  "Telegram_GetConfig un = Provider_GetConfig (Telegram_ops un)"

definition Telegram_AlertProvider_Validate :: "(gomap \<Rightarrow> string + Telegram_Config) \<Rightarrow>
    Telegram_Config provider \<Rightarrow> string option \<times> Telegram_Config provider" where
  "Telegram_AlertProvider_Validate un = Provider_Validate (Telegram_ops un)"

lemmas telegram_config = Telegram_ops_def Telegram_Validate_def Telegram_Merge_def telegram_unset_def


definition Telegram_body :: "Telegram_Config \<Rightarrow> Endpoint \<Rightarrow> Alert \<Rightarrow> Result \<Rightarrow> bool \<Rightarrow> json" where
  "Telegram_body cfg ep a r resolved =
     (let message =
            (if resolved
             then (''An alert for *'' @ Endpoint_DisplayName ep @ ''* has been resolved:'' @ nl @ [CHR 0xE2, CHR 0x80, CHR 0x94] @ nl @ ''    _healthcheck passing successfully '' @ Itoa (al_SuccessThreshold a) @ '' time(s) in a row_'' @ nl @ [CHR 0xE2, CHR 0x80, CHR 0x94] @ ''  '')
             else (''An alert for *'' @ Endpoint_DisplayName ep @ ''* has been triggered:'' @ nl @ [CHR 0xE2, CHR 0x80, CHR 0x94] @ nl @ ''    _healthcheck failed '' @ Itoa (al_FailureThreshold a) @ '' time(s) in a row_'' @ nl @ [CHR 0xE2, CHR 0x80, CHR 0x94] @ ''  ''));
          formattedConditionResults =
            (if r_ConditionResults r = [] then []
             else (nl @ ''*Condition results*'' @ nl) @ condition_lines (\<lambda>ok c. (emoji_mark ok @ '' - `'' @ c @ ''`'' @ nl)) r);
          text =
            (if GetDescription a \<noteq> []
             then ([CHR 0xE2, CHR 0x9B, CHR 0x91] @ '' *Gatus* '' @ nl @ message @ '' '' @ nl @ ''*Description* '' @ nl @ GetDescription a @ ''  '' @ nl @ formattedConditionResults)
             else ([CHR 0xE2, CHR 0x9B, CHR 0x91] @ '' *Gatus* '' @ nl @ message @ formattedConditionResults))
      in JObj
        ([str_field ''chat_id'' (telegram_ID cfg), str_field ''text'' text, str_field ''parse_mode'' ''MARKDOWN''] @
         opt_str ''message_thread_id'' (telegram_TopicID cfg)))"

definition Telegram_Send ::
  "(gomap \<Rightarrow> string + Telegram_Config) \<Rightarrow> Telegram_Config provider \<Rightarrow> send_env \<Rightarrow> Endpoint \<Rightarrow> Alert \<Rightarrow> Result \<Rightarrow> bool \<Rightarrow> sent" where
  "Telegram_Send un p env ep a r resolved =
     send_one (Telegram_ops un) p env webhook_failed ep a
       (\<lambda>cfg. with_client (telegram_ClientConfig cfg)
         (json_post (telegram_ApiUrl cfg @ ''/bot'' @ telegram_Token cfg @ ''/sendMessage'') (Telegram_body cfg ep a r resolved)))"

interpretation telegram: overridable "Telegram_ops un" telegram_unset for un
  by (rule defaulting_overridable [where fails = "\<lambda>c. fst (Telegram_Validate c)" and
      defaults = "\<lambda>cfg. cfg\<lparr>telegram_ApiUrl := override ''https://api.telegram.org'' (telegram_ApiUrl cfg)\<rparr>"])
    (simp_all add: telegram_config validated_def overriding Let_def split: if_split)

section \<open>Zulip\<close>

record Zulip_Config =
  zulip_BotEmail :: string
  zulip_BotAPIKey :: string
  zulip_Domain :: string
  zulip_ChannelID :: string

definition Zulip_Validate :: "Zulip_Config \<Rightarrow> string option \<times> Zulip_Config" where
  "Zulip_Validate cfg =
     (if zulip_BotEmail cfg = [] then (Some ''bot-email not set'', cfg)
      else if zulip_BotAPIKey cfg = [] then (Some ''bot-api-key not set'', cfg)
      else if zulip_Domain cfg = [] then (Some ''domain not set'', cfg)
      else if zulip_ChannelID cfg = [] then (Some ''channel-id not set'', cfg)
      else (None, cfg))"

definition Zulip_Merge :: "Zulip_Config \<Rightarrow> Zulip_Config \<Rightarrow> Zulip_Config" where
  "Zulip_Merge cfg ov =
     \<lparr>zulip_BotEmail = override (zulip_BotEmail cfg) (zulip_BotEmail ov),
      zulip_BotAPIKey = override (zulip_BotAPIKey cfg) (zulip_BotAPIKey ov),
      zulip_Domain = override (zulip_Domain cfg) (zulip_Domain ov),
      zulip_ChannelID = override (zulip_ChannelID cfg) (zulip_ChannelID ov)\<rparr>"

definition zulip_unset :: Zulip_Config where
  "zulip_unset =
     \<lparr>zulip_BotEmail = [], zulip_BotAPIKey = [], zulip_Domain = [], zulip_ChannelID = []\<rparr>"

definition Zulip_ops :: "(gomap \<Rightarrow> string + Zulip_Config) \<Rightarrow> Zulip_Config config_ops" where
  "Zulip_ops un =
     \<lparr>co_Validate = Zulip_Validate, co_Merge = Zulip_Merge, co_has_groups = True,
      co_checks_groups = True, co_override_ok = (\<lambda>c. True), co_Unmarshal = un\<rparr>"

definition Zulip_GetConfig :: "(gomap \<Rightarrow> string + Zulip_Config) \<Rightarrow>
    Zulip_Config provider \<Rightarrow> string \<Rightarrow> Alert \<Rightarrow> string + Zulip_Config" where
  "Zulip_GetConfig un = Provider_GetConfig (Zulip_ops un)"

definition Zulip_AlertProvider_Validate :: "(gomap \<Rightarrow> string + Zulip_Config) \<Rightarrow>
    Zulip_Config provider \<Rightarrow> string option \<times> Zulip_Config provider" where
  "Zulip_AlertProvider_Validate un = Provider_Validate (Zulip_ops un)"

lemmas zulip_config = Zulip_ops_def Zulip_Validate_def Zulip_Merge_def zulip_unset_def


definition Zulip_body :: "Zulip_Config \<Rightarrow> Endpoint \<Rightarrow> Alert \<Rightarrow> Result \<Rightarrow> bool \<Rightarrow> string" where
  "Zulip_body cfg ep a r resolved =
     (let message = star_message ''**'' ep a resolved @
            (if GetDescription a = [] then [] else (nl @ ''> '' @ GetDescription a @ nl)) @
            condition_lines (\<lambda>ok c. (nl @ (if ok then '':check:'' else '':cross_mark:'') @ '' - `'' @ c @ ''`'')) r
      in Values_Encode
        [(''type'', ''channel''), (''to'', zulip_ChannelID cfg), (''topic'', ''Gatus''), (''content'', message)])"

definition Zulip_request :: "Zulip_Config \<Rightarrow> Endpoint \<Rightarrow> Alert \<Rightarrow> Result \<Rightarrow> bool \<Rightarrow> http_out" where
  "Zulip_request cfg ep a r resolved =
     \<lparr>ho_Method = ''POST'', ho_URL = (''https://'' @ zulip_Domain cfg @ ''/api/v1/messages''),
      ho_Headers =
        [(''Authorization'', (''Basic '' @ Base64 (zulip_BotEmail cfg @ '':'' @ zulip_BotAPIKey cfg))),
         (''Content-Type'', ''application/x-www-form-urlencoded''), (''User-Agent'', ''Gatus'')],
      ho_Body = Zulip_body cfg ep a r resolved, ho_Client = None\<rparr>"

definition Zulip_Send ::
  "(gomap \<Rightarrow> string + Zulip_Config) \<Rightarrow> Zulip_Config provider \<Rightarrow> send_env \<Rightarrow> Endpoint \<Rightarrow> Alert \<Rightarrow> Result \<Rightarrow> bool \<Rightarrow> sent" where
  "Zulip_Send un p env ep a r resolved =
     send_one (Zulip_ops un) p env webhook_failed ep a (\<lambda>cfg. Zulip_request cfg ep a r resolved)"

interpretation zulip: overridable "Zulip_ops un" zulip_unset for un
  by (rule plain_overridable) (simp_all add: zulip_config overriding)

section \<open>Matrix\<close>

record Matrix_Config =
  matrix_ServerURL :: string
  matrix_AccessToken :: string
  matrix_InternalRoomID :: string

definition Matrix_Validate :: "Matrix_Config \<Rightarrow> string option \<times> Matrix_Config" where
  "Matrix_Validate cfg =
     (let cfg = cfg\<lparr>matrix_ServerURL := override ''https://matrix-client.matrix.org'' (matrix_ServerURL cfg)\<rparr>
      in if matrix_AccessToken cfg = [] then (Some ''access-token not set'', cfg)
         else if matrix_InternalRoomID cfg = [] then (Some ''internal-room-id not set'', cfg)
         else (None, cfg))"

definition Matrix_Merge :: "Matrix_Config \<Rightarrow> Matrix_Config \<Rightarrow> Matrix_Config" where
  "Matrix_Merge cfg ov =
     \<lparr>matrix_ServerURL = override (matrix_ServerURL cfg) (matrix_ServerURL ov),
      matrix_AccessToken = override (matrix_AccessToken cfg) (matrix_AccessToken ov),
      matrix_InternalRoomID = override (matrix_InternalRoomID cfg) (matrix_InternalRoomID ov)\<rparr>"

definition matrix_unset :: Matrix_Config where
  "matrix_unset =
     \<lparr>matrix_ServerURL = [], matrix_AccessToken = [], matrix_InternalRoomID = []\<rparr>"

definition Matrix_ops :: "(gomap \<Rightarrow> string + Matrix_Config) \<Rightarrow> Matrix_Config config_ops" where
  "Matrix_ops un =
     \<lparr>co_Validate = Matrix_Validate, co_Merge = Matrix_Merge, co_has_groups = True,
      co_checks_groups = True, co_override_ok = (\<lambda>c. matrix_AccessToken c \<noteq> [] \<and> matrix_InternalRoomID c \<noteq> []), co_Unmarshal = un\<rparr>"

definition Matrix_GetConfig :: "(gomap \<Rightarrow> string + Matrix_Config) \<Rightarrow>
    Matrix_Config provider \<Rightarrow> string \<Rightarrow> Alert \<Rightarrow> string + Matrix_Config" where
  "Matrix_GetConfig un = Provider_GetConfig (Matrix_ops un)"

definition Matrix_AlertProvider_Validate :: "(gomap \<Rightarrow> string + Matrix_Config) \<Rightarrow>
    Matrix_Config provider \<Rightarrow> string option \<times> Matrix_Config provider" where
  "Matrix_AlertProvider_Validate un = Provider_Validate (Matrix_ops un)"

lemmas matrix_config = Matrix_ops_def Matrix_Validate_def Matrix_Merge_def matrix_unset_def


definition tick :: "bool \<Rightarrow> string" where
  "tick ok = (if ok then ([CHR 0xE2, CHR 0x9C, CHR 0x93]) else ([CHR 0xE2, CHR 0x9C, CHR 0x95]))"

definition buildPlaintextMessageBody :: "Endpoint \<Rightarrow> Alert \<Rightarrow> Result \<Rightarrow> bool \<Rightarrow> string" where
  "buildPlaintextMessageBody ep a r resolved =
     (star_message ''`'' ep a resolved @ (if GetDescription a = [] then [] else nl @ GetDescription a) @ nl @ condition_lines (\<lambda>ok c. nl @ tick ok @ '' - '' @ c) r)"

definition buildHTMLMessageBody :: "Endpoint \<Rightarrow> Alert \<Rightarrow> Result \<Rightarrow> bool \<Rightarrow> string" where
  "buildHTMLMessageBody ep a r resolved =
     (let message =
            (if resolved
             then (''An alert for <code>'' @ Endpoint_DisplayName ep @ ''</code> has been resolved after passing successfully '' @ Itoa (al_SuccessThreshold a) @ '' time(s) in a row'')
             else (''An alert for <code>'' @ Endpoint_DisplayName ep @ ''</code> has been triggered due to having failed '' @ Itoa (al_FailureThreshold a) @ '' time(s) in a row''));
          formattedConditionResults =
            (if r_ConditionResults r = [] then []
             else (nl @ ''<h5>Condition results</h5><ul>'') @
               condition_lines (\<lambda>ok c. (''<li>'' @ emoji_mark ok @ '' - <code>'' @ c @ ''</code></li>'')) r @ ''</ul>'');
          description = (if GetDescription a = [] then [] else (nl @ ''<blockquote>'' @ GetDescription a @ ''</blockquote>''))
      in (''<h3>'' @ message @ ''</h3>'' @ description @ formattedConditionResults))"

definition Matrix_body :: "Endpoint \<Rightarrow> Alert \<Rightarrow> Result \<Rightarrow> bool \<Rightarrow> json" where
  "Matrix_body ep a r resolved = JObj
     [str_field ''msgtype'' ''m.text'',
      str_field ''format'' ''org.matrix.custom.html'',
      str_field ''body'' (buildPlaintextMessageBody ep a r resolved),
      str_field ''formatted_body'' (buildHTMLMessageBody ep a r resolved)]"

text \<open>The random source gives the index of each character.\<close>

definition randStringBytes :: "send_env \<Rightarrow> nat \<Rightarrow> string" where
  "randStringBytes env n =
     map (\<lambda>i. ''abcdefghijklmnopqrstuvwxyzABCDEFGHIJKLMNOPQRSTUVWXYZ0123456789'' ! (se_Intn env i mod 62)) [0..<n]"

definition Matrix_Send ::
  "(gomap \<Rightarrow> string + Matrix_Config) \<Rightarrow> Matrix_Config provider \<Rightarrow> send_env \<Rightarrow> Endpoint \<Rightarrow> Alert \<Rightarrow> Result \<Rightarrow> bool \<Rightarrow> sent" where
  "Matrix_Send un p env ep a r resolved =
     send_one (Matrix_ops un) p env webhook_failed ep a
       (\<lambda>cfg. (json_post
          ((matrix_ServerURL cfg @ ''/_matrix/client/v3/rooms/'' @ PathEscape (matrix_InternalRoomID cfg)) @
           (''/send/m.room.message/'' @ randStringBytes env 24 @ ''?access_token='' @ QueryEscape (matrix_AccessToken cfg)))
          (Matrix_body ep a r resolved))\<lparr>ho_Method := ''PUT''\<rparr>)"

interpretation matrix: overridable "Matrix_ops un" matrix_unset for un
  by (rule defaulting_overridable [where fails = "\<lambda>c. fst (Matrix_Validate c)" and
      defaults = "\<lambda>cfg. cfg\<lparr>matrix_ServerURL := override ''https://matrix-client.matrix.org'' (matrix_ServerURL cfg)\<rparr>"])
    (simp_all add: matrix_config validated_def overriding Let_def split: if_split)

section \<open>Webex\<close>

record Webex_Config =
  webex_WebhookURL :: string

definition Webex_Validate :: "Webex_Config \<Rightarrow> string option \<times> Webex_Config" where
  "Webex_Validate cfg =
     (if webex_WebhookURL cfg = [] then (Some ''webhook-url not set'', cfg)
      else (None, cfg))"

definition Webex_Merge :: "Webex_Config \<Rightarrow> Webex_Config \<Rightarrow> Webex_Config" where
  "Webex_Merge cfg ov =
     \<lparr>webex_WebhookURL = override (webex_WebhookURL cfg) (webex_WebhookURL ov)\<rparr>"

definition webex_unset :: Webex_Config where
  "webex_unset =
     \<lparr>webex_WebhookURL = []\<rparr>"

definition Webex_ops :: "(gomap \<Rightarrow> string + Webex_Config) \<Rightarrow> Webex_Config config_ops" where
  "Webex_ops un =
     \<lparr>co_Validate = Webex_Validate, co_Merge = Webex_Merge, co_has_groups = True,
      co_checks_groups = True, co_override_ok = (\<lambda>c. True), co_Unmarshal = un\<rparr>"

definition Webex_GetConfig :: "(gomap \<Rightarrow> string + Webex_Config) \<Rightarrow>
    Webex_Config provider \<Rightarrow> string \<Rightarrow> Alert \<Rightarrow> string + Webex_Config" where
  "Webex_GetConfig un = Provider_GetConfig (Webex_ops un)"

definition Webex_AlertProvider_Validate :: "(gomap \<Rightarrow> string + Webex_Config) \<Rightarrow>
    Webex_Config provider \<Rightarrow> string option \<times> Webex_Config provider" where
  "Webex_AlertProvider_Validate un = Provider_Validate (Webex_ops un)"

lemmas webex_config = Webex_ops_def Webex_Validate_def Webex_Merge_def webex_unset_def


definition Webex_body :: "Endpoint \<Rightarrow> Alert \<Rightarrow> Result \<Rightarrow> bool \<Rightarrow> json" where
  "Webex_body ep a r resolved =
     (let message =
            (if resolved
             then ([CHR 0xE2, CHR 0x9C, CHR 0x85] @ '' **RESOLVED**: '' @ Endpoint_DisplayName ep @ nl @ nl @ ''Alert has been resolved after passing successfully '' @ Itoa (al_SuccessThreshold a) @ '' time(s) in a row'')
             else ([CHR 0xF0, CHR 0x9F, CHR 0x9A, CHR 0xA8] @ '' **ALERT**: '' @ Endpoint_DisplayName ep @ nl @ nl @ ''Endpoint has failed '' @ Itoa (al_FailureThreshold a) @ '' time(s) in a row'')) @
            (if GetDescription a = [] then [] else (nl @ nl @ ''**Description**: '' @ GetDescription a)) @
            (if r_ConditionResults r = [] then []
             else (nl @ nl @ ''**Condition Results:**'') @ condition_lines (\<lambda>ok c. (nl @ ''- '' @ emoji_mark ok @ '' `'' @ c @ ''`'')) r)
      in JObj [str_field ''markdown'' message])"

definition Webex_Send ::
  "(gomap \<Rightarrow> string + Webex_Config) \<Rightarrow> Webex_Config provider \<Rightarrow> send_env \<Rightarrow> Endpoint \<Rightarrow> Alert \<Rightarrow> Result \<Rightarrow> bool \<Rightarrow> sent" where
  "Webex_Send un p env ep a r resolved =
     send_one (Webex_ops un) p env (call_failed ''webex'') ep a
       (\<lambda>cfg. json_post (webex_WebhookURL cfg) (Webex_body ep a r resolved))"

interpretation webex: overridable "Webex_ops un" webex_unset for un
  by (rule plain_overridable) (simp_all add: webex_config overriding)

section \<open>Line\<close>

record Line_Config =
  line_ChannelAccessToken :: string
  line_UserIDs :: "string list"

definition Line_Validate :: "Line_Config \<Rightarrow> string option \<times> Line_Config" where
  "Line_Validate cfg =
     (if line_ChannelAccessToken cfg = [] then (Some ''channel-access-token not set'', cfg)
      else if line_UserIDs cfg = [] then (Some ''user-ids not set'', cfg)
      else (None, cfg))"

definition Line_Merge :: "Line_Config \<Rightarrow> Line_Config \<Rightarrow> Line_Config" where
  "Line_Merge cfg ov =
     \<lparr>line_ChannelAccessToken = override (line_ChannelAccessToken cfg) (line_ChannelAccessToken ov),
      line_UserIDs = override_list (line_UserIDs cfg) (line_UserIDs ov)\<rparr>"

definition line_unset :: Line_Config where
  "line_unset =
     \<lparr>line_ChannelAccessToken = [], line_UserIDs = []\<rparr>"

definition Line_ops :: "(gomap \<Rightarrow> string + Line_Config) \<Rightarrow> Line_Config config_ops" where
  "Line_ops un =
     \<lparr>co_Validate = Line_Validate, co_Merge = Line_Merge, co_has_groups = True,
      co_checks_groups = True, co_override_ok = (\<lambda>c. True), co_Unmarshal = un\<rparr>"

definition Line_GetConfig :: "(gomap \<Rightarrow> string + Line_Config) \<Rightarrow>
    Line_Config provider \<Rightarrow> string \<Rightarrow> Alert \<Rightarrow> string + Line_Config" where
  "Line_GetConfig un = Provider_GetConfig (Line_ops un)"

definition Line_AlertProvider_Validate :: "(gomap \<Rightarrow> string + Line_Config) \<Rightarrow>
    Line_Config provider \<Rightarrow> string option \<times> Line_Config provider" where
  "Line_AlertProvider_Validate un = Provider_Validate (Line_ops un)"

lemmas line_config = Line_ops_def Line_Validate_def Line_Merge_def line_unset_def


definition Line_body :: "Endpoint \<Rightarrow> Alert \<Rightarrow> Result \<Rightarrow> bool \<Rightarrow> string \<Rightarrow> json" where
  "Line_body ep a r resolved userID =
     (let message =
            (if resolved
             then ([CHR 0xE2, CHR 0x9C, CHR 0x85] @ '' RESOLVED: '' @ Endpoint_DisplayName ep @ nl @ nl @ ''Alert has been resolved after passing successfully '' @ Itoa (al_SuccessThreshold a) @ '' time(s) in a row'')
             else ([CHR 0xE2, CHR 0x9A, CHR 0xA0, CHR 0xEF, CHR 0xB8, CHR 0x8F] @ '' ALERT: '' @ Endpoint_DisplayName ep @ nl @ nl @ ''Endpoint has failed '' @ Itoa (al_FailureThreshold a) @ '' time(s) in a row'')) @
            (if GetDescription a = [] then [] else (nl @ nl @ ''Description: '' @ GetDescription a)) @
            condition_list (nl @ nl @ ''Condition Results:'') r
      in JObj
        [str_field ''to'' userID,
         (''messages'', JArr [JObj [str_field ''type'' ''text'', str_field ''text'' message]])])"

text \<open>One request for each user, up to the first that fails.\<close>

definition Line_Send ::
  "(gomap \<Rightarrow> string + Line_Config) \<Rightarrow> Line_Config provider \<Rightarrow> send_env \<Rightarrow> Endpoint \<Rightarrow> Alert \<Rightarrow> Result \<Rightarrow> bool \<Rightarrow> sent" where
  "Line_Send un p env ep a r resolved =
     with_config (Line_ops un) p ep a (\<lambda>cfg. keep_key a
       (deliver_all env (call_failed ''line'')
         (map (\<lambda>userID. with_header ''Authorization'' (''Bearer '' @ line_ChannelAccessToken cfg)
            (json_post ''https://api.line.me/v2/bot/message/push'' (Line_body ep a r resolved userID)))
          (line_UserIDs cfg)) []))"

interpretation line: overridable "Line_ops un" line_unset for un
  by (rule plain_overridable) (simp_all add: line_config overriding)

section \<open>Signal\<close>

record Signal_Config =
  signal_ApiURL :: string
  signal_Number :: string
  signal_Recipients :: "string list"

definition Signal_Validate :: "Signal_Config \<Rightarrow> string option \<times> Signal_Config" where
  "Signal_Validate cfg =
     (if signal_ApiURL cfg = [] then (Some ''api-url not set'', cfg)
      else
        let cfg = (if \<not> HasSuffix (signal_ApiURL cfg) ''/v2/send''
                   then cfg\<lparr>signal_ApiURL := signal_ApiURL cfg @ ''/v2/send''\<rparr> else cfg)
        in if signal_Number cfg = [] then (Some ''number not set'', cfg)
           else if signal_Recipients cfg = [] then (Some ''recipients not set'', cfg)
           else (None, cfg))"

definition Signal_Merge :: "Signal_Config \<Rightarrow> Signal_Config \<Rightarrow> Signal_Config" where
  "Signal_Merge cfg ov =
     \<lparr>signal_ApiURL = override (signal_ApiURL cfg) (signal_ApiURL ov),
      signal_Number = override (signal_Number cfg) (signal_Number ov),
      signal_Recipients = override_list (signal_Recipients cfg) (signal_Recipients ov)\<rparr>"

definition signal_unset :: Signal_Config where
  "signal_unset =
     \<lparr>signal_ApiURL = [], signal_Number = [], signal_Recipients = []\<rparr>"

definition Signal_ops :: "(gomap \<Rightarrow> string + Signal_Config) \<Rightarrow> Signal_Config config_ops" where
  "Signal_ops un =
     \<lparr>co_Validate = Signal_Validate, co_Merge = Signal_Merge, co_has_groups = True,
      co_checks_groups = True, co_override_ok = (\<lambda>c. True), co_Unmarshal = un\<rparr>"

definition Signal_GetConfig :: "(gomap \<Rightarrow> string + Signal_Config) \<Rightarrow>
    Signal_Config provider \<Rightarrow> string \<Rightarrow> Alert \<Rightarrow> string + Signal_Config" where
  "Signal_GetConfig un = Provider_GetConfig (Signal_ops un)"

definition Signal_AlertProvider_Validate :: "(gomap \<Rightarrow> string + Signal_Config) \<Rightarrow>
    Signal_Config provider \<Rightarrow> string option \<times> Signal_Config provider" where
  "Signal_AlertProvider_Validate un = Provider_Validate (Signal_ops un)"

lemmas signal_config = Signal_ops_def Signal_Validate_def Signal_Merge_def signal_unset_def


definition Signal_body :: "Signal_Config \<Rightarrow> Endpoint \<Rightarrow> Alert \<Rightarrow> Result \<Rightarrow> bool \<Rightarrow> string \<Rightarrow> json" where
  "Signal_body cfg ep a r resolved recipient =
     (let message =
            (if resolved
             then ([CHR 0xF0, CHR 0x9F, CHR 0x9F, CHR 0xA2] @ '' RESOLVED: '' @ Endpoint_DisplayName ep @ nl @ ''Alert has been resolved after passing successfully '' @ Itoa (al_SuccessThreshold a) @ '' time(s) in a row'')
             else ([CHR 0xF0, CHR 0x9F, CHR 0x94, CHR 0xB4] @ '' ALERT: '' @ Endpoint_DisplayName ep @ nl @ ''Endpoint has failed '' @ Itoa (al_FailureThreshold a) @ '' time(s) in a row'')) @
            (if GetDescription a = [] then [] else (nl @ nl @ ''Description: '' @ GetDescription a)) @
            condition_list (nl @ nl @ ''Condition results:'') r
      in JObj
        [str_field ''message'' message, str_field ''number'' (signal_Number cfg),
         (''recipients'', JArr [JStr recipient])])"

definition Signal_Send ::
  "(gomap \<Rightarrow> string + Signal_Config) \<Rightarrow> Signal_Config provider \<Rightarrow> send_env \<Rightarrow> Endpoint \<Rightarrow> Alert \<Rightarrow> Result \<Rightarrow> bool \<Rightarrow> sent" where
  "Signal_Send un p env ep a r resolved =
     with_config (Signal_ops un) p ep a (\<lambda>cfg. keep_key a
       (deliver_all env (call_failed ''signal'')
         (map (\<lambda>recipient. json_post (signal_ApiURL cfg) (Signal_body cfg ep a r resolved recipient))
          (signal_Recipients cfg)) []))"

interpretation signal: overridable "Signal_ops un" signal_unset for un
  by (rule defaulting_overridable [where fails = "\<lambda>c. fst (Signal_Validate c)" and
      defaults = "\<lambda>cfg. if signal_ApiURL cfg = [] \<or> HasSuffix (signal_ApiURL cfg) ''/v2/send'' then cfg
        else cfg\<lparr>signal_ApiURL := signal_ApiURL cfg @ ''/v2/send''\<rparr>"])
    (simp_all add: signal_config validated_def overriding Let_def override_def split: if_split)

section \<open>ntfy\<close>

record Ntfy_Config =
  ntfy_Topic :: string
  ntfy_URL :: string
  ntfy_Priority :: int
  ntfy_Token :: string
  ntfy_Email :: string
  ntfy_Click :: string
  ntfy_DisableFirebase :: bool
  ntfy_DisableCache :: bool

definition Ntfy_Validate :: "Ntfy_Config \<Rightarrow> string option \<times> Ntfy_Config" where
  "Ntfy_Validate cfg =
     (let cfg = cfg\<lparr>ntfy_URL := override ''https://ntfy.sh'' (ntfy_URL cfg)\<rparr>;
          cfg = cfg\<lparr>ntfy_Priority := override_int 3 (ntfy_Priority cfg)\<rparr>
      in if ntfy_Token cfg \<noteq> [] \<and> \<not> HasPrefix (ntfy_Token cfg) ''tk_'' then (Some ''invalid token'', cfg)
         else if ntfy_Topic cfg = [] then (Some ''topic not set'', cfg)
         else if ntfy_Priority cfg < 1 \<or> 5 < ntfy_Priority cfg
         then (Some ''priority must between 1 and 5 inclusively'', cfg)
         else (None, cfg))"

definition Ntfy_Merge :: "Ntfy_Config \<Rightarrow> Ntfy_Config \<Rightarrow> Ntfy_Config" where
  "Ntfy_Merge cfg ov =
     \<lparr>ntfy_Topic = override (ntfy_Topic cfg) (ntfy_Topic ov),
      ntfy_URL = override (ntfy_URL cfg) (ntfy_URL ov),
      ntfy_Priority = (if 0 < ntfy_Priority ov then ntfy_Priority ov else ntfy_Priority cfg),
      ntfy_Token = override (ntfy_Token cfg) (ntfy_Token ov),
      ntfy_Email = override (ntfy_Email cfg) (ntfy_Email ov),
      ntfy_Click = override (ntfy_Click cfg) (ntfy_Click ov),
      ntfy_DisableFirebase = (ntfy_DisableFirebase cfg \<or> ntfy_DisableFirebase ov),
      ntfy_DisableCache = (ntfy_DisableCache cfg \<or> ntfy_DisableCache ov)\<rparr>"

definition ntfy_unset :: Ntfy_Config where
  "ntfy_unset =
     \<lparr>ntfy_Topic = [], ntfy_URL = [], ntfy_Priority = 0, ntfy_Token = [], ntfy_Email = [],
      ntfy_Click = [], ntfy_DisableFirebase = False, ntfy_DisableCache = False\<rparr>"

definition Ntfy_ops :: "(gomap \<Rightarrow> string + Ntfy_Config) \<Rightarrow> Ntfy_Config config_ops" where
  "Ntfy_ops un =
     \<lparr>co_Validate = Ntfy_Validate, co_Merge = Ntfy_Merge, co_has_groups = True,
      co_checks_groups = True, co_override_ok = (\<lambda>c. (ntfy_Token c = [] \<or> HasPrefix (ntfy_Token c) ''tk_'') \<and> 0 \<le> ntfy_Priority c \<and> ntfy_Priority c < 6), co_Unmarshal = un\<rparr>"

definition Ntfy_GetConfig :: "(gomap \<Rightarrow> string + Ntfy_Config) \<Rightarrow>
    Ntfy_Config provider \<Rightarrow> string \<Rightarrow> Alert \<Rightarrow> string + Ntfy_Config" where
  "Ntfy_GetConfig un = Provider_GetConfig (Ntfy_ops un)"

definition Ntfy_AlertProvider_Validate :: "(gomap \<Rightarrow> string + Ntfy_Config) \<Rightarrow>
    Ntfy_Config provider \<Rightarrow> string option \<times> Ntfy_Config provider" where
  "Ntfy_AlertProvider_Validate un = Provider_Validate (Ntfy_ops un)"

lemmas ntfy_config = Ntfy_ops_def Ntfy_Validate_def Ntfy_Merge_def ntfy_unset_def


definition circle :: "bool \<Rightarrow> string" where
  "circle ok = (if ok then ([CHR 0xF0, CHR 0x9F, CHR 0x9F, CHR 0xA2]) else ([CHR 0xF0, CHR 0x9F, CHR 0x94, CHR 0xB4]))"

definition bare_message :: "Alert \<Rightarrow> bool \<Rightarrow> string" where
  "bare_message a resolved =
     (if resolved then (''An alert has been resolved after passing successfully '' @ Itoa (al_SuccessThreshold a) @ '' time(s) in a row'')
      else (''An alert has been triggered due to having failed '' @ Itoa (al_FailureThreshold a) @ '' time(s) in a row''))"

definition Ntfy_body :: "Ntfy_Config \<Rightarrow> Endpoint \<Rightarrow> Alert \<Rightarrow> Result \<Rightarrow> bool \<Rightarrow> json" where
  "Ntfy_body cfg ep a r resolved = JObj
     ([str_field ''topic'' (ntfy_Topic cfg),
       str_field ''title'' (''Gatus: '' @ Endpoint_DisplayName ep),
       str_field ''message''
         (bare_message a resolved @ described a @ condition_lines (\<lambda>ok c. (nl @ circle ok @ '' '' @ c)) r),
       (''tags'', JArr [JStr (if resolved then ''white_check_mark'' else ''rotating_light'')]),
       int_field ''priority'' (ntfy_Priority cfg)] @
      opt_str ''email'' (ntfy_Email cfg) @ opt_str ''click'' (ntfy_Click cfg))"

definition Ntfy_request :: "Ntfy_Config \<Rightarrow> Endpoint \<Rightarrow> Alert \<Rightarrow> Result \<Rightarrow> bool \<Rightarrow> http_out" where
  "Ntfy_request cfg ep a r resolved =
     (let request = json_post (ntfy_URL cfg) (Ntfy_body cfg ep a r resolved);
          request = (if ntfy_Token cfg = [] then request
                     else with_header ''Authorization'' (''Bearer '' @ ntfy_Token cfg) request);
          request = (if ntfy_DisableFirebase cfg then with_header ''Firebase'' ''no'' request else request)
      in if ntfy_DisableCache cfg then with_header ''Cache'' ''no'' request else request)"

definition Ntfy_Send ::
  "(gomap \<Rightarrow> string + Ntfy_Config) \<Rightarrow> Ntfy_Config provider \<Rightarrow> send_env \<Rightarrow> Endpoint \<Rightarrow> Alert \<Rightarrow> Result \<Rightarrow> bool \<Rightarrow> sent" where
  "Ntfy_Send un p env ep a r resolved =
     send_one (Ntfy_ops un) p env webhook_failed ep a (\<lambda>cfg. Ntfy_request cfg ep a r resolved)"

interpretation ntfy: overridable "Ntfy_ops un" ntfy_unset for un
  by (rule defaulting_overridable [where fails = "\<lambda>c. fst (Ntfy_Validate c)" and
      defaults = "\<lambda>cfg. cfg\<lparr>ntfy_URL := override ''https://ntfy.sh'' (ntfy_URL cfg),
        ntfy_Priority := override_int 3 (ntfy_Priority cfg)\<rparr>"])
    (simp_all add: ntfy_config validated_def overriding Let_def split: if_split)

section \<open>Gotify\<close>

record Gotify_Config =
  gotify_ServerURL :: string
  gotify_Token :: string
  gotify_Priority :: int
  gotify_Title :: string

definition Gotify_Validate :: "Gotify_Config \<Rightarrow> string option \<times> Gotify_Config" where
  "Gotify_Validate cfg =
     (let cfg = cfg\<lparr>gotify_Priority := override_int 5 (gotify_Priority cfg)\<rparr>
      in if gotify_ServerURL cfg = [] then (Some ''server URL not set'', cfg)
         else if gotify_Token cfg = [] then (Some ''token not set'', cfg)
         else (None, cfg))"

definition Gotify_Merge :: "Gotify_Config \<Rightarrow> Gotify_Config \<Rightarrow> Gotify_Config" where
  "Gotify_Merge cfg ov =
     \<lparr>gotify_ServerURL = override (gotify_ServerURL cfg) (gotify_ServerURL ov),
      gotify_Token = override (gotify_Token cfg) (gotify_Token ov),
      gotify_Priority = override_int (gotify_Priority cfg) (gotify_Priority ov),
      gotify_Title = override (gotify_Title cfg) (gotify_Title ov)\<rparr>"

definition gotify_unset :: Gotify_Config where
  "gotify_unset =
     \<lparr>gotify_ServerURL = [], gotify_Token = [], gotify_Priority = 0, gotify_Title = []\<rparr>"

definition Gotify_ops :: "(gomap \<Rightarrow> string + Gotify_Config) \<Rightarrow> Gotify_Config config_ops" where
  "Gotify_ops un =
     \<lparr>co_Validate = Gotify_Validate, co_Merge = Gotify_Merge, co_has_groups = False,
      co_checks_groups = False, co_override_ok = (\<lambda>c. True), co_Unmarshal = un\<rparr>"

definition Gotify_GetConfig :: "(gomap \<Rightarrow> string + Gotify_Config) \<Rightarrow>
    Gotify_Config provider \<Rightarrow> string \<Rightarrow> Alert \<Rightarrow> string + Gotify_Config" where
  "Gotify_GetConfig un = Provider_GetConfig (Gotify_ops un)"

definition Gotify_AlertProvider_Validate :: "(gomap \<Rightarrow> string + Gotify_Config) \<Rightarrow>
    Gotify_Config provider \<Rightarrow> string option \<times> Gotify_Config provider" where
  "Gotify_AlertProvider_Validate un = Provider_Validate (Gotify_ops un)"

lemmas gotify_config = Gotify_ops_def Gotify_Validate_def Gotify_Merge_def gotify_unset_def


definition Gotify_body :: "Gotify_Config \<Rightarrow> Endpoint \<Rightarrow> Alert \<Rightarrow> Result \<Rightarrow> bool \<Rightarrow> json" where
  "Gotify_body cfg ep a r resolved = JObj
     [str_field ''message''
        (star_message ''`'' ep a resolved @ described a @ condition_lines (\<lambda>ok c. (nl @ tick ok @ '' - '' @ c)) r),
      str_field ''title'' (if gotify_Title cfg \<noteq> [] then gotify_Title cfg else (''Gatus: '' @ Endpoint_DisplayName ep)),
      int_field ''priority'' (gotify_Priority cfg)]"

definition Gotify_Send ::
  "(gomap \<Rightarrow> string + Gotify_Config) \<Rightarrow> Gotify_Config provider \<Rightarrow> send_env \<Rightarrow> Endpoint \<Rightarrow> Alert \<Rightarrow> Result \<Rightarrow> bool \<Rightarrow> sent" where
  "Gotify_Send un p env ep a r resolved =
     send_one (Gotify_ops un) p env (\<lambda>status body. (''failed to send alert to Gotify: '' @ body)) ep a
       (\<lambda>cfg. json_post (gotify_ServerURL cfg @ ''/message?token='' @ gotify_Token cfg) (Gotify_body cfg ep a r resolved))"

interpretation gotify: overridable "Gotify_ops un" gotify_unset for un
  by (rule defaulting_overridable [where fails = "\<lambda>c. fst (Gotify_Validate c)" and
      defaults = "\<lambda>cfg. cfg\<lparr>gotify_Priority := override_int 5 (gotify_Priority cfg)\<rparr>"])
    (simp_all add: gotify_config validated_def overriding Let_def split: if_split)

section \<open>Pushover\<close>

record Pushover_Config =
  pushover_ApplicationToken :: string
  pushover_UserKey :: string
  pushover_Title :: string
  pushover_Priority :: int
  pushover_ResolvedPriority :: int
  pushover_Sound :: string
  pushover_TTL :: int
  pushover_Device :: string

definition Pushover_Validate :: "Pushover_Config \<Rightarrow> string option \<times> Pushover_Config" where
  "Pushover_Validate cfg =
     (let cfg = cfg\<lparr>pushover_Priority := override_int 0 (pushover_Priority cfg)\<rparr>;
          cfg = cfg\<lparr>pushover_ResolvedPriority := override_int 0 (pushover_ResolvedPriority cfg)\<rparr>
      in if length (pushover_ApplicationToken cfg) \<noteq> 30
         then (Some ''application-token must be 30 characters long'', cfg)
         else if length (pushover_UserKey cfg) \<noteq> 30 then (Some ''user-key must be 30 characters long'', cfg)
         else if pushover_Priority cfg < - 2 \<or> 2 < pushover_Priority cfg \<or>
           pushover_ResolvedPriority cfg < - 2 \<or> 2 < pushover_ResolvedPriority cfg
         then (Some ''priority and resolved-priority must be between -2 and 2'', cfg)
         else if 25 < length (pushover_Device cfg)
         then (Some ''device name must have 25 characters or less'', cfg)
         else (None, cfg))"

definition Pushover_Merge :: "Pushover_Config \<Rightarrow> Pushover_Config \<Rightarrow> Pushover_Config" where
  "Pushover_Merge cfg ov =
     \<lparr>pushover_ApplicationToken = override (pushover_ApplicationToken cfg) (pushover_ApplicationToken ov),
      pushover_UserKey = override (pushover_UserKey cfg) (pushover_UserKey ov),
      pushover_Title = override (pushover_Title cfg) (pushover_Title ov),
      pushover_Priority = override_int (pushover_Priority cfg) (pushover_Priority ov),
      pushover_ResolvedPriority = override_int (pushover_ResolvedPriority cfg) (pushover_ResolvedPriority ov),
      pushover_Sound = override (pushover_Sound cfg) (pushover_Sound ov),
      pushover_TTL = (if 0 < pushover_TTL ov then pushover_TTL ov else pushover_TTL cfg),
      pushover_Device = override (pushover_Device cfg) (pushover_Device ov)\<rparr>"

definition pushover_unset :: Pushover_Config where
  "pushover_unset =
     \<lparr>pushover_ApplicationToken = [], pushover_UserKey = [], pushover_Title = [], pushover_Priority = 0,
      pushover_ResolvedPriority = 0, pushover_Sound = [], pushover_TTL = 0, pushover_Device = []\<rparr>"

definition Pushover_ops :: "(gomap \<Rightarrow> string + Pushover_Config) \<Rightarrow> Pushover_Config config_ops" where
  "Pushover_ops un =
     \<lparr>co_Validate = Pushover_Validate, co_Merge = Pushover_Merge, co_has_groups = False,
      co_checks_groups = False, co_override_ok = (\<lambda>c. True), co_Unmarshal = un\<rparr>"

definition Pushover_GetConfig :: "(gomap \<Rightarrow> string + Pushover_Config) \<Rightarrow>
    Pushover_Config provider \<Rightarrow> string \<Rightarrow> Alert \<Rightarrow> string + Pushover_Config" where
  "Pushover_GetConfig un = Provider_GetConfig (Pushover_ops un)"

definition Pushover_AlertProvider_Validate :: "(gomap \<Rightarrow> string + Pushover_Config) \<Rightarrow>
    Pushover_Config provider \<Rightarrow> string option \<times> Pushover_Config provider" where
  "Pushover_AlertProvider_Validate un = Provider_Validate (Pushover_ops un)"

lemmas pushover_config = Pushover_ops_def Pushover_Validate_def Pushover_Merge_def pushover_unset_def


definition Pushover_body :: "Pushover_Config \<Rightarrow> Endpoint \<Rightarrow> Alert \<Rightarrow> Result \<Rightarrow> bool \<Rightarrow> json" where
  "Pushover_body cfg ep a r resolved =
     (let message =
            (if resolved
             then (''An alert for <b>'' @ Endpoint_DisplayName ep @ ''</b> has been resolved after passing successfully '' @ Itoa (al_SuccessThreshold a) @ '' time(s) in a row'')
             else (''An alert for <b>'' @ Endpoint_DisplayName ep @ ''</b> has been triggered due to having failed '' @ Itoa (al_FailureThreshold a) @ '' time(s) in a row'')) @
            described a @ condition_lines (\<lambda>ok c. (nl @ emoji_mark ok @ '' - '' @ c)) r
      in JObj
        ([str_field ''token'' (pushover_ApplicationToken cfg),
          str_field ''user'' (pushover_UserKey cfg)] @
         opt_str ''title'' (if pushover_Title cfg \<noteq> [] then pushover_Title cfg else (''Gatus: '' @ Endpoint_DisplayName ep)) @
         [str_field ''message'' message,
          int_field ''priority'' (if resolved then pushover_ResolvedPriority cfg else pushover_Priority cfg),
          int_field ''html'' 1] @
         opt_str ''sound'' (pushover_Sound cfg) @ opt_int ''ttl'' (pushover_TTL cfg) @
         opt_str ''device'' (pushover_Device cfg)))"

definition Pushover_Send ::
  "(gomap \<Rightarrow> string + Pushover_Config) \<Rightarrow> Pushover_Config provider \<Rightarrow> send_env \<Rightarrow> Endpoint \<Rightarrow> Alert \<Rightarrow> Result \<Rightarrow> bool \<Rightarrow> sent" where
  "Pushover_Send un p env ep a r resolved =
     send_one (Pushover_ops un) p env webhook_failed ep a
       (\<lambda>cfg. json_post ''https://api.pushover.net/1/messages.json'' (Pushover_body cfg ep a r resolved))"

interpretation pushover: overridable "Pushover_ops un" pushover_unset for un
  by (rule defaulting_overridable [where fails = "\<lambda>c. fst (Pushover_Validate c)" and
      defaults = "\<lambda>cfg. cfg\<lparr>pushover_Priority := override_int 0 (pushover_Priority cfg)\<rparr>"])
    (simp_all add: pushover_config validated_def overriding Let_def split: if_split)

end
