(* ===== verification/Providers_Pager.thy ===== *)
theory Providers_Pager
  imports Providers_Text
begin

text \<open>
  The providers of incidents: \<open>pagerduty\<close>, \<open>opsgenie\<close>, \<open>incidentio\<close>, \<open>ilert\<close>,
  \<open>squadcast\<close>, \<open>signl4\<close>, \<open>splunk\<close>, \<open>datadog\<close> and \<open>newrelic\<close>. The first
  three change the resolve key of the alert. A slice of results that has no elements is nil, and an alert without
  overrides has a nil map of them.
\<close>

definition map_json :: "(string \<times> json) list \<Rightarrow> json" where
  "map_json kvs = JObj (sort_key fst kvs)"

section \<open>PagerDuty\<close>

record PagerDuty_Config =
  pagerduty_IntegrationKey :: string

definition PagerDuty_Validate :: "PagerDuty_Config \<Rightarrow> string option \<times> PagerDuty_Config" where
  "PagerDuty_Validate cfg =
     (if length (pagerduty_IntegrationKey cfg) \<noteq> 32
      then (Some ''integration-key must have exactly 32 characters'', cfg) else (None, cfg))"

definition PagerDuty_Merge :: "PagerDuty_Config \<Rightarrow> PagerDuty_Config \<Rightarrow> PagerDuty_Config" where
  "PagerDuty_Merge cfg ov =
     \<lparr>pagerduty_IntegrationKey = override (pagerduty_IntegrationKey cfg) (pagerduty_IntegrationKey ov)\<rparr>"

definition pagerduty_unset :: PagerDuty_Config where
  "pagerduty_unset =
     \<lparr>pagerduty_IntegrationKey = []\<rparr>"

definition PagerDuty_ops :: "(gomap \<Rightarrow> string + PagerDuty_Config) \<Rightarrow> PagerDuty_Config config_ops" where
  "PagerDuty_ops un =
     \<lparr>co_Validate = PagerDuty_Validate, co_Merge = PagerDuty_Merge, co_has_groups = True,
      co_checks_groups = True, co_override_ok = (\<lambda>c. True), co_Unmarshal = un\<rparr>"

definition PagerDuty_GetConfig :: "(gomap \<Rightarrow> string + PagerDuty_Config) \<Rightarrow>
    PagerDuty_Config provider \<Rightarrow> string \<Rightarrow> Alert \<Rightarrow> string + PagerDuty_Config" where
  "PagerDuty_GetConfig un = Provider_GetConfig (PagerDuty_ops un)"

definition PagerDuty_AlertProvider_Validate :: "(gomap \<Rightarrow> string + PagerDuty_Config) \<Rightarrow>
    PagerDuty_Config provider \<Rightarrow> string option \<times> PagerDuty_Config provider" where
  "PagerDuty_AlertProvider_Validate un = Provider_Validate (PagerDuty_ops un)"

lemmas pagerduty_config = PagerDuty_ops_def PagerDuty_Validate_def PagerDuty_Merge_def pagerduty_unset_def


definition short_message :: "Endpoint \<Rightarrow> Alert \<Rightarrow> bool \<Rightarrow> string" where
  "short_message ep a resolved =
     (if resolved then (''RESOLVED: '' @ Endpoint_DisplayName ep @ '' - '' @ GetDescription a) else (''TRIGGERED: '' @ Endpoint_DisplayName ep @ '' - '' @ GetDescription a))"

definition PagerDuty_body :: "PagerDuty_Config \<Rightarrow> Endpoint \<Rightarrow> Alert \<Rightarrow> bool \<Rightarrow> json" where
  "PagerDuty_body cfg ep a resolved = JObj
     [str_field ''routing_key'' (pagerduty_IntegrationKey cfg),
      str_field ''dedup_key'' (if resolved then al_ResolveKey a else []),
      str_field ''event_action'' (if resolved then ''resolve'' else ''trigger''),
      (''payload'', JObj
        [str_field ''summary'' (short_message ep a resolved), str_field ''source'' ''Gatus'',
         str_field ''severity'' ''critical''])]"

text \<open>An answer that cannot be decoded is logged only, and the key stays.\<close>

definition PagerDuty_Send ::
  "(gomap \<Rightarrow> string + PagerDuty_Config) \<Rightarrow> PagerDuty_Config provider \<Rightarrow> send_env \<Rightarrow> Endpoint \<Rightarrow> Alert \<Rightarrow> Result \<Rightarrow> bool \<Rightarrow> sent" where
  "PagerDuty_Send un p env ep a r resolved =
     with_config (PagerDuty_ops un) p ep a (\<lambda>cfg.
       case Do env (json_post ''https://events.pagerduty.com/v2/enqueue'' (PagerDuty_body cfg ep a resolved)) [] of
         (Inl e, out) \<Rightarrow> (Some e, al_ResolveKey a, out)
       | (Inr (status, body), out) \<Rightarrow>
           if 399 < status then (Some (webhook_failed status body), al_ResolveKey a, out)
           else (None,
                 if IsSendingOnResolved a
                 then if resolved then []
                      else case se_dedup_key env body of Inl _ \<Rightarrow> al_ResolveKey a | Inr k \<Rightarrow> k
                 else al_ResolveKey a, out))"

interpretation pagerduty: overridable "PagerDuty_ops un" pagerduty_unset for un
  by (rule plain_overridable) (simp_all add: pagerduty_config overriding)

section \<open>Opsgenie\<close>

record Opsgenie_Config =
  opsgenie_APIKey :: string
  opsgenie_Priority :: string
  opsgenie_Source :: string
  opsgenie_EntityPrefix :: string
  opsgenie_AliasPrefix :: string
  opsgenie_Tags :: "string list"

definition Opsgenie_Validate :: "Opsgenie_Config \<Rightarrow> string option \<times> Opsgenie_Config" where
  "Opsgenie_Validate cfg =
     (if opsgenie_APIKey cfg = [] then (Some ''api-key not set'', cfg)
      else (None, cfg\<lparr>opsgenie_Source := override ''gatus'' (opsgenie_Source cfg),
        opsgenie_EntityPrefix := override ''gatus-'' (opsgenie_EntityPrefix cfg),
        opsgenie_AliasPrefix := override ''gatus-healthcheck-'' (opsgenie_AliasPrefix cfg),
        opsgenie_Priority := override ''P1'' (opsgenie_Priority cfg)\<rparr>))"

definition Opsgenie_Merge :: "Opsgenie_Config \<Rightarrow> Opsgenie_Config \<Rightarrow> Opsgenie_Config" where
  "Opsgenie_Merge cfg ov =
     \<lparr>opsgenie_APIKey = override (opsgenie_APIKey cfg) (opsgenie_APIKey ov),
      opsgenie_Priority = override (opsgenie_Priority cfg) (opsgenie_Priority ov),
      opsgenie_Source = override (opsgenie_Source cfg) (opsgenie_Source ov),
      opsgenie_EntityPrefix = override (opsgenie_EntityPrefix cfg) (opsgenie_EntityPrefix ov),
      opsgenie_AliasPrefix = override (opsgenie_AliasPrefix cfg) (opsgenie_AliasPrefix ov),
      opsgenie_Tags = override_list (opsgenie_Tags cfg) (opsgenie_Tags ov)\<rparr>"

definition opsgenie_unset :: Opsgenie_Config where
  "opsgenie_unset =
     \<lparr>opsgenie_APIKey = [], opsgenie_Priority = [], opsgenie_Source = [], opsgenie_EntityPrefix = [],
      opsgenie_AliasPrefix = [], opsgenie_Tags = []\<rparr>"

definition Opsgenie_ops :: "(gomap \<Rightarrow> string + Opsgenie_Config) \<Rightarrow> Opsgenie_Config config_ops" where
  "Opsgenie_ops un =
     \<lparr>co_Validate = Opsgenie_Validate, co_Merge = Opsgenie_Merge, co_has_groups = False,
      co_checks_groups = False, co_override_ok = (\<lambda>c. True), co_Unmarshal = un\<rparr>"

definition Opsgenie_GetConfig :: "(gomap \<Rightarrow> string + Opsgenie_Config) \<Rightarrow>
    Opsgenie_Config provider \<Rightarrow> string \<Rightarrow> Alert \<Rightarrow> string + Opsgenie_Config" where
  "Opsgenie_GetConfig un = Provider_GetConfig (Opsgenie_ops un)"

definition Opsgenie_AlertProvider_Validate :: "(gomap \<Rightarrow> string + Opsgenie_Config) \<Rightarrow>
    Opsgenie_Config provider \<Rightarrow> string option \<times> Opsgenie_Config provider" where
  "Opsgenie_AlertProvider_Validate un = Provider_Validate (Opsgenie_ops un)"

lemmas opsgenie_config = Opsgenie_ops_def Opsgenie_Validate_def Opsgenie_Merge_def opsgenie_unset_def


definition toKebabCase :: "string \<Rightarrow> string" where
  "toKebabCase s = ToLower (ReplaceAll s '' '' ''-'')"

definition buildKey :: "Endpoint \<Rightarrow> string" where
  "buildKey ep =
     (let name = toKebabCase (e_Name ep)
      in if e_Group ep = [] then name else toKebabCase (e_Group ep) @ ''-'' @ name)"

definition Opsgenie_create_body :: "Opsgenie_Config \<Rightarrow> Endpoint \<Rightarrow> Alert \<Rightarrow> Result \<Rightarrow> bool \<Rightarrow> json" where
  "Opsgenie_create_body cfg ep a r resolved =
     (let message = (if resolved then (''RESOLVED: '' @ e_Name ep @ '' - '' @ GetDescription a) else (e_Name ep @ '' - '' @ GetDescription a));
          message = (if e_Group ep = [] then message else (''['' @ e_Group ep @ ''] '' @ message));
          description = star_message ''*'' ep a resolved @ nl @
            condition_lines (\<lambda>ok c. ((if ok then [CHR 0xE2, CHR 0x96, CHR 0xA3] else [CHR 0xE2, CHR 0x96, CHR 0xA2]) @ '' - `'' @ c @ ''`'' @ nl)) r;
          k = buildKey ep;
          details =
            filter (\<lambda>(n, v). v \<noteq> [])
              [(''endpoint:url'', e_URL ep), (''endpoint:group'', e_Group ep), (''result:hostname'', r_Hostname r),
               (''result:ip'', r_IP r), (''result:dns_code'', r_DNSRCode r),
               (''result:errors'', Join (r_Errors r) '','')] @
            (if 0 < r_HTTPStatus r then [(''result:http_status'', Itoa (r_HTTPStatus r))] else [])
      in JObj
        ([str_field ''message'' message, str_field ''priority'' (opsgenie_Priority cfg),
          str_field ''source'' (opsgenie_Source cfg), str_field ''entity'' (opsgenie_EntityPrefix cfg @ k),
          str_field ''alias'' (opsgenie_AliasPrefix cfg @ k), str_field ''description'' description] @
         opt_arr ''tags'' (map JStr (opsgenie_Tags cfg)) @
         [(''details'', map_json (map (\<lambda>(n, v). (n, JStr v)) details))]))"

definition Opsgenie_close_body :: "Endpoint \<Rightarrow> Alert \<Rightarrow> json" where
  "Opsgenie_close_body ep a = JObj
     [str_field ''source'' (buildKey ep), str_field ''note'' (''RESOLVED: '' @ e_Name ep @ '' - '' @ GetDescription a)]"

definition Opsgenie_request :: "Opsgenie_Config \<Rightarrow> string \<Rightarrow> json \<Rightarrow> http_out" where
  "Opsgenie_request cfg url payload =
     with_header ''Authorization'' (''GenieKey '' @ opsgenie_APIKey cfg) (json_post url payload)"

definition Opsgenie_API :: string where "Opsgenie_API = ''https://api.opsgenie.com/v2/alerts''"

text \<open>A resolution creates an alert as well, and then closes it.\<close>

definition Opsgenie_Send ::
  "(gomap \<Rightarrow> string + Opsgenie_Config) \<Rightarrow> Opsgenie_Config provider \<Rightarrow> send_env \<Rightarrow> Endpoint \<Rightarrow> Alert \<Rightarrow> Result \<Rightarrow> bool \<Rightarrow> sent" where
  "Opsgenie_Send un p env ep a r resolved =
     with_config (Opsgenie_ops un) p ep a (\<lambda>cfg.
       let alias = opsgenie_AliasPrefix cfg @ buildKey ep in
       case deliver_all env webhook_failed
              ([Opsgenie_request cfg Opsgenie_API (Opsgenie_create_body cfg ep a r resolved)] @
               (if resolved
                then [Opsgenie_request cfg (Opsgenie_API @ ''/'' @ alias @ ''/close?identifierType=alias'')
                       (Opsgenie_close_body ep a)]
                else [])) [] of
         (Some e, out) \<Rightarrow> (Some e, al_ResolveKey a, out)
       | (None, out) \<Rightarrow>
           (None, if IsSendingOnResolved a then if resolved then [] else alias else al_ResolveKey a, out))"

interpretation opsgenie: overridable "Opsgenie_ops un" opsgenie_unset for un
  by (rule defaulting_overridable [where fails = "\<lambda>c. fst (Opsgenie_Validate c)" and
      defaults = "\<lambda>cfg. cfg\<lparr>opsgenie_Source := override ''gatus'' (opsgenie_Source cfg),
        opsgenie_EntityPrefix := override ''gatus-'' (opsgenie_EntityPrefix cfg),
        opsgenie_AliasPrefix := override ''gatus-healthcheck-'' (opsgenie_AliasPrefix cfg),
        opsgenie_Priority := override ''P1'' (opsgenie_Priority cfg)\<rparr>"])
    (simp_all add: opsgenie_config validated_def overriding Let_def split: if_split)

section \<open>incident.io\<close>

definition incidentio_API :: string where "incidentio_API = ''https://api.incident.io/v2/alert_events/http/''"

record IncidentIo_Config =
  incidentio_URL :: string
  incidentio_AuthToken :: string
  incidentio_SourceURL :: string
  incidentio_Metadata :: gomap

definition IncidentIo_Validate :: "IncidentIo_Config \<Rightarrow> string option \<times> IncidentIo_Config" where
  "IncidentIo_Validate cfg =
     (if incidentio_URL cfg = [] then (Some ''url not set'', cfg)
      else if \<not> HasPrefix (incidentio_URL cfg) incidentio_API
      then (Some (''url must be prefixed with '' @ incidentio_API), cfg)
      else if incidentio_AuthToken cfg = [] then (Some ''auth-token not set'', cfg)
      else (None, cfg))"

definition IncidentIo_Merge :: "IncidentIo_Config \<Rightarrow> IncidentIo_Config \<Rightarrow> IncidentIo_Config" where
  "IncidentIo_Merge cfg ov =
     \<lparr>incidentio_URL = override (incidentio_URL cfg) (incidentio_URL ov),
      incidentio_AuthToken = override (incidentio_AuthToken cfg) (incidentio_AuthToken ov),
      incidentio_SourceURL = override (incidentio_SourceURL cfg) (incidentio_SourceURL ov),
      incidentio_Metadata = override_list (incidentio_Metadata cfg) (incidentio_Metadata ov)\<rparr>"

definition incidentio_unset :: IncidentIo_Config where
  "incidentio_unset =
     \<lparr>incidentio_URL = [], incidentio_AuthToken = [], incidentio_SourceURL = [],
      incidentio_Metadata = []\<rparr>"

definition IncidentIo_ops :: "(gomap \<Rightarrow> string + IncidentIo_Config) \<Rightarrow> IncidentIo_Config config_ops" where
  "IncidentIo_ops un =
     \<lparr>co_Validate = IncidentIo_Validate, co_Merge = IncidentIo_Merge, co_has_groups = True,
      co_checks_groups = True, co_override_ok = (\<lambda>c. True), co_Unmarshal = un\<rparr>"

definition IncidentIo_GetConfig :: "(gomap \<Rightarrow> string + IncidentIo_Config) \<Rightarrow>
    IncidentIo_Config provider \<Rightarrow> string \<Rightarrow> Alert \<Rightarrow> string + IncidentIo_Config" where
  "IncidentIo_GetConfig un = Provider_GetConfig (IncidentIo_ops un)"

definition IncidentIo_AlertProvider_Validate :: "(gomap \<Rightarrow> string + IncidentIo_Config) \<Rightarrow>
    IncidentIo_Config provider \<Rightarrow> string option \<times> IncidentIo_Config provider" where
  "IncidentIo_AlertProvider_Validate un = Provider_Validate (IncidentIo_ops un)"

lemmas incidentio_config = IncidentIo_ops_def IncidentIo_Validate_def IncidentIo_Merge_def incidentio_unset_def


definition generateDeduplicationKey :: "send_env \<Rightarrow> Endpoint \<Rightarrow> Alert \<Rightarrow> string" where
  "generateDeduplicationKey env ep a =
     se_sha256 env (Endpoint_Key ep @ ''|'' @ al_Type a @ ''|'' @ GetDescription a @ ''|'' @ Itoa (se_now env))"

definition IncidentIo_body :: "IncidentIo_Config \<Rightarrow> Endpoint \<Rightarrow> Alert \<Rightarrow> Result \<Rightarrow> bool \<Rightarrow> string \<Rightarrow> json" where
  "IncidentIo_body cfg ep a r resolved k =
     (let formattedConditionResults = condition_lines (\<lambda>ok c. ('' '' @ circle ok @ '' '' @ c @ '' '')) r;
          message = bare_message a resolved @ described a @
            ('' and the following conditions: '' @ formattedConditionResults @ '' '');
          mergedMetadata = foldl (\<lambda>m (l, v). AList.update l (VStr v) m) (incidentio_Metadata cfg) (e_ExtraLabels ep)
      in JObj
        ([str_field ''alert_source_config_id'' (TrimPrefix (incidentio_URL cfg) incidentio_API),
          str_field ''status'' (if resolved then ''resolved'' else ''firing''),
          str_field ''title'' (''Gatus: '' @ Endpoint_DisplayName ep)] @
         opt_str ''deduplication_key'' k @
         opt_str ''description'' message @
         opt_str ''source_url'' (incidentio_SourceURL cfg) @
         (if mergedMetadata = [] then [] else [(''metadata'', json_of (VMap mergedMetadata))])))"

text \<open>
  The key is made up when the alert has none; after an answer it is the one that could be decoded, and the
  error of decoding it is the error of the call.
\<close>

definition IncidentIo_Send ::
  "(gomap \<Rightarrow> string + IncidentIo_Config) \<Rightarrow> IncidentIo_Config provider \<Rightarrow> send_env \<Rightarrow> Endpoint \<Rightarrow> Alert \<Rightarrow> Result \<Rightarrow> bool \<Rightarrow> sent" where
  "IncidentIo_Send un p env ep a r resolved =
     with_config (IncidentIo_ops un) p ep a (\<lambda>cfg.
       let k = (if al_ResolveKey a = [] then generateDeduplicationKey env ep a else al_ResolveKey a) in
       case Do env (with_header ''Authorization'' (''Bearer '' @ incidentio_AuthToken cfg)
              (json_post (incidentio_URL cfg) (IncidentIo_body cfg ep a r resolved k))) [] of
         (Inl e, out) \<Rightarrow> (Some e, k, out)
       | (Inr (status, body), out) \<Rightarrow>
           if 399 < status then (Some (webhook_failed status body), k, out)
           else case se_deduplication_key env body of (err, k') \<Rightarrow> (err, k', out))"

interpretation incidentio: overridable "IncidentIo_ops un" incidentio_unset for un
  by (rule plain_overridable) (simp_all add: incidentio_config overriding)

section \<open>ilert\<close>

record Ilert_Config =
  ilert_IntegrationKey :: string

definition Ilert_Validate :: "Ilert_Config \<Rightarrow> string option \<times> Ilert_Config" where
  "Ilert_Validate cfg =
     (if ilert_IntegrationKey cfg = [] then (Some ''integration key is not set'', cfg)
      else (None, cfg))"

definition Ilert_Merge :: "Ilert_Config \<Rightarrow> Ilert_Config \<Rightarrow> Ilert_Config" where
  "Ilert_Merge cfg ov =
     \<lparr>ilert_IntegrationKey = override (ilert_IntegrationKey cfg) (ilert_IntegrationKey ov)\<rparr>"

definition ilert_unset :: Ilert_Config where
  "ilert_unset =
     \<lparr>ilert_IntegrationKey = []\<rparr>"

definition Ilert_ops :: "(gomap \<Rightarrow> string + Ilert_Config) \<Rightarrow> Ilert_Config config_ops" where
  "Ilert_ops un =
     \<lparr>co_Validate = Ilert_Validate, co_Merge = Ilert_Merge, co_has_groups = True,
      co_checks_groups = True, co_override_ok = (\<lambda>c. True), co_Unmarshal = un\<rparr>"

definition Ilert_GetConfig :: "(gomap \<Rightarrow> string + Ilert_Config) \<Rightarrow>
    Ilert_Config provider \<Rightarrow> string \<Rightarrow> Alert \<Rightarrow> string + Ilert_Config" where
  "Ilert_GetConfig un = Provider_GetConfig (Ilert_ops un)"

definition Ilert_AlertProvider_Validate :: "(gomap \<Rightarrow> string + Ilert_Config) \<Rightarrow>
    Ilert_Config provider \<Rightarrow> string option \<times> Ilert_Config provider" where
  "Ilert_AlertProvider_Validate un = Provider_Validate (Ilert_ops un)"

lemmas ilert_config = Ilert_ops_def Ilert_Validate_def Ilert_Merge_def ilert_unset_def


definition bool_json :: "bool option \<Rightarrow> json" where
  "bool_json b = (case b of None \<Rightarrow> JNull | Some x \<Rightarrow> JBool x)"

text \<open>The fields of an alert have no tags for JSON.\<close>

definition alert_json :: "Alert \<Rightarrow> json" where
  "alert_json a = JObj
     [str_field ''Type'' (al_Type a), (''Enabled'', bool_json (al_Enabled a)),
      int_field ''FailureThreshold'' (al_FailureThreshold a), int_field ''SuccessThreshold'' (al_SuccessThreshold a),
      int_field ''MinimumReminderInterval'' (al_MinimumReminderInterval a),
      (''Description'', case al_Description a of None \<Rightarrow> JNull | Some d \<Rightarrow> JStr d),
      (''SendOnResolved'', bool_json (al_SendOnResolved a)),
      (''ProviderOverride'', if al_ProviderOverride a = [] then JNull else json_of (VMap (al_ProviderOverride a))),
      str_field ''ResolveKey'' (al_ResolveKey a), (''Triggered'', JBool (al_Triggered a))]"

definition Ilert_body :: "Endpoint \<Rightarrow> Alert \<Rightarrow> Result \<Rightarrow> bool \<Rightarrow> json" where
  "Ilert_body ep a r resolved = JObj
     [(''alert'', alert_json a), str_field ''name'' (e_Name ep), str_field ''group'' (e_Group ep),
      str_field ''status'' (if resolved then ''resolved'' else ''firing''),
      str_field ''title'' (Endpoint_DisplayName ep),
      str_field ''details'' (if GetDescription a \<noteq> [] then GetDescription a else ''No description''),
      (''condition_results'', nil_arr (map condition_json (r_ConditionResults r))),
      str_field ''url'' (e_URL ep)]"

definition Ilert_Send ::
  "(gomap \<Rightarrow> string + Ilert_Config) \<Rightarrow> Ilert_Config provider \<Rightarrow> send_env \<Rightarrow> Endpoint \<Rightarrow> Alert \<Rightarrow> Result \<Rightarrow> bool \<Rightarrow> sent" where
  "Ilert_Send un p env ep a r resolved =
     send_one (Ilert_ops un) p env webhook_failed ep a
       (\<lambda>cfg. json_post (''https://api.ilert.com/api/v1/events/gatus/'' @ ilert_IntegrationKey cfg) (Ilert_body ep a r resolved))"

interpretation ilert: overridable "Ilert_ops un" ilert_unset for un
  by (rule plain_overridable) (simp_all add: ilert_config overriding)

section \<open>Squadcast\<close>

record Squadcast_Config =
  squadcast_WebhookURL :: string

definition Squadcast_Validate :: "Squadcast_Config \<Rightarrow> string option \<times> Squadcast_Config" where
  "Squadcast_Validate cfg =
     (if squadcast_WebhookURL cfg = [] then (Some ''webhook-url not set'', cfg)
      else (None, cfg))"

definition Squadcast_Merge :: "Squadcast_Config \<Rightarrow> Squadcast_Config \<Rightarrow> Squadcast_Config" where
  "Squadcast_Merge cfg ov =
     \<lparr>squadcast_WebhookURL = override (squadcast_WebhookURL cfg) (squadcast_WebhookURL ov)\<rparr>"

definition squadcast_unset :: Squadcast_Config where
  "squadcast_unset =
     \<lparr>squadcast_WebhookURL = []\<rparr>"

definition Squadcast_ops :: "(gomap \<Rightarrow> string + Squadcast_Config) \<Rightarrow> Squadcast_Config config_ops" where
  "Squadcast_ops un =
     \<lparr>co_Validate = Squadcast_Validate, co_Merge = Squadcast_Merge, co_has_groups = True,
      co_checks_groups = True, co_override_ok = (\<lambda>c. True), co_Unmarshal = un\<rparr>"

definition Squadcast_GetConfig :: "(gomap \<Rightarrow> string + Squadcast_Config) \<Rightarrow>
    Squadcast_Config provider \<Rightarrow> string \<Rightarrow> Alert \<Rightarrow> string + Squadcast_Config" where
  "Squadcast_GetConfig un = Provider_GetConfig (Squadcast_ops un)"

definition Squadcast_AlertProvider_Validate :: "(gomap \<Rightarrow> string + Squadcast_Config) \<Rightarrow>
    Squadcast_Config provider \<Rightarrow> string option \<times> Squadcast_Config provider" where
  "Squadcast_AlertProvider_Validate un = Provider_Validate (Squadcast_ops un)"

lemmas squadcast_config = Squadcast_ops_def Squadcast_Validate_def Squadcast_Merge_def squadcast_unset_def


definition Squadcast_body :: "Endpoint \<Rightarrow> Alert \<Rightarrow> Result \<Rightarrow> bool \<Rightarrow> json" where
  "Squadcast_body ep a r resolved =
     (let description = (''Endpoint: '' @ Endpoint_DisplayName ep @ nl) @
            (if resolved then (''Alert has been resolved after passing successfully '' @ Itoa (al_SuccessThreshold a) @ '' time(s) in a row'' @ nl)
             else (''Endpoint has failed '' @ Itoa (al_FailureThreshold a) @ '' time(s) in a row'' @ nl)) @
            (if GetDescription a = [] then [] else (nl @ ''Description: '' @ GetDescription a)) @
            condition_list (nl @ nl @ ''Condition Results:'') r
      in JObj
        ([str_field ''message'' (if resolved then (''RESOLVED: '' @ Endpoint_DisplayName ep) else (''ALERT: '' @ Endpoint_DisplayName ep))] @
         opt_str ''description'' description @
         [str_field ''event_id'' (''gatus-'' @ Endpoint_Key ep),
          str_field ''status'' (if resolved then ''resolve'' else ''trigger''),
          (''tags'', map_json [str_field ''endpoint'' (e_Name ep), str_field ''group'' (e_Group ep),
             str_field ''source'' ''gatus''])]))"

definition Squadcast_Send ::
  "(gomap \<Rightarrow> string + Squadcast_Config) \<Rightarrow> Squadcast_Config provider \<Rightarrow> send_env \<Rightarrow> Endpoint \<Rightarrow> Alert \<Rightarrow> Result \<Rightarrow> bool \<Rightarrow> sent" where
  "Squadcast_Send un p env ep a r resolved =
     send_one (Squadcast_ops un) p env (call_failed ''squadcast'') ep a
       (\<lambda>cfg. json_post (squadcast_WebhookURL cfg) (Squadcast_body ep a r resolved))"

interpretation squadcast: overridable "Squadcast_ops un" squadcast_unset for un
  by (rule plain_overridable) (simp_all add: squadcast_config overriding)

section \<open>SIGNL4\<close>

record Signl4_Config =
  signl4_TeamSecret :: string

definition Signl4_Validate :: "Signl4_Config \<Rightarrow> string option \<times> Signl4_Config" where
  "Signl4_Validate cfg =
     (if signl4_TeamSecret cfg = [] then (Some ''team-secret not set'', cfg)
      else (None, cfg))"

definition Signl4_Merge :: "Signl4_Config \<Rightarrow> Signl4_Config \<Rightarrow> Signl4_Config" where
  "Signl4_Merge cfg ov =
     \<lparr>signl4_TeamSecret = override (signl4_TeamSecret cfg) (signl4_TeamSecret ov)\<rparr>"

definition signl4_unset :: Signl4_Config where
  "signl4_unset =
     \<lparr>signl4_TeamSecret = []\<rparr>"

definition Signl4_ops :: "(gomap \<Rightarrow> string + Signl4_Config) \<Rightarrow> Signl4_Config config_ops" where
  "Signl4_ops un =
     \<lparr>co_Validate = Signl4_Validate, co_Merge = Signl4_Merge, co_has_groups = True,
      co_checks_groups = True, co_override_ok = (\<lambda>c. True), co_Unmarshal = un\<rparr>"

definition Signl4_GetConfig :: "(gomap \<Rightarrow> string + Signl4_Config) \<Rightarrow>
    Signl4_Config provider \<Rightarrow> string \<Rightarrow> Alert \<Rightarrow> string + Signl4_Config" where
  "Signl4_GetConfig un = Provider_GetConfig (Signl4_ops un)"

definition Signl4_AlertProvider_Validate :: "(gomap \<Rightarrow> string + Signl4_Config) \<Rightarrow>
    Signl4_Config provider \<Rightarrow> string option \<times> Signl4_Config provider" where
  "Signl4_AlertProvider_Validate un = Provider_Validate (Signl4_ops un)"

lemmas signl4_config = Signl4_ops_def Signl4_Validate_def Signl4_Merge_def signl4_unset_def


definition Signl4_body :: "Endpoint \<Rightarrow> Alert \<Rightarrow> Result \<Rightarrow> bool \<Rightarrow> json" where
  "Signl4_body ep a r resolved =
     (let conditionResults =
            (if r_ConditionResults r = [] then []
             else (nl @ nl @ ''Condition results:'' @ nl) @
               condition_lines (\<lambda>ok c. ((if ok then [CHR 0xE2, CHR 0x9C, CHR 0x93] else [CHR 0xE2, CHR 0x9C, CHR 0x97]) @ '' '' @ c @ nl)) r);
          message = star_message [] ep a resolved @
            (if GetDescription a = [] then [] else (nl @ nl @ ''Description: '' @ GetDescription a)) @ conditionResults
      in JObj
        [str_field ''Title'' (if resolved then (''RESOLVED: '' @ Endpoint_DisplayName ep) else (''TRIGGERED: '' @ Endpoint_DisplayName ep)),
         str_field ''Message'' message,
         str_field ''X-S4-Service'' (Endpoint_DisplayName ep),
         str_field ''X-S4-Status'' (if resolved then ''resolved'' else ''new''),
         str_field ''X-S4-ExternalID'' (''gatus-'' @ Endpoint_Key ep)])"

definition Signl4_Send ::
  "(gomap \<Rightarrow> string + Signl4_Config) \<Rightarrow> Signl4_Config provider \<Rightarrow> send_env \<Rightarrow> Endpoint \<Rightarrow> Alert \<Rightarrow> Result \<Rightarrow> bool \<Rightarrow> sent" where
  "Signl4_Send un p env ep a r resolved =
     send_one (Signl4_ops un) p env (call_failed ''signl4'') ep a
       (\<lambda>cfg. json_post (''https://connect.signl4.com/webhook/'' @ signl4_TeamSecret cfg) (Signl4_body ep a r resolved))"

interpretation signl4: overridable "Signl4_ops un" signl4_unset for un
  by (rule plain_overridable) (simp_all add: signl4_config overriding)

section \<open>Splunk\<close>

record Splunk_Config =
  splunk_HecURL :: string
  splunk_HecToken :: string
  splunk_Source :: string
  splunk_SourceType :: string
  splunk_Index :: string

definition Splunk_Validate :: "Splunk_Config \<Rightarrow> string option \<times> Splunk_Config" where
  "Splunk_Validate cfg =
     (if splunk_HecURL cfg = [] then (Some ''hec-url not set'', cfg)
      else if splunk_HecToken cfg = [] then (Some ''hec-token not set'', cfg)
      else (None, cfg))"

definition Splunk_Merge :: "Splunk_Config \<Rightarrow> Splunk_Config \<Rightarrow> Splunk_Config" where
  "Splunk_Merge cfg ov =
     \<lparr>splunk_HecURL = override (splunk_HecURL cfg) (splunk_HecURL ov),
      splunk_HecToken = override (splunk_HecToken cfg) (splunk_HecToken ov),
      splunk_Source = override (splunk_Source cfg) (splunk_Source ov),
      splunk_SourceType = override (splunk_SourceType cfg) (splunk_SourceType ov),
      splunk_Index = override (splunk_Index cfg) (splunk_Index ov)\<rparr>"

definition splunk_unset :: Splunk_Config where
  "splunk_unset =
     \<lparr>splunk_HecURL = [], splunk_HecToken = [], splunk_Source = [], splunk_SourceType = [],
      splunk_Index = []\<rparr>"

definition Splunk_ops :: "(gomap \<Rightarrow> string + Splunk_Config) \<Rightarrow> Splunk_Config config_ops" where
  "Splunk_ops un =
     \<lparr>co_Validate = Splunk_Validate, co_Merge = Splunk_Merge, co_has_groups = True,
      co_checks_groups = True, co_override_ok = (\<lambda>c. True), co_Unmarshal = un\<rparr>"

definition Splunk_GetConfig :: "(gomap \<Rightarrow> string + Splunk_Config) \<Rightarrow>
    Splunk_Config provider \<Rightarrow> string \<Rightarrow> Alert \<Rightarrow> string + Splunk_Config" where
  "Splunk_GetConfig un = Provider_GetConfig (Splunk_ops un)"

definition Splunk_AlertProvider_Validate :: "(gomap \<Rightarrow> string + Splunk_Config) \<Rightarrow>
    Splunk_Config provider \<Rightarrow> string option \<times> Splunk_Config provider" where
  "Splunk_AlertProvider_Validate un = Provider_Validate (Splunk_ops un)"

lemmas splunk_config = Splunk_ops_def Splunk_Validate_def Splunk_Merge_def splunk_unset_def


definition alert_for :: "Endpoint \<Rightarrow> Alert \<Rightarrow> bool \<Rightarrow> string" where
  "alert_for ep a resolved =
     (if resolved then (''Alert for '' @ Endpoint_DisplayName ep @ '' has been resolved after passing successfully '' @ Itoa (al_SuccessThreshold a) @ '' time(s) in a row'')
      else (''Alert for '' @ Endpoint_DisplayName ep @ '' has been triggered due to having failed '' @ Itoa (al_FailureThreshold a) @ '' time(s) in a row''))"

definition Splunk_body :: "send_env \<Rightarrow> Splunk_Config \<Rightarrow> Endpoint \<Rightarrow> Alert \<Rightarrow> Result \<Rightarrow> bool \<Rightarrow> json" where
  "Splunk_body env cfg ep a r resolved =
     (let event = JObj
            ([str_field ''alert_type'' (if resolved then ''resolved'' else ''triggered''),
              str_field ''endpoint'' (Endpoint_DisplayName ep)] @
             opt_str ''group'' (e_Group ep) @
             [str_field ''status'' (if resolved then ''ok'' else ''critical''),
              str_field ''message'' (alert_for ep a resolved)] @
             opt_str ''description'' (GetDescription a) @
             opt_arr ''conditions'' (map condition_json (r_ConditionResults r)))
      in JObj
        ([int_field ''time'' (Unix (se_now env))] @
         opt_str ''source'' (if splunk_Source cfg \<noteq> [] then splunk_Source cfg else ''gatus'') @
         opt_str ''sourcetype'' (if splunk_SourceType cfg \<noteq> [] then splunk_SourceType cfg else ''gatus:alert'') @
         opt_str ''index'' (splunk_Index cfg) @
         [(''event'', event)]))"

definition Splunk_Send ::
  "(gomap \<Rightarrow> string + Splunk_Config) \<Rightarrow> Splunk_Config provider \<Rightarrow> send_env \<Rightarrow> Endpoint \<Rightarrow> Alert \<Rightarrow> Result \<Rightarrow> bool \<Rightarrow> sent" where
  "Splunk_Send un p env ep a r resolved =
     send_one (Splunk_ops un) p env (call_failed ''splunk'') ep a
       (\<lambda>cfg. with_header ''Authorization'' (''Splunk '' @ splunk_HecToken cfg)
         (json_post (splunk_HecURL cfg @ ''/services/collector/event'') (Splunk_body env cfg ep a r resolved)))"

interpretation splunk: overridable "Splunk_ops un" splunk_unset for un
  by (rule plain_overridable) (simp_all add: splunk_config overriding)

section \<open>Datadog\<close>

record Datadog_Config =
  datadog_APIKey :: string
  datadog_Site :: string
  datadog_Tags :: "string list"

definition Datadog_Validate :: "Datadog_Config \<Rightarrow> string option \<times> Datadog_Config" where
  "Datadog_Validate cfg =
     (if datadog_APIKey cfg = [] then (Some ''api-key not set'', cfg)
      else (None, cfg))"

definition Datadog_Merge :: "Datadog_Config \<Rightarrow> Datadog_Config \<Rightarrow> Datadog_Config" where
  "Datadog_Merge cfg ov =
     \<lparr>datadog_APIKey = override (datadog_APIKey cfg) (datadog_APIKey ov),
      datadog_Site = override (datadog_Site cfg) (datadog_Site ov),
      datadog_Tags = override_list (datadog_Tags cfg) (datadog_Tags ov)\<rparr>"

definition datadog_unset :: Datadog_Config where
  "datadog_unset =
     \<lparr>datadog_APIKey = [], datadog_Site = [], datadog_Tags = []\<rparr>"

definition Datadog_ops :: "(gomap \<Rightarrow> string + Datadog_Config) \<Rightarrow> Datadog_Config config_ops" where
  "Datadog_ops un =
     \<lparr>co_Validate = Datadog_Validate, co_Merge = Datadog_Merge, co_has_groups = True,
      co_checks_groups = True, co_override_ok = (\<lambda>c. True), co_Unmarshal = un\<rparr>"

definition Datadog_GetConfig :: "(gomap \<Rightarrow> string + Datadog_Config) \<Rightarrow>
    Datadog_Config provider \<Rightarrow> string \<Rightarrow> Alert \<Rightarrow> string + Datadog_Config" where
  "Datadog_GetConfig un = Provider_GetConfig (Datadog_ops un)"

definition Datadog_AlertProvider_Validate :: "(gomap \<Rightarrow> string + Datadog_Config) \<Rightarrow>
    Datadog_Config provider \<Rightarrow> string option \<times> Datadog_Config provider" where
  "Datadog_AlertProvider_Validate un = Provider_Validate (Datadog_ops un)"

lemmas datadog_config = Datadog_ops_def Datadog_Validate_def Datadog_Merge_def datadog_unset_def


definition Datadog_body :: "send_env \<Rightarrow> Datadog_Config \<Rightarrow> Endpoint \<Rightarrow> Alert \<Rightarrow> Result \<Rightarrow> bool \<Rightarrow> json" where
  "Datadog_body env cfg ep a r resolved =
     (let alertType = (if resolved then ''success'' else ''error'');
          text = alert_for ep a resolved @
            (if GetDescription a = [] then [] else (nl @ nl @ ''Description: '' @ GetDescription a)) @
            condition_list (nl @ nl @ ''Condition Results:'') r;
          tags =
            [''source:gatus'', (''endpoint:'' @ e_Name ep), (''status:'' @ alertType)] @
            (if e_Group ep \<noteq> [] then [(''group:'' @ e_Group ep)] else []) @ datadog_Tags cfg
      in JObj
        ([str_field ''title'' (if resolved then (''Resolved: '' @ Endpoint_DisplayName ep) else (''Alert: '' @ Endpoint_DisplayName ep)),
          str_field ''text'' text, str_field ''priority'' ''normal'', (''tags'', JArr (map JStr tags)),
          str_field ''alert_type'' alertType, str_field ''source_type_name'' ''gatus''] @
         opt_int ''date_happened'' (Unix (se_now env))))"

definition Datadog_Send ::
  "(gomap \<Rightarrow> string + Datadog_Config) \<Rightarrow> Datadog_Config provider \<Rightarrow> send_env \<Rightarrow> Endpoint \<Rightarrow> Alert \<Rightarrow> Result \<Rightarrow> bool \<Rightarrow> sent" where
  "Datadog_Send un p env ep a r resolved =
     send_one (Datadog_ops un) p env (call_failed ''datadog'') ep a
       (\<lambda>cfg. with_header ''DD-API-KEY'' (datadog_APIKey cfg)
         (json_post (''https://api.'' @ override ''datadoghq.com'' (datadog_Site cfg) @ ''/api/v1/events'')
           (Datadog_body env cfg ep a r resolved)))"

interpretation datadog: overridable "Datadog_ops un" datadog_unset for un
  by (rule plain_overridable) (simp_all add: datadog_config overriding)

section \<open>New Relic\<close>

record NewRelic_Config =
  newrelic_InsertKey :: string
  newrelic_AccountID :: string
  newrelic_Region :: string

definition NewRelic_Validate :: "NewRelic_Config \<Rightarrow> string option \<times> NewRelic_Config" where
  "NewRelic_Validate cfg =
     (if newrelic_InsertKey cfg = [] then (Some ''insert-key not set'', cfg)
      else if newrelic_AccountID cfg = [] then (Some ''account-id not set'', cfg)
      else (None, cfg))"

definition NewRelic_Merge :: "NewRelic_Config \<Rightarrow> NewRelic_Config \<Rightarrow> NewRelic_Config" where
  "NewRelic_Merge cfg ov =
     \<lparr>newrelic_InsertKey = override (newrelic_InsertKey cfg) (newrelic_InsertKey ov),
      newrelic_AccountID = override (newrelic_AccountID cfg) (newrelic_AccountID ov),
      newrelic_Region = override (newrelic_Region cfg) (newrelic_Region ov)\<rparr>"

definition newrelic_unset :: NewRelic_Config where
  "newrelic_unset =
     \<lparr>newrelic_InsertKey = [], newrelic_AccountID = [], newrelic_Region = []\<rparr>"

definition NewRelic_ops :: "(gomap \<Rightarrow> string + NewRelic_Config) \<Rightarrow> NewRelic_Config config_ops" where
  "NewRelic_ops un =
     \<lparr>co_Validate = NewRelic_Validate, co_Merge = NewRelic_Merge, co_has_groups = True,
      co_checks_groups = True, co_override_ok = (\<lambda>c. True), co_Unmarshal = un\<rparr>"

definition NewRelic_GetConfig :: "(gomap \<Rightarrow> string + NewRelic_Config) \<Rightarrow>
    NewRelic_Config provider \<Rightarrow> string \<Rightarrow> Alert \<Rightarrow> string + NewRelic_Config" where
  "NewRelic_GetConfig un = Provider_GetConfig (NewRelic_ops un)"

definition NewRelic_AlertProvider_Validate :: "(gomap \<Rightarrow> string + NewRelic_Config) \<Rightarrow>
    NewRelic_Config provider \<Rightarrow> string option \<times> NewRelic_Config provider" where
  "NewRelic_AlertProvider_Validate un = Provider_Validate (NewRelic_ops un)"

lemmas newrelic_config = NewRelic_ops_def NewRelic_Validate_def NewRelic_Merge_def newrelic_unset_def


text \<open>The rate is a float, in percent; it is left out when it is zero.\<close>

definition successRate :: "Result \<Rightarrow> bool \<Rightarrow> f64" where
  "successRate r resolved =
     (if r_ConditionResults r = [] then f64_of_int (if resolved then 100 else 0)
      else f64_scale (round_f64 False (length (filter cr_Success (r_ConditionResults r))) (length (r_ConditionResults r)))
        100 1)"

definition opt_float :: "string \<Rightarrow> f64 \<Rightarrow> (string \<times> json) list" where
  "opt_float k f = (case f of F_Fin _ m _ \<Rightarrow> if m = 0 then [] else [(k, JFloat f)] | _ \<Rightarrow> [(k, JFloat f)])"

definition NewRelic_body :: "send_env \<Rightarrow> Endpoint \<Rightarrow> Alert \<Rightarrow> Result \<Rightarrow> bool \<Rightarrow> json" where
  "NewRelic_body env ep a r resolved = JArr
     [JObj
       ([str_field ''eventType'' ''GatusAlert'', int_field ''timestamp'' (Unix (se_now env) * 1000),
         str_field ''service'' ''Gatus'', str_field ''endpoint'' (Endpoint_DisplayName ep)] @
        opt_str ''group'' (e_Group ep) @
        [str_field ''alertStatus'' (if resolved then ''resolved'' else ''triggered''),
         str_field ''message'' (alert_for ep a resolved)] @
        opt_str ''description'' (GetDescription a) @
        [str_field ''severity'' (if resolved then ''INFO'' else ''CRITICAL''), str_field ''source'' ''gatus''] @
        opt_float ''successRate'' (successRate r resolved))]"

definition NewRelic_Send ::
  "(gomap \<Rightarrow> string + NewRelic_Config) \<Rightarrow> NewRelic_Config provider \<Rightarrow> send_env \<Rightarrow> Endpoint \<Rightarrow> Alert \<Rightarrow> Result \<Rightarrow> bool \<Rightarrow> sent" where
  "NewRelic_Send un p env ep a r resolved =
     send_one (NewRelic_ops un) p env (call_failed ''newrelic'') ep a
       (\<lambda>cfg. with_header ''X-Insert-Key'' (newrelic_InsertKey cfg)
         (json_post
           ((''https://'' @ (if newrelic_Region cfg = ''EU'' then ''insights-collector.eu01.nr-data.net'' else ''insights-collector.newrelic.com'')) @
            (''/v1/accounts/'' @ newrelic_AccountID cfg @ ''/events''))
           (NewRelic_body env ep a r resolved)))"

interpretation newrelic: overridable "NewRelic_ops un" newrelic_unset for un
  by (rule plain_overridable) (simp_all add: newrelic_config overriding)

end
