(* ===== verification/Providers_Hook.thy ===== *)
theory Providers_Hook
  imports Providers_Pager
begin

text \<open>
  The providers that call what the user has set up: \<open>custom\<close>, \<open>zapier\<close>, \<open>n8n\<close>,
  \<open>ifttt\<close> and \<open>homeassistant\<close>. The custom provider ignores the error of making its request, so
  that one that cannot be made is a nil pointer.
\<close>

section \<open>Custom\<close>

record Custom_Config =
  custom_URL :: string
  custom_Method :: string
  custom_Body :: string
  custom_Headers :: "(string \<times> string) list"
  custom_Placeholders :: "(string \<times> (string \<times> string) list) list"
  custom_ClientConfig :: "Client_Config option"

definition Custom_Validate :: "Custom_Config \<Rightarrow> string option \<times> Custom_Config" where
  "Custom_Validate cfg =
     (if custom_URL cfg = [] then (Some ''url not set'', cfg)
      else (None, cfg))"

definition Custom_Merge :: "Custom_Config \<Rightarrow> Custom_Config \<Rightarrow> Custom_Config" where
  "Custom_Merge cfg ov =
     \<lparr>custom_URL = override (custom_URL cfg) (custom_URL ov),
      custom_Method = override (custom_Method cfg) (custom_Method ov),
      custom_Body = override (custom_Body cfg) (custom_Body ov),
      custom_Headers = override_list (custom_Headers cfg) (custom_Headers ov),
      custom_Placeholders = override_list (custom_Placeholders cfg) (custom_Placeholders ov),
      custom_ClientConfig = override_option (custom_ClientConfig cfg) (custom_ClientConfig ov)\<rparr>"

definition custom_unset :: Custom_Config where
  "custom_unset =
     \<lparr>custom_URL = [], custom_Method = [], custom_Body = [], custom_Headers = [],
      custom_Placeholders = [], custom_ClientConfig = None\<rparr>"

definition Custom_ops :: "(gomap \<Rightarrow> string + Custom_Config) \<Rightarrow> Custom_Config config_ops" where
  "Custom_ops un =
     \<lparr>co_Validate = Custom_Validate, co_Merge = Custom_Merge, co_has_groups = True,
      co_checks_groups = False, co_override_ok = (\<lambda>c. True), co_Unmarshal = un\<rparr>"

definition Custom_GetConfig :: "(gomap \<Rightarrow> string + Custom_Config) \<Rightarrow>
    Custom_Config provider \<Rightarrow> string \<Rightarrow> Alert \<Rightarrow> string + Custom_Config" where
  "Custom_GetConfig un = Provider_GetConfig (Custom_ops un)"

definition Custom_AlertProvider_Validate :: "(gomap \<Rightarrow> string + Custom_Config) \<Rightarrow>
    Custom_Config provider \<Rightarrow> string option \<times> Custom_Config provider" where
  "Custom_AlertProvider_Validate un = Provider_Validate (Custom_ops un)"

lemmas custom_config = Custom_ops_def Custom_Validate_def Custom_Merge_def custom_unset_def


definition GetAlertStatePlaceholderValue :: "Custom_Config \<Rightarrow> bool \<Rightarrow> string" where
  "GetAlertStatePlaceholderValue cfg resolved =
     (let status = (if resolved then ''RESOLVED'' else ''TRIGGERED'')
      in case map_of (custom_Placeholders cfg) ''ALERT_TRIGGERED_OR_RESOLVED'' of
           None \<Rightarrow> status
         | Some m \<Rightarrow> (case map_of m status of None \<Rightarrow> status | Some v \<Rightarrow> v))"

definition result_conditions :: "Result \<Rightarrow> string" where
  "result_conditions r =
     Join (map (\<lambda>cr. (emoji_mark (cr_Success cr) @ '' - `'' @ cr_Condition cr @ ''`'')) (r_ConditionResults r)) '', ''"

text \<open>The body and the URL after the placeholders have been replaced, one after the other.\<close>

definition replace_both :: "string \<Rightarrow> string \<Rightarrow> string \<times> string \<Rightarrow> string \<times> string" where
  "replace_both old new bu = (ReplaceAll (fst bu) old new, ReplaceAll (snd bu) old new)"

definition custom_texts :: "Custom_Config \<Rightarrow> Endpoint \<Rightarrow> Alert \<Rightarrow> Result \<Rightarrow> bool \<Rightarrow> string \<times> string" where
  "custom_texts cfg ep a r resolved =
     (let resultErrors = ReplaceAll (Join (r_Errors r) '','') [CHR 0x22] [backslash, CHR 0x22];
          bu = (custom_Body cfg, custom_URL cfg);
          bu = replace_both ''[ALERT_DESCRIPTION]'' (GetDescription a) bu;
          bu = replace_both ''[ENDPOINT_NAME]'' (e_Name ep) bu;
          bu = replace_both ''[ENDPOINT_GROUP]'' (e_Group ep) bu;
          bu = replace_both ''[ENDPOINT_URL]'' (e_URL ep) bu;
          bu = replace_both ''[RESULT_ERRORS]'' resultErrors bu;
          bu = (if r_ConditionResults r \<noteq> [] \<and> Contains (fst bu) ''[RESULT_CONDITIONS]''
                then replace_both ''[RESULT_CONDITIONS]'' (result_conditions r) bu else bu)
      in replace_both ''[ALERT_TRIGGERED_OR_RESOLVED]'' (GetAlertStatePlaceholderValue cfg resolved) bu)"

definition Custom_buildHTTPRequest :: "Custom_Config \<Rightarrow> Endpoint \<Rightarrow> Alert \<Rightarrow> Result \<Rightarrow> bool \<Rightarrow> http_out" where
  "Custom_buildHTTPRequest cfg ep a r resolved =
     (case custom_texts cfg ep a r resolved of
        (body, url) \<Rightarrow>
          \<lparr>ho_Method = override ''GET'' (custom_Method cfg), ho_URL = url, ho_Headers = custom_Headers cfg, ho_Body = body,
           ho_Client = custom_ClientConfig cfg\<rparr>)"

definition Custom_Send ::
  "(gomap \<Rightarrow> string + Custom_Config) \<Rightarrow> Custom_Config provider \<Rightarrow> send_env \<Rightarrow> Endpoint \<Rightarrow> Alert \<Rightarrow> Result \<Rightarrow> bool \<Rightarrow>
   sent outcome" where
  "Custom_Send un p env ep a r resolved =
     (case Provider_GetConfig (Custom_ops un) p (e_Group ep) a of
        Inl e \<Rightarrow> Return (Some e, al_ResolveKey a, [])
      | Inr cfg \<Rightarrow>
          let request = Custom_buildHTTPRequest cfg ep a r resolved in
          if se_NewRequest env request \<noteq> None then Panic ''invalid memory address or nil pointer dereference''
          else Return (keep_key a (deliver env webhook_failed request [])))"

interpretation custom: overridable "Custom_ops un" custom_unset for un
  by (rule plain_overridable) (simp_all add: custom_config overriding)

section \<open>Zapier\<close>

record Zapier_Config =
  zapier_WebhookURL :: string

definition Zapier_Validate :: "Zapier_Config \<Rightarrow> string option \<times> Zapier_Config" where
  "Zapier_Validate cfg =
     (if zapier_WebhookURL cfg = [] then (Some ''webhook-url not set'', cfg)
      else (None, cfg))"

definition Zapier_Merge :: "Zapier_Config \<Rightarrow> Zapier_Config \<Rightarrow> Zapier_Config" where
  "Zapier_Merge cfg ov =
     \<lparr>zapier_WebhookURL = override (zapier_WebhookURL cfg) (zapier_WebhookURL ov)\<rparr>"

definition zapier_unset :: Zapier_Config where
  "zapier_unset =
     \<lparr>zapier_WebhookURL = []\<rparr>"

definition Zapier_ops :: "(gomap \<Rightarrow> string + Zapier_Config) \<Rightarrow> Zapier_Config config_ops" where
  "Zapier_ops un =
     \<lparr>co_Validate = Zapier_Validate, co_Merge = Zapier_Merge, co_has_groups = True,
      co_checks_groups = True, co_override_ok = (\<lambda>c. True), co_Unmarshal = un\<rparr>"

definition Zapier_GetConfig :: "(gomap \<Rightarrow> string + Zapier_Config) \<Rightarrow>
    Zapier_Config provider \<Rightarrow> string \<Rightarrow> Alert \<Rightarrow> string + Zapier_Config" where
  "Zapier_GetConfig un = Provider_GetConfig (Zapier_ops un)"

definition Zapier_AlertProvider_Validate :: "(gomap \<Rightarrow> string + Zapier_Config) \<Rightarrow>
    Zapier_Config provider \<Rightarrow> string option \<times> Zapier_Config provider" where
  "Zapier_AlertProvider_Validate un = Provider_Validate (Zapier_ops un)"

lemmas zapier_config = Zapier_ops_def Zapier_Validate_def Zapier_Merge_def zapier_unset_def


definition Zapier_body :: "send_env \<Rightarrow> Endpoint \<Rightarrow> Alert \<Rightarrow> Result \<Rightarrow> bool \<Rightarrow> json" where
  "Zapier_body env ep a r resolved =
     (let passedConditions = length (filter cr_Success (r_ConditionResults r));
          failedConditions = length (filter (\<lambda>cr. \<not> cr_Success cr) (r_ConditionResults r))
      in JObj
        ([str_field ''alert_type'' (if resolved then ''resolved'' else ''triggered''),
          str_field ''status'' (if resolved then ''ok'' else ''critical''),
          str_field ''endpoint'' (Endpoint_DisplayName ep)] @
         opt_str ''group'' (e_Group ep) @
         [str_field ''message'' (alert_for ep a resolved)] @
         opt_str ''description'' (GetDescription a) @
         [str_field ''timestamp'' (se_RFC3339 env (se_now env))] @
         opt_int ''success_threshold'' (if resolved then al_SuccessThreshold a else 0) @
         opt_int ''failure_threshold'' (if resolved then 0 else al_FailureThreshold a) @
         opt_arr ''condition_results'' (map condition_json (r_ConditionResults r)) @
         [int_field ''total_conditions'' (int (length (r_ConditionResults r))),
          int_field ''passed_conditions'' (int passedConditions),
          int_field ''failed_conditions'' (int failedConditions)]))"

definition Zapier_Send ::
  "(gomap \<Rightarrow> string + Zapier_Config) \<Rightarrow> Zapier_Config provider \<Rightarrow> send_env \<Rightarrow> Endpoint \<Rightarrow> Alert \<Rightarrow> Result \<Rightarrow> bool \<Rightarrow> sent" where
  "Zapier_Send un p env ep a r resolved =
     send_one (Zapier_ops un) p env (call_failed ''zapier'') ep a
       (\<lambda>cfg. json_post (zapier_WebhookURL cfg) (Zapier_body env ep a r resolved))"

interpretation zapier: overridable "Zapier_ops un" zapier_unset for un
  by (rule plain_overridable) (simp_all add: zapier_config overriding)

section \<open>n8n\<close>

record N8n_Config =
  n8n_WebhookURL :: string
  n8n_Title :: string

definition N8n_Validate :: "N8n_Config \<Rightarrow> string option \<times> N8n_Config" where
  "N8n_Validate cfg =
     (if n8n_WebhookURL cfg = [] then (Some ''webhook-url not set'', cfg)
      else (None, cfg))"

definition N8n_Merge :: "N8n_Config \<Rightarrow> N8n_Config \<Rightarrow> N8n_Config" where
  "N8n_Merge cfg ov =
     \<lparr>n8n_WebhookURL = override (n8n_WebhookURL cfg) (n8n_WebhookURL ov),
      n8n_Title = override (n8n_Title cfg) (n8n_Title ov)\<rparr>"

definition n8n_unset :: N8n_Config where
  "n8n_unset =
     \<lparr>n8n_WebhookURL = [], n8n_Title = []\<rparr>"

definition N8n_ops :: "(gomap \<Rightarrow> string + N8n_Config) \<Rightarrow> N8n_Config config_ops" where
  "N8n_ops un =
     \<lparr>co_Validate = N8n_Validate, co_Merge = N8n_Merge, co_has_groups = True,
      co_checks_groups = True, co_override_ok = (\<lambda>c. True), co_Unmarshal = un\<rparr>"

definition N8n_GetConfig :: "(gomap \<Rightarrow> string + N8n_Config) \<Rightarrow>
    N8n_Config provider \<Rightarrow> string \<Rightarrow> Alert \<Rightarrow> string + N8n_Config" where
  "N8n_GetConfig un = Provider_GetConfig (N8n_ops un)"

definition N8n_AlertProvider_Validate :: "(gomap \<Rightarrow> string + N8n_Config) \<Rightarrow>
    N8n_Config provider \<Rightarrow> string option \<times> N8n_Config provider" where
  "N8n_AlertProvider_Validate un = Provider_Validate (N8n_ops un)"

lemmas n8n_config = N8n_ops_def N8n_Validate_def N8n_Merge_def n8n_unset_def


definition N8n_body :: "N8n_Config \<Rightarrow> Endpoint \<Rightarrow> Alert \<Rightarrow> Result \<Rightarrow> bool \<Rightarrow> json" where
  "N8n_body cfg ep a r resolved = JObj
     ([str_field ''title'' (if n8n_Title cfg \<noteq> [] then n8n_Title cfg else ''Gatus''),
       str_field ''endpoint_name'' (e_Name ep)] @
      opt_str ''endpoint_group'' (e_Group ep) @
      [str_field ''endpoint_url'' (e_URL ep)] @
      opt_str ''alert_description'' (GetDescription a) @
      [(''resolved'', JBool resolved), str_field ''message'' (star_message [] ep a resolved)] @
      opt_arr ''condition_results'' (map condition_json (r_ConditionResults r)))"

definition N8n_Send ::
  "(gomap \<Rightarrow> string + N8n_Config) \<Rightarrow> N8n_Config provider \<Rightarrow> send_env \<Rightarrow> Endpoint \<Rightarrow> Alert \<Rightarrow> Result \<Rightarrow> bool \<Rightarrow> sent" where
  "N8n_Send un p env ep a r resolved =
     send_one (N8n_ops un) p env webhook_failed ep a
       (\<lambda>cfg. json_post (n8n_WebhookURL cfg) (N8n_body cfg ep a r resolved))"

interpretation n8n: overridable "N8n_ops un" n8n_unset for un
  by (rule plain_overridable) (simp_all add: n8n_config overriding)

section \<open>IFTTT\<close>

record Ifttt_Config =
  ifttt_WebhookKey :: string
  ifttt_EventName :: string

definition Ifttt_Validate :: "Ifttt_Config \<Rightarrow> string option \<times> Ifttt_Config" where
  "Ifttt_Validate cfg =
     (if ifttt_WebhookKey cfg = [] then (Some ''webhook-key not set'', cfg)
      else if ifttt_EventName cfg = [] then (Some ''event-name not set'', cfg)
      else (None, cfg))"

definition Ifttt_Merge :: "Ifttt_Config \<Rightarrow> Ifttt_Config \<Rightarrow> Ifttt_Config" where
  "Ifttt_Merge cfg ov =
     \<lparr>ifttt_WebhookKey = override (ifttt_WebhookKey cfg) (ifttt_WebhookKey ov),
      ifttt_EventName = override (ifttt_EventName cfg) (ifttt_EventName ov)\<rparr>"

definition ifttt_unset :: Ifttt_Config where
  "ifttt_unset =
     \<lparr>ifttt_WebhookKey = [], ifttt_EventName = []\<rparr>"

definition Ifttt_ops :: "(gomap \<Rightarrow> string + Ifttt_Config) \<Rightarrow> Ifttt_Config config_ops" where
  "Ifttt_ops un =
     \<lparr>co_Validate = Ifttt_Validate, co_Merge = Ifttt_Merge, co_has_groups = True,
      co_checks_groups = True, co_override_ok = (\<lambda>c. True), co_Unmarshal = un\<rparr>"

definition Ifttt_GetConfig :: "(gomap \<Rightarrow> string + Ifttt_Config) \<Rightarrow>
    Ifttt_Config provider \<Rightarrow> string \<Rightarrow> Alert \<Rightarrow> string + Ifttt_Config" where
  "Ifttt_GetConfig un = Provider_GetConfig (Ifttt_ops un)"

definition Ifttt_AlertProvider_Validate :: "(gomap \<Rightarrow> string + Ifttt_Config) \<Rightarrow>
    Ifttt_Config provider \<Rightarrow> string option \<times> Ifttt_Config provider" where
  "Ifttt_AlertProvider_Validate un = Provider_Validate (Ifttt_ops un)"

lemmas ifttt_config = Ifttt_ops_def Ifttt_Validate_def Ifttt_Merge_def ifttt_unset_def


definition Ifttt_body :: "Endpoint \<Rightarrow> Alert \<Rightarrow> Result \<Rightarrow> bool \<Rightarrow> json" where
  "Ifttt_body ep a r resolved =
     (let value3 = (''Endpoint: '' @ Endpoint_DisplayName ep) @
            (if e_Group ep = [] then [] else ('' | Group: '' @ e_Group ep)) @
            (if GetDescription a = [] then [] else ('' | Description: '' @ GetDescription a)) @
            (if r_ConditionResults r = [] then []
             else ('' | Conditions: '' @ Itoa (int (length (filter cr_Success (r_ConditionResults r)))) @ ''/'' @ Itoa (int (length (r_ConditionResults r))) @ '' passed''))
      in JObj
        [str_field ''value1'' (if resolved then ([CHR 0xE2, CHR 0x9C, CHR 0x85] @ '' RESOLVED: '' @ Endpoint_DisplayName ep) else ([CHR 0xF0, CHR 0x9F, CHR 0x9A, CHR 0xA8] @ '' ALERT: '' @ Endpoint_DisplayName ep)),
         str_field ''value2''
           (if resolved then (''Alert has been resolved after passing successfully '' @ Itoa (al_SuccessThreshold a) @ '' time(s) in a row'')
            else (''Endpoint has failed '' @ Itoa (al_FailureThreshold a) @ '' time(s) in a row'')),
         str_field ''value3'' value3])"

definition Ifttt_Send ::
  "(gomap \<Rightarrow> string + Ifttt_Config) \<Rightarrow> Ifttt_Config provider \<Rightarrow> send_env \<Rightarrow> Endpoint \<Rightarrow> Alert \<Rightarrow> Result \<Rightarrow> bool \<Rightarrow> sent" where
  "Ifttt_Send un p env ep a r resolved =
     send_one (Ifttt_ops un) p env (call_failed ''ifttt'') ep a
       (\<lambda>cfg. json_post (''https://maker.ifttt.com/trigger/'' @ ifttt_EventName cfg @ ''/with/key/'' @ ifttt_WebhookKey cfg)
         (Ifttt_body ep a r resolved))"

interpretation ifttt: overridable "Ifttt_ops un" ifttt_unset for un
  by (rule plain_overridable) (simp_all add: ifttt_config overriding)

section \<open>Home Assistant\<close>

record HomeAssistant_Config =
  homeassistant_URL :: string
  homeassistant_Token :: string

definition HomeAssistant_Validate :: "HomeAssistant_Config \<Rightarrow> string option \<times> HomeAssistant_Config" where
  "HomeAssistant_Validate cfg =
     (if homeassistant_URL cfg = [] then (Some ''url not set'', cfg)
      else if homeassistant_Token cfg = [] then (Some ''token not set'', cfg)
      else (None, cfg))"

definition HomeAssistant_Merge :: "HomeAssistant_Config \<Rightarrow> HomeAssistant_Config \<Rightarrow> HomeAssistant_Config" where
  "HomeAssistant_Merge cfg ov =
     \<lparr>homeassistant_URL = override (homeassistant_URL cfg) (homeassistant_URL ov),
      homeassistant_Token = override (homeassistant_Token cfg) (homeassistant_Token ov)\<rparr>"

definition homeassistant_unset :: HomeAssistant_Config where
  "homeassistant_unset =
     \<lparr>homeassistant_URL = [], homeassistant_Token = []\<rparr>"

definition HomeAssistant_ops :: "(gomap \<Rightarrow> string + HomeAssistant_Config) \<Rightarrow> HomeAssistant_Config config_ops" where
  "HomeAssistant_ops un =
     \<lparr>co_Validate = HomeAssistant_Validate, co_Merge = HomeAssistant_Merge, co_has_groups = True,
      co_checks_groups = True, co_override_ok = (\<lambda>c. True), co_Unmarshal = un\<rparr>"

definition HomeAssistant_GetConfig :: "(gomap \<Rightarrow> string + HomeAssistant_Config) \<Rightarrow>
    HomeAssistant_Config provider \<Rightarrow> string \<Rightarrow> Alert \<Rightarrow> string + HomeAssistant_Config" where
  "HomeAssistant_GetConfig un = Provider_GetConfig (HomeAssistant_ops un)"

definition HomeAssistant_AlertProvider_Validate :: "(gomap \<Rightarrow> string + HomeAssistant_Config) \<Rightarrow>
    HomeAssistant_Config provider \<Rightarrow> string option \<times> HomeAssistant_Config provider" where
  "HomeAssistant_AlertProvider_Validate un = Provider_Validate (HomeAssistant_ops un)"

lemmas homeassistant_config = HomeAssistant_ops_def HomeAssistant_Validate_def HomeAssistant_Merge_def homeassistant_unset_def


definition HomeAssistant_body :: "Endpoint \<Rightarrow> Alert \<Rightarrow> Result \<Rightarrow> bool \<Rightarrow> json" where
  "HomeAssistant_body ep a r resolved = JObj
     [str_field ''event_type'' ''gatus_alert'',
      (''event_data'', JObj
        ([str_field ''status'' (if resolved then ''resolved'' else ''triggered''),
          str_field ''endpoint'' (Endpoint_DisplayName ep)] @
         opt_str ''description'' (GetDescription a) @
         opt_arr ''conditions'' (map condition_json (r_ConditionResults r)) @
         opt_int ''failure_count'' (if resolved then 0 else al_FailureThreshold a) @
         opt_int ''success_count'' (if resolved then al_SuccessThreshold a else 0)))]"

definition HomeAssistant_Send ::
  "(gomap \<Rightarrow> string + HomeAssistant_Config) \<Rightarrow> HomeAssistant_Config provider \<Rightarrow> send_env \<Rightarrow> Endpoint \<Rightarrow> Alert \<Rightarrow> Result \<Rightarrow> bool \<Rightarrow> sent" where
  "HomeAssistant_Send un p env ep a r resolved =
     send_one (HomeAssistant_ops un) p env webhook_failed ep a
       (\<lambda>cfg. with_header ''Authorization'' (''Bearer '' @ homeassistant_Token cfg)
         (json_post (homeassistant_URL cfg @ ''/api/events/gatus_alert'') (HomeAssistant_body ep a r resolved)))"

interpretation homeassistant: overridable "HomeAssistant_ops un" homeassistant_unset for un
  by (rule plain_overridable) (simp_all add: homeassistant_config overriding)

end
