(* ===== verification/Providers_Mail.thy ===== *)
theory Providers_Mail
  imports Providers_Hook
begin

text \<open>
  The providers of mail and short messages: \<open>awsses\<close>, \<open>email\<close>, \<open>sendgrid\<close>,
  \<open>twilio\<close>, \<open>vonage\<close>, \<open>plivo\<close> and \<open>messagebird\<close>. The libraries that send mail are
  parameters. The extra labels of an endpoint are a map, which is listed in the order of the iteration.
\<close>

section \<open>Mail\<close>

text \<open>The subject and the body; only some of them list the extra labels.\<close>

definition mail_body :: "(string \<times> string) list \<Rightarrow> Endpoint \<Rightarrow> Alert \<Rightarrow> Result \<Rightarrow> bool \<Rightarrow> string" where
  "mail_body labels ep a r resolved =
     star_message [] ep a resolved @
     (if GetDescription a = [] then [] else (nl @ nl @ ''Alert description: '' @ GetDescription a)) @
     (if labels = [] then []
      else (nl @ nl @ ''Extra labels:'' @ nl) @ concat (map (\<lambda>(k, v). (''  '' @ k @ '': '' @ v @ nl)) labels)) @
     (if r_ConditionResults r = [] then []
      else (nl @ nl @ ''Condition results:'' @ nl) @ condition_lines (\<lambda>ok c. (emoji_mark ok @ '' '' @ c @ nl)) r)"

definition bracket_subject :: "Endpoint \<Rightarrow> bool \<Rightarrow> string" where
  "bracket_subject ep resolved = (if resolved then (''['' @ Endpoint_DisplayName ep @ ''] Alert resolved'') else (''['' @ Endpoint_DisplayName ep @ ''] Alert triggered''))"

section \<open>AWS SES\<close>

record AwsSes_Config =
  awsses_AccessKeyID :: string
  awsses_SecretAccessKey :: string
  awsses_Region :: string
  awsses_From :: string
  awsses_To :: string

definition AwsSes_Validate :: "AwsSes_Config \<Rightarrow> string option \<times> AwsSes_Config" where
  "AwsSes_Validate cfg =
     (if awsses_From cfg = [] \<or> awsses_To cfg = []
      then (Some ''from and to fields are required'', cfg)
      else if \<not> (awsses_AccessKeyID cfg = [] \<and> awsses_SecretAccessKey cfg = [] \<or>
        awsses_AccessKeyID cfg \<noteq> [] \<and> awsses_SecretAccessKey cfg \<noteq> [])
      then (Some ''either both or neither of access-key-id and secret-access-key must be specified'', cfg)
      else (None, cfg))"

definition AwsSes_Merge :: "AwsSes_Config \<Rightarrow> AwsSes_Config \<Rightarrow> AwsSes_Config" where
  "AwsSes_Merge cfg ov =
     \<lparr>awsses_AccessKeyID = override (awsses_AccessKeyID cfg) (awsses_AccessKeyID ov),
      awsses_SecretAccessKey = override (awsses_SecretAccessKey cfg) (awsses_SecretAccessKey ov),
      awsses_Region = override (awsses_Region cfg) (awsses_Region ov),
      awsses_From = override (awsses_From cfg) (awsses_From ov),
      awsses_To = override (awsses_To cfg) (awsses_To ov)\<rparr>"

definition awsses_unset :: AwsSes_Config where
  "awsses_unset =
     \<lparr>awsses_AccessKeyID = [], awsses_SecretAccessKey = [], awsses_Region = [], awsses_From = [],
      awsses_To = []\<rparr>"

definition AwsSes_ops :: "(gomap \<Rightarrow> string + AwsSes_Config) \<Rightarrow> AwsSes_Config config_ops" where
  "AwsSes_ops un =
     \<lparr>co_Validate = AwsSes_Validate, co_Merge = AwsSes_Merge, co_has_groups = True,
      co_checks_groups = True, co_override_ok = (\<lambda>c. awsses_To c \<noteq> []), co_Unmarshal = un\<rparr>"

definition AwsSes_GetConfig :: "(gomap \<Rightarrow> string + AwsSes_Config) \<Rightarrow>
    AwsSes_Config provider \<Rightarrow> string \<Rightarrow> Alert \<Rightarrow> string + AwsSes_Config" where
  "AwsSes_GetConfig un = Provider_GetConfig (AwsSes_ops un)"

definition AwsSes_AlertProvider_Validate :: "(gomap \<Rightarrow> string + AwsSes_Config) \<Rightarrow>
    AwsSes_Config provider \<Rightarrow> string option \<times> AwsSes_Config provider" where
  "AwsSes_AlertProvider_Validate un = Provider_Validate (AwsSes_ops un)"

lemmas awsses_config = AwsSes_ops_def AwsSes_Validate_def AwsSes_Merge_def awsses_unset_def


definition AwsSes_message :: "Endpoint \<Rightarrow> Alert \<Rightarrow> Result \<Rightarrow> bool \<Rightarrow> string \<times> string" where
  "AwsSes_message ep a r resolved = (bracket_subject ep resolved, mail_body [] ep a r resolved)"

text \<open>The region and the credentials of the client, if they are set.\<close>

definition createClient :: "AwsSes_Config \<Rightarrow> string option \<times> (string \<times> string) option" where
  "createClient cfg =
     (if awsses_Region cfg = [] then None else Some (awsses_Region cfg),
      if awsses_AccessKeyID cfg \<noteq> [] \<and> awsses_SecretAccessKey cfg \<noteq> []
      then Some (awsses_AccessKeyID cfg, awsses_SecretAccessKey cfg) else None)"

definition AwsSes_Send ::
  "(gomap \<Rightarrow> string + AwsSes_Config) \<Rightarrow> AwsSes_Config provider \<Rightarrow> send_env \<Rightarrow> Endpoint \<Rightarrow> Alert \<Rightarrow> Result \<Rightarrow> bool \<Rightarrow> sent" where
  "AwsSes_Send un p env ep a r resolved =
     with_config (AwsSes_ops un) p ep a (\<lambda>cfg. keep_key a
       (case createClient cfg of
          (region, credentials) \<Rightarrow>
            (case se_LoadAWS env region credentials of
               Some e \<Rightarrow> (Some e, [])
             | None \<Rightarrow>
                 let mail = \<lparr>es_Region = region, es_Credentials = credentials, es_To = Split (awsses_To cfg) '','',
                       es_From = awsses_From cfg, es_Subject = fst (AwsSes_message ep a r resolved),
                       es_Body = snd (AwsSes_message ep a r resolved)\<rparr>
                 in (se_SendEmail env mail, [Ses mail]))))"

interpretation awsses: overridable "AwsSes_ops un" awsses_unset for un
  by (rule plain_overridable) (simp_all add: awsses_config overriding)

section \<open>Email\<close>

record Email_Config =
  email_From :: string
  email_Username :: string
  email_Password :: string
  email_Host :: string
  email_Port :: int
  email_To :: string
  email_ClientConfig :: "Client_Config option"

definition Email_Validate :: "Email_Config \<Rightarrow> string option \<times> Email_Config" where
  "Email_Validate cfg =
     (if email_From cfg = [] \<or> email_To cfg = [] then (Some ''from and to fields are required'', cfg)
      else if email_Port cfg < 1 \<or> 65535 < email_Port cfg
      then (Some ''port must be between 1 and 65535 inclusively'', cfg)
      else if email_Host cfg = [] then (Some ''host is required'', cfg)
      else (None, cfg))"

definition Email_Merge :: "Email_Config \<Rightarrow> Email_Config \<Rightarrow> Email_Config" where
  "Email_Merge cfg ov =
     \<lparr>email_From = override (email_From cfg) (email_From ov),
      email_Username = override (email_Username cfg) (email_Username ov),
      email_Password = override (email_Password cfg) (email_Password ov),
      email_Host = override (email_Host cfg) (email_Host ov),
      email_Port = (if 0 < email_Port ov then email_Port ov else email_Port cfg),
      email_To = override (email_To cfg) (email_To ov),
      email_ClientConfig = override_option (email_ClientConfig cfg) (email_ClientConfig ov)\<rparr>"

definition email_unset :: Email_Config where
  "email_unset =
     \<lparr>email_From = [], email_Username = [], email_Password = [], email_Host = [], email_Port = 0,
      email_To = [], email_ClientConfig = None\<rparr>"

definition Email_ops :: "(gomap \<Rightarrow> string + Email_Config) \<Rightarrow> Email_Config config_ops" where
  "Email_ops un =
     \<lparr>co_Validate = Email_Validate, co_Merge = Email_Merge, co_has_groups = True,
      co_checks_groups = True, co_override_ok = (\<lambda>c. email_To c \<noteq> []), co_Unmarshal = un\<rparr>"

definition Email_GetConfig :: "(gomap \<Rightarrow> string + Email_Config) \<Rightarrow>
    Email_Config provider \<Rightarrow> string \<Rightarrow> Alert \<Rightarrow> string + Email_Config" where
  "Email_GetConfig un = Provider_GetConfig (Email_ops un)"

definition Email_AlertProvider_Validate :: "(gomap \<Rightarrow> string + Email_Config) \<Rightarrow>
    Email_Config provider \<Rightarrow> string option \<times> Email_Config provider" where
  "Email_AlertProvider_Validate un = Provider_Validate (Email_ops un)"

lemmas email_config = Email_ops_def Email_Validate_def Email_Merge_def email_unset_def


definition Email_message :: "Endpoint \<Rightarrow> Alert \<Rightarrow> Result \<Rightarrow> bool \<Rightarrow> string \<times> string" where
  "Email_message ep a r resolved =
     (if resolved then (Endpoint_DisplayName ep @ '': Alert resolved'') else (Endpoint_DisplayName ep @ '': Alert triggered''),
      mail_body (e_ExtraLabels ep) ep a r resolved)"

definition Email_mail :: "Email_Config \<Rightarrow> string \<times> string \<Rightarrow> smtp_mail" where
  "Email_mail cfg message =
     (let username = (if email_Username cfg \<noteq> [] then email_Username cfg else email_From cfg);
          fromParts = Split (email_From cfg) ''@''
      in \<lparr>sm_From = email_From cfg, sm_To = Split (email_To cfg) '','', sm_Subject = fst message, sm_Body = snd message,
          sm_Host = email_Host cfg, sm_Port = email_Port cfg,
          sm_LocalName =
            (if email_Password cfg \<noteq> [] then []
             else if length fromParts = 2 then fromParts ! 1 else ''localhost''),
          sm_Login = (if email_Password cfg = [] then None else Some (username, email_Password cfg)),
          sm_InsecureSkipVerify =
            (case email_ClientConfig cfg of None \<Rightarrow> False | Some c \<Rightarrow> cl_Insecure c)\<rparr>)"

definition Email_Send ::
  "(gomap \<Rightarrow> string + Email_Config) \<Rightarrow> Email_Config provider \<Rightarrow> send_env \<Rightarrow> Endpoint \<Rightarrow> Alert \<Rightarrow> Result \<Rightarrow> bool \<Rightarrow> sent" where
  "Email_Send un p env ep a r resolved =
     with_config (Email_ops un) p ep a (\<lambda>cfg. keep_key a
       (let mail = Email_mail cfg (Email_message ep a r resolved) in (se_DialAndSend env mail, [Smtp mail])))"

interpretation email: overridable "Email_ops un" email_unset for un
  by (rule plain_overridable) (simp_all add: email_config overriding)

section \<open>SendGrid\<close>

record SendGrid_Config =
  sendgrid_APIKey :: string
  sendgrid_From :: string
  sendgrid_To :: string
  sendgrid_ClientConfig :: "Client_Config option"

definition SendGrid_Validate :: "SendGrid_Config \<Rightarrow> string option \<times> SendGrid_Config" where
  "SendGrid_Validate cfg =
     (if sendgrid_APIKey cfg = [] then (Some ''api-key not set'', cfg)
      else if sendgrid_From cfg = [] then (Some ''from not set'', cfg)
      else if sendgrid_To cfg = [] then (Some ''to not set'', cfg)
      else (None, cfg))"

definition SendGrid_Merge :: "SendGrid_Config \<Rightarrow> SendGrid_Config \<Rightarrow> SendGrid_Config" where
  "SendGrid_Merge cfg ov =
     \<lparr>sendgrid_APIKey = override (sendgrid_APIKey cfg) (sendgrid_APIKey ov),
      sendgrid_From = override (sendgrid_From cfg) (sendgrid_From ov),
      sendgrid_To = override (sendgrid_To cfg) (sendgrid_To ov),
      sendgrid_ClientConfig = override_option (sendgrid_ClientConfig cfg) (sendgrid_ClientConfig ov)\<rparr>"

definition sendgrid_unset :: SendGrid_Config where
  "sendgrid_unset =
     \<lparr>sendgrid_APIKey = [], sendgrid_From = [], sendgrid_To = [], sendgrid_ClientConfig = None\<rparr>"

definition SendGrid_ops :: "(gomap \<Rightarrow> string + SendGrid_Config) \<Rightarrow> SendGrid_Config config_ops" where
  "SendGrid_ops un =
     \<lparr>co_Validate = SendGrid_Validate, co_Merge = SendGrid_Merge, co_has_groups = True,
      co_checks_groups = True, co_override_ok = (\<lambda>c. True), co_Unmarshal = un\<rparr>"

definition SendGrid_GetConfig :: "(gomap \<Rightarrow> string + SendGrid_Config) \<Rightarrow>
    SendGrid_Config provider \<Rightarrow> string \<Rightarrow> Alert \<Rightarrow> string + SendGrid_Config" where
  "SendGrid_GetConfig un = Provider_GetConfig (SendGrid_ops un)"

definition SendGrid_AlertProvider_Validate :: "(gomap \<Rightarrow> string + SendGrid_Config) \<Rightarrow>
    SendGrid_Config provider \<Rightarrow> string option \<times> SendGrid_Config provider" where
  "SendGrid_AlertProvider_Validate un = Provider_Validate (SendGrid_ops un)"

lemmas sendgrid_config = SendGrid_ops_def SendGrid_Validate_def SendGrid_Merge_def sendgrid_unset_def


definition SendGrid_message :: "Endpoint \<Rightarrow> Alert \<Rightarrow> Result \<Rightarrow> bool \<Rightarrow> string \<times> string" where
  "SendGrid_message ep a r resolved = (bracket_subject ep resolved, mail_body (e_ExtraLabels ep) ep a r resolved)"

definition address_json :: "string \<Rightarrow> json" where
  "address_json e = JObj [str_field ''email'' e]"

definition buildSendGridPayload :: "SendGrid_Config \<Rightarrow> string \<Rightarrow> string \<Rightarrow> json" where
  "buildSendGridPayload cfg subject body = JObj
     [(''personalizations'', JArr
        [JObj [(''to'', nil_arr (map (\<lambda>e. address_json (TrimSpace e)) (Split (sendgrid_To cfg) '','')))]]),
      (''from'', address_json (sendgrid_From cfg)),
      str_field ''subject'' subject,
      (''content'', JArr
        [JObj [str_field ''type'' ''text/plain'', str_field ''value'' body],
         JObj [str_field ''type'' ''text/html'', str_field ''value'' (ReplaceAll body nl ''<br>'')]])]"

definition SendGrid_Send ::
  "(gomap \<Rightarrow> string + SendGrid_Config) \<Rightarrow> SendGrid_Config provider \<Rightarrow> send_env \<Rightarrow> Endpoint \<Rightarrow> Alert \<Rightarrow> Result \<Rightarrow> bool \<Rightarrow> sent" where
  "SendGrid_Send un p env ep a r resolved =
     send_one (SendGrid_ops un) p env (call_failed ''sendgrid'') ep a
       (\<lambda>cfg. with_client (sendgrid_ClientConfig cfg) (with_header ''Authorization'' (''Bearer '' @ sendgrid_APIKey cfg)
         (json_post ''https://api.sendgrid.com/v3/mail/send''
           (case SendGrid_message ep a r resolved of (subject, body) \<Rightarrow> buildSendGridPayload cfg subject body))))"

interpretation sendgrid: overridable "SendGrid_ops un" sendgrid_unset for un
  by (rule plain_overridable) (simp_all add: sendgrid_config overriding)

section \<open>Twilio\<close>

record Twilio_Config =
  twilio_SID :: string
  twilio_Token :: string
  twilio_From :: string
  twilio_To :: string
  twilio_TextTwilioTriggered :: string
  twilio_TextTwilioResolved :: string

definition Twilio_Validate :: "Twilio_Config \<Rightarrow> string option \<times> Twilio_Config" where
  "Twilio_Validate cfg =
     (if twilio_SID cfg = [] then (Some ''sid not set'', cfg)
      else if twilio_Token cfg = [] then (Some ''token not set'', cfg)
      else if twilio_From cfg = [] then (Some ''from not set'', cfg)
      else if twilio_To cfg = [] then (Some ''to not set'', cfg)
      else (None, cfg))"

definition Twilio_Merge :: "Twilio_Config \<Rightarrow> Twilio_Config \<Rightarrow> Twilio_Config" where
  "Twilio_Merge cfg ov =
     \<lparr>twilio_SID = override (twilio_SID cfg) (twilio_SID ov),
      twilio_Token = override (twilio_Token cfg) (twilio_Token ov),
      twilio_From = override (twilio_From cfg) (twilio_From ov),
      twilio_To = override (twilio_To cfg) (twilio_To ov),
      twilio_TextTwilioTriggered = override (twilio_TextTwilioTriggered cfg) (twilio_TextTwilioTriggered ov),
      twilio_TextTwilioResolved = override (twilio_TextTwilioResolved cfg) (twilio_TextTwilioResolved ov)\<rparr>"

definition twilio_unset :: Twilio_Config where
  "twilio_unset =
     \<lparr>twilio_SID = [], twilio_Token = [], twilio_From = [], twilio_To = [],
      twilio_TextTwilioTriggered = [], twilio_TextTwilioResolved = []\<rparr>"

definition Twilio_ops :: "(gomap \<Rightarrow> string + Twilio_Config) \<Rightarrow> Twilio_Config config_ops" where
  "Twilio_ops un =
     \<lparr>co_Validate = Twilio_Validate, co_Merge = Twilio_Merge, co_has_groups = False,
      co_checks_groups = False, co_override_ok = (\<lambda>c. True), co_Unmarshal = un\<rparr>"

definition Twilio_GetConfig :: "(gomap \<Rightarrow> string + Twilio_Config) \<Rightarrow>
    Twilio_Config provider \<Rightarrow> string \<Rightarrow> Alert \<Rightarrow> string + Twilio_Config" where
  "Twilio_GetConfig un = Provider_GetConfig (Twilio_ops un)"

definition Twilio_AlertProvider_Validate :: "(gomap \<Rightarrow> string + Twilio_Config) \<Rightarrow>
    Twilio_Config provider \<Rightarrow> string option \<times> Twilio_Config provider" where
  "Twilio_AlertProvider_Validate un = Provider_Validate (Twilio_ops un)"

lemmas twilio_config = Twilio_ops_def Twilio_Validate_def Twilio_Merge_def twilio_unset_def


definition twilio_text :: "string \<Rightarrow> Endpoint \<Rightarrow> Alert \<Rightarrow> string" where
  "twilio_text template ep a =
     (let message = ReplaceFirst template ''{endpoint}'' (Endpoint_DisplayName ep);
          message = ReplaceFirst message ''{description}'' (GetDescription a);
          message = ReplaceFirst message ''[ENDPOINT]'' (Endpoint_DisplayName ep)
      in ReplaceFirst message ''[ALERT_DESCRIPTION]'' (GetDescription a))"

definition Twilio_body :: "Twilio_Config \<Rightarrow> Endpoint \<Rightarrow> Alert \<Rightarrow> bool \<Rightarrow> string" where
  "Twilio_body cfg ep a resolved =
     (let template = (if resolved then twilio_TextTwilioResolved cfg else twilio_TextTwilioTriggered cfg);
          message = (if template \<noteq> [] then twilio_text template ep a else short_message ep a resolved)
      in Values_Encode [(''To'', twilio_To cfg), (''From'', twilio_From cfg), (''Body'', message)])"

definition form_post :: "string \<Rightarrow> string \<Rightarrow> http_out" where
  "form_post url body =
     \<lparr>ho_Method = ''POST'', ho_URL = url, ho_Headers = [(''Content-Type'', ''application/x-www-form-urlencoded'')],
      ho_Body = body, ho_Client = None\<rparr>"

definition Twilio_Send ::
  "(gomap \<Rightarrow> string + Twilio_Config) \<Rightarrow> Twilio_Config provider \<Rightarrow> send_env \<Rightarrow> Endpoint \<Rightarrow> Alert \<Rightarrow> Result \<Rightarrow> bool \<Rightarrow> sent" where
  "Twilio_Send un p env ep a r resolved =
     send_one (Twilio_ops un) p env webhook_failed ep a
       (\<lambda>cfg. with_header ''Authorization'' (''Basic '' @ Base64 (twilio_SID cfg @ '':'' @ twilio_Token cfg))
         (form_post (''https://api.twilio.com/2010-04-01/Accounts/'' @ twilio_SID cfg @ ''/Messages.json'')
           (Twilio_body cfg ep a resolved)))"

interpretation twilio: overridable "Twilio_ops un" twilio_unset for un
  by (rule plain_overridable) (simp_all add: twilio_config overriding)

section \<open>Vonage\<close>

record Vonage_Config =
  vonage_APIKey :: string
  vonage_APISecret :: string
  vonage_From :: string
  vonage_To :: "string list"

definition Vonage_Validate :: "Vonage_Config \<Rightarrow> string option \<times> Vonage_Config" where
  "Vonage_Validate cfg =
     (if vonage_APIKey cfg = [] then (Some ''api-key not set'', cfg)
      else if vonage_APISecret cfg = [] then (Some ''api-secret not set'', cfg)
      else if vonage_From cfg = [] then (Some ''from not set'', cfg)
      else if vonage_To cfg = [] then (Some ''to not set'', cfg)
      else (None, cfg))"

definition Vonage_Merge :: "Vonage_Config \<Rightarrow> Vonage_Config \<Rightarrow> Vonage_Config" where
  "Vonage_Merge cfg ov =
     \<lparr>vonage_APIKey = override (vonage_APIKey cfg) (vonage_APIKey ov),
      vonage_APISecret = override (vonage_APISecret cfg) (vonage_APISecret ov),
      vonage_From = override (vonage_From cfg) (vonage_From ov),
      vonage_To = override_list (vonage_To cfg) (vonage_To ov)\<rparr>"

definition vonage_unset :: Vonage_Config where
  "vonage_unset =
     \<lparr>vonage_APIKey = [], vonage_APISecret = [], vonage_From = [], vonage_To = []\<rparr>"

definition Vonage_ops :: "(gomap \<Rightarrow> string + Vonage_Config) \<Rightarrow> Vonage_Config config_ops" where
  "Vonage_ops un =
     \<lparr>co_Validate = Vonage_Validate, co_Merge = Vonage_Merge, co_has_groups = True,
      co_checks_groups = True, co_override_ok = (\<lambda>c. True), co_Unmarshal = un\<rparr>"

definition Vonage_GetConfig :: "(gomap \<Rightarrow> string + Vonage_Config) \<Rightarrow>
    Vonage_Config provider \<Rightarrow> string \<Rightarrow> Alert \<Rightarrow> string + Vonage_Config" where
  "Vonage_GetConfig un = Provider_GetConfig (Vonage_ops un)"

definition Vonage_AlertProvider_Validate :: "(gomap \<Rightarrow> string + Vonage_Config) \<Rightarrow>
    Vonage_Config provider \<Rightarrow> string option \<times> Vonage_Config provider" where
  "Vonage_AlertProvider_Validate un = Provider_Validate (Vonage_ops un)"

lemmas vonage_config = Vonage_ops_def Vonage_Validate_def Vonage_Merge_def vonage_unset_def


definition Vonage_request :: "Vonage_Config \<Rightarrow> string \<Rightarrow> string \<Rightarrow> http_out" where
  "Vonage_request cfg to message =
     form_post ''https://rest.nexmo.com/sms/json''
       (Values_Encode
         [(''api_key'', vonage_APIKey cfg), (''api_secret'', vonage_APISecret cfg), (''from'', vonage_From cfg),
          (''to'', to), (''text'', message)])"

text \<open>What comes back says of every message whether it failed; the body is taken to be read without an error.\<close>

fun Vonage_sendSMS :: "send_env \<Rightarrow> http_out list \<Rightarrow> outgoing list \<Rightarrow> string option \<times> outgoing list" where
  "Vonage_sendSMS env [] out = (None, out)"
| "Vonage_sendSMS env (q # qs) out =
     (case Do env q out of
        (Inl e, out') \<Rightarrow> (Some e, out')
      | (Inr (status, body), out') \<Rightarrow>
          if 399 < status then (Some (call_failed ''vonage'' status body), out')
          else case se_messages env body of
                 Inl e \<Rightarrow> (Some e, out')
               | Inr messages \<Rightarrow>
                   (case find (\<lambda>m. fst m \<noteq> ''0'') messages of
                      Some m \<Rightarrow> (Some (''vonage SMS failed with status '' @ fst m @ '': '' @ snd m), out')
                    | None \<Rightarrow> Vonage_sendSMS env qs out'))"

definition Vonage_Send ::
  "(gomap \<Rightarrow> string + Vonage_Config) \<Rightarrow> Vonage_Config provider \<Rightarrow> send_env \<Rightarrow> Endpoint \<Rightarrow> Alert \<Rightarrow> Result \<Rightarrow> bool \<Rightarrow> sent" where
  "Vonage_Send un p env ep a r resolved =
     with_config (Vonage_ops un) p ep a (\<lambda>cfg. keep_key a
       (Vonage_sendSMS env (map (\<lambda>to. Vonage_request cfg to (short_message ep a resolved)) (vonage_To cfg)) []))"

interpretation vonage: overridable "Vonage_ops un" vonage_unset for un
  by (rule plain_overridable) (simp_all add: vonage_config overriding)

section \<open>Plivo\<close>

record Plivo_Config =
  plivo_AuthID :: string
  plivo_AuthToken :: string
  plivo_From :: string
  plivo_To :: "string list"

definition Plivo_Validate :: "Plivo_Config \<Rightarrow> string option \<times> Plivo_Config" where
  "Plivo_Validate cfg =
     (if plivo_AuthID cfg = [] then (Some ''auth-id not set'', cfg)
      else if plivo_AuthToken cfg = [] then (Some ''auth-token not set'', cfg)
      else if plivo_From cfg = [] then (Some ''from not set'', cfg)
      else if plivo_To cfg = [] then (Some ''to not set'', cfg)
      else (None, cfg))"

definition Plivo_Merge :: "Plivo_Config \<Rightarrow> Plivo_Config \<Rightarrow> Plivo_Config" where
  "Plivo_Merge cfg ov =
     \<lparr>plivo_AuthID = override (plivo_AuthID cfg) (plivo_AuthID ov),
      plivo_AuthToken = override (plivo_AuthToken cfg) (plivo_AuthToken ov),
      plivo_From = override (plivo_From cfg) (plivo_From ov),
      plivo_To = override_list (plivo_To cfg) (plivo_To ov)\<rparr>"

definition plivo_unset :: Plivo_Config where
  "plivo_unset =
     \<lparr>plivo_AuthID = [], plivo_AuthToken = [], plivo_From = [], plivo_To = []\<rparr>"

definition Plivo_ops :: "(gomap \<Rightarrow> string + Plivo_Config) \<Rightarrow> Plivo_Config config_ops" where
  "Plivo_ops un =
     \<lparr>co_Validate = Plivo_Validate, co_Merge = Plivo_Merge, co_has_groups = True,
      co_checks_groups = True, co_override_ok = (\<lambda>c. True), co_Unmarshal = un\<rparr>"

definition Plivo_GetConfig :: "(gomap \<Rightarrow> string + Plivo_Config) \<Rightarrow>
    Plivo_Config provider \<Rightarrow> string \<Rightarrow> Alert \<Rightarrow> string + Plivo_Config" where
  "Plivo_GetConfig un = Provider_GetConfig (Plivo_ops un)"

definition Plivo_AlertProvider_Validate :: "(gomap \<Rightarrow> string + Plivo_Config) \<Rightarrow>
    Plivo_Config provider \<Rightarrow> string option \<times> Plivo_Config provider" where
  "Plivo_AlertProvider_Validate un = Provider_Validate (Plivo_ops un)"

lemmas plivo_config = Plivo_ops_def Plivo_Validate_def Plivo_Merge_def plivo_unset_def


definition Plivo_request :: "Plivo_Config \<Rightarrow> string \<Rightarrow> string \<Rightarrow> http_out" where
  "Plivo_request cfg to message =
     with_header ''Authorization'' (''Basic '' @ Base64 (plivo_AuthID cfg @ '':'' @ plivo_AuthToken cfg))
       (json_post (''https://api.plivo.com/v1/Account/'' @ plivo_AuthID cfg @ ''/Message/'')
         (map_json [str_field ''src'' (plivo_From cfg), str_field ''dst'' to, str_field ''text'' message]))"

definition Plivo_Send ::
  "(gomap \<Rightarrow> string + Plivo_Config) \<Rightarrow> Plivo_Config provider \<Rightarrow> send_env \<Rightarrow> Endpoint \<Rightarrow> Alert \<Rightarrow> Result \<Rightarrow> bool \<Rightarrow> sent" where
  "Plivo_Send un p env ep a r resolved =
     with_config (Plivo_ops un) p ep a (\<lambda>cfg. keep_key a
       (deliver_all env (call_failed ''plivo'')
         (map (\<lambda>to. Plivo_request cfg to (short_message ep a resolved)) (plivo_To cfg)) []))"

interpretation plivo: overridable "Plivo_ops un" plivo_unset for un
  by (rule plain_overridable) (simp_all add: plivo_config overriding)

section \<open>MessageBird\<close>

record MessageBird_Config =
  messagebird_AccessKey :: string
  messagebird_Originator :: string
  messagebird_Recipients :: string

definition MessageBird_Validate :: "MessageBird_Config \<Rightarrow> string option \<times> MessageBird_Config" where
  "MessageBird_Validate cfg =
     (if messagebird_AccessKey cfg = [] then (Some ''access-key not set'', cfg)
      else if messagebird_Originator cfg = [] then (Some ''originator not set'', cfg)
      else if messagebird_Recipients cfg = [] then (Some ''recipients not set'', cfg)
      else (None, cfg))"

definition MessageBird_Merge :: "MessageBird_Config \<Rightarrow> MessageBird_Config \<Rightarrow> MessageBird_Config" where
  "MessageBird_Merge cfg ov =
     \<lparr>messagebird_AccessKey = override (messagebird_AccessKey cfg) (messagebird_AccessKey ov),
      messagebird_Originator = override (messagebird_Originator cfg) (messagebird_Originator ov),
      messagebird_Recipients = override (messagebird_Recipients cfg) (messagebird_Recipients ov)\<rparr>"

definition messagebird_unset :: MessageBird_Config where
  "messagebird_unset =
     \<lparr>messagebird_AccessKey = [], messagebird_Originator = [], messagebird_Recipients = []\<rparr>"

definition MessageBird_ops :: "(gomap \<Rightarrow> string + MessageBird_Config) \<Rightarrow> MessageBird_Config config_ops" where
  "MessageBird_ops un =
     \<lparr>co_Validate = MessageBird_Validate, co_Merge = MessageBird_Merge, co_has_groups = False,
      co_checks_groups = False, co_override_ok = (\<lambda>c. True), co_Unmarshal = un\<rparr>"

definition MessageBird_GetConfig :: "(gomap \<Rightarrow> string + MessageBird_Config) \<Rightarrow>
    MessageBird_Config provider \<Rightarrow> string \<Rightarrow> Alert \<Rightarrow> string + MessageBird_Config" where
  "MessageBird_GetConfig un = Provider_GetConfig (MessageBird_ops un)"

definition MessageBird_AlertProvider_Validate :: "(gomap \<Rightarrow> string + MessageBird_Config) \<Rightarrow>
    MessageBird_Config provider \<Rightarrow> string option \<times> MessageBird_Config provider" where
  "MessageBird_AlertProvider_Validate un = Provider_Validate (MessageBird_ops un)"

lemmas messagebird_config = MessageBird_ops_def MessageBird_Validate_def MessageBird_Merge_def messagebird_unset_def


definition MessageBird_body :: "MessageBird_Config \<Rightarrow> Endpoint \<Rightarrow> Alert \<Rightarrow> bool \<Rightarrow> json" where
  "MessageBird_body cfg ep a resolved = JObj
     [str_field ''originator'' (messagebird_Originator cfg), str_field ''recipients'' (messagebird_Recipients cfg),
      str_field ''body'' (short_message ep a resolved)]"

definition MessageBird_Send ::
  "(gomap \<Rightarrow> string + MessageBird_Config) \<Rightarrow> MessageBird_Config provider \<Rightarrow> send_env \<Rightarrow> Endpoint \<Rightarrow> Alert \<Rightarrow> Result \<Rightarrow> bool \<Rightarrow> sent" where
  "MessageBird_Send un p env ep a r resolved =
     send_one (MessageBird_ops un) p env webhook_failed ep a
       (\<lambda>cfg. with_header ''Authorization'' (''AccessKey '' @ messagebird_AccessKey cfg)
         (json_post ''https://rest.messagebird.com/messages'' (MessageBird_body cfg ep a resolved)))"

interpretation messagebird: overridable "MessageBird_ops un" messagebird_unset for un
  by (rule plain_overridable) (simp_all add: messagebird_config overriding)

end
