(* ===== verification/Providers_Forge.thy ===== *)
theory Providers_Forge
  imports Providers_Mail
begin

text \<open>
  The providers that keep track of an incident in a forge or a list of tasks: \<open>gitea\<close>,
  \<open>github\<close>, \<open>gitlab\<close> and \<open>clickup\<close>. The validation of the first two makes a client of the
  library and asks it for the user; a configuration that has a client for the same repository keeps it.
\<close>

section \<open>Issues\<close>

definition issue_title :: "Endpoint \<Rightarrow> string" where
  "issue_title ep = (''alert(gatus): '' @ Endpoint_DisplayName ep)"

definition buildIssueBody :: "Endpoint \<Rightarrow> Alert \<Rightarrow> Result \<Rightarrow> string" where
  "buildIssueBody ep a r =
     star_message ''**'' ep a False @ quoted_description a @
     (if r_ConditionResults r = [] then []
      else (nl @ nl @ ''## Condition results'' @ nl) @ condition_lines (\<lambda>ok c. (''- '' @ check_mark ok @ '' - `'' @ c @ ''`'' @ nl)) r)"

text \<open>The first part of a URL and the parts of its path, of which there must be three.\<close>

definition repository_of :: "send_env \<Rightarrow> string \<Rightarrow> string + (string \<times> string \<times> string)" where
  "repository_of env url =
     (case se_ParseURL env url of
        Inl e \<Rightarrow> Inl e
      | Inr (scheme, host, path) \<Rightarrow>
          (case Split path ''/'' of
             [_, owner, name] \<Rightarrow> Inr ((scheme @ ''://'' @ host), owner, name)
           | _ \<Rightarrow> Inl ''invalid repository-url''))"

text \<open>Closing the issues of a title, up to the first that fails.\<close>

fun close_issues :: "forge \<Rightarrow> forge_client \<Rightarrow> string \<Rightarrow> string \<Rightarrow> string \<Rightarrow> (int \<times> string) list \<Rightarrow> outgoing list \<Rightarrow>
    string option \<times> outgoing list" where
  "close_issues fg c owner name title [] out = (None, out)"
| "close_issues fg c owner name title ((i, t) # issues) out =
     (if t = title
      then case fg_Close fg c owner name i of
             Some e \<Rightarrow> (Some (''failed to close issue: '' @ e), out @ [Close_Issue c owner name i])
           | None \<Rightarrow> close_issues fg c owner name title issues (out @ [Close_Issue c owner name i])
      else close_issues fg c owner name title issues out)"

definition forge_send :: "forge \<Rightarrow> forge_client \<Rightarrow> string \<Rightarrow> string \<Rightarrow> string \<Rightarrow> string list \<Rightarrow> Endpoint \<Rightarrow> Alert \<Rightarrow>
    Result \<Rightarrow> bool \<Rightarrow> string option \<times> outgoing list" where
  "forge_send fg c owner name user assignees ep a r resolved =
     (if \<not> resolved then
        let i = \<lparr>is_Owner = owner, is_Repository = name, is_Title = issue_title ep, is_Body = buildIssueBody ep a r,
                 is_Assignees = assignees\<rparr>
        in (map_option (\<lambda>e. (''failed to create issue: '' @ e)) (fg_Create fg c i), [Open_Issue c i])
      else case fg_List fg c owner name user of
             Inl e \<Rightarrow> (Some (''failed to list issues: '' @ e), [])
           | Inr issues \<Rightarrow> close_issues fg c owner name (issue_title ep) issues [])"

section \<open>Gitea\<close>

record Gitea_Config =
  gitea_RepositoryURL :: string
  gitea_Token :: string
  gitea_Assignees :: "string list"
  gitea_username :: string
  gitea_repositoryOwner :: string
  gitea_repositoryName :: string
  gitea_giteaClient :: "forge_client option"
  gitea_ClientConfig :: "Client_Config option"

definition Gitea_Validate :: "send_env \<Rightarrow> Gitea_Config \<Rightarrow> string option \<times> Gitea_Config" where
  "Gitea_Validate env cfg =
     (if gitea_RepositoryURL cfg = [] then (Some ''repository-url not set'', cfg)
      else if gitea_Token cfg = [] then (Some ''token not set'', cfg)
      else case repository_of env (gitea_RepositoryURL cfg) of
             Inl e \<Rightarrow> (Some e, cfg)
           | Inr (baseURL, owner, name) \<Rightarrow>
               if gitea_repositoryOwner cfg = owner \<and> gitea_repositoryName cfg = name \<and> gitea_giteaClient cfg \<noteq> None
               then (None, cfg)
               else
                 let cfg = cfg\<lparr>gitea_repositoryOwner := owner, gitea_repositoryName := name\<rparr>;
                     c = \<lparr>fc_BaseURL = baseURL, fc_Token = gitea_Token cfg,
                       fc_Insecure = (case gitea_ClientConfig cfg of None \<Rightarrow> False | Some cl \<Rightarrow> cl_Insecure cl)\<rparr>
                 in (case fg_NewClient (se_gitea env) c of
                       Some e \<Rightarrow> (Some e, cfg\<lparr>gitea_giteaClient := None\<rparr>)
                     | None \<Rightarrow>
                         let cfg = cfg\<lparr>gitea_giteaClient := Some c\<rparr>
                         in (case fg_User (se_gitea env) c of
                               Inl e \<Rightarrow> (Some e, cfg)
                             | Inr user \<Rightarrow> (None, cfg\<lparr>gitea_username := user\<rparr>))))"

definition Gitea_Merge :: "Gitea_Config \<Rightarrow> Gitea_Config \<Rightarrow> Gitea_Config" where
  "Gitea_Merge cfg ov =
     \<lparr>gitea_RepositoryURL = override (gitea_RepositoryURL cfg) (gitea_RepositoryURL ov),
      gitea_Token = override (gitea_Token cfg) (gitea_Token ov),
      gitea_Assignees = override_list (gitea_Assignees cfg) (gitea_Assignees ov),
      gitea_username = gitea_username cfg, gitea_repositoryOwner = gitea_repositoryOwner cfg,
      gitea_repositoryName = gitea_repositoryName cfg, gitea_giteaClient = gitea_giteaClient cfg,
      gitea_ClientConfig = override_option (gitea_ClientConfig cfg) (gitea_ClientConfig ov)\<rparr>"

definition gitea_unset :: Gitea_Config where
  "gitea_unset =
     \<lparr>gitea_RepositoryURL = [], gitea_Token = [], gitea_Assignees = [], gitea_username = [],
      gitea_repositoryOwner = [], gitea_repositoryName = [], gitea_giteaClient = None,
      gitea_ClientConfig = None\<rparr>"

definition Gitea_ops :: "send_env \<Rightarrow> (gomap \<Rightarrow> string + Gitea_Config) \<Rightarrow> Gitea_Config config_ops" where
  "Gitea_ops env un =
     \<lparr>co_Validate = Gitea_Validate env, co_Merge = Gitea_Merge, co_has_groups = False,
      co_checks_groups = False, co_override_ok = (\<lambda>c. True), co_Unmarshal = un\<rparr>"

definition Gitea_GetConfig :: "send_env \<Rightarrow> (gomap \<Rightarrow> string + Gitea_Config) \<Rightarrow>
    Gitea_Config provider \<Rightarrow> string \<Rightarrow> Alert \<Rightarrow> string + Gitea_Config" where
  "Gitea_GetConfig env un = Provider_GetConfig (Gitea_ops env un)"

definition Gitea_AlertProvider_Validate :: "send_env \<Rightarrow> (gomap \<Rightarrow> string + Gitea_Config) \<Rightarrow>
    Gitea_Config provider \<Rightarrow> string option \<times> Gitea_Config provider" where
  "Gitea_AlertProvider_Validate env un = Provider_Validate (Gitea_ops env un)"

lemmas gitea_config = Gitea_ops_def Gitea_Validate_def Gitea_Merge_def gitea_unset_def


definition Gitea_Send ::
  "(gomap \<Rightarrow> string + Gitea_Config) \<Rightarrow> Gitea_Config provider \<Rightarrow> send_env \<Rightarrow> Endpoint \<Rightarrow> Alert \<Rightarrow> Result \<Rightarrow> bool \<Rightarrow> sent" where
  "Gitea_Send un p env ep a r resolved =
     with_config (Gitea_ops env un) p ep a (\<lambda>cfg. keep_key a
       (forge_send (se_gitea env) (the (gitea_giteaClient cfg)) (gitea_repositoryOwner cfg) (gitea_repositoryName cfg)
         (gitea_username cfg) (gitea_Assignees cfg) ep a r resolved))"

section \<open>GitHub\<close>

record GitHub_Config =
  github_RepositoryURL :: string
  github_Token :: string
  github_username :: string
  github_repositoryOwner :: string
  github_repositoryName :: string
  github_githubClient :: "forge_client option"

definition GitHub_Validate :: "send_env \<Rightarrow> GitHub_Config \<Rightarrow> string option \<times> GitHub_Config" where
  "GitHub_Validate env cfg =
     (if github_RepositoryURL cfg = [] then (Some ''repository-url not set'', cfg)
      else if github_Token cfg = [] then (Some ''token not set'', cfg)
      else case repository_of env (github_RepositoryURL cfg) of
             Inl e \<Rightarrow> (Some e, cfg)
           | Inr (baseURL, owner, name) \<Rightarrow>
               if github_repositoryOwner cfg = owner \<and> github_repositoryName cfg = name \<and> github_githubClient cfg \<noteq> None
               then (None, cfg)
               else
                 let cfg = cfg\<lparr>github_repositoryOwner := owner, github_repositoryName := name\<rparr>;
                     c = \<lparr>fc_BaseURL = baseURL, fc_Token = github_Token cfg, fc_Insecure = False\<rparr>
                 in (case (if baseURL = ''https://github.com'' then None else fg_NewClient (se_github env) c) of
                       Some e \<Rightarrow> (Some (''failed to create enterprise GitHub client: '' @ e), cfg\<lparr>github_githubClient := None\<rparr>)
                     | None \<Rightarrow>
                         let cfg = cfg\<lparr>github_githubClient := Some c\<rparr>
                         in (case fg_User (se_github env) c of
                               Inl e \<Rightarrow> (Some (''failed to retrieve GitHub user: '' @ e), cfg)
                             | Inr user \<Rightarrow> (None, cfg\<lparr>github_username := user\<rparr>))))"

definition GitHub_Merge :: "GitHub_Config \<Rightarrow> GitHub_Config \<Rightarrow> GitHub_Config" where
  "GitHub_Merge cfg ov =
     \<lparr>github_RepositoryURL = override (github_RepositoryURL cfg) (github_RepositoryURL ov),
      github_Token = override (github_Token cfg) (github_Token ov),
      github_username = github_username cfg, github_repositoryOwner = github_repositoryOwner cfg,
      github_repositoryName = github_repositoryName cfg, github_githubClient = github_githubClient cfg\<rparr>"

definition github_unset :: GitHub_Config where
  "github_unset =
     \<lparr>github_RepositoryURL = [], github_Token = [], github_username = [], github_repositoryOwner = [],
      github_repositoryName = [], github_githubClient = None\<rparr>"

definition GitHub_ops :: "send_env \<Rightarrow> (gomap \<Rightarrow> string + GitHub_Config) \<Rightarrow> GitHub_Config config_ops" where
  "GitHub_ops env un =
     \<lparr>co_Validate = GitHub_Validate env, co_Merge = GitHub_Merge, co_has_groups = False,
      co_checks_groups = False, co_override_ok = (\<lambda>c. True), co_Unmarshal = un\<rparr>"

definition GitHub_GetConfig :: "send_env \<Rightarrow> (gomap \<Rightarrow> string + GitHub_Config) \<Rightarrow>
    GitHub_Config provider \<Rightarrow> string \<Rightarrow> Alert \<Rightarrow> string + GitHub_Config" where
  "GitHub_GetConfig env un = Provider_GetConfig (GitHub_ops env un)"

definition GitHub_AlertProvider_Validate :: "send_env \<Rightarrow> (gomap \<Rightarrow> string + GitHub_Config) \<Rightarrow>
    GitHub_Config provider \<Rightarrow> string option \<times> GitHub_Config provider" where
  "GitHub_AlertProvider_Validate env un = Provider_Validate (GitHub_ops env un)"

lemmas github_config = GitHub_ops_def GitHub_Validate_def GitHub_Merge_def github_unset_def


definition GitHub_Send ::
  "(gomap \<Rightarrow> string + GitHub_Config) \<Rightarrow> GitHub_Config provider \<Rightarrow> send_env \<Rightarrow> Endpoint \<Rightarrow> Alert \<Rightarrow> Result \<Rightarrow> bool \<Rightarrow> sent" where
  "GitHub_Send un p env ep a r resolved =
     with_config (GitHub_ops env un) p ep a (\<lambda>cfg. keep_key a
       (forge_send (se_github env) (the (github_githubClient cfg)) (github_repositoryOwner cfg) (github_repositoryName cfg)
         (github_username cfg) [] ep a r resolved))"

text \<open>A configuration that passes the validation has a client.\<close>

lemma forge_configs_have_clients:
  "validated (Gitea_ops env un) g = Inr g' \<Longrightarrow> gitea_giteaClient g' \<noteq> None"
  "validated (GitHub_ops env un') h = Inr h' \<Longrightarrow> github_githubClient h' \<noteq> None"
  by (auto simp: validated_def Gitea_ops_def Gitea_Validate_def GitHub_ops_def GitHub_Validate_def Let_def
      split: if_splits sum.splits option.splits prod.splits)

section \<open>GitLab\<close>

record GitLab_Config =
  gitlab_WebhookURL :: string
  gitlab_AuthorizationKey :: string
  gitlab_Severity :: string
  gitlab_MonitoringTool :: string
  gitlab_EnvironmentName :: string
  gitlab_Service :: string

definition GitLab_Validate :: "send_env \<Rightarrow> GitLab_Config \<Rightarrow> string option \<times> GitLab_Config" where
  "GitLab_Validate env cfg =
     (if gitlab_WebhookURL cfg = [] then (Some ''invalid webhook-url'', cfg)
      else case se_ParseURL env (gitlab_WebhookURL cfg) of
             Inl e \<Rightarrow> (Some ''invalid webhook-url'', cfg)
           | Inr _ \<Rightarrow>
               if gitlab_AuthorizationKey cfg = [] then (Some ''authorization-key not set'', cfg)
               else (None, cfg\<lparr>gitlab_Severity := override ''critical'' (gitlab_Severity cfg),
                 gitlab_MonitoringTool := override ''gatus'' (gitlab_MonitoringTool cfg)\<rparr>))"

definition GitLab_Merge :: "GitLab_Config \<Rightarrow> GitLab_Config \<Rightarrow> GitLab_Config" where
  "GitLab_Merge cfg ov =
     \<lparr>gitlab_WebhookURL = override (gitlab_WebhookURL cfg) (gitlab_WebhookURL ov),
      gitlab_AuthorizationKey = override (gitlab_AuthorizationKey cfg) (gitlab_AuthorizationKey ov),
      gitlab_Severity = override (gitlab_Severity cfg) (gitlab_Severity ov),
      gitlab_MonitoringTool = override (gitlab_MonitoringTool cfg) (gitlab_MonitoringTool ov),
      gitlab_EnvironmentName = override (gitlab_EnvironmentName cfg) (gitlab_EnvironmentName ov),
      gitlab_Service = override (gitlab_Service cfg) (gitlab_Service ov)\<rparr>"

definition gitlab_unset :: GitLab_Config where
  "gitlab_unset =
     \<lparr>gitlab_WebhookURL = [], gitlab_AuthorizationKey = [], gitlab_Severity = [],
      gitlab_MonitoringTool = [], gitlab_EnvironmentName = [], gitlab_Service = []\<rparr>"

definition GitLab_ops :: "send_env \<Rightarrow> (gomap \<Rightarrow> string + GitLab_Config) \<Rightarrow> GitLab_Config config_ops" where
  "GitLab_ops env un =
     \<lparr>co_Validate = GitLab_Validate env, co_Merge = GitLab_Merge, co_has_groups = False,
      co_checks_groups = False, co_override_ok = (\<lambda>c. True), co_Unmarshal = un\<rparr>"

definition GitLab_GetConfig :: "send_env \<Rightarrow> (gomap \<Rightarrow> string + GitLab_Config) \<Rightarrow>
    GitLab_Config provider \<Rightarrow> string \<Rightarrow> Alert \<Rightarrow> string + GitLab_Config" where
  "GitLab_GetConfig env un = Provider_GetConfig (GitLab_ops env un)"

definition GitLab_AlertProvider_Validate :: "send_env \<Rightarrow> (gomap \<Rightarrow> string + GitLab_Config) \<Rightarrow>
    GitLab_Config provider \<Rightarrow> string option \<times> GitLab_Config provider" where
  "GitLab_AlertProvider_Validate env un = Provider_Validate (GitLab_ops env un)"

lemmas gitlab_config = GitLab_ops_def GitLab_Validate_def GitLab_Merge_def gitlab_unset_def


definition buildAlertBody :: "send_env \<Rightarrow> GitLab_Config \<Rightarrow> Endpoint \<Rightarrow> Alert \<Rightarrow> Result \<Rightarrow> bool \<Rightarrow> string \<Rightarrow> json" where
  "buildAlertBody env cfg ep a r resolved k =
     (let service = (if gitlab_Service cfg = [] then Endpoint_DisplayName ep else gitlab_Service cfg);
          time = se_RFC3339 env (r_Timestamp r);
          description = star_message ''*'' ep a resolved @ quoted_description a @
            (if r_ConditionResults r = [] then []
             else (nl @ nl @ ''## Condition results'' @ nl) @ condition_lines (\<lambda>ok c. (''- '' @ check_mark ok @ '' - `'' @ c @ ''`'' @ nl)) r)
      in JObj
        (opt_str ''title'' (''alert('' @ gitlab_MonitoringTool cfg @ ''): '' @ service) @
         opt_str ''description'' description @
         opt_str ''start_time'' time @
         opt_str ''end_time'' (if resolved then time else []) @
         opt_str ''service'' service @
         opt_str ''monitoring_tool'' (gitlab_MonitoringTool cfg) @
         opt_str ''hosts'' (e_URL ep) @
         opt_str ''severity'' (gitlab_Severity cfg) @
         opt_str ''fingerprint'' k @
         opt_str ''gitlab_environment_name'' (gitlab_EnvironmentName cfg)))"

definition GitLab_Send ::
  "(gomap \<Rightarrow> string + GitLab_Config) \<Rightarrow> GitLab_Config provider \<Rightarrow> send_env \<Rightarrow> Endpoint \<Rightarrow> Alert \<Rightarrow> Result \<Rightarrow> bool \<Rightarrow> sent" where
  "GitLab_Send un p env ep a r resolved =
     with_config (GitLab_ops env un) p ep a (\<lambda>cfg.
       let k = (if al_ResolveKey a = [] then se_uuid env else al_ResolveKey a) in
       case deliver env webhook_failed
              (with_header ''Authorization'' (''Bearer '' @ gitlab_AuthorizationKey cfg)
                (json_post (gitlab_WebhookURL cfg) (buildAlertBody env cfg ep a r resolved k))) [] of
         (err, out) \<Rightarrow> (err, k, out))"

interpretation gitlab: overridable "GitLab_ops env un" gitlab_unset for env un
  by (rule defaulting_overridable [where fails = "\<lambda>c. fst (GitLab_Validate env c)" and
      defaults = "\<lambda>cfg. cfg\<lparr>gitlab_Severity := override ''critical'' (gitlab_Severity cfg),
        gitlab_MonitoringTool := override ''gatus'' (gitlab_MonitoringTool cfg)\<rparr>"])
    (simp_all add: gitlab_config validated_def overriding Let_def split: sum.split split: if_split)

section \<open>ClickUp\<close>

definition priorityMap :: "(string \<times> int) list" where
  "priorityMap = [(''urgent'', 1), (''high'', 2), (''normal'', 3), (''low'', 4), (''none'', 0)]"

text \<open>The assignees are sent also when there are none, so that a nil slice is told from an empty one.\<close>

definition override_slice :: "'a list option \<Rightarrow> 'a list option \<Rightarrow> 'a list option" where
  "override_slice old new = (case new of None \<Rightarrow> old | Some [] \<Rightarrow> old | Some xs \<Rightarrow> Some xs)"

lemma overriding_slice:
  "override_slice old None = old"
  "override_slice (override_slice u v) w = override_slice u (override_slice v w)"
  by (auto simp: override_slice_def split: option.split list.split)

record ClickUp_Config =
  clickup_APIURL :: string
  clickup_ListID :: string
  clickup_Token :: string
  clickup_Assignees :: "string list option"
  clickup_Status :: string
  clickup_Priority :: string
  clickup_NotifyAll :: "bool option"
  clickup_Name :: string
  clickup_MarkdownContent :: string

definition ClickUp_Validate :: "ClickUp_Config \<Rightarrow> string option \<times> ClickUp_Config" where
  "ClickUp_Validate cfg =
     (if clickup_ListID cfg = [] then (Some ''list-id not set'', cfg)
      else if clickup_Token cfg = [] then (Some ''token not set'', cfg)
      else
        let cfg = cfg\<lparr>clickup_Priority := override ''normal'' (clickup_Priority cfg)\<rparr>
        in if map_of priorityMap (clickup_Priority cfg) = None
           then (Some ''priority must be one of: urgent, high, normal, low, none'', cfg)
           else (None, cfg\<lparr>clickup_NotifyAll := override_option (Some True) (clickup_NotifyAll cfg),
             clickup_APIURL := override ''https://api.clickup.com/api/v2'' (clickup_APIURL cfg),
             clickup_Name := override ''Health Check: [ENDPOINT_GROUP]:[ENDPOINT_NAME]'' (clickup_Name cfg),
             clickup_MarkdownContent :=
               override ''Triggered: [ENDPOINT_GROUP] - [ENDPOINT_NAME] - [ALERT_DESCRIPTION] - [RESULT_ERRORS]''
                 (clickup_MarkdownContent cfg)\<rparr>))"

definition ClickUp_Merge :: "ClickUp_Config \<Rightarrow> ClickUp_Config \<Rightarrow> ClickUp_Config" where
  "ClickUp_Merge cfg ov =
     \<lparr>clickup_APIURL = override (clickup_APIURL cfg) (clickup_APIURL ov),
      clickup_ListID = override (clickup_ListID cfg) (clickup_ListID ov),
      clickup_Token = override (clickup_Token cfg) (clickup_Token ov),
      clickup_Assignees = override_slice (clickup_Assignees cfg) (clickup_Assignees ov),
      clickup_Status = override (clickup_Status cfg) (clickup_Status ov),
      clickup_Priority = override (clickup_Priority cfg) (clickup_Priority ov),
      clickup_NotifyAll = override_option (clickup_NotifyAll cfg) (clickup_NotifyAll ov),
      clickup_Name = override (clickup_Name cfg) (clickup_Name ov),
      clickup_MarkdownContent = override (clickup_MarkdownContent cfg) (clickup_MarkdownContent ov)\<rparr>"

definition clickup_unset :: ClickUp_Config where
  "clickup_unset =
     \<lparr>clickup_APIURL = [], clickup_ListID = [], clickup_Token = [], clickup_Assignees = None,
      clickup_Status = [], clickup_Priority = [], clickup_NotifyAll = None, clickup_Name = [],
      clickup_MarkdownContent = []\<rparr>"

definition ClickUp_ops :: "(gomap \<Rightarrow> string + ClickUp_Config) \<Rightarrow> ClickUp_Config config_ops" where
  "ClickUp_ops un =
     \<lparr>co_Validate = ClickUp_Validate, co_Merge = ClickUp_Merge, co_has_groups = True,
      co_checks_groups = True, co_override_ok = (\<lambda>c. True), co_Unmarshal = un\<rparr>"

definition ClickUp_GetConfig :: "(gomap \<Rightarrow> string + ClickUp_Config) \<Rightarrow>
    ClickUp_Config provider \<Rightarrow> string \<Rightarrow> Alert \<Rightarrow> string + ClickUp_Config" where
  "ClickUp_GetConfig un = Provider_GetConfig (ClickUp_ops un)"

definition ClickUp_AlertProvider_Validate :: "(gomap \<Rightarrow> string + ClickUp_Config) \<Rightarrow>
    ClickUp_Config provider \<Rightarrow> string option \<times> ClickUp_Config provider" where
  "ClickUp_AlertProvider_Validate un = Provider_Validate (ClickUp_ops un)"

lemmas clickup_config = ClickUp_ops_def ClickUp_Validate_def ClickUp_Merge_def clickup_unset_def


definition ClickUp_task :: "ClickUp_Config \<Rightarrow> Endpoint \<Rightarrow> Alert \<Rightarrow> Result \<Rightarrow> json" where
  "ClickUp_task cfg ep a r =
     (let name = ReplaceAll (clickup_Name cfg) ''[ENDPOINT_GROUP]'' (e_Group ep);
          name = ReplaceAll name ''[ENDPOINT_NAME]'' (e_Name ep);
          content = ReplaceAll (clickup_MarkdownContent cfg) ''[ENDPOINT_GROUP]'' (e_Group ep);
          content = ReplaceAll content ''[ENDPOINT_NAME]'' (e_Name ep);
          content = ReplaceAll content ''[ALERT_DESCRIPTION]'' (GetDescription a);
          content = ReplaceAll content ''[RESULT_ERRORS]'' (Join (r_Errors r) '', '')
      in map_json
        ([str_field ''name'' name, str_field ''markdown_content'' content,
          (''assignees'', case clickup_Assignees cfg of None \<Rightarrow> JNull | Some xs \<Rightarrow> JArr (map JStr xs)),
          str_field ''status'' (clickup_Status cfg), (''notify_all'', JBool (clickup_NotifyAll cfg = Some True))] @
         (if clickup_Priority cfg = ''none'' then []
          else [(''priority'', JInt (case map_of priorityMap (clickup_Priority cfg) of None \<Rightarrow> 0 | Some i \<Rightarrow> i))])))"

definition ClickUp_CreateTask :: "send_env \<Rightarrow> ClickUp_Config \<Rightarrow> json \<Rightarrow> string option \<times> outgoing list" where
  "ClickUp_CreateTask env cfg body =
     deliver env (\<lambda>status b. (''failed to create task, status: '' @ Itoa status))
       (with_header ''Authorization'' (clickup_Token cfg)
         (json_post (clickup_APIURL cfg @ ''/list/'' @ clickup_ListID cfg @ ''/task'') body)) []"

definition ClickUp_UpdateTaskStatus :: "send_env \<Rightarrow> ClickUp_Config \<Rightarrow> string \<Rightarrow> string \<Rightarrow> outgoing list \<Rightarrow>
    string option \<times> outgoing list" where
  "ClickUp_UpdateTaskStatus env cfg taskID status out =
     deliver env (\<lambda>code b. (''failed to update task '' @ taskID @ '', status: '' @ Itoa code))
       ((with_header ''Authorization'' (clickup_Token cfg)
          (json_post (clickup_APIURL cfg @ ''/task/'' @ taskID) (map_json [str_field ''status'' status])))\<lparr>ho_Method := ''PUT''\<rparr>) out"

fun ClickUp_close_all :: "send_env \<Rightarrow> ClickUp_Config \<Rightarrow> string list \<Rightarrow> outgoing list \<Rightarrow> string option \<times> outgoing list" where
  "ClickUp_close_all env cfg [] out = (None, out)"
| "ClickUp_close_all env cfg (taskID # ids) out =
     (case ClickUp_UpdateTaskStatus env cfg taskID ''closed'' out of
        (Some e, out') \<Rightarrow> (Some (''failed to close task '' @ taskID @ '': '' @ e), out')
      | (None, out') \<Rightarrow> ClickUp_close_all env cfg ids out')"

text \<open>The tasks whose names contain the group and the name of the endpoint are closed.\<close>

definition ClickUp_CloseTask :: "send_env \<Rightarrow> ClickUp_Config \<Rightarrow> Endpoint \<Rightarrow> string option \<times> outgoing list" where
  "ClickUp_CloseTask env cfg ep =
     (case Do env \<lparr>ho_Method = ''GET'', ho_URL = (clickup_APIURL cfg @ ''/list/'' @ clickup_ListID cfg @ ''/task?include_closed=false''),
              ho_Headers = [(''Authorization'', clickup_Token cfg)], ho_Body = [], ho_Client = None\<rparr> [] of
        (Inl e, out) \<Rightarrow> (Some e, out)
      | (Inr (status, body), out) \<Rightarrow>
          if 400 \<le> status then (Some (''failed to fetch tasks, status: '' @ Itoa status), out)
          else case se_tasks env body of
                 Inl e \<Rightarrow> (Some e, out)
               | Inr tasks \<Rightarrow>
                   let matchingTaskIDs =
                     map fst (filter (\<lambda>t. Contains (snd t) (e_Group ep) \<and> Contains (snd t) (e_Name ep)) tasks)
                   in if matchingTaskIDs = [] then (Some (''no matching tasks found for '' @ e_Group ep @ '':'' @ e_Name ep), out)
                      else ClickUp_close_all env cfg matchingTaskIDs out)"

definition ClickUp_Send ::
  "(gomap \<Rightarrow> string + ClickUp_Config) \<Rightarrow> ClickUp_Config provider \<Rightarrow> send_env \<Rightarrow> Endpoint \<Rightarrow> Alert \<Rightarrow> Result \<Rightarrow> bool \<Rightarrow> sent" where
  "ClickUp_Send un p env ep a r resolved =
     with_config (ClickUp_ops un) p ep a (\<lambda>cfg. keep_key a
       (if resolved then ClickUp_CloseTask env cfg ep else ClickUp_CreateTask env cfg (ClickUp_task cfg ep a r)))"

interpretation clickup: overridable "ClickUp_ops un" clickup_unset for un
  by (rule defaulting_overridable [where fails = "\<lambda>c. fst (ClickUp_Validate c)" and
      defaults = "\<lambda>cfg. cfg\<lparr>clickup_Priority := override ''normal'' (clickup_Priority cfg),
        clickup_NotifyAll := override_option (Some True) (clickup_NotifyAll cfg),
        clickup_APIURL := override ''https://api.clickup.com/api/v2'' (clickup_APIURL cfg),
        clickup_Name := override ''Health Check: [ENDPOINT_GROUP]:[ENDPOINT_NAME]'' (clickup_Name cfg),
        clickup_MarkdownContent :=
          override ''Triggered: [ENDPOINT_GROUP] - [ENDPOINT_NAME] - [ALERT_DESCRIPTION] - [RESULT_ERRORS]''
            (clickup_MarkdownContent cfg)\<rparr>"])
    (simp_all add: clickup_config validated_def overriding Let_def overriding_slice split: if_split)

end
