(* ===== verification/Providers_Kinds.thy ===== *)
theory Providers_Kinds
  imports Providers_Forge
begin

text \<open>
  \<open>alerting/provider/provider.go\<close>: the interface that every provider implements, as functions over
  the providers of a configuration. A constructor is a field of the configuration of the alerting, and holds what
  decodes the overrides of an alert, which is the YAML library's, and the provider. The custom provider may panic.
\<close>

definition rejection :: "string + 'c \<Rightarrow> string option" where
  "rejection x = (case x of Inl e \<Rightarrow> Some e | Inr _ \<Rightarrow> None)"

datatype any_provider =
     AWSSimpleEmailService "gomap \<Rightarrow> string + AwsSes_Config" "AwsSes_Config provider"
  | ClickUp "gomap \<Rightarrow> string + ClickUp_Config" "ClickUp_Config provider"
  | Custom "gomap \<Rightarrow> string + Custom_Config" "Custom_Config provider"
  | Datadog "gomap \<Rightarrow> string + Datadog_Config" "Datadog_Config provider"
  | Discord "gomap \<Rightarrow> string + Discord_Config" "Discord_Config provider"
  | Email "gomap \<Rightarrow> string + Email_Config" "Email_Config provider"
  | GitHub "gomap \<Rightarrow> string + GitHub_Config" "GitHub_Config provider"
  | GitLab "gomap \<Rightarrow> string + GitLab_Config" "GitLab_Config provider"
  | Gitea "gomap \<Rightarrow> string + Gitea_Config" "Gitea_Config provider"
  | GoogleChat "gomap \<Rightarrow> string + GoogleChat_Config" "GoogleChat_Config provider"
  | Gotify "gomap \<Rightarrow> string + Gotify_Config" "Gotify_Config provider"
  | HomeAssistant "gomap \<Rightarrow> string + HomeAssistant_Config" "HomeAssistant_Config provider"
  | IFTTT "gomap \<Rightarrow> string + Ifttt_Config" "Ifttt_Config provider"
  | Ilert "gomap \<Rightarrow> string + Ilert_Config" "Ilert_Config provider"
  | IncidentIO "gomap \<Rightarrow> string + IncidentIo_Config" "IncidentIo_Config provider"
  | Line "gomap \<Rightarrow> string + Line_Config" "Line_Config provider"
  | Matrix "gomap \<Rightarrow> string + Matrix_Config" "Matrix_Config provider"
  | Mattermost "gomap \<Rightarrow> string + Mattermost_Config" "Mattermost_Config provider"
  | Messagebird "gomap \<Rightarrow> string + MessageBird_Config" "MessageBird_Config provider"
  | NewRelic "gomap \<Rightarrow> string + NewRelic_Config" "NewRelic_Config provider"
  | N8N "gomap \<Rightarrow> string + N8n_Config" "N8n_Config provider"
  | Ntfy "gomap \<Rightarrow> string + Ntfy_Config" "Ntfy_Config provider"
  | Opsgenie "gomap \<Rightarrow> string + Opsgenie_Config" "Opsgenie_Config provider"
  | PagerDuty "gomap \<Rightarrow> string + PagerDuty_Config" "PagerDuty_Config provider"
  | Plivo "gomap \<Rightarrow> string + Plivo_Config" "Plivo_Config provider"
  | Pushover "gomap \<Rightarrow> string + Pushover_Config" "Pushover_Config provider"
  | RocketChat "gomap \<Rightarrow> string + RocketChat_Config" "RocketChat_Config provider"
  | SendGrid "gomap \<Rightarrow> string + SendGrid_Config" "SendGrid_Config provider"
  | Signal "gomap \<Rightarrow> string + Signal_Config" "Signal_Config provider"
  | SIGNL4 "gomap \<Rightarrow> string + Signl4_Config" "Signl4_Config provider"
  | Slack "gomap \<Rightarrow> string + Slack_Config" "Slack_Config provider"
  | Splunk "gomap \<Rightarrow> string + Splunk_Config" "Splunk_Config provider"
  | Squadcast "gomap \<Rightarrow> string + Squadcast_Config" "Squadcast_Config provider"
  | Teams "gomap \<Rightarrow> string + Teams_Config" "Teams_Config provider"
  | TeamsWorkflows "gomap \<Rightarrow> string + TeamsWorkflows_Config" "TeamsWorkflows_Config provider"
  | Telegram "gomap \<Rightarrow> string + Telegram_Config" "Telegram_Config provider"
  | Twilio "gomap \<Rightarrow> string + Twilio_Config" "Twilio_Config provider"
  | Vonage "gomap \<Rightarrow> string + Vonage_Config" "Vonage_Config provider"
  | Webex "gomap \<Rightarrow> string + Webex_Config" "Webex_Config provider"
  | Zapier "gomap \<Rightarrow> string + Zapier_Config" "Zapier_Config provider"
  | Zulip "gomap \<Rightarrow> string + Zulip_Config" "Zulip_Config provider"

primrec AlertProvider_type :: "any_provider \<Rightarrow> string" where
  "AlertProvider_type (AWSSimpleEmailService un p) = ''aws-ses''"
| "AlertProvider_type (ClickUp un p) = ''clickup''"
| "AlertProvider_type (Custom un p) = ''custom''"
| "AlertProvider_type (Datadog un p) = ''datadog''"
| "AlertProvider_type (Discord un p) = ''discord''"
| "AlertProvider_type (Email un p) = ''email''"
| "AlertProvider_type (GitHub un p) = ''github''"
| "AlertProvider_type (GitLab un p) = ''gitlab''"
| "AlertProvider_type (Gitea un p) = ''gitea''"
| "AlertProvider_type (GoogleChat un p) = ''googlechat''"
| "AlertProvider_type (Gotify un p) = ''gotify''"
| "AlertProvider_type (HomeAssistant un p) = ''homeassistant''"
| "AlertProvider_type (IFTTT un p) = ''ifttt''"
| "AlertProvider_type (Ilert un p) = ''ilert''"
| "AlertProvider_type (IncidentIO un p) = ''incident-io''"
| "AlertProvider_type (Line un p) = ''line''"
| "AlertProvider_type (Matrix un p) = ''matrix''"
| "AlertProvider_type (Mattermost un p) = ''mattermost''"
| "AlertProvider_type (Messagebird un p) = ''messagebird''"
| "AlertProvider_type (NewRelic un p) = ''newrelic''"
| "AlertProvider_type (N8N un p) = ''n8n''"
| "AlertProvider_type (Ntfy un p) = ''ntfy''"
| "AlertProvider_type (Opsgenie un p) = ''opsgenie''"
| "AlertProvider_type (PagerDuty un p) = ''pagerduty''"
| "AlertProvider_type (Plivo un p) = ''plivo''"
| "AlertProvider_type (Pushover un p) = ''pushover''"
| "AlertProvider_type (RocketChat un p) = ''rocketchat''"
| "AlertProvider_type (SendGrid un p) = ''sendgrid''"
| "AlertProvider_type (Signal un p) = ''signal''"
| "AlertProvider_type (SIGNL4 un p) = ''signl4''"
| "AlertProvider_type (Slack un p) = ''slack''"
| "AlertProvider_type (Splunk un p) = ''splunk''"
| "AlertProvider_type (Squadcast un p) = ''squadcast''"
| "AlertProvider_type (Teams un p) = ''teams''"
| "AlertProvider_type (TeamsWorkflows un p) = ''teams-workflows''"
| "AlertProvider_type (Telegram un p) = ''telegram''"
| "AlertProvider_type (Twilio un p) = ''twilio''"
| "AlertProvider_type (Vonage un p) = ''vonage''"
| "AlertProvider_type (Webex un p) = ''webex''"
| "AlertProvider_type (Zapier un p) = ''zapier''"
| "AlertProvider_type (Zulip un p) = ''zulip''"

primrec AlertProvider_GetDefaultAlert :: "any_provider \<Rightarrow> Alert option" where
  "AlertProvider_GetDefaultAlert (AWSSimpleEmailService un p) = pr_DefaultAlert p"
| "AlertProvider_GetDefaultAlert (ClickUp un p) = pr_DefaultAlert p"
| "AlertProvider_GetDefaultAlert (Custom un p) = pr_DefaultAlert p"
| "AlertProvider_GetDefaultAlert (Datadog un p) = pr_DefaultAlert p"
| "AlertProvider_GetDefaultAlert (Discord un p) = pr_DefaultAlert p"
| "AlertProvider_GetDefaultAlert (Email un p) = pr_DefaultAlert p"
| "AlertProvider_GetDefaultAlert (GitHub un p) = pr_DefaultAlert p"
| "AlertProvider_GetDefaultAlert (GitLab un p) = pr_DefaultAlert p"
| "AlertProvider_GetDefaultAlert (Gitea un p) = pr_DefaultAlert p"
| "AlertProvider_GetDefaultAlert (GoogleChat un p) = pr_DefaultAlert p"
| "AlertProvider_GetDefaultAlert (Gotify un p) = pr_DefaultAlert p"
| "AlertProvider_GetDefaultAlert (HomeAssistant un p) = pr_DefaultAlert p"
| "AlertProvider_GetDefaultAlert (IFTTT un p) = pr_DefaultAlert p"
| "AlertProvider_GetDefaultAlert (Ilert un p) = pr_DefaultAlert p"
| "AlertProvider_GetDefaultAlert (IncidentIO un p) = pr_DefaultAlert p"
| "AlertProvider_GetDefaultAlert (Line un p) = pr_DefaultAlert p"
| "AlertProvider_GetDefaultAlert (Matrix un p) = pr_DefaultAlert p"
| "AlertProvider_GetDefaultAlert (Mattermost un p) = pr_DefaultAlert p"
| "AlertProvider_GetDefaultAlert (Messagebird un p) = pr_DefaultAlert p"
| "AlertProvider_GetDefaultAlert (NewRelic un p) = pr_DefaultAlert p"
| "AlertProvider_GetDefaultAlert (N8N un p) = pr_DefaultAlert p"
| "AlertProvider_GetDefaultAlert (Ntfy un p) = pr_DefaultAlert p"
| "AlertProvider_GetDefaultAlert (Opsgenie un p) = pr_DefaultAlert p"
| "AlertProvider_GetDefaultAlert (PagerDuty un p) = pr_DefaultAlert p"
| "AlertProvider_GetDefaultAlert (Plivo un p) = pr_DefaultAlert p"
| "AlertProvider_GetDefaultAlert (Pushover un p) = pr_DefaultAlert p"
| "AlertProvider_GetDefaultAlert (RocketChat un p) = pr_DefaultAlert p"
| "AlertProvider_GetDefaultAlert (SendGrid un p) = pr_DefaultAlert p"
| "AlertProvider_GetDefaultAlert (Signal un p) = pr_DefaultAlert p"
| "AlertProvider_GetDefaultAlert (SIGNL4 un p) = pr_DefaultAlert p"
| "AlertProvider_GetDefaultAlert (Slack un p) = pr_DefaultAlert p"
| "AlertProvider_GetDefaultAlert (Splunk un p) = pr_DefaultAlert p"
| "AlertProvider_GetDefaultAlert (Squadcast un p) = pr_DefaultAlert p"
| "AlertProvider_GetDefaultAlert (Teams un p) = pr_DefaultAlert p"
| "AlertProvider_GetDefaultAlert (TeamsWorkflows un p) = pr_DefaultAlert p"
| "AlertProvider_GetDefaultAlert (Telegram un p) = pr_DefaultAlert p"
| "AlertProvider_GetDefaultAlert (Twilio un p) = pr_DefaultAlert p"
| "AlertProvider_GetDefaultAlert (Vonage un p) = pr_DefaultAlert p"
| "AlertProvider_GetDefaultAlert (Webex un p) = pr_DefaultAlert p"
| "AlertProvider_GetDefaultAlert (Zapier un p) = pr_DefaultAlert p"
| "AlertProvider_GetDefaultAlert (Zulip un p) = pr_DefaultAlert p"

primrec AlertProvider_Validate :: "send_env \<Rightarrow> any_provider \<Rightarrow> string option \<times> any_provider" where
  "AlertProvider_Validate env (AWSSimpleEmailService un p) = map_prod id (AWSSimpleEmailService un) (AwsSes_AlertProvider_Validate un p)"
| "AlertProvider_Validate env (ClickUp un p) = map_prod id (ClickUp un) (ClickUp_AlertProvider_Validate un p)"
| "AlertProvider_Validate env (Custom un p) = map_prod id (Custom un) (Custom_AlertProvider_Validate un p)"
| "AlertProvider_Validate env (Datadog un p) = map_prod id (Datadog un) (Datadog_AlertProvider_Validate un p)"
| "AlertProvider_Validate env (Discord un p) = map_prod id (Discord un) (Discord_AlertProvider_Validate un p)"
| "AlertProvider_Validate env (Email un p) = map_prod id (Email un) (Email_AlertProvider_Validate un p)"
| "AlertProvider_Validate env (GitHub un p) = map_prod id (GitHub un) (GitHub_AlertProvider_Validate env un p)"
| "AlertProvider_Validate env (GitLab un p) = map_prod id (GitLab un) (GitLab_AlertProvider_Validate env un p)"
| "AlertProvider_Validate env (Gitea un p) = map_prod id (Gitea un) (Gitea_AlertProvider_Validate env un p)"
| "AlertProvider_Validate env (GoogleChat un p) = map_prod id (GoogleChat un) (GoogleChat_AlertProvider_Validate un p)"
| "AlertProvider_Validate env (Gotify un p) = map_prod id (Gotify un) (Gotify_AlertProvider_Validate un p)"
| "AlertProvider_Validate env (HomeAssistant un p) = map_prod id (HomeAssistant un) (HomeAssistant_AlertProvider_Validate un p)"
| "AlertProvider_Validate env (IFTTT un p) = map_prod id (IFTTT un) (Ifttt_AlertProvider_Validate un p)"
| "AlertProvider_Validate env (Ilert un p) = map_prod id (Ilert un) (Ilert_AlertProvider_Validate un p)"
| "AlertProvider_Validate env (IncidentIO un p) = map_prod id (IncidentIO un) (IncidentIo_AlertProvider_Validate un p)"
| "AlertProvider_Validate env (Line un p) = map_prod id (Line un) (Line_AlertProvider_Validate un p)"
| "AlertProvider_Validate env (Matrix un p) = map_prod id (Matrix un) (Matrix_AlertProvider_Validate un p)"
| "AlertProvider_Validate env (Mattermost un p) = map_prod id (Mattermost un) (Mattermost_AlertProvider_Validate un p)"
| "AlertProvider_Validate env (Messagebird un p) = map_prod id (Messagebird un) (MessageBird_AlertProvider_Validate un p)"
| "AlertProvider_Validate env (NewRelic un p) = map_prod id (NewRelic un) (NewRelic_AlertProvider_Validate un p)"
| "AlertProvider_Validate env (N8N un p) = map_prod id (N8N un) (N8n_AlertProvider_Validate un p)"
| "AlertProvider_Validate env (Ntfy un p) = map_prod id (Ntfy un) (Ntfy_AlertProvider_Validate un p)"
| "AlertProvider_Validate env (Opsgenie un p) = map_prod id (Opsgenie un) (Opsgenie_AlertProvider_Validate un p)"
| "AlertProvider_Validate env (PagerDuty un p) = map_prod id (PagerDuty un) (PagerDuty_AlertProvider_Validate un p)"
| "AlertProvider_Validate env (Plivo un p) = map_prod id (Plivo un) (Plivo_AlertProvider_Validate un p)"
| "AlertProvider_Validate env (Pushover un p) = map_prod id (Pushover un) (Pushover_AlertProvider_Validate un p)"
| "AlertProvider_Validate env (RocketChat un p) = map_prod id (RocketChat un) (RocketChat_AlertProvider_Validate un p)"
| "AlertProvider_Validate env (SendGrid un p) = map_prod id (SendGrid un) (SendGrid_AlertProvider_Validate un p)"
| "AlertProvider_Validate env (Signal un p) = map_prod id (Signal un) (Signal_AlertProvider_Validate un p)"
| "AlertProvider_Validate env (SIGNL4 un p) = map_prod id (SIGNL4 un) (Signl4_AlertProvider_Validate un p)"
| "AlertProvider_Validate env (Slack un p) = map_prod id (Slack un) (Slack_AlertProvider_Validate un p)"
| "AlertProvider_Validate env (Splunk un p) = map_prod id (Splunk un) (Splunk_AlertProvider_Validate un p)"
| "AlertProvider_Validate env (Squadcast un p) = map_prod id (Squadcast un) (Squadcast_AlertProvider_Validate un p)"
| "AlertProvider_Validate env (Teams un p) = map_prod id (Teams un) (Teams_AlertProvider_Validate un p)"
| "AlertProvider_Validate env (TeamsWorkflows un p) = map_prod id (TeamsWorkflows un) (TeamsWorkflows_AlertProvider_Validate un p)"
| "AlertProvider_Validate env (Telegram un p) = map_prod id (Telegram un) (Telegram_AlertProvider_Validate un p)"
| "AlertProvider_Validate env (Twilio un p) = map_prod id (Twilio un) (Twilio_AlertProvider_Validate un p)"
| "AlertProvider_Validate env (Vonage un p) = map_prod id (Vonage un) (Vonage_AlertProvider_Validate un p)"
| "AlertProvider_Validate env (Webex un p) = map_prod id (Webex un) (Webex_AlertProvider_Validate un p)"
| "AlertProvider_Validate env (Zapier un p) = map_prod id (Zapier un) (Zapier_AlertProvider_Validate un p)"
| "AlertProvider_Validate env (Zulip un p) = map_prod id (Zulip un) (Zulip_AlertProvider_Validate un p)"

primrec AlertProvider_ValidateOverrides :: "send_env \<Rightarrow> any_provider \<Rightarrow> string \<Rightarrow> Alert \<Rightarrow> string option" where
  "AlertProvider_ValidateOverrides env (AWSSimpleEmailService un p) g a = rejection (AwsSes_GetConfig un p g a)"
| "AlertProvider_ValidateOverrides env (ClickUp un p) g a = rejection (ClickUp_GetConfig un p g a)"
| "AlertProvider_ValidateOverrides env (Custom un p) g a = rejection (Custom_GetConfig un p g a)"
| "AlertProvider_ValidateOverrides env (Datadog un p) g a = rejection (Datadog_GetConfig un p g a)"
| "AlertProvider_ValidateOverrides env (Discord un p) g a = rejection (Discord_GetConfig un p g a)"
| "AlertProvider_ValidateOverrides env (Email un p) g a = rejection (Email_GetConfig un p g a)"
| "AlertProvider_ValidateOverrides env (GitHub un p) g a = rejection (GitHub_GetConfig env un p g a)"
| "AlertProvider_ValidateOverrides env (GitLab un p) g a = rejection (GitLab_GetConfig env un p g a)"
| "AlertProvider_ValidateOverrides env (Gitea un p) g a = rejection (Gitea_GetConfig env un p g a)"
| "AlertProvider_ValidateOverrides env (GoogleChat un p) g a = rejection (GoogleChat_GetConfig un p g a)"
| "AlertProvider_ValidateOverrides env (Gotify un p) g a = rejection (Gotify_GetConfig un p g a)"
| "AlertProvider_ValidateOverrides env (HomeAssistant un p) g a = rejection (HomeAssistant_GetConfig un p g a)"
| "AlertProvider_ValidateOverrides env (IFTTT un p) g a = rejection (Ifttt_GetConfig un p g a)"
| "AlertProvider_ValidateOverrides env (Ilert un p) g a = rejection (Ilert_GetConfig un p g a)"
| "AlertProvider_ValidateOverrides env (IncidentIO un p) g a = rejection (IncidentIo_GetConfig un p g a)"
| "AlertProvider_ValidateOverrides env (Line un p) g a = rejection (Line_GetConfig un p g a)"
| "AlertProvider_ValidateOverrides env (Matrix un p) g a = rejection (Matrix_GetConfig un p g a)"
| "AlertProvider_ValidateOverrides env (Mattermost un p) g a = rejection (Mattermost_GetConfig un p g a)"
| "AlertProvider_ValidateOverrides env (Messagebird un p) g a = rejection (MessageBird_GetConfig un p g a)"
| "AlertProvider_ValidateOverrides env (NewRelic un p) g a = rejection (NewRelic_GetConfig un p g a)"
| "AlertProvider_ValidateOverrides env (N8N un p) g a = rejection (N8n_GetConfig un p g a)"
| "AlertProvider_ValidateOverrides env (Ntfy un p) g a = rejection (Ntfy_GetConfig un p g a)"
| "AlertProvider_ValidateOverrides env (Opsgenie un p) g a = rejection (Opsgenie_GetConfig un p g a)"
| "AlertProvider_ValidateOverrides env (PagerDuty un p) g a = rejection (PagerDuty_GetConfig un p g a)"
| "AlertProvider_ValidateOverrides env (Plivo un p) g a = rejection (Plivo_GetConfig un p g a)"
| "AlertProvider_ValidateOverrides env (Pushover un p) g a = rejection (Pushover_GetConfig un p g a)"
| "AlertProvider_ValidateOverrides env (RocketChat un p) g a = rejection (RocketChat_GetConfig un p g a)"
| "AlertProvider_ValidateOverrides env (SendGrid un p) g a = rejection (SendGrid_GetConfig un p g a)"
| "AlertProvider_ValidateOverrides env (Signal un p) g a = rejection (Signal_GetConfig un p g a)"
| "AlertProvider_ValidateOverrides env (SIGNL4 un p) g a = rejection (Signl4_GetConfig un p g a)"
| "AlertProvider_ValidateOverrides env (Slack un p) g a = rejection (Slack_GetConfig un p g a)"
| "AlertProvider_ValidateOverrides env (Splunk un p) g a = rejection (Splunk_GetConfig un p g a)"
| "AlertProvider_ValidateOverrides env (Squadcast un p) g a = rejection (Squadcast_GetConfig un p g a)"
| "AlertProvider_ValidateOverrides env (Teams un p) g a = rejection (Teams_GetConfig un p g a)"
| "AlertProvider_ValidateOverrides env (TeamsWorkflows un p) g a = rejection (TeamsWorkflows_GetConfig un p g a)"
| "AlertProvider_ValidateOverrides env (Telegram un p) g a = rejection (Telegram_GetConfig un p g a)"
| "AlertProvider_ValidateOverrides env (Twilio un p) g a = rejection (Twilio_GetConfig un p g a)"
| "AlertProvider_ValidateOverrides env (Vonage un p) g a = rejection (Vonage_GetConfig un p g a)"
| "AlertProvider_ValidateOverrides env (Webex un p) g a = rejection (Webex_GetConfig un p g a)"
| "AlertProvider_ValidateOverrides env (Zapier un p) g a = rejection (Zapier_GetConfig un p g a)"
| "AlertProvider_ValidateOverrides env (Zulip un p) g a = rejection (Zulip_GetConfig un p g a)"

primrec AlertProvider_Send :: "send_env \<Rightarrow> any_provider \<Rightarrow> Endpoint \<Rightarrow> Alert \<Rightarrow> Result \<Rightarrow> bool \<Rightarrow> sent outcome" where
  "AlertProvider_Send env (AWSSimpleEmailService un p) ep a r resolved = Return (AwsSes_Send un p env ep a r resolved)"
| "AlertProvider_Send env (ClickUp un p) ep a r resolved = Return (ClickUp_Send un p env ep a r resolved)"
| "AlertProvider_Send env (Custom un p) ep a r resolved = Custom_Send un p env ep a r resolved"
| "AlertProvider_Send env (Datadog un p) ep a r resolved = Return (Datadog_Send un p env ep a r resolved)"
| "AlertProvider_Send env (Discord un p) ep a r resolved = Return (Discord_Send un p env ep a r resolved)"
| "AlertProvider_Send env (Email un p) ep a r resolved = Return (Email_Send un p env ep a r resolved)"
| "AlertProvider_Send env (GitHub un p) ep a r resolved = Return (GitHub_Send un p env ep a r resolved)"
| "AlertProvider_Send env (GitLab un p) ep a r resolved = Return (GitLab_Send un p env ep a r resolved)"
| "AlertProvider_Send env (Gitea un p) ep a r resolved = Return (Gitea_Send un p env ep a r resolved)"
| "AlertProvider_Send env (GoogleChat un p) ep a r resolved = Return (GoogleChat_Send un p env ep a r resolved)"
| "AlertProvider_Send env (Gotify un p) ep a r resolved = Return (Gotify_Send un p env ep a r resolved)"
| "AlertProvider_Send env (HomeAssistant un p) ep a r resolved = Return (HomeAssistant_Send un p env ep a r resolved)"
| "AlertProvider_Send env (IFTTT un p) ep a r resolved = Return (Ifttt_Send un p env ep a r resolved)"
| "AlertProvider_Send env (Ilert un p) ep a r resolved = Return (Ilert_Send un p env ep a r resolved)"
| "AlertProvider_Send env (IncidentIO un p) ep a r resolved = Return (IncidentIo_Send un p env ep a r resolved)"
| "AlertProvider_Send env (Line un p) ep a r resolved = Return (Line_Send un p env ep a r resolved)"
| "AlertProvider_Send env (Matrix un p) ep a r resolved = Return (Matrix_Send un p env ep a r resolved)"
| "AlertProvider_Send env (Mattermost un p) ep a r resolved = Return (Mattermost_Send un p env ep a r resolved)"
| "AlertProvider_Send env (Messagebird un p) ep a r resolved = Return (MessageBird_Send un p env ep a r resolved)"
| "AlertProvider_Send env (NewRelic un p) ep a r resolved = Return (NewRelic_Send un p env ep a r resolved)"
| "AlertProvider_Send env (N8N un p) ep a r resolved = Return (N8n_Send un p env ep a r resolved)"
| "AlertProvider_Send env (Ntfy un p) ep a r resolved = Return (Ntfy_Send un p env ep a r resolved)"
| "AlertProvider_Send env (Opsgenie un p) ep a r resolved = Return (Opsgenie_Send un p env ep a r resolved)"
| "AlertProvider_Send env (PagerDuty un p) ep a r resolved = Return (PagerDuty_Send un p env ep a r resolved)"
| "AlertProvider_Send env (Plivo un p) ep a r resolved = Return (Plivo_Send un p env ep a r resolved)"
| "AlertProvider_Send env (Pushover un p) ep a r resolved = Return (Pushover_Send un p env ep a r resolved)"
| "AlertProvider_Send env (RocketChat un p) ep a r resolved = Return (RocketChat_Send un p env ep a r resolved)"
| "AlertProvider_Send env (SendGrid un p) ep a r resolved = Return (SendGrid_Send un p env ep a r resolved)"
| "AlertProvider_Send env (Signal un p) ep a r resolved = Return (Signal_Send un p env ep a r resolved)"
| "AlertProvider_Send env (SIGNL4 un p) ep a r resolved = Return (Signl4_Send un p env ep a r resolved)"
| "AlertProvider_Send env (Slack un p) ep a r resolved = Return (Slack_Send un p env ep a r resolved)"
| "AlertProvider_Send env (Splunk un p) ep a r resolved = Return (Splunk_Send un p env ep a r resolved)"
| "AlertProvider_Send env (Squadcast un p) ep a r resolved = Return (Squadcast_Send un p env ep a r resolved)"
| "AlertProvider_Send env (Teams un p) ep a r resolved = Return (Teams_Send un p env ep a r resolved)"
| "AlertProvider_Send env (TeamsWorkflows un p) ep a r resolved = Return (TeamsWorkflows_Send un p env ep a r resolved)"
| "AlertProvider_Send env (Telegram un p) ep a r resolved = Return (Telegram_Send un p env ep a r resolved)"
| "AlertProvider_Send env (Twilio un p) ep a r resolved = Return (Twilio_Send un p env ep a r resolved)"
| "AlertProvider_Send env (Vonage un p) ep a r resolved = Return (Vonage_Send un p env ep a r resolved)"
| "AlertProvider_Send env (Webex un p) ep a r resolved = Return (Webex_Send un p env ep a r resolved)"
| "AlertProvider_Send env (Zapier un p) ep a r resolved = Return (Zapier_Send un p env ep a r resolved)"
| "AlertProvider_Send env (Zulip un p) ep a r resolved = Return (Zulip_Send un p env ep a r resolved)"

lemmas GetConfig_defs =
  AwsSes_GetConfig_def ClickUp_GetConfig_def Custom_GetConfig_def Datadog_GetConfig_def
  Discord_GetConfig_def Email_GetConfig_def GitHub_GetConfig_def GitLab_GetConfig_def Gitea_GetConfig_def
  GoogleChat_GetConfig_def Gotify_GetConfig_def HomeAssistant_GetConfig_def Ifttt_GetConfig_def
  Ilert_GetConfig_def IncidentIo_GetConfig_def Line_GetConfig_def Matrix_GetConfig_def
  Mattermost_GetConfig_def MessageBird_GetConfig_def NewRelic_GetConfig_def N8n_GetConfig_def
  Ntfy_GetConfig_def Opsgenie_GetConfig_def PagerDuty_GetConfig_def Plivo_GetConfig_def
  Pushover_GetConfig_def RocketChat_GetConfig_def SendGrid_GetConfig_def Signal_GetConfig_def
  Signl4_GetConfig_def Slack_GetConfig_def Splunk_GetConfig_def Squadcast_GetConfig_def Teams_GetConfig_def
  TeamsWorkflows_GetConfig_def Telegram_GetConfig_def Twilio_GetConfig_def Vonage_GetConfig_def
  Webex_GetConfig_def Zapier_GetConfig_def Zulip_GetConfig_def

lemmas AlertProvider_Validate_defs =
  AwsSes_AlertProvider_Validate_def ClickUp_AlertProvider_Validate_def Custom_AlertProvider_Validate_def
  Datadog_AlertProvider_Validate_def Discord_AlertProvider_Validate_def Email_AlertProvider_Validate_def
  GitHub_AlertProvider_Validate_def GitLab_AlertProvider_Validate_def Gitea_AlertProvider_Validate_def
  GoogleChat_AlertProvider_Validate_def Gotify_AlertProvider_Validate_def
  HomeAssistant_AlertProvider_Validate_def Ifttt_AlertProvider_Validate_def Ilert_AlertProvider_Validate_def
  IncidentIo_AlertProvider_Validate_def Line_AlertProvider_Validate_def Matrix_AlertProvider_Validate_def
  Mattermost_AlertProvider_Validate_def MessageBird_AlertProvider_Validate_def
  NewRelic_AlertProvider_Validate_def N8n_AlertProvider_Validate_def Ntfy_AlertProvider_Validate_def
  Opsgenie_AlertProvider_Validate_def PagerDuty_AlertProvider_Validate_def Plivo_AlertProvider_Validate_def
  Pushover_AlertProvider_Validate_def RocketChat_AlertProvider_Validate_def
  SendGrid_AlertProvider_Validate_def Signal_AlertProvider_Validate_def Signl4_AlertProvider_Validate_def
  Slack_AlertProvider_Validate_def Splunk_AlertProvider_Validate_def Squadcast_AlertProvider_Validate_def
  Teams_AlertProvider_Validate_def TeamsWorkflows_AlertProvider_Validate_def
  Telegram_AlertProvider_Validate_def Twilio_AlertProvider_Validate_def Vonage_AlertProvider_Validate_def
  Webex_AlertProvider_Validate_def Zapier_AlertProvider_Validate_def Zulip_AlertProvider_Validate_def

text \<open>The providers that send one request.\<close>

lemmas send_one_defs =
  Slack_Send_def Discord_Send_def Mattermost_Send_def RocketChat_Send_def Teams_Send_def
  TeamsWorkflows_Send_def GoogleChat_Send_def Telegram_Send_def Zulip_Send_def Matrix_Send_def
  Webex_Send_def Ntfy_Send_def Gotify_Send_def Pushover_Send_def Ilert_Send_def Squadcast_Send_def
  Signl4_Send_def Splunk_Send_def Datadog_Send_def NewRelic_Send_def Zapier_Send_def N8n_Send_def
  Ifttt_Send_def HomeAssistant_Send_def SendGrid_Send_def Twilio_Send_def MessageBird_Send_def

end
