(* ===== verification/Providers.thy ===== *)
theory Providers
  imports Providers_Kinds Watchdog_Alerting
begin

text \<open>
  What the alerting relies on in its providers, proved for all of them: an override that is rejected sends
  nothing, the validation in place does not change what is sent, and with services that answer every
  alert that is accepted goes out.
\<close>

section \<open>Services that answer\<close>

text \<open>
  Requests can be made and are answered with the status 200, what is decoded of an answer decodes, the
  client of AWS can be configured, and mails and issues are accepted.
\<close>

definition answering :: "send_env \<Rightarrow> bool" where
  "answering env \<longleftrightarrow>
     (\<forall>r. se_NewRequest env r = None) \<and> (\<forall>out r. \<exists>body. se_Do env out r = Inr (200, body)) \<and>
     (\<forall>body. fst (se_deduplication_key env body) = None) \<and>
     (\<forall>body. \<exists>ms. se_messages env body = Inr ms \<and> (\<forall>m \<in> set ms. fst m = ''0'')) \<and>
     (\<forall>region credentials. se_LoadAWS env region credentials = None) \<and>
     (\<forall>mail. se_SendEmail env mail = None) \<and> (\<forall>mail. se_DialAndSend env mail = None) \<and>
     (\<forall>fg \<in> {se_gitea env, se_github env}. \<forall>c i. fg_Create fg c i = None)"

lemma answeringD:
  assumes "answering env"
  shows "se_NewRequest env q = None" and "\<exists>body. se_Do env out q = Inr (200, body)"
    and "fst (se_deduplication_key env body) = None"
    and "\<exists>ms. se_messages env body = Inr ms \<and> (\<forall>m \<in> set ms. fst m = ''0'')"
    and "se_LoadAWS env region credentials = None" and "se_SendEmail env email = None" and "se_DialAndSend env mail = None"
    and "fg_Create (se_gitea env) c i = None" and "fg_Create (se_github env) c i = None"
  using assms unfolding answering_def by simp_all

lemma Do_answered:
  assumes "answering env"
  shows "Do env r out = (Inr (200, snd (projr (se_Do env out r))), out @ [Http r])"
proof -
  obtain body where "se_Do env out r = Inr (200, body)" using answeringD(2) [OF assms] by blast
  then show ?thesis by (simp add: answeringD(1) [OF assms] Do_def)
qed

lemma deliver_answered [simp]: "answering env \<Longrightarrow> deliver env failed r out = (None, out @ [Http r])"
  by (simp add: deliver_def Do_answered)

lemma deliver_all_answered [simp]: "answering env \<Longrightarrow> deliver_all env failed rs out = (None, out @ map Http rs)"
  by (induction rs arbitrary: out) simp_all

lemma Vonage_answered [simp]:
  assumes "answering env"
  shows "Vonage_sendSMS env rs out = (None, out @ map Http rs)"
proof (induction rs arbitrary: out)
  case (Cons r rs)
  obtain ms where m: "se_messages env (snd (projr (se_Do env out r))) = Inr ms" "\<forall>m \<in> set ms. fst m = ''0''"
    using answeringD(4) [OF assms] by blast
  then have "find (\<lambda>m. fst m \<noteq> ''0'') ms = None" by (auto simp: find_None_iff)
  then show ?case by (simp add: Do_answered [OF assms] m(1) Cons)
qed simp

section \<open>A call that sends\<close>

definition goes_out :: "sent \<Rightarrow> bool" where
  "goes_out x \<longleftrightarrow> (\<exists>k out. x = (None, k, out) \<and> out \<noteq> [])"

lemma goes_out_keep_key [simp]: "goes_out (keep_key a x) \<longleftrightarrow> fst x = None \<and> snd x \<noteq> []"
  by (auto simp: goes_out_def keep_key_def)

lemma goes_out_pair [simp]: "goes_out (e, k, out) \<longleftrightarrow> e = None \<and> out \<noteq> []"
  by (simp add: goes_out_def)

lemma rejection_GetConfig: "rejection (Provider_GetConfig ops p g a) = Provider_ValidateOverrides ops p g a"
  by (simp add: rejection_def Provider_ValidateOverrides_def)

lemma accepted_configured:
  assumes "Provider_ValidateOverrides ops p g a = None"
  obtains cfg where "Provider_GetConfig ops p g a = Inr cfg"
  using assms by (auto simp: ValidateOverrides_accepts)

lemma with_config_goes_out:
  assumes "Provider_ValidateOverrides ops p (e_Group ep) a = None"
    and "\<And>cfg. Provider_GetConfig ops p (e_Group ep) a = Inr cfg \<Longrightarrow> goes_out (f cfg)"
  shows "goes_out (with_config ops p ep a f)"
  using assms by (auto simp: with_config_def ValidateOverrides_accepts)

lemma send_one_goes_out:
  assumes "answering env" and "Provider_ValidateOverrides ops p (e_Group ep) a = None"
  shows "goes_out (send_one ops p env failed ep a request)"
  unfolding send_one_def by (rule with_config_goes_out [OF assms(2)]) (simp add: assms(1))

text \<open>The providers that send one message for each of their recipients, of whom there are some.\<close>

lemma recipients_validated:
  "validated (Line_ops un) c = Inr c \<Longrightarrow> line_UserIDs c \<noteq> []"
  "validated (Signal_ops un') d = Inr d \<Longrightarrow> signal_Recipients d \<noteq> []"
  "validated (Plivo_ops un'') e = Inr e \<Longrightarrow> plivo_To e \<noteq> []"
  "validated (Vonage_ops un''') f = Inr f \<Longrightarrow> vonage_To f \<noteq> []"
  by (auto simp: validated_def line_config signal_config plivo_config vonage_config Let_def
      split: if_splits)

lemmas recipients = recipients_validated(1) [OF line.GetConfig_valid] recipients_validated(2) [OF signal.GetConfig_valid]
  recipients_validated(3) [OF plivo.GetConfig_valid] recipients_validated(4) [OF vonage.GetConfig_valid]

lemma Line_goes_out:
  assumes "answering env" and "Provider_ValidateOverrides (Line_ops un) p (e_Group ep) a = None"
  shows "goes_out (Line_Send un p env ep a r b)"
  unfolding Line_Send_def by (rule with_config_goes_out [OF assms(2)]) (simp add: assms(1) recipients)

lemma Signal_goes_out:
  assumes "answering env" and "Provider_ValidateOverrides (Signal_ops un) p (e_Group ep) a = None"
  shows "goes_out (Signal_Send un p env ep a r b)"
  unfolding Signal_Send_def by (rule with_config_goes_out [OF assms(2)]) (simp add: assms(1) recipients)

lemma Plivo_goes_out:
  assumes "answering env" and "Provider_ValidateOverrides (Plivo_ops un) p (e_Group ep) a = None"
  shows "goes_out (Plivo_Send un p env ep a r b)"
  unfolding Plivo_Send_def by (rule with_config_goes_out [OF assms(2)]) (simp add: assms(1) recipients)

lemma Vonage_goes_out:
  assumes "answering env" and "Provider_ValidateOverrides (Vonage_ops un) p (e_Group ep) a = None"
  shows "goes_out (Vonage_Send un p env ep a r b)"
  unfolding Vonage_Send_def by (rule with_config_goes_out [OF assms(2)]) (simp add: assms(1) recipients)

text \<open>The providers that keep a resolve key.\<close>

lemma PagerDuty_goes_out:
  assumes "answering env" and "Provider_ValidateOverrides (PagerDuty_ops un) p (e_Group ep) a = None"
  shows "goes_out (PagerDuty_Send un p env ep a r b)"
  unfolding PagerDuty_Send_def
  by (rule with_config_goes_out [OF assms(2)]) (simp add: Do_answered [OF assms(1)])

lemma Opsgenie_goes_out:
  assumes "answering env" and "Provider_ValidateOverrides (Opsgenie_ops un) p (e_Group ep) a = None"
  shows "goes_out (Opsgenie_Send un p env ep a r b)"
  unfolding Opsgenie_Send_def
  by (rule with_config_goes_out [OF assms(2)]) (simp add: assms(1) Let_def)

lemma IncidentIo_goes_out:
  assumes "answering env" and "Provider_ValidateOverrides (IncidentIo_ops un) p (e_Group ep) a = None"
  shows "goes_out (IncidentIo_Send un p env ep a r b)"
  unfolding IncidentIo_Send_def
  by (rule with_config_goes_out [OF assms(2)])
    (simp add: Do_answered [OF assms(1)] answeringD(3) [OF assms(1)] Let_def split_beta)

lemma GitLab_goes_out:
  assumes "answering env" and "Provider_ValidateOverrides (GitLab_ops env un) p (e_Group ep) a = None"
  shows "goes_out (GitLab_Send un p env ep a r b)"
  unfolding GitLab_Send_def by (rule with_config_goes_out [OF assms(2)]) (simp add: assms(1) Let_def)

text \<open>The mails, the tasks and the issues.\<close>

lemma mails_go_out:
  assumes "answering env"
  shows "Provider_ValidateOverrides (AwsSes_ops un) p (e_Group ep) a = None \<Longrightarrow> goes_out (AwsSes_Send un p env ep a r b)"
    and "Provider_ValidateOverrides (Email_ops un') q (e_Group ep) a = None \<Longrightarrow> goes_out (Email_Send un' q env ep a r b)"
  by (auto simp: AwsSes_Send_def Email_Send_def answeringD [OF assms] Let_def intro!: with_config_goes_out split: prod.split)

lemma ClickUp_goes_out:
  assumes "answering env" and "Provider_ValidateOverrides (ClickUp_ops un) p (e_Group ep) a = None"
  shows "goes_out (ClickUp_Send un p env ep a r False)"
  unfolding ClickUp_Send_def
  by (rule with_config_goes_out [OF assms(2)]) (simp add: assms(1) ClickUp_CreateTask_def)

lemma issues_go_out:
  assumes "answering env"
  shows "Provider_ValidateOverrides (Gitea_ops env un) p (e_Group ep) a = None \<Longrightarrow> goes_out (Gitea_Send un p env ep a r False)"
    and "Provider_ValidateOverrides (GitHub_ops env un') q (e_Group ep) a = None \<Longrightarrow> goes_out (GitHub_Send un' q env ep a r False)"
  by (auto simp: Gitea_Send_def GitHub_Send_def forge_send_def answeringD [OF assms] Let_def intro!: with_config_goes_out)

lemma Custom_goes_out:
  assumes "answering env" and "Provider_ValidateOverrides (Custom_ops un) p (e_Group ep) a = None"
  shows "\<exists>k out. Custom_Send un p env ep a r b = Return (None, k, out) \<and> out \<noteq> []"
proof -
  obtain cfg where "Provider_GetConfig (Custom_ops un) p (e_Group ep) a = Inr cfg" using accepted_configured [OF assms(2)] .
  then show ?thesis by (simp add: Custom_Send_def keep_key_def Let_def assms(1) answeringD(1) [OF assms(1)])
qed

lemmas several_go_out = Line_goes_out Signal_goes_out Plivo_goes_out Vonage_goes_out PagerDuty_goes_out Opsgenie_goes_out
  IncidentIo_goes_out GitLab_goes_out mails_go_out Custom_goes_out

lemma Send_goes_out:
  assumes "answering env" and "AlertProvider_ValidateOverrides env p (e_Group ep) a = None"
    and "\<not> b \<or> AlertProvider_type p \<notin> {''clickup'', ''gitea'', ''github''}"
  shows "\<exists>x. AlertProvider_Send env p ep a r b = Return x \<and> goes_out x"
  using assms(2,3)
  by (cases p) (simp_all add: GetConfig_defs rejection_GetConfig send_one_defs send_one_goes_out [OF assms(1)]
    several_go_out [OF assms(1)] ClickUp_goes_out [OF assms(1)] issues_go_out [OF assms(1)])

text \<open>An override that is rejected.\<close>

lemma send_one_rejected:
  "Provider_ValidateOverrides ops p (e_Group ep) a = Some e \<Longrightarrow>
   send_one ops p env failed ep a request = (Some e, al_ResolveKey a, [])"
  by (simp add: send_one_def with_config_rejected)

lemma Custom_rejected:
  "Provider_ValidateOverrides (Custom_ops un) p (e_Group ep) a = Some e \<Longrightarrow>
   Custom_Send un p env ep a r b = Return (Some e, al_ResolveKey a, [])"
  by (simp add: Custom_Send_def Provider_ValidateOverrides_def split: sum.splits)

lemmas several_send_defs = Line_Send_def Signal_Send_def Plivo_Send_def Vonage_Send_def PagerDuty_Send_def Opsgenie_Send_def
  IncidentIo_Send_def GitLab_Send_def AwsSes_Send_def Email_Send_def ClickUp_Send_def Gitea_Send_def GitHub_Send_def

lemma Send_rejected:
  assumes "AlertProvider_ValidateOverrides env p (e_Group ep) a = Some e"
  shows "AlertProvider_Send env p ep a r b = Return (Some e, al_ResolveKey a, [])"
  using assms
  by (cases p) (simp_all add: GetConfig_defs rejection_GetConfig send_one_defs several_send_defs
    send_one_rejected with_config_rejected Custom_rejected)

text \<open>The validation in place, of the providers whose configurations obey the laws of overriding.\<close>

lemmas all_configs_after_Validate =
  awsses.configs_after_Validate clickup.configs_after_Validate custom.configs_after_Validate
  datadog.configs_after_Validate discord.configs_after_Validate email.configs_after_Validate
  gitlab.configs_after_Validate googlechat.configs_after_Validate gotify.configs_after_Validate
  homeassistant.configs_after_Validate ifttt.configs_after_Validate ilert.configs_after_Validate
  incidentio.configs_after_Validate line.configs_after_Validate matrix.configs_after_Validate
  mattermost.configs_after_Validate messagebird.configs_after_Validate newrelic.configs_after_Validate
  n8n.configs_after_Validate ntfy.configs_after_Validate opsgenie.configs_after_Validate
  pagerduty.configs_after_Validate plivo.configs_after_Validate pushover.configs_after_Validate
  rocketchat.configs_after_Validate sendgrid.configs_after_Validate signal.configs_after_Validate
  signl4.configs_after_Validate slack.configs_after_Validate splunk.configs_after_Validate
  squadcast.configs_after_Validate teams.configs_after_Validate teamsworkflows.configs_after_Validate
  telegram.configs_after_Validate twilio.configs_after_Validate vonage.configs_after_Validate
  webex.configs_after_Validate zapier.configs_after_Validate zulip.configs_after_Validate

lemma GitLab_ops_cong: "se_ParseURL env' = se_ParseURL env \<Longrightarrow> GitLab_ops env' un = GitLab_ops env un"
  by (auto simp: GitLab_ops_def GitLab_Validate_def)

lemma map_prod_id_eq: "map_prod id f x = (e, y) \<longleftrightarrow> (\<exists>z. x = (e, z) \<and> y = f z)"
  by (cases x) auto

lemma Send_after_Validate:
  assumes "AlertProvider_Validate env p = (None, p')" and "AlertProvider_type p \<notin> {''gitea'', ''github''}"
    and "se_ParseURL env' = se_ParseURL env"
  shows "AlertProvider_Send env' p' = AlertProvider_Send env' p \<and>
    AlertProvider_ValidateOverrides env' p' = AlertProvider_ValidateOverrides env' p"
  using assms(1,2)
  by (cases p)
    (auto simp: map_prod_id_eq AlertProvider_Validate_defs GetConfig_defs send_one_defs several_send_defs Custom_Send_def send_one_def
      with_config_def GitLab_ops_cong [OF assms(3)] fun_eq_iff dest!: all_configs_after_Validate)

text \<open>The configuration for an alert depends on its override alone.\<close>

lemma GetConfig_same_config:
  assumes "same_config a a'"
  shows "Provider_GetConfig ops p g a' = Provider_GetConfig ops p g a"
proof -
  have "al_ProviderOverride a' = al_ProviderOverride a"
    using assms by (cases a; cases a'; simp add: same_config_def)
  then show ?thesis by (simp add: Provider_GetConfig_def Let_def cong: if_cong)
qed

lemma ValidateOverrides_same_config:
  "same_config a a' \<Longrightarrow> AlertProvider_ValidateOverrides env p g a' = AlertProvider_ValidateOverrides env p g a"
  by (cases p) (simp_all add: GetConfig_defs GetConfig_same_config)

section \<open>Providers of the watchdog\<close>

text \<open>
  What the watchdog calls to send is a provider: at every alert of a handling, with the services as they are then,
  the provider returns, and the error and the resolve key are what the call gives.
\<close>

definition provides :: "(nat \<Rightarrow> send_env) \<Rightarrow> any_provider \<Rightarrow> alert_provider \<Rightarrow> bool" where
  "provides envs p send \<longleftrightarrow>
     (\<forall>i ep a r b. \<exists>out. AlertProvider_Send (envs i) p ep a r b = Return (fst (send i ep a r b), snd (send i ep a r b), out))"

lemma provided_reliable:
  assumes "ae_GetAlertingProvider env (al_Type a) = Some send" and "provides envs p send" and "\<not> ae_mock_error env"
    and ok: "\<forall>i. answering (envs i) \<and> AlertProvider_ValidateOverrides (envs i) p g a = None"
  shows "reliable env g a"
proof -
  have "fst (send i ep a' r False) = None" if c: "same_config a a'" and g: "e_Group ep = g" for i ep a' r
  proof -
    have "AlertProvider_ValidateOverrides (envs i) p (e_Group ep) a' = None"
      using ok ValidateOverrides_same_config [OF c] g by simp
    with Send_goes_out [of "envs i" p ep a' False r] ok
    obtain k out where "AlertProvider_Send (envs i) p ep a' r False = Return (None, k, out)"
      by (auto simp: goes_out_def)
    then show ?thesis
      using assms(2) unfolding provides_def by (metis outcome.inject(1) prod.inject)
  qed
  then show ?thesis using assms(1,3) by (simp add: reliable_def send_trigger_def)
qed

end
