(* ===== verification/Providers_Properties.thy ===== *)
theory Providers_Properties
  imports Providers
begin

text \<open>
  The properties of the providers of alerts, with an example of services that answer and a Slack provider.
\<close>

section \<open>Examples\<close>

definition example_forge :: forge where
  "example_forge = \<lparr>fg_NewClient = (\<lambda>c. None), fg_User = (\<lambda>c. Inr ''gatus''), fg_Create = (\<lambda>c i. None),
     fg_List = (\<lambda>c owner name user. Inr []), fg_Close = (\<lambda>c owner name i. None)\<rparr>"

definition example_services :: send_env where
  "example_services =
     \<lparr>se_NewRequest = (\<lambda>r. None), se_Do = (\<lambda>out r. Inr (200, ''incident'')), se_now = 0, se_RFC3339 = (\<lambda>t. []),
      se_uuid = [], se_Intn = (\<lambda>n. 0), se_sha256 = (\<lambda>s. s), se_ParseURL = (\<lambda>u. Inr (''https'', ''host'', ''/owner/name'')),
      se_tasks = (\<lambda>b. Inr []), se_dedup_key = Inr, se_deduplication_key = Pair None, se_messages = (\<lambda>b. Inr []),
      se_LoadAWS = (\<lambda>r c. None), se_SendEmail = (\<lambda>m. None), se_DialAndSend = (\<lambda>m. None),
      se_gitea = example_forge, se_github = example_forge\<rparr>"

lemma example_services_answer: "answering example_services"
  by (simp add: answering_def example_services_def example_forge_def)

definition example_slack :: any_provider where
  "example_slack = Slack (\<lambda>m. Inr slack_unset) \<lparr>pr_DefaultConfig = slack_unset\<lparr>slack_WebhookURL := ''https://hooks''\<rparr>,
     pr_DefaultAlert = None, pr_Overrides = [(''core'', slack_unset\<lparr>slack_WebhookURL := ''https://core''\<rparr>)]\<rparr>"

definition undecodable_slack :: any_provider where
  "undecodable_slack = Slack (\<lambda>m. Inl ''not a map'') \<lparr>pr_DefaultConfig = slack_unset\<lparr>slack_WebhookURL := ''https://hooks''\<rparr>,
     pr_DefaultAlert = None, pr_Overrides = []\<rparr>"

lemmas slack_example = example_slack_def Slack_GetConfig_def Slack_AlertProvider_Validate_def slack_config Provider_GetConfig_def
  Provider_Validate_def validated_def override_def rejection_def

section \<open>Properties\<close>

text \<open>
  C19. With services that answer, an alert whose overrides are accepted goes out, whatever the provider:
  the call returns no error and at least one message was sent. Only the resolutions of the providers that
  look for what they opened, in the forges and ClickUp, may have nothing to send.
\<close>

theorem accepted_alert_goes_out:
  assumes "answering env" and "AlertProvider_ValidateOverrides env p (e_Group ep) a = None"
    and "\<not> resolved \<or> AlertProvider_type p \<notin> {''clickup'', ''gitea'', ''github''}"
  shows "\<exists>k out. AlertProvider_Send env p ep a r resolved = Return (None, k, out) \<and> out \<noteq> []"
  using Send_goes_out [OF assms] unfolding goes_out_def by blast

theorem accepted_alert_goes_out_witness:
  "\<exists>k out. AlertProvider_Send example_services example_slack watched_endpoint slack_alert ok_result True =
     Return (None, k, out) \<and> out \<noteq> []"
  using accepted_alert_goes_out [OF example_services_answer, of example_slack watched_endpoint slack_alert True ok_result]
  by (simp add: slack_example slack_alert_def split: option.split)

text \<open>
  C21. An alert whose overrides are rejected, when the configuration is validated or when the alert is sent, is
  not sent: the call returns the error of the validation, the resolve key stays and nothing goes out.
\<close>

theorem rejected_override_sends_nothing:
  assumes "AlertProvider_ValidateOverrides env p (e_Group ep) a = Some e"
  shows "AlertProvider_Send env p ep a r resolved = Return (Some e, al_ResolveKey a, [])"
  using assms by (rule Send_rejected)

theorem rejected_override_sends_nothing_witness:
  "AlertProvider_Send example_services undecodable_slack watched_endpoint
     (slack_alert\<lparr>al_ProviderOverride := [(''title'', VNil)]\<rparr>) failed_result False = Return (Some ''not a map'', [], [])"
  using rejected_override_sends_nothing [of example_services undecodable_slack watched_endpoint
      "slack_alert\<lparr>al_ProviderOverride := [(''title'', VNil)]\<rparr>" "''not a map''" failed_result False]
  by (simp add: undecodable_slack_def slack_example slack_alert_def)

text \<open>
  C22. The validation of a provider changes its configuration in place, filling in what is not set.
  That makes no difference to what is sent or accepted afterwards, for any endpoint and any override: the
  overrides of groups and alerts are merged and validated as if the defaults had not been filled in. The providers that
  keep a client in their configuration, for the first two forges, are the exception.
\<close>

theorem validation_in_place_invisible:
  assumes "AlertProvider_Validate env p = (None, p')" and "AlertProvider_type p \<notin> {''gitea'', ''github''}"
    and "se_ParseURL env' = se_ParseURL env"
  shows "AlertProvider_Send env' p' ep a r resolved = AlertProvider_Send env' p ep a r resolved \<and>
    AlertProvider_ValidateOverrides env' p' g a = AlertProvider_ValidateOverrides env' p g a"
  using Send_after_Validate [OF assms] by simp

theorem validation_in_place_invisible_witness:
  "\<exists>p'. AlertProvider_Validate example_services (Ntfy (\<lambda>m. Inr ntfy_unset)
        \<lparr>pr_DefaultConfig = ntfy_unset\<lparr>ntfy_Topic := ''alerts''\<rparr>, pr_DefaultAlert = None, pr_Overrides = []\<rparr>) = (None, p') \<and>
     p' \<noteq> Ntfy (\<lambda>m. Inr ntfy_unset)
        \<lparr>pr_DefaultConfig = ntfy_unset\<lparr>ntfy_Topic := ''alerts''\<rparr>, pr_DefaultAlert = None, pr_Overrides = []\<rparr> \<and>
     AlertProvider_Send example_services p' watched_endpoint slack_alert ok_result False =
       AlertProvider_Send example_services (Ntfy (\<lambda>m. Inr ntfy_unset)
        \<lparr>pr_DefaultConfig = ntfy_unset\<lparr>ntfy_Topic := ''alerts''\<rparr>, pr_DefaultAlert = None, pr_Overrides = []\<rparr>)
        watched_endpoint slack_alert ok_result False"
proof -
  let ?c = "ntfy_unset\<lparr>ntfy_Topic := ''alerts''\<rparr>"
  let ?p = "Ntfy (\<lambda>m. Inr ntfy_unset) \<lparr>pr_DefaultConfig = ?c, pr_DefaultAlert = None, pr_Overrides = []\<rparr>"
  obtain c where v: "Ntfy_Validate ?c = (None, c)" "c \<noteq> ?c"
    by (simp add: Ntfy_Validate_def ntfy_unset_def override_def override_int_def Let_def HasPrefix_def)
  then have p': "AlertProvider_Validate example_services ?p = (None, Ntfy (\<lambda>m. Inr ntfy_unset)
      \<lparr>pr_DefaultConfig = c, pr_DefaultAlert = None, pr_Overrides = []\<rparr>)"
    by (simp add: Ntfy_AlertProvider_Validate_def Provider_Validate_def Ntfy_ops_def)
  show ?thesis
    using validation_in_place_invisible [OF p', of example_services watched_endpoint slack_alert ok_result False] p' v(2)
    by auto
qed

text \<open>
  C20. The watchdog over real providers: when its provider of a type is one of the configuration's, with services
  that answer and an override that is accepted, an enabled alert of a fresh endpoint follows the automaton over the
  outcomes through any run of results, whatever the other alerts, endpoints and providers do in between.
\<close>

theorem provided_alerts_follow_automaton:
  assumes "alerting_run (\<lambda>env. ae_configured env \<and> \<not> ae_mock_error env \<and>
      (\<exists>p send envs. ae_GetAlertingProvider env (al_Type a) = Some send \<and> provides envs p send \<and>
        (\<forall>i. answering (envs i) \<and> AlertProvider_ValidateOverrides (envs i) p (e_Group ep0) a = None)))
      ep0 (ep, s, tr, rs)"
    and "i < length (e_Alerts ep0)" and "a = e_Alerts ep0 ! i" and "IsEnabled a" and "\<not> al_Triggered a"
    and "e_NumberOfFailuresInARow ep0 = 0" and "e_NumberOfSuccessesInARow ep0 = 0"
    and "int (length rs) < 2 ^ 63"
  shows "(al_Triggered (e_Alerts ep ! i), e_NumberOfFailuresInARow ep, e_NumberOfSuccessesInARow ep) =
    alert_state a (outcomes_of rs)"
proof -
  have "alerting_run (\<lambda>env. ae_configured env \<and> reliable env (e_Group ep0) a \<and>
      ae_GetAlertingProvider env (al_Type a) \<noteq> None) ep0 (ep, s, tr, rs)"
    by (rule alerting_run_mono [OF assms(1)]) (use provided_reliable in blast)
  from alerting_run_automaton [OF this assms(2-8)] show ?thesis .
qed

definition slack_send :: alert_provider where
  "slack_send i ep a r resolved =
     (case AlertProvider_Send example_services example_slack ep a r resolved of
        Return (e, k, out) \<Rightarrow> (e, k) | Panic m \<Rightarrow> (Some m, []))"

lemma slack_sends: "provides (\<lambda>i. example_services) example_slack slack_send"
  by (auto simp: provides_def slack_send_def example_slack_def split: prod.split)

theorem provided_alerts_follow_automaton_witness:
  "\<exists>ep s tr. alerting_run (\<lambda>env. env = slack_env\<lparr>ae_GetAlertingProvider := (\<lambda>ty. Some slack_send)\<rparr>) watched_endpoint
      (ep, s, tr, [failed_result, failed_result]) \<and> al_Triggered (e_Alerts ep ! 0)"
proof -
  let ?env = "slack_env\<lparr>ae_GetAlertingProvider := (\<lambda>ty. Some slack_send)\<rparr>"
  let ?ok = "\<lambda>env. ae_configured env \<and> \<not> ae_mock_error env \<and>
      (\<exists>p send envs. ae_GetAlertingProvider env (al_Type slack_alert) = Some send \<and> provides envs p send \<and>
        (\<forall>i :: nat. answering (envs i) \<and> AlertProvider_ValidateOverrides (envs i) p (e_Group watched_endpoint) slack_alert = None))"
  have accepted: "AlertProvider_ValidateOverrides example_services example_slack (e_Group watched_endpoint) slack_alert = None"
    by (simp add: slack_example slack_alert_def split: option.split)
  obtain ep s tr where run: "alerting_run (\<lambda>env. env = ?env) watched_endpoint (ep, s, tr, [failed_result, failed_result])"
    using alerting_run_exists [of "\<lambda>env. env = ?env" ?env watched_endpoint] by blast
  have "alerting_run ?ok watched_endpoint (ep, s, tr, [failed_result, failed_result])"
    by (rule alerting_run_mono [OF run])
      (use slack_sends example_services_answer accepted in \<open>fastforce simp: slack_env_def\<close>)
  from provided_alerts_follow_automaton [OF this, of 0] run show ?thesis
    by (auto simp: outcomes_of_def)
qed

section \<open>Incidents\<close>

text \<open>
  C23. PagerDuty names the incident of an alert in its answer. The alert keeps that name, and whatever happened to it
  in between, its resolution is sent from the same configuration for the same incident, whose name is then forgotten.
\<close>

theorem pagerduty_resolves_incident:
  assumes "answering env" and "answering env'" and "IsSendingOnResolved a" and "\<forall>body. se_dedup_key env body = Inr k"
    and "PagerDuty_GetConfig un p (e_Group ep) a = Inr cfg" and "same_config a a'" and "al_ResolveKey a' = k"
    and "request = (\<lambda>a resolved. Http (json_post ''https://events.pagerduty.com/v2/enqueue'' (PagerDuty_body cfg ep a resolved)))"
  shows "PagerDuty_Send un p env ep a r False = (None, k, [request a False]) \<and>
    PagerDuty_Send un p env' ep a' r' True = (None, [], [request a' True]) \<and>
    (\<exists>fields. PagerDuty_body cfg ep a' True = JObj fields \<and> map_of fields ''dedup_key'' = Some (JStr k) \<and>
      map_of fields ''event_action'' = Some (JStr ''resolve''))"
proof -
  have "Provider_GetConfig (PagerDuty_ops un) p (e_Group ep) a' = Inr cfg"
    "Provider_GetConfig (PagerDuty_ops un) p (e_Group ep) a = Inr cfg"
    using assms(5) GetConfig_same_config [OF assms(6), of "PagerDuty_ops un" p "e_Group ep"]
    by (simp_all add: PagerDuty_GetConfig_def)
  then have "PagerDuty_Send un p env ep a r False = (None, k, [request a False])"
    "PagerDuty_Send un p env' ep a' r' True = (None, [], [request a' True])"
    using assms(3,4) same_config_simps(5) [OF assms(6)]
    by (simp_all add: PagerDuty_Send_def with_config_def Do_answered [OF assms(1)] Do_answered [OF assms(2)] assms(8))
  then show ?thesis by (simp add: PagerDuty_body_def str_field_def assms(7))
qed

theorem pagerduty_resolves_incident_witness:
  "\<exists>un p out. PagerDuty_Send un p (example_services\<lparr>se_dedup_key := (\<lambda>b. Inr ''k1'')\<rparr>) watched_endpoint slack_alert failed_result False =
       (None, ''k1'', out) \<and>
     (\<exists>out'. PagerDuty_Send un p example_services watched_endpoint
       (slack_alert\<lparr>al_ResolveKey := ''k1'', al_Triggered := True\<rparr>) ok_result True = (None, [], out'))"
proof -
  let ?cfg = "pagerduty_unset\<lparr>pagerduty_IntegrationKey := replicate 32 (CHR ''0'')\<rparr>"
  let ?p = "\<lparr>pr_DefaultConfig = ?cfg, pr_DefaultAlert = None, pr_Overrides = []\<rparr>"
  have "answering (example_services\<lparr>se_dedup_key := (\<lambda>b. Inr ''k1'')\<rparr>)"
    using example_services_answer by (simp add: answering_def example_services_def)
  moreover have "PagerDuty_GetConfig un ?p (e_Group watched_endpoint) slack_alert = Inr ?cfg" for un
    by (simp add: PagerDuty_GetConfig_def Provider_GetConfig_def pagerduty_config validated_def slack_alert_def)
  ultimately show ?thesis
    using pagerduty_resolves_incident [OF _ example_services_answer, of
        "example_services\<lparr>se_dedup_key := (\<lambda>b. Inr ''k1'')\<rparr>" slack_alert "''k1''" "\<lambda>m. Inr pagerduty_unset" ?p
        watched_endpoint ?cfg "slack_alert\<lparr>al_ResolveKey := ''k1'', al_Triggered := True\<rparr>", OF _ _ _ _ _ _ refl]
    by (intro exI [of _ "\<lambda>m. Inr pagerduty_unset"] exI [of _ ?p]) auto
qed

text \<open>Closing the issues of a title closes those and no others, in order, when each can be closed.\<close>

lemma close_issues_all:
  assumes "\<forall>n. fg_Close fg c owner name n = None"
  shows "close_issues fg c owner name title issues out =
    (None, out @ map (\<lambda>i. Close_Issue c owner name (fst i)) (filter (\<lambda>i. snd i = title) issues))"
  by (induction issues arbitrary: out) (auto simp: assms)

end
