(* ===== verification/Metrics.thy ===== *)
theory Metrics
  imports Restart Go_Floats
begin

text \<open>
  \<open>metrics/metrics.go\<close>: which vectors of metrics are registered with the Prometheus library, with
  which labels, and the samples that are published for a result. The program asks the library: the calls
  on registerers, whose names are without the namespace, and the samples with their label values. The global variables are a state.
  What a registry of the library makes of the calls is a parameter, with what its documentation says of it.
\<close>

section \<open>The vectors\<close>

definition endpoint_labels :: "string list" where
  "endpoint_labels = [''key'', ''group'', ''name'', ''type'']"

definition suite_labels :: "string list" where
  "suite_labels = [''key'', ''group'', ''name'']"

definition metric_vectors :: "(string \<times> string list) list" where
  "metric_vectors =
     [(''results_total'', endpoint_labels @ [''success'']),
      (''results_duration_seconds'', endpoint_labels),
      (''results_connected_total'', endpoint_labels),
      (''results_code_total'', endpoint_labels @ [''code'']),
      (''results_certificate_expiration_seconds'', endpoint_labels),
      (''results_domain_expiration_seconds'', endpoint_labels),
      (''results_endpoint_success'', endpoint_labels),
      (''suite_results_total'', suite_labels @ [''success'']),
      (''suite_results_duration_seconds'', suite_labels),
      (''suite_results_success'', suite_labels)]"

datatype registry_call = Register string "string list" | Unregister string

text \<open>The variables that are not nil, by name; the flag; and the registerer.\<close>

record 'r metrics_state =
  mt_vectors :: "(string \<times> string list) list"
  mt_metricsInitialized :: bool
  mt_currentRegisterer :: "'r option"

definition no_metrics :: "'r metrics_state" where
  "no_metrics = \<lparr>mt_vectors = [], mt_metricsInitialized = False, mt_currentRegisterer = None\<rparr>"

definition UnregisterPrometheusMetrics ::
  "'r metrics_state \<Rightarrow> ('r \<times> registry_call) list \<times> 'r metrics_state" where
  "UnregisterPrometheusMetrics st =
     (case mt_currentRegisterer st of
        None \<Rightarrow> ([], st)
      | Some reg \<Rightarrow>
          if \<not> mt_metricsInitialized st then ([], st)
          else (map (\<lambda>v. (reg, Unregister (fst v))) (mt_vectors st),
                st\<lparr>mt_metricsInitialized := False, mt_currentRegisterer := None\<rparr>))"

definition InitializePrometheusMetrics ::
  "'r \<Rightarrow> Config \<Rightarrow> 'r option \<Rightarrow> 'r metrics_state \<Rightarrow> ('r \<times> registry_call) list \<times> 'r metrics_state" where
  "InitializePrometheusMetrics DefaultRegisterer cfg reg st =
     (let (calls, st) = (if mt_metricsInitialized st then UnregisterPrometheusMetrics st else ([], st));
          reg = (case reg of None \<Rightarrow> DefaultRegisterer | Some r \<Rightarrow> r);
          extraLabels = GetUniqueExtraMetricLabels cfg;
          vectors = map (\<lambda>(n, labels). (n, labels @ extraLabels)) metric_vectors
      in (calls @ map (\<lambda>(n, labels). (reg, Register n labels)) vectors,
          \<lparr>mt_vectors = vectors, mt_metricsInitialized = True, mt_currentRegisterer = Some reg\<rparr>))"

section \<open>Samples\<close>

datatype sample_op = Inc | Set f64

record metric_sample =
  ms_metric :: string
  ms_values :: "string list"
  ms_op :: sample_op

text \<open>\<open>Duration.Seconds\<close>: the seconds and the fraction are converted apart, and added.\<close>

definition Duration_Seconds :: "duration \<Rightarrow> f64" where
  "Duration_Seconds d =
     (let sec = nat \<bar>d\<bar> div 1000000000;
          (n, k) = (case round_f64 False (nat \<bar>d\<bar> mod 1000000000) 1000000000 of F_Fin _ m e \<Rightarrow> f64_frac m e | _ \<Rightarrow> (0, 1))
      in round_f64 (d < 0) (sec * k + n) k)"

fun EndpointType_text :: "EndpointType \<Rightarrow> string" where
  "EndpointType_text TypeDNS = ''DNS''"
| "EndpointType_text TypeTCP = ''TCP''"
| "EndpointType_text TypeSCTP = ''SCTP''"
| "EndpointType_text TypeUDP = ''UDP''"
| "EndpointType_text TypeICMP = ''ICMP''"
| "EndpointType_text TypeSTARTTLS = ''STARTTLS''"
| "EndpointType_text TypeTLS = ''TLS''"
| "EndpointType_text TypeHTTP = ''HTTP''"
| "EndpointType_text TypeGRPC = ''GRPC''"
| "EndpointType_text TypeWS = ''WEBSOCKET''"
| "EndpointType_text TypeSSH = ''SSH''"
| "EndpointType_text TypeUNKNOWN = ''UNKNOWN''"

definition flag :: "bool \<Rightarrow> f64" where
  "flag b = f64_of_int (if b then 1 else 0)"

definition PublishMetricsForEndpoint :: "Endpoint \<Rightarrow> Result \<Rightarrow> string list \<Rightarrow> metric_sample list" where
  "PublishMetricsForEndpoint ep r extraLabels =
     (let labelValues = map (\<lambda>label. case map_of (e_ExtraLabels ep) label of Some v \<Rightarrow> v | None \<Rightarrow> []) extraLabels;
          values = [Endpoint_Key ep, e_Group ep, e_Name ep, EndpointType_text (Endpoint_Type ep)];
          sample = (\<lambda>n own op. \<lparr>ms_metric = n, ms_values = values @ own @ labelValues, ms_op = op\<rparr>)
      in [sample ''results_total'' [FormatBool (r_Success r)] Inc,
          sample ''results_duration_seconds'' [] (Set (Duration_Seconds (r_Duration r)))] @
         (if r_Connected r then [sample ''results_connected_total'' [] Inc] else []) @
         (if r_DNSRCode r \<noteq> [] then [sample ''results_code_total'' [r_DNSRCode r] Inc] else []) @
         (if r_HTTPStatus r \<noteq> 0 then [sample ''results_code_total'' [Itoa (r_HTTPStatus r)] Inc] else []) @
         (if r_CertificateExpiration r \<noteq> 0
          then [sample ''results_certificate_expiration_seconds'' []
                 (Set (Duration_Seconds (r_CertificateExpiration r)))] else []) @
         (if r_DomainExpiration r \<noteq> 0
          then [sample ''results_domain_expiration_seconds'' [] (Set (Duration_Seconds (r_DomainExpiration r)))] else []) @
         [sample ''results_endpoint_success'' [] (Set (flag (r_Success r)))])"

definition PublishMetricsForSuite ::
  "'r metrics_state \<Rightarrow> Suite \<Rightarrow> Suite_Result \<Rightarrow> string list \<Rightarrow> metric_sample list" where
  "PublishMetricsForSuite st s r extraLabels =
     (if \<not> mt_metricsInitialized st then []
      else
        let labelValues = map (\<lambda>_. []) extraLabels;
            values = [Suite_Key s, s_Group s, s_Name s]
        in [\<lparr>ms_metric = ''suite_results_total'', ms_values = values @ [FormatBool (sr_Success r)] @ labelValues,
             ms_op = Inc\<rparr>,
            \<lparr>ms_metric = ''suite_results_duration_seconds'', ms_values = values @ labelValues,
             ms_op = Set (Duration_Seconds (sr_Duration r))\<rparr>,
            \<lparr>ms_metric = ''suite_results_success'', ms_values = values @ labelValues,
             ms_op = Set (flag (sr_Success r))\<rparr>])"

section \<open>The registries of the library\<close>

text \<open>
  What is documented of a registry. A vector is registered, and the call does not panic, exactly when its labels are valid and
  pairwise different, no vector of its name is registered, and none of its name ever was with other labels: this
  is remembered when a vector is unregistered. The views of a registry are the vectors that are registered, with their
  labels, and for each name the labels it was ever registered with.
\<close>

locale prometheus =
  fixes register :: "'g \<Rightarrow> string \<Rightarrow> string list \<Rightarrow> 'g option"
    and unregister :: "'g \<Rightarrow> string \<Rightarrow> 'g"
    and live :: "'g \<Rightarrow> string \<Rightarrow> string list option"
    and dims :: "'g \<Rightarrow> string \<Rightarrow> string set option"
    and valid_label :: "string \<Rightarrow> bool"
  assumes register_accepts: "register g n ls \<noteq> None \<longleftrightarrow>
      distinct ls \<and> (\<forall>l \<in> set ls. valid_label l) \<and> live g n = None \<and> (\<forall>d. dims g n = Some d \<longrightarrow> d = set ls)"
    and register_effect: "register g n ls = Some g' \<Longrightarrow>
      live g' = (live g)(n \<mapsto> ls) \<and> dims g' = (dims g)(n \<mapsto> set ls)"
    and unregister_effect: "live (unregister g n) = (live g)(n := None) \<and> dims (unregister g n) = dims g"

text \<open>The registries after the calls, made in their order; none when a call panics.\<close>

fun ask :: "('g \<Rightarrow> string \<Rightarrow> string list \<Rightarrow> 'g option) \<Rightarrow> ('g \<Rightarrow> string \<Rightarrow> 'g) \<Rightarrow> 'r \<times> registry_call \<Rightarrow>
    ('r \<Rightarrow> 'g) \<Rightarrow> ('r \<Rightarrow> 'g) option" where
  "ask register unregister (r, Register n ls) G = map_option (\<lambda>g. G(r := g)) (register (G r) n ls)"
| "ask register unregister (r, Unregister n) G = Some (G(r := unregister (G r) n))"

fun replay :: "('g \<Rightarrow> string \<Rightarrow> string list \<Rightarrow> 'g option) \<Rightarrow> ('g \<Rightarrow> string \<Rightarrow> 'g) \<Rightarrow>
    ('r \<times> registry_call) list \<Rightarrow> ('r \<Rightarrow> 'g) \<Rightarrow> ('r \<Rightarrow> 'g) option" where
  "replay register unregister [] G = Some G"
| "replay register unregister (c # calls) G =
     Option.bind (ask register unregister c G) (replay register unregister calls)"

lemma replay_append: "replay f u (xs @ ys) G = Option.bind (replay f u xs G) (replay f u ys)"
proof (induction xs arbitrary: G)
  case (Cons c xs)
  then show ?case by (cases "ask f u c G") simp_all
qed simp

text \<open>
  The calls of a program that initializes and unregisters its metrics, as configurations are loaded, with the
  registerer and the extra labels of each initialization.
\<close>

inductive metrics_run ::
  "'r \<Rightarrow> ('r \<times> string list) list \<Rightarrow> ('r \<times> registry_call) list \<Rightarrow> 'r metrics_state \<Rightarrow> bool" for d where
  metrics_start: "metrics_run d [] [] no_metrics"
| metrics_init: "metrics_run d loads calls st \<Longrightarrow> InitializePrometheusMetrics d cfg reg st = (new, st') \<Longrightarrow>
    metrics_run d (loads @ [(case reg of None \<Rightarrow> d | Some r \<Rightarrow> r, GetUniqueExtraMetricLabels cfg)]) (calls @ new) st'"
| metrics_stop: "metrics_run d loads calls st \<Longrightarrow> UnregisterPrometheusMetrics st = (new, st') \<Longrightarrow>
    metrics_run d loads (calls @ new) st'"

lemma distinct_metric_vectors [simp]: "distinct (map fst metric_vectors)"
  by (simp add: metric_vectors_def)

definition with_extra :: "string list \<Rightarrow> (string \<times> string list) list" where
  "with_extra extra = map (\<lambda>(n, own). (n, own @ extra)) metric_vectors"

lemma with_extra_names [simp]:
  "map fst (with_extra extra) = map fst metric_vectors" "fst ` set (with_extra extra) = fst ` set metric_vectors"
  by (force simp: with_extra_def)+

lemma map_of_with_extra: "map_of (with_extra extra) n = map_option (\<lambda>own. own @ extra) (map_of metric_vectors n)"
  unfolding with_extra_def by (simp add: map_of_map)

text \<open>The labels of the vectors' own, and the extra labels that can be added to them.\<close>

definition own_labels :: "string list" where
  "own_labels = [''key'', ''group'', ''name'', ''type'', ''success'', ''code'']"

definition extra_ok :: "(string \<Rightarrow> bool) \<Rightarrow> string list \<Rightarrow> bool" where
  "extra_ok valid_label extra \<longleftrightarrow>
     distinct extra \<and> (\<forall>l \<in> set extra. valid_label l) \<and> set extra \<inter> set own_labels = {}"

lemma extra_ok_vectors:
  assumes "\<forall>l \<in> set own_labels. valid_label l"
  shows "(\<forall>(n, own) \<in> set metric_vectors. distinct (own @ extra) \<and> (\<forall>l \<in> set (own @ extra). valid_label l)) \<longleftrightarrow>
    extra_ok valid_label extra"
  using assms by (auto simp: metric_vectors_def endpoint_labels_def suite_labels_def own_labels_def extra_ok_def)

lemma same_dims:
  assumes "(n, own) \<in> set metric_vectors" and "set extra \<inter> set own_labels = {}" and "set extra' \<inter> set own_labels = {}"
  shows "set own \<union> set extra = set own \<union> set extra' \<longleftrightarrow> set extra = set extra'"
proof -
  have "set own \<subseteq> set own_labels"
    using assms(1) by (auto simp: metric_vectors_def endpoint_labels_def suite_labels_def own_labels_def)
  then show ?thesis using assms(2,3) by blast
qed

text \<open>What the initializations of a run must be for the library to take every call.\<close>

definition loads_ok :: "(string \<Rightarrow> bool) \<Rightarrow> ('r \<times> string list) list \<Rightarrow> bool" where
  "loads_ok valid_label loads \<longleftrightarrow>
     (\<forall>x \<in> set loads. extra_ok valid_label (snd x)) \<and>
     (\<forall>x \<in> set loads. \<forall>y \<in> set loads. fst x = fst y \<longrightarrow> set (snd x) = set (snd y))"

lemma loads_ok_same:
  assumes "loads_ok v loads"
  shows "(\<forall>x \<in> set loads. fst x = r \<longrightarrow> set (snd x) = E) \<longleftrightarrow> (\<forall>e. map_of loads r = Some e \<longrightarrow> set e = E)"
proof
  assume all: "\<forall>e. map_of loads r = Some e \<longrightarrow> set e = E"
  show "\<forall>x \<in> set loads. fst x = r \<longrightarrow> set (snd x) = E"
  proof (intro ballI impI)
    fix x assume x: "x \<in> set loads" "fst x = r"
    then obtain e where e: "map_of loads r = Some e" by (metis map_of_eq_None_iff option.exhaust imageI)
    then have "(r, e) \<in> set loads" by (rule map_of_SomeD)
    then have "set (snd x) = set e" using assms x unfolding loads_ok_def by fastforce
    then show "set (snd x) = E" using all e by simp
  qed
qed (auto dest!: map_of_SomeD)

lemma loads_ok_snoc:
  "loads_ok v (loads @ [(r, extra)]) \<longleftrightarrow>
   loads_ok v loads \<and> extra_ok v extra \<and> (\<forall>e. map_of loads r = Some e \<longrightarrow> set e = set extra)"
proof -
  have sym: "(\<forall>y \<in> set loads. r = fst y \<longrightarrow> set extra = set (snd y)) \<longleftrightarrow>
      (\<forall>x \<in> set loads. fst x = r \<longrightarrow> set (snd x) = set extra)" by (rule iffI; intro ballI impI; drule (1) bspec; simp)
  have eq: "loads_ok v (loads @ [(r, extra)]) \<longleftrightarrow>
      loads_ok v loads \<and> extra_ok v extra \<and> (\<forall>x \<in> set loads. fst x = r \<longrightarrow> set (snd x) = set extra)"
    by (simp only: loads_ok_def set_append list.set ball_Un ball_simps fst_conv snd_conv ball_conj_distrib sym simp_thms)
      (rule iffI; elim conjE; intro conjI; assumption)
  show ?thesis by (cases "loads_ok v loads") (simp_all only: eq loads_ok_same simp_thms)
qed

text \<open>What the registries hold of the vectors after the initializations, in the state of the variables.\<close>

definition metrics_live :: "'r metrics_state \<Rightarrow> 'r \<Rightarrow> string \<Rightarrow> string list option" where
  "metrics_live st r n =
     (if mt_metricsInitialized st \<and> mt_currentRegisterer st = Some r then map_of (mt_vectors st) n else None)"

definition metrics_tracked :: "('r \<times> string list) list \<Rightarrow> 'r metrics_state \<Rightarrow> bool" where
  "metrics_tracked loads st \<longleftrightarrow>
     (mt_metricsInitialized st \<longleftrightarrow> mt_currentRegisterer st \<noteq> None) \<and>
     (mt_metricsInitialized st \<longrightarrow> loads \<noteq> [] \<and>
       mt_currentRegisterer st = Some (fst (last loads)) \<and> mt_vectors st = with_extra (snd (last loads)))"

context prometheus
begin

definition holds :: "('r \<times> string list) list \<Rightarrow> 'r metrics_state \<Rightarrow> ('r \<Rightarrow> 'g) \<Rightarrow> bool" where
  "holds loads st G \<longleftrightarrow>
     (\<forall>r. \<forall>(n, own) \<in> set metric_vectors. live (G r) n = metrics_live st r n \<and>
        dims (G r) n = map_option (\<lambda>extra. set own \<union> set extra) (map_of loads r))"

lemma replay_unregister:
  "\<exists>G'. replay register unregister (map (\<lambda>v. (r, Unregister (fst v))) vs) G = Some G' \<and>
     (\<forall>r' n. live (G' r') n = (if r' = r \<and> n \<in> fst ` set vs then None else live (G r') n)) \<and>
     (\<forall>r'. dims (G' r') = dims (G r'))"
proof (induction vs arbitrary: G)
  case (Cons v vs)
  let ?G = "G(r := unregister (G r) (fst v))"
  obtain G' where "replay register unregister (map (\<lambda>v. (r, Unregister (fst v))) vs) ?G = Some G'"
    "\<forall>r' n. live (G' r') n = (if r' = r \<and> n \<in> fst ` set vs then None else live (?G r') n)"
    "\<forall>r'. dims (G' r') = dims (?G r')" using Cons.IH [of ?G] by blast
  then show ?case using unregister_effect [of "G r" "fst v"] by (intro exI [of _ G']) (auto split: if_splits)
qed simp

definition takes :: "(string \<Rightarrow> string set option) \<Rightarrow> string \<times> string list \<Rightarrow> bool" where
  "takes d v \<longleftrightarrow> distinct (snd v) \<and> (\<forall>l \<in> set (snd v). valid_label l) \<and> (\<forall>e. d (fst v) = Some e \<longrightarrow> e = set (snd v))"

lemma register_takes: "live g n = None \<Longrightarrow> register g n ls \<noteq> None \<longleftrightarrow> takes (dims g) (n, ls)"
  using register_accepts [of g n ls] by (simp add: takes_def)

definition registrations :: "'r \<Rightarrow> (string \<times> string list) list \<Rightarrow> ('r \<times> registry_call) list" where
  "registrations r vs = map (\<lambda>(n, ls). (r, Register n ls)) vs"

lemma registrations_simps [simp]:
  "registrations r [] = []" "registrations r ((n, ls) # vs) = (r, Register n ls) # registrations r vs"
  by (simp_all add: registrations_def)

text \<open>The registry after vectors that were not registered are.\<close>

definition adds :: "(string \<times> string list) list \<Rightarrow> 'g \<Rightarrow> 'g \<Rightarrow> bool" where
  "adds vs g g' \<longleftrightarrow> (\<forall>n. live g' n = (live g ++ map_of vs) n \<and>
     dims g' n = (dims g ++ (\<lambda>n. map_option set (map_of vs n))) n)"

lemma adds_Cons:
  assumes "register g n ls = Some g1" and "adds vs g1 g2" and "n \<notin> fst ` set vs"
  shows "adds ((n, ls) # vs) g g2"
proof -
  have "map_of vs n = None" using assms(3) by (simp add: map_of_eq_None_iff)
  then show ?thesis
    using register_effect [OF assms(1)] assms(2) by (auto simp: adds_def map_add_def split: option.split)
qed

lemma replay_register:
  assumes "distinct (map fst vs)" and "\<forall>n \<in> fst ` set vs. live (G r) n = None"
  shows "(replay register unregister (registrations r vs) G = None \<and> \<not> (\<forall>v \<in> set vs. takes (dims (G r)) v)) \<or>
    (\<exists>g. replay register unregister (registrations r vs) G = Some (G(r := g)) \<and>
      (\<forall>v \<in> set vs. takes (dims (G r)) v) \<and> adds vs (G r) g)"
  using assms
proof (induction vs arbitrary: G)
  case Nil
  show ?case by (rule disjI2, rule exI [of _ "G r"]) (simp add: adds_def)
next
  case (Cons v vs)
  obtain n ls where v: "v = (n, ls)" by fastforce
  have n: "n \<notin> fst ` set vs" "live (G r) n = None" "distinct (map fst vs)" using Cons.prems by (auto simp: v)
  show ?case
  proof (cases "register (G r) n ls")
    case None
    then have "\<not> takes (dims (G r)) v" using register_takes [OF n(2), of ls] None by (simp add: v)
    then show ?thesis using None by (simp add: v)
  next
    case (Some g)
    define H where "H = G(r := g)"
    have H: "H r = g" "\<And>x. H(r := x) = G(r := x)" by (simp_all add: H_def)
    have free: "\<forall>m \<in> fst ` set vs. live (H r) m = None"
      using Cons.prems(2) register_effect [OF Some] n(1) by (auto simp: v H)
    have same: "takes (dims g) w \<longleftrightarrow> takes (dims (G r)) w" if "w \<in> set vs" for w
      using register_effect [OF Some] n(1) that by (auto simp: takes_def)
    have step: "replay register unregister (registrations r (v # vs)) G =
        replay register unregister (registrations r vs) H" by (simp add: v Some H_def)
    have t: "takes (dims (G r)) v" using register_takes [OF n(2), of ls] Some by (simp add: v)
    note IH = Cons.IH [of H, OF n(3) free, unfolded H]
    from IH
    consider "replay register unregister (registrations r vs) H = None" "\<not> (\<forall>w \<in> set vs. takes (dims g) w)"
      | g' where "replay register unregister (registrations r vs) H = Some (G(r := g'))"
        "\<forall>w \<in> set vs. takes (dims g) w" "adds vs g g'" by (elim disjE exE conjE) (rule that, assumption+)+
    then show ?thesis
    proof cases
      case 1
      then show ?thesis unfolding step using same by auto
    next
      case 2
      have "adds (v # vs) (G r) g'" unfolding v by (rule adds_Cons [OF Some 2(3) n(1)])
      moreover have "\<forall>w \<in> set (v # vs). takes (dims (G r)) w" using 2(2) same t by simp
      ultimately show ?thesis unfolding step using 2(1) by blast
    qed
  qed
qed

lemma takes_with_extra:
  assumes "\<forall>l \<in> set own_labels. valid_label l" and "loads_ok valid_label loads"
    and d: "\<forall>(n, own) \<in> set metric_vectors. d n = map_option (\<lambda>e. set own \<union> set e) (map_of loads r)"
  shows "(\<forall>v \<in> set (with_extra extra). takes d v) \<longleftrightarrow>
    extra_ok valid_label extra \<and> (\<forall>e. map_of loads r = Some e \<longrightarrow> set e = set extra)"
proof -
  have dims: "(\<forall>e'. d n = Some e' \<longrightarrow> e' = set own \<union> set extra) \<longleftrightarrow>
      (\<forall>e. map_of loads r = Some e \<longrightarrow> set e = set extra)"
    if "(n, own) \<in> set metric_vectors" and "extra_ok valid_label extra" for n own
  proof (cases "map_of loads r")
    case (Some e)
    then have "extra_ok valid_label e" using assms(2) by (auto simp: loads_ok_def dest!: map_of_SomeD)
    then have "set own \<union> set e = set own \<union> set extra \<longleftrightarrow> set e = set extra"
      using same_dims [OF that(1)] that(2) by (simp add: extra_ok_def)
    then show ?thesis using d that(1) Some by auto
  qed (use d that(1) in auto)
  have split: "(\<forall>v \<in> set (with_extra extra). takes d v) \<longleftrightarrow>
      (\<forall>(n, own) \<in> set metric_vectors. distinct (own @ extra) \<and> (\<forall>l \<in> set (own @ extra). valid_label l)) \<and>
      (\<forall>(n, own) \<in> set metric_vectors. \<forall>e'. d n = Some e' \<longrightarrow> e' = set own \<union> set extra)"
    by (auto simp: with_extra_def takes_def ball_conj_distrib case_prod_unfold)
  show ?thesis
  proof (cases "extra_ok valid_label extra")
    case True
    have "metric_vectors \<noteq> []" by (simp add: metric_vectors_def)
    then obtain n own where ne: "(n, own) \<in> set metric_vectors" by (metis list.set_intros(1) neq_Nil_conv prod.exhaust)
    have "(\<forall>(n, own) \<in> set metric_vectors. \<forall>e'. d n = Some e' \<longrightarrow> e' = set own \<union> set extra) \<longleftrightarrow>
        (\<forall>x \<in> set metric_vectors. \<forall>e. map_of loads r = Some e \<longrightarrow> set e = set extra)"
      by (rule ball_cong [OF refl]) (clarsimp simp only: prod.case dims [OF _ True] split_paired_all)
    moreover have "\<dots> \<longleftrightarrow> (\<forall>e. map_of loads r = Some e \<longrightarrow> set e = set extra)" using ne by auto
    ultimately show ?thesis unfolding split extra_ok_vectors [OF assms(1)] using True by simp
  qed (use split extra_ok_vectors [OF assms(1)] in blast)
qed

lemma Unregister_holds:
  assumes "metrics_tracked loads st" and "holds loads st G" and "UnregisterPrometheusMetrics st = (calls, st')"
  shows "\<exists>G'. replay register unregister calls G = Some G' \<and> holds loads st' G' \<and> metrics_tracked loads st' \<and>
    \<not> mt_metricsInitialized st'"
proof (cases "mt_metricsInitialized st")
  case True
  then obtain r where r: "mt_currentRegisterer st = Some r" "mt_vectors st = with_extra (snd (last loads))"
    using assms(1) by (auto simp: metrics_tracked_def)
  obtain G' where G': "replay register unregister (map (\<lambda>v. (r, Unregister (fst v))) (mt_vectors st)) G = Some G'"
    "\<And>r' n. live (G' r') n = (if r' = r \<and> n \<in> fst ` set (mt_vectors st) then None else live (G r') n)"
    "\<And>r'. dims (G' r') = dims (G r')" using replay_unregister [of r "mt_vectors st" G] by blast
  have st: "calls = map (\<lambda>v. (r, Unregister (fst v))) (mt_vectors st)"
    "st' = st\<lparr>mt_metricsInitialized := False, mt_currentRegisterer := None\<rparr>"
    using assms(3) True r by (auto simp: UnregisterPrometheusMetrics_def)
  have names: "n \<in> fst ` set (mt_vectors st)" if "(n, own) \<in> set metric_vectors" for n own
    using that by (simp add: r(2) image_eqI [of n fst "(n, own)"])
  have "holds loads st' G'"
    unfolding holds_def
  proof (intro allI ballI, clarify)
    fix r' n own assume n: "(n, own) \<in> set metric_vectors"
    then have "live (G r') n = metrics_live st r' n" "dims (G r') n = map_option (\<lambda>e. set own \<union> set e) (map_of loads r')"
      using assms(2) by (auto simp: holds_def)
    then show "live (G' r') n = metrics_live st' r' n \<and> dims (G' r') n = map_option (\<lambda>e. set own \<union> set e) (map_of loads r')"
      using names [OF n] r(1) by (simp add: G'(2,3) st(2) metrics_live_def)
  qed
  then show ?thesis using G'(1) st by (simp add: metrics_tracked_def)
next
  case False
  then have "calls = []" "st' = st" using assms(3) by (auto simp: UnregisterPrometheusMetrics_def split: option.splits)
  then show ?thesis using assms False by simp
qed

lemma holds_added:
  assumes "holds loads st G" and "adds (with_extra extra) (G r) g" and "\<And>n r'. metrics_live st r' n = None"
    and "\<forall>e. map_of loads r = Some e \<longrightarrow> set e = set extra"
    and st': "st' = \<lparr>mt_vectors = with_extra extra, mt_metricsInitialized = True, mt_currentRegisterer = Some r\<rparr>"
  shows "holds (loads @ [(r, extra)]) st' (G(r := g))"
  unfolding holds_def
proof (intro allI ballI, clarify)
  fix r' n own assume n: "(n, own) \<in> set metric_vectors"
  then have own: "map_of metric_vectors n = Some own" by simp
  have old: "live (G r') n = None" "dims (G r') n = map_option (\<lambda>e. set own \<union> set e) (map_of loads r')"
    using assms(1,3) n by (auto simp: holds_def)
  show "live ((G(r := g)) r') n = metrics_live st' r' n \<and>
      dims ((G(r := g)) r') n = map_option (\<lambda>e. set own \<union> set e) (map_of (loads @ [(r, extra)]) r')"
  proof (cases "r' = r")
    case True
    have "live g n = Some (own @ extra)" "dims g n = Some (set own \<union> set extra)"
      using assms(2) by (simp_all add: adds_def map_add_def map_of_with_extra own)
    then show ?thesis using True assms(4) own
      by (cases "map_of loads r") (simp_all add: st' metrics_live_def map_of_with_extra map_add_def)
  next
    case False
    then show ?thesis using old by (simp add: st' metrics_live_def map_add_def split: option.split)
  qed
qed

lemma Initialize_holds:
  assumes "\<forall>l \<in> set own_labels. valid_label l" and "loads_ok valid_label loads"
    and "metrics_tracked loads st" and "holds loads st G" and "InitializePrometheusMetrics d cfg reg st = (calls, st')"
    and new: "r = (case reg of None \<Rightarrow> d | Some r \<Rightarrow> r)" "extra = GetUniqueExtraMetricLabels cfg"
  shows "(replay register unregister calls G = None \<and> \<not> loads_ok valid_label (loads @ [(r, extra)])) \<or>
    (\<exists>G'. replay register unregister calls G = Some G' \<and> loads_ok valid_label (loads @ [(r, extra)]) \<and>
      holds (loads @ [(r, extra)]) st' G')"
proof -
  obtain calls0 st0 where u: "(if mt_metricsInitialized st then UnregisterPrometheusMetrics st else ([], st)) = (calls0, st0)"
    by fastforce
  have c: "calls = calls0 @ registrations r (with_extra extra)"
    and st': "st' = \<lparr>mt_vectors = with_extra extra, mt_metricsInitialized = True, mt_currentRegisterer = Some r\<rparr>"
    using assms(5) u by (simp_all add: InitializePrometheusMetrics_def Let_def registrations_def with_extra_def new)
  obtain G0 where G0: "replay register unregister calls0 G = Some G0" "holds loads st0 G0" "\<not> mt_metricsInitialized st0"
  proof (cases "mt_metricsInitialized st")
    case True
    then show ?thesis using u Unregister_holds [OF assms(3,4), of calls0 st0] that by auto
  next
    case False
    then show ?thesis using u assms(4) that by auto
  qed
  have none: "metrics_live st0 r' n = None" for r' n using G0(3) by (simp add: metrics_live_def)
  have "live (G0 r) n = None" if "(n, own) \<in> set metric_vectors" for n own
    using G0(2) none that unfolding holds_def by fastforce
  then have free: "\<forall>n \<in> fst ` set (with_extra extra). live (G0 r) n = None" by auto
  have dims: "\<forall>(n, own) \<in> set metric_vectors. dims (G0 r) n = map_option (\<lambda>e. set own \<union> set e) (map_of loads r)"
    using G0(2) by (auto simp: holds_def)
  have dist: "distinct (map fst (with_extra extra))" by simp
  have t: "(\<forall>v \<in> set (with_extra extra). takes (dims (G0 r)) v) \<longleftrightarrow> loads_ok valid_label (loads @ [(r, extra)])"
    unfolding loads_ok_snoc takes_with_extra [OF assms(1,2) dims] using assms(2) by blast
  from replay_register [of "with_extra extra" G0 r, OF dist free] show ?thesis
  proof (elim disjE exE conjE)
    assume "replay register unregister (registrations r (with_extra extra)) G0 = None"
      and "\<not> (\<forall>v \<in> set (with_extra extra). takes (dims (G0 r)) v)"
    then show ?thesis by (simp add: c replay_append G0(1) t)
  next
    fix g assume g: "replay register unregister (registrations r (with_extra extra)) G0 = Some (G0(r := g))"
      "\<forall>v \<in> set (with_extra extra). takes (dims (G0 r)) v" "adds (with_extra extra) (G0 r) g"
    have ok: "loads_ok valid_label (loads @ [(r, extra)])" using g(2) t by blast
    then have "\<forall>e. map_of loads r = Some e \<longrightarrow> set e = set extra" unfolding loads_ok_snoc by blast
    from holds_added [OF G0(2) g(3) none this st'] ok g(1) show ?thesis by (simp only: c replay_append G0(1)) simp
  qed
qed

end

lemma Unregister_tracked:
  "metrics_tracked loads st \<Longrightarrow> UnregisterPrometheusMetrics st = (calls, st') \<Longrightarrow> metrics_tracked loads st'"
  by (auto simp: metrics_tracked_def UnregisterPrometheusMetrics_def split: option.splits if_splits)

lemma Initialize_state:
  assumes "InitializePrometheusMetrics d cfg reg st = (calls, st')"
  shows "st' = \<lparr>mt_vectors = with_extra (GetUniqueExtraMetricLabels cfg), mt_metricsInitialized = True,
    mt_currentRegisterer = Some (case reg of None \<Rightarrow> d | Some r \<Rightarrow> r)\<rparr>"
  using assms by (auto simp: InitializePrometheusMetrics_def Let_def with_extra_def split: prod.splits)

lemma metrics_run_tracked: "metrics_run d loads calls st \<Longrightarrow> metrics_tracked loads st"
proof (induction rule: metrics_run.induct)
  case metrics_start
  then show ?case by (simp add: metrics_tracked_def no_metrics_def)
next
  case (metrics_init loads calls st cfg reg new st')
  then show ?case using Initialize_state [of d cfg reg st new st'] by (simp add: metrics_tracked_def)
next
  case (metrics_stop loads calls st new st')
  then show ?case using Unregister_tracked by blast
qed

lemma distinct_new_labels: "distinct ls \<Longrightarrow> distinct (foldl (\<lambda>labels label. if label \<in> set labels then labels else labels @ [label]) ls xs)"
  by (induction xs arbitrary: ls) auto

lemma distinct_extra [simp]: "distinct (GetUniqueExtraMetricLabels cfg)"
  using distinct_new_labels [of "[]"] by (simp add: GetUniqueExtraMetricLabels_def)

text \<open>The labels of each configuration are different by themselves.\<close>

lemma loads_distinct:
  assumes "metrics_run d loads calls st"
  shows "loads_ok valid_label loads \<longleftrightarrow>
    (\<forall>(r, extra) \<in> set loads. (\<forall>l \<in> set extra. valid_label l) \<and> set extra \<inter> set own_labels = {}) \<and>
    (\<forall>(r, extra) \<in> set loads. \<forall>(r', extra') \<in> set loads. r = r' \<longrightarrow> set extra = set extra')"
proof -
  have "\<forall>x \<in> set loads. distinct (snd x)" using assms by (induction rule: metrics_run.induct) auto
  then show ?thesis unfolding loads_ok_def extra_ok_def case_prod_unfold by blast
qed

context prometheus
begin

lemma run_holds:
  assumes "metrics_run d loads calls st" and "\<forall>l \<in> set own_labels. valid_label l"
    and "\<forall>r. \<forall>n \<in> fst ` set metric_vectors. live (G r) n = None \<and> dims (G r) n = None"
  shows "(replay register unregister calls G = None \<and> \<not> loads_ok valid_label loads) \<or>
    (\<exists>G'. replay register unregister calls G = Some G' \<and> loads_ok valid_label loads \<and> holds loads st G')"
  using assms(1)
proof (induction rule: metrics_run.induct)
  case metrics_start
  then show ?case using assms(3) by (force simp: holds_def loads_ok_def metrics_live_def no_metrics_def)
next
  case (metrics_init loads calls st cfg reg new st')
  from metrics_init.IH show ?case
  proof (elim disjE exE conjE)
    assume "replay register unregister calls G = None" and "\<not> loads_ok valid_label loads"
    then show ?thesis by (simp add: replay_append loads_ok_snoc)
  next
    fix G1 assume G1: "replay register unregister calls G = Some G1" "loads_ok valid_label loads" "holds loads st G1"
    from Initialize_holds [OF assms(2) G1(2) metrics_run_tracked [OF metrics_init.hyps(1)] G1(3) metrics_init.hyps(2) refl refl]
    show ?thesis by (simp add: replay_append G1(1))
  qed
next
  case (metrics_stop loads calls st new st')
  from metrics_stop.IH show ?case
  proof (elim disjE exE conjE)
    assume "replay register unregister calls G = None" and "\<not> loads_ok valid_label loads"
    then show ?thesis by (simp add: replay_append)
  next
    fix G1 assume G1: "replay register unregister calls G = Some G1" "loads_ok valid_label loads" "holds loads st G1"
    from Unregister_holds [OF metrics_run_tracked [OF metrics_stop.hyps(1)] G1(3) metrics_stop.hyps(2)] G1(2)
    show ?thesis by (auto simp: replay_append G1(1))
  qed
qed

end

text \<open>A registry as two maps: the vectors that are registered, and the labels the names were ever registered with.\<close>

record registry =
  rg_live :: "string \<Rightarrow> string list option"
  rg_dims :: "string \<Rightarrow> string set option"

definition no_vectors :: registry where
  "no_vectors = \<lparr>rg_live = (\<lambda>n. None), rg_dims = (\<lambda>n. None)\<rparr>"

definition map_register :: "registry \<Rightarrow> string \<Rightarrow> string list \<Rightarrow> registry option" where
  "map_register g n ls =
     (if distinct ls \<and> [] \<notin> set ls \<and> rg_live g n = None \<and> (rg_dims g n = None \<or> rg_dims g n = Some (set ls))
      then Some \<lparr>rg_live = (rg_live g)(n \<mapsto> ls), rg_dims = (rg_dims g)(n \<mapsto> set ls)\<rparr> else None)"

definition map_unregister :: "registry \<Rightarrow> string \<Rightarrow> registry" where
  "map_unregister g n = g\<lparr>rg_live := (rg_live g)(n := None)\<rparr>"

interpretation map_registry: prometheus map_register map_unregister rg_live rg_dims "\<lambda>l. l \<noteq> []"
proof unfold_locales
  fix g n ls
  show "map_register g n ls \<noteq> None \<longleftrightarrow>
      distinct ls \<and> (\<forall>l \<in> set ls. l \<noteq> []) \<and> rg_live g n = None \<and> (\<forall>d. rg_dims g n = Some d \<longrightarrow> d = set ls)"
    by (cases "rg_dims g n") (auto simp: map_register_def)
qed (auto simp: map_register_def map_unregister_def split: if_splits)

section \<open>Samples of the vectors\<close>

text \<open>
  What a label of a vector of endpoints, or of suites, stands for; and a sample of a vector: the value of each label
  of its own in their order, and the values \<open>lv\<close> of the extra labels.
\<close>

fun endpoint_label :: "Endpoint \<Rightarrow> Result \<Rightarrow> string \<Rightarrow> string \<Rightarrow> bool" where
  "endpoint_label ep r l v \<longleftrightarrow>
     (l = ''key'' \<and> v = Endpoint_Key ep) \<or> (l = ''group'' \<and> v = e_Group ep) \<or> (l = ''name'' \<and> v = e_Name ep) \<or>
     (l = ''type'' \<and> v = EndpointType_text (Endpoint_Type ep)) \<or> (l = ''success'' \<and> v = FormatBool (r_Success r)) \<or>
     (l = ''code'' \<and> (r_DNSRCode r \<noteq> [] \<and> v = r_DNSRCode r \<or> r_HTTPStatus r \<noteq> 0 \<and> v = Itoa (r_HTTPStatus r)))"

fun suite_label :: "Suite \<Rightarrow> Suite_Result \<Rightarrow> string \<Rightarrow> string \<Rightarrow> bool" where
  "suite_label s sr l v \<longleftrightarrow>
     (l = ''key'' \<and> v = Suite_Key s) \<or> (l = ''group'' \<and> v = s_Group s) \<or> (l = ''name'' \<and> v = s_Name s) \<or>
     (l = ''success'' \<and> v = FormatBool (sr_Success sr))"

definition sample_fits ::
  "(string \<times> string list) list \<Rightarrow> string list \<Rightarrow> (string \<Rightarrow> string \<Rightarrow> bool) \<Rightarrow> string list \<Rightarrow> metric_sample \<Rightarrow> bool" where
  "sample_fits vectors extraLabels stands_for lv x \<longleftrightarrow>
     (\<exists>own values. map_of vectors (ms_metric x) = Some (own @ extraLabels) \<and> ms_values x = values @ lv \<and>
       list_all2 stands_for own values \<and> length lv = length extraLabels)"

lemma sample_fitsI:
  assumes "vectors = with_extra extraLabels"
    and "map_of metric_vectors (ms_metric x) = Some own"
    and "ms_values x = take (length own) (ms_values x) @ lv"
    and "list_all2 stands_for own (take (length own) (ms_values x))"
    and "length lv = length extraLabels"
  shows "sample_fits vectors extraLabels stands_for lv x"
  unfolding sample_fits_def using assms(2-5)
  by (intro exI [of _ own] exI [of _ "take (length own) (ms_values x)"]) (simp add: assms(1) map_of_with_extra)

lemma Endpoint_samples_fit:
  assumes "vectors = with_extra extraLabels"
    and "x \<in> set (PublishMetricsForEndpoint ep r extraLabels)"
  shows "sample_fits vectors extraLabels (endpoint_label ep r)
    (map (\<lambda>label. case map_of (e_ExtraLabels ep) label of Some v \<Rightarrow> v | None \<Rightarrow> []) extraLabels) x"
  using assms(2)
  by (auto simp: PublishMetricsForEndpoint_def Let_def metric_vectors_def endpoint_labels_def
      split: if_splits intro!: sample_fitsI [OF assms(1)])

lemma Suite_samples_fit:
  assumes "vectors = with_extra extraLabels"
    and "x \<in> set (PublishMetricsForSuite st s r extraLabels)"
  shows "sample_fits vectors extraLabels (suite_label s r) (map (\<lambda>_. []) extraLabels) x"
  using assms(2)
  by (auto simp: PublishMetricsForSuite_def Let_def metric_vectors_def suite_labels_def
      split: if_splits intro!: sample_fitsI [OF assms(1)])

section \<open>Properties\<close>

text \<open>
  C25. Whatever the registries of the library are, as long as they do what is documented, and whatever configurations
  are loaded one after the other: the library takes every registration, and does not panic, exactly when the extra labels of each
  configuration are valid and none of them is a label of the vectors' own, and when the configurations that are registered with the
  same registerer have the same extra labels. In particular the program never registers a vector twice. Then, while the metrics are initialized,
  exactly the ten vectors are registered, with the extra labels of the last configuration, and otherwise none is.
\<close>

theorem metrics_registered_once:
  assumes "prometheus register unregister live dims valid_label" and "\<forall>l \<in> set own_labels. valid_label l"
    and "\<forall>r. \<forall>n \<in> fst ` set metric_vectors. live (G r) n = None \<and> dims (G r) n = None"
    and "metrics_run DefaultRegisterer loads calls st"
  shows "(replay register unregister calls G \<noteq> None \<longleftrightarrow>
      (\<forall>(r, extra) \<in> set loads. (\<forall>l \<in> set extra. valid_label l) \<and> set extra \<inter> set own_labels = {}) \<and>
      (\<forall>(r, extra) \<in> set loads. \<forall>(r', extra') \<in> set loads. r = r' \<longrightarrow> set extra = set extra')) \<and>
    (\<forall>G'. replay register unregister calls G = Some G' \<longrightarrow>
      (\<forall>r. \<forall>(n, own) \<in> set metric_vectors. live (G' r) n =
        (if mt_metricsInitialized st \<and> r = fst (last loads) then Some (own @ snd (last loads)) else None)))"
proof -
  note tracked = metrics_run_tracked [OF assms(4)]
  have holds: "live (G' r) n = (if mt_metricsInitialized st \<and> r = fst (last loads) then Some (own @ snd (last loads)) else None)"
    if "prometheus.holds live dims loads st G'" and n: "(n, own) \<in> set metric_vectors" for G' r n own
  proof -
    have "live (G' r) n = metrics_live st r n"
      using that unfolding prometheus.holds_def [OF assms(1)] by fastforce
    moreover have "map_of metric_vectors n = Some own" using n by simp
    ultimately show ?thesis using tracked by (auto simp: metrics_tracked_def metrics_live_def map_of_with_extra)
  qed
  show ?thesis
    using prometheus.run_holds [OF assms(1,4,2,3)] loads_distinct [OF assms(4), of valid_label] holds by fastforce
qed

text \<open>
  A configuration is loaded, and loaded again with an extra label: the library takes the first and refuses the second,
  unless it is registered with another registerer.
\<close>

definition labelled_config :: Config where
  "labelled_config = watched_config\<lparr>c_Endpoints := [watched_endpoint\<lparr>e_ExtraLabels := [(''env'', ''prod'')]\<rparr>]\<rparr>"

lemma example_labels:
  "GetUniqueExtraMetricLabels watched_config = []" "GetUniqueExtraMetricLabels labelled_config = [''env'']"
  by code_simp+

theorem metrics_registered_once_witness:
  "(\<exists>calls st. metrics_run (0::nat) [(0, []), (0, [''env''])] calls st \<and>
      replay map_register map_unregister calls (\<lambda>r. no_vectors) = None) \<and>
   (\<exists>calls st G. metrics_run (0::nat) [(0, []), (1, [''env''])] calls st \<and>
      replay map_register map_unregister calls (\<lambda>r. no_vectors) = Some G \<and> rg_live (G 0) ''results_total'' = None \<and>
      rg_live (G 1) ''suite_results_success'' = Some [''key'', ''group'', ''name'', ''env''])"
proof -
  obtain c1 s1 where 1: "InitializePrometheusMetrics (0::nat) watched_config None no_metrics = (c1, s1)" by fastforce
  obtain c2 s2 where 2: "InitializePrometheusMetrics (0::nat) labelled_config None s1 = (c2, s2)" by fastforce
  obtain c3 s3 where 3: "InitializePrometheusMetrics (0::nat) labelled_config (Some 1) s1 = (c3, s3)" by fastforce
  note start = metrics_run.metrics_init [OF metrics_run.metrics_start 1]
  have run2: "metrics_run 0 [(0, []), (0, [''env''])] (c1 @ c2) s2"
    using metrics_run.metrics_init [OF start 2] by (simp add: example_labels)
  have run3: "metrics_run 0 [(0, []), (1, [''env''])] (c1 @ c3) s3"
    using metrics_run.metrics_init [OF start 3] by (simp add: example_labels)
  have own: "\<forall>l \<in> set own_labels. l \<noteq> []" by (simp add: own_labels_def)
  have empty: "\<forall>r. \<forall>n \<in> fst ` set metric_vectors. rg_live ((\<lambda>r. no_vectors) (r :: nat)) n = None \<and>
      rg_dims ((\<lambda>r. no_vectors) r) n = None" by (simp add: no_vectors_def)
  note taken = metrics_registered_once [OF map_registry.prometheus_axioms own empty]
  have "replay map_register map_unregister (c1 @ c2) (\<lambda>r. no_vectors) = None"
    using taken [OF run2] by fastforce
  moreover have "replay map_register map_unregister (c1 @ c3) (\<lambda>r. no_vectors) \<noteq> None"
    using taken [OF run3] by (auto simp: own_labels_def)
  then obtain G where G: "replay map_register map_unregister (c1 @ c3) (\<lambda>r. no_vectors) = Some G" by blast
  have init: "mt_metricsInitialized s3" using Initialize_state [OF 3] by simp
  note found = conjunct2 [OF taken [OF run3], rule_format, OF G]
  have "(''results_total'', endpoint_labels @ [''success'']) \<in> set metric_vectors"
    "(''suite_results_success'', suite_labels) \<in> set metric_vectors" by (simp_all add: metric_vectors_def)
  from found [OF this(1), of 0] found [OF this(2), of 1] init
  have "rg_live (G 0) ''results_total'' = None"
    "rg_live (G 1) ''suite_results_success'' = Some [''key'', ''group'', ''name'', ''env'']"
    by (simp_all add: suite_labels_def)
  ultimately show ?thesis using run2 run3 G by blast
qed

text \<open>
  C24. Every sample of an endpoint or a suite is of a vector that is registered, and gives one value for each of
  its labels, each what the label stands for, in the order of the labels; the value of an extra label is that of the endpoint,
  and empty when it has none. So
  the library, which panics when the number of values is not that of the labels, takes every sample.
\<close>

theorem published_samples_fit:
  assumes "InitializePrometheusMetrics DefaultRegisterer cfg reg st0 = (calls, st)"
    and "extraLabels = GetUniqueExtraMetricLabels cfg"
  shows "(\<forall>x \<in> set (PublishMetricsForEndpoint ep r extraLabels).
      sample_fits (mt_vectors st) extraLabels (endpoint_label ep r)
        (map (\<lambda>label. case map_of (e_ExtraLabels ep) label of Some v \<Rightarrow> v | None \<Rightarrow> []) extraLabels) x) \<and>
    (\<forall>x \<in> set (PublishMetricsForSuite st s sr extraLabels).
      sample_fits (mt_vectors st) extraLabels (suite_label s sr) (map (\<lambda>_. []) extraLabels) x) \<and>
    PublishMetricsForSuite st s sr extraLabels \<noteq> []"
proof -
  have init: "mt_vectors st = with_extra extraLabels" "mt_metricsInitialized st"
    using Initialize_state [OF assms(1)] assms(2) by simp_all
  have "PublishMetricsForSuite st s sr extraLabels \<noteq> []" by (simp add: PublishMetricsForSuite_def init(2) Let_def)
  then show ?thesis using Endpoint_samples_fit [OF init(1)] Suite_samples_fit [OF init(1)] by blast
qed

theorem published_samples_fit_witness:
  "\<exists>calls st. InitializePrometheusMetrics True watched_config None no_metrics = (calls, st) \<and>
     (\<forall>x \<in> set (PublishMetricsForEndpoint watched_endpoint failed_result []).
       sample_fits (mt_vectors st) [] (endpoint_label watched_endpoint failed_result) [] x)"
proof -
  obtain c s where 1: "InitializePrometheusMetrics True watched_config None no_metrics = (c, s)" by fastforce
  have "[] = GetUniqueExtraMetricLabels watched_config" by code_simp
  from published_samples_fit [OF 1 this, of watched_endpoint failed_result] 1 show ?thesis by auto
qed

end
