(* ===== verification/Spec2Isabelle.thy ===== *)
theory Spec2Isabelle
  imports Memory_Properties Watchdog_Alerting Config_Properties Monitor Api_Properties Providers_Properties Metrics
begin

text \<open>
  A model of Gatus, a health dashboard. It probes endpoints, evaluates conditions on what they answer, stores
  the results, sends alerts and shows the statuses in an API. The files named here are below \<open>src/\<close>.

  \<^bold>\<open>The program.\<close> \<open>main.go\<close> loads a configuration (\<open>config/\<close>), opens a storage (\<open>storage/\<close>), takes over the
  alerts that were triggered in the last run, starts one goroutine per endpoint, external endpoint and suite
  (\<open>watchdog/\<close>), serves the API (\<open>api/\<close>) and registers metrics (\<open>metrics/\<close>). An execution evaluates an endpoint
  (\<open>config/endpoint/\<close>), or the endpoints of a suite with a shared context (\<open>config/suite/\<close>), inserts the result into
  the storage and hands it to the alerting, which calls a provider (\<open>alerting/\<close>) when an alert is triggered,
  is due for a reminder or is resolved. When the file of the configuration changes, everything is stopped and started again.

  \<^bold>\<open>Conventions.\<close> A struct is a record whose fields carry their names after a prefix for the record; an enumeration is
  a datatype; a pointer that may be nil is an option. A string is a list of bytes, and case conversion is that of
  ASCII. A Go \<open>int\<close> is an integer in 64 bits, wrapped by \<open>wrap64\<close> where it is counted up; a duration is a
  number of nanoseconds. An operation that changes its receiver returns it. An error is a value; a panic is the
  constructor \<open>Panic\<close> of \<open>outcome\<close>. Locks are left out where an operation is atomic, and the interleaving of executions is
  a sequence of steps.

  \<^bold>\<open>Foundations.\<close> \<open>Gatus_Prelude\<close> (the collections of rewrite rules, machine integers, \<open>strings\<close>), \<open>Go_Numbers\<close> and \<open>Go_Floats\<close>
  (\<open>strconv\<close>, 64-bit floats), \<open>Go_Time\<close>, \<open>Go_Values\<close> (dynamically typed values), \<open>Go_Url\<close> and \<open>Go_Json\<close> (escaping and
  marshalling, with their round trips).

  \<^bold>\<open>Evaluation.\<close>
  \<^item> \<open>Key\<close>: \<open>config/key/key.go\<close>. \<open>Pattern\<close>: \<open>pattern/pattern.go\<close>. \<open>JsonPath\<close>: \<open>jsonpath/jsonpath.go\<close>. \<open>Gontext\<close>:
    \<open>config/gontext/gontext.go\<close>, with the locale \<open>path_store\<close> of what a read by path gives after a write.
  \<^item> \<open>Endpoint_Result\<close>, \<open>Placeholder\<close>, \<open>Condition\<close>: the files of the same names in \<open>config/endpoint/\<close>. The lemmas show how each
    operator and each function compares.
  \<^item> \<open>Maintenance\<close>: \<open>config/maintenance/\<close>. \<open>Tunneling\<close>: \<open>config/tunneling/\<close>. \<open>Client_Config\<close>: \<open>client/config.go\<close>.
  \<^item> \<open>Endpoint\<close> (fields, keys and validation) and \<open>Endpoint_Health\<close> (the evaluation, over the record \<open>probe\<close> of what the
    network answers): \<open>config/endpoint/endpoint.go\<close>, \<open>external_endpoint.go\<close> and the parts \<open>dns\<close>, \<open>ssh\<close>, \<open>ui\<close>, \<open>heartbeat\<close>. The
    lemmas show what passes the validation, when a result is a success, and what hiding a URL hides.
  \<^item> \<open>Suite\<close>: \<open>config/suite/\<close>, its validation and execution.

  \<^bold>\<open>Storage.\<close>
  \<^item> \<open>Memory_Store\<close>: \<open>storage/store/memory/\<close> and \<open>common/\<close>. The locale \<open>kv_cache\<close> is what it relies on in its cache,
    \<open>result_store\<close> what a storage of results promises. \<open>Memory_Properties\<close>: results, pages, events, uptime.
  \<^item> \<open>Storage\<close>: \<open>storage/config.go\<close> and the operations that others call, with the locale \<open>alert_persistence\<close>.
  \<^item> \<open>Sql_Store\<close>: \<open>storage/store/sql/\<close>; a table is the list of its rows. \<open>Sql_Tables\<close> has the invariant of the tables, kept by
    every operation; \<open>Sql_Properties\<close> shows that it is a \<open>result_store\<close> too; \<open>Sql_Cache\<close> and \<open>Sql_Alerts\<close> that the
    write-through cache is current and that triggered alerts are found again; \<open>Sql_Runs\<close> composes them over runs.
  \<^item> \<open>Store_Selection\<close>: \<open>storage/store/store.go\<close>.

  \<^bold>\<open>Alerting.\<close>
  \<^item> \<open>Alert\<close>: \<open>alerting/alert/alert.go\<close>. \<open>Alerting_Config\<close>: \<open>alerting/config.go\<close>, \<open>alert/type.go\<close> and the interface of providers.
  \<^item> \<open>Watchdog_Alerting\<close>: \<open>watchdog/alerting.go\<close>. A pass over the alerts is the locale \<open>alert_pass\<close>, with triggering and resolving as
    its interpretations; a run of results is the inductive relation \<open>alerting_run\<close>, refined to an automaton over the outcomes.
  \<^item> \<open>Providers_Base\<close>: what the files of \<open>alerting/provider/\<close> repeat, the configuration with its overrides and the
    sending of a request; the locale \<open>overridable\<close> states the laws of validating and merging configurations, and every
    provider but two interprets it. \<open>Providers_Chat\<close>, \<open>Providers_Text\<close>, \<open>Providers_Pager\<close>, \<open>Providers_Hook\<close>, \<open>Providers_Mail\<close> and
    \<open>Providers_Forge\<close> hold the 41 providers: configuration, validation, overrides, the message and the sending.
    \<open>Providers_Kinds\<close> is the interface over all of them (\<open>alerting/provider/provider.go\<close>); \<open>Providers\<close> and \<open>Providers_Properties\<close>
    show what the alerting relies on for every kind, and compose it with the watchdog.

  \<^bold>\<open>Configuration and process.\<close>
  \<^item> \<open>Security\<close>: \<open>security/\<close>, with the locale \<open>session_cache\<close>. \<open>Config_Parts\<close>: \<open>config/web/\<close>, \<open>ui/\<close>, \<open>announcement/\<close>, \<open>connectivity/\<close>, \<open>remote/\<close>.
    \<open>Config\<close> and \<open>Config_Properties\<close>: \<open>config/config.go\<close>, where the configuration is read from and its validation.
  \<^item> \<open>Watchdog\<close>: one execution of \<open>watchdog/endpoint.go\<close>, \<open>external_endpoint.go\<close>, \<open>suite.go\<close>, and interleavings of executions.
    \<open>Monitor\<close>: the goroutines and the semaphore of \<open>watchdog/watchdog.go\<close> as a step relation.
  \<^item> \<open>Lifecycle\<close> and \<open>Restart\<close>: \<open>main.go\<close>, with the locale \<open>persistent_store\<close> of what a start after a run relies on.
  \<^item> \<open>Metrics\<close>: \<open>metrics/metrics.go\<close>, the vectors that it asks the library to register and the samples it publishes; what is documented of
    a registry of the library is the locale \<open>prometheus\<close>.
  \<^item> \<open>Api_Base\<close>, \<open>Api_Badges\<close>, \<open>Api_External\<close>, \<open>Api_Status\<close>, \<open>Api_Routes\<close>, \<open>Api_Properties\<close>: the handlers of \<open>api/\<close>, and what a request
    runs through. The locale \<open>served_store\<close> is the storage that the handlers read, \<open>ttl_cache\<close> the cache of responses.

  \<^bold>\<open>Parameters.\<close> Code that is not in the repository is an argument: YAML and JSON decoding, regular expressions and time zones,
  the SSH, OpenID Connect, bcrypt, mail, AWS and forge clients, caches, the web framework, the file system, clocks and
  random numbers. What is relied on of them are the assumptions of a locale or the hypotheses of a theorem, and
  a witness instantiates them.

  \<^bold>\<open>Atomicity.\<close> A request and an execution are steps of their own: nothing happens in between their reads and writes. A handler has one
  reading of the clock, where the code may read it again a moment later (the list of statuses reads it before the storage
  is asked and when the answer is put in the cache); an execution has one for each use, the fields of \<open>watch_env\<close>. \<open>Monitor\<close> is the
  monitoring of one configuration, from its start to its shutdown: a reload starts another with a context and a semaphore of its own.

  \<^bold>\<open>Bounds and fuel.\<close> Every function is total. \<open>shortest_digits\<close> looks for at most 17 digits, which determine every 64-bit float, and
  \<open>dec_exp_small\<close> shifts by at most 400 decimals, more than the 324 of the smallest float. Counters of alerts are shown
  not to wrap for fewer than \<open>2 ^ 63\<close> results, those of uptimes for fewer than \<open>2 ^ 64\<close>.

  \<^bold>\<open>Not modelled.\<close> \<open>client/client.go\<close> and \<open>client/grpc.go\<close> (the calls of the network libraries: what they answer is the record
  \<open>probe\<close>) and the making of an HTTP client in \<open>client/config.go\<close>; the start of the HTTP server in \<open>controller/\<close>; embedded files and test
  doubles; logging. A database that fails in the middle of an operation, the migration of older schemas and the
  schema of Postgres are left out of the storage. The client that a provider makes of its configuration is part
  of the request it sends, and the answers to requests are a parameter.
\<close>

end
